(* ===== verification/Model_Prelude.thy ===== *)
theory Model_Prelude
  imports "HOL-Library.Word"
begin

text \<open>
  Shared vocabulary of the development: the machine integer types of the C++ code, the value a
  C++ call ends with (a result, a thrown exception or undefined behaviour), sequencing of such
  calls, and the generic lemmas on lists and words that the component theories share.
\<close>

unbundle bit_operations_syntax

section \<open>Machine integers\<close>

text \<open>
  \<open>i64\<close> is \<^verbatim>\<open>std::int64_t\<close>: the same 64 bits as \<open>u64\<close>, compared through \<open>sint\<close>.  The C++20
  casts between the two keep the bits, so they are the identity here.
\<close>

type_synonym u8 = "8 word"
type_synonym u16 = "16 word"
type_synonym u32 = "32 word"
type_synonym u64 = "64 word"
type_synonym i64 = "64 word"

section \<open>How a call ends\<close>

text \<open>
  \<open>Assert_Failed\<close> is the \<^verbatim>\<open>std::logic_error\<close> of \<^verbatim>\<open>LINX_MODEL_ASSERT\<close> (\<^verbatim>\<open>detail::AssertFail\<close>),
  \<open>Runtime_Error\<close> a \<^verbatim>\<open>std::runtime_error\<close> with its message, \<open>Undefined_Behaviour\<close> an access the
  C++ standard leaves undefined (an element outside a container, an empty optional).
\<close>

datatype sim_error = Assert_Failed | Runtime_Error string | Undefined_Behaviour

type_synonym 'a outcome = "sim_error + 'a"

fun obind :: "'a outcome \<Rightarrow> ('a \<Rightarrow> 'b outcome) \<Rightarrow> 'b outcome" where
  "obind (Inl e) f = Inl e"
| "obind (Inr a) f = f a"

text \<open>\<open>check_that\<close> is \<^verbatim>\<open>LINX_MODEL_ASSERT\<close>.\<close>

definition check_that :: "bool \<Rightarrow> unit outcome" where
  "check_that b = (if b then Inr () else Inl Assert_Failed)"

fun ofold :: "('a \<Rightarrow> 's \<Rightarrow> 's outcome) \<Rightarrow> 'a list \<Rightarrow> 's \<Rightarrow> 's outcome" where
  "ofold f [] s = Inr s"
| "ofold f (x # xs) s = obind (f x s) (ofold f xs)"

named_theorems outcome_simps \<open>evaluation of sequenced calls\<close>

lemma obind_Inr_iff [outcome_simps]:
  "obind x f = Inr b \<longleftrightarrow> (\<exists>a. x = Inr a \<and> f a = Inr b)"
  by (cases x) auto

lemma obind_Inl_iff [outcome_simps]:
  "obind x f = Inl e \<longleftrightarrow> x = Inl e \<or> (\<exists>a. x = Inr a \<and> f a = Inl e)"
  by (cases x) auto

lemma obind_assoc: "obind (obind x f) g = obind x (\<lambda>a. obind (f a) g)"
  by (cases x) auto

lemma obind_Inr_right [simp]: "obind x Inr = x"
  by (cases x) auto

lemma check_that_True [simp]: "check_that True = Inr ()"
  by (simp add: check_that_def)

lemma check_that_False [simp]: "check_that False = Inl Assert_Failed"
  by (simp add: check_that_def)

lemma check_that_Inr_iff [outcome_simps]: "check_that b = Inr u \<longleftrightarrow> b"
  by (simp add: check_that_def)

lemma check_that_Inl_iff [outcome_simps]: "check_that b = Inl e \<longleftrightarrow> \<not> b \<and> e = Assert_Failed"
  by (auto simp: check_that_def)

lemma ofold_append: "ofold f (xs @ ys) s = obind (ofold f xs s) (ofold f ys)"
proof (induction xs arbitrary: s)
  case Nil
  then show ?case by simp
next
  case (Cons x xs)
  then show ?case by (cases "f x s") auto
qed

lemma ofold_invariant:
  assumes "ofold f xs s = Inr t" and "P s"
    and "\<And>x s t. x \<in> set xs \<Longrightarrow> P s \<Longrightarrow> f x s = Inr t \<Longrightarrow> P t"
  shows "P t"
  using assms
proof (induction xs arbitrary: s)
  case Nil
  then show ?case by simp
next
  case (Cons x xs)
  then obtain u where u: "f x s = Inr u" "ofold f xs u = Inr t"
    by (auto simp: outcome_simps)
  from Cons.prems u have "P u" by auto
  with u Cons.prems show ?case by (intro Cons.IH [of u]) auto
qed

section \<open>Long conditionals\<close>

text \<open>Case analysis of a chain of conditionals without simplifying its conditions.\<close>

lemma if_elim:
  "(if b then x else y) = z \<Longrightarrow> (b \<Longrightarrow> x = z \<Longrightarrow> Q) \<Longrightarrow> (\<not> b \<Longrightarrow> y = z \<Longrightarrow> Q) \<Longrightarrow> Q"
  by (cases b) auto

section \<open>Lists\<close>

lemma find_distinct_key:
  "distinct (map k xs) \<Longrightarrow> x \<in> set xs \<Longrightarrow> List.find (\<lambda>y. k y = k x) xs = Some x"
  by (induction xs) (auto simp: image_iff)

lemma find_filter: "List.find P xs = (case filter P xs of [] \<Rightarrow> None | x # _ \<Rightarrow> Some x)"
  by (induction xs) auto

section \<open>Words\<close>

lemma unat_minus_one_pos: "(w :: 'a::len word) \<noteq> 0 \<Longrightarrow> unat (w - 1) = unat w - 1"
  by (simp add: unat_minus_one)

end
