(* ===== verification/Codec_Desc.thy ===== *)
theory Codec_Desc
  imports Model_Prelude
begin

text \<open>
  The descriptor tables of the instruction codec (\<^verbatim>\<open>include/linx/model/isa/codec.hpp\<close>): field
  pieces, fields, constraints and forms, and the accessors that cut a form's fields, constraints
  and pieces out of the flat tables.  A \<open>codec_tables\<close> value stands for the four global arrays
  of \<^verbatim>\<open>generated_tables.hpp\<close>; the shipped arrays are the theories \<open>Isa_Table_*\<close>.  Table indices,
  counts, widths and bit positions (\<^verbatim>\<open>uint8_t\<close> to \<^verbatim>\<open>uint32_t\<close> members that are only read) are
  naturals; masks and constraint values keep their 64 bits.
\<close>

datatype constraint_op = Op_Eq | Op_Ne | Op_Lt | Op_Le | Op_Gt | Op_Ge

record piece_desc =
  pd_insn_lsb :: nat
  pd_width :: nat
  pd_value_lsb :: nat

record field_desc =
  fd_name :: string
  fd_signed_hint :: int
  fd_bit_width :: nat
  fd_piece_start :: nat
  fd_piece_count :: nat

record constraint_desc =
  cd_field_name :: string
  cd_op :: constraint_op
  cd_value :: i64
  cd_value_raw :: string

record form_desc =
  fm_uid :: string
  fm_mnemonic :: string
  fm_asm_template :: string
  fm_encoding_kind :: string
  fm_group :: string
  fm_uop_group :: string
  fm_uop_big_kind :: string
  fm_length_bits :: nat
  fm_fixed_bits :: nat
  fm_mask :: u64
  fm_match :: u64
  fm_field_start :: nat
  fm_field_count :: nat
  fm_constraint_start :: nat
  fm_constraint_count :: nat

record codec_tables =
  kFieldPieces :: "piece_desc list"
  kFields :: "field_desc list"
  kConstraints :: "constraint_desc list"
  kForms :: "form_desc list"

definition fields_for :: "codec_tables \<Rightarrow> form_desc \<Rightarrow> field_desc list" where
  "fields_for T form = take (fm_field_count form) (drop (fm_field_start form) (kFields T))"

definition constraints_for :: "codec_tables \<Rightarrow> form_desc \<Rightarrow> constraint_desc list" where
  "constraints_for T form =
     take (fm_constraint_count form) (drop (fm_constraint_start form) (kConstraints T))"

definition pieces_for :: "codec_tables \<Rightarrow> field_desc \<Rightarrow> piece_desc list" where
  "pieces_for T fd = take (fd_piece_count fd) (drop (fd_piece_start fd) (kFieldPieces T))"

definition all_minst_forms :: "codec_tables \<Rightarrow> form_desc list" where
  "all_minst_forms T = kForms T"

definition lookup_form_by_uid :: "codec_tables \<Rightarrow> string \<Rightarrow> form_desc option" where
  "lookup_form_by_uid T uid = List.find (\<lambda>form. fm_uid form = uid) (all_minst_forms T)"

definition lookup_form_by_mnemonic :: "codec_tables \<Rightarrow> string \<Rightarrow> form_desc option" where
  "lookup_form_by_mnemonic T mnemonic =
     List.find (\<lambda>form. fm_mnemonic form = mnemonic) (all_minst_forms T)"

fun constraint_op_text :: "constraint_op \<Rightarrow> string" where
  "constraint_op_text Op_Eq = ''==''"
| "constraint_op_text Op_Ne = ''!=''"
| "constraint_op_text Op_Lt = ''<''"
| "constraint_op_text Op_Le = ''<=''"
| "constraint_op_text Op_Gt = ''>''"
| "constraint_op_text Op_Ge = ''>=''"

lemma lookup_form_by_uid_sound:
  "lookup_form_by_uid T uid = Some form \<Longrightarrow> form \<in> set (kForms T) \<and> fm_uid form = uid"
  by (auto simp: lookup_form_by_uid_def all_minst_forms_def find_Some_iff)

lemma lookup_form_by_uid_complete:
  "distinct (map fm_uid (kForms T)) \<Longrightarrow> form \<in> set (kForms T) \<Longrightarrow>
   lookup_form_by_uid T (fm_uid form) = Some form"
  unfolding lookup_form_by_uid_def all_minst_forms_def by (rule find_distinct_key)

end
