(* ===== verification/Minst.thy ===== *)
theory Minst
  imports Codec_Desc
begin

text \<open>
  \<^verbatim>\<open>isa::Minst\<close> (\<^verbatim>\<open>include/linx/model/isa/minst.hpp\<close>, \<^verbatim>\<open>src/isa/minst.cpp\<close>): the one packet that
  travels through the pipeline, its decoded-field map, the typed views derived from it and its
  life cycle.  Text output is in \<open>Minst_Text\<close>.
\<close>

section \<open>Enumerations\<close>

datatype operand_kind = OK_Invalid | OK_Register | OK_Immediate | OK_Predicate | OK_Memory
  | OK_Control | OK_Metadata

datatype minst_width = W_None | W_B8 | W_B16 | W_B32 | W_B64 | W_B128

datatype opcode_class = OC_Invalid | OC_Nop | OC_Integer | OC_FloatingPoint | OC_Branch | OC_Load
  | OC_Store | OC_Atomic | OC_System

datatype minst_stage = St_Invalid | St_Fetch | St_Decode | St_Rename | St_Dispatch | St_Issue
  | St_Execute | St_Memory | St_Writeback | St_Rob | St_Retire | St_Flush | St_Dfx

datatype minst_lifecycle = LC_Invalid | LC_Allocated | LC_InFlight | LC_Retired | LC_Flushed
  | LC_Traced

datatype codec_status = CS_Ok | CS_InvalidLength | CS_NoMatch | CS_AmbiguousMatch
  | CS_ConstraintViolation | CS_InvalidForm | CS_MissingField | CS_ValueOutOfRange

section \<open>The packet\<close>

record decoded_field =
  df_name :: string
  df_signed_hint :: bool
  df_bit_width :: nat
  df_logical_value :: i64

record minst_operand =
  op_is_dst :: bool
  op_ready :: bool
  op_kind :: operand_kind
  op_logical_width :: minst_width
  op_encoded_bits :: nat
  op_value :: u64
  op_data :: u64
  op_field_name :: string
  op_annotation :: string

record memory_info =
  mi_valid :: bool
  mi_is_load :: bool
  mi_is_store :: bool
  mi_logical_width :: minst_width
  mi_addr :: u64
  mi_size :: u64
  mi_annotation :: string

record encoded_word =
  ew_bits :: u64
  ew_length_bits :: u8
  ew_valid :: bool
  ew_status :: codec_status

record minst =
  uid :: u64
  fetch_seq :: u64
  pc :: u64
  next_pc :: u64
  thread_id :: u32
  lane_id :: u32
  rob_id :: u32
  valid :: bool
  speculative :: bool
  exception :: bool
  poison :: bool
  raw_bits :: u64
  length_bits :: u8
  code_bytes :: u8
  opcode_class :: opcode_class
  stage :: minst_stage
  lifecycle :: minst_lifecycle
  decode_status :: codec_status
  encode_status :: codec_status
  valid_form :: bool
  is_branch :: bool
  is_control :: bool
  form :: "form_desc option"
  form_id :: string
  mnemonic :: string
  asm_template :: string
  encoding_kind :: string
  group :: string
  uop_group :: string
  uop_big_kind :: string
  annotation :: string
  decoded_fields :: "decoded_field list"
  srcs :: "minst_operand list"
  dsts :: "minst_operand list"
  immediates :: "decoded_field list"
  shift_amount :: "decoded_field option"
  memory :: "memory_info option"

text \<open>The packet of the default constructor: the member initialisers.\<close>

definition minst_default :: minst where
  "minst_default = \<lparr>uid = 0, fetch_seq = 0, pc = 0, next_pc = 0, thread_id = 0, lane_id = 0,
     rob_id = 0, valid = True, speculative = False, exception = False, poison = False,
     raw_bits = 0, length_bits = 0, code_bytes = 0, opcode_class = OC_Invalid, stage = St_Fetch,
     lifecycle = LC_Allocated, decode_status = CS_NoMatch, encode_status = CS_InvalidForm,
     valid_form = False, is_branch = False, is_control = False, form = None, form_id = [],
     mnemonic = [], asm_template = [], encoding_kind = [], group = [], uop_group = [],
     uop_big_kind = [], annotation = [], decoded_fields = [], srcs = [], dsts = [],
     immediates = [], shift_amount = None, memory = None\<rparr>"

section \<open>Operations on the packet\<close>

definition unsigned_value :: "decoded_field \<Rightarrow> u64" where
  "unsigned_value f =
     (if df_bit_width f = 0 then 0
      else if df_bit_width f \<ge> 64 then df_logical_value f
      else df_logical_value f AND (push_bit (df_bit_width f) 1 - 1))"

definition set_raw_encoding :: "u64 \<Rightarrow> u8 \<Rightarrow> minst \<Rightarrow> minst" where
  "set_raw_encoding bits_value length_bits_value m =
     m\<lparr>raw_bits := bits_value, length_bits := length_bits_value,
       code_bytes := of_nat ((unat length_bits_value + 7) div 8)\<rparr>"

definition create_fetch :: "u64 \<Rightarrow> u64 \<Rightarrow> u64 \<Rightarrow> u8 \<Rightarrow> minst" where
  "create_fetch uid_value pc_value raw_value code_size =
     (let packet = minst_default\<lparr>uid := uid_value, fetch_seq := uid_value, pc := pc_value,
            next_pc := pc_value + ucast code_size\<rparr>;
          packet = set_raw_encoding raw_value (of_nat (unat code_size * 8)) packet
      in packet\<lparr>stage := St_Fetch, lifecycle := LC_Allocated\<rparr>)"

definition clear_decoded_state :: "minst \<Rightarrow> minst" where
  "clear_decoded_state m = m\<lparr>form := None, form_id := [], mnemonic := [], asm_template := [],
     encoding_kind := [], group := [], uop_group := [], uop_big_kind := [],
     decode_status := CS_NoMatch, encode_status := CS_InvalidForm, valid_form := False,
     opcode_class := OC_Invalid, annotation := [], decoded_fields := [], srcs := [], dsts := [],
     immediates := [], shift_amount := None, memory := None, is_branch := False,
     is_control := False\<rparr>"

definition set_form :: "form_desc option \<Rightarrow> minst \<Rightarrow> minst" where
  "set_form desc m =
     (let m = m\<lparr>form := desc, valid_form := (desc \<noteq> None)\<rparr>
      in case desc of
        None \<Rightarrow> m\<lparr>form_id := [], mnemonic := [], asm_template := [], encoding_kind := [],
                 group := [], uop_group := [], uop_big_kind := []\<rparr>
      | Some d \<Rightarrow> m\<lparr>form_id := fm_uid d, mnemonic := fm_mnemonic d,
                 asm_template := fm_asm_template d, encoding_kind := fm_encoding_kind d,
                 group := fm_group d, uop_group := fm_uop_group d,
                 uop_big_kind := fm_uop_big_kind d,
                 length_bits := of_nat (fm_length_bits d),
                 code_bytes := of_nat ((fm_length_bits d + 7) div 8)\<rparr>)"

text \<open>\<open>put_field\<close> is the \<^verbatim>\<open>find_if\<close> of \<^verbatim>\<open>SetDecodedField\<close>: overwrite the first entry of the name, or
  append one.\<close>

fun put_field :: "decoded_field \<Rightarrow> decoded_field list \<Rightarrow> decoded_field list" where
  "put_field f [] = [f]"
| "put_field f (g # gs) =
     (if df_name g = df_name f
      then g\<lparr>df_signed_hint := df_signed_hint f, df_bit_width := df_bit_width f,
             df_logical_value := df_logical_value f\<rparr> # gs
      else g # put_field f gs)"

definition set_decoded_field :: "string \<Rightarrow> i64 \<Rightarrow> bool \<Rightarrow> nat \<Rightarrow> minst \<Rightarrow> minst" where
  "set_decoded_field name logical_value signed_hint bit_width m =
     m\<lparr>decoded_fields := put_field \<lparr>df_name = name, df_signed_hint = signed_hint,
         df_bit_width = bit_width, df_logical_value = logical_value\<rparr> (decoded_fields m)\<rparr>"

definition find_decoded_field :: "string \<Rightarrow> minst \<Rightarrow> decoded_field option" where
  "find_decoded_field name m = List.find (\<lambda>f. df_name f = name) (decoded_fields m)"

definition get_field_signed :: "string \<Rightarrow> minst \<Rightarrow> i64 option" where
  "get_field_signed name m = map_option df_logical_value (find_decoded_field name m)"

definition get_field_unsigned :: "string \<Rightarrow> minst \<Rightarrow> u64 option" where
  "get_field_unsigned name m = map_option unsigned_value (find_decoded_field name m)"

section \<open>Classification of field names\<close>

definition starts_with :: "string \<Rightarrow> string \<Rightarrow> bool" where
  "starts_with value prefix \<longleftrightarrow> take (length prefix) value = prefix"

text \<open>\<open>str_find\<close> is \<^verbatim>\<open>std::string::find\<close> from a position; \<open>None\<close> is \<^verbatim>\<open>npos\<close>.\<close>

definition str_find :: "string \<Rightarrow> string \<Rightarrow> nat \<Rightarrow> nat option" where
  "str_find text needle pos =
     List.find (\<lambda>i. take (length needle) (drop i text) = needle)
       [pos ..< Suc (length text) - length needle]"

definition str_contains :: "string \<Rightarrow> string \<Rightarrow> bool" where
  "str_contains value needle \<longleftrightarrow> str_find value needle 0 \<noteq> None"

definition width_from_bits :: "nat \<Rightarrow> minst_width" where
  "width_from_bits bits =
     (if bits = 8 then W_B8 else if bits = 16 then W_B16 else if bits = 32 then W_B32
      else if bits = 64 then W_B64 else if bits = 128 then W_B128 else W_None)"

definition is_destination_field :: "string \<Rightarrow> bool" where
  "is_destination_field name \<longleftrightarrow>
     starts_with name ''RegDst'' \<or> starts_with name ''Dst'' \<or> name = ''rd''"

definition is_source_field :: "string \<Rightarrow> bool" where
  "is_source_field name \<longleftrightarrow>
     starts_with name ''Src'' \<or> starts_with name ''RegSrc'' \<or> name = ''rs1'' \<or> name = ''rs2'' \<or>
     name = ''rs3''"

definition is_immediate_field :: "string \<Rightarrow> bool" where
  "is_immediate_field name \<longleftrightarrow>
     str_contains name ''imm'' \<or> name = ''shamt'' \<or> name = ''far'' \<or> name = ''Mode'' \<or>
     name = ''TileOpcode''"

definition kind_from_field :: "string \<Rightarrow> operand_kind" where
  "kind_from_field name =
     (if is_immediate_field name then OK_Immediate
      else if str_contains name ''Pred'' \<or> str_contains name ''pred'' then OK_Predicate
      else if str_contains name ''Tile'' \<or> name = ''DataType'' \<or> name = ''SSR_ID'' then OK_Metadata
      else if str_contains name ''PC'' \<or> str_contains name ''far'' \<or> str_contains name ''Mode''
      then OK_Control
      else OK_Register)"

section \<open>Typed views\<close>

definition add_src :: "operand_kind \<Rightarrow> u64 \<Rightarrow> nat \<Rightarrow> string \<Rightarrow> string \<Rightarrow> minst \<Rightarrow> minst" where
  "add_src kind v encoded_bits field_name note m = m\<lparr>srcs := srcs m @
     [\<lparr>op_is_dst = False, op_ready = False, op_kind = kind,
       op_logical_width = width_from_bits encoded_bits, op_encoded_bits = encoded_bits,
       op_value = v, op_data = 0, op_field_name = field_name, op_annotation = note\<rparr>]\<rparr>"

definition add_dst :: "operand_kind \<Rightarrow> u64 \<Rightarrow> nat \<Rightarrow> string \<Rightarrow> string \<Rightarrow> minst \<Rightarrow> minst" where
  "add_dst kind v encoded_bits field_name note m = m\<lparr>dsts := dsts m @
     [\<lparr>op_is_dst = True, op_ready = False, op_kind = kind,
       op_logical_width = width_from_bits encoded_bits, op_encoded_bits = encoded_bits,
       op_value = v, op_data = 0, op_field_name = field_name, op_annotation = note\<rparr>]\<rparr>"

definition init_memory :: "bool \<Rightarrow> bool \<Rightarrow> minst_width \<Rightarrow> u64 \<Rightarrow> string \<Rightarrow> minst \<Rightarrow> minst" where
  "init_memory load store width_value size_value note m = m\<lparr>memory := Some
     \<lparr>mi_valid = True, mi_is_load = load, mi_is_store = store, mi_logical_width = width_value,
      mi_addr = 0, mi_size = size_value, mi_annotation = note\<rparr>\<rparr>"

text \<open>\<open>AGU\<close> keeps the class it had when the group is neither a load nor a store.\<close>

definition view_class :: "minst \<Rightarrow> opcode_class" where
  "view_class m =
     (if uop_big_kind m = ''ALU'' then OC_Integer
      else if uop_big_kind m = ''FSU'' then OC_FloatingPoint
      else if uop_big_kind m = ''BRU'' then OC_Branch
      else if uop_big_kind m = ''AMO'' then OC_Atomic
      else if uop_big_kind m = ''SYS'' \<or> uop_big_kind m = ''CMD'' then OC_System
      else if uop_big_kind m = ''AGU'' then
        (if starts_with (uop_group m) ''LDA'' then OC_Load
         else if starts_with (uop_group m) ''STA'' then OC_Store
         else opcode_class m)
      else OC_Invalid)"

definition view_field :: "decoded_field \<Rightarrow> minst \<Rightarrow> minst" where
  "view_field f m =
     (let kind = kind_from_field (df_name f);
          m = (if is_source_field (df_name f)
               then add_src kind (unsigned_value f) (df_bit_width f) (df_name f)
                      ''decoded source field'' m
               else if is_destination_field (df_name f)
               then add_dst kind (unsigned_value f) (df_bit_width f) (df_name f)
                      ''decoded destination field'' m
               else m)
      in if is_immediate_field (df_name f)
         then m\<lparr>immediates := immediates m @ [f],
                shift_amount := (if df_name f = ''shamt'' then Some f else shift_amount m)\<rparr>
         else m)"

definition view_memory :: "minst \<Rightarrow> minst" where
  "view_memory m =
     (if opcode_class m = OC_Load \<or> opcode_class m = OC_Store \<or> opcode_class m = OC_Atomic
      then init_memory (opcode_class m = OC_Load) (opcode_class m = OC_Store) W_None
             (case shift_amount m of Some f \<Rightarrow> unsigned_value f | None \<Rightarrow> 0) (uop_group m) m
      else m)"

definition clear_views :: "minst \<Rightarrow> minst" where
  "clear_views m = m\<lparr>srcs := [], dsts := [], immediates := [], shift_amount := None,
     memory := None, is_branch := False, is_control := False\<rparr>"

definition classify :: "minst \<Rightarrow> minst" where
  "classify m =
     (let c = view_class m
      in m\<lparr>opcode_class := c, is_branch := (c = OC_Branch),
           is_control := (c = OC_Branch \<or> c = OC_System \<or> uop_big_kind m = ''CMD'')\<rparr>)"

definition rebuild_typed_views :: "minst \<Rightarrow> minst" where
  "rebuild_typed_views m =
     view_memory (fold view_field (decoded_fields m) (classify (clear_views m)))"

section \<open>Life cycle\<close>

definition mark_stage :: "minst_stage \<Rightarrow> minst \<Rightarrow> minst" where
  "mark_stage new_stage m =
     (let m = m\<lparr>stage := new_stage\<rparr>
      in if lifecycle m = LC_Allocated \<and> new_stage \<noteq> St_Fetch
         then m\<lparr>lifecycle := LC_InFlight\<rparr> else m)"

definition mark_retired :: "minst \<Rightarrow> minst" where
  "mark_retired m = m\<lparr>stage := St_Retire, lifecycle := LC_Retired\<rparr>"

definition mark_flushed :: "minst \<Rightarrow> minst" where
  "mark_flushed m = m\<lparr>stage := St_Flush, lifecycle := LC_Flushed\<rparr>"

definition mark_traced :: "minst \<Rightarrow> minst" where
  "mark_traced m = m\<lparr>stage := St_Dfx, lifecycle := LC_Traced\<rparr>"

definition is_terminal :: "minst \<Rightarrow> bool" where
  "is_terminal m \<longleftrightarrow>
     lifecycle m = LC_Retired \<or> lifecycle m = LC_Flushed \<or> lifecycle m = LC_Traced"

text \<open>The marks the components put on a packet between fetch and its consumer, and what a sequence of
  them amounts to, read off the sequence alone.\<close>

datatype life_mark = Mark_Stage minst_stage | Mark_Retired | Mark_Flushed | Mark_Traced

fun apply_mark :: "life_mark \<Rightarrow> minst \<Rightarrow> minst" where
  "apply_mark (Mark_Stage s) m = mark_stage s m"
| "apply_mark Mark_Retired m = mark_retired m"
| "apply_mark Mark_Flushed m = mark_flushed m"
| "apply_mark Mark_Traced m = mark_traced m"

fun stage_of_mark :: "life_mark \<Rightarrow> minst_stage" where
  "stage_of_mark (Mark_Stage s) = s"
| "stage_of_mark Mark_Retired = St_Retire"
| "stage_of_mark Mark_Flushed = St_Flush"
| "stage_of_mark Mark_Traced = St_Dfx"

fun final_state :: "life_mark \<Rightarrow> minst_lifecycle option" where
  "final_state (Mark_Stage s) = None"
| "final_state Mark_Retired = Some LC_Retired"
| "final_state Mark_Flushed = Some LC_Flushed"
| "final_state Mark_Traced = Some LC_Traced"

definition left_fetch :: "life_mark list \<Rightarrow> bool" where
  "left_fetch ms \<longleftrightarrow> list_ex (\<lambda>k. final_state k = None \<and> stage_of_mark k \<noteq> St_Fetch) ms"

definition life_of :: "life_mark list \<Rightarrow> minst_lifecycle" where
  "life_of ms =
     (let finals = List.map_filter final_state ms
      in if finals \<noteq> [] then last finals
         else if left_fetch ms then LC_InFlight else LC_Allocated)"

section \<open>The decoded-field map\<close>

lemma find_put_field_same:
  "List.find (\<lambda>g. df_name g = df_name f) (put_field f gs) = Some f"
  by (induction gs) auto

lemma find_put_field_other:
  "n \<noteq> df_name f \<Longrightarrow>
   List.find (\<lambda>g. df_name g = n) (put_field f gs) = List.find (\<lambda>g. df_name g = n) gs"
  by (induction gs) auto

lemma put_field_names:
  "map df_name (put_field f gs) =
   (if df_name f \<in> df_name ` set gs then map df_name gs else map df_name gs @ [df_name f])"
  by (induction gs) auto

lemma put_field_fresh: "df_name f \<notin> df_name ` set gs \<Longrightarrow> put_field f gs = gs @ [f]"
  by (induction gs) auto

lemma put_field_distinct: "distinct (map df_name gs) \<Longrightarrow> distinct (map df_name (put_field f gs))"
  by (simp add: put_field_names)

lemma find_set_decoded_field:
  "find_decoded_field n (set_decoded_field name v s w m) =
   (if n = name
    then Some \<lparr>df_name = name, df_signed_hint = s, df_bit_width = w, df_logical_value = v\<rparr>
    else find_decoded_field n m)"
proof (cases "n = name")
  case True
  then show ?thesis
    using find_put_field_same [of "\<lparr>df_name = name, df_signed_hint = s, df_bit_width = w,
      df_logical_value = v\<rparr>" "decoded_fields m"]
    by (simp add: find_decoded_field_def set_decoded_field_def)
next
  case False
  then show ?thesis
    by (simp add: find_decoded_field_def set_decoded_field_def find_put_field_other)
qed

section \<open>Facts about the typed views\<close>

lemmas view_defs = view_field_def add_src_def add_dst_def Let_def

text \<open>The operand that a decoded field becomes.\<close>

definition field_operand :: "bool \<Rightarrow> decoded_field \<Rightarrow> minst_operand" where
  "field_operand dst f = \<lparr>op_is_dst = dst, op_ready = False, op_kind = kind_from_field (df_name f),
     op_logical_width = width_from_bits (df_bit_width f), op_encoded_bits = df_bit_width f,
     op_value = unsigned_value f, op_data = 0, op_field_name = df_name f,
     op_annotation = (if dst then ''decoded destination field'' else ''decoded source field'')\<rparr>"

definition view_dst_field :: "decoded_field \<Rightarrow> bool" where
  "view_dst_field f \<longleftrightarrow> is_destination_field (df_name f) \<and> \<not> is_source_field (df_name f)"

lemma view_field_eq:
  "view_field f m = m\<lparr>
     srcs := srcs m @ (if is_source_field (df_name f) then [field_operand False f] else []),
     dsts := dsts m @ (if view_dst_field f then [field_operand True f] else []),
     immediates := immediates m @ (if is_immediate_field (df_name f) then [f] else []),
     shift_amount := (if df_name f = ''shamt'' then Some f else shift_amount m)\<rparr>"
proof -
  have shamt: "is_immediate_field ''shamt''" by (simp add: is_immediate_field_def)
  show ?thesis
    by (cases "is_source_field (df_name f)"; cases "is_destination_field (df_name f)";
        cases "is_immediate_field (df_name f)"; cases "df_name f = ''shamt''")
      (simp_all add: view_defs field_operand_def view_dst_field_def shamt)
qed

definition view_shift :: "decoded_field list \<Rightarrow> decoded_field option" where
  "view_shift fs = (case filter (\<lambda>f. df_name f = ''shamt'') fs of [] \<Rightarrow> None
     | xs \<Rightarrow> Some (last xs))"

lemma view_shift_Cons:
  "view_shift (f # fs) = (case view_shift fs of
     None \<Rightarrow> if df_name f = ''shamt'' then Some f else None | Some g \<Rightarrow> Some g)"
  by (simp add: view_shift_def split: list.split)

lemma case_option_id [simp]: "(case x of None \<Rightarrow> None | Some v \<Rightarrow> Some v) = x"
  by (cases x) auto

lemma fold_view_field:
  "fold view_field fs m = m\<lparr>
     srcs := srcs m @ map (field_operand False) (filter (is_source_field o df_name) fs),
     dsts := dsts m @ map (field_operand True) (filter view_dst_field fs),
     immediates := immediates m @ filter (is_immediate_field o df_name) fs,
     shift_amount := (case view_shift fs of None \<Rightarrow> shift_amount m | Some g \<Rightarrow> Some g)\<rparr>"
proof (induction fs arbitrary: m)
  case Nil
  then show ?case by (simp add: view_shift_def)
next
  case (Cons f fs)
  have "fold view_field (f # fs) m = fold view_field fs (view_field f m)" by simp
  also have "\<dots> = m\<lparr>
     srcs := srcs m @ map (field_operand False) (filter (is_source_field o df_name) (f # fs)),
     dsts := dsts m @ map (field_operand True) (filter view_dst_field (f # fs)),
     immediates := immediates m @ filter (is_immediate_field o df_name) (f # fs),
     shift_amount := (case view_shift (f # fs) of None \<Rightarrow> shift_amount m | Some g \<Rightarrow> Some g)\<rparr>"
    unfolding Cons.IH view_field_eq view_shift_Cons by (simp split: option.split)
  finally show ?case .
qed

definition memory_class :: "opcode_class \<Rightarrow> bool" where
  "memory_class c \<longleftrightarrow> c = OC_Load \<or> c = OC_Store \<or> c = OC_Atomic"

definition view_memory_info :: "opcode_class \<Rightarrow> decoded_field option \<Rightarrow> string \<Rightarrow> memory_info option" where
  "view_memory_info c sh g = (if memory_class c then Some
     \<lparr>mi_valid = True, mi_is_load = (c = OC_Load), mi_is_store = (c = OC_Store),
      mi_logical_width = W_None, mi_addr = 0,
      mi_size = (case sh of Some f \<Rightarrow> unsigned_value f | None \<Rightarrow> 0), mi_annotation = g\<rparr> else None)"

lemma view_memory_eq:
  "memory m = None \<Longrightarrow>
   view_memory m = m\<lparr>memory := view_memory_info (opcode_class m) (shift_amount m) (uop_group m)\<rparr>"
  by (simp add: view_memory_def init_memory_def view_memory_info_def memory_class_def)

lemma view_class_clear: "view_class (clear_views m) = view_class m"
  by (simp add: view_class_def clear_views_def)

lemma classify_clear:
  "classify (clear_views m) = m\<lparr>srcs := [], dsts := [], immediates := [], shift_amount := None,
     memory := None, opcode_class := view_class m, is_branch := (view_class m = OC_Branch),
     is_control := (view_class m = OC_Branch \<or> view_class m = OC_System \<or> uop_big_kind m = ''CMD'')\<rparr>"
  unfolding classify_def Let_def view_class_clear by (simp add: clear_views_def)

lemma rebuild_typed_views_eq:
  "rebuild_typed_views m = m\<lparr>
     opcode_class := view_class m,
     is_branch := (view_class m = OC_Branch),
     is_control := (view_class m = OC_Branch \<or> view_class m = OC_System \<or> uop_big_kind m = ''CMD''),
     srcs := map (field_operand False) (filter (is_source_field o df_name) (decoded_fields m)),
     dsts := map (field_operand True) (filter view_dst_field (decoded_fields m)),
     immediates := filter (is_immediate_field o df_name) (decoded_fields m),
     shift_amount := view_shift (decoded_fields m),
     memory := view_memory_info (view_class m) (view_shift (decoded_fields m)) (uop_group m)\<rparr>"
  by (cases "view_shift (decoded_fields m)")
    (simp_all add: rebuild_typed_views_def classify_clear fold_view_field view_memory_eq)

lemma rebuild_idempotent_aux: "rebuild_typed_views (rebuild_typed_views m) = rebuild_typed_views m"
proof -
  have "view_class (rebuild_typed_views m) = view_class m"
    by (simp add: rebuild_typed_views_eq [of m]) (simp add: view_class_def)
  then show ?thesis
    by (simp add: rebuild_typed_views_eq [of "rebuild_typed_views m"])
      (simp add: rebuild_typed_views_eq [of m])
qed

section \<open>Facts about the life cycle\<close>

lemmas mark_defs = mark_stage_def mark_retired_def mark_flushed_def mark_traced_def Let_def

lemma create_fetch_marks:
  "stage (create_fetch u p r c) = St_Fetch" "lifecycle (create_fetch u p r c) = LC_Allocated"
  by (simp_all add: create_fetch_def Let_def)

lemma stage_apply_mark: "stage (apply_mark k m) = stage_of_mark k"
  by (cases k) (simp_all add: mark_defs)

lemma lifecycle_apply_mark:
  "lifecycle (apply_mark k m) =
     (case final_state k of
        Some l \<Rightarrow> l
      | None \<Rightarrow> if lifecycle m = LC_Allocated \<and> stage_of_mark k \<noteq> St_Fetch then LC_InFlight
                else lifecycle m)"
  by (cases k) (simp_all add: mark_defs)

lemma apply_mark_frame: "apply_mark k m\<lparr>stage := s, lifecycle := l\<rparr> = m\<lparr>stage := s, lifecycle := l\<rparr>"
  by (cases k) (simp_all add: mark_defs)

lemma map_filter_snoc:
  "List.map_filter f (xs @ [x]) =
     List.map_filter f xs @ (case f x of None \<Rightarrow> [] | Some y \<Rightarrow> [y])"
  by (simp add: map_filter_def split: option.splits)

lemma final_state_over: "final_state k = Some l \<Longrightarrow> l \<noteq> LC_Allocated \<and> l \<noteq> LC_InFlight \<and> l \<noteq> LC_Invalid"
  by (cases k) auto

lemma last_final_over:
  "List.map_filter final_state ms \<noteq> [] \<Longrightarrow> last (List.map_filter final_state ms) \<noteq> LC_Allocated"
  by (induction ms rule: rev_induct) (auto simp: map_filter_snoc dest: final_state_over split: option.splits)

lemma life_of_snoc:
  "life_of (ms @ [k]) =
     (case final_state k of
        Some l \<Rightarrow> l
      | None \<Rightarrow> if life_of ms = LC_Allocated \<and> stage_of_mark k \<noteq> St_Fetch then LC_InFlight
                else life_of ms)"
  using last_final_over [of ms]
  by (auto simp: life_of_def left_fetch_def map_filter_snoc Let_def split: option.splits)

lemma marks_stage: "stage (fold apply_mark ms m) = last (stage m # map stage_of_mark ms)"
  by (induction ms rule: rev_induct) (simp_all add: stage_apply_mark)

lemma marks_lifecycle:
  assumes "lifecycle m = LC_Allocated"
  shows "lifecycle (fold apply_mark ms m) = life_of ms"
proof (induction ms rule: rev_induct)
  case Nil
  show ?case using assms by (simp add: life_of_def left_fetch_def map_filter_def)
next
  case (snoc k ms)
  then show ?case by (simp add: lifecycle_apply_mark life_of_snoc split: option.split)
qed

lemma marks_frame:
  "fold apply_mark ms m\<lparr>stage := s, lifecycle := l\<rparr> = m\<lparr>stage := s, lifecycle := l\<rparr>"
  by (induction ms rule: rev_induct) (simp_all add: apply_mark_frame)

lemma marks_exact:
  assumes "lifecycle m = LC_Allocated"
  shows "fold apply_mark ms m =
    m\<lparr>stage := last (stage m # map stage_of_mark ms), lifecycle := life_of ms\<rparr>"
proof -
  let ?r = "fold apply_mark ms m"
  have "?r = ?r\<lparr>stage := stage ?r, lifecycle := lifecycle ?r\<rparr>" by simp
  also have "\<dots> = m\<lparr>stage := stage ?r, lifecycle := lifecycle ?r\<rparr>" by (rule marks_frame)
  finally show ?thesis by (simp only: marks_stage marks_lifecycle [OF assms])
qed

lemma life_of_terminal:
  "life_of ms \<in> {LC_Retired, LC_Flushed, LC_Traced} \<longleftrightarrow> list_ex (\<lambda>k. final_state k \<noteq> None) ms"
proof (induction ms rule: rev_induct)
  case Nil
  show ?case by (simp add: life_of_def left_fetch_def map_filter_def)
next
  case (snoc k ms)
  then show ?case by (cases k) (auto simp: life_of_snoc)
qed

end
