(* ===== verification/Codec.thy ===== *)
theory Codec
  imports Minst
begin

text \<open>
  The instruction codec of \<^verbatim>\<open>src/isa/codec.cpp\<close>: bit masks and sign extension, extraction and
  insertion of a field's pieces, the search for the unique most specific form, and encoding.  The
  functions take the descriptor tables as an argument (\<open>T\<close>), where the C++ reads the global
  arrays.  \<open>DecodePackedWord\<close> returns a status and writes its result through a reference: the
  model returns the pair.  Shifts by 64 or more, undefined in C++, do not occur for tables that
  satisfy \<open>form_wf\<close> (theory \<open>Codec_Roundtrip\<close>); the shipped tables do.
\<close>

section \<open>Bits\<close>

definition bit_mask :: "nat \<Rightarrow> u64" where
  "bit_mask w = (if w = 0 then 0 else if w \<ge> 64 then - 1 else push_bit w 1 - 1)"

definition sign_extend :: "u64 \<Rightarrow> nat \<Rightarrow> i64" where
  "sign_extend v w =
     (if w = 0 then 0
      else if w \<ge> 64 then v
      else let sign_bit = push_bit (w - 1) 1
           in if v AND sign_bit = 0 then v else v OR NOT (bit_mask w))"

fun evaluate_constraint :: "constraint_op \<Rightarrow> i64 \<Rightarrow> i64 \<Rightarrow> bool" where
  "evaluate_constraint Op_Eq lhs rhs \<longleftrightarrow> lhs = rhs"
| "evaluate_constraint Op_Ne lhs rhs \<longleftrightarrow> lhs \<noteq> rhs"
| "evaluate_constraint Op_Lt lhs rhs \<longleftrightarrow> sint lhs < sint rhs"
| "evaluate_constraint Op_Le lhs rhs \<longleftrightarrow> sint lhs \<le> sint rhs"
| "evaluate_constraint Op_Gt lhs rhs \<longleftrightarrow> sint lhs > sint rhs"
| "evaluate_constraint Op_Ge lhs rhs \<longleftrightarrow> sint lhs \<ge> sint rhs"

section \<open>Fields\<close>

definition extract_piece :: "u64 \<Rightarrow> piece_desc \<Rightarrow> u64 \<Rightarrow> u64" where
  "extract_piece packed p raw =
     raw OR push_bit (pd_value_lsb p) (drop_bit (pd_insn_lsb p) packed AND bit_mask (pd_width p))"

definition extract_raw :: "codec_tables \<Rightarrow> field_desc \<Rightarrow> u64 \<Rightarrow> u64" where
  "extract_raw T fd packed = fold (extract_piece packed) (pieces_for T fd) 0"

definition extract_field_value :: "codec_tables \<Rightarrow> field_desc \<Rightarrow> u64 \<Rightarrow> i64 option" where
  "extract_field_value T fd packed =
     (let raw = extract_raw T fd packed
      in if fd_signed_hint fd > 0 then Some (sign_extend raw (fd_bit_width fd)) else Some raw)"

definition fits_field :: "field_desc \<Rightarrow> i64 \<Rightarrow> bool" where
  "fits_field fd logical_value =
     (if fd_bit_width fd = 0 then logical_value = 0
      else if fd_signed_hint fd > 0 then
        if fd_bit_width fd \<ge> 64 then True
        else let mn = - push_bit (fd_bit_width fd - 1) (1 :: i64);
                 mx = push_bit (fd_bit_width fd - 1) (1 :: i64) - 1
             in sint logical_value \<ge> sint mn \<and> sint logical_value \<le> sint mx
      else if sint logical_value < 0 then False
      else logical_value \<le> bit_mask (fd_bit_width fd))"

definition encode_field_bits :: "field_desc \<Rightarrow> i64 \<Rightarrow> u64" where
  "encode_field_bits fd logical_value = logical_value AND bit_mask (fd_bit_width fd)"

section \<open>Decoding\<close>

definition constraint_holds :: "codec_tables \<Rightarrow> form_desc \<Rightarrow> u64 \<Rightarrow> constraint_desc \<Rightarrow> bool" where
  "constraint_holds T fm packed c =
     (case List.find (\<lambda>d. fd_name d = cd_field_name c) (fields_for T fm) of
        None \<Rightarrow> False
      | Some fd \<Rightarrow> (case extract_field_value T fd packed of
          None \<Rightarrow> False
        | Some v \<Rightarrow> evaluate_constraint (cd_op c) v (cd_value c)))"

text \<open>
  One round of the search loop over the forms: the matches of the best specificity seen so far,
  that specificity, and whether some form matched on its fixed bits.
\<close>

definition scan_form :: "codec_tables \<Rightarrow> int \<Rightarrow> u64 \<Rightarrow> form_desc \<Rightarrow>
    form_desc list \<times> int \<times> bool \<Rightarrow> form_desc list \<times> int \<times> bool" where
  "scan_form T len packed fm st = (case st of (valid_matches, best_fixed_bits, saw_fixed_match) \<Rightarrow>
     if int (fm_length_bits fm) \<noteq> len then st
     else if packed AND fm_mask fm \<noteq> fm_match fm then st
     else if \<not> list_all (constraint_holds T fm packed) (constraints_for T fm)
     then (valid_matches, best_fixed_bits, True)
     else if int (fm_fixed_bits fm) > best_fixed_bits then ([fm], int (fm_fixed_bits fm), True)
     else if int (fm_fixed_bits fm) = best_fixed_bits
     then (valid_matches @ [fm], best_fixed_bits, True)
     else (valid_matches, best_fixed_bits, True))"

definition scan_forms :: "codec_tables \<Rightarrow> int \<Rightarrow> u64 \<Rightarrow> form_desc list \<times> int \<times> bool" where
  "scan_forms T len packed = fold (scan_form T len packed) (kForms T) ([], -1, False)"

text \<open>The loop that stores the field values; a field without a value ends it with \<open>NoMatch\<close>.\<close>

fun store_fields :: "codec_tables \<Rightarrow> u64 \<Rightarrow> field_desc list \<Rightarrow> minst \<Rightarrow> codec_status \<times> minst" where
  "store_fields T packed [] m = (CS_Ok, rebuild_typed_views m)"
| "store_fields T packed (fd # fds) m =
     (case extract_field_value T fd packed of
        None \<Rightarrow> (CS_NoMatch, m\<lparr>decode_status := CS_NoMatch\<rparr>)
      | Some v \<Rightarrow> store_fields T packed fds
          (set_decoded_field (fd_name fd) v (fd_signed_hint fd > 0) (fd_bit_width fd) m))"

definition accept_form :: "codec_tables \<Rightarrow> form_desc \<Rightarrow> u64 \<Rightarrow> minst \<Rightarrow> codec_status \<times> minst" where
  "accept_form T best packed out =
     (let out = (set_form (Some best) out)\<lparr>valid_form := True, decode_status := CS_Ok,
                  encode_status := CS_Ok\<rparr>;
          out = (if stage out = St_Invalid then out\<lparr>stage := St_Fetch\<rparr> else out);
          out = (if lifecycle out = LC_Invalid then out\<lparr>lifecycle := LC_Allocated\<rparr> else out)
      in store_fields T packed (fields_for T best) out)"

definition decode_packed_word :: "codec_tables \<Rightarrow> u64 \<Rightarrow> int \<Rightarrow> minst \<Rightarrow> codec_status \<times> minst" where
  "decode_packed_word T packed_bits len out =
     (if len \<noteq> 16 \<and> len \<noteq> 32 \<and> len \<noteq> 48 \<and> len \<noteq> 64 then
        (CS_InvalidLength,
         (set_raw_encoding packed_bits 0 (clear_decoded_state out))\<lparr>decode_status := CS_InvalidLength\<rparr>)
      else
        let packed = packed_bits AND bit_mask (nat len);
            out = set_raw_encoding packed (of_int len) (clear_decoded_state out)
        in (case scan_forms T len packed of (valid_matches, best_fixed_bits, saw_fixed_match) \<Rightarrow>
          (case valid_matches of
             [] \<Rightarrow> let st = (if saw_fixed_match then CS_ConstraintViolation else CS_NoMatch)
                   in (st, out\<lparr>decode_status := st\<rparr>)
           | [best] \<Rightarrow> accept_form T best packed out
           | _ \<Rightarrow> (CS_AmbiguousMatch, out\<lparr>decode_status := CS_AmbiguousMatch\<rparr>))))"

definition decode_minst :: "codec_tables \<Rightarrow> u64 \<Rightarrow> u64 \<Rightarrow> int \<Rightarrow> minst \<Rightarrow> codec_status \<times> minst" where
  "decode_minst T raw_lo raw_hi_or_packed len out =
     (let packed_bits = (if len > 32
        then (raw_lo AND bit_mask 32) OR push_bit 32 raw_hi_or_packed else raw_lo)
      in decode_packed_word T packed_bits len out)"

definition decode_minst_packed :: "codec_tables \<Rightarrow> u64 \<Rightarrow> int \<Rightarrow> minst \<Rightarrow> codec_status \<times> minst" where
  "decode_minst_packed T packed_bits len out = decode_packed_word T packed_bits len out"

section \<open>Encoding\<close>

definition insert_piece :: "u64 \<Rightarrow> piece_desc \<Rightarrow> u64 \<Rightarrow> u64" where
  "insert_piece raw_value p bits =
     (bits AND NOT (push_bit (pd_insn_lsb p) (bit_mask (pd_width p)))) OR
     push_bit (pd_insn_lsb p) (drop_bit (pd_value_lsb p) raw_value AND bit_mask (pd_width p))"

fun encode_fields :: "codec_tables \<Rightarrow> minst \<Rightarrow> field_desc list \<Rightarrow> u64 \<Rightarrow> codec_status + u64" where
  "encode_fields T m [] bits = Inr bits"
| "encode_fields T m (fd # fds) bits =
     (case find_decoded_field (fd_name fd) m of
        None \<Rightarrow> Inl CS_MissingField
      | Some f \<Rightarrow>
          if \<not> fits_field fd (df_logical_value f) then Inl CS_ValueOutOfRange
          else encode_fields T m fds
            (fold (insert_piece (encode_field_bits fd (df_logical_value f))) (pieces_for T fd) bits))"

fun check_constraints :: "minst \<Rightarrow> constraint_desc list \<Rightarrow> codec_status" where
  "check_constraints m [] = CS_Ok"
| "check_constraints m (c # cs) =
     (case find_decoded_field (cd_field_name c) m of
        None \<Rightarrow> CS_MissingField
      | Some f \<Rightarrow>
          if \<not> evaluate_constraint (cd_op c) (df_logical_value f) (cd_value c)
          then CS_ConstraintViolation
          else check_constraints m cs)"

definition encode_failure :: "codec_status \<Rightarrow> encoded_word" where
  "encode_failure st = \<lparr>ew_bits = 0, ew_length_bits = 0, ew_valid = False, ew_status = st\<rparr>"

definition encode_minst :: "codec_tables \<Rightarrow> minst \<Rightarrow> encoded_word" where
  "encode_minst T inst =
     (case form inst of
        None \<Rightarrow> encode_failure CS_InvalidForm
      | Some fm \<Rightarrow>
          if \<not> valid_form inst then encode_failure CS_InvalidForm
          else (case encode_fields T inst (fields_for T fm) (fm_match fm) of
            Inl st \<Rightarrow> encode_failure st
          | Inr bits \<Rightarrow>
              (case check_constraints inst (constraints_for T fm) of
                 CS_Ok \<Rightarrow> let len = of_nat (fm_length_bits fm) :: u8
                   in \<lparr>ew_bits = bits AND bit_mask (unat len), ew_length_bits = len,
                       ew_valid = True, ew_status = CS_Ok\<rparr>
               | st \<Rightarrow> encode_failure st)))"

end
