(* ===== verification/Codec_Roundtrip.thy ===== *)
theory Codec_Roundtrip
  imports Codec
begin

text \<open>
  Correctness of the codec: what the form search computes, and the two round trips between
  instruction words and decoded packets, for every table that satisfies the well-formedness
  predicate \<open>form_wf\<close> (an executable check).
\<close>

section \<open>Bit-level facts\<close>

named_theorems bit_facts \<open>bitwise characterisations of the codec's primitives\<close>

lemma bit64: "bit (x :: u64) i \<Longrightarrow> i < 64"
  using bit_imp_le_length [of x i] by simp

lemma bit_mask_eq_mask: "bit_mask w = mask w"
proof (cases "w \<ge> 64")
  case True
  then have "mask w = (- 1 :: u64)" by (intro bit_word_eqI) (simp add: bit_mask_iff)
  with True show ?thesis by (simp add: bit_mask_def)
next
  case False
  then show ?thesis by (simp add: bit_mask_def mask_eq_exp_minus_1 push_bit_eq_mult)
qed

lemma bit_bit_mask [bit_facts]: "bit (bit_mask w) i \<longleftrightarrow> i < w \<and> i < 64"
  by (auto simp: bit_mask_eq_mask bit_mask_iff)

definition insn_mask :: "piece_desc \<Rightarrow> u64" where
  "insn_mask p = push_bit (pd_insn_lsb p) (bit_mask (pd_width p))"

definition value_mask :: "piece_desc \<Rightarrow> u64" where
  "value_mask p = push_bit (pd_value_lsb p) (bit_mask (pd_width p))"

lemma bit_insn_mask [bit_facts]:
  "bit (insn_mask p) i \<longleftrightarrow> i < 64 \<and> pd_insn_lsb p \<le> i \<and> i < pd_insn_lsb p + pd_width p"
  by (auto simp: insn_mask_def bit_push_bit_iff bit_bit_mask)

lemma bit_value_mask [bit_facts]:
  "bit (value_mask p) i \<longleftrightarrow> i < 64 \<and> pd_value_lsb p \<le> i \<and> i < pd_value_lsb p + pd_width p"
  by (auto simp: value_mask_def bit_push_bit_iff bit_bit_mask)

lemma bit_insert_piece [bit_facts]:
  "bit (insert_piece raw p b) i \<longleftrightarrow>
   (if bit (insn_mask p) i then bit raw (pd_value_lsb p + (i - pd_insn_lsb p)) else bit b i)"
proof (cases "i < 64")
  case True
  then show ?thesis
    by (auto simp: insert_piece_def insn_mask_def bit_or_iff bit_and_iff bit_not_iff
        bit_push_bit_iff bit_drop_bit_eq bit_bit_mask)
next
  case False
  then have "\<not> bit (insert_piece raw p b) i" "\<not> bit (insn_mask p) i" "\<not> bit b i"
    by (auto dest: bit64)
  then show ?thesis by simp
qed

lemma bit_extract_piece [bit_facts]:
  "bit (extract_piece packed p raw) k \<longleftrightarrow>
   bit raw k \<or> (bit (value_mask p) k \<and> bit packed (pd_insn_lsb p + (k - pd_value_lsb p)))"
  by (auto simp: extract_piece_def value_mask_def bit_or_iff bit_and_iff bit_push_bit_iff
      bit_drop_bit_eq bit_bit_mask)

lemma and_zero_bit: "(a :: u64) AND b = 0 \<longleftrightarrow> (\<forall>i. \<not> (bit a i \<and> bit b i))"
  using bit64 by (fastforce simp: bit_eq_iff bit_and_iff)

lemma and_absorb_bit: "(a :: u64) AND b = a \<longleftrightarrow> (\<forall>i. bit a i \<longrightarrow> bit b i)"
  using bit64 by (fastforce simp: bit_eq_iff bit_and_iff)

subsection \<open>Disjoint masks\<close>

fun disjoint_masks :: "u64 \<Rightarrow> u64 list \<Rightarrow> bool" where
  "disjoint_masks acc [] \<longleftrightarrow> True"
| "disjoint_masks acc (m # ms) \<longleftrightarrow> acc AND m = 0 \<and> disjoint_masks (acc OR m) ms"

definition union_masks :: "u64 \<Rightarrow> u64 list \<Rightarrow> u64" where
  "union_masks acc ms = fold (OR) ms acc"

lemma bit_union_masks: "bit (union_masks acc ms) i \<longleftrightarrow> bit acc i \<or> (\<exists>m \<in> set ms. bit m i)"
  unfolding union_masks_def by (induction ms arbitrary: acc) (auto simp: bit_or_iff)

lemma disjoint_masks_acc:
  "disjoint_masks acc ms \<Longrightarrow> m \<in> set ms \<Longrightarrow> bit acc i \<Longrightarrow> \<not> bit m i"
proof (induction ms arbitrary: acc)
  case Nil
  then show ?case by simp
next
  case (Cons a ms)
  from Cons.prems(1) have a: "acc AND a = 0" and rest: "disjoint_masks (acc OR a) ms" by auto
  have "bit (acc OR a) i" using Cons.prems(3) by (simp add: bit_or_iff)
  with Cons.IH [OF rest] a Cons.prems(2,3) show ?case
    by (auto simp: and_zero_bit)
qed

lemma disjoint_masks_append:
  "disjoint_masks acc (xs @ ys) \<longleftrightarrow> disjoint_masks acc xs \<and> disjoint_masks (union_masks acc xs) ys"
  unfolding union_masks_def by (induction xs arbitrary: acc) (simp_all add: or.commute)

lemma disjoint_masks_mono:
  "disjoint_masks acc ms \<Longrightarrow> \<forall>i. bit acc' i \<longrightarrow> bit acc i \<Longrightarrow> disjoint_masks acc' ms"
proof (induction ms arbitrary: acc acc')
  case Nil
  then show ?case by simp
next
  case (Cons a ms)
  have sub: "\<forall>i. bit (acc' OR a) i \<longrightarrow> bit (acc OR a) i"
    using Cons.prems(2) by (simp add: bit_or_iff)
  have "disjoint_masks (acc OR a) ms" using Cons.prems(1) by simp
  then have "disjoint_masks (acc' OR a) ms" using sub by (rule Cons.IH)
  moreover have "acc' AND a = 0"
    using Cons.prems by (simp add: and_zero_bit)
  ultimately show ?case by simp
qed

subsection \<open>Extraction\<close>

lemma extract_fold_frame:
  "\<forall>p \<in> set ps. \<not> bit (value_mask p) k \<Longrightarrow>
   bit (fold (extract_piece packed) ps raw) k \<longleftrightarrow> bit raw k"
proof (induction ps arbitrary: raw)
  case Nil
  then show ?case by simp
next
  case (Cons p ps)
  then have "bit (fold (extract_piece packed) ps (extract_piece packed p raw)) k \<longleftrightarrow>
      bit (extract_piece packed p raw) k" by simp
  with Cons.prems show ?case by (simp add: bit_extract_piece)
qed

lemma extract_fold_bit:
  assumes "disjoint_masks acc (map value_mask ps)" "\<And>i. bit raw i \<Longrightarrow> bit acc i"
    "p \<in> set ps" "bit (value_mask p) k"
  shows "bit (fold (extract_piece packed) ps raw) k \<longleftrightarrow>
    bit packed (pd_insn_lsb p + (k - pd_value_lsb p))"
  using assms
proof (induction ps arbitrary: acc raw)
  case Nil
  then show ?case by simp
next
  case (Cons q ps)
  let ?raw = "extract_piece packed q raw"
  have dis: "disjoint_masks (acc OR value_mask q) (map value_mask ps)"
    using Cons.prems(1) by simp
  have sub: "\<And>i. bit ?raw i \<Longrightarrow> bit (acc OR value_mask q) i"
    using Cons.prems(2) by (auto simp: bit_extract_piece bit_or_iff)
  show ?case
  proof (cases "p \<in> set ps")
    case True
    with Cons.IH [OF dis sub] Cons.prems(4) show ?thesis by simp
  next
    case False
    with Cons.prems(3) have q: "q = p" by simp
    have "\<forall>r \<in> set ps. \<not> bit (value_mask r) k"
      using disjoint_masks_acc [OF dis, of _ k] Cons.prems(4) by (simp add: q bit_or_iff)
    then have "bit (fold (extract_piece packed) ps ?raw) k \<longleftrightarrow> bit ?raw k"
      by (rule extract_fold_frame)
    moreover have "\<not> bit raw k"
      using Cons.prems(1,2,4) by (auto simp: q and_zero_bit)
    ultimately show ?thesis using Cons.prems(4) by (simp add: q bit_extract_piece)
  qed
qed

lemma extract_fold_bounded:
  "\<forall>p \<in> set ps. pd_value_lsb p + pd_width p \<le> w \<Longrightarrow> \<forall>i. bit raw i \<longrightarrow> i < w \<Longrightarrow>
   bit (fold (extract_piece packed) ps raw) i \<Longrightarrow> i < w"
proof (induction ps arbitrary: raw)
  case Nil
  then show ?case by simp
next
  case (Cons p ps)
  have "\<forall>i. bit (extract_piece packed p raw) i \<longrightarrow> i < w"
  proof (intro allI impI)
    fix i assume "bit (extract_piece packed p raw) i"
    then have "bit raw i \<or> i < pd_value_lsb p + pd_width p"
      by (auto simp: bit_extract_piece bit_value_mask)
    with Cons.prems(1,2) show "i < w" by auto
  qed
  from Cons.IH [OF _ this] Cons.prems(1,3) show ?case by simp
qed

subsection \<open>Insertion\<close>

lemma insert_fold_bit:
  "(\<And>p. p \<in> set ps \<Longrightarrow> bit (insn_mask p) i \<Longrightarrow>
      bit raw (pd_value_lsb p + (i - pd_insn_lsb p)) \<longleftrightarrow> bit packed i) \<Longrightarrow>
   bit (fold (insert_piece raw) ps b) i \<longleftrightarrow>
    (if \<exists>p \<in> set ps. bit (insn_mask p) i then bit packed i else bit b i)"
proof (induction ps arbitrary: b)
  case Nil
  then show ?case by simp
next
  case (Cons q ps)
  have "bit (fold (insert_piece raw) ps (insert_piece raw q b)) i \<longleftrightarrow>
    (if \<exists>p \<in> set ps. bit (insn_mask p) i then bit packed i else bit (insert_piece raw q b) i)"
    by (rule Cons.IH) (rule Cons.prems, simp_all)
  moreover have "bit (insn_mask q) i \<Longrightarrow>
      bit raw (pd_value_lsb q + (i - pd_insn_lsb q)) \<longleftrightarrow> bit packed i"
    by (rule Cons.prems) simp_all
  ultimately show ?case by (simp add: bit_insert_piece)
qed

section \<open>Sign extension\<close>

lemma bit_sign_extend:
  assumes "0 < w" "w < 64" "\<And>i. bit v i \<Longrightarrow> i < w" "i < 64"
  shows "bit (sign_extend v w) i \<longleftrightarrow> (if i < w then bit v i else bit v (w - 1))"
proof -
  have sign: "v AND push_bit (w - 1) 1 = 0 \<longleftrightarrow> \<not> bit v (w - 1)"
  proof
    assume "v AND push_bit (w - 1) 1 = 0"
    then have "\<not> (bit v (w - 1) \<and> bit (push_bit (w - 1) 1 :: u64) (w - 1))"
      by (simp only: and_zero_bit simp_thms)
    moreover have "bit (push_bit (w - 1) 1 :: u64) (w - 1)"
      using assms(1,2) by (simp only: bit_push_bit_iff) simp
    ultimately show "\<not> bit v (w - 1)" by blast
  next
    assume n: "\<not> bit v (w - 1)"
    have "\<not> (bit v j \<and> bit (push_bit (w - 1) 1 :: u64) j)" for j
      using n by (cases "j = w - 1") (auto simp: bit_exp_iff)
    then show "v AND push_bit (w - 1) 1 = 0" by (simp add: and_zero_bit)
  qed
  have eq: "sign_extend v w = (if bit v (w - 1) then v OR NOT (bit_mask w) else v)"
    using assms(1,2) by (simp only: sign_extend_def Let_def sign) simp
  show ?thesis
    using assms(3,4) unfolding eq by (auto simp: bit_or_iff bit_not_iff bit_bit_mask)
qed

lemma bit_sint64: "bit (sint (x :: u64)) i \<longleftrightarrow> bit x (if i < 64 then i else 63)"
  using bit64 [of x i] by (auto simp: bit_sint_iff)

lemma signed_bits_range:
  assumes "n < 64" "\<And>i. n \<le> i \<Longrightarrow> i < 64 \<Longrightarrow> bit (x :: u64) i \<longleftrightarrow> bit x n"
  shows "- (2 ^ n) \<le> sint x \<and> sint x < 2 ^ n"
proof -
  have "signed_take_bit n (sint x) = sint x"
  proof (rule bit_eqI)
    fix i
    show "bit (signed_take_bit n (sint x)) i \<longleftrightarrow> bit (sint x) i"
      using assms(1) assms(2) [of i] assms(2) [of 63]
      by (auto simp: bit_signed_take_bit_iff bit_sint64 min_def)
  qed
  then show ?thesis by (simp add: signed_take_bit_int_eq_self_iff)
qed

lemma signed_range_bits:
  assumes "n < 64" "- (2 ^ n) \<le> sint (x :: u64)" "sint x < 2 ^ n" "n \<le> i" "i < 64"
  shows "bit x i \<longleftrightarrow> bit x n"
proof -
  have "signed_take_bit n (sint x) = sint x"
    using assms(2,3) by (simp add: signed_take_bit_int_eq_self_iff)
  then have "bit (signed_take_bit n (sint x)) i \<longleftrightarrow> bit (sint x) i" by simp
  with assms(1,4,5) show ?thesis
    by (auto simp: bit_signed_take_bit_iff bit_sint64 min_def split: if_splits)
qed

section \<open>Well-formed tables\<close>

text \<open>
  The pieces of a well-formed field fit the word and the field's value and do not overlap in the
  value; \<open>field_exact\<close> fields have a piece for every bit of the value.
\<close>

definition field_wf :: "codec_tables \<Rightarrow> field_desc \<Rightarrow> bool" where
  "field_wf T fd \<longleftrightarrow> 0 < fd_bit_width fd \<and> fd_bit_width fd < 64 \<and>
     list_all (\<lambda>p. pd_insn_lsb p + pd_width p \<le> 64 \<and> pd_value_lsb p + pd_width p \<le> fd_bit_width fd)
       (pieces_for T fd) \<and>
     disjoint_masks 0 (map value_mask (pieces_for T fd))"

definition field_exact :: "codec_tables \<Rightarrow> field_desc \<Rightarrow> bool" where
  "field_exact T fd \<longleftrightarrow>
     union_masks 0 (map value_mask (pieces_for T fd)) = bit_mask (fd_bit_width fd)"

definition form_pieces :: "codec_tables \<Rightarrow> form_desc \<Rightarrow> piece_desc list" where
  "form_pieces T fm = concat (map (pieces_for T) (fields_for T fm))"

text \<open>
  A well-formed form: one of the four lengths, distinct field names, well-formed fields, fixed
  bits and pieces that partition the instruction word, and constraints on fields it has.
\<close>

definition form_wf :: "codec_tables \<Rightarrow> form_desc \<Rightarrow> bool" where
  "form_wf T fm \<longleftrightarrow>
     fm_length_bits fm \<in> {16, 32, 48, 64} \<and>
     fm_match fm AND fm_mask fm = fm_match fm \<and>
     distinct (map fd_name (fields_for T fm)) \<and>
     list_all (field_wf T) (fields_for T fm) \<and>
     disjoint_masks (fm_mask fm) (map insn_mask (form_pieces T fm)) \<and>
     union_masks (fm_mask fm) (map insn_mask (form_pieces T fm)) = bit_mask (fm_length_bits fm) \<and>
     list_all (\<lambda>c. cd_field_name c \<in> fd_name ` set (fields_for T fm)) (constraints_for T fm)"

definition tables_wf :: "codec_tables \<Rightarrow> bool" where
  "tables_wf T \<longleftrightarrow> list_all (form_wf T) (kForms T)"

lemma field_wfD:
  assumes "field_wf T fd" "p \<in> set (pieces_for T fd)"
  shows "pd_insn_lsb p + pd_width p \<le> 64" "pd_value_lsb p + pd_width p \<le> fd_bit_width fd"
  using assms by (auto simp: field_wf_def list_all_iff)

lemma form_wf_field: "form_wf T fm \<Longrightarrow> fd \<in> set (fields_for T fm) \<Longrightarrow> field_wf T fd"
  by (simp add: form_wf_def list_all_iff)

lemma form_wf_distinct: "form_wf T fm \<Longrightarrow> distinct (map fd_name (fields_for T fm))"
  by (simp add: form_wf_def)

lemma set_form_pieces: "set (form_pieces T fm) = (\<Union>fd \<in> set (fields_for T fm). set (pieces_for T fd))"
  by (simp add: form_pieces_def)

lemma form_cover:
  assumes "form_wf T fm"
  shows "i < fm_length_bits fm \<longleftrightarrow> bit (fm_mask fm) i \<or>
    (\<exists>fd \<in> set (fields_for T fm). \<exists>p \<in> set (pieces_for T fd). bit (insn_mask p) i)"
proof -
  have "bit (union_masks (fm_mask fm) (map insn_mask (form_pieces T fm))) i \<longleftrightarrow> i < fm_length_bits fm"
    using assms by (auto simp: form_wf_def bit_bit_mask)
  then show ?thesis by (auto simp: bit_union_masks set_form_pieces)
qed

section \<open>Field values\<close>

text \<open>A piece's value bit and its instruction bit correspond.\<close>

lemma piece_bit_shift:
  assumes "field_wf T fd" "p \<in> set (pieces_for T fd)" "bit (insn_mask p) i"
  shows "bit (value_mask p) (pd_value_lsb p + (i - pd_insn_lsb p))"
  using assms field_wfD [OF assms(1,2)] by (auto simp: field_wf_def bit_insn_mask bit_value_mask)

lemma bit_extract_raw:
  assumes "field_wf T fd" "p \<in> set (pieces_for T fd)" "bit (value_mask p) k"
  shows "bit (extract_raw T fd packed) k \<longleftrightarrow> bit packed (pd_insn_lsb p + (k - pd_value_lsb p))"
  unfolding extract_raw_def
  by (rule extract_fold_bit [where acc = 0]) (use assms in \<open>auto simp: field_wf_def\<close>)

lemma extract_raw_bounded:
  assumes "field_wf T fd" "bit (extract_raw T fd packed) i"
  shows "i < fd_bit_width fd"
  using assms(2) unfolding extract_raw_def
  by (rule extract_fold_bounded [rotated 2])
    (use assms(1) in \<open>auto simp: field_wf_def list_all_iff\<close>)

definition decoded_value :: "codec_tables \<Rightarrow> field_desc \<Rightarrow> u64 \<Rightarrow> i64" where
  "decoded_value T fd packed = (let raw = extract_raw T fd packed
     in if fd_signed_hint fd > 0 then sign_extend raw (fd_bit_width fd) else raw)"

lemma extract_field_value_eq: "extract_field_value T fd packed = Some (decoded_value T fd packed)"
  by (simp add: extract_field_value_def decoded_value_def Let_def)

lemma bit_decoded_value_low:
  assumes "field_wf T fd" "i < fd_bit_width fd"
  shows "bit (decoded_value T fd packed) i \<longleftrightarrow> bit (extract_raw T fd packed) i"
  using assms extract_raw_bounded [OF assms(1)] bit_sign_extend [of "fd_bit_width fd"
      "extract_raw T fd packed" i]
  by (auto simp: decoded_value_def Let_def field_wf_def)

lemma encode_decoded_value:
  assumes "field_wf T fd"
  shows "encode_field_bits fd (decoded_value T fd packed) = extract_raw T fd packed"
proof (rule bit_word_eqI)
  fix i
  show "bit (encode_field_bits fd (decoded_value T fd packed)) i \<longleftrightarrow> bit (extract_raw T fd packed) i"
    using bit_decoded_value_low [OF assms] extract_raw_bounded [OF assms] bit64
    by (auto simp: encode_field_bits_def bit_and_iff bit_bit_mask)
qed

lemma sint_nonneg_iff: "0 \<le> sint (x :: u64) \<longleftrightarrow> \<not> bit x 63"
  using bit_last_iff [of x] by (simp add: word_sle_eq not_less [symmetric])

lemma le_bit_mask: "(\<And>i. bit x i \<Longrightarrow> i < w) \<Longrightarrow> x \<le> bit_mask w"
proof -
  assume "\<And>i. bit x i \<Longrightarrow> i < w"
  then have "x AND bit_mask w = x" by (auto simp: and_absorb_bit bit_bit_mask dest: bit64)
  then show ?thesis by (metis word_and_le1)
qed

lemma sint_word_of_int64: "- (2 ^ 63) \<le> k \<Longrightarrow> k < 2 ^ 63 \<Longrightarrow> sint (word_of_int k :: u64) = k"
  by (simp add: signed_of_int signed_take_bit_int_eq_self)

lemma sint_bounds_of_field:
  assumes "0 < w" "w < 64"
  shows "sint (- push_bit (w - 1) (1 :: i64)) = - (2 ^ (w - 1))"
    and "sint (push_bit (w - 1) (1 :: i64) - 1) = 2 ^ (w - 1) - 1"
proof -
  have "(2::int) ^ (w - 1) \<le> 2 ^ 62" using assms(2) by (intro power_increasing) auto
  also have "(2::int) ^ 62 = 4611686018427387904" by simp
  finally have up: "(2::int) ^ (w - 1) \<le> 4611686018427387904" .
  have lim: "(2::int) ^ 63 = 9223372036854775808" by simp
  have lo: "(1::int) \<le> 2 ^ (w - 1)" by simp
  have mn: "- push_bit (w - 1) (1 :: i64) = word_of_int (- (2 ^ (w - 1)))"
    and mx: "push_bit (w - 1) (1 :: i64) - 1 = word_of_int (2 ^ (w - 1) - 1)"
    by (simp_all add: push_bit_eq_mult)
  show "sint (- push_bit (w - 1) (1 :: i64)) = - (2 ^ (w - 1))"
    unfolding mn by (rule sint_word_of_int64) (use up lo lim in linarith)+
  show "sint (push_bit (w - 1) (1 :: i64) - 1) = 2 ^ (w - 1) - 1"
    unfolding mx by (rule sint_word_of_int64) (use up lo lim in linarith)+
qed

lemma fits_field_signed:
  assumes "fd_signed_hint fd > 0" "0 < fd_bit_width fd" "fd_bit_width fd < 64"
  shows "fits_field fd v \<longleftrightarrow>
    - (2 ^ (fd_bit_width fd - 1)) \<le> sint v \<and> sint v < 2 ^ (fd_bit_width fd - 1)"
  using assms sint_bounds_of_field [OF assms(2,3)] by (auto simp: fits_field_def Let_def)

lemma fits_field_unsigned:
  assumes "\<not> fd_signed_hint fd > 0" "0 < fd_bit_width fd" "fd_bit_width fd < 64"
  shows "fits_field fd v \<longleftrightarrow> (\<forall>i. bit v i \<longrightarrow> i < fd_bit_width fd)"
proof
  assume "fits_field fd v"
  with assms have "v \<le> bit_mask (fd_bit_width fd)" by (auto simp: fits_field_def split: if_splits)
  then have "uint v \<le> uint (mask (fd_bit_width fd) :: u64)"
    by (simp add: bit_mask_eq_mask word_le_def)
  then have "uint v < 2 ^ fd_bit_width fd"
  proof -
    have "uint (mask (fd_bit_width fd) :: u64) = mask (fd_bit_width fd)"
      using assms(3) by (intro bit_eqI) (auto simp: bit_uint_iff bit_mask_iff)
    with \<open>uint v \<le> _\<close> show ?thesis by (simp add: mask_eq_exp_minus_1)
  qed
  then have "take_bit (fd_bit_width fd) (uint v) = uint v"
    by (simp add: take_bit_int_eq_self_iff)
  then have "bit (uint v) i \<longleftrightarrow> i < fd_bit_width fd \<and> bit (uint v) i" for i
    by (metis bit_take_bit_iff)
  then show "\<forall>i. bit v i \<longrightarrow> i < fd_bit_width fd" by (auto simp: bit_uint_iff dest: bit64)
next
  assume b: "\<forall>i. bit v i \<longrightarrow> i < fd_bit_width fd"
  then have "\<not> bit v 63" using assms(3) by fastforce
  with b assms show "fits_field fd v"
    using sint_nonneg_iff [of v] by (auto simp: fits_field_def intro: le_bit_mask)
qed

text \<open>What decoding extracts always fits, and encoding what fits is undone by decoding.\<close>

lemma decoded_value_fits:
  assumes "field_wf T fd"
  shows "fits_field fd (decoded_value T fd packed)"
proof -
  have w: "0 < fd_bit_width fd" "fd_bit_width fd < 64" using assms by (auto simp: field_wf_def)
  show ?thesis
  proof (cases "fd_signed_hint fd > 0")
    case True
    let ?raw = "extract_raw T fd packed" and ?w = "fd_bit_width fd"
    have se: "bit (decoded_value T fd packed) i \<longleftrightarrow> (if i < ?w then bit ?raw i else bit ?raw (?w - 1))"
      if "i < 64" for i
      unfolding decoded_value_def Let_def
      using True bit_sign_extend [OF w _ that, of ?raw] extract_raw_bounded [OF assms] by simp
    have same: "bit (decoded_value T fd packed) i \<longleftrightarrow> bit (decoded_value T fd packed) (?w - 1)"
      if "?w - 1 \<le> i" "i < 64" for i
    proof (cases "i = ?w - 1")
      case False
      with that w have "\<not> i < ?w" "?w - 1 < ?w" "?w - 1 < 64" by auto
      then show ?thesis using se [OF that(2)] se [of "?w - 1"] by simp
    qed simp
    show ?thesis
      unfolding fits_field_signed [OF True w]
      by (rule signed_bits_range) (use w in linarith, rule same)
  next
    case False
    then show ?thesis
      using w extract_raw_bounded [OF assms] by (auto simp: fits_field_unsigned decoded_value_def)
  qed
qed

definition logical_of_raw :: "field_desc \<Rightarrow> u64 \<Rightarrow> i64" where
  "logical_of_raw fd raw = (if fd_signed_hint fd > 0 then sign_extend raw (fd_bit_width fd) else raw)"

lemma decoded_value_raw: "decoded_value T fd packed = logical_of_raw fd (extract_raw T fd packed)"
  by (simp add: decoded_value_def logical_of_raw_def Let_def)

lemma bit_encode_field_bits:
  "bit (encode_field_bits fd v) i \<longleftrightarrow> i < fd_bit_width fd \<and> bit v i"
  using bit64 [of v i] by (auto simp: encode_field_bits_def bit_and_iff bit_bit_mask)

lemma logical_of_encoded:
  assumes w: "0 < fd_bit_width fd" "fd_bit_width fd < 64" and fits: "fits_field fd v"
  shows "logical_of_raw fd (encode_field_bits fd v) = v"
proof (rule bit_word_eqI)
  fix i assume "i < LENGTH(64)"
  then have i: "i < 64" by simp
  let ?w = "fd_bit_width fd" and ?raw = "encode_field_bits fd v"
  show "bit (logical_of_raw fd ?raw) i \<longleftrightarrow> bit v i"
  proof (cases "fd_signed_hint fd > 0")
    case True
    then have r: "- (2 ^ (?w - 1)) \<le> sint v" "sint v < 2 ^ (?w - 1)"
      using fits fits_field_signed [OF True w] by auto
    have "bit (sign_extend ?raw ?w) i \<longleftrightarrow> (if i < ?w then bit ?raw i else bit ?raw (?w - 1))"
      by (rule bit_sign_extend [OF w _ i]) (simp add: bit_encode_field_bits)
    moreover have "bit v i \<longleftrightarrow> bit v (?w - 1)" if "\<not> i < ?w"
      using signed_range_bits [OF _ r, of i] that i w by simp
    ultimately show ?thesis using True w by (simp add: logical_of_raw_def bit_encode_field_bits)
  next
    case False
    then show ?thesis
      using fits fits_field_unsigned [OF False w] by (auto simp: logical_of_raw_def bit_encode_field_bits)
  qed
qed

section \<open>The form search\<close>

text \<open>The forms a word matches, constraints included, and the search's declarative meaning.\<close>

definition fixed_match :: "int \<Rightarrow> u64 \<Rightarrow> form_desc \<Rightarrow> bool" where
  "fixed_match len packed fm \<longleftrightarrow>
     int (fm_length_bits fm) = len \<and> packed AND fm_mask fm = fm_match fm"

definition form_matches :: "codec_tables \<Rightarrow> int \<Rightarrow> u64 \<Rightarrow> form_desc \<Rightarrow> bool" where
  "form_matches T len packed fm \<longleftrightarrow>
     fixed_match len packed fm \<and> list_all (constraint_holds T fm packed) (constraints_for T fm)"

definition best_specificity :: "form_desc list \<Rightarrow> int" where
  "best_specificity fms = fold max (map (int o fm_fixed_bits) fms) (- 1)"

lemma fold_max_ge: "x \<in> set xs \<or> x \<le> b \<Longrightarrow> (x :: int) \<le> fold max xs b"
proof (induction xs arbitrary: b)
  case Nil
  then show ?case by simp
next
  case (Cons y ys)
  then have "x \<in> set ys \<or> x \<le> max y b" by auto
  then have "x \<le> fold max ys (max y b)" by (rule Cons.IH)
  then show ?case by simp
qed

lemma best_specificity_snoc:
  "best_specificity (fms @ [fm]) = max (int (fm_fixed_bits fm)) (best_specificity fms)"
  by (simp add: best_specificity_def)

lemma best_specificity_ge: "fm \<in> set fms \<Longrightarrow> int (fm_fixed_bits fm) \<le> best_specificity fms"
  unfolding best_specificity_def by (rule fold_max_ge) simp

lemma best_specificity_min: "- 1 \<le> best_specificity fms"
  unfolding best_specificity_def by (rule fold_max_ge) simp

definition most_specific :: "form_desc list \<Rightarrow> form_desc list" where
  "most_specific fms = filter (\<lambda>fm. int (fm_fixed_bits fm) = best_specificity fms) fms"

lemma scan_fold_eq:
  "fold (scan_form T len packed) fms ([], - 1, False) =
   (let cs = filter (form_matches T len packed) fms
    in (most_specific cs, best_specificity cs, \<exists>fm \<in> set fms. fixed_match len packed fm))"
proof (induction fms rule: rev_induct)
  case Nil
  then show ?case by (simp add: most_specific_def best_specificity_def)
next
  case (snoc fm fms)
  let ?cs = "filter (form_matches T len packed) fms"
  have empty: "filter (\<lambda>f. form_matches T len packed f \<and> fm_fixed_bits f = k) fms = []"
    if "best_specificity ?cs < int k" for k
    using best_specificity_ge [of _ ?cs] that by (fastforce simp: filter_empty_conv)
  have step: "fold (scan_form T len packed) (fms @ [fm]) ([], - 1, False) = scan_form T len packed fm
      (most_specific ?cs, best_specificity ?cs, \<exists>fm \<in> set fms. fixed_match len packed fm)"
    by (simp add: snoc Let_def)
  show ?case
  proof (cases "form_matches T len packed fm")
    case True
    then have fixed: "int (fm_length_bits fm) = len" "packed AND fm_mask fm = fm_match fm"
      "list_all (constraint_holds T fm packed) (constraints_for T fm)"
      by (auto simp: form_matches_def fixed_match_def)
    consider "int (fm_fixed_bits fm) > best_specificity ?cs"
      | "int (fm_fixed_bits fm) = best_specificity ?cs"
      | "int (fm_fixed_bits fm) < best_specificity ?cs" by linarith
    then show ?thesis
      unfolding step unfolding scan_form_def
      by cases (simp_all add: fixed True most_specific_def Let_def
          best_specificity_snoc empty max_def fixed_match_def)
  next
    case False
    then have cs: "filter (form_matches T len packed) (fms @ [fm]) = ?cs" by simp
    show ?thesis
      unfolding step cs unfolding scan_form_def
      using False
      by (auto simp: Let_def form_matches_def [of T len packed fm] fixed_match_def [of len packed fm])
  qed
qed

definition matching_forms :: "codec_tables \<Rightarrow> int \<Rightarrow> u64 \<Rightarrow> form_desc list" where
  "matching_forms T len packed = filter (form_matches T len packed) (kForms T)"

lemma scan_forms_eq:
  "scan_forms T len packed =
   (most_specific (matching_forms T len packed), best_specificity (matching_forms T len packed),
    \<exists>fm \<in> set (kForms T). fixed_match len packed fm)"
  by (simp add: scan_forms_def scan_fold_eq Let_def matching_forms_def)

section \<open>The decoded packet\<close>

definition field_of :: "codec_tables \<Rightarrow> u64 \<Rightarrow> field_desc \<Rightarrow> decoded_field" where
  "field_of T packed fd = \<lparr>df_name = fd_name fd, df_signed_hint = (fd_signed_hint fd > 0),
     df_bit_width = fd_bit_width fd, df_logical_value = decoded_value T fd packed\<rparr>"

lemma store_fields_eq:
  "distinct (map fd_name fds) \<Longrightarrow> fd_name ` set fds \<inter> df_name ` set (decoded_fields m) = {} \<Longrightarrow>
   store_fields T packed fds m =
   (CS_Ok, rebuild_typed_views (m\<lparr>decoded_fields := decoded_fields m @ map (field_of T packed) fds\<rparr>))"
proof (induction fds arbitrary: m)
  case Nil
  then show ?case by simp
next
  case (Cons fd fds)
  have "set_decoded_field (fd_name fd) (decoded_value T fd packed) (fd_signed_hint fd > 0)
      (fd_bit_width fd) m = m\<lparr>decoded_fields := decoded_fields m @ [field_of T packed fd]\<rparr>"
    using Cons.prems(2) by (simp add: set_decoded_field_def field_of_def put_field_fresh)
  moreover have "fd_name ` set fds \<inter>
      df_name ` set (decoded_fields (m\<lparr>decoded_fields := decoded_fields m @ [field_of T packed fd]\<rparr>)) = {}"
    using Cons.prems by (auto simp: field_of_def)
  ultimately show ?case
    using Cons.IH [of "m\<lparr>decoded_fields := decoded_fields m @ [field_of T packed fd]\<rparr>"] Cons.prems(1)
    by (simp add: extract_field_value_eq)
qed

lemma find_field_of:
  assumes "distinct (map fd_name fds)" "fd \<in> set fds"
  shows "List.find (\<lambda>f. df_name f = fd_name fd) (map (field_of T packed) fds) = Some (field_of T packed fd)"
  using assms by (induction fds) (auto simp: field_of_def image_iff)

text \<open>The part of a packet that encoding reads.\<close>

definition decoded_as :: "codec_tables \<Rightarrow> form_desc \<Rightarrow> u64 \<Rightarrow> minst \<Rightarrow> bool" where
  "decoded_as T fm packed m \<longleftrightarrow> form m = Some fm \<and> valid_form m \<and>
     decoded_fields m = map (field_of T packed) (fields_for T fm)"

lemma rebuild_frame:
  "form (rebuild_typed_views m) = form m" "valid_form (rebuild_typed_views m) = valid_form m"
  "decoded_fields (rebuild_typed_views m) = decoded_fields m"
  "decode_status (rebuild_typed_views m) = decode_status m"
  "raw_bits (rebuild_typed_views m) = raw_bits m"
  "length_bits (rebuild_typed_views m) = length_bits m"
  "code_bytes (rebuild_typed_views m) = code_bytes m"
  "pc (rebuild_typed_views m) = pc m" "next_pc (rebuild_typed_views m) = next_pc m"
  "mnemonic (rebuild_typed_views m) = mnemonic m"
  "lifecycle (rebuild_typed_views m) = lifecycle m" "stage (rebuild_typed_views m) = stage m"
  by (simp_all add: rebuild_typed_views_eq)

lemma accept_form_eq:
  assumes "distinct (map fd_name (fields_for T fm))" "decoded_fields out = []"
  shows "fst (accept_form T fm packed out) = CS_Ok"
    and "decoded_as T fm packed (snd (accept_form T fm packed out))"
    and "decode_status (snd (accept_form T fm packed out)) = CS_Ok"
    and "raw_bits (snd (accept_form T fm packed out)) = raw_bits out"
    and "length_bits (snd (accept_form T fm packed out)) = of_nat (fm_length_bits fm)"
    and "pc (snd (accept_form T fm packed out)) = pc out"
    and "next_pc (snd (accept_form T fm packed out)) = next_pc out"
    and "mnemonic (snd (accept_form T fm packed out)) = fm_mnemonic fm"
proof -
  define o1 where "o1 = (set_form (Some fm) out)\<lparr>valid_form := True, decode_status := CS_Ok,
    encode_status := CS_Ok\<rparr>"
  define o2 where "o2 = (if stage o1 = St_Invalid then o1\<lparr>stage := St_Fetch\<rparr> else o1)"
  define o3 where "o3 = (if lifecycle o2 = LC_Invalid then o2\<lparr>lifecycle := LC_Allocated\<rparr> else o2)"
  have acc: "accept_form T fm packed out = store_fields T packed (fields_for T fm) o3"
    by (simp add: accept_form_def Let_def o1_def o2_def o3_def)
  have o1: "form o1 = Some fm \<and> valid_form o1 \<and> decoded_fields o1 = [] \<and> decode_status o1 = CS_Ok \<and>
      raw_bits o1 = raw_bits out \<and> length_bits o1 = of_nat (fm_length_bits fm) \<and> pc o1 = pc out \<and>
      next_pc o1 = next_pc out \<and> mnemonic o1 = fm_mnemonic fm"
    using assms(2) by (simp add: o1_def set_form_def Let_def)
  then have o3: "form o3 = Some fm \<and> valid_form o3 \<and> decoded_fields o3 = [] \<and> decode_status o3 = CS_Ok \<and>
      raw_bits o3 = raw_bits out \<and> length_bits o3 = of_nat (fm_length_bits fm) \<and> pc o3 = pc out \<and>
      next_pc o3 = next_pc out \<and> mnemonic o3 = fm_mnemonic fm"
    by (simp add: o3_def o2_def)
  have st: "store_fields T packed (fields_for T fm) o3 =
    (CS_Ok, rebuild_typed_views (o3\<lparr>decoded_fields := map (field_of T packed) (fields_for T fm)\<rparr>))"
    using store_fields_eq [OF assms(1), where m = o3 and T = T and packed = packed] o3 by simp
  show "fst (accept_form T fm packed out) = CS_Ok"
    and "decoded_as T fm packed (snd (accept_form T fm packed out))"
    and "decode_status (snd (accept_form T fm packed out)) = CS_Ok"
    and "raw_bits (snd (accept_form T fm packed out)) = raw_bits out"
    and "length_bits (snd (accept_form T fm packed out)) = of_nat (fm_length_bits fm)"
    and "pc (snd (accept_form T fm packed out)) = pc out"
    and "next_pc (snd (accept_form T fm packed out)) = next_pc out"
    and "mnemonic (snd (accept_form T fm packed out)) = fm_mnemonic fm"
    using o3 by (simp_all add: acc st decoded_as_def rebuild_frame)
qed

text \<open>The result of decoding, by cases on the most specific matches.\<close>

definition legal_length :: "int \<Rightarrow> bool" where
  "legal_length len \<longleftrightarrow> len = 16 \<or> len = 32 \<or> len = 48 \<or> len = 64"

definition fresh_out :: "u64 \<Rightarrow> int \<Rightarrow> minst \<Rightarrow> minst" where
  "fresh_out packed len out = set_raw_encoding packed (of_int len) (clear_decoded_state out)"

lemma decode_cases:
  assumes "legal_length len"
  shows "decode_packed_word T w len out =
    (let packed = w AND bit_mask (nat len);
         best = most_specific (matching_forms T len packed);
         o1 = fresh_out packed len out
     in case best of
          [] \<Rightarrow> let st = (if \<exists>fm \<in> set (kForms T). fixed_match len packed fm
                         then CS_ConstraintViolation else CS_NoMatch)
               in (st, o1\<lparr>decode_status := st\<rparr>)
        | [fm] \<Rightarrow> accept_form T fm packed o1
        | _ \<Rightarrow> (CS_AmbiguousMatch, o1\<lparr>decode_status := CS_AmbiguousMatch\<rparr>))"
  using assms
  by (auto simp: decode_packed_word_def legal_length_def scan_forms_eq Let_def fresh_out_def
      split: list.split)

lemma most_specific_empty: "most_specific cs = [] \<longleftrightarrow> cs = []"
proof
  assume m: "most_specific cs = []"
  show "cs = []"
  proof (rule ccontr)
    assume "cs \<noteq> []"
    then obtain fm where fm: "fm \<in> set cs" "\<forall>g \<in> set cs. fm_fixed_bits g \<le> fm_fixed_bits fm"
      using Max_in [of "fm_fixed_bits ` set cs"] Max_ge [of "fm_fixed_bits ` set cs"] by fastforce
    have "fold max (map (int o fm_fixed_bits) ys) b \<le> int (fm_fixed_bits fm)"
      if "set ys \<subseteq> set cs" "b \<le> int (fm_fixed_bits fm)" for ys b
      using that fm(2) by (induction ys arbitrary: b) auto
    then have "best_specificity cs \<le> int (fm_fixed_bits fm)"
      unfolding best_specificity_def by simp
    with best_specificity_ge [OF fm(1)] have "fm \<in> set (most_specific cs)"
      using fm(1) by (simp add: most_specific_def)
    with m show False by simp
  qed
qed (simp add: most_specific_def)

lemma set_most_specific: "fm \<in> set (most_specific cs) \<longleftrightarrow>
    fm \<in> set cs \<and> (\<forall>g \<in> set cs. fm_fixed_bits g \<le> fm_fixed_bits fm)"
proof
  assume "fm \<in> set (most_specific cs)"
  then have fm: "fm \<in> set cs" "int (fm_fixed_bits fm) = best_specificity cs"
    by (auto simp: most_specific_def)
  have "fm_fixed_bits g \<le> fm_fixed_bits fm" if "g \<in> set cs" for g
    using best_specificity_ge [OF that] fm(2) by linarith
  with fm(1) show "fm \<in> set cs \<and> (\<forall>g \<in> set cs. fm_fixed_bits g \<le> fm_fixed_bits fm)" by blast
next
  assume fm: "fm \<in> set cs \<and> (\<forall>g \<in> set cs. fm_fixed_bits g \<le> fm_fixed_bits fm)"
  then have "most_specific cs \<noteq> []" by (auto simp: most_specific_empty)
  then obtain g where "g \<in> set (most_specific cs)" by (cases "most_specific cs") auto
  then have g: "g \<in> set cs" "int (fm_fixed_bits g) = best_specificity cs"
    by (auto simp: most_specific_def)
  with fm best_specificity_ge [of fm cs] have "int (fm_fixed_bits fm) = best_specificity cs"
    by fastforce
  with fm show "fm \<in> set (most_specific cs)" by (simp add: most_specific_def)
qed

section \<open>Encoding a decoded packet\<close>

lemma find_decoded:
  assumes "decoded_as T fm packed m" "distinct (map fd_name (fields_for T fm))"
    "fd \<in> set (fields_for T fm)"
  shows "find_decoded_field (fd_name fd) m = Some (field_of T packed fd)"
  using assms by (simp add: find_decoded_field_def decoded_as_def find_field_of)

lemma insert_decoded_bit:
  assumes "field_wf T fd"
  shows "bit (fold (insert_piece (encode_field_bits fd (decoded_value T fd packed)))
      (pieces_for T fd) b) i \<longleftrightarrow>
    (if \<exists>p \<in> set (pieces_for T fd). bit (insn_mask p) i then bit packed i else bit b i)"
proof (rule insert_fold_bit)
  fix p assume p: "p \<in> set (pieces_for T fd)" "bit (insn_mask p) i"
  have "bit (encode_field_bits fd (decoded_value T fd packed)) (pd_value_lsb p + (i - pd_insn_lsb p)) \<longleftrightarrow>
      bit packed (pd_insn_lsb p + (pd_value_lsb p + (i - pd_insn_lsb p) - pd_value_lsb p))"
    unfolding encode_decoded_value [OF assms]
    by (rule bit_extract_raw [OF assms p(1) piece_bit_shift [OF assms p]])
  with p(2) show "bit (encode_field_bits fd (decoded_value T fd packed))
      (pd_value_lsb p + (i - pd_insn_lsb p)) \<longleftrightarrow> bit packed i"
    by (simp add: bit_insn_mask)
qed

lemma encode_fields_decoded:
  assumes "decoded_as T fm packed m" "form_wf T fm" "set fds \<subseteq> set (fields_for T fm)"
  shows "\<exists>r. encode_fields T m fds b = Inr r \<and> (\<forall>i. bit r i \<longleftrightarrow>
    (if \<exists>fd \<in> set fds. \<exists>p \<in> set (pieces_for T fd). bit (insn_mask p) i then bit packed i else bit b i))"
  using assms(3)
proof (induction fds arbitrary: b)
  case Nil
  then show ?case by simp
next
  case (Cons fd fds)
  have fd: "fd \<in> set (fields_for T fm)" using Cons.prems by simp
  have wf: "field_wf T fd" using assms(2) fd by (rule form_wf_field)
  let ?b = "fold (insert_piece (encode_field_bits fd (decoded_value T fd packed))) (pieces_for T fd) b"
  have "find_decoded_field (fd_name fd) m = Some (field_of T packed fd)"
    using assms(1) form_wf_distinct [OF assms(2)] fd by (rule find_decoded)
  then have "encode_fields T m (fd # fds) b = encode_fields T m fds ?b"
    by (simp add: field_of_def decoded_value_fits [OF wf])
  with Cons.IH [of ?b] Cons.prems show ?case
    by (auto simp: insert_decoded_bit [OF wf])
qed

lemma check_constraints_decoded:
  assumes d: "decoded_as T fm packed m" and wf: "form_wf T fm"
    and c: "list_all (constraint_holds T fm packed) cs"
  shows "check_constraints m cs = CS_Ok"
  using c
proof (induction cs)
  case Nil
  then show ?case by simp
next
  case (Cons c cs)
  from Cons.prems obtain fd where fd: "List.find (\<lambda>d. fd_name d = cd_field_name c) (fields_for T fm) = Some fd"
    "evaluate_constraint (cd_op c) (decoded_value T fd packed) (cd_value c)"
    by (auto simp: constraint_holds_def extract_field_value_eq split: option.splits)
  then have "fd \<in> set (fields_for T fm)" "fd_name fd = cd_field_name c"
    by (auto simp: find_Some_iff)
  then have "find_decoded_field (cd_field_name c) m = Some (field_of T packed fd)"
    using find_decoded [OF d form_wf_distinct [OF wf], of fd] by simp
  with Cons fd(2) show ?case by (simp add: field_of_def)
qed

lemma encode_decoded:
  assumes d: "decoded_as T fm packed m" and wf: "form_wf T fm"
    and match: "form_matches T len packed fm"
    and bounded: "\<forall>i. bit packed i \<longrightarrow> i < fm_length_bits fm"
  shows "encode_minst T m = \<lparr>ew_bits = packed, ew_length_bits = of_nat (fm_length_bits fm),
    ew_valid = True, ew_status = CS_Ok\<rparr>"
proof -
  from encode_fields_decoded [OF d wf order_refl, of "fm_match fm"] obtain r where
    r: "encode_fields T m (fields_for T fm) (fm_match fm) = Inr r" and
    bits: "\<forall>i. bit r i \<longleftrightarrow> (if \<exists>fd \<in> set (fields_for T fm). \<exists>p \<in> set (pieces_for T fd). bit (insn_mask p) i
      then bit packed i else bit (fm_match fm) i)" by blast
  have mt: "bit (fm_match fm) i \<longleftrightarrow> bit packed i \<and> bit (fm_mask fm) i" for i
    using match unfolding form_matches_def fixed_match_def by (metis bit_and_iff)
  have cons: "check_constraints m (constraints_for T fm) = CS_Ok"
    using match by (intro check_constraints_decoded [OF d wf]) (simp add: form_matches_def)
  have len: "unat (of_nat (fm_length_bits fm) :: u8) = fm_length_bits fm"
    using wf by (auto simp: form_wf_def)
  have "r AND bit_mask (fm_length_bits fm) = packed"
  proof (rule bit_word_eqI)
    fix i
    show "bit (r AND bit_mask (fm_length_bits fm)) i \<longleftrightarrow> bit packed i"
      using form_cover [OF wf, of i] bits bounded mt [of i] bit64 [of packed i]
      by (auto simp: bit_and_iff bit_bit_mask)
  qed
  with d r cons len show ?thesis
    by (simp add: encode_minst_def decoded_as_def Let_def)
qed

section \<open>Decode, then encode\<close>

lemma form_wf_legal: "form_wf T fm \<Longrightarrow> legal_length (int (fm_length_bits fm))"
  by (auto simp: form_wf_def legal_length_def)

lemma decode_Ok_cases:
  assumes wf: "tables_wf T" and dec: "decode_packed_word T w len out = (CS_Ok, m)"
  obtains fm where "legal_length len" "fm \<in> set (kForms T)" "form_wf T fm"
    "most_specific (matching_forms T len (w AND bit_mask (nat len))) = [fm]"
    "form_matches T len (w AND bit_mask (nat len)) fm"
    "m = snd (accept_form T fm (w AND bit_mask (nat len)) (fresh_out (w AND bit_mask (nat len)) len out))"
proof -
  have len: "legal_length len"
    using dec by (auto simp: decode_packed_word_def legal_length_def split: if_splits)
  let ?p = "w AND bit_mask (nat len)"
  from dec obtain fm where fm: "most_specific (matching_forms T len ?p) = [fm]"
    "m = snd (accept_form T fm ?p (fresh_out ?p len out))"
    by (auto simp: decode_cases [OF len] Let_def split: list.splits if_splits)
  then have "fm \<in> set (matching_forms T len ?p)"
    using set_most_specific [of fm "matching_forms T len ?p"] by simp
  then have "fm \<in> set (kForms T)" "form_matches T len ?p fm" by (auto simp: matching_forms_def)
  moreover from this wf have "form_wf T fm" by (simp add: tables_wf_def list_all_iff)
  ultimately show thesis using len fm that by blast
qed

lemma fresh_out_fields: "decoded_fields (fresh_out p len out) = []"
  by (simp add: fresh_out_def set_raw_encoding_def clear_decoded_state_def)

lemma decode_encode_aux:
  assumes wf: "tables_wf T" and dec: "decode_packed_word T w len out = (CS_Ok, m)"
  shows "encode_minst T m = \<lparr>ew_bits = w AND bit_mask (nat len), ew_length_bits = of_int len,
    ew_valid = True, ew_status = CS_Ok\<rparr>"
proof -
  let ?p = "w AND bit_mask (nat len)"
  obtain fm where fm: "legal_length len" "form_wf T fm" "form_matches T len ?p fm"
    "m = snd (accept_form T fm ?p (fresh_out ?p len out))"
    using decode_Ok_cases [OF assms] by metis
  have n: "fm_length_bits fm = nat len" "len = int (nat len)"
    using fm(1,3) by (auto simp: form_matches_def fixed_match_def legal_length_def)
  have "decoded_as T fm ?p m"
    unfolding fm(4) using fm(2)
    by (intro accept_form_eq(2) form_wf_distinct fresh_out_fields)
  moreover have "\<forall>i. bit ?p i \<longrightarrow> i < fm_length_bits fm"
    using n(1) by (auto simp: bit_and_iff bit_bit_mask)
  ultimately have "encode_minst T m = \<lparr>ew_bits = ?p, ew_length_bits = of_nat (fm_length_bits fm),
      ew_valid = True, ew_status = CS_Ok\<rparr>"
    using fm(2,3) by (intro encode_decoded)
  moreover have "(of_nat (fm_length_bits fm) :: u8) = of_int len"
    by (subst n(2)) (simp add: n(1))
  ultimately show ?thesis by simp
qed

end
