(* ===== verification/Codec_Inverse.thy ===== *)
theory Codec_Inverse
  imports Codec_Roundtrip
begin

text \<open>
  The other direction of the codec: encoding a packet and decoding the word, and the condition on
  the forms (pairwise separated at equal specificity) under which decoding is never ambiguous.
\<close>

section \<open>Encode, then decode\<close>

text \<open>Encoding inserts one list of pieces, each with the raw value of its field.\<close>

definition insert_all :: "(u64 \<times> piece_desc) list \<Rightarrow> u64 \<Rightarrow> u64" where
  "insert_all rps b = fold (\<lambda>(raw, p). insert_piece raw p) rps b"

definition field_code :: "minst \<Rightarrow> field_desc \<Rightarrow> u64" where
  "field_code m fd = (case find_decoded_field (fd_name fd) m of
     Some f \<Rightarrow> encode_field_bits fd (df_logical_value f) | None \<Rightarrow> 0)"

definition code_pieces :: "codec_tables \<Rightarrow> minst \<Rightarrow> field_desc list \<Rightarrow> (u64 \<times> piece_desc) list" where
  "code_pieces T m fds = concat (map (\<lambda>fd. map (Pair (field_code m fd)) (pieces_for T fd)) fds)"

lemma insert_all_map: "insert_all (map (Pair raw) ps) b = fold (insert_piece raw) ps b"
  by (simp add: insert_all_def fold_map o_def)

lemma insert_all_append: "insert_all (xs @ ys) b = insert_all ys (insert_all xs b)"
  by (simp add: insert_all_def)

lemma encode_fields_Inr:
  "encode_fields T m fds b = Inr r \<Longrightarrow>
   r = insert_all (code_pieces T m fds) b \<and>
   (\<forall>fd \<in> set fds. \<exists>f. find_decoded_field (fd_name fd) m = Some f \<and> fits_field fd (df_logical_value f))"
proof (induction fds arbitrary: b)
  case Nil
  then show ?case by (simp add: code_pieces_def insert_all_def)
next
  case (Cons fd fds)
  then obtain f where f: "find_decoded_field (fd_name fd) m = Some f" "fits_field fd (df_logical_value f)"
    "encode_fields T m fds (fold (insert_piece (field_code m fd)) (pieces_for T fd) b) = Inr r"
    by (auto simp: field_code_def split: option.splits if_splits)
  from Cons.IH [OF f(3)] f(1,2) show ?case
    by (auto simp: code_pieces_def insert_all_append insert_all_map)
qed

lemma insert_all_frame:
  "\<forall>(raw, p) \<in> set rps. \<not> bit (insn_mask p) i \<Longrightarrow> bit (insert_all rps b) i \<longleftrightarrow> bit b i"
  unfolding insert_all_def
proof (induction rps arbitrary: b)
  case Nil
  then show ?case by simp
next
  case (Cons rp rps)
  obtain raw p where rp: "rp = (raw, p)" by (cases rp)
  from Cons have "bit (fold (\<lambda>(raw, p). insert_piece raw p) rps (insert_piece raw p b)) i \<longleftrightarrow>
      bit (insert_piece raw p b) i" by simp
  with Cons.prems rp show ?case by (simp add: bit_insert_piece)
qed

lemma insert_all_bit:
  assumes "disjoint_masks acc (map (insn_mask o snd) rps)" "(raw, p) \<in> set rps" "bit (insn_mask p) i"
  shows "bit (insert_all rps b) i \<longleftrightarrow> bit raw (pd_value_lsb p + (i - pd_insn_lsb p))"
  using assms
proof (induction rps arbitrary: acc b)
  case Nil
  then show ?case by simp
next
  case (Cons rq rps)
  obtain raw' q where rq: "rq = (raw', q)" by (cases rq)
  have dis: "disjoint_masks (acc OR insn_mask q) (map (insn_mask o snd) rps)"
    using Cons.prems(1) rq by (simp add: o_def)
  have step: "insert_all (rq # rps) b = insert_all rps (insert_piece raw' q b)"
    by (simp add: insert_all_def rq)
  show ?case
  proof (cases "(raw, p) \<in> set rps")
    case True
    with Cons.IH [OF dis] Cons.prems(3) step show ?thesis by simp
  next
    case False
    with Cons.prems(2) rq have q: "q = p" "raw' = raw" by auto
    have "\<forall>(r, s) \<in> set rps. \<not> bit (insn_mask s) i"
      using disjoint_masks_acc [OF dis, of _ i] Cons.prems(3) by (fastforce simp: q bit_or_iff)
    with step Cons.prems(3) show ?thesis by (simp add: insert_all_frame bit_insert_piece q)
  qed
qed

lemma code_pieces_masks:
  "map (insn_mask o snd) (code_pieces T m (fields_for T fm)) = map insn_mask (form_pieces T fm)"
  by (simp add: code_pieces_def form_pieces_def map_concat o_def)

lemma set_code_pieces:
  "(raw, p) \<in> set (code_pieces T m fds) \<longleftrightarrow>
   (\<exists>fd \<in> set fds. raw = field_code m fd \<and> p \<in> set (pieces_for T fd))"
  by (auto simp: code_pieces_def)

text \<open>The word that encoding a form's packet produces.\<close>

definition coded_word :: "codec_tables \<Rightarrow> form_desc \<Rightarrow> minst \<Rightarrow> u64" where
  "coded_word T fm m = insert_all (code_pieces T m (fields_for T fm)) (fm_match fm)"

lemma coded_word_fixed:
  assumes "form_wf T fm"
  shows "coded_word T fm m AND fm_mask fm = fm_match fm"
proof (rule bit_word_eqI)
  fix i
  have dis: "disjoint_masks (fm_mask fm) (map (insn_mask o snd) (code_pieces T m (fields_for T fm)))"
    using assms by (simp add: form_wf_def code_pieces_masks)
  have "bit (coded_word T fm m) i \<longleftrightarrow> bit (fm_match fm) i" if "bit (fm_mask fm) i"
    unfolding coded_word_def
    by (rule insert_all_frame) (use disjoint_masks_acc [OF dis _ that] in fastforce)
  moreover have "bit (fm_match fm) i \<longrightarrow> bit (fm_mask fm) i"
    using assms and_absorb_bit [of "fm_match fm" "fm_mask fm"] by (simp add: form_wf_def)
  ultimately show "bit (coded_word T fm m AND fm_mask fm) i \<longleftrightarrow> bit (fm_match fm) i"
    by (auto simp: bit_and_iff)
qed

lemma coded_word_piece:
  assumes "form_wf T fm" "fd \<in> set (fields_for T fm)" "p \<in> set (pieces_for T fd)" "bit (insn_mask p) i"
  shows "bit (coded_word T fm m) i \<longleftrightarrow> bit (field_code m fd) (pd_value_lsb p + (i - pd_insn_lsb p))"
  unfolding coded_word_def
  by (rule insert_all_bit [where acc = "fm_mask fm"])
    (use assms in \<open>auto simp: form_wf_def code_pieces_masks set_code_pieces\<close>)

lemma coded_word_bounded:
  assumes "form_wf T fm" "bit (coded_word T fm m) i"
  shows "i < fm_length_bits fm"
proof (rule ccontr)
  assume "\<not> i < fm_length_bits fm"
  then have no: "\<not> bit (fm_mask fm) i"
    "\<forall>fd \<in> set (fields_for T fm). \<forall>p \<in> set (pieces_for T fd). \<not> bit (insn_mask p) i"
    using form_cover [OF assms(1), of i] by auto
  then have "bit (coded_word T fm m) i \<longleftrightarrow> bit (fm_match fm) i"
    unfolding coded_word_def by (intro insert_all_frame) (auto simp: set_code_pieces)
  with no(1) assms show False
    using and_absorb_bit [of "fm_match fm" "fm_mask fm"] by (simp add: form_wf_def)
qed

lemma bit_extract_raw_iff:
  assumes "field_wf T fd"
  shows "bit (extract_raw T fd w) k \<longleftrightarrow>
    (\<exists>p \<in> set (pieces_for T fd). bit (value_mask p) k \<and> bit w (pd_insn_lsb p + (k - pd_value_lsb p)))"
proof (cases "\<exists>p \<in> set (pieces_for T fd). bit (value_mask p) k")
  case True
  then show ?thesis using bit_extract_raw [OF assms] by blast
next
  case False
  then have "bit (extract_raw T fd w) k \<longleftrightarrow> bit (0 :: u64) k"
    unfolding extract_raw_def by (intro extract_fold_frame) blast
  with False show ?thesis by auto
qed

lemma extract_coded:
  assumes wf: "form_wf T fm" and fd: "fd \<in> set (fields_for T fm)"
  shows "extract_raw T fd (coded_word T fm m) =
    field_code m fd AND union_masks 0 (map value_mask (pieces_for T fd))"
proof (rule bit_word_eqI)
  fix k
  have fwf: "field_wf T fd" by (rule form_wf_field [OF wf fd])
  have "bit (coded_word T fm m) (pd_insn_lsb p + (k - pd_value_lsb p)) \<longleftrightarrow> bit (field_code m fd) k"
    if p: "p \<in> set (pieces_for T fd)" "bit (value_mask p) k" for p
  proof -
    let ?i = "pd_insn_lsb p + (k - pd_value_lsb p)"
    have "bit (insn_mask p) ?i"
      using p(2) field_wfD [OF fwf p(1)] by (auto simp: bit_insn_mask bit_value_mask)
    from coded_word_piece [OF wf fd p(1) this] p(2) show ?thesis by (simp add: bit_value_mask)
  qed
  then show "bit (extract_raw T fd (coded_word T fm m)) k \<longleftrightarrow>
      bit (field_code m fd AND union_masks 0 (map value_mask (pieces_for T fd))) k"
    by (auto simp: bit_extract_raw_iff [OF fwf] bit_and_iff bit_union_masks)
qed

lemma extract_coded_exact:
  assumes "form_wf T fm" "fd \<in> set (fields_for T fm)" "field_exact T fd"
  shows "extract_raw T fd (coded_word T fm m) = field_code m fd"
proof (rule bit_word_eqI)
  fix i
  have "bit (field_code m fd) i \<Longrightarrow> i < fd_bit_width fd"
    by (auto simp: field_code_def bit_encode_field_bits split: option.splits)
  then show "bit (extract_raw T fd (coded_word T fm m)) i \<longleftrightarrow> bit (field_code m fd) i"
    using assms by (auto simp: extract_coded field_exact_def bit_and_iff bit_bit_mask dest: bit64)
qed

text \<open>When encoding succeeds.\<close>

lemma check_constraints_Ok:
  "check_constraints m cs = CS_Ok \<Longrightarrow> c \<in> set cs \<Longrightarrow>
   \<exists>f. find_decoded_field (cd_field_name c) m = Some f \<and>
       evaluate_constraint (cd_op c) (df_logical_value f) (cd_value c)"
  by (induction cs) (auto split: option.splits if_splits)

lemma encode_valid:
  assumes "ew_valid (encode_minst T m)" "form m = Some fm" "form_wf T fm"
  shows "encode_minst T m = \<lparr>ew_bits = coded_word T fm m, ew_length_bits = of_nat (fm_length_bits fm),
      ew_valid = True, ew_status = CS_Ok\<rparr>"
    and "check_constraints m (constraints_for T fm) = CS_Ok"
    and "fd \<in> set (fields_for T fm) \<Longrightarrow>
      \<exists>f. find_decoded_field (fd_name fd) m = Some f \<and> fits_field fd (df_logical_value f)"
proof -
  from assms(1,2) obtain r where valid: "valid_form m"
    and r: "encode_fields T m (fields_for T fm) (fm_match fm) = Inr r"
    and c: "check_constraints m (constraints_for T fm) = CS_Ok"
    by (auto simp: encode_minst_def encode_failure_def split: if_splits sum.splits codec_status.splits)
  have len: "unat (of_nat (fm_length_bits fm) :: u8) = fm_length_bits fm"
    using assms(3) by (auto simp: form_wf_def)
  have rw: "r = coded_word T fm m" using encode_fields_Inr [OF r] by (simp add: coded_word_def)
  have "r AND bit_mask (fm_length_bits fm) = r"
    using coded_word_bounded [OF assms(3)] rw by (auto simp: and_absorb_bit bit_bit_mask dest: bit64)
  then show "encode_minst T m = \<lparr>ew_bits = coded_word T fm m, ew_length_bits = of_nat (fm_length_bits fm),
      ew_valid = True, ew_status = CS_Ok\<rparr>"
    using valid r c assms(2) len rw by (simp add: encode_minst_def Let_def)
  show "check_constraints m (constraints_for T fm) = CS_Ok" by (rule c)
  show "fd \<in> set (fields_for T fm) \<Longrightarrow>
      \<exists>f. find_decoded_field (fd_name fd) m = Some f \<and> fits_field fd (df_logical_value f)"
    using encode_fields_Inr [OF r] by blast
qed

lemma decoded_coded_value:
  assumes "form_wf T fm" "fd \<in> set (fields_for T fm)" "field_exact T fd"
    "find_decoded_field (fd_name fd) m = Some f" "fits_field fd (df_logical_value f)"
  shows "decoded_value T fd (coded_word T fm m) = df_logical_value f"
  using form_wf_field [OF assms(1,2)] assms(4,5) logical_of_encoded [of fd "df_logical_value f"]
  by (simp add: decoded_value_raw extract_coded_exact [OF assms(1-3)] field_code_def field_wf_def)

lemma coded_word_matches:
  assumes valid: "ew_valid (encode_minst T m)" and fm: "form m = Some fm" and wf: "form_wf T fm"
    and exact: "\<forall>fd \<in> set (fields_for T fm). field_exact T fd"
  shows "form_matches T (int (fm_length_bits fm)) (coded_word T fm m) fm"
proof -
  note enc = encode_valid [OF valid fm wf]
  have "constraint_holds T fm (coded_word T fm m) c" if c: "c \<in> set (constraints_for T fm)" for c
  proof -
    from wf c obtain fd0 where "fd0 \<in> set (fields_for T fm)" "fd_name fd0 = cd_field_name c"
      by (auto simp: form_wf_def list_all_iff)
    then obtain fd where fd: "List.find (\<lambda>d. fd_name d = cd_field_name c) (fields_for T fm) = Some fd"
      by (cases "List.find (\<lambda>d. fd_name d = cd_field_name c) (fields_for T fm)") (auto simp: find_None_iff)
    then have in_fd: "fd \<in> set (fields_for T fm)" "fd_name fd = cd_field_name c"
      by (auto simp: find_Some_iff)
    from enc(3) [OF in_fd(1)] obtain f where f: "find_decoded_field (fd_name fd) m = Some f"
      "fits_field fd (df_logical_value f)" by blast
    have "decoded_value T fd (coded_word T fm m) = df_logical_value f"
      using decoded_coded_value [OF wf in_fd(1) _ f] exact in_fd(1) by blast
    with check_constraints_Ok [OF enc(2) c] f(1) in_fd(2) fd show ?thesis
      by (simp add: constraint_holds_def extract_field_value_eq)
  qed
  then show ?thesis
    by (simp add: form_matches_def fixed_match_def coded_word_fixed [OF wf] list_all_iff)
qed

section \<open>Ambiguity\<close>

text \<open>Two forms of one length and specificity whose fixed bits contradict each other.\<close>

definition separated :: "form_desc \<Rightarrow> form_desc \<Rightarrow> bool" where
  "separated f g \<longleftrightarrow> fm_length_bits f \<noteq> fm_length_bits g \<or> fm_fixed_bits f \<noteq> fm_fixed_bits g \<or>
     (fm_match f XOR fm_match g) AND (fm_mask f AND fm_mask g) \<noteq> 0"

fun pairwise_separated :: "form_desc list \<Rightarrow> bool" where
  "pairwise_separated [] \<longleftrightarrow> True"
| "pairwise_separated (f # fs) \<longleftrightarrow> list_all (separated f) fs \<and> pairwise_separated fs"

lemma pairwise_separated_filter: "pairwise_separated fs \<Longrightarrow> pairwise_separated (filter P fs)"
  by (induction fs) (auto simp: list_all_iff)

lemma separated_no_common:
  assumes "separated f g" "fixed_match len w f" "fixed_match len w g"
  shows "fm_fixed_bits f \<noteq> fm_fixed_bits g"
proof
  assume same: "fm_fixed_bits f = fm_fixed_bits g"
  have "(fm_match f XOR fm_match g) AND (fm_mask f AND fm_mask g) = 0"
    using assms(2,3) unfolding fixed_match_def and_zero_bit
    by (auto simp: bit_xor_iff bit_and_iff) (metis bit_and_iff)+
  with same assms show False by (auto simp: separated_def fixed_match_def)
qed

lemma most_specific_unique:
  assumes "pairwise_separated (kForms T)"
  shows "length (most_specific (matching_forms T len w)) \<le> 1"
proof (rule ccontr)
  let ?ms = "most_specific (matching_forms T len w)"
  assume "\<not> length ?ms \<le> 1"
  then obtain f g rest where fg: "?ms = f # g # rest"
    by (metis One_nat_def length_0_conv length_Suc_conv list.exhaust not_less_eq_eq le0 zero_le_one)
  have "pairwise_separated ?ms"
    using assms by (simp add: most_specific_def matching_forms_def pairwise_separated_filter)
  then have sep: "separated f g" by (simp add: fg)
  have "f \<in> set ?ms" "g \<in> set ?ms" by (simp_all add: fg)
  then have "fixed_match len w f" "fixed_match len w g" "fm_fixed_bits f = fm_fixed_bits g"
    by (auto simp: most_specific_def matching_forms_def form_matches_def)
  with separated_no_common [OF sep] show False by blast
qed

lemma decode_never_ambiguous_aux:
  assumes "pairwise_separated (kForms T)" "tables_wf T"
  shows "fst (decode_packed_word T w len out) \<noteq> CS_AmbiguousMatch"
proof (cases "legal_length len")
  case False
  then show ?thesis by (auto simp: decode_packed_word_def legal_length_def)
next
  case True
  let ?p = "w AND bit_mask (nat len)"
  show ?thesis
  proof (cases "most_specific (matching_forms T len ?p)")
    case Nil
    then show ?thesis by (simp add: decode_cases [OF True] Let_def)
  next
    case (Cons fm rest)
    with most_specific_unique [OF assms(1), of len ?p] have "rest = []" by simp
    with Cons have one: "most_specific (matching_forms T len ?p) = [fm]" by simp
    then have "fm \<in> set (most_specific (matching_forms T len ?p))" by simp
    then have "fm \<in> set (kForms T)" by (simp add: most_specific_def matching_forms_def)
    then have "distinct (map fd_name (fields_for T fm))"
      using assms(2) by (auto simp: tables_wf_def list_all_iff form_wf_def)
    then show ?thesis
      by (simp add: decode_cases [OF True] one Let_def accept_form_eq(1) fresh_out_fields)
  qed
qed

lemma count_list_filter_le: "count_list (filter P xs) x \<le> count_list xs x"
  by (induction xs) auto

text \<open>Encoding and decoding again gives back the form and every field value.\<close>

lemma encode_decode_aux:
  assumes wf: "tables_wf T" and fm: "form m = Some fm" "fm \<in> set (kForms T)"
    and exact: "\<forall>fd \<in> set (fields_for T fm). field_exact T fd"
    and valid: "ew_valid (encode_minst T m)"
    and uniq: "\<forall>g \<in> set (kForms T). g \<noteq> fm \<longrightarrow>
      form_matches T (int (fm_length_bits fm)) (ew_bits (encode_minst T m)) g \<longrightarrow>
      fm_fixed_bits g < fm_fixed_bits fm"
    and once: "count_list (kForms T) fm = 1"
  shows "\<exists>m'. decode_packed_word T (ew_bits (encode_minst T m)) (int (fm_length_bits fm)) out = (CS_Ok, m')
    \<and> form m' = Some fm
    \<and> (\<forall>fd \<in> set (fields_for T fm). get_field_signed (fd_name fd) m' = get_field_signed (fd_name fd) m)"
proof -
  have fwf: "form_wf T fm" using wf fm(2) by (simp add: tables_wf_def list_all_iff)
  note enc = encode_valid [OF valid fm(1) fwf]
  let ?w = "coded_word T fm m" and ?len = "int (fm_length_bits fm)"
  have bits: "ew_bits (encode_minst T m) = ?w" by (simp add: enc(1))
  have pk: "?w AND bit_mask (nat ?len) = ?w"
    using coded_word_bounded [OF fwf] by (auto simp: and_absorb_bit bit_bit_mask dest: bit64)
  have mt: "form_matches T ?len ?w fm" by (rule coded_word_matches [OF valid fm(1) fwf exact])
  let ?cs = "matching_forms T ?len ?w"
  have cs: "fm \<in> set ?cs" using mt fm(2) by (simp add: matching_forms_def)
  have less: "g \<in> set ?cs \<Longrightarrow> g \<noteq> fm \<Longrightarrow> fm_fixed_bits g < fm_fixed_bits fm" for g
    using uniq bits by (auto simp: matching_forms_def)
  then have "fm \<in> set (most_specific ?cs)" using cs by (fastforce simp: set_most_specific)
  moreover have "set (most_specific ?cs) \<subseteq> {fm}"
    using less cs by (fastforce simp: set_most_specific)
  moreover have "count_list (most_specific ?cs) fm \<le> 1"
    using once count_list_filter_le [of _ "kForms T" fm]
    by (simp add: matching_forms_def most_specific_def)
  ultimately have one: "most_specific ?cs = [fm]"
    by (cases "most_specific ?cs" rule: remdups_adj.cases) auto
  let ?o = "fresh_out ?w ?len out"
  have dec: "decode_packed_word T ?w ?len out = accept_form T fm ?w ?o"
    by (simp only: decode_cases [OF form_wf_legal [OF fwf]] pk one Let_def) simp
  let ?m' = "snd (accept_form T fm ?w ?o)"
  note acc = accept_form_eq [OF form_wf_distinct [OF fwf] fresh_out_fields, of ?w ?w ?len out]
  have "get_field_signed (fd_name fd) ?m' = get_field_signed (fd_name fd) m"
    if fd: "fd \<in> set (fields_for T fm)" for fd
  proof -
    from enc(3) [OF fd] obtain f where f: "find_decoded_field (fd_name fd) m = Some f"
      "fits_field fd (df_logical_value f)" by blast
    have "decoded_value T fd ?w = df_logical_value f"
      using decoded_coded_value [OF fwf fd _ f] exact fd by blast
    with find_decoded [OF acc(2) form_wf_distinct [OF fwf] fd] f(1) show ?thesis
      by (simp add: get_field_signed_def field_of_def)
  qed
  then show ?thesis
    using acc(1,2) by (intro exI [of _ ?m']) (auto simp: bits dec prod_eq_iff decoded_as_def)
qed

end
