(* ===== verification/Codec_Tables.thy ===== *)
theory Codec_Tables
  imports Codec_Roundtrip
begin

text \<open>
  Writing descriptor tables down and checking them: constructors with positional arguments, and
  \<open>tables_wf\<close> unfolded to a computation.  \<open>excerpt_tables\<close> holds some of the forms of
  \<^verbatim>\<open>src/isa/generated_tables.cpp\<close>, copied with their field and piece indices renumbered (the
  shipped arrays hold 794 forms); the concrete instances of the codec's and the executor's
  theorems are stated on it.
\<close>

section \<open>Constructors\<close>

definition mk_piece :: "nat \<Rightarrow> nat \<Rightarrow> nat \<Rightarrow> piece_desc" where
  "mk_piece insn_lsb width value_lsb =
     \<lparr>pd_insn_lsb = insn_lsb, pd_width = width, pd_value_lsb = value_lsb\<rparr>"

definition mk_field :: "string \<Rightarrow> int \<Rightarrow> nat \<Rightarrow> nat \<Rightarrow> nat \<Rightarrow> field_desc" where
  "mk_field name signed_hint bit_width piece_start piece_count =
     \<lparr>fd_name = name, fd_signed_hint = signed_hint, fd_bit_width = bit_width,
      fd_piece_start = piece_start, fd_piece_count = piece_count\<rparr>"

definition mk_constraint :: "string \<Rightarrow> constraint_op \<Rightarrow> i64 \<Rightarrow> string \<Rightarrow> constraint_desc" where
  "mk_constraint field_name constraint_op value value_raw =
     \<lparr>cd_field_name = field_name, cd_op = constraint_op, cd_value = value, cd_value_raw = value_raw\<rparr>"

definition mk_form :: "string \<Rightarrow> string \<Rightarrow> string \<Rightarrow> string \<Rightarrow> string \<Rightarrow> string \<Rightarrow> string \<Rightarrow>
    nat \<Rightarrow> nat \<Rightarrow> u64 \<Rightarrow> u64 \<Rightarrow> nat \<Rightarrow> nat \<Rightarrow> nat \<Rightarrow> nat \<Rightarrow> form_desc" where
  "mk_form uid_text mnemonic_text asm_text kind grp uop big len fixed mask_bits match_bits
     field_start field_count constraint_start constraint_count =
     \<lparr>fm_uid = uid_text, fm_mnemonic = mnemonic_text, fm_asm_template = asm_text,
      fm_encoding_kind = kind, fm_group = grp, fm_uop_group = uop, fm_uop_big_kind = big,
      fm_length_bits = len, fm_fixed_bits = fixed, fm_mask = mask_bits, fm_match = match_bits,
      fm_field_start = field_start, fm_field_count = field_count,
      fm_constraint_start = constraint_start, fm_constraint_count = constraint_count\<rparr>"

lemmas mk_defs = mk_piece_def mk_field_def mk_constraint_def mk_form_def

definition excerpt_pieces :: "piece_desc list" where
  "excerpt_pieces = [
    mk_piece 7 5 0, mk_piece 15 5 0, mk_piece 20 12 0, mk_piece 7 25 0, mk_piece 4 12 0, mk_piece 4 12 0,
    mk_piece 11 3 0, mk_piece 11 5 0, mk_piece 6 5 0, mk_piece 7 25 0, mk_piece 38 5 0, mk_piece 31 17 1,
    mk_piece 4 12 18, mk_piece 7 5 0, mk_piece 15 5 0, mk_piece 20 12 0, mk_piece 15 5 0, mk_piece 20 5 0,
    mk_piece 25 7 0, mk_piece 7 5 7]"

definition excerpt_fields :: "field_desc list" where
  "excerpt_fields = [
    mk_field ''RegDst'' (-1) 5 0 1, mk_field ''SrcL'' (-1) 5 1 1, mk_field ''uimm12'' 0 12 2 1,
    mk_field ''simm25'' 1 25 3 1, mk_field ''simm12'' 1 12 4 1, mk_field ''simm12'' 1 12 5 1,
    mk_field ''BrType'' (-1) 3 6 1, mk_field ''RegDst'' (-1) 5 7 1, mk_field ''simm5'' 1 5 8 1,
    mk_field ''simm25'' 1 25 9 1, mk_field ''uimm5'' 0 5 10 1, mk_field ''simm'' 1 30 11 2,
    mk_field ''RegDst'' (-1) 5 13 1, mk_field ''SrcL'' (-1) 5 14 1, mk_field ''simm12'' 1 12 15 1,
    mk_field ''SrcL'' (-1) 5 16 1, mk_field ''SrcR'' (-1) 5 17 1, mk_field ''simm12'' 1 12 18 2]"

definition excerpt_constraints :: "constraint_desc list" where
  "excerpt_constraints = [
    mk_constraint ''BrType'' Op_Ne 0 ''0'', mk_constraint ''BrType'' Op_Ne 2 ''2'',
    mk_constraint ''BrType'' Op_Ne 3 ''3'', mk_constraint ''BrType'' Op_Ne 4 ''4'',
    mk_constraint ''BrType'' Op_Ne 6 ''6'', mk_constraint ''RegDst'' Op_Ne 10 ''10'']"

definition excerpt_forms :: "form_desc list" where
  "excerpt_forms = [
    mk_form ''2decd0a93a0a'' ''ADDI'' ''addi SrcL, uimm, ->{t, u, Rd}'' ''L32'' ''ALU'' ''ALU'' ''ALU''
      32 10 0x707f 0x15 0 3 0 0,
    mk_form ''7eb93b649748'' ''BSTART'' ''BSTART DIRECT, <label>'' ''L32'' ''Bundle Split'' ''CMD'' ''CMD''
      32 7 0x7f 0x11 3 1 0 0,
    mk_form ''f833d2a4753c'' ''C.BSTART'' ''C.BSTART DIRECT, label'' ''C16'' ''Bundle Split'' ''CMD'' ''CMD''
      16 4 0xf 0x2 4 1 0 0,
    mk_form ''c4e238a9227a'' ''C.BSTART'' ''C.BSTART COND,  label'' ''C16'' ''Bundle Split'' ''CMD'' ''CMD''
      16 4 0xf 0x4 5 1 0 0,
    mk_form ''8b40f078c14a'' ''C.BSTART.STD'' ''C.BSTART.STD {FALL, IND, RET}'' ''C16'' ''C.BSTART'' ''BBD'' ''BBD''
      16 13 0xc7ff 0x0 6 1 0 5,
    mk_form ''ca4743d8a95e'' ''C.BSTOP'' ''C.BSTOP'' ''C16'' ''Bundle Split'' ''CMD'' ''CMD''
      16 16 0xffff 0x0 7 0 5 0,
    mk_form ''2c84faf1bc72'' ''C.MOVI'' ''c.movi simm, ->{t, u, Rd}'' ''C16'' ''ALU'' ''ALU'' ''ALU''
      16 6 0x3f 0x16 7 2 5 1,
    mk_form ''d71cee46ab50'' ''HL.BSTART CALL'' ''HL.BSTART.CALL <br_label>, <rt_label>, ->ra'' ''HL48'' ''BSTART'' ''BBD'' ''BBD''
      48 18 0xf83f0000007f 0x501600000011 9 2 6 0,
    mk_form ''c970f578674f'' ''HL.BSTART.STD'' ''HL.BSTART.STD DIRECT, <label>'' ''HL48'' ''BSTART'' ''BBD'' ''BBD''
      48 19 0x7fff000f 0x2001000e 11 1 6 0,
    mk_form ''7085c98058fa'' ''LWI'' ''lwi [SrcL, simm], ->{t, u, Rd}'' ''L32'' ''LDA/BASE_IMM'' ''LDA/BASE_IMM'' ''AGU''
      32 10 0x707f 0x2019 12 3 6 0,
    mk_form ''147e55489c41'' ''SWI'' ''swi SrcL, [SrcR, simm]'' ''L32'' ''STA/BASE_IMM'' ''STA/BASE_IMM'' ''AGU''
      32 10 0x707f 0x2059 15 3 6 0]"

definition excerpt_tables :: codec_tables where
  "excerpt_tables = \<lparr>kFieldPieces = excerpt_pieces, kFields = excerpt_fields,
     kConstraints = excerpt_constraints, kForms = excerpt_forms\<rparr>"

lemmas excerpt_defs = excerpt_tables_def excerpt_pieces_def excerpt_fields_def
  excerpt_constraints_def excerpt_forms_def mk_defs

lemmas table_eval = form_wf_def field_wf_def form_pieces_def fields_for_def pieces_for_def
  constraints_for_def insn_mask_def value_mask_def bit_mask_def union_masks_def push_bit_eq_mult

lemma excerpt_wf: "tables_wf excerpt_tables"
  by (simp add: tables_wf_def excerpt_defs table_eval)

end
