(* ===== verification/Codec_Claims.thy ===== *)
theory Codec_Claims
  imports Codec_Inverse Codec_Tables
begin

text \<open>
  What the codec guarantees: which status a decode ends with, that encoding undoes decoding and
  decoding undoes encoding, that the tables leave no word ambiguous, and how the typed views and the
  life cycle of the packet behave.  Concrete instances run on \<open>excerpt_tables\<close>.
\<close>

lemma excerpt_separated: "pairwise_separated (kForms excerpt_tables)"
  by (simp add: separated_def excerpt_defs)

lemmas decode_eval = decode_packed_word_def Let_def scan_forms_def scan_form_def
  constraint_holds_def extract_field_value_def extract_raw_def extract_piece_def sign_extend_def
  bit_mask_def fields_for_def constraints_for_def pieces_for_def push_bit_eq_mult drop_bit_eq_div

section \<open>Decoding\<close>

lemma store_fields_Ok: "fst (store_fields T packed fds m) = CS_Ok"
  by (induction fds arbitrary: m) (simp_all add: extract_field_value_eq)

lemma accept_form_Ok: "fst (accept_form T fm packed out) = CS_Ok"
  unfolding accept_form_def Let_def by (rule store_fields_Ok)

lemma decode_status_exact_aux:
  "(fst (decode_packed_word T w len out) = CS_InvalidLength \<longleftrightarrow> \<not> legal_length len) \<and>
   (let packed = w AND bit_mask (nat len); best = most_specific (matching_forms T len packed) in
    (fst (decode_packed_word T w len out) = CS_Ok \<longleftrightarrow> legal_length len \<and> (\<exists>fm. best = [fm])) \<and>
    (fst (decode_packed_word T w len out) = CS_AmbiguousMatch \<longleftrightarrow> legal_length len \<and> 2 \<le> length best) \<and>
    (fst (decode_packed_word T w len out) = CS_ConstraintViolation \<longleftrightarrow> legal_length len \<and> best = [] \<and>
       (\<exists>fm \<in> set (kForms T). fixed_match len packed fm)) \<and>
    (fst (decode_packed_word T w len out) = CS_NoMatch \<longleftrightarrow> legal_length len \<and>
       \<not> (\<exists>fm \<in> set (kForms T). fixed_match len packed fm)))"
proof (cases "legal_length len")
  case False
  then show ?thesis by (auto simp: decode_packed_word_def legal_length_def Let_def)
next
  case True
  let ?p = "w AND bit_mask (nat len)"
  let ?best = "most_specific (matching_forms T len ?p)"
  have none: "?best = []" if "\<not> (\<exists>fm \<in> set (kForms T). fixed_match len ?p fm)"
    using that by (auto simp: most_specific_empty matching_forms_def form_matches_def filter_empty_conv)
  consider "?best = []" | fm where "?best = [fm]" | a b cs where "?best = a # b # cs"
    by (metis remdups_adj.cases)
  then show ?thesis
  proof cases
    case 1
    with True show ?thesis by (simp add: decode_cases [OF True] Let_def)
  next
    case 2
    moreover have "fst (accept_form T fm ?p (fresh_out ?p len out)) = CS_Ok"
      by (rule accept_form_Ok)
    ultimately show ?thesis using True none by (auto simp: decode_cases [OF True] Let_def)
  next
    case 3
    then show ?thesis using True none by (auto simp: decode_cases [OF True] Let_def)
  qed
qed


text \<open>C7: a decode ends with \<open>InvalidLength\<close> exactly when the length is none of 16, 32, 48 and 64
  bits; otherwise with \<open>Ok\<close> exactly when one single form is the most specific among the forms
  whose fixed bits and constraints the word meets, with \<open>AmbiguousMatch\<close> exactly when several are,
  with \<open>ConstraintViolation\<close> exactly when fixed bits matched but every such form was refused by
  a constraint, and with \<open>NoMatch\<close> exactly when no fixed bits matched.\<close>
theorem decode_status_exact:
  "(fst (decode_packed_word T w len out) = CS_InvalidLength \<longleftrightarrow> \<not> legal_length len) \<and>
   (let packed = w AND bit_mask (nat len); best = most_specific (matching_forms T len packed) in
    (fst (decode_packed_word T w len out) = CS_Ok \<longleftrightarrow> legal_length len \<and> (\<exists>fm. best = [fm])) \<and>
    (fst (decode_packed_word T w len out) = CS_AmbiguousMatch \<longleftrightarrow> legal_length len \<and> 2 \<le> length best) \<and>
    (fst (decode_packed_word T w len out) = CS_ConstraintViolation \<longleftrightarrow> legal_length len \<and> best = [] \<and>
       (\<exists>fm \<in> set (kForms T). fixed_match len packed fm)) \<and>
    (fst (decode_packed_word T w len out) = CS_NoMatch \<longleftrightarrow> legal_length len \<and>
       \<not> (\<exists>fm \<in> set (kForms T). fixed_match len packed fm)))"
  by (rule decode_status_exact_aux)

text \<open>C1: for well-formed tables, a packet that decoded without error encodes back to exactly the
  word it came from (cut to the instruction's length), with the same length and status \<open>Ok\<close>.\<close>
theorem decode_encode:
  assumes "tables_wf T" and "decode_packed_word T w len out = (CS_Ok, m)"
  shows "encode_minst T m = \<lparr>ew_bits = w AND bit_mask (nat len), ew_length_bits = of_int len,
    ew_valid = True, ew_status = CS_Ok\<rparr>"
  using assms by (rule decode_encode_aux)

lemma sample_decodes:
  "decode_packed_word excerpt_tables 0x12308195 32 minst_default =
   (CS_Ok, snd (decode_packed_word excerpt_tables 0x12308195 32 minst_default))"
proof -
  have "fst (decode_packed_word excerpt_tables 0x12308195 32 minst_default) = CS_Ok"
    by (simp add: decode_eval excerpt_defs accept_form_def set_form_def)
  then show ?thesis by (metis prod.collapse)
qed

theorem decode_encode_witness:
  "ew_bits (encode_minst excerpt_tables
     (snd (decode_packed_word excerpt_tables 0x12308195 32 minst_default))) = 0x12308195"
  using decode_encode [OF excerpt_wf sample_decodes] by (simp add: bit_mask_def push_bit_eq_mult)

text \<open>C2: take well-formed tables and a packet whose form is in them once and has only fields that keep every
  bit (\<open>field_exact\<close>; the \<open>simm\<close> fields of the shipped \<open>HL.BSTART\<close> forms do not, see
  \<open>encode_drops_target_bit\<close>).  When the packet encodes successfully, and every other form of the same
  length that the word also meets is less specific, decoding the word gives the same form and, for every
  field of it, the logical value that was encoded.\<close>
theorem encode_decode:
  assumes "tables_wf T" and "form m = Some fm" and "fm \<in> set (kForms T)"
    and "\<forall>fd \<in> set (fields_for T fm). field_exact T fd"
    and "ew_valid (encode_minst T m)"
    and "\<forall>g \<in> set (kForms T). g \<noteq> fm \<longrightarrow>
      form_matches T (int (fm_length_bits fm)) (ew_bits (encode_minst T m)) g \<longrightarrow>
      fm_fixed_bits g < fm_fixed_bits fm"
    and "count_list (kForms T) fm = 1"
  shows "\<exists>m'. decode_packed_word T (ew_bits (encode_minst T m)) (int (fm_length_bits fm)) out = (CS_Ok, m')
    \<and> form m' = Some fm
    \<and> (\<forall>fd \<in> set (fields_for T fm). get_field_signed (fd_name fd) m' = get_field_signed (fd_name fd) m)"
  using assms by (rule encode_decode_aux)

definition sample_form :: form_desc where
  "sample_form = the (lookup_form_by_mnemonic excerpt_tables ''LWI'')"

definition sample_packet :: minst where
  "sample_packet = set_decoded_field ''simm12'' (- 5) True 12 (set_decoded_field ''SrcL'' 9 False 5
     (set_decoded_field ''RegDst'' 3 False 5 (set_form (Some sample_form) minst_default)))"

theorem encode_decode_witness:
  "\<exists>m'. decode_packed_word excerpt_tables (ew_bits (encode_minst excerpt_tables sample_packet)) 32
      minst_default = (CS_Ok, m') \<and> get_field_signed ''simm12'' m' = Some (- 5)"
proof -
  have form: "form sample_packet = Some sample_form" by code_simp
  have member: "sample_form \<in> set (kForms excerpt_tables)"
    by (simp add: sample_form_def lookup_form_by_mnemonic_def all_minst_forms_def excerpt_defs)
  have exact: "\<forall>fd \<in> set (fields_for excerpt_tables sample_form). field_exact excerpt_tables fd"
    by (simp add: sample_form_def lookup_form_by_mnemonic_def all_minst_forms_def excerpt_defs
        fields_for_def field_exact_def pieces_for_def value_mask_def bit_mask_def union_masks_def
        push_bit_eq_mult)
  have valid: "ew_valid (encode_minst excerpt_tables sample_packet)" by code_simp
  have uniq: "\<forall>g \<in> set (kForms excerpt_tables). g \<noteq> sample_form \<longrightarrow>
      form_matches excerpt_tables (int (fm_length_bits sample_form))
        (ew_bits (encode_minst excerpt_tables sample_packet)) g \<longrightarrow>
      fm_fixed_bits g < fm_fixed_bits sample_form" by code_simp
  have once: "count_list (kForms excerpt_tables) sample_form = 1" by code_simp
  have len: "int (fm_length_bits sample_form) = 32" by code_simp
  have fld: "\<exists>fd \<in> set (fields_for excerpt_tables sample_form). fd_name fd = ''simm12''" by code_simp
  have val: "get_field_signed ''simm12'' sample_packet = Some (- 5)" by code_simp
  show ?thesis
    using encode_decode [OF excerpt_wf form member exact valid uniq once, of minst_default] fld val
    unfolding len by metis
qed

text \<open>C15: when any two forms of the same length and specificity differ in a bit that both fix, no
  word is ever reported ambiguous.\<close>
theorem decode_never_ambiguous:
  assumes "pairwise_separated (kForms T)" and "tables_wf T"
  shows "fst (decode_packed_word T w len out) \<noteq> CS_AmbiguousMatch"
  using assms by (rule decode_never_ambiguous_aux)

theorem decode_never_ambiguous_witness:
  "fst (decode_packed_word excerpt_tables 0 16 minst_default) \<noteq> CS_AmbiguousMatch"
  by (rule decode_never_ambiguous [OF excerpt_separated excerpt_wf])

section \<open>A field that loses a bit\<close>

definition lossy_target :: minst where
  "lossy_target = set_decoded_field ''simm'' 1 True 30
     (set_form (lookup_form_by_mnemonic excerpt_tables ''HL.BSTART.STD'') minst_default)"

text \<open>The 30-bit branch target of \<open>HL.BSTART.STD\<close> is split into pieces that hold its bits 1 to
  29 only.  Encoding the odd target 1 succeeds, and the word decodes without error to target 0:
  the encoder accepts a value that the word cannot represent.\<close>
lemma encode_drops_target_bit:
  "ew_valid (encode_minst excerpt_tables lossy_target) \<and>
   get_field_signed ''simm'' lossy_target = Some 1 \<and>
   fst (decode_packed_word excerpt_tables (ew_bits (encode_minst excerpt_tables lossy_target)) 48
     minst_default) = CS_Ok \<and>
   get_field_signed ''simm'' (snd (decode_packed_word excerpt_tables
     (ew_bits (encode_minst excerpt_tables lossy_target)) 48 minst_default)) = Some 0"
  by code_simp

section \<open>The packet\<close>

text \<open>C28: the typed views are a function of the decoded fields and the form's groups: a source
  operand for every source field, a destination for every destination field that is no source, the
  immediate fields in order, the last \<open>shamt\<close> as shift amount, the class from the big kind, and a
  memory view exactly for loads, stores and atomics; nothing else of the packet changes.\<close>
theorem typed_views_exact:
  "rebuild_typed_views m = m\<lparr>
     opcode_class := view_class m,
     is_branch := (view_class m = OC_Branch),
     is_control := (view_class m = OC_Branch \<or> view_class m = OC_System \<or> uop_big_kind m = ''CMD''),
     srcs := map (field_operand False) (filter (is_source_field o df_name) (decoded_fields m)),
     dsts := map (field_operand True) (filter view_dst_field (decoded_fields m)),
     immediates := filter (is_immediate_field o df_name) (decoded_fields m),
     shift_amount := view_shift (decoded_fields m),
     memory := view_memory_info (view_class m) (view_shift (decoded_fields m)) (uop_group m)\<rparr>"
  by (rule rebuild_typed_views_eq)

text \<open>C29: for every sequence of stage, retire, flush and trace marks on a freshly fetched packet, the
  packet that results is the fetched one with exactly two fields changed. The stage is that of the last
  mark, and still fetch without a mark. The life cycle is that of the last retire, flush or trace mark:
  a stage mark after it does not bring the packet back to flight. Without such a mark it is in flight
  once some stage mark named a stage other than fetch, and allocated until then. The packet counts as
  terminal exactly when one of the marks was a retire, flush or trace mark.\<close>
theorem packet_life_cycle:
  "fold apply_mark ms (create_fetch u p r c) =
     create_fetch u p r c\<lparr>stage := last (St_Fetch # map stage_of_mark ms), lifecycle := life_of ms\<rparr> \<and>
   is_terminal (fold apply_mark ms (create_fetch u p r c)) = list_ex (\<lambda>k. final_state k \<noteq> None) ms"
  using life_of_terminal [of ms]
  by (simp add: marks_exact [OF create_fetch_marks(2)] create_fetch_marks is_terminal_def)

text \<open>A stage mark on a retired packet moves its stage only.\<close>
lemma retired_stays_retired:
  "fold apply_mark [Mark_Stage St_Decode, Mark_Retired, Mark_Stage St_Rob] (create_fetch 1 0x1000 0x16 2) =
   create_fetch 1 0x1000 0x16 2\<lparr>stage := St_Rob, lifecycle := LC_Retired\<rparr>"
  by (simp add: mark_defs create_fetch_def)

end
