(* ===== verification/Sim_Queue.thy ===== *)
theory Sim_Queue
  imports Model_Prelude
begin

text \<open>
  \<^verbatim>\<open>SimQueue<T>\<close> of \<^verbatim>\<open>include/linx/model/sim_queue.hpp\<close>: the latency-aware FIFO between modules.
  Payloads are an arbitrary type \<open>'a\<close>; sizes (\<^verbatim>\<open>std::size_t\<close>) are naturals, delays and the
  latency keep their 32 bits, the visible epoch its 64.  Assertions are outcomes.  The second
  half proves the timing law of \<open>Work()\<close>, FIFO conservation for every interleaving of operations
  (once, in the locale \<open>fifo_channel\<close>) and the capacity invariant.
\<close>

section \<open>State\<close>

record 'a sim_queue =
  maxQSize :: nat
  writeQ :: "'a list"
  readQ :: "'a list"
  delayQ :: "u32 list"
  latency :: u32
  stalled :: bool
  visible_epoch :: u64

section \<open>Operations\<close>

definition sq_new :: "nat \<Rightarrow> u32 \<Rightarrow> 'a sim_queue outcome" where
  "sq_new max_size lat =
     obind (check_that (max_size > 0)) (\<lambda>_.
       Inr \<lparr>maxQSize = max_size, writeQ = [], readQ = [], delayQ = [], latency = lat,
            stalled = False, visible_epoch = 0\<rparr>)"

text \<open>The loop that counts every pending delay down, and the promotion loop.\<close>

definition count_down :: "u32 list \<Rightarrow> u32 list" where
  "count_down ds = map (\<lambda>d. if d > 0 then d - 1 else d) ds"

fun promote :: "'a list \<Rightarrow> u32 list \<Rightarrow> 'a list \<Rightarrow> bool \<Rightarrow> ('a list \<times> u32 list \<times> 'a list \<times> bool) outcome" where
  "promote [] ds rs promoted = Inr ([], ds, rs, promoted)"
| "promote (w # ws) [] rs promoted = Inl Assert_Failed"
| "promote (w # ws) (d # ds) rs promoted =
     (if length (w # ws) \<noteq> length (d # ds) then Inl Assert_Failed
      else if d \<noteq> 0 then Inr (w # ws, d # ds, rs, promoted)
      else promote ws ds (rs @ [w]) True)"

definition sq_work :: "'a sim_queue \<Rightarrow> 'a sim_queue outcome" where
  "sq_work q =
     (if stalled q then Inr q
      else obind (promote (writeQ q) (count_down (delayQ q)) (readQ q) False)
        (\<lambda>(ws, ds, rs, promoted).
           Inr (q\<lparr>writeQ := ws, delayQ := ds, readQ := rs,
                  visible_epoch := (if promoted then visible_epoch q + 1 else visible_epoch q)\<rparr>)))"

definition sq_reset :: "'a sim_queue \<Rightarrow> 'a sim_queue" where
  "sq_reset q = q\<lparr>writeQ := [], readQ := [], delayQ := [], stalled := False, visible_epoch := 0\<rparr>"

definition sq_set_latency :: "u32 \<Rightarrow> 'a sim_queue \<Rightarrow> 'a sim_queue" where
  "sq_set_latency l q = q\<lparr>latency := l\<rparr>"

definition sq_set_stall :: "bool \<Rightarrow> 'a sim_queue \<Rightarrow> 'a sim_queue" where
  "sq_set_stall b q = q\<lparr>stalled := b\<rparr>"

definition occupancy :: "'a sim_queue \<Rightarrow> nat" where
  "occupancy q = length (readQ q) + length (writeQ q)"

definition sq_full :: "'a sim_queue \<Rightarrow> bool" where
  "sq_full q \<longleftrightarrow> occupancy q \<ge> maxQSize q"

definition sq_will_be_full :: "nat \<Rightarrow> 'a sim_queue \<Rightarrow> bool" where
  "sq_will_be_full reserve q =
     (if reserve > maxQSize q then True else occupancy q \<ge> maxQSize q - reserve)"

definition sq_write :: "'a \<Rightarrow> 'a sim_queue \<Rightarrow> 'a sim_queue outcome" where
  "sq_write x q =
     obind (check_that (\<not> sq_full q)) (\<lambda>_.
       let q' = q\<lparr>writeQ := writeQ q @ [x], delayQ := delayQ q @ [latency q]\<rparr>
       in obind (check_that (length (writeQ q') = length (delayQ q'))) (\<lambda>_. Inr q'))"

definition sq_read :: "'a sim_queue \<Rightarrow> ('a \<times> 'a sim_queue) outcome" where
  "sq_read q = (case readQ q of [] \<Rightarrow> Inl Assert_Failed
     | x # xs \<Rightarrow> Inr (x, q\<lparr>readQ := xs, visible_epoch := visible_epoch q + 1\<rparr>))"

definition sq_front :: "'a sim_queue \<Rightarrow> 'a outcome" where
  "sq_front q = (case readQ q of [] \<Rightarrow> Inl Assert_Failed | x # _ \<Rightarrow> Inr x)"

definition sq_pop :: "'a sim_queue \<Rightarrow> 'a sim_queue outcome" where
  "sq_pop q = (case readQ q of [] \<Rightarrow> Inl Assert_Failed
     | x # xs \<Rightarrow> Inr (q\<lparr>readQ := xs, visible_epoch := visible_epoch q + 1\<rparr>))"

definition sq_empty :: "'a sim_queue \<Rightarrow> bool" where
  "sq_empty q \<longleftrightarrow> readQ q = []"

definition sq_emptyW :: "'a sim_queue \<Rightarrow> bool" where
  "sq_emptyW q \<longleftrightarrow> writeQ q = []"

definition sq_init_max_size :: "nat \<Rightarrow> 'a sim_queue \<Rightarrow> 'a sim_queue outcome" where
  "sq_init_max_size max_size q =
     obind (check_that (max_size > 0)) (\<lambda>_.
     obind (check_that (occupancy q \<le> max_size)) (\<lambda>_. Inr (q\<lparr>maxQSize := max_size\<rparr>)))"

text \<open>
  \<^verbatim>\<open>FlushIf\<close>: the first loop erases position \<open>i\<close> of both deques and stays at \<open>i\<close>, or advances;
  erasing behind the end of \<^verbatim>\<open>delayQ_\<close> would be undefined.
\<close>

function flush_writes :: "('a \<Rightarrow> bool) \<Rightarrow> nat \<Rightarrow> 'a list \<Rightarrow> u32 list \<Rightarrow> nat \<Rightarrow> ('a list \<times> u32 list \<times> nat) outcome" where
  "flush_writes match i ws ds removed =
     (if i < length ws then
        if match (ws ! i) then
          if i < length ds
          then flush_writes match i (take i ws @ drop (Suc i) ws) (take i ds @ drop (Suc i) ds)
                 (Suc removed)
          else Inl Undefined_Behaviour
        else flush_writes match (Suc i) ws ds removed
      else Inr (ws, ds, removed))"
  by pat_completeness auto
termination
  by (relation "measure (\<lambda>(match, i, ws, ds, removed). length ws - i)") auto

declare flush_writes.simps [simp del]

text \<open>The second loop walks an iterator over \<^verbatim>\<open>readQ_\<close>: what is kept before it, what is left.\<close>

fun flush_reads :: "('a \<Rightarrow> bool) \<Rightarrow> 'a list \<Rightarrow> 'a list \<Rightarrow> nat \<Rightarrow> bool \<Rightarrow> 'a list \<times> nat \<times> bool" where
  "flush_reads match kept [] removed vis = (kept, removed, vis)"
| "flush_reads match kept (x # xs) removed vis =
     (if match x then flush_reads match kept xs (Suc removed) True
      else flush_reads match (kept @ [x]) xs removed vis)"

definition sq_flush_if :: "('a \<Rightarrow> bool) \<Rightarrow> 'a sim_queue \<Rightarrow> (nat \<times> 'a sim_queue) outcome" where
  "sq_flush_if match q =
     obind (flush_writes match 0 (writeQ q) (delayQ q) 0) (\<lambda>(ws, ds, n).
       case flush_reads match [] (readQ q) n False of (rs, removed, removed_visible) \<Rightarrow>
         obind (check_that (length ws = length ds)) (\<lambda>_.
           Inr (removed, q\<lparr>writeQ := ws, delayQ := ds, readQ := rs,
             visible_epoch := (if removed_visible then visible_epoch q + 1 else visible_epoch q)\<rparr>)))"

section \<open>Invariant\<close>

definition sq_inv :: "'a sim_queue \<Rightarrow> bool" where
  "sq_inv q \<longleftrightarrow> 0 < maxQSize q \<and> length (delayQ q) = length (writeQ q) \<and> occupancy q \<le> maxQSize q"

text \<open>What the queue holds, oldest first: the readable entries before the pending ones.\<close>

definition contents :: "'a sim_queue \<Rightarrow> 'a list" where
  "contents q = readQ q @ writeQ q"

lemma length_contents: "length (contents q) = occupancy q"
  by (simp add: contents_def occupancy_def)

lemma sq_new_inv: "sq_new m l = Inr q \<Longrightarrow> sq_inv q \<and> contents q = []"
  by (auto simp: sq_new_def sq_inv_def occupancy_def contents_def outcome_simps)

lemma sq_reset_inv: "sq_inv q \<Longrightarrow> sq_inv (sq_reset q)"
  by (simp add: sq_inv_def sq_reset_def occupancy_def)

lemma sq_full_inv: "sq_inv q \<Longrightarrow> sq_full q \<longleftrightarrow> occupancy q = maxQSize q"
  by (auto simp: sq_inv_def sq_full_def)

lemma sq_will_be_full_0: "sq_will_be_full 0 q = sq_full q"
  by (simp add: sq_will_be_full_def sq_full_def)

lemma sq_will_be_full_iff:
  "sq_will_be_full r q \<longleftrightarrow> maxQSize q < r \<or> maxQSize q \<le> occupancy q + r"
  by (auto simp: sq_will_be_full_def)

lemma sq_write_eq:
  assumes "sq_inv q"
  shows "sq_write x q =
    (if sq_full q then Inl Assert_Failed
     else Inr (q\<lparr>writeQ := writeQ q @ [x], delayQ := delayQ q @ [latency q]\<rparr>))"
  using assms by (simp add: sq_write_def sq_inv_def)

lemma sq_write_inv: "sq_inv q \<Longrightarrow> sq_write x q = Inr q' \<Longrightarrow> sq_inv q'"
  by (auto simp: sq_write_eq sq_inv_def sq_full_def occupancy_def split: if_splits)

lemma sq_write_contents:
  "sq_inv q \<Longrightarrow> sq_write x q = Inr q' \<Longrightarrow> contents q' = contents q @ [x] \<and> readQ q' = readQ q"
  by (auto simp: sq_write_eq contents_def split: if_splits)

lemma sq_read_inv: "sq_inv q \<Longrightarrow> sq_read q = Inr (x, q') \<Longrightarrow> sq_inv q'"
  by (auto simp: sq_read_def sq_inv_def occupancy_def split: list.splits)

lemma sq_read_contents: "sq_read q = Inr (x, q') \<Longrightarrow> contents q = x # contents q'"
  by (auto simp: sq_read_def contents_def split: list.splits)

lemma sq_pop_read: "sq_read q = obind (sq_front q) (\<lambda>x. obind (sq_pop q) (\<lambda>q'. Inr (x, q')))"
  by (simp add: sq_read_def sq_front_def sq_pop_def split: list.splits)

section \<open>Promotion and the timing law\<close>

text \<open>
  \<open>ready n ds\<close> is the length of the longest prefix of the pending entries whose delays are all
  at most \<open>n\<close>: an entry waits for the ones before it.
\<close>

definition ready :: "nat \<Rightarrow> u32 list \<Rightarrow> nat" where
  "ready n ds = length (takeWhile (\<lambda>d. unat d \<le> n) ds)"

lemma ready_le: "ready n ds \<le> length ds"
  by (simp add: ready_def length_takeWhile_le)

lemma length_takeWhile_split:
  assumes "\<And>x. P x \<Longrightarrow> Q x"
  shows "length (takeWhile Q xs) =
    length (takeWhile P xs) + length (takeWhile Q (drop (length (takeWhile P xs)) xs))"
  using assms by (induction xs) auto

lemma ready_Suc: "ready (Suc n) ds = ready n ds + ready (Suc n) (drop (ready n ds) ds)"
  unfolding ready_def by (rule length_takeWhile_split) simp

lemma ready_map_sub:
  "(\<And>d. unat (f d) = unat d - n) \<Longrightarrow> ready m (map f ds) = ready (n + m) ds"
  by (simp add: ready_def takeWhile_map o_def le_diff_conv add.commute)

lemma promote_eq:
  "length ws = length ds \<Longrightarrow>
   promote ws ds rs p = Inr (drop (ready 0 ds) ws, drop (ready 0 ds) ds,
     rs @ take (ready 0 ds) ws, p \<or> ready 0 ds > 0)"
proof (induction ws ds rs p rule: promote.induct)
  case (1 ds rs promoted)
  then show ?case by (simp add: ready_def)
next
  case (2 w ws rs promoted)
  then show ?case by simp
next
  case (3 w ws d ds rs promoted)
  then show ?case by (auto simp: ready_def unat_eq_0)
qed

definition age :: "nat \<Rightarrow> u32 \<Rightarrow> u32" where
  "age n d = of_nat (unat d - n)"

lemma unat_age: "unat (age n d) = unat d - n"
  unfolding age_def by (rule of_nat_inverse [OF refl]) (metis less_imp_diff_less unsigned_less)

lemma age_age: "age m (age n d) = age (n + m) d"
  by (simp add: age_def unat_age [unfolded age_def])

lemma count_down_eq: "count_down ds = map (age (Suc 0)) ds"
proof -
  have "(if d > 0 then d - 1 else d) = age (Suc 0) d" for d :: u32
    by (rule word_unat_eq_iff [THEN iffD2])
      (auto simp: unat_age word_gt_0 unat_minus_one_pos)
  then show ?thesis by (simp add: count_down_def)
qed

text \<open>What \<open>n\<close> successive \<^verbatim>\<open>Work()\<close> calls do, and the state that the timing law predicts.\<close>

fun sq_work_n :: "nat \<Rightarrow> 'a sim_queue \<Rightarrow> 'a sim_queue outcome" where
  "sq_work_n 0 q = Inr q"
| "sq_work_n (Suc n) q = obind (sq_work_n n q) sq_work"

lemma sq_work_eq:
  assumes "sq_inv q" "\<not> stalled q"
  shows "sq_work q = Inr (q\<lparr>
     writeQ := drop (ready (Suc 0) (delayQ q)) (writeQ q),
     delayQ := map (age (Suc 0)) (drop (ready (Suc 0) (delayQ q)) (delayQ q)),
     readQ := readQ q @ take (ready (Suc 0) (delayQ q)) (writeQ q),
     visible_epoch := (if ready (Suc 0) (delayQ q) > 0 then visible_epoch q + 1 else visible_epoch q)\<rparr>)"
proof -
  have r: "ready 0 (map (age (Suc 0)) (delayQ q)) = ready (Suc 0) (delayQ q)"
    by (simp add: ready_map_sub unat_age)
  have len: "length (writeQ q) = length (map (age (Suc 0)) (delayQ q))"
    using assms(1) by (simp add: sq_inv_def)
  show ?thesis
    using assms promote_eq [OF len, of "readQ q" False]
    by (simp only: sq_work_def if_False count_down_eq obind.simps prod.case r drop_map simp_thms)
qed

lemma sq_work_stalled: "stalled q \<Longrightarrow> sq_work q = Inr q"
  by (simp add: sq_work_def)

lemma sq_work_inv: "sq_inv q \<Longrightarrow> sq_work q = Inr q' \<Longrightarrow> sq_inv q'"
  by (cases "stalled q")
    (auto simp: sq_work_stalled sq_work_eq sq_inv_def occupancy_def ready_le min_def)

lemma sq_work_total: "sq_inv q \<Longrightarrow> \<exists>q'. sq_work q = Inr q'"
  by (cases "stalled q") (simp_all add: sq_work_stalled sq_work_eq)

lemma sq_work_contents: "sq_inv q \<Longrightarrow> sq_work q = Inr q' \<Longrightarrow> contents q' = contents q"
  by (cases "stalled q") (auto simp: sq_work_stalled sq_work_eq contents_def)

lemma sq_work_config:
  "sq_inv q \<Longrightarrow> sq_work q = Inr q' \<Longrightarrow>
   maxQSize q' = maxQSize q \<and> latency q' = latency q \<and> stalled q' = stalled q"
  by (cases "stalled q") (auto simp: sq_work_stalled sq_work_eq)

lemma sq_work_n_aux:
  assumes "sq_inv q" "\<not> stalled q"
  shows "\<exists>e. sq_work_n (Suc n) q = Inr (q\<lparr>
     writeQ := drop (ready (Suc n) (delayQ q)) (writeQ q),
     delayQ := map (age (Suc n)) (drop (ready (Suc n) (delayQ q)) (delayQ q)),
     readQ := readQ q @ take (ready (Suc n) (delayQ q)) (writeQ q),
     visible_epoch := e\<rparr>)"
proof (induction n)
  case 0
  show ?case by (rule exI) (simp only: sq_work_n.simps obind.simps sq_work_eq [OF assms])
next
  case (Suc n)
  let ?k = "ready (Suc n) (delayQ q)" and ?ds = "delayQ q" and ?ws = "writeQ q"
  from Suc obtain e where *: "sq_work_n (Suc n) q = Inr (q\<lparr>
     writeQ := drop ?k ?ws, delayQ := map (age (Suc n)) (drop ?k ?ds),
     readQ := readQ q @ take ?k ?ws, visible_epoch := e\<rparr>)" (is "_ = Inr ?q1") by blast
  have len: "length ?ds = length ?ws" using assms(1) by (simp add: sq_inv_def)
  have inv: "sq_inv ?q1"
    using assms(1) by (auto simp: sq_inv_def occupancy_def ready_le len [symmetric])
  have r1: "ready (Suc 0) (map (age (Suc n)) (drop ?k ?ds)) = ready (Suc (Suc n)) (drop ?k ?ds)"
    by (simp add: ready_map_sub unat_age)
  have k2: "ready (Suc (Suc n)) ?ds = ?k + ready (Suc (Suc n)) (drop ?k ?ds)"
    by (rule ready_Suc)
  have "sq_work_n (Suc (Suc n)) q = sq_work ?q1" by (simp only: sq_work_n.simps(2) [of "Suc n"] * obind.simps)
  also have "\<exists>e'. sq_work ?q1 = Inr (q\<lparr>
     writeQ := drop (ready (Suc (Suc n)) ?ds) ?ws,
     delayQ := map (age (Suc (Suc n))) (drop (ready (Suc (Suc n)) ?ds) ?ds),
     readQ := readQ q @ take (ready (Suc (Suc n)) ?ds) ?ws, visible_epoch := e'\<rparr>)"
  proof -
    from sq_work_eq [OF inv] assms(2) obtain e' where
      "sq_work ?q1 = Inr (?q1\<lparr>writeQ := drop (ready (Suc (Suc n)) (drop ?k ?ds)) (drop ?k ?ws),
         delayQ := map (age (Suc 0)) (drop (ready (Suc (Suc n)) (drop ?k ?ds)) (map (age (Suc n)) (drop ?k ?ds))),
         readQ := (readQ q @ take ?k ?ws) @ take (ready (Suc (Suc n)) (drop ?k ?ds)) (drop ?k ?ws),
         visible_epoch := e'\<rparr>)"
      by (simp add: r1)
    then show ?thesis
      by (intro exI [of _ e']) (simp add: k2 drop_map age_age take_add add.commute o_def)
  qed
  finally show ?case .
qed


lemma sq_work_n_inv: "sq_inv q \<Longrightarrow> sq_work_n n q = Inr q' \<Longrightarrow> sq_inv q'"
  by (induction n arbitrary: q') (auto simp: outcome_simps dest: sq_work_inv)

lemma sq_work_n_total: "sq_inv q \<Longrightarrow> \<exists>q'. sq_work_n n q = Inr q'"
proof (induction n)
  case 0
  then show ?case by simp
next
  case (Suc n)
  then obtain q1 where "sq_work_n n q = Inr q1" by blast
  with Suc.prems show ?case by (auto dest: sq_work_n_inv sq_work_total)
qed

text \<open>
  A queue whose pending delays do not exceed its latency: every queue whose latency was not
  lowered since its pending writes.
\<close>

definition sq_uniform :: "'a sim_queue \<Rightarrow> bool" where
  "sq_uniform q \<longleftrightarrow> (\<forall>d \<in> set (delayQ q). unat d \<le> unat (latency q))"

lemma sq_uniform_write: "sq_inv q \<Longrightarrow> sq_uniform q \<Longrightarrow> sq_write x q = Inr q' \<Longrightarrow> sq_uniform q'"
  by (auto simp: sq_write_eq sq_uniform_def split: if_splits)

lemma sq_uniform_work:
  assumes "sq_inv q" "sq_uniform q" "sq_work q = Inr q'"
  shows "sq_uniform q'"
proof (cases "stalled q")
  case True
  with assms show ?thesis by (simp add: sq_work_stalled)
next
  case False
  with assms show ?thesis
    by (fastforce simp: sq_work_eq sq_uniform_def unat_age dest: in_set_dropD intro: le_trans [OF diff_le_self])
qed

lemma ready_all_iff: "ready n ds = length ds \<longleftrightarrow> (\<forall>d \<in> set ds. unat d \<le> n)"
proof
  assume "ready n ds = length ds"
  then have "takeWhile (\<lambda>d. unat d \<le> n) ds = ds"
    by (metis ready_def takeWhile_eq_take take_all order_refl)
  then show "\<forall>d \<in> set ds. unat d \<le> n" by (metis takeWhile_eq_all_conv)
next
  assume "\<forall>d \<in> set ds. unat d \<le> n"
  then have "takeWhile (\<lambda>d. unat d \<le> n) ds = ds" by (simp add: takeWhile_eq_all_conv)
  then show "ready n ds = length ds" by (simp only: ready_def)
qed

lemma ready_less: "\<not> (\<forall>d \<in> set ds. unat d \<le> n) \<Longrightarrow> ready n ds < length ds"
  using ready_le [of n ds] ready_all_iff [of n ds] by linarith

text \<open>The newest entry: when exactly it leaves the write side.\<close>

lemma newest_visible_aux:
  assumes inv: "sq_inv q" and run: "\<not> stalled q" and w: "sq_write x q = Inr q1"
    and n: "sq_work_n (Suc n) q1 = Inr q2"
  shows "if (\<forall>d \<in> set (delayQ q). unat d \<le> Suc n) \<and> unat (latency q) \<le> Suc n
         then readQ q2 = contents q @ [x] \<and> writeQ q2 = []
         else (\<exists>ws. writeQ q2 = ws @ [x] \<and> contents q @ [x] = readQ q2 @ ws @ [x])"
proof -
  from inv w have q1: "q1 = q\<lparr>writeQ := writeQ q @ [x], delayQ := delayQ q @ [latency q]\<rparr>"
    by (auto simp: sq_write_eq split: if_splits)
  have inv1: "sq_inv q1" using inv w by (rule sq_write_inv)
  have run1: "\<not> stalled q1" using run by (simp add: q1)
  let ?k = "ready (Suc n) (delayQ q @ [latency q])"
  from sq_work_n_aux [OF inv1 run1, of n] n
  have q2: "writeQ q2 = drop ?k (writeQ q @ [x])" "readQ q2 = readQ q @ take ?k (writeQ q @ [x])"
    by (auto simp: q1)
  have len: "length (delayQ q @ [latency q]) = length (writeQ q @ [x])"
    using inv by (simp add: sq_inv_def)
  show ?thesis
  proof (cases "\<forall>d \<in> set (delayQ q @ [latency q]). unat d \<le> Suc n")
    case True
    then have "?k = length (writeQ q @ [x])" by (metis ready_all_iff len)
    with True q2 show ?thesis by (simp add: contents_def)
  next
    case False
    then have "?k < length (writeQ q @ [x])" by (metis ready_less len)
    then have "writeQ q2 = drop ?k (writeQ q) @ [x]" "readQ q2 = readQ q @ take ?k (writeQ q)"
      by (simp_all add: q2)
    with False show ?thesis by (auto simp: contents_def)
  qed
qed

section \<open>FlushIf is filtering\<close>

lemma flush_writes_eq:
  "length ws = length ds \<Longrightarrow> i \<le> length ws \<Longrightarrow>
   flush_writes match i ws ds n = Inr (
     take i ws @ filter (\<lambda>w. \<not> match w) (drop i ws),
     take i ds @ map snd (filter (\<lambda>(w, d). \<not> match w) (zip (drop i ws) (drop i ds))),
     n + length (filter match (drop i ws)))"
proof (induction match i ws ds n rule: flush_writes.induct)
  case (1 match i ws ds n)
  show ?case
  proof (cases "i < length ws")
    case False
    with 1 show ?thesis by (subst flush_writes.simps) simp
  next
    case True
    have ws: "drop i ws = ws ! i # drop (Suc i) ws" and ds: "drop i ds = ds ! i # drop (Suc i) ds"
      using True 1(3) by (simp_all add: Cons_nth_drop_Suc)
    show ?thesis
    proof (cases "match (ws ! i)")
      case m: True
      have "flush_writes match i ws ds n =
        flush_writes match i (take i ws @ drop (Suc i) ws) (take i ds @ drop (Suc i) ds) (Suc n)"
        using True m 1(3) by (simp add: flush_writes.simps [of match i ws ds n])
      also have "\<dots> = Inr (take i ws @ filter (\<lambda>w. \<not> match w) (drop (Suc i) ws),
         take i ds @ map snd (filter (\<lambda>(w, d). \<not> match w) (zip (drop (Suc i) ws) (drop (Suc i) ds))),
         Suc n + length (filter match (drop (Suc i) ws)))"
        using 1(1) [OF True m] True 1(3) by simp
      finally show ?thesis by (simp add: ws ds m)
    next
      case m: False
      have "flush_writes match i ws ds n = flush_writes match (Suc i) ws ds n"
        using True m by (simp add: flush_writes.simps [of match i ws ds n])
      with 1(2) [OF True m] True 1(3) m show ?thesis
        by (simp add: ws ds take_Suc_conv_app_nth)
    qed
  qed
qed

lemma flush_reads_eq:
  "flush_reads match kept rs n v =
   (kept @ filter (\<lambda>x. \<not> match x) rs, n + length (filter match rs), v \<or> (\<exists>x \<in> set rs. match x))"
  by (induction match kept rs n v rule: flush_reads.induct) auto

lemma length_filter_zip_fst:
  "length ws = length ds \<Longrightarrow>
   length (filter (\<lambda>(w, d). P w) (zip ws ds)) = length (filter P ws)"
  by (induction ws ds rule: list_induct2) auto

lemma sq_flush_if_eq:
  assumes "sq_inv q"
  shows "sq_flush_if match q = Inr (length (filter match (contents q)),
    q\<lparr>writeQ := filter (\<lambda>w. \<not> match w) (writeQ q),
      delayQ := map snd (filter (\<lambda>(w, d). \<not> match w) (zip (writeQ q) (delayQ q))),
      readQ := filter (\<lambda>x. \<not> match x) (readQ q),
      visible_epoch := (if \<exists>x \<in> set (readQ q). match x then visible_epoch q + 1
                        else visible_epoch q)\<rparr>)"
  using assms
  by (simp add: sq_flush_if_def flush_writes_eq flush_reads_eq sq_inv_def contents_def
      length_filter_zip_fst [where P = "\<lambda>w. \<not> match w"])

lemma sq_flush_if_inv:
  assumes inv: "sq_inv q" and f: "sq_flush_if match q = Inr (n, q')"
  shows "sq_inv q'"
proof -
  from f inv have q': "writeQ q' = filter (\<lambda>w. \<not> match w) (writeQ q)"
    "readQ q' = filter (\<lambda>x. \<not> match x) (readQ q)" "maxQSize q' = maxQSize q"
    "length (delayQ q') = length (writeQ q')"
    by (auto simp: sq_flush_if_eq sq_inv_def length_filter_zip_fst [where P = "\<lambda>w. \<not> match w"])
  have "occupancy q' \<le> occupancy q"
    unfolding occupancy_def q' by (intro add_mono length_filter_le)
  with inv q' show ?thesis by (simp add: sq_inv_def)
qed

section \<open>The channel contract\<close>

text \<open>
  What a client of a queue relies on: the promised laws of a bounded FIFO channel with a clock,
  and the client's theorem that no interleaving of operations loses, duplicates or reorders
  payloads.
\<close>

datatype 'a chan_op = Push 'a | Pop | Tick

fun chan_run :: "('a \<Rightarrow> 'q \<Rightarrow> 'q outcome) \<Rightarrow> ('q \<Rightarrow> ('a \<times> 'q) outcome) \<Rightarrow> ('q \<Rightarrow> 'q outcome) \<Rightarrow>
    'a chan_op list \<Rightarrow> 'q \<Rightarrow> ('a list \<times> 'q) outcome" where
  "chan_run push pop tick [] q = Inr ([], q)"
| "chan_run push pop tick (Push x # ops) q = obind (push x q) (chan_run push pop tick ops)"
| "chan_run push pop tick (Tick # ops) q = obind (tick q) (chan_run push pop tick ops)"
| "chan_run push pop tick (Pop # ops) q = obind (pop q) (\<lambda>(x, q').
     obind (chan_run push pop tick ops q') (\<lambda>(out, q''). Inr (x # out, q'')))"

fun pushed :: "'a chan_op list \<Rightarrow> 'a list" where
  "pushed [] = []"
| "pushed (Push x # ops) = x # pushed ops"
| "pushed (Pop # ops) = pushed ops"
| "pushed (Tick # ops) = pushed ops"

locale fifo_channel =
  fixes inv :: "'q \<Rightarrow> bool"
    and held :: "'q \<Rightarrow> 'a list"
    and push :: "'a \<Rightarrow> 'q \<Rightarrow> 'q outcome"
    and pop :: "'q \<Rightarrow> ('a \<times> 'q) outcome"
    and tick :: "'q \<Rightarrow> 'q outcome"
  assumes push_held: "inv q \<Longrightarrow> push x q = Inr q' \<Longrightarrow> inv q' \<and> held q' = held q @ [x]"
    and pop_held: "inv q \<Longrightarrow> pop q = Inr (x, q') \<Longrightarrow> inv q' \<and> held q = x # held q'"
    and tick_held: "inv q \<Longrightarrow> tick q = Inr q' \<Longrightarrow> inv q' \<and> held q' = held q"
begin

lemma run_conserves:
  "inv q \<Longrightarrow> chan_run push pop tick ops q = Inr (out, q') \<Longrightarrow>
   inv q' \<and> out @ held q' = held q @ pushed ops"
proof (induction ops arbitrary: q out)
  case Nil
  then show ?case by simp
next
  case (Cons op ops)
  show ?case
  proof (cases op)
    case (Push x)
    with Cons.prems obtain q1 where "push x q = Inr q1" "chan_run push pop tick ops q1 = Inr (out, q')"
      by (auto simp: outcome_simps)
    with Cons.IH Cons.prems(1) push_held Push show ?thesis by fastforce
  next
    case Tick
    with Cons.prems obtain q1 where "tick q = Inr q1" "chan_run push pop tick ops q1 = Inr (out, q')"
      by (auto simp: outcome_simps)
    with Cons.IH Cons.prems(1) tick_held Tick show ?thesis by fastforce
  next
    case Pop
    with Cons.prems obtain x q1 out1 where "pop q = Inr (x, q1)" "out = x # out1"
      "chan_run push pop tick ops q1 = Inr (out1, q')"
      by (auto simp: outcome_simps)
    with Cons.IH Cons.prems(1) pop_held Pop show ?thesis by fastforce
  qed
qed

end

locale bounded_channel = fifo_channel inv held push pop tick
  for inv :: "'q \<Rightarrow> bool" and held :: "'q \<Rightarrow> 'a list" and push pop tick +
  fixes capacity :: "'q \<Rightarrow> nat"
  assumes push_refused: "inv q \<Longrightarrow> (\<exists>e. push x q = Inl e) \<longleftrightarrow> length (held q) = capacity q"
    and tick_accepts: "inv q \<Longrightarrow> \<exists>q'. tick q = Inr q'"
    and bounded: "inv q \<Longrightarrow> length (held q) \<le> capacity q"
    and push_capacity: "push x q = Inr q' \<Longrightarrow> capacity q' = capacity q"
begin

text \<open>A client that never has more than the capacity outstanding is never refused.\<close>

lemma push_many:
  "inv q \<Longrightarrow> length (held q) + length xs \<le> capacity q \<Longrightarrow>
   \<exists>q'. chan_run push pop tick (map Push xs) q = Inr ([], q') \<and> held q' = held q @ xs"
proof (induction xs arbitrary: q)
  case Nil
  then show ?case by simp
next
  case (Cons x xs)
  have "length (held q) \<noteq> capacity q" using Cons.prems(2) by simp
  with Cons.prems(1) have "\<nexists>e. push x q = Inl e" by (simp only: push_refused not_False_eq_True)
  then obtain q1 where q1: "push x q = Inr q1" by (cases "push x q") blast+
  have h: "inv q1" "held q1 = held q @ [x]" using push_held [OF Cons.prems(1) q1] by simp_all
  have c: "capacity q1 = capacity q" by (rule push_capacity [OF q1])
  have "length (held q1) + length xs \<le> capacity q1" using Cons.prems(2) h c by simp
  from Cons.IH [OF h(1) this] obtain q' where
    "chan_run push pop tick (map Push xs) q1 = Inr ([], q')" "held q' = held q1 @ xs" by blast
  then have "chan_run push pop tick (map Push (x # xs)) q = Inr ([], q')" "held q' = held q @ x # xs"
    using q1 h(2) by simp_all
  then show ?case by blast
qed

end

lemma sq_write_refused: "sq_inv q \<Longrightarrow> (\<exists>e. sq_write x q = Inl e) \<longleftrightarrow> length (contents q) = maxQSize q"
  by (simp add: sq_write_eq sq_full_inv length_contents)

lemma sq_write_capacity: "sq_write x q = Inr q' \<Longrightarrow> maxQSize q' = maxQSize q"
  by (auto simp: sq_write_def Let_def outcome_simps)

interpretation simq: bounded_channel sq_inv contents sq_write sq_read sq_work maxQSize
proof (unfold_locales, goal_cases)
  case 1 then show ?case by (blast dest: sq_write_inv sq_write_contents)
next
  case 2 then show ?case by (blast dest: sq_read_inv sq_read_contents)
next
  case 3 then show ?case by (blast dest: sq_work_inv sq_work_contents)
next
  case 4 then show ?case by (rule sq_write_refused)
next
  case 5 then show ?case by (rule sq_work_total)
next
  case 6 then show ?case by (simp add: length_contents sq_inv_def)
next
  case 7 then show ?case by (rule sq_write_capacity)
qed

end
