(* ===== verification/Queue_Claims.thy ===== *)
theory Queue_Claims
  imports Sim_Queue
begin

text \<open>
  What a queue promises to the modules at its ends: nothing is lost, duplicated or reordered, the
  capacity is never exceeded, an entry becomes readable after exactly its latency unless an older
  entry is still waiting, and \<open>FlushIf\<close> removes exactly the matching entries.
\<close>

section \<open>Conservation and capacity\<close>

text \<open>C5: whatever sequence of writes, reads and clock ticks a new queue accepts, the values read so far
  followed by the values still in the queue are exactly the values written, in order, and the
  queue never holds more than its capacity.\<close>
theorem queue_conserves:
  assumes "sq_new max_size lat = Inr q0"
    and "chan_run sq_write sq_read sq_work ops q0 = Inr (out, q)"
  shows "out @ contents q = pushed ops \<and> occupancy q \<le> maxQSize q"
proof -
  from sq_new_inv [OF assms(1)] have "sq_inv q0" "contents q0 = []" by simp_all
  with simq.run_conserves [OF _ assms(2)] show ?thesis by (simp add: sq_inv_def)
qed

theorem queue_conserves_witness:
  "\<exists>q. chan_run sq_write sq_read sq_work [Push 4, Tick, Push (5 :: nat), Pop, Tick]
         \<lparr>maxQSize = 2, writeQ = [], readQ = [], delayQ = [], latency = 1, stalled = False,
          visible_epoch = 0\<rparr> = Inr ([4], q) \<and> contents q = [5]"
proof -
  let ?q0 = "\<lparr>maxQSize = 2, writeQ = [], readQ = [], delayQ = [], latency = 1, stalled = False,
    visible_epoch = 0\<rparr> :: nat sim_queue"
  have new: "sq_new 2 1 = Inr ?q0" by (simp add: sq_new_def)
  have "\<exists>q. chan_run sq_write sq_read sq_work [Push 4, Tick, Push 5, Pop, Tick] ?q0 = Inr ([4], q)"
    by (simp add: sq_write_def sq_full_def occupancy_def Let_def sq_work_def count_down_def sq_read_def)
  then obtain q where run:
    "chan_run sq_write sq_read sq_work [Push 4, Tick, Push 5, Pop, Tick] ?q0 = Inr ([4], q)" by blast
  from queue_conserves [OF new run] have "contents q = [5]" by simp
  with run show ?thesis by blast
qed

text \<open>A client that keeps the number of outstanding values within the capacity is never refused:
  all its writes succeed and stand in the queue in order.\<close>
lemma queue_accepts_up_to_capacity:
  assumes "sq_inv q" and "length (contents q) + length xs \<le> maxQSize q"
  shows "\<exists>q'. chan_run sq_write sq_read sq_work (map Push xs) q = Inr ([], q') \<and>
    contents q' = contents q @ xs"
  using assms by (rule simq.push_many)

lemma queue_accepts_up_to_capacity_witness:
  "\<exists>q'. chan_run sq_write sq_read sq_work (map Push [7, 8 :: nat])
      \<lparr>maxQSize = 3, writeQ = [], readQ = [6], delayQ = [], latency = 1, stalled = False,
       visible_epoch = 0\<rparr> = Inr ([], q') \<and> contents q' = [6, 7, 8]"
  using queue_accepts_up_to_capacity [of "\<lparr>maxQSize = 3, writeQ = [], readQ = [6], delayQ = [],
      latency = 1, stalled = False, visible_epoch = 0\<rparr>" "[7, 8 :: nat]"]
  by (simp add: sq_inv_def occupancy_def contents_def)

section \<open>Timing\<close>

lemma queue_latency_aux:
  assumes inv: "sq_inv q" and run: "\<not> stalled q" and uni: "sq_uniform q"
    and w: "sq_write x q = Inr q1" and n: "sq_work_n n q1 = Inr q2"
  shows "if max 1 (unat (latency q)) \<le> n
    then readQ q2 = contents q @ [x] \<and> writeQ q2 = []
    else \<exists>ws. writeQ q2 = ws @ [x] \<and> readQ q2 @ ws = contents q"
proof (cases n)
  case 0
  then have "q2 = q1" using n by simp
  with w inv have "writeQ q2 = writeQ q @ [x]" "readQ q2 = readQ q"
    by (auto simp: sq_write_eq split: if_splits)
  with 0 show ?thesis by (simp add: contents_def)
next
  case (Suc k)
  have all: "(\<forall>d \<in> set (delayQ q). unat d \<le> Suc k) \<and> unat (latency q) \<le> Suc k \<longleftrightarrow>
      unat (latency q) \<le> Suc k"
    using uni by (auto simp: sq_uniform_def intro: le_trans)
  show ?thesis
    using newest_visible_aux [OF inv run w, of k q2] n Suc unfolding all by fastforce
qed

text \<open>C21: in a queue that is not stalled and in which no pending entry waits longer than the current
  latency, a value written now is readable, behind everything written before it, after exactly
  \<open>max 1 latency\<close> clock ticks, and is still pending after any smaller number.\<close>
theorem queue_latency:
  assumes "sq_inv q" and "\<not> stalled q" and "sq_uniform q"
    and "sq_write x q = Inr q1" and "sq_work_n n q1 = Inr q2"
  shows "if max 1 (unat (latency q)) \<le> n
    then readQ q2 = contents q @ [x] \<and> writeQ q2 = []
    else \<exists>ws. writeQ q2 = ws @ [x] \<and> readQ q2 @ ws = contents q"
  using assms by (rule queue_latency_aux)

definition slow_queue :: "nat sim_queue" where
  "slow_queue = \<lparr>maxQSize = 4, writeQ = [1], readQ = [], delayQ = [2], latency = 2,
     stalled = False, visible_epoch = 0\<rparr>"

theorem queue_latency_witness:
  "\<exists>q1 q2. sq_write 9 slow_queue = Inr q1 \<and> sq_work_n 2 q1 = Inr q2 \<and> readQ q2 = [1, 9]"
proof -
  have inv: "sq_inv slow_queue" "\<not> stalled slow_queue" "sq_uniform slow_queue"
    by (simp_all add: slow_queue_def sq_inv_def occupancy_def sq_uniform_def)
  obtain q1 where w: "sq_write 9 slow_queue = Inr q1"
    by (simp add: sq_write_def slow_queue_def sq_full_def occupancy_def Let_def)
  have "sq_inv q1" by (rule sq_write_inv [OF inv(1) w])
  then obtain q2 where n: "sq_work_n 2 q1 = Inr q2" using sq_work_n_total by blast
  have "readQ q2 = [1, 9]"
    using queue_latency [OF inv w n] by (simp add: slow_queue_def contents_def)
  with w n show ?thesis by blast
qed

lemma sq_work_n_numeral:
  "sq_work_n (numeral k) q = obind (sq_work_n (pred_numeral k) q) sq_work"
  by (simp add: numeral_eq_Suc)

text \<open>The class comment promises that a write with latency \<open>N\<close> becomes readable after exactly \<open>N\<close>
  calls of \<open>Work()\<close>.  After the latency was lowered from 5 to 1 that fails: the new entry, with
  latency 1, waits behind the older one and is readable only after the fifth call.\<close>
lemma lowered_latency_waits:
  "\<exists>q1 q2 q3. sq_write (9 :: nat) (sq_set_latency 1 \<lparr>maxQSize = 4, writeQ = [1], readQ = [],
       delayQ = [5], latency = 5, stalled = False, visible_epoch = 0\<rparr>) = Inr q1 \<and>
     sq_work_n 4 q1 = Inr q2 \<and> readQ q2 = [] \<and> sq_work_n 5 q1 = Inr q3 \<and> readQ q3 = [1, 9]"
  by (simp add: sq_write_def sq_set_latency_def sq_full_def occupancy_def Let_def sq_work_def
      count_down_def sq_work_n_numeral)

section \<open>Flushing\<close>

text \<open>C27: \<open>FlushIf\<close> returns the number of matching entries, removes exactly those from both sides of the
  queue, keeps every other entry with its order and its own remaining delay, and advances the
  visible epoch only when a readable entry went.\<close>
theorem flush_is_filter:
  assumes "sq_inv q"
  shows "sq_flush_if match q = Inr (length (filter match (contents q)),
    q\<lparr>writeQ := filter (\<lambda>w. \<not> match w) (writeQ q),
      delayQ := map snd (filter (\<lambda>(w, d). \<not> match w) (zip (writeQ q) (delayQ q))),
      readQ := filter (\<lambda>x. \<not> match x) (readQ q),
      visible_epoch := (if \<exists>x \<in> set (readQ q). match x then visible_epoch q + 1
                        else visible_epoch q)\<rparr>)"
  using assms by (rule sq_flush_if_eq)

theorem flush_is_filter_witness:
  "sq_flush_if even (slow_queue\<lparr>writeQ := [1, 2], delayQ := [5, 6], readQ := [3, 4]\<rparr>) =
   Inr (2, slow_queue\<lparr>writeQ := [1], delayQ := [5], readQ := [3], visible_epoch := 1\<rparr>)"
  using flush_is_filter [of "slow_queue\<lparr>writeQ := [1, 2], delayQ := [5, 6], readQ := [3, 4]\<rparr>" even]
  by (simp add: sq_inv_def slow_queue_def occupancy_def contents_def)

end
