(* ===== verification/Shared_Tile.thy ===== *)
theory Shared_Tile
  imports Model_Prelude
begin

text \<open>
  The shared tile bank (\<^verbatim>\<open>SharedTileBank\<close> of \<^verbatim>\<open>include/linx/model/emulator/state.hpp\<close> and
  \<^verbatim>\<open>src/emulator/shared_tile.cpp\<close>): 64 registers, each with one lane per processing element, a
  capacity fixed by the first write and masks of the allocated and the initialised lanes.  The
  C++ arrays are lists of that length; \<open>bank_inv\<close> keeps the lengths.
\<close>

section \<open>State\<close>

record shared_tile_descriptor =
  sd_dtype :: u32
  sd_valid_cols :: u16
  sd_valid_rows :: u16
  sd_cols :: u16
  sd_rows :: u16

record shared_tile_lane =
  sl_descriptor :: shared_tile_descriptor
  sl_data :: "u8 list"

record shared_tile_version =
  sv_lanes :: "shared_tile_lane list"
  sv_per_pe_capacity :: u32
  sv_allocated_bytes :: u32
  sv_dtype :: u32
  sv_allocation_mask :: u8
  sv_initialized_mask :: u8

datatype shared_tile_write_status = SW_Applied | SW_Noop | SW_InvalidRegister | SW_InvalidMask
  | SW_InvalidSize | SW_InvalidDescriptor | SW_PayloadSizeMismatch | SW_AllocationExpansion
  | SW_DescriptorMismatch

type_synonym shared_tile_bank = "shared_tile_version list"

definition kLinxCorePeCount :: nat where "kLinxCorePeCount = 4"
definition kLinxSharedTileCount :: nat where "kLinxSharedTileCount = 64"
definition kValidPeMask :: u8 where "kValidPeMask = 0xF"

definition descriptor_default :: shared_tile_descriptor where
  "descriptor_default =
     \<lparr>sd_dtype = 0, sd_valid_cols = 0, sd_valid_rows = 0, sd_cols = 0, sd_rows = 0\<rparr>"

definition version_default :: shared_tile_version where
  "version_default = \<lparr>sv_lanes = replicate kLinxCorePeCount \<lparr>sl_descriptor = descriptor_default, sl_data = []\<rparr>,
     sv_per_pe_capacity = 0, sv_allocated_bytes = 0, sv_dtype = 0, sv_allocation_mask = 0,
     sv_initialized_mask = 0\<rparr>"

section \<open>Operations\<close>

definition pe_mask_bit :: "nat \<Rightarrow> u8" where
  "pe_mask_bit pe = push_bit (kLinxCorePeCount - 1 - pe) 1"

definition pe_selected :: "u8 \<Rightarrow> nat \<Rightarrow> bool" where
  "pe_selected pe_mask pe \<longleftrightarrow> pe_mask AND pe_mask_bit pe \<noteq> 0"

definition popcount :: "u8 \<Rightarrow> nat" where
  "popcount w = length (filter (bit w) [0..<8])"

definition descriptor_valid :: "shared_tile_descriptor \<Rightarrow> u32 \<Rightarrow> bool" where
  "descriptor_valid d capacity =
     (if sd_rows d = 0 \<or> sd_cols d = 0 \<or> sd_valid_rows d > sd_rows d \<or> sd_valid_cols d > sd_cols d
      then False
      else let elements = (ucast (sd_rows d) :: u64) * ucast (sd_cols d)
           in elements \<noteq> 0 \<and> elements \<le> ucast capacity * 2)"

definition capacity_bytes :: "u8 \<Rightarrow> u32 option" where
  "capacity_bytes size_code =
     (if size_code < 1 \<or> size_code > 12 then None
      else Some (push_bit (unat (size_code - 1)) 128))"

text \<open>The checking loop: the status it returns early, or \<open>None\<close> when it runs to its end.\<close>

fun check_lanes :: "u8 \<Rightarrow> u32 \<Rightarrow> shared_tile_version \<Rightarrow> shared_tile_descriptor list \<Rightarrow>
    u8 list list \<Rightarrow> nat list \<Rightarrow> shared_tile_write_status option" where
  "check_lanes pe_mask capacity v descriptors payloads [] = None"
| "check_lanes pe_mask capacity v descriptors payloads (pe # pes) =
     (if \<not> pe_selected pe_mask pe then check_lanes pe_mask capacity v descriptors payloads pes
      else if \<not> descriptor_valid (descriptors ! pe) capacity then Some SW_InvalidDescriptor
      else if length (payloads ! pe) \<noteq> unat capacity then Some SW_PayloadSizeMismatch
      else if sv_allocation_mask v \<noteq> 0 \<and>
        (sv_per_pe_capacity v \<noteq> capacity \<or> sv_dtype v \<noteq> sd_dtype (descriptors ! pe))
      then Some SW_DescriptorMismatch
      else if pe_selected (sv_initialized_mask v) pe \<and>
        sl_descriptor (sv_lanes v ! pe) \<noteq> descriptors ! pe
      then Some SW_DescriptorMismatch
      else check_lanes pe_mask capacity v descriptors payloads pes)"

definition allocate_version :: "u8 \<Rightarrow> u32 \<Rightarrow> shared_tile_descriptor list \<Rightarrow>
    shared_tile_version \<Rightarrow> shared_tile_version" where
  "allocate_version pe_mask capacity descriptors v =
     (if sv_allocation_mask v = 0 then
        let v = v\<lparr>sv_allocation_mask := pe_mask, sv_per_pe_capacity := capacity,
                  sv_allocated_bytes := capacity * of_nat (popcount pe_mask)\<rparr>
        in (case List.find (pe_selected pe_mask) [0..<kLinxCorePeCount] of
              Some pe \<Rightarrow> v\<lparr>sv_dtype := sd_dtype (descriptors ! pe)\<rparr>
            | None \<Rightarrow> v)
      else v)"

definition commit_lane :: "u8 \<Rightarrow> shared_tile_descriptor list \<Rightarrow> u8 list list \<Rightarrow> nat \<Rightarrow>
    shared_tile_version \<Rightarrow> shared_tile_version" where
  "commit_lane pe_mask descriptors payloads pe v =
     (if \<not> pe_selected pe_mask pe then v
      else v\<lparr>sv_lanes := (sv_lanes v)[pe := \<lparr>sl_descriptor = descriptors ! pe, sl_data = payloads ! pe\<rparr>],
             sv_initialized_mask := sv_initialized_mask v OR pe_mask_bit pe\<rparr>)"

definition tile_write :: "u16 \<Rightarrow> u8 \<Rightarrow> u8 \<Rightarrow> shared_tile_descriptor list \<Rightarrow> u8 list list \<Rightarrow>
    shared_tile_bank \<Rightarrow> shared_tile_write_status \<times> shared_tile_bank" where
  "tile_write shared_id pe_mask size_code descriptors payloads bank =
     (if unat shared_id \<ge> length bank then (SW_InvalidRegister, bank)
      else if pe_mask AND NOT kValidPeMask \<noteq> 0 then (SW_InvalidMask, bank)
      else if pe_mask = 0 then (SW_Noop, bank)
      else (case capacity_bytes size_code of
        None \<Rightarrow> (SW_InvalidSize, bank)
      | Some capacity \<Rightarrow>
          let v = bank ! unat shared_id
          in if sv_allocation_mask v \<noteq> 0 \<and> pe_mask AND NOT (sv_allocation_mask v) \<noteq> 0
             then (SW_AllocationExpansion, bank)
             else (case check_lanes pe_mask capacity v descriptors payloads [0..<kLinxCorePeCount] of
               Some st \<Rightarrow> (st, bank)
             | None \<Rightarrow>
                 (SW_Applied, bank[unat shared_id :=
                    fold (commit_lane pe_mask descriptors payloads) [0..<kLinxCorePeCount]
                      (allocate_version pe_mask capacity descriptors v)]))))"

definition tile_write_uniform :: "u16 \<Rightarrow> u8 \<Rightarrow> u8 \<Rightarrow> shared_tile_descriptor \<Rightarrow> u8 list list \<Rightarrow>
    shared_tile_bank \<Rightarrow> shared_tile_write_status \<times> shared_tile_bank" where
  "tile_write_uniform shared_id pe_mask size_code d payloads bank =
     tile_write shared_id pe_mask size_code (replicate kLinxCorePeCount d) payloads bank"

definition tile_read :: "u16 \<Rightarrow> u8 \<Rightarrow> shared_tile_bank \<Rightarrow> shared_tile_lane option" where
  "tile_read shared_id pe_id bank =
     (if unat shared_id \<ge> length bank \<or> unat pe_id \<ge> kLinxCorePeCount then None
      else let v = bank ! unat shared_id
           in if \<not> pe_selected (sv_initialized_mask v) (unat pe_id) then None
              else Some (sv_lanes v ! unat pe_id))"

definition tile_version :: "u16 \<Rightarrow> shared_tile_bank \<Rightarrow> shared_tile_version" where
  "tile_version shared_id bank =
     (if unat shared_id < length bank then bank ! unat shared_id else version_default)"

definition tile_reset :: "shared_tile_bank \<Rightarrow> shared_tile_bank" where
  "tile_reset bank = replicate kLinxSharedTileCount version_default"

section \<open>Operand binding rules\<close>

datatype tile_binding_kind = TB_Bior | TB_Biot | TB_Bios
datatype tile_operand_space = TS_ScalarAddress | TS_Local | TS_Shared
datatype tile_operation_kind = TO_Tmov | TO_Cube | TO_Tgemv
datatype tile_shared_use = TU_None | TU_Source | TU_Destination

fun binding_allows :: "tile_binding_kind \<Rightarrow> tile_operand_space \<Rightarrow> bool" where
  "binding_allows TB_Bior space \<longleftrightarrow> space = TS_ScalarAddress"
| "binding_allows TB_Biot space \<longleftrightarrow> space = TS_Local"
| "binding_allows TB_Bios space \<longleftrightarrow> space = TS_Shared"

definition validate_shared_operation ::
    "tile_operation_kind \<Rightarrow> tile_shared_use \<Rightarrow> u8 \<Rightarrow> u8 \<Rightarrow> bool" where
  "validate_shared_operation operation shared_use shared_mask local_mask =
     (if shared_mask AND NOT kValidPeMask \<noteq> 0 \<or> local_mask AND NOT kValidPeMask \<noteq> 0 then False
      else if shared_mask = 0 then True
      else (case operation of
        TO_Tmov \<Rightarrow> shared_use \<noteq> TU_None \<and> shared_mask = local_mask
      | TO_Cube \<Rightarrow> shared_use = TU_Source \<and> shared_mask = kValidPeMask
      | TO_Tgemv \<Rightarrow> shared_use = TU_None))"


section \<open>Masks\<close>

lemma bit_pe_mask_bit: "pe < 4 \<Longrightarrow> bit (pe_mask_bit pe) i \<longleftrightarrow> i = 3 - pe"
  by (auto simp: pe_mask_bit_def kLinxCorePeCount_def bit_exp_iff)

lemma pe_selected_bit: "pe < 4 \<Longrightarrow> pe_selected w pe \<longleftrightarrow> bit w (3 - pe)"
  using bit_eq_iff [of "w AND pe_mask_bit pe" 0]
  by (auto simp: pe_selected_def bit_and_iff bit_pe_mask_bit dest: bit_imp_le_length)

lemma pe_selected_or:
  "pe < 4 \<Longrightarrow> q < 4 \<Longrightarrow> pe_selected (w OR pe_mask_bit q) pe \<longleftrightarrow> pe_selected w pe \<or> pe = q"
  by (auto simp: pe_selected_bit bit_or_iff bit_pe_mask_bit)

lemma bit_u8: "bit (w :: u8) i \<Longrightarrow> i < 8"
  using bit_imp_le_length by fastforce

lemma subset_mask: "(a :: u8) AND NOT b = 0 \<longleftrightarrow> (\<forall>i. bit a i \<longrightarrow> bit b i)"
  using bit_eq_iff [of "a AND NOT b" 0] by (auto simp: bit_and_iff bit_not_iff bit_u8)

lemma valid_mask_bits: "w AND NOT kValidPeMask = 0 \<longleftrightarrow> (\<forall>i. bit w i \<longrightarrow> i < 4)"
proof -
  have k: "kValidPeMask = mask 4" by (simp add: kValidPeMask_def mask_eq_exp_minus_1)
  have "bit kValidPeMask i \<longleftrightarrow> i < 4" for i
    unfolding k by (simp only: bit_mask_iff) auto
  then show ?thesis by (simp add: subset_mask)
qed

lemma mask_subset_selected:
  assumes "a AND NOT b = 0" "pe < 4" "pe_selected a pe"
  shows "pe_selected b pe"
  using assms by (simp add: pe_selected_bit subset_mask)

lemma selected_nonzero: "pe_selected w pe \<Longrightarrow> w \<noteq> 0"
  by (auto simp: pe_selected_def)

lemma nonzero_selected:
  assumes "w AND NOT kValidPeMask = 0" "w \<noteq> 0"
  shows "\<exists>pe < 4. pe_selected w pe"
proof -
  from assms(2) obtain i where i: "bit w i" by (auto simp: bit_eq_iff)
  with assms(1) have "i < 4" by (simp add: valid_mask_bits)
  with i show ?thesis by (intro exI [of _ "3 - i"]) (simp add: pe_selected_bit)
qed

section \<open>The checking and the committing loop\<close>

definition lane_accepts :: "u32 \<Rightarrow> shared_tile_version \<Rightarrow> shared_tile_descriptor \<Rightarrow> u8 list \<Rightarrow> nat \<Rightarrow> bool" where
  "lane_accepts capacity v d payload pe \<longleftrightarrow>
     descriptor_valid d capacity \<and> length payload = unat capacity \<and>
     (sv_allocation_mask v \<noteq> 0 \<longrightarrow> sv_per_pe_capacity v = capacity \<and> sv_dtype v = sd_dtype d) \<and>
     (pe_selected (sv_initialized_mask v) pe \<longrightarrow> sl_descriptor (sv_lanes v ! pe) = d)"

lemma check_lanes_None:
  "check_lanes pe_mask capacity v ds ps pes = None \<longleftrightarrow>
   (\<forall>pe \<in> set pes. pe_selected pe_mask pe \<longrightarrow> lane_accepts capacity v (ds ! pe) (ps ! pe) pe)"
  by (induction pes) (auto simp: lane_accepts_def)

lemma check_lanes_status: "check_lanes pe_mask capacity v ds ps pes = Some st \<Longrightarrow>
   st \<in> {SW_InvalidDescriptor, SW_PayloadSizeMismatch, SW_DescriptorMismatch}"
  by (induction pes) (auto split: if_splits)

lemma commit_fold_frame:
  "sv_allocation_mask (fold (commit_lane m ds ps) pes v) = sv_allocation_mask v"
  "sv_per_pe_capacity (fold (commit_lane m ds ps) pes v) = sv_per_pe_capacity v"
  "sv_allocated_bytes (fold (commit_lane m ds ps) pes v) = sv_allocated_bytes v"
  "sv_dtype (fold (commit_lane m ds ps) pes v) = sv_dtype v"
  by (induction pes arbitrary: v) (simp_all add: commit_lane_def)

lemma commit_fold_length: "length (sv_lanes (fold (commit_lane m ds ps) pes v)) = length (sv_lanes v)"
  by (induction pes arbitrary: v) (simp_all add: commit_lane_def)

lemma commit_lane_nth:
  "length (sv_lanes v) = 4 \<Longrightarrow> pe < 4 \<Longrightarrow>
   sv_lanes (commit_lane m ds ps pe v) ! i =
     (if i = pe \<and> pe_selected m pe then \<lparr>sl_descriptor = ds ! i, sl_data = ps ! i\<rparr>
      else sv_lanes v ! i)"
  by (simp add: commit_lane_def)

lemma commit_lane_length: "length (sv_lanes (commit_lane m ds ps pe v)) = length (sv_lanes v)"
  by (simp add: commit_lane_def)

lemma commit_fold_lane:
  "set pes \<subseteq> {..<4} \<Longrightarrow> length (sv_lanes v) = 4 \<Longrightarrow>
   sv_lanes (fold (commit_lane m ds ps) pes v) ! i =
     (if i \<in> set pes \<and> pe_selected m i then \<lparr>sl_descriptor = ds ! i, sl_data = ps ! i\<rparr>
      else sv_lanes v ! i)"
proof (induction pes arbitrary: v)
  case Nil
  then show ?case by simp
next
  case (Cons pe pes)
  have pe: "pe < 4" and rest: "set pes \<subseteq> {..<4}" using Cons.prems(1) by auto
  have len: "length (sv_lanes (commit_lane m ds ps pe v)) = 4"
    using Cons.prems(2) by (simp add: commit_lane_length)
  show ?case
    using Cons.IH [OF rest len] commit_lane_nth [OF Cons.prems(2) pe, of m ds ps i]
    by (cases "i = pe"; cases "i \<in> set pes"; cases "pe_selected m i") simp_all
qed

lemma commit_fold_init:
  "set pes \<subseteq> {..<4} \<Longrightarrow> i < 4 \<Longrightarrow>
   pe_selected (sv_initialized_mask (fold (commit_lane m ds ps) pes v)) i \<longleftrightarrow>
     (i \<in> set pes \<and> pe_selected m i) \<or> pe_selected (sv_initialized_mask v) i"
  by (induction pes arbitrary: v) (auto simp: commit_lane_def pe_selected_or)

section \<open>The invariant\<close>

text \<open>
  Either the register is as the reset left it, or it is allocated: the initialised lanes are the
  allocated ones, the byte count is the capacity times their number (without overflow), and every
  such lane holds a valid descriptor and a payload of exactly the capacity.
\<close>

definition version_inv :: "shared_tile_version \<Rightarrow> bool" where
  "version_inv v \<longleftrightarrow>
     length (sv_lanes v) = kLinxCorePeCount \<and>
     sv_allocation_mask v AND NOT kValidPeMask = 0 \<and>
     (if sv_allocation_mask v = 0 then v = version_default
      else (\<exists>code. capacity_bytes code = Some (sv_per_pe_capacity v)) \<and>
        unat (sv_allocated_bytes v) = unat (sv_per_pe_capacity v) * popcount (sv_allocation_mask v) \<and>
        (\<forall>pe < kLinxCorePeCount.
          pe_selected (sv_initialized_mask v) pe = pe_selected (sv_allocation_mask v) pe \<and>
          (pe_selected (sv_allocation_mask v) pe \<longrightarrow>
            descriptor_valid (sl_descriptor (sv_lanes v ! pe)) (sv_per_pe_capacity v) \<and>
            length (sl_data (sv_lanes v ! pe)) = unat (sv_per_pe_capacity v))))"

definition bank_inv :: "shared_tile_bank \<Rightarrow> bool" where
  "bank_inv bank \<longleftrightarrow> length bank = kLinxSharedTileCount \<and> list_all version_inv bank"

lemma version_default_inv: "version_inv version_default"
  by (simp add: version_inv_def version_default_def)

lemma tile_reset_inv: "bank_inv (tile_reset bank)"
  by (simp add: bank_inv_def tile_reset_def list_all_iff version_default_inv)

lemma capacity_small:
  assumes "capacity_bytes code = Some c"
  shows "unat c \<le> 262144" "128 \<le> unat c"
proof -
  let ?k = "unat (code - 1)"
  from assms have c: "c = push_bit ?k 128" and code: "\<not> code < 1" "\<not> code > 12"
    by (auto simp: capacity_bytes_def split: if_splits)
  have "unat code \<le> 12" using code(2) by (simp add: word_le_nat_alt not_less)
  moreover have "unat (code - 1) = unat code - 1"
    using code(1) by (intro unat_minus_one_pos) auto
  ultimately have "?k \<le> 11" by simp
  then have "?k \<in> {..<12}" by simp
  also have "{..<12} = {0, 1, 2, 3, 4, 5, 6, 7, 8, 9, 10, 11 :: nat}"
    by (simp add: lessThan_nat_numeral lessThan_Suc insert_commute)
  finally have "?k \<in> {0, 1, 2, 3, 4, 5, 6, 7, 8, 9, 10, 11}" .
  then have "unat c \<le> 262144 \<and> 128 \<le> unat c"
    unfolding c by (elim insertE emptyE; simp add: push_bit_eq_mult)
  then show "unat c \<le> 262144" "128 \<le> unat c" by auto
qed

lemma popcount_le: "popcount w \<le> 8"
  unfolding popcount_def using length_filter_le [of "bit w" "[0..<8]"] by simp

lemma allocated_exact:
  assumes "capacity_bytes code = Some c"
  shows "unat (c * of_nat (popcount m) :: u32) = unat c * popcount m"
proof -
  have "unat c * popcount m \<le> 262144 * 8"
    using capacity_small(1) [OF assms] popcount_le by (intro mult_le_mono)
  then have "unat c * popcount m < 2 ^ 32" by simp
  moreover have "unat (of_nat (popcount m) :: u32) = popcount m"
    using popcount_le [of m] by (simp add: unat_of_nat)
  ultimately show ?thesis by (simp add: unat_word_ariths)
qed

lemma allocate_frame:
  "sv_lanes (allocate_version m c ds v) = sv_lanes v"
  "sv_initialized_mask (allocate_version m c ds v) = sv_initialized_mask v"
  "sv_allocation_mask (allocate_version m c ds v) =
     (if sv_allocation_mask v = 0 then m else sv_allocation_mask v)"
  "sv_per_pe_capacity (allocate_version m c ds v) =
     (if sv_allocation_mask v = 0 then c else sv_per_pe_capacity v)"
  "sv_allocated_bytes (allocate_version m c ds v) =
     (if sv_allocation_mask v = 0 then c * of_nat (popcount m) else sv_allocated_bytes v)"
  by (simp_all add: allocate_version_def Let_def split: option.split)

lemma upt4: "{0..<kLinxCorePeCount} = {..<4}"
  by (auto simp: kLinxCorePeCount_def)

text \<open>The register after an accepted write.\<close>

definition written_version :: "u8 \<Rightarrow> u32 \<Rightarrow> shared_tile_descriptor list \<Rightarrow> u8 list list \<Rightarrow>
    shared_tile_version \<Rightarrow> shared_tile_version" where
  "written_version m c ds ps v =
     fold (commit_lane m ds ps) [0..<kLinxCorePeCount] (allocate_version m c ds v)"

lemmas written_frame = commit_fold_frame [of m ds ps "[0..<kLinxCorePeCount]"
  "allocate_version m c ds v" for m c ds ps v, folded written_version_def]

lemma written_lane:
  assumes "length (sv_lanes v) = kLinxCorePeCount" "i < 4"
  shows "sv_lanes (written_version m c ds ps v) ! i =
    (if pe_selected m i then \<lparr>sl_descriptor = ds ! i, sl_data = ps ! i\<rparr> else sv_lanes v ! i)"
proof -
  have "length (sv_lanes v) = 4" using assms(1) by (simp add: kLinxCorePeCount_def)
  with assms(2) show ?thesis unfolding written_version_def
    by (subst commit_fold_lane) (simp_all add: upt4 allocate_frame)
qed

lemma written_init:
  assumes "i < 4"
  shows "pe_selected (sv_initialized_mask (written_version m c ds ps v)) i \<longleftrightarrow>
    pe_selected m i \<or> pe_selected (sv_initialized_mask v) i"
  unfolding written_version_def
  by (subst commit_fold_init) (use assms in \<open>simp_all add: upt4 allocate_frame\<close>)

lemma written_length: "length (sv_lanes (written_version m c ds ps v)) = length (sv_lanes v)"
  by (simp add: written_version_def commit_fold_length allocate_frame)

text \<open>What an accepted write has checked, and what it does.\<close>

lemma tile_write_cases:
  assumes "tile_write shared_id m size_code ds ps bank = (st, bank')"
  obtains (refused) "st \<noteq> SW_Applied" "bank' = bank"
  | (applied) c where "st = SW_Applied" "unat shared_id < length bank" "m AND NOT kValidPeMask = 0" "m \<noteq> 0"
      "capacity_bytes size_code = Some c"
      "sv_allocation_mask (bank ! unat shared_id) = 0 \<or> m AND NOT (sv_allocation_mask (bank ! unat shared_id)) = 0"
      "\<forall>pe < 4. pe_selected m pe \<longrightarrow> lane_accepts c (bank ! unat shared_id) (ds ! pe) (ps ! pe) pe"
      "bank' = bank[unat shared_id := written_version m c ds ps (bank ! unat shared_id)]"
proof -
  note w = assms [unfolded tile_write_def Let_def, folded written_version_def]
  show thesis
  proof (cases "st = SW_Applied")
    case False
    then have "bank' = bank" using w by (auto split: if_splits option.splits)
    with False show thesis by (rule refused)
  next
    case True
    then obtain c where c: "capacity_bytes size_code = Some c"
      "unat shared_id < length bank" "m AND NOT kValidPeMask = 0" "m \<noteq> 0"
      "sv_allocation_mask (bank ! unat shared_id) = 0 \<or> m AND NOT (sv_allocation_mask (bank ! unat shared_id)) = 0"
      "check_lanes m c (bank ! unat shared_id) ds ps [0..<kLinxCorePeCount] = None"
      "bank' = bank[unat shared_id := written_version m c ds ps (bank ! unat shared_id)]"
      using w by (auto split: if_splits option.splits dest: check_lanes_status)
    then show thesis using True by (intro applied) (simp_all add: check_lanes_None upt4 Ball_def)
  qed
qed

lemma written_version_inv:
  assumes inv: "version_inv v" and m: "m AND NOT kValidPeMask = 0" "m \<noteq> 0"
    and c: "capacity_bytes code = Some c"
    and sub: "sv_allocation_mask v = 0 \<or> m AND NOT (sv_allocation_mask v) = 0"
    and ok: "\<forall>pe < 4. pe_selected m pe \<longrightarrow> lane_accepts c v (ds ! pe) (ps ! pe) pe"
  shows "version_inv (written_version m c ds ps v)"
proof -
  let ?w = "written_version m c ds ps v"
  have len: "length (sv_lanes v) = kLinxCorePeCount" using inv by (simp add: version_inv_def)
  have lanes: "sv_lanes ?w ! i = (if pe_selected m i
      then \<lparr>sl_descriptor = ds ! i, sl_data = ps ! i\<rparr> else sv_lanes v ! i)" if "i < 4" for i
    using written_lane [OF len that] .
  show ?thesis
  proof (cases "sv_allocation_mask v = 0")
    case True
    with inv have v: "v = version_default" by (simp add: version_inv_def)
    have none: "\<not> pe_selected (sv_initialized_mask v) i" for i
      by (simp add: v version_default_def pe_selected_def)
    have "unat (c * of_nat (popcount m) :: u32) = unat c * popcount m"
      using allocated_exact [OF c] .
    moreover have "descriptor_valid (ds ! i) c" "length (ps ! i) = unat c"
      if "i < 4" "pe_selected m i" for i
      using ok that by (simp_all add: lane_accepts_def)
    ultimately show ?thesis
      using True m c len none lanes
      by (auto simp: version_inv_def written_frame allocate_frame written_length written_init
          kLinxCorePeCount_def)
  next
    case False
    with sub have sub: "m AND NOT (sv_allocation_mask v) = 0" by simp
    obtain pe where "pe < 4" "pe_selected m pe" using nonzero_selected [OF m] by blast
    with ok have "lane_accepts c v (ds ! pe) (ps ! pe) pe" by blast
    with False have c_eq: "sv_per_pe_capacity v = c" by (simp add: lane_accepts_def)
    have "descriptor_valid (ds ! i) c" "length (ps ! i) = unat c" "pe_selected (sv_allocation_mask v) i"
      if "i < 4" "pe_selected m i" for i
      using ok that mask_subset_selected [OF sub] by (simp_all add: lane_accepts_def)
    then show ?thesis
      using False inv len lanes c_eq
      by (auto simp: version_inv_def written_frame allocate_frame written_length written_init
          kLinxCorePeCount_def)
  qed
qed

lemma tile_write_inv:
  assumes inv: "bank_inv bank"
  shows "bank_inv (snd (tile_write shared_id m size_code ds ps bank))"
proof -
  obtain st bank' where w: "tile_write shared_id m size_code ds ps bank = (st, bank')" by force
  then show ?thesis
  proof (cases rule: tile_write_cases)
    case refused
    with w inv show ?thesis by simp
  next
    case (applied c)
    from inv applied(2) have "version_inv (bank ! unat shared_id)"
      by (simp add: bank_inv_def list_all_length)
    from written_version_inv [OF this applied(3,4,5,6,7)]
    show ?thesis using inv w applied(2,8)
      by (auto simp: bank_inv_def list_all_length nth_list_update)
  qed
qed

section \<open>What the bank promises\<close>

datatype tile_op =
    Op_Write u16 u8 u8 "shared_tile_descriptor list" "u8 list list"
  | Op_Write_Uniform u16 u8 u8 shared_tile_descriptor "u8 list list"
  | Op_Reset

fun tile_step :: "tile_op \<Rightarrow> shared_tile_bank \<Rightarrow> shared_tile_bank" where
  "tile_step (Op_Write i m s ds ps) bank = snd (tile_write i m s ds ps bank)"
| "tile_step (Op_Write_Uniform i m s d ps) bank = snd (tile_write_uniform i m s d ps bank)"
| "tile_step Op_Reset bank = tile_reset bank"

lemma tile_step_inv: "bank_inv bank \<Longrightarrow> bank_inv (tile_step op bank)"
  by (cases op) (simp_all add: tile_write_inv tile_write_uniform_def tile_reset_inv)

text \<open>C18: after any sequence of writes and resets, accepted or refused, every register of the bank
  keeps its invariant: masks within the four processing elements, the readable lanes exactly the
  allocated ones, the byte count equal to capacity times lanes, every readable lane holding a valid
  descriptor and a payload of exactly the capacity.\<close>
theorem tile_bank_invariant: "bank_inv (fold tile_step ops (tile_reset bank))"
proof (induction ops rule: rev_induct)
  case Nil
  show ?case by (simp add: tile_reset_inv)
next
  case (snoc op ops)
  then show ?case by (simp add: tile_step_inv)
qed

text \<open>C11: a write either reports a status other than \<open>Applied\<close> and leaves the whole bank as it was, or
  it is applied as a whole: every selected lane then reads back its descriptor and payload, and every
  other lane of every register reads as before.\<close>
theorem tile_write_atomic:
  assumes "bank_inv bank" and "tile_write shared_id m size_code ds ps bank = (st, bank')"
  shows "if st \<noteq> SW_Applied then bank' = bank
    else \<forall>i pe. tile_read i pe bank' =
      (if i = shared_id \<and> unat pe < kLinxCorePeCount \<and> pe_selected m (unat pe)
       then Some \<lparr>sl_descriptor = ds ! unat pe, sl_data = ps ! unat pe\<rparr> else tile_read i pe bank)"
  using assms(2)
proof (cases rule: tile_write_cases)
  case refused
  then show ?thesis by simp
next
  case (applied c)
  have len: "length (sv_lanes (bank ! unat shared_id)) = kLinxCorePeCount"
    using assms(1) applied(2) by (simp add: bank_inv_def list_all_length version_inv_def)
  have same: "unat shared_id = unat i \<longleftrightarrow> i = shared_id" for i
    by (auto simp: word_unat_eq_iff)
  have "tile_read i pe bank' =
      (if i = shared_id \<and> unat pe < kLinxCorePeCount \<and> pe_selected m (unat pe)
       then Some \<lparr>sl_descriptor = ds ! unat pe, sl_data = ps ! unat pe\<rparr> else tile_read i pe bank)" for i pe
    using applied(2) same [of i]
    by (cases "i = shared_id"; cases "unat pe < kLinxCorePeCount")
      (auto simp: tile_read_def applied(8) Let_def nth_list_update written_init written_lane [OF len]
        kLinxCorePeCount_def)
  with applied(1) show ?thesis by simp
qed

definition sample_tile :: shared_tile_descriptor where
  "sample_tile = \<lparr>sd_dtype = 3, sd_valid_cols = 8, sd_valid_rows = 4, sd_cols = 8, sd_rows = 4\<rparr>"

definition sample_payloads :: "u8 list list" where
  "sample_payloads = replicate 4 (replicate 128 7)"

theorem tile_write_atomic_witness:
  "tile_read 7 1 (snd (tile_write 7 0xC 1 (replicate 4 sample_tile) sample_payloads (tile_reset []))) =
   Some \<lparr>sl_descriptor = sample_tile, sl_data = replicate 128 7\<rparr>"
proof -
  let ?b = "snd (tile_write 7 0xC 1 (replicate 4 sample_tile) sample_payloads (tile_reset []))"
  have st: "fst (tile_write 7 0xC 1 (replicate 4 sample_tile) sample_payloads (tile_reset [])) = SW_Applied"
    by code_simp
  then have "tile_write 7 0xC 1 (replicate 4 sample_tile) sample_payloads (tile_reset []) = (SW_Applied, ?b)"
    by (metis prod.collapse)
  from tile_write_atomic [OF tile_reset_inv this, simplified, rule_format, of 7 1]
  have "tile_read 7 1 ?b = (if unat (1 :: u8) < kLinxCorePeCount \<and> pe_selected 0xC (unat (1 :: u8))
      then Some \<lparr>sl_descriptor = replicate 4 sample_tile ! unat (1 :: u8), sl_data = sample_payloads ! unat (1 :: u8)\<rparr>
      else tile_read 7 1 (tile_reset []))" by simp
  then show ?thesis by (simp add: kLinxCorePeCount_def pe_selected_def pe_mask_bit_def sample_payloads_def)
qed

section \<open>Lanes of different element types\<close>

text \<open>The first write of a register takes the element type of its first selected lane as the
  register's and does not compare the other lanes with it.  A lane stored with another element type
  stays readable, but no later write that selects it is ever applied, whatever its size, descriptors
  and payloads.\<close>
lemma mixed_dtype_lane_stuck:
  assumes "bank_inv bank" and "tile_read shared_id pe bank = Some lane"
    and "sd_dtype (sl_descriptor lane) \<noteq> sv_dtype (tile_version shared_id bank)"
    and "pe_selected m (unat pe)"
  shows "fst (tile_write shared_id m size_code ds ps bank) \<noteq> SW_Applied"
proof
  let ?v = "bank ! unat shared_id"
  assume "fst (tile_write shared_id m size_code ds ps bank) = SW_Applied"
  then obtain bank' where w: "tile_write shared_id m size_code ds ps bank = (SW_Applied, bank')"
    by (metis prod.collapse)
  from assms(2) have i: "unat shared_id < length bank" "unat pe < kLinxCorePeCount"
    "pe_selected (sv_initialized_mask ?v) (unat pe)" "lane = sv_lanes ?v ! unat pe"
    by (auto simp: tile_read_def Let_def split: if_splits)
  with assms(1) have inv: "version_inv ?v" by (simp add: bank_inv_def list_all_length)
  have alloc: "sv_allocation_mask ?v \<noteq> 0"
  proof
    assume z: "sv_allocation_mask ?v = 0"
    with inv have "?v = version_default" by (simp add: version_inv_def)
    with i(3) show False by (simp add: version_default_def pe_selected_def)
  qed
  from w show False
  proof (cases rule: tile_write_cases)
    case refused
    then show False by simp
  next
    case (applied c)
    then have "lane_accepts c ?v (ds ! unat pe) (ps ! unat pe) (unat pe)"
      using assms(4) i(2) by (simp add: kLinxCorePeCount_def)
    then have "sv_dtype ?v = sd_dtype (sl_descriptor lane)"
      using alloc i by (simp add: lane_accepts_def)
    with assms(3) i(1) show False by (simp add: tile_version_def)
  qed
qed

definition mixed_bank :: shared_tile_bank where
  "mixed_bank = snd (tile_write 7 0xC 1
     [sample_tile, sample_tile\<lparr>sd_dtype := 9\<rparr>, sample_tile, sample_tile] sample_payloads (tile_reset []))"

lemma mixed_dtype_lane_stuck_witness:
  "fst (tile_write 7 0x4 1 (replicate 4 (sample_tile\<lparr>sd_dtype := 9\<rparr>)) sample_payloads mixed_bank)
   \<noteq> SW_Applied"
proof -
  have inv: "bank_inv mixed_bank" unfolding mixed_bank_def by (intro tile_write_inv tile_reset_inv)
  have lane: "tile_read 7 1 mixed_bank =
      Some \<lparr>sl_descriptor = sample_tile\<lparr>sd_dtype := 9\<rparr>, sl_data = replicate 128 7\<rparr>" by code_simp
  have dtype: "sv_dtype (tile_version 7 mixed_bank) = 3" by code_simp
  have sel: "pe_selected 0x4 (unat (1 :: u8))" by code_simp
  show ?thesis
    by (rule mixed_dtype_lane_stuck [OF inv lane _ sel]) (simp add: dtype sample_tile_def)
qed

end
