(* ===== verification/Text_Format.thy ===== *)
theory Text_Format
  imports Model_Prelude
begin

text \<open>
  The number formatting of the C++ streams that the code uses: decimal and lower-case hexadecimal,
  the latter padded with \<^verbatim>\<open>std::setw\<close> and \<^verbatim>\<open>std::setfill('0')\<close> (a width pads, it never cuts).
\<close>

definition digit_char :: "nat \<Rightarrow> char" where
  "digit_char d = ''0123456789abcdef'' ! d"

fun radix_text :: "nat \<Rightarrow> nat \<Rightarrow> string" where
  "radix_text b n =
     (if b < 2 \<or> n < b then [digit_char n] else radix_text b (n div b) @ [digit_char (n mod b)])"

declare radix_text.simps [simp del]

definition dec_text :: "nat \<Rightarrow> string" where
  "dec_text n = radix_text 10 n"

definition int_text :: "int \<Rightarrow> string" where
  "int_text i = (if i < 0 then CHR ''-'' # dec_text (nat (- i)) else dec_text (nat i))"

definition pad_left :: "nat \<Rightarrow> char \<Rightarrow> string \<Rightarrow> string" where
  "pad_left width c s = replicate (width - length s) c @ s"

definition pad_right :: "nat \<Rightarrow> char \<Rightarrow> string \<Rightarrow> string" where
  "pad_right width c s = s @ replicate (width - length s) c"

definition hex_text :: "nat \<Rightarrow> nat \<Rightarrow> string" where
  "hex_text width n = pad_left width CHR ''0'' (radix_text 16 n)"

section \<open>Reading numbers back\<close>

definition digit_value :: "char \<Rightarrow> nat" where
  "digit_value c = length (takeWhile (\<lambda>d. d \<noteq> c) ''0123456789abcdef'')"

definition radix_value :: "nat \<Rightarrow> string \<Rightarrow> nat" where
  "radix_value b s = foldl (\<lambda>n c. b * n + digit_value c) 0 s"

lemma digit_value_char: "d < 16 \<Longrightarrow> digit_value (digit_char d) = d"
proof -
  assume "d < 16"
  then have "d \<in> {..<16}" by simp
  also have "{..<16} = {0, 1, 2, 3, 4, 5, 6, 7, 8, 9, 10, 11, 12, 13, 14, 15 :: nat}"
    by (simp add: lessThan_nat_numeral lessThan_Suc insert_commute)
  finally show ?thesis by (elim insertE emptyE; simp add: digit_value_def digit_char_def)
qed

lemma radix_value_snoc: "radix_value b (s @ [c]) = b * radix_value b s + digit_value c"
  by (simp add: radix_value_def)

lemma radix_roundtrip: "2 \<le> b \<Longrightarrow> b \<le> 16 \<Longrightarrow> radix_value b (radix_text b n) = n"
proof (induction b n rule: radix_text.induct)
  case (1 b n)
  show ?case
  proof (cases "n < b")
    case True
    then show ?thesis using 1(3) by (subst radix_text.simps) (simp add: radix_value_def digit_value_char)
  next
    case False
    then have "radix_value b (radix_text b (n div b)) = n div b" using 1 by simp
    moreover have "n mod b < 16" using 1(2,3) using mod_less_divisor [of b n] by linarith
    ultimately show ?thesis using False 1(2,3)
      by (subst radix_text.simps) (simp add: radix_value_snoc digit_value_char)
  qed
qed

lemma dec_roundtrip: "radix_value 10 (dec_text n) = n"
  unfolding dec_text_def by (rule radix_roundtrip) simp_all

lemma dec_text_inj: "dec_text m = dec_text n \<Longrightarrow> m = n"
  by (metis dec_roundtrip)

lemma radix_value_zeros: "radix_value b (replicate k CHR ''0'' @ s) = radix_value b s"
proof (induction k)
  case 0
  show ?case by simp
next
  case (Suc k)
  have "digit_value CHR ''0'' = 0" by (simp add: digit_value_def)
  with Suc show ?case by (simp add: radix_value_def)
qed

lemma hex_roundtrip: "radix_value 16 (hex_text width n) = n"
  by (simp add: hex_text_def pad_left_def radix_value_zeros radix_roundtrip)

lemma hex_text_inj: "hex_text w m = hex_text w' n \<Longrightarrow> m = n"
  by (metis hex_roundtrip)

lemma radix_text_length: "2 \<le> b \<Longrightarrow> n < b ^ k \<Longrightarrow> 0 < k \<Longrightarrow> length (radix_text b n) \<le> k"
proof (induction k arbitrary: n)
  case 0
  then show ?case by simp
next
  case (Suc k)
  show ?case
  proof (cases "n < b")
    case True
    then show ?thesis by (subst radix_text.simps) simp
  next
    case False
    then have k: "0 < k" using Suc.prems(2) by (cases k) auto
    have "n div b < b ^ k" using Suc.prems(1,2) by (simp add: less_mult_imp_div_less mult.commute)
    with Suc.IH [of "n div b"] Suc.prems(1) k False show ?thesis
      by (subst radix_text.simps) simp
  qed
qed

lemma hex_text_length: "n < 16 ^ w \<Longrightarrow> 0 < w \<Longrightarrow> length (hex_text w n) = w"
  using radix_text_length [of 16 n w] by (simp add: hex_text_def pad_left_def)

end
