(* ===== verification/Minst_Text.thy ===== *)
theory Minst_Text
  imports Minst Text_Format "HOL-Library.Multiset"
begin

text \<open>
  The texts of a packet: names of the enumerations, field dumps (\<^verbatim>\<open>packet_dump.hpp\<close> and the
  \<^verbatim>\<open>DumpFields\<close> members of \<^verbatim>\<open>src/isa/minst.cpp\<close>) and the assembly text, where the field aliases are
  substituted into the form's template.  \<^verbatim>\<open>std::sort\<close> leaves the order of equal elements open: the
  functions that use it take the sorting function \<open>srt\<close> as an argument, and the locale
  \<open>replacement_order\<close> states what the standard promises of it.
\<close>

section \<open>Names of enumerators\<close>

fun operand_kind_text :: "operand_kind \<Rightarrow> string" where
  "operand_kind_text OK_Invalid = ''invalid''"
| "operand_kind_text OK_Register = ''reg''"
| "operand_kind_text OK_Immediate = ''imm''"
| "operand_kind_text OK_Predicate = ''pred''"
| "operand_kind_text OK_Memory = ''mem''"
| "operand_kind_text OK_Control = ''ctrl''"
| "operand_kind_text OK_Metadata = ''meta''"

fun width_text :: "minst_width \<Rightarrow> string" where
  "width_text W_None = ''-''"
| "width_text W_B8 = ''b8''"
| "width_text W_B16 = ''b16''"
| "width_text W_B32 = ''b32''"
| "width_text W_B64 = ''b64''"
| "width_text W_B128 = ''b128''"

fun opcode_class_text :: "opcode_class \<Rightarrow> string" where
  "opcode_class_text OC_Invalid = ''invalid''"
| "opcode_class_text OC_Nop = ''nop''"
| "opcode_class_text OC_Integer = ''int''"
| "opcode_class_text OC_FloatingPoint = ''fp''"
| "opcode_class_text OC_Branch = ''branch''"
| "opcode_class_text OC_Load = ''load''"
| "opcode_class_text OC_Store = ''store''"
| "opcode_class_text OC_Atomic = ''atomic''"
| "opcode_class_text OC_System = ''system''"

fun stage_text :: "minst_stage \<Rightarrow> string" where
  "stage_text St_Invalid = ''invalid''"
| "stage_text St_Fetch = ''fetch''"
| "stage_text St_Decode = ''decode''"
| "stage_text St_Rename = ''rename''"
| "stage_text St_Dispatch = ''dispatch''"
| "stage_text St_Issue = ''issue''"
| "stage_text St_Execute = ''execute''"
| "stage_text St_Memory = ''memory''"
| "stage_text St_Writeback = ''writeback''"
| "stage_text St_Rob = ''rob''"
| "stage_text St_Retire = ''retire''"
| "stage_text St_Flush = ''flush''"
| "stage_text St_Dfx = ''dfx''"

fun lifecycle_text :: "minst_lifecycle \<Rightarrow> string" where
  "lifecycle_text LC_Invalid = ''invalid''"
| "lifecycle_text LC_Allocated = ''allocated''"
| "lifecycle_text LC_InFlight = ''in_flight''"
| "lifecycle_text LC_Retired = ''retired''"
| "lifecycle_text LC_Flushed = ''flushed''"
| "lifecycle_text LC_Traced = ''traced''"

fun codec_status_text :: "codec_status \<Rightarrow> string" where
  "codec_status_text CS_Ok = ''ok''"
| "codec_status_text CS_InvalidLength = ''invalid_length''"
| "codec_status_text CS_NoMatch = ''no_match''"
| "codec_status_text CS_AmbiguousMatch = ''ambiguous_match''"
| "codec_status_text CS_ConstraintViolation = ''constraint_violation''"
| "codec_status_text CS_InvalidForm = ''invalid_form''"
| "codec_status_text CS_MissingField = ''missing_field''"
| "codec_status_text CS_ValueOutOfRange = ''value_out_of_range''"

section \<open>Field dumps\<close>

text \<open>\<open>dump_fields\<close> is the text a \<^verbatim>\<open>PacketDumpWriter\<close> leaves for a sequence of named values;
  \<open>dump_struct\<close> is \<^verbatim>\<open>DumpValue\<close> of a type with \<^verbatim>\<open>DumpFields\<close>.\<close>

fun join_text :: "string \<Rightarrow> string list \<Rightarrow> string" where
  "join_text sep [] = []"
| "join_text sep [s] = s"
| "join_text sep (s # t # ts) = s @ sep @ join_text sep (t # ts)"

definition dump_fields :: "(string \<times> string) list \<Rightarrow> string" where
  "dump_fields fs = join_text '', '' (map (\<lambda>(n, v). n @ ''='' @ v) fs)"

definition dump_struct :: "(string \<times> string) list \<Rightarrow> string" where
  "dump_struct fs = ''{'' @ dump_fields fs @ ''}''"

definition bool_text :: "bool \<Rightarrow> string" where
  "bool_text b = (if b then ''true'' else ''false'')"

text \<open>\<^verbatim>\<open>DumpValue\<close> chooses by the type of the value: a truth value, a smart pointer, a type with \<^verbatim>\<open>DumpFields\<close>, one with a
  text of its own (\<^verbatim>\<open>ToString\<close> or a stream operator), and the rest.  The writer of the fields puts a
  comma before every field but the first.\<close>

datatype dumpable = Dump_Bool bool | Dump_Null | Dump_Pointee dumpable | Dump_Fields "(string \<times> dumpable) list" |
  Dump_Text string | Dump_Unprintable

fun dump_value :: "dumpable \<Rightarrow> string"
  and write_fields :: "bool \<Rightarrow> (string \<times> dumpable) list \<Rightarrow> string" where
  "dump_value (Dump_Bool b) = bool_text b"
| "dump_value Dump_Null = ''null''"
| "dump_value (Dump_Pointee v) = dump_value v"
| "dump_value (Dump_Fields fs) = ''{'' @ write_fields True fs @ ''}''"
| "dump_value (Dump_Text t) = t"
| "dump_value Dump_Unprintable = ''<unprintable>''"
| "write_fields first [] = []"
| "write_fields first ((n, v) # fs) =
     (if first then [] else '', '') @ n @ ''='' @ dump_value v @ write_fields False fs"

text \<open>The flag of the writer gives the joined list of the fields.\<close>

lemma write_fields_join:
  "write_fields True fs = dump_fields (map (\<lambda>(n, v). (n, dump_value v)) fs)"
proof -
  have rest: "write_fields False fs = concat (map (\<lambda>(n, v). '', '' @ n @ ''='' @ dump_value v) fs)" for fs
    by (induction fs) auto
  show ?thesis
  proof (cases fs)
    case (Cons f gs)
    have "join_text '', '' (x # map (\<lambda>(n, v). n @ ''='' @ v) (map (\<lambda>(n, v). (n, dump_value v)) gs)) = x @ write_fields False gs" for x
      unfolding rest by (induction gs arbitrary: x) auto
    with Cons show ?thesis by (cases f) (simp add: dump_fields_def)
  qed (simp add: dump_fields_def)
qed

lemma dump_value_struct: "dump_value (Dump_Fields fs) = dump_struct (map (\<lambda>(n, v). (n, dump_value v)) fs)"
  by (simp add: dump_struct_def write_fields_join)

definition u64_text :: "u64 \<Rightarrow> string" where
  "u64_text w = dec_text (unat w)"

definition dump_decoded_field :: "decoded_field \<Rightarrow> string" where
  "dump_decoded_field f = dump_struct
     [(''name'', df_name f), (''signed'', bool_text (df_signed_hint f)),
      (''bits'', dec_text (df_bit_width f)), (''logical'', int_text (sint (df_logical_value f))),
      (''raw'', u64_text (unsigned_value f))]"

definition dump_operand :: "minst_operand \<Rightarrow> string" where
  "dump_operand p = dump_struct
     [(''dst'', bool_text (op_is_dst p)), (''ready'', bool_text (op_ready p)),
      (''kind'', operand_kind_text (op_kind p)), (''logical_width'', width_text (op_logical_width p)),
      (''encoded_bits'', dec_text (op_encoded_bits p)), (''value'', u64_text (op_value p)),
      (''data'', u64_text (op_data p)), (''field'', op_field_name p), (''note'', op_annotation p)]"

definition dump_memory_info :: "memory_info \<Rightarrow> string" where
  "dump_memory_info i = dump_struct
     [(''valid'', bool_text (mi_valid i)), (''load'', bool_text (mi_is_load i)),
      (''store'', bool_text (mi_is_store i)), (''logical_width'', width_text (mi_logical_width i)),
      (''addr'', u64_text (mi_addr i)), (''size'', u64_text (mi_size i)), (''note'', mi_annotation i)]"

definition encoded_hex_string :: "encoded_word \<Rightarrow> string" where
  "encoded_hex_string w = ''0x'' @ hex_text ((unat (ew_length_bits w) + 3) div 4) (unat (ew_bits w))"

text \<open>\<open>length_bits\<close> is a \<^verbatim>\<open>std::uint8_t\<close>, which a stream writes as one character.\<close>

definition dump_encoded_word :: "encoded_word \<Rightarrow> string" where
  "dump_encoded_word w = dump_struct
     [(''valid'', bool_text (ew_valid w)), (''status'', codec_status_text (ew_status w)),
      (''length_bits'', [char_of (unat (ew_length_bits w))]), (''bits'', encoded_hex_string w)]"

definition join_field_dump :: "decoded_field list \<Rightarrow> string" where
  "join_field_dump fs = join_text '';'' (map dump_decoded_field fs)"

definition join_operand_dump :: "minst_operand list \<Rightarrow> string" where
  "join_operand_dump ps = join_text '';'' (map dump_operand ps)"

section \<open>Token substitution\<close>

definition is_asm_token_char :: "char \<Rightarrow> bool" where
  "is_asm_token_char ch \<longleftrightarrow>
     (let c = (of_char ch :: nat) in
      (97 \<le> c \<and> c \<le> 122) \<or> (65 \<le> c \<and> c \<le> 90) \<or> (48 \<le> c \<and> c \<le> 57) \<or>
      ch = CHR ''_'' \<or> ch = CHR ''#'')"

lemma str_find_bounds:
  "str_find text needle pos = Some p \<Longrightarrow>
   pos \<le> p \<and> p + length needle \<le> length text \<and> take (length needle) (drop p text) = needle"
  unfolding str_find_def by (auto simp: find_Some_iff simp del: upt_Suc dest: nth_mem)

lemma str_find_progress:
  assumes "str_find text needle pos = Some p" "needle \<noteq> []"
  shows "length text - (p + length needle) < length text - pos" "pos \<le> p"
    "p + length needle \<le> length text" "pos < length text"
  using str_find_bounds [OF assms(1)] assms(2) by (cases needle; auto)+

text \<open>\<open>replace_from\<close> is the loop of \<^verbatim>\<open>ReplaceAsmToken\<close>: text and position after each round.\<close>

function replace_from :: "string \<Rightarrow> string \<Rightarrow> string \<Rightarrow> nat \<Rightarrow> string" where
  "replace_from needle replacement text pos =
     (if needle = [] then text
      else case str_find text needle pos of
        None \<Rightarrow> text
      | Some p \<Rightarrow>
          let left_ok = (p = 0 \<or> \<not> is_asm_token_char (text ! (p - 1)));
              right_idx = p + length needle;
              right_ok = (right_idx \<ge> length text \<or> \<not> is_asm_token_char (text ! right_idx))
          in if \<not> left_ok \<or> \<not> right_ok
             then replace_from needle replacement text (p + length needle)
             else replace_from needle replacement (take p text @ replacement @ drop right_idx text)
                    (p + length replacement))"
  by pat_completeness auto
termination
  by (relation "measure (\<lambda>(needle, replacement, text, pos). length text - pos)")
    (auto dest: str_find_progress)

declare replace_from.simps [simp del]

definition replace_asm_token :: "string \<Rightarrow> string \<Rightarrow> string \<Rightarrow> string" where
  "replace_asm_token text needle replacement = replace_from needle replacement text 0"

section \<open>Field aliases\<close>

definition register_asm_name :: "u64 \<Rightarrow> string" where
  "register_asm_name reg =
     (let kNames = [''zero'', ''sp'', ''a0'', ''a1'', ''a2'', ''a3'', ''a4'', ''a5'', ''a6'', ''a7'', ''ra'',
        ''s0'', ''s1'', ''s2'', ''s3'', ''s4'', ''s5'', ''s6'', ''s7'', ''s8'', ''x0'', ''x1'',
        ''x2'', ''x3'', ''t#1'', ''t#2'', ''t#3'', ''t#4'', ''u#1'', ''u#2'', ''u#3'', ''u#4'']
      in if unat reg < length kNames then kNames ! unat reg else ''invalid-reg'')"

definition is_asm_register_field :: "string \<Rightarrow> bool" where
  "is_asm_register_field name =
     (if name = ''RegDst'' \<or> starts_with name ''RegDst'' \<or> starts_with name ''RegSrc'' then True
      else if starts_with name ''Src'' \<or> starts_with name ''src'' then \<not> str_contains name ''Tile''
      else False)"

definition format_asm_field_value :: "decoded_field \<Rightarrow> string" where
  "format_asm_field_value f =
     (if is_asm_register_field (df_name f) then register_asm_name (unsigned_value f)
      else if df_signed_hint f then int_text (sint (df_logical_value f))
      else u64_text (unsigned_value f))"

record asm_replacement =
  ar_needle :: string
  ar_replacement :: string

definition add_replacement :: "string \<Rightarrow> string \<Rightarrow> asm_replacement list \<Rightarrow> asm_replacement list" where
  "add_replacement needle replacement rs =
     (if needle = [] then rs
      else rs @ [\<lparr>ar_needle = needle, ar_replacement = replacement\<rparr>])"

definition add_immediate_aliases :: "decoded_field \<Rightarrow> string \<Rightarrow> nat \<Rightarrow>
    asm_replacement list \<Rightarrow> asm_replacement list" where
  "add_immediate_aliases f v immediate_field_count rs =
     (let rs = (if starts_with (df_name f) ''uimm'' then add_replacement ''uimm'' v rs else rs);
          rs = (if starts_with (df_name f) ''simm'' then add_replacement ''simm'' v rs else rs);
          rs = (if starts_with (df_name f) ''imm'' then add_replacement ''imm'' v rs else rs)
      in if immediate_field_count = 1
         then add_replacement ''uimm'' v (add_replacement ''simm'' v (add_replacement ''imm'' v rs))
         else rs)"

definition add_field_aliases :: "decoded_field \<Rightarrow> string \<Rightarrow> nat \<Rightarrow>
    asm_replacement list \<Rightarrow> asm_replacement list" where
  "add_field_aliases f v immediate_field_count rs =
     (let rs = add_replacement (df_name f) v rs;
          rs = (case str_find (df_name f) ''='' 0 of
                  Some suffix \<Rightarrow> add_replacement (take suffix (df_name f)) v rs
                | None \<Rightarrow> rs);
          rs = (if df_name f = ''RegDst'' then add_replacement ''Dst'' v (add_replacement ''Rd'' v rs) else rs);
          rs = (if df_name f = ''SrcL'' then add_replacement ''srcL'' v rs else rs);
          rs = (if df_name f = ''SrcR'' then add_replacement ''srcR'' v rs else rs);
          rs = (if df_name f = ''SrcP'' then add_replacement ''srcP'' v rs else rs);
          rs = (if df_name f = ''SrcD'' then add_replacement ''srcD'' v rs else rs)
      in if is_immediate_field (df_name f) then add_immediate_aliases f v immediate_field_count rs
         else rs)"

text \<open>\<open>srt\<close> stands for \<^verbatim>\<open>std::sort\<close> with the comparison of the lambda; \<^verbatim>\<open>std::unique\<close> drops every
  element equal to its predecessor.\<close>

definition build_asm_replacements ::
    "(asm_replacement list \<Rightarrow> asm_replacement list) \<Rightarrow> decoded_field list \<Rightarrow> asm_replacement list" where
  "build_asm_replacements srt fs =
     (let immediate_field_count = length (filter (\<lambda>f. is_immediate_field (df_name f)) fs);
          rs = fold (\<lambda>f. add_field_aliases f (format_asm_field_value f) immediate_field_count) fs []
      in remdups_adj (srt rs))"

definition assemble_fallback :: "minst \<Rightarrow> string" where
  "assemble_fallback m =
     (if mnemonic m = [] then ''invalid'' else mnemonic m) @
     (if decoded_fields m = [] then []
      else '' '' @ join_text '', '' (map (\<lambda>f. df_name f @ ''='' @
        (if df_signed_hint f then int_text (sint (df_logical_value f))
         else ''0x'' @ radix_text 16 (unat (unsigned_value f)))) (decoded_fields m)))"

definition assemble :: "(asm_replacement list \<Rightarrow> asm_replacement list) \<Rightarrow> minst \<Rightarrow> string" where
  "assemble srt m =
     (if asm_template m \<noteq> [] then
        fold (\<lambda>r text. replace_asm_token text (ar_needle r) (ar_replacement r))
          (build_asm_replacements srt (decoded_fields m)) (asm_template m)
      else assemble_fallback m)"

definition or_dash :: "string \<Rightarrow> string" where
  "or_dash s = (if s = [] then ''-'' else s)"

definition dump_minst :: "(asm_replacement list \<Rightarrow> asm_replacement list) \<Rightarrow> minst \<Rightarrow> string" where
  "dump_minst srt m = dump_struct
     [(''uid'', u64_text (uid m)), (''pc'', u64_text (pc m)), (''npc'', u64_text (next_pc m)),
      (''raw'', dump_encoded_word \<lparr>ew_bits = raw_bits m, ew_length_bits = length_bits m,
         ew_valid = True, ew_status = CS_InvalidForm\<rparr>),
      (''form'', or_dash (form_id m)), (''mnemonic'', or_dash (mnemonic m)), (''asm'', assemble srt m),
      (''asm_template'', or_dash (asm_template m)), (''encoding_kind'', or_dash (encoding_kind m)),
      (''group'', or_dash (group m)), (''uop_group'', or_dash (uop_group m)),
      (''uop_big_kind'', or_dash (uop_big_kind m)), (''class'', opcode_class_text (opcode_class m)),
      (''stage'', stage_text (stage m)), (''life'', lifecycle_text (lifecycle m)),
      (''decode'', codec_status_text (decode_status m)), (''encode'', codec_status_text (encode_status m)),
      (''valid_form'', bool_text (valid_form m)), (''thread'', dec_text (unat (thread_id m))),
      (''lane'', dec_text (unat (lane_id m))), (''rob'', dec_text (unat (rob_id m))),
      (''valid'', bool_text (valid m)), (''spec'', bool_text (speculative m)),
      (''xcpt'', bool_text (exception m)), (''poison'', bool_text (poison m)),
      (''is_branch'', bool_text (is_branch m)), (''is_control'', bool_text (is_control m)),
      (''srcs'', dec_text (length (srcs m))), (''src_detail'', join_operand_dump (srcs m)),
      (''dsts'', dec_text (length (dsts m))), (''dst_detail'', join_operand_dump (dsts m)),
      (''imms'', dec_text (length (immediates m))), (''imm_detail'', join_field_dump (immediates m)),
      (''shift'', (case shift_amount m of Some f \<Rightarrow> dump_decoded_field f | None \<Rightarrow> ''null'')),
      (''mem'', (case memory m of Some i \<Rightarrow> dump_memory_info i | None \<Rightarrow> ''null'')),
      (''fields'', join_field_dump (decoded_fields m))]"

section \<open>Substitution in one pass\<close>

text \<open>
  The reference for \<open>replace_asm_token\<close>: one pass over the text that carries only the character in
  front of the rest.  An occurrence of the needle is replaced when neither neighbour is a token
  character, and skipped as a whole otherwise.
\<close>

definition boundary :: "char option \<Rightarrow> bool" where
  "boundary c = (case c of None \<Rightarrow> True | Some ch \<Rightarrow> \<not> is_asm_token_char ch)"

definition last_opt :: "char option \<Rightarrow> string \<Rightarrow> char option" where
  "last_opt c s = (if s = [] then c else Some (last s))"

definition head_opt :: "string \<Rightarrow> char option" where
  "head_opt s = (if s = [] then None else Some (hd s))"

function subst_tokens :: "string \<Rightarrow> string \<Rightarrow> char option \<Rightarrow> string \<Rightarrow> string" where
  "subst_tokens needle replacement prev rest =
     (if needle = [] \<or> rest = [] then rest
      else if take (length needle) rest = needle then
        let after = drop (length needle) rest
        in if boundary prev \<and> boundary (head_opt after)
           then replacement @ subst_tokens needle replacement (last_opt prev replacement) after
           else needle @ subst_tokens needle replacement (last_opt prev needle) after
      else hd rest # subst_tokens needle replacement (Some (hd rest)) (tl rest))"
  by pat_completeness auto
termination
  by (relation "measure (\<lambda>(needle, replacement, prev, rest). length rest)") auto

declare subst_tokens.simps [simp del]

lemma str_find_here:
  assumes "take (length needle) rest = needle" "needle \<noteq> []"
  shows "str_find (pre @ rest) needle (length pre) = Some (length pre)"
proof -
  have "length needle \<le> length rest" using assms(1) by (metis length_take min.cobounded1)
  then have "[length pre ..< Suc (length (pre @ rest)) - length needle] =
      length pre # [Suc (length pre) ..< Suc (length (pre @ rest)) - length needle]"
    by (simp add: upt_conv_Cons del: upt_Suc)
  with assms show ?thesis by (simp add: str_find_def del: upt_Suc)
qed

lemma str_find_step:
  assumes "take (length needle) (c # rest) \<noteq> needle"
  shows "str_find (pre @ c # rest) needle (length pre) =
    str_find (pre @ c # rest) needle (Suc (length pre))"
proof (cases "length pre < Suc (length (pre @ c # rest)) - length needle")
  case True
  then have "[length pre ..< Suc (length (pre @ c # rest)) - length needle] =
      length pre # [Suc (length pre) ..< Suc (length (pre @ c # rest)) - length needle]"
    by (simp add: upt_conv_Cons del: upt_Suc)
  with assms show ?thesis by (simp add: str_find_def del: upt_Suc)
next
  case False
  then show ?thesis by (simp add: str_find_def del: upt_Suc)
qed

lemma str_find_end: "needle \<noteq> [] \<Longrightarrow> str_find text needle (length text) = None"
  by (cases needle) (simp_all add: str_find_def)

lemma left_boundary:
  "(length pre = 0 \<or> \<not> is_asm_token_char ((pre @ rest) ! (length pre - 1))) = boundary (last_opt None pre)"
  by (cases pre rule: rev_cases) (simp_all add: boundary_def last_opt_def nth_append)

lemma right_boundary:
  assumes "take (length needle) rest = needle"
  shows "(length pre + length needle \<ge> length (pre @ rest) \<or>
     \<not> is_asm_token_char ((pre @ rest) ! (length pre + length needle))) =
   boundary (head_opt (drop (length needle) rest))"
proof -
  have "length needle \<le> length rest" using assms by (metis length_take min.cobounded1)
  then show ?thesis
    by (auto simp: boundary_def head_opt_def nth_append hd_drop_conv_nth)
qed

lemma last_opt_append: "last_opt None (pre @ s) = last_opt (last_opt None pre) s"
  by (simp add: last_opt_def)

lemma replace_from_find:
  "str_find s needle p = str_find s needle q \<Longrightarrow>
   replace_from needle replacement s p = replace_from needle replacement s q"
  by (simp add: replace_from.simps [of needle replacement s p]
      replace_from.simps [of needle replacement s q])

lemma replace_from_subst:
  assumes "needle \<noteq> []"
  shows "replace_from needle replacement (pre @ rest) (length pre) =
    pre @ subst_tokens needle replacement (last_opt None pre) rest"
proof (induction "length rest" arbitrary: pre rest rule: less_induct)
  case less
  show ?case
  proof (cases rest)
    case Nil
    then show ?thesis using assms
      by (simp add: replace_from.simps [of needle] subst_tokens.simps [of needle] str_find_end)
  next
    case (Cons c cs)
    show ?thesis
    proof (cases "take (length needle) rest = needle")
      case True
      define after where "after = drop (length needle) rest"
      have rest: "rest = needle @ after" using True unfolding after_def by (metis append_take_drop_id)
      have shorter: "length after < length rest" using assms by (simp add: rest)
      have find: "str_find (pre @ rest) needle (length pre) = Some (length pre)"
        using str_find_here [OF True assms] .
      have skip: "replace_from needle replacement (pre @ rest) (length pre + length needle) =
          pre @ needle @ subst_tokens needle replacement (last_opt (last_opt None pre) needle) after"
        using less.hyps [OF shorter, of "pre @ needle"] by (simp add: rest last_opt_append)
      have replaced: "replace_from needle replacement (pre @ replacement @ after) (length pre + length replacement) =
          pre @ replacement @ subst_tokens needle replacement (last_opt (last_opt None pre) replacement) after"
        using less.hyps [OF shorter, of "pre @ replacement"] by (simp add: last_opt_append)
      have cut: "take (length pre) (pre @ rest) @ replacement @ drop (length pre + length needle) (pre @ rest)
          = pre @ replacement @ after" by (simp add: after_def)
      have step: "replace_from needle replacement (pre @ rest) (length pre) =
          (if boundary (last_opt None pre) \<and> boundary (head_opt after)
           then replace_from needle replacement (pre @ replacement @ after) (length pre + length replacement)
           else replace_from needle replacement (pre @ rest) (length pre + length needle))"
        using assms left_boundary [of pre rest] right_boundary [OF True, of pre]
        unfolding replace_from.simps [of needle replacement "pre @ rest" "length pre"] find option.case Let_def cut
          after_def [symmetric] by auto
      show ?thesis
        unfolding step skip replaced using assms True Cons
        by (subst subst_tokens.simps) (simp add: Let_def after_def)
    next
      case False
      have same: "pre @ rest = (pre @ [c]) @ cs" using Cons by simp
      have find: "str_find (pre @ rest) needle (length pre) =
          str_find ((pre @ [c]) @ cs) needle (length (pre @ [c]))"
        using str_find_step [of needle c cs pre] False Cons by simp
      have "replace_from needle replacement (pre @ rest) (length pre) =
          replace_from needle replacement ((pre @ [c]) @ cs) (length (pre @ [c]))"
        using replace_from_find [OF find [unfolded same]] by (simp add: same)
      also have "\<dots> = (pre @ [c]) @ subst_tokens needle replacement (last_opt None (pre @ [c])) cs"
        using less.hyps [of cs "pre @ [c]"] Cons by simp
      also have "\<dots> = pre @ subst_tokens needle replacement (last_opt None pre) rest"
        using assms False Cons by (simp add: subst_tokens.simps [of needle replacement _ "c # cs"] last_opt_def)
      finally show ?thesis .
    qed
  qed
qed

text \<open>C30: the search-and-replace loop over positions, which edits the text while it runs, computes the
  same text as one pass that replaces each occurrence of the token standing between non-token
  characters; it ends for every text, needle and replacement, also when the replacement contains
  the needle.\<close>
theorem replace_is_one_pass:
  "replace_asm_token text needle replacement = subst_tokens needle replacement None text"
proof (cases "needle = []")
  case True
  then show ?thesis
    by (simp add: replace_asm_token_def replace_from.simps subst_tokens.simps)
next
  case False
  then show ?thesis
    using replace_from_subst [OF False, where pre = "[]" and rest = "text" and replacement = replacement]
    by (simp add: replace_asm_token_def last_opt_def)
qed

section \<open>The order of the replacements\<close>

locale replacement_order =
  fixes srt :: "asm_replacement list \<Rightarrow> asm_replacement list"
  assumes srt_mset: "mset (srt rs) = mset rs"
    and srt_longest_first: "sorted_wrt (\<lambda>a b. length (ar_needle b) \<le> length (ar_needle a)) (srt rs)"
begin

lemma build_set: "set (build_asm_replacements srt fs) =
  set (fold (\<lambda>f. add_field_aliases f (format_asm_field_value f)
    (length (filter (\<lambda>f. is_immediate_field (df_name f)) fs))) fs [])"
  by (simp add: build_asm_replacements_def Let_def mset_eq_setD [OF srt_mset])

lemma build_longest_first:
  "sorted_wrt (\<lambda>a b. length (ar_needle b) \<le> length (ar_needle a)) (build_asm_replacements srt fs)"
proof -
  have adj: "sorted_wrt R (remdups_adj xs)" if "sorted_wrt R xs" for R and xs :: "asm_replacement list"
    using that by (induction xs rule: remdups_adj.induct) auto
  show ?thesis unfolding build_asm_replacements_def Let_def by (rule adj [OF srt_longest_first])
qed

end

definition stable_longest_first :: "asm_replacement list \<Rightarrow> asm_replacement list" where
  "stable_longest_first rs = sort_key (\<lambda>r. - int (length (ar_needle r))) rs"

interpretation stable: replacement_order stable_longest_first
proof (unfold_locales, goal_cases)
  case (1 rs)
  show ?case by (simp add: stable_longest_first_def)
next
  case (2 rs)
  have "sorted (map (\<lambda>r. - int (length (ar_needle r))) (stable_longest_first rs))"
    by (simp add: stable_longest_first_def)
  then show ?case by (simp add: sorted_map)
qed

section \<open>A dump that prints a character\<close>

text \<open>The dump of an encoded word writes the length as the character with that code, not as a
  number: the dump of a 48-bit word says \<open>length_bits=0\<close>.\<close>
lemma dump_length_is_character:
  "dump_encoded_word \<lparr>ew_bits = 0x2001000E, ew_length_bits = 48, ew_valid = True, ew_status = CS_Ok\<rparr> =
   ''{valid=true, status=ok, length_bits=0, bits=0x00002001000e}''"
proof -
  have code: "(of_char CHR ''0'' :: nat) = 48" by simp
  have char: "char_of (48 :: nat) = CHR ''0''" unfolding code [symmetric] by (rule char_of_char)
  have zeros: "replicate 4 CHR ''0'' = ''0000''" by (simp add: numeral_eq_Suc)
  show ?thesis
    by (simp add: dump_encoded_word_def dump_struct_def dump_fields_def bool_text_def
        encoded_hex_string_def hex_text_def pad_left_def radix_text.simps digit_char_def char zeros)
qed

end
