(* ===== verification/Program_Image.thy ===== *)
theory Program_Image
  imports Model_Prelude
begin

text \<open>
  The loaded program (\<^verbatim>\<open>include/linx/model/program_image.hpp\<close>, \<^verbatim>\<open>src/program_image.cpp\<close>).
\<close>

record program_section =
  ps_name :: string
  ps_address :: u64
  ps_bytes :: "u8 list"
  ps_executable :: bool

record program_image =
  pi_source_path :: string
  pi_entry_point :: u64
  pi_sections :: "program_section list"

definition image_empty :: "program_image \<Rightarrow> bool" where
  "image_empty img \<longleftrightarrow> pi_sections img = []"

text \<open>The counting loop of \<^verbatim>\<open>ExecutableSectionCount\<close>.\<close>

fun executable_section_count :: "program_section list \<Rightarrow> nat \<Rightarrow> nat" where
  "executable_section_count [] count = count"
| "executable_section_count (s # ss) count =
     executable_section_count ss (if ps_executable s then Suc count else count)"

definition image_executable_count :: "program_image \<Rightarrow> nat" where
  "image_executable_count img = executable_section_count (pi_sections img) 0"

lemma image_executable_count_eq:
  "image_executable_count img = length (filter ps_executable (pi_sections img))"
proof -
  have "executable_section_count ss n = n + length (filter ps_executable ss)" for ss n
    by (induction ss arbitrary: n) auto
  then show ?thesis by (simp add: image_executable_count_def)
qed

definition program_image_default :: program_image where
  "program_image_default = \<lparr>pi_source_path = [], pi_entry_point = 0, pi_sections = []\<rparr>"

end
