(* ===== verification/Little_Endian.thy ===== *)
theory Little_Endian
  imports Model_Prelude
begin

text \<open>
  Little-endian bytes of a word: the byte at an index, and the loops that or shifted bytes into an
  accumulator, as the memory, the disassembler and the ELF loader have them.
\<close>

definition byte_of :: "'a::len word \<Rightarrow> nat \<Rightarrow> u8" where
  "byte_of v idx = ucast (drop_bit (idx * 8) v AND 0xFF)"

lemma bit_byte_of: "bit (byte_of v i) n \<longleftrightarrow> n < 8 \<and> bit v (i * 8 + n)"
proof -
  have "(0xFF :: 'a::len word) = mask 8" by (simp add: mask_eq_exp_minus_1)
  then have "bit (0xFF :: 'a word) n \<longleftrightarrow> n < LENGTH('a) \<and> n < 8"
    by (simp only: bit_mask_iff) simp
  then show ?thesis
    by (auto simp: byte_of_def bit_ucast_iff bit_and_iff bit_drop_bit_eq dest: bit_imp_le_length)
qed

lemma bit_le_fold:
  "bit (fold (\<lambda>i v. v OR push_bit (i * 8) (ucast (f i :: u8))) is (v :: 'a::len word)) k \<longleftrightarrow>
   bit v k \<or> (\<exists>i \<in> set is. k < LENGTH('a) \<and> i * 8 \<le> k \<and> bit (f i) (k - i * 8))"
  by (induction "is" arbitrary: v) (auto simp: bit_or_iff bit_push_bit_iff bit_ucast_iff dest: bit_imp_le_length)

lemma le_fold_bytes:
  assumes "LENGTH('a) = n * 8"
  shows "fold (\<lambda>i v. v OR push_bit (i * 8) (ucast (byte_of (w :: 'a::len word) i))) [0..<n] 0 = w"
proof (rule bit_eqI)
  fix k
  show "bit (fold (\<lambda>i v. v OR push_bit (i * 8) (ucast (byte_of w i))) [0..<n] (0 :: 'a word)) k = bit w k"
  proof
    assume "bit (fold (\<lambda>i v. v OR push_bit (i * 8) (ucast (byte_of w i))) [0..<n] (0 :: 'a word)) k"
    then show "bit w k" by (auto simp: bit_le_fold bit_byte_of)
  next
    assume w: "bit w k"
    then have k: "k < n * 8" using bit_imp_le_length [of w k] assms by simp
    then have "k div 8 < n" "k - k div 8 * 8 < 8" "k div 8 * 8 \<le> k" by auto
    with w k assms
    show "bit (fold (\<lambda>i v. v OR push_bit (i * 8) (ucast (byte_of w i))) [0..<n] (0 :: 'a word)) k"
      by (auto simp: bit_le_fold bit_byte_of intro!: bexI [of _ "k div 8"])
  qed
qed

lemma le_fold_low_byte:
  "k < 8 \<Longrightarrow> k < LENGTH('a) \<Longrightarrow> 0 < n \<Longrightarrow>
   bit (fold (\<lambda>i v. v OR push_bit (i * 8) (ucast (f i :: u8))) [0..<n] (0 :: 'a::len word)) k \<longleftrightarrow> bit (f 0) k"
proof -
  assume k: "k < 8" "k < LENGTH('a)" "0 < n"
  then have "i * 8 \<le> k \<longleftrightarrow> i = 0" for i by (cases i) auto
  with k show ?thesis by (auto simp: bit_le_fold)
qed

end
