(* ===== verification/Disasm.thy ===== *)
theory Disasm
  imports Codec_Claims Minst_Text Program_Image Little_Endian
begin

text \<open>
  The disassembler (\<^verbatim>\<open>src/isa/disasm.cpp\<close>): it tries the four instruction lengths on the bytes at hand,
  keeps the decode with the most fixed bits, and walks a section line by line.  \<open>T\<close> are the codec's
  tables, \<open>srt\<close> the sorting function of the assembly text (theory \<open>Minst_Text\<close>).
\<close>

section \<open>One line\<close>

definition kCandidateLengths :: "int list" where
  "kCandidateLengths = [16, 32, 48, 64]"

definition pack_little_endian :: "u8 list \<Rightarrow> nat \<Rightarrow> u64" where
  "pack_little_endian bytes size_bytes =
     fold (\<lambda>idx v. v OR push_bit (idx * 8) (ucast (bytes ! idx))) [0..<size_bytes] 0"

definition hex_byte :: "u8 \<Rightarrow> string" where
  "hex_byte b = hex_text 2 (unat b)"

definition hex_bytes :: "u8 list \<Rightarrow> string" where
  "hex_bytes bytes = join_text '' '' (map hex_byte bytes)"

record decode_candidate =
  dc_inst :: minst
  dc_length_bits :: int
  dc_bits :: u64

text \<open>One round of the loop of \<^verbatim>\<open>DecodeBest\<close>: the best candidate so far and its number of fixed bits.\<close>

definition try_length :: "codec_tables \<Rightarrow> u8 list \<Rightarrow> int \<Rightarrow>
    decode_candidate option \<times> int \<Rightarrow> decode_candidate option \<times> int" where
  "try_length T bytes len st = (case st of (best, best_fixed_bits) \<Rightarrow>
     let size_bytes = nat (len div 8)
     in if length bytes < size_bytes then st
        else let bits = pack_little_endian bytes size_bytes
          in (case decode_minst_packed T bits len minst_default of (status, inst) \<Rightarrow>
            if status \<noteq> CS_Ok then st
            else let fixed_bits = (case form inst of None \<Rightarrow> 0 | Some fm \<Rightarrow> int (fm_fixed_bits fm))
              in if (case best of
                    None \<Rightarrow> True
                  | Some b \<Rightarrow> fixed_bits > best_fixed_bits \<or>
                      (fixed_bits = best_fixed_bits \<and> len < dc_length_bits b))
                 then (Some \<lparr>dc_inst = inst, dc_length_bits = len, dc_bits = bits\<rparr>, fixed_bits)
                 else st))"

definition decode_best :: "codec_tables \<Rightarrow> u8 list \<Rightarrow> decode_candidate option" where
  "decode_best T bytes = fst (fold (try_length T bytes) kCandidateLengths (None, - (2 ^ 31)))"

record disassembly_line =
  dl_section_name :: string
  dl_pc :: u64
  dl_bits :: u64
  dl_length_bits :: u8
  dl_size_bytes :: nat
  dl_status :: codec_status
  dl_bytes_hex :: string
  dl_text :: string
  dl_form_id :: string

definition format_disassembly_dump_line :: "disassembly_line \<Rightarrow> string" where
  "format_disassembly_dump_line line =
     hex_text 16 (unat (dl_pc line)) @ '':  '' @ pad_right 23 CHR '' '' (dl_bytes_hex line) @ '' '' @ dl_text line"

definition decode_disassembly_line ::
    "codec_tables \<Rightarrow> (asm_replacement list \<Rightarrow> asm_replacement list) \<Rightarrow> u8 list \<Rightarrow> u64 \<Rightarrow> string \<Rightarrow>
     disassembly_line option" where
  "decode_disassembly_line T srt bytes pc_value section_name =
     (case decode_best T bytes of
        None \<Rightarrow>
          (case bytes of
             [] \<Rightarrow> None
           | b # _ \<Rightarrow> Some \<lparr>dl_section_name = section_name, dl_pc = pc_value, dl_bits = ucast b,
               dl_length_bits = 8, dl_size_bytes = 1, dl_status = CS_NoMatch,
               dl_bytes_hex = hex_bytes (take 1 bytes), dl_text = ''.byte 0x'' @ hex_byte b,
               dl_form_id = ''-''\<rparr>)
      | Some decoded \<Rightarrow>
          let size_bytes = nat (dc_length_bits decoded div 8)
          in Some \<lparr>dl_section_name = section_name, dl_pc = pc_value, dl_bits = dc_bits decoded,
               dl_length_bits = of_int (dc_length_bits decoded), dl_size_bytes = size_bytes,
               dl_status = decode_status (dc_inst decoded),
               dl_bytes_hex = hex_bytes (take size_bytes bytes),
               dl_text = assemble srt (dc_inst decoded),
               dl_form_id = or_dash (form_id (dc_inst decoded))\<rparr>)"

section \<open>Sections and programs\<close>

text \<open>The loop of \<^verbatim>\<open>DisassembleSection\<close> from an offset on.\<close>

function disassemble_from :: "codec_tables \<Rightarrow> (asm_replacement list \<Rightarrow> asm_replacement list) \<Rightarrow>
    program_section \<Rightarrow> nat \<Rightarrow> disassembly_line list \<Rightarrow> disassembly_line list" where
  "disassemble_from T srt s offset lines =
     (if offset < length (ps_bytes s) then
        (case decode_disassembly_line T srt (drop offset (ps_bytes s)) (ps_address s + of_nat offset)
            (ps_name s) of
           None \<Rightarrow> lines
         | Some line \<Rightarrow> disassemble_from T srt s (offset + max (dl_size_bytes line) 1) (lines @ [line]))
      else lines)"
  by pat_completeness auto
termination
  by (relation "measure (\<lambda>(T, srt, s, offset, lines). length (ps_bytes s) - offset)") auto

declare disassemble_from.simps [simp del]

definition disassemble_section :: "codec_tables \<Rightarrow> (asm_replacement list \<Rightarrow> asm_replacement list) \<Rightarrow>
    program_section \<Rightarrow> disassembly_line list" where
  "disassemble_section T srt s = (if \<not> ps_executable s then [] else disassemble_from T srt s 0 [])"

definition disassemble_program :: "codec_tables \<Rightarrow> (asm_replacement list \<Rightarrow> asm_replacement list) \<Rightarrow>
    program_image \<Rightarrow> disassembly_line list" where
  "disassemble_program T srt img =
     fold (\<lambda>s lines. if \<not> ps_executable s then lines else lines @ disassemble_section T srt s)
       (pi_sections img) []"

definition newline :: string where "newline = [CHR 0x0A]"

definition print_line :: "disassembly_line \<Rightarrow> string" where
  "print_line line =
     dl_section_name line @ '' 0x'' @ radix_text 16 (unat (dl_pc line)) @ '' ['' @ dl_bytes_hex line @
     ''] '' @ dl_text line @
     (if dl_status line = CS_Ok \<and> dl_form_id line \<noteq> ''-'' then '' ; form='' @ dl_form_id line else []) @
     newline"

definition print_disassembly :: "codec_tables \<Rightarrow> (asm_replacement list \<Rightarrow> asm_replacement list) \<Rightarrow>
    program_image \<Rightarrow> string" where
  "print_disassembly T srt img =
     ''source: '' @ pi_source_path img @ newline @
     ''entry: 0x'' @ radix_text 16 (unat (pi_entry_point img)) @ newline @
     concat (map print_line (disassemble_program T srt img))"

section \<open>A section is printed byte for byte\<close>

lemma decode_best_length:
  assumes "decode_best T bytes = Some c"
  shows "dc_length_bits c \<in> {16, 32, 48, 64} \<and> nat (dc_length_bits c div 8) \<le> length bytes"
proof -
  have step: "fst (try_length T bytes len st) = Some c \<Longrightarrow> fst st \<noteq> Some c \<Longrightarrow>
      dc_length_bits c = len \<and> nat (len div 8) \<le> length bytes" for len st
    by (auto simp: try_length_def Let_def split: prod.splits if_splits)
  have "fst (fold (try_length T bytes) lens st) = Some c \<Longrightarrow> fst st \<noteq> Some c \<Longrightarrow>
      dc_length_bits c \<in> set lens \<and> nat (dc_length_bits c div 8) \<le> length bytes" for lens st
  proof (induction lens arbitrary: st)
    case Nil
    then show ?case by simp
  next
    case (Cons len lens)
    then show ?case
      using step [of len st] by (cases "fst (try_length T bytes len st) = Some c") auto
  qed
  from this [of kCandidateLengths "(None, - (2 ^ 31))"] assms show ?thesis
    by (simp add: decode_best_def kCandidateLengths_def)
qed

lemma line_shape:
  assumes "decode_disassembly_line T srt bytes pc_value nm = Some line"
  shows "1 \<le> dl_size_bytes line" "dl_size_bytes line \<le> length bytes" "dl_pc line = pc_value"
    "dl_section_name line = nm" "dl_bytes_hex line = hex_bytes (take (dl_size_bytes line) bytes)"
proof -
  have "1 \<le> dl_size_bytes line \<and> dl_size_bytes line \<le> length bytes \<and> dl_pc line = pc_value \<and>
    dl_section_name line = nm \<and> dl_bytes_hex line = hex_bytes (take (dl_size_bytes line) bytes)"
    using assms
    by (auto simp: decode_disassembly_line_def Let_def split: option.splits list.splits
        dest!: decode_best_length)
  then show "1 \<le> dl_size_bytes line" "dl_size_bytes line \<le> length bytes" "dl_pc line = pc_value"
    "dl_section_name line = nm" "dl_bytes_hex line = hex_bytes (take (dl_size_bytes line) bytes)" by auto
qed

lemma line_exists:
  assumes "bytes \<noteq> []"
  shows "\<exists>line. decode_disassembly_line T srt bytes pc_value nm = Some line"
  using assms by (auto simp: decode_disassembly_line_def Let_def split: option.splits list.splits)

text \<open>Lines that follow each other from an offset to the end of the bytes.\<close>

fun tiles :: "program_section \<Rightarrow> nat \<Rightarrow> disassembly_line list \<Rightarrow> bool" where
  "tiles s offset [] \<longleftrightarrow> offset = length (ps_bytes s)"
| "tiles s offset (line # lines) \<longleftrightarrow>
     1 \<le> dl_size_bytes line \<and> offset + dl_size_bytes line \<le> length (ps_bytes s) \<and>
     dl_pc line = ps_address s + of_nat offset \<and> dl_section_name line = ps_name s \<and>
     dl_bytes_hex line = hex_bytes (take (dl_size_bytes line) (drop offset (ps_bytes s))) \<and>
     tiles s (offset + dl_size_bytes line) lines"

lemma disassemble_from_tiles:
  "offset \<le> length (ps_bytes s) \<Longrightarrow>
   \<exists>new. disassemble_from T srt s offset lines = lines @ new \<and> tiles s offset new"
proof (induction T srt s offset lines rule: disassemble_from.induct)
  case (1 T srt s offset lines)
  show ?case
  proof (cases "offset < length (ps_bytes s)")
    case False
    with 1(2) show ?thesis
      by (intro exI [of _ "[]"]) (simp add: disassemble_from.simps [of T srt s "length (ps_bytes s)"])
  next
    case True
    obtain line where line: "decode_disassembly_line T srt (drop offset (ps_bytes s))
        (ps_address s + of_nat offset) (ps_name s) = Some line"
      using line_exists [of "drop offset (ps_bytes s)"] True by force
    note shape = line_shape [OF line]
    have m: "max (dl_size_bytes line) 1 = dl_size_bytes line" using shape(1) by simp
    have le: "offset + dl_size_bytes line \<le> length (ps_bytes s)" using shape(2) True by simp
    obtain new where "disassemble_from T srt s (offset + dl_size_bytes line) (lines @ [line]) =
        (lines @ [line]) @ new" "tiles s (offset + dl_size_bytes line) new"
      using 1(1) [OF True line] m le by auto
    then have "disassemble_from T srt s offset lines = lines @ line # new" "tiles s offset (line # new)"
      using True line shape m le by (simp_all add: disassemble_from.simps [of T srt s offset])
    then show ?thesis by blast
  qed
qed

text \<open>C23: the walk over a section ends, and its lines follow each other without gap or overlap from the
  first byte to the last: each has at least one byte, stands at the address of its first byte, names
  the section and shows exactly its own bytes.  A section that is not executable gives no line.\<close>
theorem disassembly_tiles_section:
  "if ps_executable s then tiles s 0 (disassemble_section T srt s) else disassemble_section T srt s = []"
  using disassemble_from_tiles [of 0 s T srt "[]"] by (auto simp: disassemble_section_def)

section \<open>The length rule\<close>

text \<open>The reference executor derives an instruction's length from the low four bits of its first byte
  (\<^verbatim>\<open>ReferenceExecutor::FetchDecode\<close>).  A form follows the rule when its fixed low bits leave no other
  length.  One form of the shipped tables does not: the 48-bit \<open>HL.BSTART CALL\<close>, whose low bits are
  those of a 32-bit instruction; bytes that begin with one are a \<open>call_word\<close>.\<close>

definition fetch_length :: "u8 \<Rightarrow> nat" where
  "fetch_length b =
     (if b AND 1 = 0 then (if b AND 0xF = 0xE then 6 else 2) else if b AND 0xF = 0xF then 8 else 4)"

definition call_mask :: u64 where "call_mask = 0xf83f0000007f"

definition call_match :: u64 where "call_match = 0x501600000011"

definition call_word :: "u8 list \<Rightarrow> bool" where
  "call_word bytes \<longleftrightarrow> 6 \<le> length bytes \<and> pack_little_endian bytes 6 AND call_mask = call_match"

definition fixes_length :: "nat \<Rightarrow> u64 \<Rightarrow> u64 \<Rightarrow> bool" where
  "fixes_length len m k \<longleftrightarrow>
     (if len = 16 then m AND 1 = 1 \<and> k AND 1 = 0 \<and> k AND 0xE \<noteq> m AND 0xE
      else if len = 32 then m AND 1 = 1 \<and> k AND 1 = 1 \<and> k AND 0xF \<noteq> m AND 0xF
      else if len = 48 then m AND 0xF = 0xF \<and> k AND 0xF = 0xE
      else len = 64 \<and> m AND 0xF = 0xF \<and> k AND 0xF = 0xF)"

definition follows_rule :: "form_desc \<Rightarrow> bool" where
  "follows_rule fm \<longleftrightarrow> fixes_length (fm_length_bits fm) (fm_mask fm) (fm_match fm) \<or>
     fm_length_bits fm = 48 \<and> fm_mask fm = call_mask \<and> fm_match fm = call_match"

lemma follows_mk_form [simp]:
  "follows_rule (mk_form a b c d e f g len fixed m k fs fc cs cc) \<longleftrightarrow>
     fixes_length len m k \<or> len = 48 \<and> m = call_mask \<and> k = call_match"
  by (simp add: follows_rule_def mk_form_def)

lemma low_nibble_word: "bit (0xF :: 'a::len word) k \<longleftrightarrow> k < 4 \<and> k < LENGTH('a)"
proof -
  have "(0xF :: 'a word) = mask 4" by (simp add: mask_eq_exp_minus_1)
  then show ?thesis by (simp only: bit_mask_iff) auto
qed

lemma same_low_nibble:
  assumes "\<forall>k < 4. bit (w :: u64) k = bit (b :: u8) k"
  shows "w AND 0xF = ucast (b AND 0xF)"
proof (rule bit_eqI)
  fix k
  show "bit (w AND 0xF) k = bit (ucast (b AND 0xF) :: u64) k"
    using assms by (simp only: bit_and_iff bit_ucast_iff low_nibble_word) auto
qed

lemma ucast_u8_inj: "(ucast x :: u64) = ucast (y :: u8) \<longleftrightarrow> x = y"
proof
  assume eq: "(ucast x :: u64) = ucast y"
  show "x = y"
  proof (rule bit_word_eqI)
    fix n assume "n < LENGTH(8)"
    with arg_cong [OF eq, where f = "\<lambda>w. bit w n"] show "bit x n = bit y n" by (simp add: bit_ucast_iff)
  qed
qed simp

lemma fetch_length_word:
  assumes "\<forall>k < 4. bit (w :: u64) k = bit b k"
  shows "fetch_length b =
    (if w AND 1 = 0 then (if w AND 0xF = 0xE then 6 else 2) else if w AND 0xF = 0xF then 8 else 4)"
proof -
  have nib: "w AND 0xF = ucast c \<longleftrightarrow> b AND 0xF = c" for c
    unfolding same_low_nibble [OF assms] by (rule ucast_u8_inj)
  have "w AND 1 = 0 \<longleftrightarrow> b AND 1 = 0"
  proof -
    have "bit w 0 = bit b 0" using assms by simp
    then show ?thesis by (simp only: and_one_eq bit_0 even_iff_mod_2_eq_zero [symmetric]) blast
  qed
  with nib [of "0xE"] nib [of "0xF"] show ?thesis by (simp add: fetch_length_def)
qed

lemma form_match_length:
  assumes fm: "follows_rule fm" "w AND fm_mask fm = fm_match fm"
    and low: "\<forall>k < 4. bit w k = bit b k"
  shows "fm_length_bits fm = fetch_length b * 8 \<or>
    fm_length_bits fm = 48 \<and> fm_mask fm = call_mask \<and> fm_match fm = call_match"
proof (cases "fixes_length (fm_length_bits fm) (fm_mask fm) (fm_match fm)")
  case True
  let ?m = "fm_mask fm" and ?k = "fm_match fm"
  have part: "?k AND c = (?m AND c) AND (w AND c)" for c
    unfolding fm(2) [symmetric] by (simp add: ac_simps)
  have whole: "w AND c = ?k AND c" if "?m AND c = c" for c
  proof -
    have "?k AND c = w AND (?m AND c)" unfolding fm(2) [symmetric] by (simp add: and.assoc)
    then show ?thesis using that by simp
  qed
  have e: "?k AND 0xE = ?m AND 0xE" if "w AND 0xF = 0xE"
  proof -
    have "w AND 0xE = (w AND 0xF) AND 0xE" by (simp add: and.assoc)
    then have "w AND 0xE = 0xE" using that by simp
    then show ?thesis using part [of "0xE"] by (simp add: ac_simps)
  qed
  have f: "?k AND 0xF = ?m AND 0xF" if "w AND 0xF = 0xF"
    using part [of "0xF"] that by (simp add: ac_simps)
  have "w AND 1 = 0" if "w AND 0xF = 0xE"
  proof -
    have "w AND 1 = (w AND 0xF) AND 1" by (simp add: and.assoc)
    then show ?thesis using that by simp
  qed
  moreover have "w AND 1 \<noteq> 0" if "w AND 0xF = 0xF"
  proof -
    have "w AND 1 = (w AND 0xF) AND 1" by (simp add: and.assoc)
    then show ?thesis using that by simp
  qed
  ultimately show ?thesis
    using True e f whole [of 1] whole [of "0xF"]
    unfolding fetch_length_word [OF low] fixes_length_def
    by (auto split: if_split_asm)
qed (use fm(1) in \<open>simp add: follows_rule_def\<close>)

lemma decode_Ok_form:
  assumes "decode_packed_word T w len out = (CS_Ok, m)"
  shows "\<exists>fm \<in> set (kForms T). int (fm_length_bits fm) = len \<and> w AND bit_mask (nat len) AND fm_mask fm = fm_match fm"
proof -
  have len: "legal_length len"
    using assms by (auto simp: decode_packed_word_def legal_length_def split: if_splits)
  let ?p = "w AND bit_mask (nat len)"
  from decode_status_exact_aux [of T w len out] assms obtain fm where
    "most_specific (matching_forms T len ?p) = [fm]" by (auto simp: Let_def)
  then have "fm \<in> set (matching_forms T len ?p)"
    using set_most_specific [of fm "matching_forms T len ?p"] by simp
  then show ?thesis
    by (auto simp: matching_forms_def form_matches_def fixed_match_def and.assoc intro!: bexI [of _ fm])
qed

lemma decode_length_rule:
  assumes rule: "list_all follows_rule (kForms T)" and bytes: "bytes \<noteq> []" and n: "n > 0"
    and dec: "fst (decode_minst_packed T (pack_little_endian bytes n) len out) = CS_Ok"
  shows "len = int (fetch_length (hd bytes) * 8) \<or> len = 48 \<and> pack_little_endian bytes n AND call_mask = call_match"
proof -
  let ?w = "pack_little_endian bytes n"
  obtain m where "decode_packed_word T ?w len out = (CS_Ok, m)"
    using dec by (auto simp: decode_minst_packed_def prod_eq_iff)
  from decode_Ok_form [OF this] obtain fm where fm: "fm \<in> set (kForms T)" "int (fm_length_bits fm) = len"
    "(?w AND bit_mask (nat len)) AND fm_mask fm = fm_match fm"
    by (auto simp: and.assoc)
  have "legal_length len" using dec
    by (auto simp: decode_minst_packed_def decode_packed_word_def legal_length_def split: if_splits)
  then have "\<forall>k < 4. bit (bit_mask (nat len)) k" by (auto simp: bit_bit_mask legal_length_def)
  moreover have "\<forall>k < 4. bit ?w k = bit (hd bytes) k"
    using bytes n by (simp add: pack_little_endian_def le_fold_low_byte hd_conv_nth)
  ultimately have low: "\<forall>k < 4. bit (?w AND bit_mask (nat len)) k = bit (hd bytes) k"
    by (simp add: bit_and_iff)
  have "follows_rule fm" using rule fm(1) by (simp add: list_all_iff)
  from form_match_length [OF this fm(3) low]
  consider "fm_length_bits fm = fetch_length (hd bytes) * 8"
    | "fm_length_bits fm = 48" "fm_mask fm = call_mask" "fm_match fm = call_match" by blast
  then show ?thesis
  proof cases
    case 1
    with fm(2) show ?thesis by simp
  next
    case 2
    have "bit_mask 48 AND call_mask = call_mask" by (simp add: bit_mask_def call_mask_def)
    with 2 fm(2,3) show ?thesis by (auto simp: and.assoc)
  qed
qed

lemma decode_best_length_rule:
  assumes "list_all follows_rule (kForms T)" and "bytes \<noteq> []" and no_call: "\<not> call_word bytes"
  shows "decode_best T bytes =
    (let n = fetch_length (hd bytes); w = pack_little_endian bytes n
     in if length bytes < n \<or> fst (decode_minst_packed T w (int (n * 8)) minst_default) \<noteq> CS_Ok then None
        else Some \<lparr>dc_inst = snd (decode_minst_packed T w (int (n * 8)) minst_default),
          dc_length_bits = int (n * 8), dc_bits = w\<rparr>)"
proof -
  let ?n = "fetch_length (hd bytes)"
  have four: "?n \<in> {2, 4, 6, 8}" by (simp add: fetch_length_def)
  have other: "try_length T bytes len st = st" if "len \<noteq> int (?n * 8)" "len \<in> {16, 32, 48, 64}" for len st
  proof (cases "length bytes < nat (len div 8)")
    case False
    have "nat (len div 8) > 0" using that(2) by auto
    moreover have "\<not> (len = 48 \<and> pack_little_endian bytes (nat (len div 8)) AND call_mask = call_match)"
      using no_call False by (auto simp: call_word_def)
    ultimately have "fst (decode_minst_packed T (pack_little_endian bytes (nat (len div 8))) len minst_default) \<noteq> CS_Ok"
      using decode_length_rule [OF assms(1,2)] that(1) by blast
    then show ?thesis by (auto simp: try_length_def Let_def split: prod.splits)
  qed (auto simp: try_length_def Let_def split: prod.splits)
  define r where "r = fst (try_length T bytes (int (?n * 8)) (None, - (2 ^ 31)))"
  have "decode_best T bytes = r"
    using four unfolding decode_best_def kCandidateLengths_def r_def
    by (elim insertE emptyE) (simp_all add: other)
  then show ?thesis
    unfolding r_def by (auto simp: try_length_def Let_def nat_mult_distrib split: prod.splits)
qed

text \<open>The tables hold one form that breaks the length rule.  On the bytes of an \<open>HL.BSTART CALL\<close>
  the disassembler finds the 48-bit instruction, while the executor's rule fetches four bytes and
  decodes the 32-bit \<open>BSTART\<close>: the two disagree on the length and on the instruction.\<close>
lemma length_rule_misses_call:
  "let bytes = [0x91, 0x02, 0, 0, 0x16, 0x50]; n = fetch_length (hd bytes);
       line = the (decode_best excerpt_tables bytes);
       fetched = decode_minst_packed excerpt_tables (pack_little_endian bytes n) (int (n * 8)) minst_default
   in dc_length_bits line = 48 \<and> mnemonic (dc_inst line) = ''HL.BSTART CALL'' \<and>
      n = 4 \<and> fst fetched = CS_Ok \<and> mnemonic (snd fetched) = ''BSTART''"
  by code_simp

end
