(* ===== verification/Emulator_State.thy ===== *)
theory Emulator_State
  imports Shared_Tile Text_Format
begin

text \<open>
  The architectural state \<^verbatim>\<open>LinxState\<close> (\<^verbatim>\<open>include/linx/model/emulator/state.hpp\<close>) with every member
  and its initial value, its reset and its one-line summary (\<^verbatim>\<open>src/emulator/state.cpp\<close>).  The small
  arrays are lists of their length; the large ones (\<open>ssr\<close>, \<open>ssr_acr\<close>, \<open>tile_reg\<close>, \<open>tile_acc\<close>)
  are functions of the index.
\<close>

definition kLinxGprCount :: nat where "kLinxGprCount = 24"
definition kLinxQueueCount :: nat where "kLinxQueueCount = 4"
definition kLinxVecQueueDepth :: nat where "kLinxVecQueueDepth = 32"
definition kLinxAcrCount :: nat where "kLinxAcrCount = 16"
definition kLinxSsrCount :: nat where "kLinxSsrCount = 4096"
definition kLinxTileMaxIor :: nat where "kLinxTileMaxIor = 16"
definition kLinxTileMaxIot :: nat where "kLinxTileMaxIot = 32"
definition kLinxVecRiMax :: nat where "kLinxVecRiMax = kLinxTileMaxIor * 3"

record linx_acr_block_state =
  ab_tq :: "u64 list"
  ab_uq :: "u64 list"
  ab_vtq :: "u64 list"
  ab_vuq :: "u64 list"
  ab_vmq :: "u64 list"
  ab_vnq :: "u64 list"
  ab_vec_p :: u64
  ab_bpc :: u64
  ab_tgt :: u64
  ab_cond :: u32
  ab_carg :: u32
  ab_brtype :: u32
  ab_blocktype :: u32
  ab_call_ra_set :: u32
  ab_call_setret_pending :: u32
  ab_body_tpc :: u64
  ab_body_end :: u64
  ab_return_pc :: u64
  ab_in_body :: u32
  ab_tmpl_pc :: u64
  ab_tmpl_kind :: u32
  ab_tmpl_step :: u32
  ab_tmpl_reg_cur :: u32
  ab_tmpl_reg_begin :: u32
  ab_tmpl_reg_end :: u32
  ab_tmpl_stacksize :: u64
  ab_tmpl_mem_dst :: u64
  ab_tmpl_mem_src :: u64
  ab_tmpl_mem_remaining :: u64
  ab_tmpl_mem_value :: u64
  ab_lb :: "u64 list"
  ab_lc :: "u64 list"
  ab_tile_func :: u32
  ab_tile_dtype :: u32
  ab_tile_iot_valid :: u32
  ab_tile_iot_flags :: u32
  ab_tile_iot_dst :: u32
  ab_tile_iot_grp :: u32
  ab_tile_iot_src0 :: u32
  ab_tile_iot_src1 :: u32
  ab_tile_iot_reg :: u32
  ab_tile_iot_size :: u32
  ab_tile_arg_format :: u32
  ab_tile_attr_raw :: u32
  ab_tile_attr_pad :: u32
  ab_tile_attr_dtype :: u32
  ab_tile_ior_count :: u32
  ab_tile_ior_desc :: "u64 list"
  ab_vec_ri_count :: u32
  ab_vec_ri_value :: "u64 list"
  ab_tile_iot_count :: u32
  ab_tile_iot_desc :: "u64 list"

definition acr_block_default :: linx_acr_block_state where
  "acr_block_default = \<lparr>
    ab_tq = replicate kLinxQueueCount 0, ab_uq = replicate kLinxQueueCount 0,
    ab_vtq = replicate kLinxVecQueueDepth 0, ab_vuq = replicate kLinxVecQueueDepth 0,
    ab_vmq = replicate kLinxVecQueueDepth 0, ab_vnq = replicate kLinxVecQueueDepth 0, ab_vec_p = 0,
    ab_bpc = 0, ab_tgt = 0, ab_cond = 0, ab_carg = 0, ab_brtype = 0, ab_blocktype = 0,
    ab_call_ra_set = 0, ab_call_setret_pending = 0, ab_body_tpc = 0, ab_body_end = 0,
    ab_return_pc = 0, ab_in_body = 0, ab_tmpl_pc = 0, ab_tmpl_kind = 0, ab_tmpl_step = 0,
    ab_tmpl_reg_cur = 0, ab_tmpl_reg_begin = 0, ab_tmpl_reg_end = 0, ab_tmpl_stacksize = 0,
    ab_tmpl_mem_dst = 0, ab_tmpl_mem_src = 0, ab_tmpl_mem_remaining = 0, ab_tmpl_mem_value = 0,
    ab_lb = replicate 3 0, ab_lc = replicate 3 0, ab_tile_func = 0, ab_tile_dtype = 0,
    ab_tile_iot_valid = 0, ab_tile_iot_flags = 0, ab_tile_iot_dst = 0, ab_tile_iot_grp = 0,
    ab_tile_iot_src0 = 0, ab_tile_iot_src1 = 0, ab_tile_iot_reg = 0, ab_tile_iot_size = 0,
    ab_tile_arg_format = 0, ab_tile_attr_raw = 0, ab_tile_attr_pad = 0, ab_tile_attr_dtype = 0,
    ab_tile_ior_count = 0, ab_tile_ior_desc = replicate kLinxTileMaxIor 0, ab_vec_ri_count = 0,
    ab_vec_ri_value = replicate kLinxVecRiMax 0, ab_tile_iot_count = 0,
    ab_tile_iot_desc = replicate kLinxTileMaxIot 0\<rparr>"

record linx_state =
  ls_gpr :: "u64 list"
  ls_tq :: "u64 list"
  ls_uq :: "u64 list"
  ls_vtq :: "u64 list"
  ls_vuq :: "u64 list"
  ls_vmq :: "u64 list"
  ls_vnq :: "u64 list"
  ls_vec_p :: u64
  ls_ssr :: "nat \<Rightarrow> u64"
  ls_ssr_acr :: "nat \<Rightarrow> nat \<Rightarrow> u64"
  ls_acr :: u32
  ls_fcsr :: u32
  ls_tgt :: u64
  ls_cond :: u32
  ls_carg :: u32
  ls_brtype :: u32
  ls_blocktype :: u32
  ls_call_ra_set :: u32
  ls_call_setret_pending :: u32
  ls_body_tpc :: u64
  ls_body_end :: u64
  ls_return_pc :: u64
  ls_in_body :: u32
  ls_tmpl_pc :: u64
  ls_tmpl_kind :: u32
  ls_tmpl_step :: u32
  ls_tmpl_reg_cur :: u32
  ls_tmpl_reg_begin :: u32
  ls_tmpl_reg_end :: u32
  ls_tmpl_stacksize :: u64
  ls_tmpl_mem_dst :: u64
  ls_tmpl_mem_src :: u64
  ls_tmpl_mem_remaining :: u64
  ls_tmpl_mem_value :: u64
  ls_lb :: "u64 list"
  ls_lc :: "u64 list"
  ls_acr_block_state :: "linx_acr_block_state list"
  ls_tile_func :: u32
  ls_tile_dtype :: u32
  ls_tile_iot_valid :: u32
  ls_tile_iot_flags :: u32
  ls_tile_iot_dst :: u32
  ls_tile_iot_grp :: u32
  ls_tile_iot_src0 :: u32
  ls_tile_iot_src1 :: u32
  ls_tile_iot_reg :: u32
  ls_tile_iot_size :: u32
  ls_tile_arg_format :: u32
  ls_tile_attr_raw :: u32
  ls_tile_attr_pad :: u32
  ls_tile_attr_dtype :: u32
  ls_tile_ior_count :: u32
  ls_tile_ior_desc :: "u64 list"
  ls_vec_ri_count :: u32
  ls_vec_ri_value :: "u64 list"
  ls_tile_iot_count :: u32
  ls_tile_iot_desc :: "u64 list"
  ls_tile_reg :: "nat \<Rightarrow> nat \<Rightarrow> u32"
  ls_tile_reg_bytes :: "u32 list"
  ls_tile_acc :: "nat \<Rightarrow> u32"
  ls_tile_acc_bytes :: u32
  ls_shared_tile :: shared_tile_bank
  ls_bpc :: u64
  ls_insn_pc_next :: u64
  ls_pc :: u64
  ls_insn_count :: u64
  ls_pending_trap_arg0 :: u64
  ls_pending_trap_cause :: u32
  ls_irq_level_acr :: "u64 list"
  ls_lr_addr :: u64
  ls_lr_size :: u32
  ls_lr_valid :: u32
  ls_block_kind :: string
  ls_lane_id :: int

definition linx_state_default :: linx_state where
  "linx_state_default = \<lparr>
    ls_gpr = replicate kLinxGprCount 0, ls_tq = replicate kLinxQueueCount 0,
    ls_uq = replicate kLinxQueueCount 0, ls_vtq = replicate kLinxVecQueueDepth 0,
    ls_vuq = replicate kLinxVecQueueDepth 0, ls_vmq = replicate kLinxVecQueueDepth 0,
    ls_vnq = replicate kLinxVecQueueDepth 0, ls_vec_p = 0, ls_ssr = (\<lambda>_. 0),
    ls_ssr_acr = (\<lambda>_. (\<lambda>_. 0)), ls_acr = 0, ls_fcsr = 0, ls_tgt = 0, ls_cond = 0,
    ls_carg = 0, ls_brtype = 0, ls_blocktype = 0, ls_call_ra_set = 0, ls_call_setret_pending = 0,
    ls_body_tpc = 0, ls_body_end = 0, ls_return_pc = 0, ls_in_body = 0, ls_tmpl_pc = 0,
    ls_tmpl_kind = 0, ls_tmpl_step = 0, ls_tmpl_reg_cur = 0, ls_tmpl_reg_begin = 0,
    ls_tmpl_reg_end = 0, ls_tmpl_stacksize = 0, ls_tmpl_mem_dst = 0, ls_tmpl_mem_src = 0,
    ls_tmpl_mem_remaining = 0, ls_tmpl_mem_value = 0, ls_lb = replicate 3 0, ls_lc = replicate 3 0,
    ls_acr_block_state = replicate kLinxAcrCount acr_block_default, ls_tile_func = 0,
    ls_tile_dtype = 0, ls_tile_iot_valid = 0, ls_tile_iot_flags = 0, ls_tile_iot_dst = 0,
    ls_tile_iot_grp = 0, ls_tile_iot_src0 = 0, ls_tile_iot_src1 = 0, ls_tile_iot_reg = 0,
    ls_tile_iot_size = 0, ls_tile_arg_format = 0, ls_tile_attr_raw = 0, ls_tile_attr_pad = 0,
    ls_tile_attr_dtype = 0, ls_tile_ior_count = 0, ls_tile_ior_desc = replicate kLinxTileMaxIor 0,
    ls_vec_ri_count = 0, ls_vec_ri_value = replicate kLinxVecRiMax 0, ls_tile_iot_count = 0,
    ls_tile_iot_desc = replicate kLinxTileMaxIot 0, ls_tile_reg = (\<lambda>_. (\<lambda>_. 0)),
    ls_tile_reg_bytes = replicate 32 0, ls_tile_acc = (\<lambda>_. 0), ls_tile_acc_bytes = 0,
    ls_shared_tile = tile_reset [], ls_bpc = 0, ls_insn_pc_next = 0, ls_pc = 0, ls_insn_count = 0,
    ls_pending_trap_arg0 = 0, ls_pending_trap_cause = 0,
    ls_irq_level_acr = replicate kLinxAcrCount 0, ls_lr_addr = 0, ls_lr_size = 0, ls_lr_valid = 0,
    ls_block_kind = ''scalar'', ls_lane_id = -1\<rparr>"

text \<open>\<^verbatim>\<open>LinxState::Reset\<close> copies a static default-constructed state.\<close>

definition linx_state_reset :: "linx_state \<Rightarrow> linx_state" where
  "linx_state_reset s = linx_state_default"

definition dump_state_summary :: "linx_state \<Rightarrow> string" where
  "dump_state_summary s =
     ''{pc='' @ dec_text (unat (ls_pc s)) @ '',acr='' @ dec_text (unat (ls_acr s)) @
     '',bpc='' @ dec_text (unat (ls_bpc s)) @ '',tgt='' @ dec_text (unat (ls_tgt s)) @
     '',cond='' @ dec_text (unat (ls_cond s)) @ '',carg='' @ dec_text (unat (ls_carg s)) @
     '',brtype='' @ dec_text (unat (ls_brtype s)) @ '',block_kind='' @ ls_block_kind s @
     '',lane_id='' @ int_text (ls_lane_id s) @ '',a0='' @ dec_text (unat (ls_gpr s ! 2)) @
     '',a1='' @ dec_text (unat (ls_gpr s ! 3)) @ '',sp='' @ dec_text (unat (ls_gpr s ! 1)) @
     '',ra='' @ dec_text (unat (ls_gpr s ! 10)) @ '',insn_count='' @
     dec_text (unat (ls_insn_count s)) @ ''}''"

end
