(* ===== verification/Minst_Record.thy ===== *)
theory Minst_Record
  imports Minst_Text
begin

text \<open>
  The C trace record of a committed instruction (\<^verbatim>\<open>minst_record_c.h\<close>, \<^verbatim>\<open>src/emulator/minst_record.cpp\<close>):
  building it from a packet, comparing two of them and escaping text for JSON.  A \<^verbatim>\<open>char[32]\<close>
  is a list of 32 characters padded with NUL, as \<open>copy_text\<close> leaves it; \<open>c_text\<close> reads it up to the
  first NUL.  \<^verbatim>\<open>std::memcmp\<close> of two records is equality of their members: the padding bytes
  between members, zero in records that are built by \<^verbatim>\<open>MakeMinstRecord\<close>, are not modelled.
\<close>

section \<open>Fixed-size text\<close>

definition text_capacity :: nat where "text_capacity = 32"

definition nul :: char where "nul = CHR 0x00"

definition copy_text :: "string \<Rightarrow> string" where
  "copy_text s = take (text_capacity - 1) s @ replicate (text_capacity - min (length s) (text_capacity - 1)) nul"

text \<open>\<^verbatim>\<open>std::strncpy(dst, src, sizeof(dst) - 1)\<close>: at most 31 characters, the rest of the 31 filled with
  NUL, the last character left alone.  The sources are string literals or NUL-free strings.\<close>

definition strncpy_text :: "string \<Rightarrow> string \<Rightarrow> string" where
  "strncpy_text dst s =
     take (text_capacity - 1) (s @ replicate (text_capacity - 1) nul) @ drop (text_capacity - 1) dst"

definition c_text :: "string \<Rightarrow> string" where
  "c_text s = takeWhile (\<lambda>c. c \<noteq> nul) s"

section \<open>The record\<close>

record operand_record =
  or_valid :: u8
  or_kind :: u8
  or_is_dst :: u8
  or_ready :: u8
  or_encoded_bits :: u16
  or_value :: u64
  or_data :: u64
  or_field_name :: string

record memory_record =
  mr_valid :: u8
  mr_is_load :: u8
  mr_is_store :: u8
  mr_size :: u32
  mr_addr :: u64
  mr_wdata :: u64
  mr_rdata :: u64

record trap_record =
  tr_valid :: u8
  tr_cause :: u16
  tr_traparg0 :: u64

record minst_record =
  rc_cycle :: u64
  rc_pc :: u64
  rc_next_pc :: u64
  rc_insn :: u64
  rc_len :: u32
  rc_lane_id :: "32 word"
  rc_mnemonic :: string
  rc_form_id :: string
  rc_opcode_class :: string
  rc_lifecycle :: string
  rc_block_kind :: string
  rc_src0 :: operand_record
  rc_src1 :: operand_record
  rc_dst0 :: operand_record
  rc_memory :: memory_record
  rc_trap :: trap_record

definition empty_text :: string where
  "empty_text = replicate text_capacity nul"

definition operand_record_zero :: operand_record where
  "operand_record_zero = \<lparr>or_valid = 0, or_kind = 0, or_is_dst = 0, or_ready = 0,
     or_encoded_bits = 0, or_value = 0, or_data = 0, or_field_name = empty_text\<rparr>"

definition memory_record_zero :: memory_record where
  "memory_record_zero = \<lparr>mr_valid = 0, mr_is_load = 0, mr_is_store = 0, mr_size = 0, mr_addr = 0,
     mr_wdata = 0, mr_rdata = 0\<rparr>"

definition trap_record_zero :: trap_record where
  "trap_record_zero = \<lparr>tr_valid = 0, tr_cause = 0, tr_traparg0 = 0\<rparr>"

fun operand_kind_code :: "operand_kind \<Rightarrow> u8" where
  "operand_kind_code OK_Invalid = 0"
| "operand_kind_code OK_Register = 1"
| "operand_kind_code OK_Immediate = 2"
| "operand_kind_code OK_Predicate = 3"
| "operand_kind_code OK_Memory = 4"
| "operand_kind_code OK_Control = 5"
| "operand_kind_code OK_Metadata = 6"

definition fill_operand :: "minst_operand option \<Rightarrow> operand_record" where
  "fill_operand src = (case src of
     None \<Rightarrow> operand_record_zero
   | Some p \<Rightarrow> operand_record_zero\<lparr>or_valid := 1, or_kind := operand_kind_code (op_kind p),
       or_is_dst := (if op_is_dst p then 1 else 0), or_ready := (if op_ready p then 1 else 0),
       or_encoded_bits := of_nat (op_encoded_bits p), or_value := op_value p, or_data := op_data p,
       or_field_name := copy_text (op_field_name p)\<rparr>)"

definition nth_operand :: "minst_operand list \<Rightarrow> nat \<Rightarrow> minst_operand option" where
  "nth_operand ps i = (if i < length ps then Some (ps ! i) else None)"

definition make_minst_record :: "minst \<Rightarrow> u64 \<Rightarrow> string \<Rightarrow> int \<Rightarrow> u16 option \<Rightarrow> u64 option \<Rightarrow> minst_record" where
  "make_minst_record inst cycle block_kind lane trap_cause traparg0 =
     \<lparr>rc_cycle = cycle, rc_pc = pc inst, rc_next_pc = next_pc inst, rc_insn = raw_bits inst,
      rc_len = ucast (length_bits inst), rc_lane_id = of_int lane,
      rc_mnemonic = copy_text (mnemonic inst), rc_form_id = copy_text (form_id inst),
      rc_opcode_class = copy_text (opcode_class_text (opcode_class inst)),
      rc_lifecycle = copy_text (lifecycle_text (lifecycle inst)), rc_block_kind = copy_text block_kind,
      rc_src0 = fill_operand (nth_operand (srcs inst) 0),
      rc_src1 = fill_operand (nth_operand (srcs inst) 1),
      rc_dst0 = fill_operand (nth_operand (dsts inst) 0),
      rc_memory = (case memory inst of
          None \<Rightarrow> memory_record_zero
        | Some i \<Rightarrow> memory_record_zero\<lparr>mr_valid := (if mi_valid i then 1 else 0),
            mr_is_load := (if mi_is_load i then 1 else 0), mr_is_store := (if mi_is_store i then 1 else 0),
            mr_size := ucast (mi_size i), mr_addr := mi_addr i\<rparr>),
      rc_trap = (case trap_cause of
          None \<Rightarrow> trap_record_zero
        | Some cause \<Rightarrow> trap_record_zero\<lparr>tr_valid := 1, tr_cause := cause,
            tr_traparg0 := (case traparg0 of Some a \<Rightarrow> a | None \<Rightarrow> 0)\<rparr>)\<rparr>"

section \<open>JSON text\<close>

fun json_escape :: "string \<Rightarrow> string" where
  "json_escape [] = []"
| "json_escape (ch # chs) =
     (if ch = CHR 0x5C then [CHR 0x5C, CHR 0x5C] @ json_escape chs
      else if ch = CHR 0x22 then [CHR 0x5C, CHR 0x22] @ json_escape chs
      else if ch = CHR 0x0A then [CHR 0x5C, CHR ''n''] @ json_escape chs
      else ch # json_escape chs)"

text \<open>What a JSON reader makes of a string literal after its opening quotation mark (RFC 8259, section
  7): the text up to the closing quotation mark and what follows it. A raw character below 0x20 is
  refused, and so is an escape the standard does not have. The escape with four hexadecimal digits,
  which the code never writes, is left out, and characters are bytes, as in the code.\<close>

fun json_short_escape :: "char \<Rightarrow> char option" where
  "json_short_escape e =
     (if e = CHR 0x22 \<or> e = CHR 0x5C \<or> e = CHR 0x2F then Some e
      else if e = CHR ''b'' then Some (CHR 0x08)
      else if e = CHR ''f'' then Some (CHR 0x0C)
      else if e = CHR ''n'' then Some (CHR 0x0A)
      else if e = CHR ''r'' then Some (CHR 0x0D)
      else if e = CHR ''t'' then Some (CHR 0x09)
      else None)"

definition json_raw_char :: "char \<Rightarrow> bool" where
  "json_raw_char ch \<longleftrightarrow> 0x20 \<le> (of_char ch :: nat)"

fun json_read :: "string \<Rightarrow> (string \<times> string) option" where
  "json_read [] = None"
| "json_read (ch # chs) =
     (if ch = CHR 0x22 then Some ([], chs)
      else if ch = CHR 0x5C then
        (case chs of
           [] \<Rightarrow> None
         | e # rest \<Rightarrow>
             (case json_short_escape e of
                None \<Rightarrow> None
              | Some d \<Rightarrow> map_option (\<lambda>(s, r). (d # s, r)) (json_read rest)))
      else if json_raw_char ch then map_option (\<lambda>(s, r). (ch # s, r)) (json_read chs)
      else None)"

definition json_writable :: "char \<Rightarrow> bool" where
  "json_writable ch \<longleftrightarrow> ch = CHR 0x0A \<or> json_raw_char ch"

text \<open>C31: a strict JSON reader takes the escaped text, followed by its quotation mark and anything
  else, exactly when every character of the text is a newline or at least 0x20. It then reads back the
  original text and stops at that quotation mark, so no text can break out of its JSON string. On
  every other text (one with a tab, say) the reader refuses the output, since those control characters
  are written raw.\<close>
theorem json_escape_roundtrip:
  "json_read (json_escape s @ CHR 0x22 # rest) = (if list_all json_writable s then Some (s, rest) else None)"
proof (induction s)
  case (Cons ch s)
  then show ?case by (auto simp: json_writable_def json_raw_char_def)
qed (simp add: json_writable_def)

text \<open>A tab inside a text makes the JSON line unreadable.\<close>
lemma json_escape_leaves_tab: "json_read (json_escape ''a\<newline>'' @ [CHR 0x22]) = Some (''a\<newline>'', [])"
  "json_read (json_escape [CHR ''a'', CHR 0x09] @ [CHR 0x22]) = None"
  by (simp_all add: json_raw_char_def)

section \<open>Fixed-size text keeps what fits\<close>

lemma length_copy_text: "length (copy_text s) = text_capacity"
  by (simp add: copy_text_def text_capacity_def min_def)

lemma c_text_copy_text:
  assumes "nul \<notin> set s"
  shows "c_text (copy_text s) = take 31 s"
proof -
  have "takeWhile (\<lambda>c. c \<noteq> nul) (take 31 s @ replicate (Suc n) nul) = take 31 s" for n
    using assms by (subst takeWhile_append2) (auto dest: in_set_takeD)
  moreover have "\<exists>n. text_capacity - min (length s) (text_capacity - 1) = Suc n"
    by (simp add: text_capacity_def min_def) presburger
  ultimately show ?thesis by (auto simp: c_text_def copy_text_def text_capacity_def)
qed

lemma strncpy_copy_text:
  assumes "length dst = text_capacity" "dst ! 31 = nul"
  shows "strncpy_text dst s = copy_text s"
proof -
  have "drop 31 dst = dst ! 31 # drop (Suc 31) dst"
    using assms(1) by (intro Cons_nth_drop_Suc [symmetric]) (simp add: text_capacity_def)
  then have last: "drop 31 dst = [nul]" using assms by (simp add: text_capacity_def)
  have "replicate (31 - n) nul @ [nul] = replicate (32 - n) nul" if "n \<le> 31" for n
  proof -
    have "32 - n = Suc (31 - n)" using that by simp
    then show ?thesis by (simp only: replicate_append_same replicate_Suc)
  qed
  then show ?thesis
    by (simp add: strncpy_text_def copy_text_def text_capacity_def min_def last)
qed

end
