(* ===== verification/Execution_Context.thy ===== *)
theory Execution_Context
  imports Emulator_State Minst_Record Program_Image Little_Endian
begin

text \<open>
  The execution context of the emulator (\<^verbatim>\<open>src/emulator/execution_context.cpp\<close>): architectural
  state, sparse byte memory, committed records and the termination flags.  The memory is a partial
  function of the 64-bit address, and address arithmetic wraps as in the code.  The trace files
  that \<^verbatim>\<open>SetTracePath\<close> opens and \<^verbatim>\<open>AppendRecord\<close> also writes to are not part of the state.
\<close>

section \<open>State\<close>

type_synonym memory_map = "u64 \<Rightarrow> u8 option"

record exec_context =
  cx_program :: program_image
  cx_state :: linx_state
  cx_memory :: memory_map
  cx_committed :: "minst_record list"
  cx_last_committed :: "minst_record option"
  cx_cycle :: u64
  cx_exit_code :: int
  cx_has_program :: bool
  cx_terminated :: bool
  cx_last_error :: string

definition exec_context_default :: exec_context where
  "exec_context_default = \<lparr>cx_program = program_image_default, cx_state = linx_state_default,
     cx_memory = (\<lambda>_. None), cx_committed = [], cx_last_committed = None, cx_cycle = 0,
     cx_exit_code = 0, cx_has_program = False, cx_terminated = False, cx_last_error = []\<rparr>"

section \<open>Operations\<close>

text \<open>The two nested loops of \<^verbatim>\<open>LoadProgram\<close>; a later byte for the same address replaces an earlier one.\<close>

definition load_section :: "program_section \<Rightarrow> memory_map \<Rightarrow> memory_map" where
  "load_section s mem =
     fold (\<lambda>idx mem. mem(ps_address s + of_nat idx \<mapsto> ps_bytes s ! idx)) [0..<length (ps_bytes s)] mem"

definition load_program :: "program_image \<Rightarrow> exec_context \<Rightarrow> exec_context" where
  "load_program img ctx = ctx\<lparr>cx_program := img, cx_has_program := True,
     cx_memory := fold load_section (pi_sections img) (\<lambda>_. None),
     cx_committed := [], cx_last_committed := None,
     cx_state := (linx_state_reset (cx_state ctx))\<lparr>ls_pc := pi_entry_point img\<rparr>\<rparr>"

definition context_reset :: "exec_context \<Rightarrow> exec_context" where
  "context_reset ctx =
     (let ctx = ctx\<lparr>cx_state := linx_state_reset (cx_state ctx), cx_memory := (\<lambda>_. None),
            cx_committed := [], cx_last_committed := None, cx_cycle := 0, cx_exit_code := 0,
            cx_terminated := False, cx_last_error := []\<rparr>
      in if cx_has_program ctx then load_program (cx_program ctx) ctx else ctx)"

definition append_record :: "minst_record \<Rightarrow> exec_context \<Rightarrow> exec_context" where
  "append_record r ctx = ctx\<lparr>cx_committed := cx_committed ctx @ [r], cx_last_committed := Some r\<rparr>"

definition request_terminate :: "int \<Rightarrow> string \<Rightarrow> exec_context \<Rightarrow> exec_context" where
  "request_terminate code reason ctx =
     ctx\<lparr>cx_terminated := True, cx_exit_code := code, cx_last_error := reason\<rparr>"

definition advance_cycle :: "exec_context \<Rightarrow> exec_context" where
  "advance_cycle ctx = ctx\<lparr>cx_cycle := cx_cycle ctx + 1\<rparr>"

definition read8 :: "exec_context \<Rightarrow> u64 \<Rightarrow> u8 option" where
  "read8 ctx addr = cx_memory ctx addr"

definition read16 :: "exec_context \<Rightarrow> u64 \<Rightarrow> u16 option" where
  "read16 ctx addr =
     (case (read8 ctx addr, read8 ctx (addr + 1)) of
        (Some lo, Some hi) \<Rightarrow> Some (ucast lo OR push_bit 8 (ucast hi))
      | _ \<Rightarrow> None)"

text \<open>The reading loop of \<^verbatim>\<open>Read32\<close> and \<^verbatim>\<open>Read64\<close>, from index \<open>idx\<close> on for \<open>n\<close> more bytes.\<close>

fun read_le :: "exec_context \<Rightarrow> u64 \<Rightarrow> nat \<Rightarrow> nat \<Rightarrow> 'a::len word \<Rightarrow> 'a word option" where
  "read_le ctx addr idx 0 value = Some value"
| "read_le ctx addr idx (Suc n) value =
     (case read8 ctx (addr + of_nat idx) of
        None \<Rightarrow> None
      | Some byte \<Rightarrow> read_le ctx addr (Suc idx) n (value OR push_bit (idx * 8) (ucast byte)))"

definition read32 :: "exec_context \<Rightarrow> u64 \<Rightarrow> u32 option" where
  "read32 ctx addr = read_le ctx addr 0 4 0"

definition read64 :: "exec_context \<Rightarrow> u64 \<Rightarrow> u64 option" where
  "read64 ctx addr = read_le ctx addr 0 8 0"

fun read_bytes :: "exec_context \<Rightarrow> u64 \<Rightarrow> nat \<Rightarrow> nat \<Rightarrow> u8 list \<Rightarrow> u8 list option" where
  "read_bytes ctx addr index 0 bytes = Some bytes"
| "read_bytes ctx addr index (Suc n) bytes =
     (case read8 ctx (addr + of_nat index) of
        None \<Rightarrow> None
      | Some byte \<Rightarrow> read_bytes ctx addr (Suc index) n (bytes @ [byte]))"

text \<open>The size \<open>len\<close> is a \<^verbatim>\<open>std::size_t\<close>; the guard refuses a range that would pass the end of the address space.\<close>

definition read_memory_range :: "exec_context \<Rightarrow> u64 \<Rightarrow> nat \<Rightarrow> u8 list option" where
  "read_memory_range ctx addr len =
     (if len > 0 \<and> len - 1 > unat (- 1 - addr :: u64) then None
      else read_bytes ctx addr 0 len [])"

definition write8 :: "u64 \<Rightarrow> u8 \<Rightarrow> exec_context \<Rightarrow> exec_context" where
  "write8 addr v ctx = ctx\<lparr>cx_memory := (cx_memory ctx)(addr \<mapsto> v)\<rparr>"

definition kTestFinisherAddress :: u64 where "kTestFinisherAddress = 0x10009000"

definition handle_test_finisher_write :: "u64 \<Rightarrow> u32 \<Rightarrow> exec_context \<Rightarrow> exec_context" where
  "handle_test_finisher_write addr v ctx =
     (if addr \<noteq> kTestFinisherAddress then ctx
      else let status = v AND 0xFFFF; code = int (unat (drop_bit 16 v))
        in if status = 0x5555 then request_terminate 0 ''finisher_pass'' ctx
           else if status = 0x3333 then request_terminate (if code = 0 then 1 else code) ''finisher_fail'' ctx
           else if status = 0x7777 then request_terminate (if code = 0 then 1 else code) ''finisher_reset'' ctx
           else ctx)"

definition write32 :: "u64 \<Rightarrow> u32 \<Rightarrow> exec_context \<Rightarrow> exec_context" where
  "write32 addr v ctx =
     handle_test_finisher_write addr v
       (fold (\<lambda>idx ctx. write8 (addr + of_nat idx) (byte_of v idx) ctx) [0..<4] ctx)"

definition write64 :: "u64 \<Rightarrow> u64 \<Rightarrow> exec_context \<Rightarrow> exec_context" where
  "write64 addr v ctx = fold (\<lambda>idx ctx. write8 (addr + of_nat idx) (byte_of v idx) ctx) [0..<8] ctx"

section \<open>Writes then reads\<close>

lemma offset_inj: "i < 2 ^ 64 \<Longrightarrow> j < 2 ^ 64 \<Longrightarrow> (a :: u64) + of_nat i = a + of_nat j \<longleftrightarrow> i = j"
  by (simp add: word_of_nat_eq_iff take_bit_nat_eq_self)

lemma write_fold_memory:
  "cx_memory (fold (\<lambda>idx ctx. write8 (addr + of_nat idx) (f idx) ctx) idxs ctx) =
   fold (\<lambda>idx mem. mem(addr + of_nat idx \<mapsto> f idx)) idxs (cx_memory ctx)"
  by (induction idxs arbitrary: ctx) (simp_all add: write8_def)

lemma write_fold_frame:
  "fold (\<lambda>idx ctx. write8 (addr + of_nat idx) (f idx) ctx) idxs ctx =
   ctx\<lparr>cx_memory := fold (\<lambda>idx mem. mem(addr + of_nat idx \<mapsto> f idx)) idxs (cx_memory ctx)\<rparr>"
  by (induction idxs arbitrary: ctx) (simp_all add: write8_def)

text \<open>The bytes that a loop over increasing indices leaves in a map.\<close>

lemma fold_map_upd:
  assumes "n \<le> 2 ^ 64"
  shows "fold (\<lambda>idx mem. mem(addr + of_nat idx \<mapsto> f idx)) [0..<n] mem a =
    (if unat (a - addr) < n then Some (f (unat (a - addr))) else mem (a :: u64))"
  using assms
proof (induction n)
  case 0
  show ?case by simp
next
  case (Suc n)
  have n: "unat (of_nat n :: u64) = n" using Suc.prems by (simp add: unat_of_nat)
  have "a = addr + of_nat n \<longleftrightarrow> a - addr = of_nat n" by (auto simp: algebra_simps)
  also have "\<dots> \<longleftrightarrow> unat (a - addr) = n" unfolding word_unat_eq_iff n ..
  finally have "a = addr + of_nat n \<longleftrightarrow> unat (a - addr) = n" .
  with Suc show ?case by auto
qed

lemma handle_finisher_memory: "cx_memory (handle_test_finisher_write addr v ctx) = cx_memory ctx"
  by (simp add: handle_test_finisher_write_def request_terminate_def Let_def)

lemma read_le_memory:
  assumes "\<forall>i < n. read8 ctx (addr + of_nat (idx + i)) = Some (f (idx + i))"
  shows "read_le ctx addr idx n v = Some (fold (\<lambda>i v. v OR push_bit (i * 8) (ucast (f i))) [idx..<idx + n] v)"
  using assms
proof (induction n arbitrary: idx v)
  case 0
  then show ?case by simp
next
  case (Suc n)
  from Suc.prems have h: "read8 ctx (addr + of_nat idx) = Some (f idx)" by force
  have "\<forall>i < n. read8 ctx (addr + of_nat (Suc idx + i)) = Some (f (Suc idx + i))"
    using Suc.prems by (metis Suc_less_eq add_Suc_shift)
  from Suc.IH [OF this] h show ?case
    by (simp add: upt_conv_Cons del: upt_Suc)
qed

lemma write32_memory:
  "cx_memory (write32 a v ctx) b =
   (if unat (b - a) < 4 then Some (byte_of v (unat (b - a))) else cx_memory ctx b)"
  by (simp add: write32_def handle_finisher_memory write_fold_memory fold_map_upd del: upt_Suc)

lemma write64_memory:
  "cx_memory (write64 a v ctx) b =
   (if unat (b - a) < 8 then Some (byte_of v (unat (b - a))) else cx_memory ctx b)"
  by (simp add: write64_def write_fold_memory fold_map_upd del: upt_Suc)

lemma read_back:
  assumes len: "LENGTH('a) = n * 8" and n: "n \<le> 8"
    and mem: "\<And>b. cx_memory ctx b = (if unat (b - a) < n then Some (byte_of (v :: 'a::len word) (unat (b - a))) else m b)"
  shows "read_le ctx a 0 n 0 = Some v"
proof -
  have "unat (of_nat i :: u64) = i" if "i < n" for i
    using that n by (simp add: unat_of_nat)
  then have "\<forall>i < n. read8 ctx (a + of_nat (0 + i)) = Some (byte_of v (0 + i))"
    by (simp add: read8_def mem)
  from read_le_memory [OF this, of "0 :: 'a word"] le_fold_bytes [OF len, of v] show ?thesis by simp
qed

text \<open>C22: a 32-bit or 64-bit store is read back unchanged by the load of the same width at the same
  address, also where the address wraps around; it sets exactly the bytes of the value, least
  significant first, and leaves every other byte of the memory as it was.\<close>
theorem store_load_roundtrip:
  "read32 (write32 a v ctx) a = Some v \<and> read64 (write64 a w ctx) a = Some w \<and>
   read8 (write32 a v ctx) b =
     (if unat (b - a) < 4 then Some (byte_of v (unat (b - a))) else read8 ctx b) \<and>
   read8 (write64 a w ctx) b =
     (if unat (b - a) < 8 then Some (byte_of w (unat (b - a))) else read8 ctx b)"
proof (intro conjI)
  show "read32 (write32 a v ctx) a = Some v"
    unfolding read32_def by (rule read_back [OF _ _ write32_memory]) simp_all
  show "read64 (write64 a w ctx) a = Some w"
    unfolding read64_def by (rule read_back [OF _ _ write64_memory]) simp_all
qed (simp_all only: read8_def write32_memory write64_memory)

section \<open>Ranges\<close>

lemma read_bytes_eq:
  "read_bytes ctx addr idx n bytes =
   (if \<forall>i < n. read8 ctx (addr + of_nat (idx + i)) \<noteq> None
    then Some (bytes @ map (\<lambda>i. the (read8 ctx (addr + of_nat i))) [idx..<idx + n]) else None)"
proof (induction n arbitrary: idx bytes)
  case 0
  show ?case by simp
next
  case (Suc n)
  show ?case
  proof (cases "read8 ctx (addr + of_nat idx)")
    case None
    then have "\<not> (\<forall>i < Suc n. read8 ctx (addr + of_nat (idx + i)) \<noteq> None)" by force
    with None show ?thesis by (simp only: read_bytes.simps option.case if_False)
  next
    case (Some b)
    have "(\<forall>i < Suc n. read8 ctx (addr + of_nat (idx + i)) \<noteq> None) \<longleftrightarrow>
        (\<forall>i < n. read8 ctx (addr + of_nat (Suc idx + i)) \<noteq> None)"
      using Some by (simp only: All_less_Suc2 add_Suc_right add_Suc add_0_right option.distinct simp_thms)
    with Some show ?thesis
      by (simp add: Suc.IH upt_conv_Cons del: upt_Suc)
  qed
qed

text \<open>C32: a memory range is returned exactly when it does not pass the end of the 64-bit address space
  and every byte of it was written or loaded; it then holds those bytes in address order.  An empty
  range is always returned, empty.\<close>
theorem memory_range_exact:
  "read_memory_range ctx addr n =
   (if (n = 0 \<or> unat addr + n \<le> 2 ^ 64) \<and> None \<notin> (\<lambda>i. read8 ctx (addr + of_nat i)) ` {..<n}
    then Some (map (\<lambda>i. the (read8 ctx (addr + of_nat i))) [0..<n]) else None)"
proof -
  have "unat (- 1 - addr) = 2 ^ 64 - 1 - unat addr"
    using unat_sub [of addr "- 1"] by (simp add: unsigned_minus_1_eq_mask mask_eq_exp_minus_1)
  moreover have "unat addr < 2 ^ 64" using unsigned_less [of addr] by simp
  ultimately have "n > 0 \<and> n - 1 > unat (- 1 - addr) \<longleftrightarrow> \<not> (n = 0 \<or> unat addr + n \<le> 2 ^ 64)"
    by linarith
  moreover have "None \<notin> (\<lambda>i. read8 ctx (addr + of_nat i)) ` {..<n} \<longleftrightarrow>
      (\<forall>i < n. read8 ctx (addr + of_nat i) \<noteq> None)"
    unfolding image_iff by (metis lessThan_iff)
  ultimately show ?thesis
    by (auto simp: read_memory_range_def read_bytes_eq)
qed

section \<open>Loading and resetting\<close>

definition section_covers :: "u64 \<Rightarrow> program_section \<Rightarrow> bool" where
  "section_covers a s \<longleftrightarrow> unat (a - ps_address s) < length (ps_bytes s)"

lemma load_section_memory:
  assumes "length (ps_bytes s) \<le> 2 ^ 64"
  shows "load_section s mem a =
    (if section_covers a s then Some (ps_bytes s ! unat (a - ps_address s)) else mem a)"
  using fold_map_upd [OF assms, of "ps_address s" "\<lambda>idx. ps_bytes s ! idx" mem a]
  by (simp add: load_section_def section_covers_def)

lemma load_sections_memory:
  assumes "\<forall>s \<in> set ss. length (ps_bytes s) \<le> 2 ^ 64"
  shows "fold load_section ss mem a =
    (case List.find (section_covers a) (rev ss) of
       Some s \<Rightarrow> Some (ps_bytes s ! unat (a - ps_address s)) | None \<Rightarrow> mem a)"
  using assms by (induction ss rule: rev_induct) (simp_all add: load_section_memory)

text \<open>After a program was loaded, the memory holds at every address the byte of the last section
  that covers the address, nothing outside the sections, and the program counter is the entry
  point; no byte of the memory before survives.\<close>
theorem load_program_memory:
  assumes "\<forall>s \<in> set (pi_sections img). length (ps_bytes s) \<le> 2 ^ 64"
  shows "read8 (load_program img ctx) a =
      (case List.find (section_covers a) (rev (pi_sections img)) of
         Some s \<Rightarrow> Some (ps_bytes s ! unat (a - ps_address s)) | None \<Rightarrow> None) \<and>
    ls_pc (cx_state (load_program img ctx)) = pi_entry_point img"
  using load_sections_memory [OF assms] by (simp add: read8_def load_program_def)

definition two_sections :: program_image where
  "two_sections = \<lparr>pi_source_path = [], pi_entry_point = 0x1000, pi_sections =
     [\<lparr>ps_name = ''a'', ps_address = 0x1000, ps_bytes = [1, 2, 3], ps_executable = True\<rparr>,
      \<lparr>ps_name = ''b'', ps_address = 0x1002, ps_bytes = [9], ps_executable = False\<rparr>]\<rparr>"

theorem load_program_memory_witness:
  "read8 (load_program two_sections exec_context_default) 0x1002 = Some 9"
  using load_program_memory [of two_sections exec_context_default "0x1002"]
  by (simp add: two_sections_def section_covers_def)

text \<open>Resetting a context that holds a program gives exactly the context that loading the program
  into a new one gives, whatever was executed, stored, recorded or terminated before.\<close>
lemma reset_is_fresh_load:
  assumes "cx_has_program ctx"
  shows "context_reset ctx = load_program (cx_program ctx) exec_context_default"
  using assms
  by (simp add: context_reset_def load_program_def exec_context_default_def linx_state_reset_def Let_def)

lemma reset_is_fresh_load_witness:
  "context_reset (request_terminate 3 ''x'' (write8 5 6 (load_program two_sections exec_context_default)))
   = load_program two_sections exec_context_default"
  by (subst reset_is_fresh_load) (simp_all add: request_terminate_def write8_def load_program_def)

end
