(* ===== verification/Reference_Executor.thy ===== *)
theory Reference_Executor
  imports Execution_Context Codec
begin

text \<open>
  The reference executor (\<^verbatim>\<open>src/emulator/reference_executor.cpp\<close>): fetching and decoding at the program
  counter, one handler per implemented mnemonic, \<open>step\<close> and the \<open>run\<close> loop.  \<open>T\<close> are the codec's
  tables.  \<open>run\<close> has no bound of its own: \<open>run_loop\<close> takes fuel and is \<open>None\<close> when it runs out.
  The signed sum of the \<open>C.BSTART\<close> target is modelled as wrapping.
\<close>

section \<open>Operands\<close>

fun get_unsigned_any :: "minst \<Rightarrow> string list \<Rightarrow> u64 option" where
  "get_unsigned_any inst [] = None"
| "get_unsigned_any inst (name # names) =
     (case get_field_unsigned name inst of Some v \<Rightarrow> Some v | None \<Rightarrow> get_unsigned_any inst names)"

fun get_signed_any :: "minst \<Rightarrow> string list \<Rightarrow> i64 option" where
  "get_signed_any inst [] = None"
| "get_signed_any inst (name # names) =
     (case get_field_signed name inst of Some v \<Rightarrow> Some v | None \<Rightarrow> get_signed_any inst names)"

definition value_or_0 :: "'a::zero option \<Rightarrow> 'a" where
  "value_or_0 x = (case x of Some v \<Rightarrow> v | None \<Rightarrow> 0)"

definition src_value :: "minst \<Rightarrow> nat \<Rightarrow> u64" where
  "src_value inst n = (if n < length (srcs inst) then op_value (srcs inst ! n) else 0)"

definition dst_value :: "minst \<Rightarrow> u64" where
  "dst_value inst = (if dsts inst = [] then 0 else op_value (hd (dsts inst)))"

definition read_gpr :: "linx_state \<Rightarrow> u64 \<Rightarrow> u64" where
  "read_gpr s idx =
     (if idx = 0 \<or> unat idx \<ge> kLinxGprCount then
        if idx \<ge> 24 \<and> idx < 28 then ls_tq s ! unat (idx - 24)
        else if idx \<ge> 28 \<and> idx < 32 then ls_uq s ! unat (idx - 28)
        else 0
      else ls_gpr s ! unat idx)"

text \<open>The loop of \<^verbatim>\<open>PushQueue\<close> moves every entry one place up, from the last one down.\<close>

definition push_queue :: "u64 list \<Rightarrow> u64 \<Rightarrow> u64 list" where
  "push_queue q v = (fold (\<lambda>idx q. q[idx := q ! (idx - 1)]) (rev [1..<length q]) q)[0 := v]"

definition write_scalar_destination :: "u64 \<Rightarrow> u64 \<Rightarrow> linx_state \<Rightarrow> linx_state" where
  "write_scalar_destination idx v s =
     (if idx = 31 then s\<lparr>ls_tq := push_queue (ls_tq s) v\<rparr>
      else if idx = 30 then s\<lparr>ls_uq := push_queue (ls_uq s) v\<rparr>
      else if idx > 0 \<and> unat idx < kLinxGprCount then s\<lparr>ls_gpr := (ls_gpr s)[unat idx := v]\<rparr>
      else s)"

definition cube_mnemonics :: "string list" where
  "cube_mnemonics = [''BSTART.TMATMUL'', ''BSTART.TMATMUL.ACC'', ''BSTART.TMATMUL.BIAS'',
     ''BSTART.TMATMULMX'', ''BSTART.TMATMULMX.ACC'', ''BSTART.TMATMULMX.BIAS'', ''BSTART.TGEMV'',
     ''BSTART.TGEMV.ACC'', ''BSTART.TGEMV.BIAS'', ''BSTART.TGEMVMX'', ''BSTART.TGEMVMX.ACC'',
     ''BSTART.TGEMVMX.BIAS'']"

definition tlsu_mnemonics :: "string list" where
  "tlsu_mnemonics = [''BSTART.TLOAD'', ''BSTART.TSTORE'', ''BSTART.TMOV'', ''BSTART.TPREFETCH'',
     ''BSTART.MGATHER'', ''BSTART.MSCATTER'', ''BSTART.MGATHER.MASK'', ''BSTART.MSCATTER.MASK'',
     ''BSTART.MGATHER.CAS'', ''BSTART.GMOV'']"

definition resolve_block_kind :: "minst \<Rightarrow> linx_state \<Rightarrow> string" where
  "resolve_block_kind inst s =
     (if mnemonic inst = ''C.BSTART.VPAR'' then ''vpar''
      else if mnemonic inst = ''C.BSTART.VSEQ'' then ''vseq''
      else if mnemonic inst = ''BSTART.TEPL'' then ''tepl''
      else if mnemonic inst \<in> set cube_mnemonics then ''cube''
      else if mnemonic inst \<in> set tlsu_mnemonics then ''tlsu''
      else if mnemonic inst = ''SSRSET'' \<or> mnemonic inst = ''HL.SSRSET'' then ''sys''
      else ls_block_kind s)"

definition resolve_lane_id :: "string \<Rightarrow> int" where
  "resolve_lane_id block_kind = (if block_kind = ''vpar'' \<or> block_kind = ''vseq'' then 0 else -1)"

definition is_tile_header :: "minst \<Rightarrow> bool" where
  "is_tile_header inst =
     (let k = resolve_block_kind inst linx_state_default in k = ''tlsu'' \<or> k = ''cube'' \<or> k = ''tepl'')"

definition is_implemented :: "minst \<Rightarrow> bool" where
  "is_implemented inst \<longleftrightarrow>
     mnemonic inst \<in> set [''C.BSTART.STD'', ''C.BSTART.VPAR'', ''C.BSTART.VSEQ'', ''C.BSTART'', ''C.BSTOP'',
       ''C.MOVI'', ''C.MOVR'', ''LUI'', ''HL.LUI'', ''HL.LIU'', ''HL.LIS'', ''ADDI'', ''LWI'', ''SWI'',
       ''SETC.NE'', ''SETC.LTU'', ''SSRSET'', ''MCOPY'', ''MSET''] \<or>
     is_tile_header inst \<or> mnemonic inst = ''B.TEXT''"

section \<open>Fetch and decode\<close>

definition insn_bytes :: "u16 \<Rightarrow> nat" where
  "insn_bytes hw =
     (if hw AND 1 = 0 then (if hw AND 0xF = 0xE then 6 else 2) else if hw AND 0xF = 0xF then 8 else 4)"

definition fetch_decode :: "codec_tables \<Rightarrow> exec_context \<Rightarrow> minst option" where
  "fetch_decode T ctx =
     (let s = cx_state ctx
      in case read16 ctx (ls_pc s) of
        None \<Rightarrow> None
      | Some hw \<Rightarrow>
          let len = insn_bytes hw
          in (case read_le ctx (ls_pc s) 0 len (0 :: u64) of
            None \<Rightarrow> None
          | Some packed \<Rightarrow>
              let inst = create_fetch (ls_insn_count s + 1) (ls_pc s) packed (of_nat len)
              in (case decode_minst_packed T packed (int (len * 8)) inst of (status, inst) \<Rightarrow>
                if status \<noteq> CS_Ok then None else Some (mark_stage St_Decode inst))))"

section \<open>Handlers\<close>

text \<open>
  A handler sees the packet, the context and the record to be committed and returns the two
  changed.  \<open>upd\<close> changes the architectural state.
\<close>

type_synonym exec_result = "exec_context \<times> minst_record"

definition upd :: "(linx_state \<Rightarrow> linx_state) \<Rightarrow> exec_context \<Rightarrow> exec_context" where
  "upd f ctx = ctx\<lparr>cx_state := f (cx_state ctx)\<rparr>"

definition set_pc :: "u64 \<Rightarrow> exec_context \<Rightarrow> exec_context" where
  "set_pc v ctx = upd (\<lambda>s. s\<lparr>ls_pc := v\<rparr>) ctx"

definition set_record_block :: "string \<Rightarrow> minst_record \<Rightarrow> minst_record" where
  "set_record_block kind r = r\<lparr>rc_block_kind := strncpy_text ((rc_block_kind r)[0 := nul]) kind\<rparr>"

text \<open>The common end of the instructions that write one scalar result.\<close>

definition exec_scalar :: "minst \<Rightarrow> u64 \<Rightarrow> exec_context \<Rightarrow> minst_record \<Rightarrow> exec_result" where
  "exec_scalar inst v ctx r =
     (set_pc (next_pc inst) (upd (write_scalar_destination (dst_value inst) v) ctx),
      r\<lparr>rc_dst0 := (rc_dst0 r)\<lparr>or_data := v\<rparr>\<rparr>)"

definition exec_bstart_std :: "u64 \<Rightarrow> minst \<Rightarrow> exec_context \<Rightarrow> minst_record \<Rightarrow> exec_result" where
  "exec_bstart_std current_pc inst ctx r =
     (set_pc (next_pc inst) (upd (\<lambda>s. s\<lparr>ls_bpc := current_pc,
        ls_brtype := ucast (value_or_0 (get_unsigned_any inst [''BrType''])), ls_blocktype := 0,
        ls_block_kind := ''scalar'', ls_lane_id := -1\<rparr>) ctx), r)"

definition exec_bstart_vector :: "string \<Rightarrow> u64 \<Rightarrow> minst \<Rightarrow> exec_context \<Rightarrow> minst_record \<Rightarrow> exec_result" where
  "exec_bstart_vector kind current_pc inst ctx r =
     (set_pc (next_pc inst) (upd (\<lambda>s. s\<lparr>ls_bpc := current_pc, ls_block_kind := kind, ls_lane_id := 0\<rparr>) ctx),
      (set_record_block kind r)\<lparr>rc_lane_id := 0\<rparr>)"

definition exec_c_bstart :: "u64 \<Rightarrow> minst \<Rightarrow> exec_context \<Rightarrow> minst_record \<Rightarrow> exec_result" where
  "exec_c_bstart current_pc inst ctx r =
     (let offset = value_or_0 (get_signed_any inst [''simm12''])
      in (upd (\<lambda>s. s\<lparr>ls_tgt := current_pc + offset * 2, ls_bpc := current_pc, ls_pc := next_pc inst,
            ls_blocktype := (if str_contains (asm_template inst) ''DIRECT'' then 1 else 2)\<rparr>) ctx, r))"

definition exec_c_bstop :: "minst \<Rightarrow> exec_context \<Rightarrow> minst_record \<Rightarrow> exec_result" where
  "exec_c_bstop inst ctx r =
     (upd (\<lambda>s. s\<lparr>ls_pc := (if ls_blocktype s = 1 then ls_tgt s
                          else if ls_blocktype s = 2 \<and> ls_carg s \<noteq> 0 then ls_tgt s
                          else next_pc inst),
               ls_blocktype := 0, ls_carg := 0\<rparr>) ctx, r)"

definition exec_lwi :: "minst \<Rightarrow> exec_context \<Rightarrow> minst_record \<Rightarrow> exec_result" where
  "exec_lwi inst ctx r =
     (let base = read_gpr (cx_state ctx) (src_value inst 0);
          off = value_or_0 (get_signed_any inst [''simm'', ''simm12'']) * 4;
          addr = base + off;
          raw_value = value_or_0 (read32 ctx addr);
          v = (scast raw_value :: u64)
      in (set_pc (next_pc inst) (upd (write_scalar_destination (dst_value inst) v) ctx),
          r\<lparr>rc_dst0 := (rc_dst0 r)\<lparr>or_data := v\<rparr>,
            rc_memory := (rc_memory r)\<lparr>mr_valid := 1, mr_is_load := 1, mr_addr := addr, mr_size := 4,
              mr_rdata := v\<rparr>\<rparr>))"

definition exec_swi :: "minst \<Rightarrow> exec_context \<Rightarrow> minst_record \<Rightarrow> exec_result" where
  "exec_swi inst ctx r =
     (let v = read_gpr (cx_state ctx) (src_value inst 0);
          base = read_gpr (cx_state ctx) (src_value inst 1);
          off = value_or_0 (get_signed_any inst [''simm'', ''simm12'']) * 4;
          addr = base + off
      in (set_pc (next_pc inst) (write32 addr (ucast v) ctx),
          r\<lparr>rc_memory := (rc_memory r)\<lparr>mr_valid := 1, mr_is_store := 1, mr_addr := addr, mr_size := 4,
              mr_wdata := ucast (ucast v :: u32)\<rparr>\<rparr>))"

definition exec_setc :: "(u64 \<Rightarrow> u64 \<Rightarrow> bool) \<Rightarrow> minst \<Rightarrow> exec_context \<Rightarrow> minst_record \<Rightarrow> exec_result" where
  "exec_setc rel inst ctx r =
     (let lhs = read_gpr (cx_state ctx) (src_value inst 0);
          rhs = read_gpr (cx_state ctx) (src_value inst 1)
      in (set_pc (next_pc inst) (upd (\<lambda>s. s\<lparr>ls_carg := (if rel lhs rhs then 1 else 0)\<rparr>) ctx), r))"

definition exec_ssrset :: "minst \<Rightarrow> exec_context \<Rightarrow> minst_record \<Rightarrow> exec_result" where
  "exec_ssrset inst ctx r =
     (let v = read_gpr (cx_state ctx) (src_value inst 0);
          ssr_id = value_or_0 (get_unsigned_any inst [''SSR_ID''])
      in (set_pc (next_pc inst) (upd (\<lambda>s.
            if unat ssr_id < kLinxSsrCount
            then s\<lparr>ls_ssr_acr := (ls_ssr_acr s)(unat (ls_acr s) :=
                   (ls_ssr_acr s (unat (ls_acr s)))(unat ssr_id := v))\<rparr>
            else s) ctx),
          r\<lparr>rc_block_kind := strncpy_text (rc_block_kind r) ''sys''\<rparr>))"

text \<open>The byte loops, from index \<open>idx\<close> on for \<open>n\<close> more bytes.\<close>

fun mcopy_loop :: "u64 \<Rightarrow> u64 \<Rightarrow> nat \<Rightarrow> nat \<Rightarrow> exec_context \<Rightarrow> exec_context" where
  "mcopy_loop dst_addr src_addr idx 0 ctx = ctx"
| "mcopy_loop dst_addr src_addr idx (Suc n) ctx =
     mcopy_loop dst_addr src_addr (Suc idx) n
       (write8 (dst_addr + of_nat idx) (value_or_0 (read8 ctx (src_addr + of_nat idx))) ctx)"

fun mset_loop :: "u64 \<Rightarrow> u8 \<Rightarrow> nat \<Rightarrow> nat \<Rightarrow> exec_context \<Rightarrow> exec_context" where
  "mset_loop dst_addr v idx 0 ctx = ctx"
| "mset_loop dst_addr v idx (Suc n) ctx =
     mset_loop dst_addr v (Suc idx) n (write8 (dst_addr + of_nat idx) v ctx)"

definition exec_mcopy :: "minst \<Rightarrow> exec_context \<Rightarrow> minst_record \<Rightarrow> exec_result" where
  "exec_mcopy inst ctx r =
     (let dst_addr = read_gpr (cx_state ctx) (src_value inst 0);
          src_addr = read_gpr (cx_state ctx) (src_value inst 1);
          count = read_gpr (cx_state ctx) (src_value inst 2)
      in (set_pc (next_pc inst) (mcopy_loop dst_addr src_addr 0 (unat count) ctx), r))"

definition exec_mset :: "minst \<Rightarrow> exec_context \<Rightarrow> minst_record \<Rightarrow> exec_result" where
  "exec_mset inst ctx r =
     (let dst_addr = read_gpr (cx_state ctx) (src_value inst 0);
          v = (ucast (read_gpr (cx_state ctx) (src_value inst 1)) :: u8);
          count = read_gpr (cx_state ctx) (src_value inst 2)
      in (set_pc (next_pc inst) (mset_loop dst_addr v 0 (unat count) ctx), r))"

definition exec_header :: "string \<Rightarrow> minst \<Rightarrow> exec_context \<Rightarrow> minst_record \<Rightarrow> exec_result" where
  "exec_header current_block_kind inst ctx r =
     (let kind = (if mnemonic inst = ''B.TEXT'' then ''tlsu'' else current_block_kind)
      in (set_pc (next_pc inst) (upd (\<lambda>s. s\<lparr>ls_block_kind := kind\<rparr>) ctx), set_record_block kind r))"

definition dispatch :: "u64 \<Rightarrow> string \<Rightarrow> minst \<Rightarrow> exec_context \<Rightarrow> minst_record \<Rightarrow> exec_result" where
  "dispatch current_pc current_block_kind inst ctx r =
     (let m = mnemonic inst; s = cx_state ctx
      in if m = ''C.BSTART.STD'' then exec_bstart_std current_pc inst ctx r
         else if m = ''C.BSTART.VPAR'' then exec_bstart_vector ''vpar'' current_pc inst ctx r
         else if m = ''C.BSTART.VSEQ'' then exec_bstart_vector ''vseq'' current_pc inst ctx r
         else if m = ''C.BSTART'' then exec_c_bstart current_pc inst ctx r
         else if m = ''C.BSTOP'' then exec_c_bstop inst ctx r
         else if m = ''C.MOVI'' then exec_scalar inst (value_or_0 (get_signed_any inst [''simm5''])) ctx r
         else if m = ''C.MOVR'' then exec_scalar inst (read_gpr s (src_value inst 0)) ctx r
         else if m = ''LUI'' then
           exec_scalar inst (push_bit 12 (value_or_0 (get_signed_any inst [''simm20'', ''imm20'', ''simm'', ''imm'']))) ctx r
         else if m = ''HL.LUI'' then
           exec_scalar inst (push_bit 32 (value_or_0 (get_unsigned_any inst [''imm32'', ''imm'']) AND 0xFFFFFFFF)) ctx r
         else if m = ''HL.LIU'' then
           exec_scalar inst (value_or_0 (get_unsigned_any inst [''uimm32'', ''imm'']) AND 0xFFFFFFFF) ctx r
         else if m = ''HL.LIS'' then
           exec_scalar inst (value_or_0 (get_signed_any inst [''simm32'', ''imm''])) ctx r
         else if m = ''ADDI'' then
           exec_scalar inst (read_gpr s (src_value inst 0) +
             value_or_0 (get_signed_any inst [''uimm'', ''uimm12'', ''simm'', ''imms'', ''simm12''])) ctx r
         else if m = ''LWI'' then exec_lwi inst ctx r
         else if m = ''SWI'' then exec_swi inst ctx r
         else if m = ''SETC.NE'' then exec_setc (\<lambda>a b. a \<noteq> b) inst ctx r
         else if m = ''SETC.LTU'' then exec_setc (\<lambda>a b. a < b) inst ctx r
         else if m = ''SSRSET'' then exec_ssrset inst ctx r
         else if m = ''MCOPY'' then exec_mcopy inst ctx r
         else if m = ''MSET'' then exec_mset inst ctx r
         else if is_tile_header inst \<or> m = ''B.TEXT'' then exec_header current_block_kind inst ctx r
         else (ctx, r))"

section \<open>Execute, step and run\<close>

definition execute :: "minst \<Rightarrow> exec_context \<Rightarrow> exec_context" where
  "execute inst ctx =
     (if \<not> is_implemented inst
      then request_terminate 1 (''unsupported_instruction:'' @ mnemonic inst) ctx
      else
        let current_pc = ls_pc (cx_state ctx);
            ctx = upd (\<lambda>s. s\<lparr>ls_insn_pc_next := next_pc inst, ls_insn_count := ls_insn_count s + 1\<rparr>) ctx;
            kind = resolve_block_kind inst (cx_state ctx);
            r = make_minst_record inst (cx_cycle ctx) kind (resolve_lane_id kind) None None;
            ctx = upd (\<lambda>s. s\<lparr>ls_block_kind := kind, ls_lane_id := resolve_lane_id kind\<rparr>) ctx
        in (case dispatch current_pc kind inst ctx r of (ctx, r) \<Rightarrow>
          let r = r\<lparr>rc_lifecycle := strncpy_text (rc_lifecycle r) ''retired''\<rparr>;
              r = (if cx_terminated ctx then r\<lparr>rc_trap := (rc_trap r)\<lparr>tr_valid := 0\<rparr>\<rparr> else r)
          in append_record r ctx))"

definition exec_step :: "codec_tables \<Rightarrow> u64 option \<Rightarrow> exec_context \<Rightarrow> bool \<times> exec_context" where
  "exec_step T stop_pc ctx =
     (if cx_terminated ctx then (False, ctx)
      else if stop_pc = Some (ls_pc (cx_state ctx))
      then (False, request_terminate (cx_exit_code ctx) ''stop_pc'' ctx)
      else (case fetch_decode T ctx of
        None \<Rightarrow> (False, request_terminate 1 ''fetch_decode_failed'' ctx)
      | Some inst \<Rightarrow> let ctx = advance_cycle (execute inst ctx) in (\<not> cx_terminated ctx, ctx)))"

fun run_loop :: "nat \<Rightarrow> codec_tables \<Rightarrow> u64 option \<Rightarrow> u64 option \<Rightarrow> exec_context \<Rightarrow> exec_context option" where
  "run_loop 0 T stop_pc max_cycles ctx = None"
| "run_loop (Suc fuel) T stop_pc max_cycles ctx =
     (if cx_terminated ctx then Some ctx
      else if (case max_cycles of None \<Rightarrow> False | Some m \<Rightarrow> cx_cycle ctx \<ge> m)
      then Some (request_terminate (cx_exit_code ctx) ''max_cycles'' ctx)
      else (case exec_step T stop_pc ctx of (go, ctx) \<Rightarrow>
        if go then run_loop fuel T stop_pc max_cycles ctx else Some ctx))"

end
