(* ===== verification/Executor_Claims.thy ===== *)
theory Executor_Claims
  imports Reference_Executor Codec_Claims
begin

text \<open>
  What the executor guarantees: the register file and its two shift queues, what a step can do to
  the context, the invariant of a run, its termination under a cycle bound, and the two block
  memory instructions.
\<close>

section \<open>Scalar registers\<close>

text \<open>The sizes of the arrays, the constant zero register and the access level, which no instruction
  changes: with it no handler indexes outside an array.\<close>

definition state_wf :: "linx_state \<Rightarrow> bool" where
  "state_wf s \<longleftrightarrow> length (ls_gpr s) = kLinxGprCount \<and> length (ls_tq s) = kLinxQueueCount \<and>
     length (ls_uq s) = kLinxQueueCount \<and> ls_gpr s ! 0 = 0 \<and> ls_acr s = 0"

lemmas array_sizes = kLinxGprCount_def kLinxQueueCount_def

lemma push_queue_eq: "length q = kLinxQueueCount \<Longrightarrow> push_queue q v = v # butlast q"
proof -
  assume "length q = kLinxQueueCount"
  then obtain a b c d where q: "q = [a, b, c, d]"
    by (auto simp: kLinxQueueCount_def length_Suc_conv numeral_eq_Suc)
  have "rev [1..<4] = [3, 2, Suc 0]" by (simp add: upt_rec numeral_eq_Suc)
  then show ?thesis by (simp add: q push_queue_def numeral_eq_Suc)
qed

lemma write_scalar_wf: "state_wf s \<Longrightarrow> state_wf (write_scalar_destination d v s)"
  by (auto simp: state_wf_def write_scalar_destination_def push_queue_eq array_sizes word_gt_0
      nth_list_update unat_eq_0)

lemma write_scalar_frame:
  "ls_pc (write_scalar_destination d v s) = ls_pc s"
  "ls_insn_count (write_scalar_destination d v s) = ls_insn_count s"
  "ls_insn_pc_next (write_scalar_destination d v s) = ls_insn_pc_next s"
  by (simp_all add: write_scalar_destination_def)

lemma read_gpr_low: "unat i < 24 \<Longrightarrow> state_wf s \<Longrightarrow> read_gpr s i = ls_gpr s ! unat i"
  by (cases "i = 0") (auto simp: read_gpr_def state_wf_def array_sizes)

lemma word_range:
  "(24 :: u64) \<le> i \<and> i < 28 \<longleftrightarrow> 24 \<le> unat i \<and> unat i < 28"
  "(28 :: u64) \<le> i \<and> i < 32 \<longleftrightarrow> 28 \<le> unat i \<and> unat i < 32"
  by (simp_all add: word_le_nat_alt word_less_nat_alt)

lemma read_gpr_nat:
  assumes "state_wf s"
  shows "read_gpr s i =
    (if unat i < 24 then ls_gpr s ! unat i
     else if unat i < 28 then ls_tq s ! (unat i - 24)
     else if unat i < 32 then ls_uq s ! (unat i - 28) else 0)"
proof (cases "unat i < 24")
  case True
  then show ?thesis using assms by (simp add: read_gpr_low)
next
  case False
  then have "unat (i - 24) = unat i - 24" "unat i \<ge> 28 \<Longrightarrow> unat (i - 28) = unat i - 28"
    by (simp_all add: unat_sub word_le_nat_alt)
  moreover have "i \<noteq> 0" using False by auto
  ultimately show ?thesis using False by (auto simp: read_gpr_def array_sizes word_range)
qed

text \<open>C34: writing a scalar destination and reading a scalar source: a value written to destination 31 or
  30 becomes source 24 or 28 and moves the other three entries of that queue one source up; a
  value written to register 1 to 23 is read back there; every other write, also to register 0, is
  dropped; and no other source changes.\<close>
theorem scalar_write_read:
  assumes "state_wf s"
  shows "read_gpr (write_scalar_destination d v s) i =
    (if d = 31 \<and> 24 \<le> unat i \<and> unat i < 28 then (if unat i = 24 then v else read_gpr s (i - 1))
     else if d = 30 \<and> 28 \<le> unat i \<and> unat i < 32 then (if unat i = 28 then v else read_gpr s (i - 1))
     else if 0 < unat d \<and> unat d < 24 \<and> i = d then v else read_gpr s i)"
proof -
  have wf: "state_wf (write_scalar_destination d v s)" using assms by (rule write_scalar_wf)
  have pred: "\<not> unat i < 24 \<longrightarrow> unat (i - 1) = unat i - 1"
    by (intro impI unat_minus_one_pos) auto
  have same: "unat i = unat d \<longleftrightarrow> i = d" by (simp add: word_unat_eq_iff)
  have q: "length (ls_tq s) = 4" "length (ls_uq s) = 4" "length (ls_gpr s) = 24" "ls_gpr s ! 0 = 0"
    using assms by (simp_all add: state_wf_def array_sizes)
  have push: "push_queue t v ! k = (if k = 0 then v else t ! (k - 1))" if "length t = 4" "k < 4" for t k
    using that push_queue_eq [of t v] by (auto simp: array_sizes nth_Cons' nth_butlast)
  show ?thesis
    unfolding read_gpr_nat [OF wf] read_gpr_nat [OF assms]
    using q pred same
    by (cases "d = 31"; cases "d = 30")
      (auto simp: write_scalar_destination_def push word_gt_0 unat_gt_0 array_sizes nth_list_update unat_eq_0)
qed

theorem scalar_write_read_witness:
  "read_gpr (write_scalar_destination 31 7 (write_scalar_destination 31 5 linx_state_default)) 25 = 5"
proof -
  have wf: "state_wf linx_state_default"
    by (simp add: state_wf_def linx_state_default_def array_sizes)
  show ?thesis
    using scalar_write_read [OF write_scalar_wf [OF wf], of 31 7 31 5 25]
      scalar_write_read [OF wf, of 31 5 24] by simp
qed

section \<open>One step\<close>

text \<open>What every handler keeps: \<open>handled inst ctx r ctx' r'\<close> relates what it is given to what it returns.\<close>

definition handled :: "minst \<Rightarrow> exec_context \<Rightarrow> minst_record \<Rightarrow> exec_context \<Rightarrow> minst_record \<Rightarrow> bool" where
  "handled inst ctx r ctx' r' \<longleftrightarrow>
     (state_wf (cx_state ctx) \<longrightarrow> state_wf (cx_state ctx')) \<and>
     cx_program ctx' = cx_program ctx \<and> cx_has_program ctx' = cx_has_program ctx \<and>
     cx_committed ctx' = cx_committed ctx \<and> cx_last_committed ctx' = cx_last_committed ctx \<and>
     cx_cycle ctx' = cx_cycle ctx \<and>
     ls_insn_count (cx_state ctx') = ls_insn_count (cx_state ctx) \<and>
     (ls_pc (cx_state ctx') = next_pc inst \<or>
      mnemonic inst = ''C.BSTOP'' \<and> ls_pc (cx_state ctx') = ls_tgt (cx_state ctx)) \<and>
     rc_pc r' = rc_pc r \<and> rc_next_pc r' = rc_next_pc r \<and> rc_insn r' = rc_insn r \<and>
     rc_cycle r' = rc_cycle r \<and> rc_mnemonic r' = rc_mnemonic r \<and> rc_lifecycle r' = rc_lifecycle r \<and>
     rc_len r' = rc_len r"

lemmas ctx_defs = set_pc_def upd_def set_record_block_def Let_def

lemma state_wf_updates:
  "state_wf (s\<lparr>ls_pc := v\<rparr>) = state_wf s"
  "state_wf (s\<lparr>ls_carg := w\<rparr>) = state_wf s"
  "state_wf (s\<lparr>ls_block_kind := k\<rparr>) = state_wf s"
  "state_wf (s\<lparr>ls_ssr_acr := f\<rparr>) = state_wf s"
  by (simp_all add: state_wf_def)

lemma finisher_frame:
  "cx_state (handle_test_finisher_write a v ctx) = cx_state ctx"
  "cx_program (handle_test_finisher_write a v ctx) = cx_program ctx"
  "cx_has_program (handle_test_finisher_write a v ctx) = cx_has_program ctx"
  "cx_committed (handle_test_finisher_write a v ctx) = cx_committed ctx"
  "cx_last_committed (handle_test_finisher_write a v ctx) = cx_last_committed ctx"
  "cx_cycle (handle_test_finisher_write a v ctx) = cx_cycle ctx"
  by (simp_all add: handle_test_finisher_write_def request_terminate_def Let_def)

lemma write32_frame:
  "cx_state (write32 a v ctx) = cx_state ctx" "cx_program (write32 a v ctx) = cx_program ctx"
  "cx_has_program (write32 a v ctx) = cx_has_program ctx"
  "cx_committed (write32 a v ctx) = cx_committed ctx"
  "cx_last_committed (write32 a v ctx) = cx_last_committed ctx" "cx_cycle (write32 a v ctx) = cx_cycle ctx"
  by (simp_all add: write32_def finisher_frame write_fold_frame del: upt_Suc)

lemma mcopy_frame: "mcopy_loop d s i n ctx = ctx\<lparr>cx_memory := cx_memory (mcopy_loop d s i n ctx)\<rparr>"
proof (induction n arbitrary: i ctx)
  case 0
  show ?case by simp
next
  case (Suc n)
  let ?ctx = "write8 (d + of_nat i) (value_or_0 (read8 ctx (s + of_nat i))) ctx"
  have "?ctx\<lparr>cx_memory := m\<rparr> = ctx\<lparr>cx_memory := m\<rparr>" for m by (simp add: write8_def)
  with Suc [of "Suc i" ?ctx] show ?case by (metis mcopy_loop.simps(2))
qed

lemma mset_frame: "mset_loop d v i n ctx = ctx\<lparr>cx_memory := cx_memory (mset_loop d v i n ctx)\<rparr>"
proof (induction n arbitrary: i ctx)
  case 0
  show ?case by simp
next
  case (Suc n)
  let ?ctx = "write8 (d + of_nat i) v ctx"
  have "?ctx\<lparr>cx_memory := m\<rparr> = ctx\<lparr>cx_memory := m\<rparr>" for m by (simp add: write8_def)
  with Suc [of "Suc i" ?ctx] show ?case by (metis mset_loop.simps(2))
qed

lemma handled_memory_loop:
  "ctx2 = ctx\<lparr>cx_memory := m\<rparr> \<Longrightarrow> handled inst ctx r (set_pc (next_pc inst) ctx2) r"
  by (simp add: handled_def ctx_defs state_wf_updates)

lemma handled_scalar: "exec_scalar inst v ctx r = (ctx', r') \<Longrightarrow> handled inst ctx r ctx' r'"
  by (auto simp: exec_scalar_def handled_def ctx_defs write_scalar_frame state_wf_updates write_scalar_wf)

lemma handled_bstart_std: "exec_bstart_std c inst ctx r = (ctx', r') \<Longrightarrow> handled inst ctx r ctx' r'"
  by (auto simp: exec_bstart_std_def handled_def ctx_defs state_wf_def)

lemma handled_bstart_vector: "exec_bstart_vector k c inst ctx r = (ctx', r') \<Longrightarrow> handled inst ctx r ctx' r'"
  by (auto simp: exec_bstart_vector_def handled_def ctx_defs state_wf_def)

lemma handled_c_bstart: "exec_c_bstart c inst ctx r = (ctx', r') \<Longrightarrow> handled inst ctx r ctx' r'"
  by (auto simp: exec_c_bstart_def handled_def ctx_defs state_wf_def)

lemma handled_c_bstop:
  "exec_c_bstop inst ctx r = (ctx', r') \<Longrightarrow> mnemonic inst = ''C.BSTOP'' \<Longrightarrow> handled inst ctx r ctx' r'"
  by (auto simp: exec_c_bstop_def handled_def ctx_defs state_wf_def)

lemma handled_lwi: "exec_lwi inst ctx r = (ctx', r') \<Longrightarrow> handled inst ctx r ctx' r'"
  by (auto simp: exec_lwi_def handled_def ctx_defs write_scalar_frame state_wf_updates write_scalar_wf)

lemma handled_swi: "exec_swi inst ctx r = (ctx', r') \<Longrightarrow> handled inst ctx r ctx' r'"
  by (auto simp: exec_swi_def handled_def ctx_defs write32_frame state_wf_updates)

lemma handled_setc: "exec_setc rel inst ctx r = (ctx', r') \<Longrightarrow> handled inst ctx r ctx' r'"
  by (auto simp: exec_setc_def handled_def ctx_defs state_wf_updates)

lemma handled_ssrset: "exec_ssrset inst ctx r = (ctx', r') \<Longrightarrow> handled inst ctx r ctx' r'"
  by (auto simp: exec_ssrset_def handled_def ctx_defs state_wf_updates)

lemma handled_mcopy: "exec_mcopy inst ctx r = (ctx', r') \<Longrightarrow> handled inst ctx r ctx' r'"
  using handled_memory_loop [OF mcopy_frame] by (auto simp: exec_mcopy_def Let_def)

lemma handled_mset: "exec_mset inst ctx r = (ctx', r') \<Longrightarrow> handled inst ctx r ctx' r'"
  using handled_memory_loop [OF mset_frame] by (auto simp: exec_mset_def Let_def)

lemma handled_header: "exec_header k inst ctx r = (ctx', r') \<Longrightarrow> handled inst ctx r ctx' r'"
  by (auto simp: exec_header_def handled_def ctx_defs state_wf_updates)

lemmas handled_rules = handled_scalar handled_bstart_std handled_bstart_vector handled_c_bstart
  handled_lwi handled_swi handled_setc handled_ssrset handled_mcopy handled_mset
  handled_header

lemma dispatch_handled:
  assumes "is_implemented inst" "dispatch c k inst ctx r = (ctx', r')"
  shows "handled inst ctx r ctx' r'"
proof -
  from assms(1) have known: "mnemonic inst \<in> set [''C.BSTART.STD'', ''C.BSTART.VPAR'', ''C.BSTART.VSEQ'',
      ''C.BSTART'', ''C.BSTOP'', ''C.MOVI'', ''C.MOVR'', ''LUI'', ''HL.LUI'', ''HL.LIU'', ''HL.LIS'',
      ''ADDI'', ''LWI'', ''SWI'', ''SETC.NE'', ''SETC.LTU'', ''SSRSET'', ''MCOPY'', ''MSET''] \<or>
      is_tile_header inst \<or> mnemonic inst = ''B.TEXT''" by (simp only: is_implemented_def)
  from assms(2) show ?thesis
    unfolding dispatch_def Let_def
    by (elim if_elim) (erule handled_rules | erule (1) handled_c_bstop | (use known in simp))+
qed

lemma store_fields_frame:
  "store_fields T packed fds m = (st, m') \<Longrightarrow>
   pc m' = pc m \<and> next_pc m' = next_pc m \<and> mnemonic m' = mnemonic m \<and> raw_bits m' = raw_bits m \<and>
   length_bits m' = length_bits m"
  by (induction fds arbitrary: m)
    (auto simp: rebuild_typed_views_eq set_decoded_field_def split: option.splits)

lemma accept_form_frame:
  "accept_form T best packed out = (st, m') \<Longrightarrow>
   pc m' = pc out \<and> next_pc m' = next_pc out \<and> mnemonic m' = fm_mnemonic best \<and> raw_bits m' = raw_bits out \<and>
   length_bits m' = of_nat (fm_length_bits best)"
  by (auto simp: accept_form_def Let_def set_form_def dest!: store_fields_frame split: if_splits)

lemma decode_frame:
  assumes "decode_packed_word T w len out = (CS_Ok, m)"
  shows "pc m = pc out \<and> next_pc m = next_pc out \<and> raw_bits m = w AND bit_mask (nat len) \<and>
    length_bits m = of_int len"
proof -
  let ?packed = "w AND bit_mask (nat len)"
  have len: "legal_length len"
    using assms by (auto simp: decode_packed_word_def legal_length_def split: if_splits)
  then obtain best where best: "most_specific (matching_forms T len ?packed) = [best]"
    and acc: "accept_form T best ?packed (fresh_out ?packed len out) = (CS_Ok, m)"
    using assms unfolding decode_cases [OF len] by (auto simp: Let_def split: list.splits if_splits)
  have "best \<in> set (matching_forms T len ?packed)"
    using set_most_specific [of best "matching_forms T len ?packed"] best by simp
  then have "int (fm_length_bits best) = len"
    by (simp add: matching_forms_def form_matches_def fixed_match_def)
  then have "(of_nat (fm_length_bits best) :: u8) = of_int len" using of_int_of_nat_eq by metis
  with accept_form_frame [OF acc] show ?thesis
    by (simp add: fresh_out_def set_raw_encoding_def clear_decoded_state_def)
qed

lemma fetch_decode_frame:
  assumes "fetch_decode T ctx = Some inst"
  obtains hw where "read16 ctx (ls_pc (cx_state ctx)) = Some hw" "pc inst = ls_pc (cx_state ctx)"
    "next_pc inst = ls_pc (cx_state ctx) + of_nat (insn_bytes hw)"
    "unat (length_bits inst) = insn_bytes hw * 8"
proof -
  obtain hw packed m where hw: "read16 ctx (ls_pc (cx_state ctx)) = Some hw"
    and dec: "decode_packed_word T packed (int (insn_bytes hw * 8))
      (create_fetch (ls_insn_count (cx_state ctx) + 1) (ls_pc (cx_state ctx)) packed (of_nat (insn_bytes hw))) = (CS_Ok, m)"
    and inst: "inst = mark_stage St_Decode m"
    using assms by (auto simp: fetch_decode_def Let_def decode_minst_packed_def split: option.splits prod.splits if_splits)
  have "ucast (of_nat (insn_bytes hw) :: u8) = (of_nat (insn_bytes hw) :: u64)"
    by (simp add: insn_bytes_def)
  moreover have "unat (of_int (int (insn_bytes hw * 8)) :: u8) = insn_bytes hw * 8"
    by (simp add: insn_bytes_def)
  ultimately show thesis using decode_frame [OF dec]
    by (intro that [OF hw]) (simp_all add: inst mark_stage_def create_fetch_def set_raw_encoding_def Let_def)
qed

lemma record_len:
  assumes "fetch_decode T ctx = Some inst"
  shows "(ucast (length_bits inst) :: u32) \<in> {16, 32, 48, 64}"
proof -
  obtain hw where "unat (length_bits inst) = insn_bytes hw * 8" using assms by (elim fetch_decode_frame)
  then have "unat (length_bits inst) \<in> {16, 32, 48, 64}" by (simp add: insn_bytes_def)
  moreover have "(ucast (length_bits inst) :: u32) = of_nat (unat (length_bits inst))" by simp
  ultimately show ?thesis by (elim insertE emptyE) simp_all
qed

text \<open>\<open>commits ctx inst r ctx'\<close>: the step retired \<open>inst\<close> and appended its record \<open>r\<close>.\<close>

definition commits :: "exec_context \<Rightarrow> minst \<Rightarrow> minst_record \<Rightarrow> exec_context \<Rightarrow> bool" where
  "commits ctx inst r ctx' \<longleftrightarrow>
     is_implemented inst \<and> cx_committed ctx' = cx_committed ctx @ [r] \<and> cx_last_committed ctx' = Some r \<and>
     rc_pc r = pc inst \<and> rc_next_pc r = next_pc inst \<and> rc_insn r = raw_bits inst \<and>
     rc_cycle r = cx_cycle ctx \<and> rc_mnemonic r = copy_text (mnemonic inst) \<and>
     rc_lifecycle r = copy_text ''retired'' \<and> rc_len r = ucast (length_bits inst) \<and>
     ls_insn_count (cx_state ctx') = ls_insn_count (cx_state ctx) + 1 \<and>
     (ls_pc (cx_state ctx') = next_pc inst \<or>
      mnemonic inst = ''C.BSTOP'' \<and> ls_pc (cx_state ctx') = ls_tgt (cx_state ctx)) \<and>
     (state_wf (cx_state ctx) \<longrightarrow> state_wf (cx_state ctx'))"

lemma copy_text_last: "copy_text s ! 31 = nul"
  by (auto simp: copy_text_def text_capacity_def nth_append min_def)

lemma execute_commits:
  assumes "is_implemented inst"
  shows "\<exists>r. commits ctx inst r (execute inst ctx) \<and> cx_cycle (execute inst ctx) = cx_cycle ctx"
proof -
  let ?k = "resolve_block_kind inst (cx_state (upd (\<lambda>s. s\<lparr>ls_insn_pc_next := next_pc inst,
    ls_insn_count := ls_insn_count s + 1\<rparr>) ctx))"
  let ?ctx = "upd (\<lambda>s. s\<lparr>ls_block_kind := ?k, ls_lane_id := resolve_lane_id ?k\<rparr>) (upd (\<lambda>s. s\<lparr>ls_insn_pc_next :=
    next_pc inst, ls_insn_count := ls_insn_count s + 1\<rparr>) ctx)"
  let ?r = "make_minst_record inst (cx_cycle ctx) ?k (resolve_lane_id ?k) None None"
  obtain ctx' r' where d: "dispatch (ls_pc (cx_state ctx)) ?k inst ?ctx ?r = (ctx', r')" by fastforce
  from dispatch_handled [OF assms this] have h: "handled inst ?ctx ?r ctx' r'" .
  have l: "strncpy_text (rc_lifecycle r') ''retired'' = copy_text ''retired''"
    using h by (intro strncpy_copy_text) (simp_all add: handled_def make_minst_record_def length_copy_text copy_text_last)
  have wf: "state_wf (cx_state ?ctx) = state_wf (cx_state ctx)" by (simp add: upd_def state_wf_def)
  obtain r where r: "execute inst ctx = append_record r ctx'" "rc_pc r = rc_pc r'" "rc_next_pc r = rc_next_pc r'"
      "rc_insn r = rc_insn r'" "rc_cycle r = rc_cycle r'" "rc_mnemonic r = rc_mnemonic r'"
      "rc_lifecycle r = copy_text ''retired''" "rc_len r = rc_len r'"
    using assms d l by (simp add: execute_def Let_def upd_def split: if_splits)
  show ?thesis
    using h r assms unfolding handled_def wf
    by (intro exI [of _ r]) (auto simp: commits_def append_record_def upd_def make_minst_record_def)
qed

text \<open>\<open>stops ctx ctx'\<close>: the step ended the run and changed nothing but the termination flags and, for an
  unsupported instruction, the cycle counter.\<close>

definition stops :: "exec_context \<Rightarrow> exec_context \<Rightarrow> bool" where
  "stops ctx ctx' \<longleftrightarrow> cx_terminated ctx' \<and> cx_state ctx' = cx_state ctx \<and>
     cx_memory ctx' = cx_memory ctx \<and> cx_committed ctx' = cx_committed ctx \<and>
     cx_last_committed ctx' = cx_last_committed ctx \<and> cx_program ctx' = cx_program ctx"

lemma advance_commits: "commits ctx inst r ctx' \<Longrightarrow> commits ctx inst r (advance_cycle ctx')"
  by (simp add: commits_def advance_cycle_def)

lemma exec_step_cases:
  assumes "exec_step T stop_pc ctx = (go, ctx')"
  shows "(\<not> go \<and> stops ctx ctx') \<or>
    (\<exists>inst r. fetch_decode T ctx = Some inst \<and> commits ctx inst r ctx' \<and>
       pc inst = ls_pc (cx_state ctx) \<and> stop_pc \<noteq> Some (pc inst) \<and>
       cx_cycle ctx' = cx_cycle ctx + 1 \<and> go = (\<not> cx_terminated ctx'))"
proof (cases "cx_terminated ctx \<or> stop_pc = Some (ls_pc (cx_state ctx)) \<or> fetch_decode T ctx = None")
  case True
  then have "\<not> go \<and> stops ctx ctx'"
    using assms by (auto simp: exec_step_def stops_def request_terminate_def split: if_splits)
  then show ?thesis ..
next
  case False
  then obtain inst where inst: "fetch_decode T ctx = Some inst" by auto
  with False assms have ctx': "ctx' = advance_cycle (execute inst ctx)" and go: "go = (\<not> cx_terminated ctx')"
    by (auto simp: exec_step_def Let_def)
  show ?thesis
  proof (cases "is_implemented inst")
    case False
    then have "\<not> go \<and> stops ctx ctx'"
      by (simp add: go ctx' execute_def stops_def request_terminate_def advance_cycle_def)
    then show ?thesis ..
  next
    case True
    from execute_commits [OF this, of ctx] obtain r where r: "commits ctx inst r (execute inst ctx)"
      "cx_cycle (execute inst ctx) = cx_cycle ctx" by blast
    have "pc inst = ls_pc (cx_state ctx)" using inst by (elim fetch_decode_frame)
    moreover have "cx_cycle ctx' = cx_cycle ctx + 1" using r(2) by (simp add: ctx' advance_cycle_def)
    ultimately show ?thesis using inst advance_commits [OF r(1)] go False \<open>\<not> (_ \<or> _)\<close>
      unfolding ctx' [symmetric] by blast
  qed
qed

text \<open>C8: one step of the executor either ends the run, leaving registers, memory and the committed
  trace exactly as they were (already terminated, the stop address, a failed fetch or decode, an
  unsupported instruction), or retires the fetched instruction: it appends exactly one record,
  with the packet's address, following address, bits and mnemonic and the current cycle, counts one
  instruction and one cycle, and moves the program counter to the following address or, for
  \<open>C.BSTOP\<close> only, to the block's target.\<close>
theorem step_commits_or_stops:
  assumes "exec_step T stop_pc ctx = (go, ctx')"
  shows "(\<not> go \<and> stops ctx ctx') \<or>
    (\<exists>inst r. fetch_decode T ctx = Some inst \<and> commits ctx inst r ctx' \<and>
       pc inst = ls_pc (cx_state ctx) \<and> stop_pc \<noteq> Some (pc inst) \<and>
       cx_cycle ctx' = cx_cycle ctx + 1 \<and> go = (\<not> cx_terminated ctx'))"
  using assms by (rule exec_step_cases)

text \<open>A program of three instructions: \<open>C.MOVI 4\<close> into register 2 and a block that jumps to itself.\<close>

definition demo_program :: program_image where
  "demo_program = \<lparr>pi_source_path = ''demo'', pi_entry_point = 0x1000, pi_sections =
     [\<lparr>ps_name = ''text'', ps_address = 0x1000, ps_bytes = [0x16, 0x11, 0x02, 0, 0, 0], ps_executable = True\<rparr>]\<rparr>"

theorem step_commits_or_stops_witness:
  "\<exists>inst r ctx'. commits (load_program demo_program exec_context_default) inst r ctx' \<and> rc_pc r = 0x1000 \<and>
     ls_gpr (cx_state ctx') ! 2 = 4"
proof -
  let ?ctx = "load_program demo_program exec_context_default"
  have "(case exec_step excerpt_tables None ?ctx of (go, ctx') \<Rightarrow> go \<and> ls_gpr (cx_state ctx') ! 2 = 4)"
    by code_simp
  then obtain ctx' where s: "exec_step excerpt_tables None ?ctx = (True, ctx')" "ls_gpr (cx_state ctx') ! 2 = 4"
    by auto
  have "ls_pc (cx_state ?ctx) = 0x1000" by (simp add: load_program_def demo_program_def)
  with step_commits_or_stops [OF s(1)] s(2) show ?thesis
    unfolding commits_def by metis
qed

section \<open>The committed trace\<close>

text \<open>The invariant of a run that started at cycle \<open>c0\<close> and address \<open>e\<close>.\<close>

definition chained :: "minst_record \<Rightarrow> u64 \<Rightarrow> bool" where
  "chained r a \<longleftrightarrow> a = rc_next_pc r \<or> rc_mnemonic r = copy_text ''C.BSTOP''"

definition trace_wf :: "u64 \<Rightarrow> minst_record list \<Rightarrow> bool" where
  "trace_wf c0 rs \<longleftrightarrow>
     (\<forall>i < length rs. rc_cycle (rs ! i) = c0 + of_nat i \<and> rc_lifecycle (rs ! i) = copy_text ''retired'' \<and>
        rc_len (rs ! i) \<in> {16, 32, 48, 64}) \<and>
     (\<forall>i. Suc i < length rs \<longrightarrow> chained (rs ! i) (rc_pc (rs ! Suc i)))"

definition exec_inv :: "u64 \<Rightarrow> u64 \<Rightarrow> exec_context \<Rightarrow> bool" where
  "exec_inv c0 e ctx \<longleftrightarrow> state_wf (cx_state ctx) \<and> hd (map rc_pc (cx_committed ctx) @ [ls_pc (cx_state ctx)]) = e \<and>
     trace_wf c0 (cx_committed ctx) \<and>
     ls_insn_count (cx_state ctx) = of_nat (length (cx_committed ctx)) \<and>
     cx_last_committed ctx = (if cx_committed ctx = [] then None else Some (last (cx_committed ctx))) \<and>
     (cx_committed ctx \<noteq> [] \<longrightarrow> chained (last (cx_committed ctx)) (ls_pc (cx_state ctx))) \<and>
     (\<not> cx_terminated ctx \<longrightarrow> cx_cycle ctx = c0 + of_nat (length (cx_committed ctx)))"

lemma trace_wf_snoc:
  assumes "trace_wf c0 rs" "rs \<noteq> [] \<longrightarrow> chained (last rs) (rc_pc r)"
    "rc_cycle r = c0 + of_nat (length rs)" "rc_lifecycle r = copy_text ''retired''"
    "rc_len r \<in> {16, 32, 48, 64}"
  shows "trace_wf c0 (rs @ [r])"
proof -
  have "chained ((rs @ [r]) ! i) (rc_pc ((rs @ [r]) ! Suc i))" if i: "Suc i < length (rs @ [r])" for i
  proof (cases "Suc i < length rs")
    case True
    with assms(1) show ?thesis by (auto simp: trace_wf_def nth_append)
  next
    case False
    with i have n: "length rs = Suc i" by simp
    then have "chained (rs ! i) (rc_pc r)"
      using assms(2) by (cases rs rule: rev_cases) (auto simp: nth_append)
    with n show ?thesis by (simp add: nth_append)
  qed
  with assms show ?thesis by (auto simp: trace_wf_def nth_append less_Suc_eq)
qed

lemma exec_inv_load:
  "exec_inv (cx_cycle ctx) (pi_entry_point img) (load_program img ctx)"
  by (simp add: exec_inv_def load_program_def trace_wf_def state_wf_def linx_state_reset_def
      linx_state_default_def array_sizes)

lemma exec_inv_terminate: "exec_inv c0 e ctx \<Longrightarrow> exec_inv c0 e (request_terminate code reason ctx)"
  by (simp add: exec_inv_def request_terminate_def)

lemma exec_inv_step:
  assumes inv: "exec_inv c0 e ctx" and step: "exec_step T stop_pc ctx = (go, ctx')"
  shows "exec_inv c0 e ctx'"
proof (cases "stops ctx ctx'")
  case True
  with inv show ?thesis by (simp add: exec_inv_def stops_def)
next
  case False
  with exec_step_cases [OF step] obtain inst r where
    c: "commits ctx inst r ctx'" "pc inst = ls_pc (cx_state ctx)" "cx_cycle ctx' = cx_cycle ctx + 1"
    and inst: "fetch_decode T ctx = Some inst" by blast
  have len: "rc_len r \<in> {16, 32, 48, 64}"
    using record_len [OF inst] c(1) by (simp only: commits_def)
  have live: "\<not> cx_terminated ctx" using step False by (auto simp: exec_step_def stops_def)
  have "trace_wf c0 (cx_committed ctx @ [r])"
    using inv live c len by (intro trace_wf_snoc) (auto simp: exec_inv_def commits_def)
  then show ?thesis
    using inv live c by (auto simp: exec_inv_def commits_def chained_def hd_append)
qed

lemma run_loop_inv:
  "exec_inv c0 e ctx \<Longrightarrow> run_loop fuel T stop_pc max_cycles ctx = Some ctx' \<Longrightarrow>
   exec_inv c0 e ctx' \<and> cx_terminated ctx' \<and> (\<exists>new. cx_committed ctx' = cx_committed ctx @ new)"
proof (induction fuel arbitrary: ctx)
  case 0
  then show ?case by simp
next
  case (Suc fuel)
  obtain go ctx1 where step: "exec_step T stop_pc ctx = (go, ctx1)" by fastforce
  have inv: "exec_inv c0 e ctx1" using exec_inv_step [OF Suc.prems(1) step] .
  have new: "\<exists>new. cx_committed ctx1 = cx_committed ctx @ new"
    using exec_step_cases [OF step] by (auto simp: stops_def commits_def)
  have stop: "cx_terminated ctx1" if "\<not> go"
    using exec_step_cases [OF step] that by (auto simp: stops_def)
  have stopped: "cx_committed (request_terminate code reason ctx) = cx_committed ctx @ []"
    "cx_terminated (request_terminate code reason ctx)" for code reason
    by (simp_all add: request_terminate_def)
  show ?case
    using Suc.prems step inv new stop Suc.IH [OF inv] exec_inv_terminate [OF Suc.prems(1)] stopped
    by (fastforce split: if_splits)
qed

text \<open>C3: the trace of any run of a loaded program, whatever the fuel, the stop address and the cycle
  bound: when the run returns it has terminated; the records are in cycle order without a gap; the
  first is at the entry point, and each next one at the following address of the record before
  unless that is a \<open>C.BSTOP\<close>; all are retired; the instruction count is their number, the last
  committed record is the last of the trace, and the register file keeps its shape with register 0
  zero.\<close>
theorem run_trace_invariant:
  assumes "run_loop fuel T stop_pc max_cycles (load_program img ctx) = Some ctx'"
  shows "cx_terminated ctx' \<and> state_wf (cx_state ctx') \<and>
    ls_insn_count (cx_state ctx') = of_nat (length (cx_committed ctx')) \<and>
    cx_last_committed ctx' = (if cx_committed ctx' = [] then None else Some (last (cx_committed ctx'))) \<and>
    (cx_committed ctx' \<noteq> [] \<longrightarrow> rc_pc (hd (cx_committed ctx')) = pi_entry_point img) \<and>
    (\<forall>i < length (cx_committed ctx'). rc_cycle (cx_committed ctx' ! i) = cx_cycle ctx + of_nat i \<and>
       rc_lifecycle (cx_committed ctx' ! i) = copy_text ''retired'') \<and>
    (\<forall>i. Suc i < length (cx_committed ctx') \<longrightarrow>
       rc_pc (cx_committed ctx' ! Suc i) = rc_next_pc (cx_committed ctx' ! i) \<or>
       rc_mnemonic (cx_committed ctx' ! i) = copy_text ''C.BSTOP'')"
  using run_loop_inv [OF exec_inv_load assms]
  by (cases "cx_committed ctx'") (auto simp: exec_inv_def trace_wf_def chained_def)

theorem run_trace_invariant_witness:
  "\<exists>ctx' :: exec_context. map rc_pc (cx_committed ctx') = [0x1000, 0x1002, 0x1004, 0x1002] \<and>
     ls_insn_count (cx_state ctx') = 4 \<and> cx_terminated ctx'"
proof -
  have "map_option (\<lambda>ctx. map rc_pc (cx_committed ctx)) (run_loop 5 excerpt_tables None (Some 4)
      (load_program demo_program exec_context_default)) = Some [0x1000, 0x1002, 0x1004, 0x1002]"
    by code_simp
  then obtain ctx' where run: "run_loop 5 excerpt_tables None (Some 4)
      (load_program demo_program exec_context_default) = Some ctx'"
    and pcs: "map rc_pc (cx_committed ctx') = [0x1000, 0x1002, 0x1004, 0x1002]" by auto
  have "length (cx_committed ctx') = 4" using arg_cong [OF pcs, of length] by simp
  with run_trace_invariant [OF run] pcs show ?thesis by (intro exI [of _ ctx']) simp
qed

section \<open>A cycle bound ends the run\<close>

lemma run_loop_bounded:
  "unat m - unat (cx_cycle ctx) < fuel \<Longrightarrow>
   \<exists>ctx'. (\<forall>fuel' \<ge> fuel. run_loop fuel' T stop_pc (Some m) ctx = Some ctx') \<and>
     length (cx_committed ctx') \<le> length (cx_committed ctx) + (unat m - unat (cx_cycle ctx))"
proof (induction fuel arbitrary: ctx)
  case 0
  then show ?case by simp
next
  case (Suc fuel)
  have unfold: "run_loop fuel' T stop_pc (Some m) ctx = x" if "Suc fuel \<le> fuel'"
    "run_loop (Suc (fuel' - 1)) T stop_pc (Some m) ctx = x" for fuel' x
    using that by (cases fuel') auto
  obtain go ctx1 where step: "exec_step T stop_pc ctx = (go, ctx1)" by fastforce
  show ?case
  proof (cases "cx_terminated ctx \<or> m \<le> cx_cycle ctx \<or> \<not> go")
    case True
    define ctx' where "ctx' = (if cx_terminated ctx then ctx
      else if m \<le> cx_cycle ctx then request_terminate (cx_exit_code ctx) ''max_cycles'' ctx else ctx1)"
    have "run_loop (Suc f) T stop_pc (Some m) ctx = Some ctx'" for f
      using True step by (auto simp: ctx'_def)
    moreover have "length (cx_committed ctx1) \<le> Suc (length (cx_committed ctx))"
      using exec_step_cases [OF step] by (auto simp: stops_def commits_def)
    then have "length (cx_committed ctx') \<le> length (cx_committed ctx) + (unat m - unat (cx_cycle ctx))"
      by (auto simp: ctx'_def request_terminate_def word_le_nat_alt)
    ultimately show ?thesis using unfold by blast
  next
    case False
    then have less: "unat (cx_cycle ctx) < unat m" by (simp add: word_le_nat_alt)
    have c: "cx_cycle ctx1 = cx_cycle ctx + 1" "length (cx_committed ctx1) \<le> Suc (length (cx_committed ctx))"
      using exec_step_cases [OF step] False by (auto simp: commits_def)
    have "cx_cycle ctx + 1 \<noteq> 0"
    proof
      assume "cx_cycle ctx + 1 = 0"
      then have "cx_cycle ctx = - 1" by (simp add: eq_neg_iff_add_eq_0)
      then have "m \<le> cx_cycle ctx" by simp
      with False show False by simp
    qed
    then have n: "unat (cx_cycle ctx1) = Suc (unat (cx_cycle ctx))"
      using c(1) unatSuc [of "cx_cycle ctx"] \<open>cx_cycle ctx + 1 \<noteq> 0\<close> by (simp add: add.commute)
    obtain ctx' where ih: "\<forall>fuel' \<ge> fuel. run_loop fuel' T stop_pc (Some m) ctx1 = Some ctx'"
      "length (cx_committed ctx') \<le> length (cx_committed ctx1) + (unat m - unat (cx_cycle ctx1))"
    proof -
      have "unat m - unat (cx_cycle ctx1) < fuel" using Suc.prems n less by linarith
      from Suc.IH [OF this] show ?thesis using that by blast
    qed
    have "run_loop fuel' T stop_pc (Some m) ctx = Some ctx'" if "Suc fuel \<le> fuel'" for fuel'
    proof (rule unfold [OF that])
      have "run_loop (Suc (fuel' - 1)) T stop_pc (Some m) ctx = run_loop (fuel' - 1) T stop_pc (Some m) ctx1"
        using False step by simp
      also have "\<dots> = Some ctx'" using ih(1) that by simp
      finally show "run_loop (Suc (fuel' - 1)) T stop_pc (Some m) ctx = Some ctx'" .
    qed
    moreover have "length (cx_committed ctx') \<le> length (cx_committed ctx) + (unat m - unat (cx_cycle ctx))"
      using ih(2) c(2) n less by linarith
    ultimately show ?thesis by blast
  qed
qed

lemma step_stops_terminated: "exec_step T stop ctx = (False, ctx') \<Longrightarrow> cx_terminated ctx'"
  by (auto simp: exec_step_def request_terminate_def Let_def split: if_split_asm option.split_asm)

lemma step_goes_live: "exec_step T stop ctx = (True, ctx') \<Longrightarrow> \<not> cx_terminated ctx'"
  by (auto simp: exec_step_def Let_def split: if_split_asm option.split_asm)

lemma run_loop_terminated: "run_loop fuel T stop_pc m ctx = Some ctx' \<Longrightarrow> cx_terminated ctx'"
  by (induction fuel arbitrary: ctx)
    (auto simp: request_terminate_def split: if_split_asm prod.split_asm dest: step_stops_terminated)

text \<open>C14: with a cycle bound a run always returns: fuel above the number of cycles left is enough and more
  fuel changes nothing; it has then terminated and retired at most one instruction per cycle left.\<close>
theorem bounded_run_returns:
  "\<exists>ctx'. (\<forall>k. run_loop (Suc (unat m - unat (cx_cycle ctx)) + k) T stop_pc (Some m) ctx = Some ctx') \<and>
     cx_terminated ctx' \<and>
     length (cx_committed ctx') \<le> length (cx_committed ctx) + (unat m - unat (cx_cycle ctx))"
proof -
  let ?n = "unat m - unat (cx_cycle ctx)"
  from run_loop_bounded [of m ctx "Suc ?n" T stop_pc] obtain ctx' where
    run: "\<forall>fuel' \<ge> Suc ?n. run_loop fuel' T stop_pc (Some m) ctx = Some ctx'"
    and len: "length (cx_committed ctx') \<le> length (cx_committed ctx) + ?n" by blast
  from run have "run_loop (Suc ?n + k) T stop_pc (Some m) ctx = Some ctx'" for k
    by (metis le_add1)
  moreover from this [of 0] have "cx_terminated ctx'" by (rule run_loop_terminated)
  ultimately show ?thesis using len by blast
qed

section \<open>Block memory instructions\<close>

lemma read8_write8: "read8 (write8 a v ctx) b = (if b = a then Some v else read8 ctx b)"
  by (simp add: read8_def write8_def)

lemma offset_eq:
  assumes "k < 2 ^ 64"
  shows "a = (d :: u64) + of_nat k \<longleftrightarrow> unat (a - d) = k"
proof -
  have k: "unat (of_nat k :: u64) = k" using assms by (simp add: unat_of_nat)
  have "a = d + of_nat k \<longleftrightarrow> a - d = of_nat k" by (auto simp: algebra_simps)
  also have "\<dots> \<longleftrightarrow> unat (a - d) = k" unfolding word_unat_eq_iff k ..
  finally show ?thesis .
qed

text \<open>The byte a forward copy leaves at offset \<open>i\<close> of the destination: with the destination \<open>p\<close> bytes above
  the source the first \<open>p\<close> source bytes repeat.\<close>

definition copied :: "exec_context \<Rightarrow> u64 \<Rightarrow> u64 \<Rightarrow> nat \<Rightarrow> u8" where
  "copied ctx d s i = value_or_0 (read8 ctx (s + of_nat (if d = s then i else i mod unat (d - s))))"

lemma mcopy_loop_memory:
  assumes "k + n \<le> 2 ^ 64"
    and "\<And>a. read8 ctx a = (if unat (a - d) < k then Some (copied ctx0 d s (unat (a - d))) else read8 ctx0 a)"
  shows "read8 (mcopy_loop d s k n ctx) a =
    (if unat (a - d) < k + n then Some (copied ctx0 d s (unat (a - d))) else read8 ctx0 a)"
  using assms
proof (induction n arbitrary: k ctx a)
  case 0
  then show ?case by simp
next
  case (Suc n)
  have k: "k < 2 ^ 64" using Suc.prems(1) by simp
  have src: "unat (s + of_nat k - d) = (if unat (d - s) \<le> k then k - unat (d - s) else k + 2 ^ 64 - unat (d - s))"
  proof -
    have eq: "s + of_nat k - d = of_nat k - (d - s)" by simp
    have "unat (of_nat k :: u64) = k" using k by (simp add: unat_of_nat)
    with unat_sub_if' [of "of_nat k :: u64" "d - s"] show ?thesis unfolding eq by simp
  qed
  have "value_or_0 (read8 ctx (s + of_nat k)) = copied ctx0 d s k"
  proof (cases "d = s")
    case True
    with k show ?thesis by (simp add: Suc.prems(2) copied_def unat_of_nat)
  next
    case False
    then have p: "0 < unat (d - s)" by (simp add: unat_gt_0)
    show ?thesis
    proof (cases "unat (d - s) \<le> k")
      case True
      then have "k mod unat (d - s) = (k - unat (d - s)) mod unat (d - s)" by (rule le_mod_geq)
      with True p False show ?thesis by (simp add: Suc.prems(2) src copied_def value_or_0_def)
    next
      case f: False
      have "unat (d - s) < 2 ^ LENGTH(64)" by (rule unsigned_less)
      then have "\<not> unat (s + of_nat k - d) < k" using f by (simp add: src)
      with f False show ?thesis by (simp add: Suc.prems(2) copied_def)
    qed
  qed
  then have step: "read8 (write8 (d + of_nat k) (value_or_0 (read8 ctx (s + of_nat k))) ctx) a =
      (if unat (a - d) < Suc k then Some (copied ctx0 d s (unat (a - d))) else read8 ctx0 a)" for a
    using offset_eq [OF k, of a d] by (auto simp: read8_write8 Suc.prems(2) less_Suc_eq)
  from Suc.IH [OF _ step, of a] Suc.prems(1) show ?case by simp
qed

lemma mset_loop_memory:
  assumes "k + n \<le> 2 ^ 64"
    and "\<And>a. read8 ctx a = (if unat (a - d) < k then Some v else read8 ctx0 a)"
  shows "read8 (mset_loop d v k n ctx) a = (if unat (a - d) < k + n then Some v else read8 ctx0 a)"
  using assms
proof (induction n arbitrary: k ctx a)
  case 0
  then show ?case by simp
next
  case (Suc n)
  have k: "k < 2 ^ 64" using Suc.prems(1) by simp
  have step: "read8 (write8 (d + of_nat k) v ctx) a = (if unat (a - d) < Suc k then Some v else read8 ctx0 a)" for a
    using offset_eq [OF k, of a d] by (auto simp: read8_write8 Suc.prems(2) less_Suc_eq)
  from Suc.IH [OF _ step, of a] Suc.prems(1) show ?case by simp
qed

text \<open>C35: \<open>MCOPY\<close> and \<open>MSET\<close> write exactly the bytes of the destination range and nothing else.  \<open>MSET\<close>
  stores the low byte of its second operand; \<open>MCOPY\<close> stores the source bytes as they were before,
  unmapped ones as zero, as long as the destination is not inside the source range; where it starts
  \<open>p\<close> bytes inside, the forward loop repeats the first \<open>p\<close> bytes.\<close>
theorem block_memory_effect:
  "let s = cx_state ctx; d = read_gpr s (src_value inst 0); x = read_gpr s (src_value inst 1);
       n = unat (read_gpr s (src_value inst 2))
   in read8 (fst (exec_mset inst ctx r)) a = (if unat (a - d) < n then Some (ucast x) else read8 ctx a) \<and>
      read8 (fst (exec_mcopy inst ctx r)) a =
        (if unat (a - d) < n
         then Some (value_or_0 (read8 ctx (x + (if d = x \<or> n \<le> unat (d - x) then a - d
                                            else of_nat (unat (a - d) mod unat (d - x))))))
         else read8 ctx a)"
proof -
  have n: "0 + unat w \<le> 2 ^ 64" for w :: u64
  proof -
    have "unat w < 2 ^ LENGTH(64)" by (rule unsigned_less)
    then show ?thesis by simp
  qed
  have pc: "read8 (set_pc v ctx) a = read8 ctx a" for v ctx by (simp add: read8_def set_pc_def upd_def)
  have mset: "read8 (mset_loop d v 0 (unat w) ctx) a = (if unat (a - d) < unat w then Some v else read8 ctx a)"
    for d v and w :: u64 using mset_loop_memory [OF n [of w], of ctx d v ctx a] by simp
  have mcopy: "read8 (mcopy_loop d s 0 (unat w) ctx) a =
      (if unat (a - d) < unat w then Some (copied ctx d s (unat (a - d))) else read8 ctx a)"
    for d s and w :: u64 using mcopy_loop_memory [OF n [of w], of ctx d ctx s a] by simp
  show ?thesis by (simp add: Let_def exec_mset_def exec_mcopy_def pc mset mcopy copied_def)
qed

section \<open>The block kind of a record\<close>

text \<open>The record of a \<^verbatim>\<open>C.BSTART.STD\<close> carries the kind and lane of the block before, although the instruction itself
  makes the state scalar; the headers of vector and tile blocks write their own kind.\<close>
lemma std_header_keeps_old_kind:
  assumes "mnemonic inst = ''C.BSTART.STD''"
  shows "ls_block_kind (cx_state (execute inst ctx)) = ''scalar''"
    "rc_block_kind (last (cx_committed (execute inst ctx))) = copy_text (ls_block_kind (cx_state ctx))"
  using assms
  by (simp_all add: execute_def is_implemented_def dispatch_def exec_bstart_std_def append_record_def upd_def
      set_pc_def cube_mnemonics_def tlsu_mnemonics_def resolve_block_kind_def make_minst_record_def Let_def)

text \<open>\<^verbatim>\<open>SSRSET\<close> ends the kind of the block it stands in: the state keeps \<^verbatim>\<open>sys\<close> and no lane for the instructions after it.\<close>
lemma ssrset_overwrites_block_kind:
  assumes "mnemonic inst = ''SSRSET''"
  shows "ls_block_kind (cx_state (execute inst ctx)) = ''sys''" "ls_lane_id (cx_state (execute inst ctx)) = -1"
  using assms
  by (simp_all add: execute_def is_implemented_def dispatch_def exec_ssrset_def append_record_def upd_def
      set_pc_def cube_mnemonics_def tlsu_mnemonics_def resolve_block_kind_def resolve_lane_id_def make_minst_record_def Let_def)

end
