(* ===== verification/Elf_Loader.thy ===== *)
theory Elf_Loader
  imports Program_Image Little_Endian Text_Format
begin

text \<open>
  The program loader (\<^verbatim>\<open>src/elf_loader.cpp\<close>): ELF images of class 32 and 64, executable, shared or
  relocatable, and raw binaries.  \<^verbatim>\<open>std::size_t\<close> has 64 bits, so offsets are \<open>u64\<close> and their sums
  wrap as in the code; \<open>Undefined_Behaviour\<close> is an access outside the bytes, which the code does not
  check for.  A file holds fewer than \<open>2 ^ 63\<close> bytes.  Failed allocations are not modelled.  The loader
  takes the function \<open>read_file\<close> that reads a file; \<open>read_binary_file\<close> is the code's.
\<close>

section \<open>Bytes\<close>

definition kElfMagic :: "u8 list" where "kElfMagic = [0x7F, 0x45, 0x4C, 0x46]"

definition byte_count :: "u8 list \<Rightarrow> u64" where "byte_count bytes = of_nat (length bytes)"

definition byte_at :: "u8 list \<Rightarrow> u64 \<Rightarrow> u8 outcome" where
  "byte_at bytes i = (if i < byte_count bytes then Inr (bytes ! unat i) else Inl Undefined_Behaviour)"

definition parse_error :: "string \<Rightarrow> 'a outcome" where
  "parse_error msg = Inl (Runtime_Error (''ELF parse: '' @ msg))"

definition require_that :: "bool \<Rightarrow> string \<Rightarrow> unit outcome" where
  "require_that b msg = (if b then Inr () else parse_error msg)"

text \<open>\<open>or_bytes\<close> ors the bytes from an offset on into a value, byte \<open>idx\<close> at bit \<open>8 * idx\<close>.\<close>

definition or_bytes :: "u8 list \<Rightarrow> u64 \<Rightarrow> nat \<Rightarrow> 'a::len word outcome" where
  "or_bytes bytes offset n =
     ofold (\<lambda>idx v. obind (byte_at bytes (offset + of_nat idx)) (\<lambda>b. Inr (v OR push_bit (idx * 8) (ucast b))))
       [0..<n] 0"

definition read_le16 :: "u8 list \<Rightarrow> u64 \<Rightarrow> u16 outcome" where
  "read_le16 bytes offset =
     (if offset + 2 > byte_count bytes then parse_error ''truncated u16'' else or_bytes bytes offset 2)"

definition read_le32 :: "u8 list \<Rightarrow> u64 \<Rightarrow> u32 outcome" where
  "read_le32 bytes offset =
     (if offset + 4 > byte_count bytes then parse_error ''truncated u32'' else or_bytes bytes offset 4)"

definition read_le64 :: "u8 list \<Rightarrow> u64 \<Rightarrow> u64 outcome" where
  "read_le64 bytes offset =
     (if offset + 8 > byte_count bytes then parse_error ''truncated u64'' else or_bytes bytes offset 8)"

text \<open>A 32-bit read that is stored in a 64-bit variable.\<close>

definition read_le32_wide :: "u8 list \<Rightarrow> u64 \<Rightarrow> u64 outcome" where
  "read_le32_wide bytes offset = obind (read_le32 bytes offset) (\<lambda>v. Inr (ucast v))"

text \<open>The copy of a range of iterators; both must lie in the bytes, in order.\<close>

definition copy_range :: "u8 list \<Rightarrow> u64 \<Rightarrow> u64 \<Rightarrow> u8 list outcome" where
  "copy_range bytes first last_end =
     (if first \<le> last_end \<and> last_end \<le> byte_count bytes
      then Inr (take (unat last_end - unat first) (drop (unat first) bytes))
      else Inl Undefined_Behaviour)"

text \<open>\<^verbatim>\<open>NarrowCast<std::size_t>\<close>: the type is as wide as its argument.\<close>

definition narrow_cast :: "u64 \<Rightarrow> string \<Rightarrow> u64 outcome" where
  "narrow_cast v context = (if v > - 1 then parse_error (''overflow for '' @ context) else Inr v)"

definition segment_name :: "nat \<Rightarrow> bool \<Rightarrow> string" where
  "segment_name index executable =
     (if executable then ''.text['' @ dec_text index @ '']'' else ''.load['' @ dec_text index @ '']'')"

definition section_name :: "nat \<Rightarrow> bool \<Rightarrow> string" where
  "section_name index executable =
     (if executable then ''.text.rel['' @ dec_text index @ '']'' else ''.alloc.rel['' @ dec_text index @ '']'')"

definition is_elf_image :: "u8 list \<Rightarrow> bool" where
  "is_elf_image bytes \<longleftrightarrow> length bytes \<ge> length kElfMagic \<and> take (length kElfMagic) bytes = kElfMagic"

section \<open>Headers\<close>

record elf_header =
  eh_entry :: u64
  eh_phoff :: u64
  eh_shoff :: u64
  eh_phentsize :: u16
  eh_phnum :: u16
  eh_shentsize :: u16
  eh_shnum :: u16

definition read_elf_header :: "bool \<Rightarrow> u8 list \<Rightarrow> elf_header outcome" where
  "read_elf_header is_64 bytes =
     (if is_64 then
        obind (require_that (length bytes \<ge> 64) ''truncated ELF64 header'') (\<lambda>_.
        obind (read_le64 bytes 24) (\<lambda>entry. obind (read_le64 bytes 32) (\<lambda>phoff.
        obind (read_le64 bytes 40) (\<lambda>shoff. obind (read_le16 bytes 54) (\<lambda>phentsize.
        obind (read_le16 bytes 56) (\<lambda>phnum. obind (read_le16 bytes 58) (\<lambda>shentsize.
        obind (read_le16 bytes 60) (\<lambda>shnum.
          Inr \<lparr>eh_entry = entry, eh_phoff = phoff, eh_shoff = shoff, eh_phentsize = phentsize,
            eh_phnum = phnum, eh_shentsize = shentsize, eh_shnum = shnum\<rparr>))))))))
      else
        obind (require_that (length bytes \<ge> 52) ''truncated ELF32 header'') (\<lambda>_.
        obind (read_le32_wide bytes 24) (\<lambda>entry. obind (read_le32_wide bytes 28) (\<lambda>phoff.
        obind (read_le32_wide bytes 32) (\<lambda>shoff. obind (read_le16 bytes 42) (\<lambda>phentsize.
        obind (read_le16 bytes 44) (\<lambda>phnum. obind (read_le16 bytes 46) (\<lambda>shentsize.
        obind (read_le16 bytes 48) (\<lambda>shnum.
          Inr \<lparr>eh_entry = entry, eh_phoff = phoff, eh_shoff = shoff, eh_phentsize = phentsize,
            eh_phnum = phnum, eh_shentsize = shentsize, eh_shnum = shnum\<rparr>)))))))))"

record section_header =
  sh_type :: u32
  sh_flags :: u64
  sh_addr :: u64
  sh_offset :: u64
  sh_size :: u64

definition read_section_header :: "bool \<Rightarrow> u8 list \<Rightarrow> u64 \<Rightarrow> section_header outcome" where
  "read_section_header is_64 bytes offset =
     (if is_64 then
        obind (read_le32 bytes (offset + 4)) (\<lambda>ty. obind (read_le64 bytes (offset + 8)) (\<lambda>flags.
        obind (read_le64 bytes (offset + 16)) (\<lambda>address. obind (read_le64 bytes (offset + 24)) (\<lambda>file_offset.
        obind (read_le64 bytes (offset + 32)) (\<lambda>file_size.
          Inr \<lparr>sh_type = ty, sh_flags = flags, sh_addr = address, sh_offset = file_offset,
            sh_size = file_size\<rparr>)))))
      else
        obind (read_le32 bytes (offset + 4)) (\<lambda>ty. obind (read_le32_wide bytes (offset + 8)) (\<lambda>flags.
        obind (read_le32_wide bytes (offset + 12)) (\<lambda>address.
        obind (read_le32_wide bytes (offset + 16)) (\<lambda>file_offset.
        obind (read_le32_wide bytes (offset + 20)) (\<lambda>file_size.
          Inr \<lparr>sh_type = ty, sh_flags = flags, sh_addr = address, sh_offset = file_offset,
            sh_size = file_size\<rparr>))))))"

record program_header =
  ph_type :: u32
  ph_flags :: u32
  ph_offset :: u64
  ph_vaddr :: u64
  ph_filesz :: u64

definition read_program_header :: "bool \<Rightarrow> u8 list \<Rightarrow> u64 \<Rightarrow> program_header outcome" where
  "read_program_header is_64 bytes offset =
     (if is_64 then
        obind (read_le32 bytes (offset + 0)) (\<lambda>ty. obind (read_le32 bytes (offset + 4)) (\<lambda>flags.
        obind (read_le64 bytes (offset + 8)) (\<lambda>file_offset.
        obind (read_le64 bytes (offset + 16)) (\<lambda>virtual_address.
        obind (read_le64 bytes (offset + 32)) (\<lambda>file_size.
          Inr \<lparr>ph_type = ty, ph_flags = flags, ph_offset = file_offset, ph_vaddr = virtual_address,
            ph_filesz = file_size\<rparr>)))))
      else
        obind (read_le32 bytes (offset + 0)) (\<lambda>ty. obind (read_le32_wide bytes (offset + 4)) (\<lambda>file_offset.
        obind (read_le32_wide bytes (offset + 8)) (\<lambda>virtual_address.
        obind (read_le32_wide bytes (offset + 16)) (\<lambda>file_size.
        obind (read_le32 bytes (offset + 24)) (\<lambda>flags.
          Inr \<lparr>ph_type = ty, ph_flags = flags, ph_offset = file_offset, ph_vaddr = virtual_address,
            ph_filesz = file_size\<rparr>))))))"

section \<open>Relocatable images\<close>

text \<open>The payload of a section: zeros without file bytes for \<open>SHT_NOBITS\<close>, else a copy.\<close>

definition section_payload :: "u8 list \<Rightarrow> section_header \<Rightarrow> u8 list outcome" where
  "section_payload bytes sh =
     (if sh_type sh = 8 then
        obind (narrow_cast (sh_size sh) ''section size'') (\<lambda>n. Inr (replicate (unat n) 0))
      else
        obind (narrow_cast (sh_offset sh) ''section offset'') (\<lambda>first.
        obind (narrow_cast (sh_size sh) ''section size'') (\<lambda>n.
        obind (require_that (\<not> first + n > byte_count bytes) ''relocatable section exceeds file size'') (\<lambda>_.
          copy_range bytes first (first + n)))))"

text \<open>One round of the section loop; the state is the sections so far and the next free address.\<close>

definition section_step :: "bool \<Rightarrow> u8 list \<Rightarrow> elf_header \<Rightarrow> nat \<Rightarrow>
    program_section list \<times> u64 \<Rightarrow> (program_section list \<times> u64) outcome" where
  "section_step is_64 bytes hdr index st = (case st of (sections, next_address) \<Rightarrow>
     obind (narrow_cast (eh_shoff hdr + of_nat index * ucast (eh_shentsize hdr)) ''section header offset'') (\<lambda>offset.
     obind (require_that (\<not> offset + ucast (eh_shentsize hdr) > byte_count bytes)
        ''truncated section header table'') (\<lambda>_.
     obind (read_section_header is_64 bytes offset) (\<lambda>sh.
       if sh_flags sh AND 0x2 = 0 \<or> sh_size sh = 0 then Inr st
       else
         let address = (if sh_addr sh = 0 then next_address else sh_addr sh);
             next_address = max next_address (address + sh_size sh + 0x10);
             executable = (sh_flags sh AND 0x4 \<noteq> 0)
         in obind (section_payload bytes sh) (\<lambda>payload.
              Inr (sections @ [\<lparr>ps_name = section_name index executable, ps_address = address,
                ps_bytes = payload, ps_executable = executable\<rparr>], next_address))))))"

definition load_relocatable :: "bool \<Rightarrow> u8 list \<Rightarrow> string \<Rightarrow> elf_header \<Rightarrow> program_image outcome" where
  "load_relocatable is_64 bytes source_path hdr =
     obind (require_that (\<not> (eh_shentsize hdr = 0 \<or> eh_shnum hdr = 0))
       ''relocatable image has no section headers'') (\<lambda>_.
     obind (ofold (section_step is_64 bytes hdr) [0..<unat (eh_shnum hdr)] ([], 0)) (\<lambda>(sections, next_address).
       if sections = [] then parse_error ''relocatable image has no alloc sections''
       else Inr \<lparr>pi_source_path = source_path, pi_entry_point = ps_address (hd sections),
         pi_sections = sections\<rparr>))"

section \<open>Executable and shared images\<close>

definition segment_step :: "bool \<Rightarrow> u8 list \<Rightarrow> elf_header \<Rightarrow> nat \<Rightarrow> program_section list \<Rightarrow>
    program_section list outcome" where
  "segment_step is_64 bytes hdr index sections =
     obind (narrow_cast (eh_phoff hdr + of_nat index * ucast (eh_phentsize hdr)) ''program header offset'') (\<lambda>offset.
     obind (require_that (\<not> offset + ucast (eh_phentsize hdr) > byte_count bytes)
        ''truncated program header table'') (\<lambda>_.
     obind (read_program_header is_64 bytes offset) (\<lambda>ph.
       if ph_type ph \<noteq> 1 \<or> ph_filesz ph = 0 then Inr sections
       else
         obind (narrow_cast (ph_offset ph) ''segment offset'') (\<lambda>first.
         obind (narrow_cast (ph_filesz ph) ''segment size'') (\<lambda>n.
         obind (require_that (\<not> first + n > byte_count bytes) ''segment exceeds file size'') (\<lambda>_.
         let executable = (ph_flags ph AND 1 \<noteq> 0)
         in obind (copy_range bytes first (first + n)) (\<lambda>payload.
              Inr (sections @ [\<lparr>ps_name = segment_name index executable, ps_address = ph_vaddr ph,
                ps_bytes = payload, ps_executable = executable\<rparr>]))))))))"

definition load_segments :: "bool \<Rightarrow> u8 list \<Rightarrow> string \<Rightarrow> elf_header \<Rightarrow> program_image outcome" where
  "load_segments is_64 bytes source_path hdr =
     obind (require_that (\<not> (eh_phentsize hdr = 0 \<or> eh_phnum hdr = 0)) ''image has no program headers'') (\<lambda>_.
     obind (ofold (segment_step is_64 bytes hdr) [0..<unat (eh_phnum hdr)] []) (\<lambda>sections.
       if sections = [] then parse_error ''no PT_LOAD segments found''
       else Inr \<lparr>pi_source_path = source_path, pi_entry_point = eh_entry hdr, pi_sections = sections\<rparr>))"

section \<open>Entry points\<close>

definition load_elf_image :: "u8 list \<Rightarrow> string \<Rightarrow> program_image outcome" where
  "load_elf_image bytes source_path =
     (if \<not> is_elf_image bytes then Inl (Runtime_Error (''not an ELF image: '' @ source_path))
      else if length bytes < 16 then parse_error ''truncated e_ident''
      else if bytes ! 4 \<noteq> 1 \<and> bytes ! 4 \<noteq> 2 then parse_error ''unsupported class''
      else if bytes ! 5 \<noteq> 1 then parse_error ''only little-endian ELF is supported''
      else
        let is_64 = (bytes ! 4 = 2)
        in obind (read_le16 bytes 16) (\<lambda>type_value.
           if type_value \<noteq> 1 \<and> type_value \<noteq> 2 \<and> type_value \<noteq> 3 then parse_error ''unsupported ELF type''
           else obind (read_elf_header is_64 bytes) (\<lambda>hdr.
             if type_value = 1 then load_relocatable is_64 bytes source_path hdr
             else load_segments is_64 bytes source_path hdr)))"

definition load_raw_binary :: "u8 list \<Rightarrow> string \<Rightarrow> u64 \<Rightarrow> string \<Rightarrow> program_image" where
  "load_raw_binary bytes source_path base_address name =
     \<lparr>pi_source_path = source_path, pi_entry_point = base_address,
      pi_sections = [\<lparr>ps_name = name, ps_address = base_address, ps_bytes = bytes, ps_executable = True\<rparr>]\<rparr>"

section \<open>Files\<close>

text \<open>An opened input stream: the position of its end, negative when it has none, and the bytes that a read of the
  file delivers, which may be fewer.\<close>

record input_file =
  if_end :: int
  if_bytes :: "u8 list"

definition read_binary_file :: "(string \<Rightarrow> input_file option) \<Rightarrow> string \<Rightarrow> u8 list outcome" where
  "read_binary_file open_file path =
     (case open_file path of
        None \<Rightarrow> Inl (Runtime_Error (''failed to open file: '' @ path))
      | Some f \<Rightarrow>
          if if_end f < 0 then Inl (Runtime_Error (''failed to determine file size: '' @ path))
          else let n = nat (if_end f) in
            if n = 0 then Inr []
            else if length (if_bytes f) < n then Inl (Runtime_Error (''failed to read file: '' @ path))
            else Inr (take n (if_bytes f)))"

lemma read_binary_file_exact:
  "read_binary_file open_file path = Inr bs \<longleftrightarrow>
   (\<exists>f. open_file path = Some f \<and> if_end f = int (length bs) \<and> take (length bs) (if_bytes f) = bs)"
  by (auto simp: read_binary_file_def Let_def not_less split: option.splits if_split_asm dest: arg_cong [of _ _ length])

definition load_program_image ::
    "(string \<Rightarrow> u8 list outcome) \<Rightarrow> string \<Rightarrow> u64 \<Rightarrow> program_image outcome" where
  "load_program_image read_file path raw_base_address =
     obind (read_file path) (\<lambda>bytes.
       if is_elf_image bytes then load_elf_image bytes path
       else Inr (load_raw_binary bytes path raw_base_address ''.text''))"

definition load_elf_image_from_file :: "(string \<Rightarrow> u8 list outcome) \<Rightarrow> string \<Rightarrow> program_image outcome" where
  "load_elf_image_from_file read_file path = obind (read_file path) (\<lambda>bytes. load_elf_image bytes path)"

definition load_raw_binary_from_file ::
    "(string \<Rightarrow> u8 list outcome) \<Rightarrow> string \<Rightarrow> u64 \<Rightarrow> string \<Rightarrow> program_image outcome" where
  "load_raw_binary_from_file read_file path base_address name =
     obind (read_file path) (\<lambda>bytes. Inr (load_raw_binary bytes path base_address name))"

end
