(* ===== verification/Elf_Claims.thy ===== *)
theory Elf_Claims
  imports Elf_Loader
begin

text \<open>
  What the loader guarantees: the sections of a loaded image against the headers they come from, the
  placement of relocatable sections, which files it reads inside their bytes, and one that it does not.
\<close>

section \<open>Reading inside the bytes\<close>

definition no_ub :: "'a outcome \<Rightarrow> bool" where
  "no_ub x \<longleftrightarrow> x \<noteq> Inl Undefined_Behaviour"

named_theorems safe_intros \<open>calls that stay defined\<close>

lemma no_ub_Inr [safe_intros]: "no_ub (Inr a)" by (simp add: no_ub_def)

lemma no_ub_error [safe_intros]: "no_ub (parse_error msg)" by (simp add: no_ub_def parse_error_def)

lemma no_ub_require [safe_intros]: "no_ub (require_that b msg)"
  by (simp add: no_ub_def require_that_def parse_error_def)

lemma no_ub_narrow [safe_intros]: "no_ub (narrow_cast v c)"
  by (simp add: no_ub_def narrow_cast_def parse_error_def)

lemma no_ub_obind [safe_intros]: "no_ub x \<Longrightarrow> (\<And>a. x = Inr a \<Longrightarrow> no_ub (f a)) \<Longrightarrow> no_ub (obind x f)"
  by (cases x) (auto simp: no_ub_def)

lemma no_ub_ofold: "(\<And>x s. x \<in> set xs \<Longrightarrow> no_ub (f x s)) \<Longrightarrow> no_ub (ofold f xs s)"
  by (induction xs arbitrary: s) (auto intro: safe_intros)

lemma narrow_cast_Inr [simp]: "narrow_cast v c = Inr w \<longleftrightarrow> w = v"
  by (auto simp: narrow_cast_def parse_error_def)

lemma require_Inr [simp]: "require_that b msg = Inr u \<longleftrightarrow> b"
  by (simp add: require_that_def parse_error_def)

lemma unat_byte_count: "length bytes < 2 ^ 63 \<Longrightarrow> unat (byte_count bytes) = length bytes"
  by (simp add: byte_count_def unat_of_nat)

lemma unat_add_small: "unat (x :: u64) + k < 2 ^ 64 \<Longrightarrow> unat (x + of_nat k) = unat x + k"
proof -
  assume k: "unat x + k < 2 ^ 64"
  then have "unat (of_nat k :: u64) = k" by (simp add: unat_of_nat)
  with k show ?thesis using unat_add_lem [of x "of_nat k"] by simp
qed

lemma or_bytes_safe:
  assumes "length bytes < 2 ^ 63" "unat offset + n \<le> length bytes"
  shows "no_ub (or_bytes bytes offset n)"
proof -
  have "offset + of_nat idx < byte_count bytes" if "idx < n" for idx
    unfolding word_less_nat_alt unat_byte_count [OF assms(1)]
    using that assms unat_add_small [of offset idx] by simp
  then show ?thesis
    unfolding or_bytes_def
    by (intro no_ub_ofold no_ub_obind) (auto simp: byte_at_def no_ub_def)
qed

lemma read_safe_generic:
  assumes "length bytes < 2 ^ 63" "unat offset + n < 2 ^ 64" "\<not> offset + of_nat n > byte_count bytes"
  shows "no_ub (or_bytes bytes offset n)"
  using assms unat_add_small [of offset n]
  by (intro or_bytes_safe) (simp_all add: word_less_nat_alt unat_byte_count)

lemma read_le_safe [safe_intros]:
  assumes "length bytes < 2 ^ 63" "unat offset + 8 < 2 ^ 64"
  shows "no_ub (read_le16 bytes offset)" "no_ub (read_le32 bytes offset)" "no_ub (read_le64 bytes offset)"
    "no_ub (read_le32_wide bytes offset)"
proof -
  have w: "offset + 2 = offset + of_nat 2" "offset + 4 = offset + of_nat 4" "offset + 8 = offset + of_nat 8"
    by simp_all
  show *: "no_ub (read_le16 bytes offset)" "no_ub (read_le32 bytes offset)" "no_ub (read_le64 bytes offset)"
    unfolding read_le16_def read_le32_def read_le64_def w
    using assms by (auto intro!: read_safe_generic simp del: of_nat_numeral intro: safe_intros)
  show "no_ub (read_le32_wide bytes offset)"
    unfolding read_le32_wide_def by (intro no_ub_obind * no_ub_Inr)
qed

lemma header_safe [safe_intros]: "length bytes < 2 ^ 63 \<Longrightarrow> no_ub (read_elf_header is_64 bytes)"
  by (auto simp: read_elf_header_def intro!: safe_intros)

lemma unat_add_le: "unat ((a :: u64) + b) \<le> unat a + unat b"
  by (simp add: unat_word_ariths)

lemma field_offset: "unat (offset :: u64) < 2 ^ 63 + 2 ^ 62 \<Longrightarrow> k \<le> 64 \<Longrightarrow> unat (offset + k) + 8 < 2 ^ 64"
proof -
  assume "unat offset < 2 ^ 63 + 2 ^ 62" "k \<le> 64"
  then have "unat k \<le> 64" by (simp add: word_le_nat_alt)
  with unat_add_le [of offset k] \<open>unat offset < _\<close> show ?thesis by simp
qed

lemma table_header_safe [safe_intros]:
  assumes "length bytes < 2 ^ 63" "unat offset < 2 ^ 63 + 2 ^ 62"
  shows "no_ub (read_section_header is_64 bytes offset)" "no_ub (read_program_header is_64 bytes offset)"
  using assms
  by (auto simp: read_section_header_def read_program_header_def intro!: no_ub_obind no_ub_Inr read_le_safe
      field_offset intro: field_offset [of offset 0, simplified])

lemma copy_safe:
  assumes "length bytes < 2 ^ 63" "unat first + unat n < 2 ^ 64" "\<not> first + n > byte_count bytes"
  shows "no_ub (copy_range bytes first (first + n))"
proof -
  have "unat (first + n) = unat first + unat n" using assms(2) unat_add_lem [of first n] by simp
  with assms show ?thesis
    by (simp add: copy_range_def no_ub_def word_less_nat_alt word_le_nat_alt unat_byte_count)
qed

lemma unat_bound: "unat (w :: u16) < 65536" "unat (v :: u32) < 2 ^ 32"
proof -
  have "unat w < 2 ^ LENGTH(16)" "unat v < 2 ^ LENGTH(32)" by (rule unsigned_less)+
  then show "unat w < 65536" "unat v < 2 ^ 32" by simp_all
qed

lemma unat_widen: "unat (ucast (w :: u16) :: u64) = unat w" "unat (ucast (v :: u32) :: u64) = unat v"
proof -
  have "unat w < 2 ^ LENGTH(64)" "unat v < 2 ^ LENGTH(64)" using unat_bound(1) [of w] unat_bound(2) [of v] by simp_all
  then show "unat (ucast w :: u64) = unat w" "unat (ucast v :: u64) = unat v"
    by (simp_all add: unsigned_ucast_eq take_bit_nat_eq_self)
qed

text \<open>The offset of a table entry.\<close>

definition entry_offset :: "u64 \<Rightarrow> u16 \<Rightarrow> nat \<Rightarrow> u64" where
  "entry_offset table entry_size index = table + of_nat index * ucast entry_size"

lemma entry_offset_bound:
  assumes "unat table < 2 ^ 63" "index < 65536"
  shows "unat (entry_offset table entry_size index) < 2 ^ 63 + 2 ^ 62"
proof -
  have e: "unat (ucast entry_size :: u64) < 65536"
    by (simp add: unat_widen unat_bound)
  have "unat (of_nat index * ucast entry_size :: u64) \<le> unat (of_nat index :: u64) * unat (ucast entry_size :: u64)"
    by (simp add: unat_word_ariths)
  also have "\<dots> \<le> 65536 * 65536"
    using e assms(2) by (intro mult_le_mono) (simp_all add: unat_of_nat)
  finally show ?thesis
    using assms(1) unat_add_le [of table "of_nat index * ucast entry_size"] by (simp add: entry_offset_def)
qed

text \<open>\<open>file_range_fits\<close>: the end of a range of the file does not wrap.  \<open>offsets_fit\<close> says it of every header
  of a 64-bit image, and of the tables.\<close>

definition file_range_fits :: "u64 \<Rightarrow> u64 \<Rightarrow> bool" where
  "file_range_fits first n \<longleftrightarrow> first \<le> - 1 - n"

lemma file_range_fits_nat: "file_range_fits first n \<longleftrightarrow> unat first + unat n < 2 ^ 64"
proof -
  have "unat n < 2 ^ LENGTH(64)" by (rule unsigned_less)
  moreover have "unat (- 1 - n) = 2 ^ 64 - 1 - unat n"
    using unat_sub [of n "- 1"] by (simp add: unsigned_minus_1_eq_mask mask_eq_exp_minus_1)
  ultimately show ?thesis by (auto simp: file_range_fits_def word_le_nat_alt)
qed

definition segment_fits :: "bool \<Rightarrow> u8 list \<Rightarrow> elf_header \<Rightarrow> nat \<Rightarrow> bool" where
  "segment_fits is_64 bytes hdr index =
     (case read_program_header is_64 bytes (entry_offset (eh_phoff hdr) (eh_phentsize hdr) index) of
        Inl _ \<Rightarrow> True | Inr ph \<Rightarrow> file_range_fits (ph_offset ph) (ph_filesz ph))"

definition section_fits :: "bool \<Rightarrow> u8 list \<Rightarrow> elf_header \<Rightarrow> nat \<Rightarrow> bool" where
  "section_fits is_64 bytes hdr index =
     (case read_section_header is_64 bytes (entry_offset (eh_shoff hdr) (eh_shentsize hdr) index) of
        Inl _ \<Rightarrow> True | Inr sh \<Rightarrow> file_range_fits (sh_offset sh) (sh_size sh))"

definition header_fits :: "bool \<Rightarrow> u8 list \<Rightarrow> elf_header \<Rightarrow> bool" where
  "header_fits is_64 bytes hdr \<longleftrightarrow>
     eh_phoff hdr < 0x8000000000000000 \<and> eh_shoff hdr < 0x8000000000000000 \<and>
     list_all (segment_fits is_64 bytes hdr) [0..<unat (eh_phnum hdr)] \<and>
     list_all (section_fits is_64 bytes hdr) [0..<unat (eh_shnum hdr)]"

definition offsets_fit :: "u8 list \<Rightarrow> bool" where
  "offsets_fit bytes = (case read_elf_header True bytes of Inl _ \<Rightarrow> True | Inr hdr \<Rightarrow> header_fits True bytes hdr)"

lemma read_wide_small: "read_le32_wide bytes offset = Inr v \<Longrightarrow> unat v < 2 ^ 32"
proof -
  assume "read_le32_wide bytes offset = Inr v"
  then obtain w :: u32 where "v = ucast w" by (auto simp: read_le32_wide_def outcome_simps)
  then show ?thesis using unat_bound(2) [of w] by (simp add: unat_widen)
qed

lemma class32_ranges_fit:
  "read_program_header False bytes offset = Inr ph \<Longrightarrow> file_range_fits (ph_offset ph) (ph_filesz ph)"
  "read_section_header False bytes offset = Inr sh \<Longrightarrow> file_range_fits (sh_offset sh) (sh_size sh)"
  by (auto simp: read_program_header_def read_section_header_def outcome_simps file_range_fits_nat
      dest!: read_wide_small)

lemma class32_fits:
  assumes "read_elf_header False bytes = Inr hdr"
  shows "header_fits False bytes hdr"
proof -
  have "unat (eh_phoff hdr) < 2 ^ 32 \<and> unat (eh_shoff hdr) < 2 ^ 32"
    using assms by (auto simp: read_elf_header_def outcome_simps dest!: read_wide_small)
  then show ?thesis
    by (auto simp: header_fits_def segment_fits_def section_fits_def list_all_iff word_less_nat_alt class32_ranges_fit split: sum.splits)
qed

lemma payload_safe [safe_intros]:
  "length bytes < 2 ^ 63 \<Longrightarrow> file_range_fits (sh_offset sh) (sh_size sh) \<Longrightarrow> no_ub (section_payload bytes sh)"
  by (auto simp: section_payload_def file_range_fits_nat intro!: safe_intros copy_safe)

lemma section_step_safe:
  assumes "length bytes < 2 ^ 63" "unat (eh_shoff hdr) < 2 ^ 63" "index < 65536" "section_fits is_64 bytes hdr index"
  shows "no_ub (section_step is_64 bytes hdr index st)"
proof -
  have "unat (entry_offset (eh_shoff hdr) (eh_shentsize hdr) index) < 2 ^ 63 + 2 ^ 62"
    using assms by (intro entry_offset_bound)
  with assms show ?thesis
    by (cases st) (auto simp: section_step_def Let_def section_fits_def entry_offset_def intro!: safe_intros
        split: sum.splits)
qed

lemma segment_step_safe:
  assumes "length bytes < 2 ^ 63" "unat (eh_phoff hdr) < 2 ^ 63" "index < 65536" "segment_fits is_64 bytes hdr index"
  shows "no_ub (segment_step is_64 bytes hdr index sections)"
proof -
  have "unat (entry_offset (eh_phoff hdr) (eh_phentsize hdr) index) < 2 ^ 63 + 2 ^ 62"
    using assms by (intro entry_offset_bound)
  with assms show ?thesis
    by (auto simp: segment_step_def Let_def segment_fits_def entry_offset_def file_range_fits_nat
        intro!: safe_intros copy_safe split: sum.splits)
qed

lemma index_below: "index \<in> set [0..<unat (n :: u16)] \<Longrightarrow> index < 65536"
  using unat_bound(1) [of n] by simp

lemma loops_safe [safe_intros]:
  assumes "length bytes < 2 ^ 63" "header_fits is_64 bytes hdr"
  shows "no_ub (load_relocatable is_64 bytes source_path hdr)" "no_ub (load_segments is_64 bytes source_path hdr)"
  using assms
  by (auto simp: load_relocatable_def load_segments_def header_fits_def list_all_iff word_less_nat_alt intro!: safe_intros no_ub_ofold
      section_step_safe segment_step_safe intro: index_below)

text \<open>C36: the loader never reads outside the bytes of a 32-bit image, whatever the bytes are; of a 64-bit image
  it does not as long as both header tables begin below \<open>2 ^ 63\<close> and no segment's or section's file range
  passes the end of the 64-bit numbers (\<open>offsets_fit\<close>).  Then every outcome is an image or one of the
  reported errors.\<close>
theorem loader_stays_in_bounds:
  assumes "length bytes < 2 ^ 63" and "bytes ! 4 = 2 \<Longrightarrow> offsets_fit bytes"
  shows "load_elf_image bytes path \<noteq> Inl Undefined_Behaviour"
proof -
  have fits: "header_fits (bytes ! 4 = 2) bytes hdr" if "read_elf_header (bytes ! 4 = 2) bytes = Inr hdr" for hdr
    using that assms(2) class32_fits [of bytes hdr] by (cases "bytes ! 4 = 2") (auto simp: offsets_fit_def)
  have "no_ub (load_elf_image bytes path)"
    using assms(1) fits
    by (auto simp: load_elf_image_def Let_def intro!: safe_intros simp: no_ub_def [of "Inl (Runtime_Error _)"])
  then show ?thesis by (simp add: no_ub_def)
qed

text \<open>A 64-bit image with one executable segment of two bytes at 0x1000; the segment's file offset and
  size are arguments.\<close>

definition le_bytes :: "nat \<Rightarrow> u64 \<Rightarrow> u8 list" where
  "le_bytes n v = map (byte_of v) [0..<n]"

definition sample_elf64 :: "u64 \<Rightarrow> u64 \<Rightarrow> u8 list" where
  "sample_elf64 file_offset file_size =
     kElfMagic @ [2, 1, 1] @ replicate 9 0 @ le_bytes 2 2 @ le_bytes 2 233 @ le_bytes 4 1 @
     le_bytes 8 0x1000 @ le_bytes 8 64 @ le_bytes 8 0 @ le_bytes 4 0 @ le_bytes 2 64 @ le_bytes 2 56 @
     le_bytes 2 1 @ le_bytes 6 0 @
     le_bytes 4 1 @ le_bytes 4 5 @ le_bytes 8 file_offset @ le_bytes 8 0x1000 @ le_bytes 8 0x1000 @
     le_bytes 8 file_size @ le_bytes 8 file_size @ le_bytes 8 1 @ [0x16, 0x11]"

lemma sample_length: "length (sample_elf64 off sz) < 2 ^ 63"
  by (simp add: sample_elf64_def le_bytes_def kElfMagic_def)

theorem loader_stays_in_bounds_witness:
  "load_elf_image (sample_elf64 120 2) ''a.elf'' \<noteq> Inl Undefined_Behaviour"
proof (rule loader_stays_in_bounds)
  show "length (sample_elf64 120 2) < 2 ^ 63" by (rule sample_length)
  show "offsets_fit (sample_elf64 120 2)" by code_simp
qed

text \<open>The bounds check of a segment adds its offset and size in 64 bits, so the sum can wrap and pass: for a
  64-bit image of 122 bytes whose only segment claims 32 bytes at offset \<open>2 ^ 64 - 16\<close> the loader copies
  from outside the file instead of reporting an error.\<close>
lemma segment_check_wraps:
  "load_elf_image (sample_elf64 (- 16) 32) ''a.elf'' = Inl Undefined_Behaviour \<and>
   load_elf_image (sample_elf64 120 2) ''a.elf'' = Inr \<lparr>pi_source_path = ''a.elf'', pi_entry_point = 0x1000,
     pi_sections = [\<lparr>ps_name = ''.text[0]'', ps_address = 0x1000, ps_bytes = [0x16, 0x11], ps_executable = True\<rparr>]\<rparr>"
proof
  show "load_elf_image (sample_elf64 (- 16) 32) ''a.elf'' = Inl Undefined_Behaviour" by code_simp
  show "load_elf_image (sample_elf64 120 2) ''a.elf'' = Inr \<lparr>pi_source_path = ''a.elf'', pi_entry_point = 0x1000,
     pi_sections = [\<lparr>ps_name = ''.text[0]'', ps_address = 0x1000, ps_bytes = [0x16, 0x11], ps_executable = True\<rparr>]\<rparr>"
    by code_simp
qed

section \<open>Executable images\<close>

text \<open>The program headers of an image with their indices, and the section a header loads as.\<close>

definition program_headers :: "bool \<Rightarrow> u8 list \<Rightarrow> elf_header \<Rightarrow> (nat \<times> program_header) list" where
  "program_headers is_64 bytes hdr = map (\<lambda>index. (index,
     projr (read_program_header is_64 bytes (entry_offset (eh_phoff hdr) (eh_phentsize hdr) index))))
     [0..<unat (eh_phnum hdr)]"

definition loadable :: "nat \<times> program_header \<Rightarrow> bool" where
  "loadable = (\<lambda>(index, ph). ph_type ph = 1 \<and> ph_filesz ph \<noteq> 0)"

definition segment_section :: "u8 list \<Rightarrow> nat \<times> program_header \<Rightarrow> program_section" where
  "segment_section bytes = (\<lambda>(index, ph). \<lparr>ps_name = segment_name index (ph_flags ph AND 1 \<noteq> 0),
     ps_address = ph_vaddr ph, ps_bytes = take (unat (ph_filesz ph)) (drop (unat (ph_offset ph)) bytes),
     ps_executable = (ph_flags ph AND 1 \<noteq> 0)\<rparr>)"

lemma copy_range_ok:
  assumes "length bytes < 2 ^ 63" "copy_range bytes first (first + n) = Inr payload"
  shows "payload = take (unat n) (drop (unat first) bytes)" "unat first + unat n \<le> length bytes"
proof -
  have le: "unat first \<le> unat (first + n)" "unat (first + n) \<le> length bytes"
    and p: "payload = take (unat (first + n) - unat first) (drop (unat first) bytes)"
    using assms by (auto simp: copy_range_def word_le_nat_alt unat_byte_count split: if_splits)
  have "unat n < 2 ^ LENGTH(64)" by (rule unsigned_less)
  then have "unat (first + n) = unat first + unat n"
    using le(1) unat_plus_if' [of first n] by (simp split: if_splits)
  with le p show "payload = take (unat n) (drop (unat first) bytes)" "unat first + unat n \<le> length bytes" by simp_all
qed

lemma segment_step_result:
  assumes "length bytes < 2 ^ 63" and "segment_step is_64 bytes hdr index sections = Inr sections'"
  shows "\<exists>ph. read_program_header is_64 bytes (entry_offset (eh_phoff hdr) (eh_phentsize hdr) index) = Inr ph \<and>
    sections' = sections @ (if loadable (index, ph) then [segment_section bytes (index, ph)] else []) \<and>
    (loadable (index, ph) \<longrightarrow> unat (ph_offset ph) + unat (ph_filesz ph) \<le> length bytes)"
  using assms(2)
  by (auto simp: segment_step_def entry_offset_def outcome_simps loadable_def segment_section_def Let_def
      dest: copy_range_ok [OF assms(1)] split: if_splits)

lemma segment_loop_result:
  assumes "length bytes < 2 ^ 63" and "ofold (segment_step is_64 bytes hdr) indices sections = Inr sections'"
  shows "let headers = filter loadable (map (\<lambda>index. (index,
      projr (read_program_header is_64 bytes (entry_offset (eh_phoff hdr) (eh_phentsize hdr) index)))) indices)
    in sections' = sections @ map (segment_section bytes) headers \<and>
       (\<forall>(index, ph) \<in> set headers. unat (ph_offset ph) + unat (ph_filesz ph) \<le> length bytes)"
  using assms(2)
proof (induction indices arbitrary: sections)
  case Nil
  then show ?case by simp
next
  case (Cons index indices)
  then obtain mid where mid: "segment_step is_64 bytes hdr index sections = Inr mid"
    "ofold (segment_step is_64 bytes hdr) indices mid = Inr sections'" by (auto simp: outcome_simps)
  from Cons.IH [OF mid(2)] segment_step_result [OF assms(1) mid(1)] show ?case by (auto simp: Let_def)
qed

text \<open>C12: a loaded executable or shared image holds exactly the non-empty \<open>PT_LOAD\<close> headers of the file, in
  their order, each as the section of its address with exactly the bytes of its file range, which
  lies inside the file, and executable by its flag; the entry point is the header's, there is at
  least one section, and the source path is kept.\<close>
theorem loaded_segments_exact:
  assumes "length bytes < 2 ^ 63" and "load_segments is_64 bytes path hdr = Inr img"
  shows "let headers = filter loadable (program_headers is_64 bytes hdr)
    in pi_sections img = map (segment_section bytes) headers \<and> headers \<noteq> [] \<and>
       (\<forall>(index, ph) \<in> set headers. unat (ph_offset ph) + unat (ph_filesz ph) \<le> length bytes) \<and>
       pi_entry_point img = eh_entry hdr \<and> pi_source_path img = path"
proof -
  obtain sections where loop: "ofold (segment_step is_64 bytes hdr) [0..<unat (eh_phnum hdr)] [] = Inr sections"
    and img: "sections \<noteq> []" "img = \<lparr>pi_source_path = path, pi_entry_point = eh_entry hdr, pi_sections = sections\<rparr>"
    using assms(2) by (auto simp: load_segments_def outcome_simps parse_error_def split: if_splits)
  from segment_loop_result [OF assms(1) loop] img show ?thesis
    by (auto simp: program_headers_def Let_def)
qed

theorem loaded_segments_exact_witness:
  "\<exists>img hdr. load_segments True (sample_elf64 120 2) ''a.elf'' hdr = Inr img \<and>
     map ps_bytes (pi_sections img) =
       map (ps_bytes \<circ> segment_section (sample_elf64 120 2)) (filter loadable (program_headers True (sample_elf64 120 2) hdr)) \<and>
     length (pi_sections img) = 1"
proof -
  have "(case read_elf_header True (sample_elf64 120 2) of Inl _ \<Rightarrow> False | Inr hdr \<Rightarrow>
      (case load_segments True (sample_elf64 120 2) ''a.elf'' hdr of Inl _ \<Rightarrow> False | Inr img \<Rightarrow>
        length (pi_sections img) = 1))" by code_simp
  then obtain hdr img where img: "load_segments True (sample_elf64 120 2) ''a.elf'' hdr = Inr img"
    "length (pi_sections img) = 1" by (auto split: sum.splits)
  have len: "length (sample_elf64 120 2) < 2 ^ 63" by (rule sample_length)
  from loaded_segments_exact [OF len img(1)] img show ?thesis
    by (intro exI [of _ img] exI [of _ hdr]) (simp add: Let_def)
qed

section \<open>Relocatable images\<close>

definition section_headers :: "bool \<Rightarrow> u8 list \<Rightarrow> elf_header \<Rightarrow> nat list \<Rightarrow> (nat \<times> section_header) list" where
  "section_headers is_64 bytes hdr indices = map (\<lambda>index. (index,
     projr (read_section_header is_64 bytes (entry_offset (eh_shoff hdr) (eh_shentsize hdr) index)))) indices"

definition allocated :: "nat \<times> section_header \<Rightarrow> bool" where
  "allocated = (\<lambda>(index, sh). sh_flags sh AND 0x2 \<noteq> 0 \<and> sh_size sh \<noteq> 0)"

text \<open>What a section has from its header; a header without an address leaves the address open.\<close>

definition from_header :: "u8 list \<Rightarrow> nat \<times> section_header \<Rightarrow> program_section \<Rightarrow> bool" where
  "from_header bytes = (\<lambda>(index, sh) s. ps_executable s = (sh_flags sh AND 0x4 \<noteq> 0) \<and>
     ps_name s = section_name index (sh_flags sh AND 0x4 \<noteq> 0) \<and>
     ps_bytes s = (if sh_type sh = 8 then replicate (unat (sh_size sh)) 0
       else take (unat (sh_size sh)) (drop (unat (sh_offset sh)) bytes)) \<and>
     length (ps_bytes s) = unat (sh_size sh) \<and> (sh_addr sh \<noteq> 0 \<longrightarrow> ps_address s = sh_addr sh))"

text \<open>The first address after a section and the gap that the loader leaves.\<close>

definition next_free :: "program_section \<Rightarrow> nat" where
  "next_free s = unat (ps_address s) + length (ps_bytes s) + 16"

lemma payload_result:
  assumes "length bytes < 2 ^ 63" "section_payload bytes sh = Inr payload"
  shows "payload = (if sh_type sh = 8 then replicate (unat (sh_size sh)) 0
      else take (unat (sh_size sh)) (drop (unat (sh_offset sh)) bytes))" "length payload = unat (sh_size sh)"
proof -
  have copied: "payload = take (unat (sh_size sh)) (drop (unat (sh_offset sh)) bytes)"
    "unat (sh_offset sh) + unat (sh_size sh) \<le> length bytes" if "sh_type sh \<noteq> 8"
    using assms(2) that copy_range_ok [OF assms(1), of "sh_offset sh" "sh_size sh" payload]
    by (auto simp: section_payload_def outcome_simps)
  have zeros: "payload = replicate (unat (sh_size sh)) 0" if "sh_type sh = 8"
    using assms(2) that by (auto simp: section_payload_def outcome_simps)
  from copied(1) zeros show "payload = (if sh_type sh = 8 then replicate (unat (sh_size sh)) 0
      else take (unat (sh_size sh)) (drop (unat (sh_offset sh)) bytes))" by simp
  show "length payload = unat (sh_size sh)"
    using copied zeros by (cases "sh_type sh = 8") auto
qed

lemma section_step_result:
  assumes len: "length bytes < 2 ^ 63" and step: "section_step is_64 bytes hdr index (secs, nxt) = Inr (secs', nxt')"
  shows "\<exists>sh. read_section_header is_64 bytes (entry_offset (eh_shoff hdr) (eh_shentsize hdr) index) = Inr sh \<and>
    (if allocated (index, sh)
     then \<exists>s. secs' = secs @ [s] \<and> from_header bytes (index, sh) s \<and> (sh_addr sh = 0 \<longrightarrow> ps_address s = nxt) \<and>
       nxt' = max nxt (ps_address s + sh_size sh + 0x10)
     else secs' = secs \<and> nxt' = nxt)"
proof -
  from step obtain sh where sh: "read_section_header is_64 bytes (entry_offset (eh_shoff hdr) (eh_shentsize hdr) index) = Inr sh"
    by (auto simp: section_step_def entry_offset_def outcome_simps)
  show ?thesis
  proof (cases "allocated (index, sh)")
    case False
    with step sh show ?thesis
      by (auto simp: section_step_def entry_offset_def outcome_simps allocated_def)
  next
    case True
    with step sh obtain payload where p: "section_payload bytes sh = Inr payload"
      "secs' = secs @ [\<lparr>ps_name = section_name index (sh_flags sh AND 0x4 \<noteq> 0),
        ps_address = (if sh_addr sh = 0 then nxt else sh_addr sh), ps_bytes = payload,
        ps_executable = (sh_flags sh AND 0x4 \<noteq> 0)\<rparr>]"
      "nxt' = max nxt ((if sh_addr sh = 0 then nxt else sh_addr sh) + sh_size sh + 0x10)"
      by (auto simp: section_step_def entry_offset_def outcome_simps allocated_def Let_def)
    with sh True payload_result [OF len p(1)] show ?thesis
      by (intro exI [of _ sh]) (simp add: from_header_def)
  qed
qed

definition placed :: "(nat \<times> section_header) list \<Rightarrow> program_section list \<Rightarrow> bool" where
  "placed headers secs \<longleftrightarrow> (\<forall>j < length secs. sh_addr (snd (headers ! j)) = 0 \<longrightarrow>
     (\<forall>i < j. next_free (secs ! i) \<le> unat (ps_address (secs ! j))))"

lemma placed_snoc:
  assumes "placed headers secs" "length headers = length secs"
    and "sh_addr sh = 0 \<longrightarrow> (\<forall>t \<in> set secs. next_free t \<le> unat (ps_address s))"
  shows "placed (headers @ [(index, sh)]) (secs @ [s])"
  using assms by (auto simp: placed_def nth_append less_Suc_eq)

lemma next_free_max:
  assumes "next_free s < 2 ^ 64" "length (ps_bytes s) = unat n"
  shows "unat (max nxt (ps_address s + n + 0x10)) = max (unat nxt) (next_free s)"
proof -
  have "unat (ps_address s + n) = unat (ps_address s) + unat n"
    using assms unat_add_lem [of "ps_address s" n] by (simp add: next_free_def)
  then have "unat (ps_address s + n + 0x10) = next_free s"
    using assms unat_add_small [of "ps_address s + n" 16] by (simp add: next_free_def)
  then show ?thesis by (simp add: max_def word_le_nat_alt)
qed

lemma section_loop_result:
  assumes len: "length bytes < 2 ^ 63"
    and loop: "ofold (section_step is_64 bytes hdr) indices ([], 0) = Inr (secs, nxt)"
  shows "let headers = filter allocated (section_headers is_64 bytes hdr indices)
    in list_all2 (from_header bytes) headers secs \<and>
       ((\<forall>s \<in> set secs. next_free s < 2 ^ 64) \<longrightarrow>
          placed headers secs \<and> (\<forall>s \<in> set secs. next_free s \<le> unat nxt))"
  using loop
proof (induction indices arbitrary: secs nxt rule: rev_induct)
  case Nil
  then show ?case by (simp add: section_headers_def placed_def)
next
  case (snoc index indices)
  let ?hs = "filter allocated (section_headers is_64 bytes hdr indices)"
  from snoc.prems obtain secs0 nxt0 where
    before: "ofold (section_step is_64 bytes hdr) indices ([], 0) = Inr (secs0, nxt0)"
    and step: "section_step is_64 bytes hdr index (secs0, nxt0) = Inr (secs, nxt)"
    by (auto simp: ofold_append outcome_simps)
  obtain sh where sh: "read_section_header is_64 bytes (entry_offset (eh_shoff hdr) (eh_shentsize hdr) index) = Inr sh"
    and res: "if allocated (index, sh)
     then \<exists>s. secs = secs0 @ [s] \<and> from_header bytes (index, sh) s \<and> (sh_addr sh = 0 \<longrightarrow> ps_address s = nxt0) \<and>
       nxt = max nxt0 (ps_address s + sh_size sh + 0x10)
     else secs = secs0 \<and> nxt = nxt0"
    using section_step_result [OF len step] by blast
  note ih = snoc.IH [OF before, unfolded Let_def]
  show ?case
  proof (cases "allocated (index, sh)")
    case False
    with ih res sh show ?thesis by (simp add: section_headers_def)
  next
    case True
    with res obtain s where s: "secs = secs0 @ [s]" "from_header bytes (index, sh) s"
      "sh_addr sh = 0 \<longrightarrow> ps_address s = nxt0" "nxt = max nxt0 (ps_address s + sh_size sh + 0x10)" by auto
    have hs: "filter allocated (section_headers is_64 bytes hdr (indices @ [index])) = ?hs @ [(index, sh)]"
      using True sh by (simp add: section_headers_def)
    have all2: "list_all2 (from_header bytes) (?hs @ [(index, sh)]) (secs0 @ [s])"
      using ih s(2) by (simp add: list_all2_appendI)
    have "placed (?hs @ [(index, sh)]) (secs0 @ [s]) \<and> (\<forall>t \<in> set (secs0 @ [s]). next_free t \<le> unat nxt)"
      if fit: "\<forall>t \<in> set (secs0 @ [s]). next_free t < 2 ^ 64"
    proof -
      have l: "length (ps_bytes s) = unat (sh_size sh)"
        using s(2) unfolding from_header_def prod.case by (elim conjE)
      have n: "unat nxt = max (unat nxt0) (next_free s)"
        using fit unfolding s(4) by (intro next_free_max l) simp
      have "placed ?hs secs0" "\<forall>t \<in> set secs0. next_free t \<le> unat nxt0" using ih fit by auto
      then show ?thesis
        using n s(3) ih by (auto intro!: placed_snoc simp: list_all2_lengthD)
    qed
    with all2 show ?thesis unfolding hs s(1) Let_def by blast
  qed
qed

text \<open>C37: a loaded relocatable image holds exactly the allocated sections with a size, in the order of the section
  table, each with the bytes of its file range or zeros for \<open>SHT_NOBITS\<close>, at its own address when it has
  one; a section without an address is put after everything before it, with a gap of 16 bytes, as
  long as no section comes near the end of the address space; the entry point is the first section.\<close>
theorem relocatable_layout:
  assumes "length bytes < 2 ^ 63" and "load_relocatable is_64 bytes path hdr = Inr img"
  shows "let headers = filter allocated (section_headers is_64 bytes hdr [0..<unat (eh_shnum hdr)])
    in list_all2 (from_header bytes) headers (pi_sections img) \<and> headers \<noteq> [] \<and>
       ((\<forall>s \<in> set (pi_sections img). next_free s < 2 ^ 64) \<longrightarrow> placed headers (pi_sections img)) \<and>
       pi_entry_point img = ps_address (hd (pi_sections img)) \<and> pi_source_path img = path"
proof -
  obtain sections nxt where
    loop: "ofold (section_step is_64 bytes hdr) [0..<unat (eh_shnum hdr)] ([], 0) = Inr (sections, nxt)"
    and img: "sections \<noteq> []" "img = \<lparr>pi_source_path = path, pi_entry_point = ps_address (hd sections), pi_sections = sections\<rparr>"
    using assms(2) by (auto simp: load_relocatable_def outcome_simps parse_error_def split: if_splits)
  from section_loop_result [OF assms(1) loop] img show ?thesis by (auto simp: Let_def)
qed

text \<open>A 32-bit relocatable image whose three sections are skipped, placed at 0 and placed after it.\<close>

definition sample_rel32 :: "u8 list" where
  "sample_rel32 =
     kElfMagic @ [1, 1, 1] @ replicate 9 0 @ le_bytes 2 1 @ le_bytes 2 233 @ le_bytes 4 1 @
     le_bytes 4 0 @ le_bytes 4 0 @ le_bytes 4 56 @ le_bytes 4 0 @ le_bytes 2 52 @ le_bytes 2 0 @
     le_bytes 2 0 @ le_bytes 2 24 @ le_bytes 2 3 @ le_bytes 2 0 @ le_bytes 4 0x1116 @
     replicate 24 0 @
     le_bytes 4 0 @ le_bytes 4 1 @ le_bytes 4 6 @ le_bytes 4 0 @ le_bytes 4 52 @ le_bytes 4 4 @
     le_bytes 4 0 @ le_bytes 4 8 @ le_bytes 4 2 @ le_bytes 4 0 @ le_bytes 4 0 @ le_bytes 4 3"

theorem relocatable_layout_witness:
  "\<exists>img hdr. load_relocatable False sample_rel32 ''a.o'' hdr = Inr img \<and> length (pi_sections img) = 2 \<and>
     next_free (pi_sections img ! 0) \<le> unat (ps_address (pi_sections img ! 1))"
proof -
  have "(case read_elf_header False sample_rel32 of Inl _ \<Rightarrow> False | Inr hdr \<Rightarrow>
      (case load_relocatable False sample_rel32 ''a.o'' hdr of Inl _ \<Rightarrow> False | Inr img \<Rightarrow>
        map (\<lambda>s. (ps_address s, ps_bytes s)) (pi_sections img) = [(0, [0x16, 0x11, 0, 0]), (20, [0, 0, 0])] \<and>
        map (sh_addr \<circ> snd) (filter allocated (section_headers False sample_rel32 hdr [0..<unat (eh_shnum hdr)])) = [0, 0]))"
    by code_simp
  then obtain hdr img where load: "load_relocatable False sample_rel32 ''a.o'' hdr = Inr img"
    and secs: "map (\<lambda>s. (ps_address s, ps_bytes s)) (pi_sections img) = [(0, [0x16, 0x11, 0, 0]), (20, [0, 0, 0])]"
    and open_addr: "map (sh_addr \<circ> snd) (filter allocated (section_headers False sample_rel32 hdr [0..<unat (eh_shnum hdr)])) = [0, 0]"
    by (auto split: sum.splits)
  obtain a b where img: "pi_sections img = [a, b]" "ps_address a = 0" "ps_bytes a = [0x16, 0x11, 0, 0]"
    "ps_address b = 20" "ps_bytes b = [0, 0, 0]"
    using secs by auto
  have len: "length sample_rel32 < 2 ^ 63" by (simp add: sample_rel32_def le_bytes_def kElfMagic_def)
  have "placed (filter allocated (section_headers False sample_rel32 hdr [0..<unat (eh_shnum hdr)])) (pi_sections img)"
    using relocatable_layout [OF len load] img by (simp add: Let_def next_free_def)
  moreover have "sh_addr (snd (filter allocated (section_headers False sample_rel32 hdr [0..<unat (eh_shnum hdr)]) ! 1)) = 0"
    using open_addr by auto
  ultimately have "next_free a \<le> unat (ps_address b)" unfolding placed_def img(1) by force
  with load img show ?thesis by (intro exI [of _ img] exI [of _ hdr]) simp
qed

end
