(* ===== verification/Logging.thy ===== *)
theory Logging
  imports Text_Format
begin

text \<open>
  The structured log of \<^verbatim>\<open>src/logging.cpp\<close>: levels and their order, the threshold, the text that one
  call of \<^verbatim>\<open>Emit\<close> writes to the sink, and the line object whose destructor calls it.  The mutex orders
  the calls of several threads; there is one thread here.
\<close>

section \<open>Levels\<close>

datatype log_level = LL_Trace | LL_Debug | LL_Info | LL_Warning | LL_Error | LL_Fatal

fun level_rank :: "log_level \<Rightarrow> nat" where
  "level_rank LL_Trace = 0"
| "level_rank LL_Debug = 1"
| "level_rank LL_Info = 2"
| "level_rank LL_Warning = 3"
| "level_rank LL_Error = 4"
| "level_rank LL_Fatal = 5"

lemma level_rank_inj: "level_rank a = level_rank b \<Longrightarrow> a = b"
  by (cases a; cases b) auto

instantiation log_level :: linorder
begin

definition less_eq_log_level :: "log_level \<Rightarrow> log_level \<Rightarrow> bool" where
  "less_eq_log_level a b \<longleftrightarrow> level_rank a \<le> level_rank b"

definition less_log_level :: "log_level \<Rightarrow> log_level \<Rightarrow> bool" where
  "less_log_level a b \<longleftrightarrow> level_rank a < level_rank b"

instance
  by standard (auto simp: less_eq_log_level_def less_log_level_def intro: level_rank_inj)

end

fun level_text :: "log_level \<Rightarrow> string" where
  "level_text LL_Trace = ''TRACE''"
| "level_text LL_Debug = ''DEBUG''"
| "level_text LL_Info = ''INFO''"
| "level_text LL_Warning = ''WARN''"
| "level_text LL_Error = ''ERROR''"
| "level_text LL_Fatal = ''FATAL''"

definition parse_log_level :: "string \<Rightarrow> log_level option" where
  "parse_log_level s =
     (if s = ''trace'' then Some LL_Trace
      else if s = ''debug'' then Some LL_Debug
      else if s = ''info'' then Some LL_Info
      else if s = ''warn'' \<or> s = ''warning'' then Some LL_Warning
      else if s = ''error'' then Some LL_Error
      else if s = ''fatal'' then Some LL_Fatal
      else None)"

section \<open>Lines\<close>

record log_context =
  lc_cycle :: "nat option"
  lc_module :: string
  lc_stage :: string
  lc_file :: string
  lc_line :: nat

text \<open>A sink is the number of an output stream; stream 0 is \<^verbatim>\<open>std::clog\<close>.\<close>

record sim_logger =
  lg_min_level :: log_level
  lg_sink :: nat

definition logger_default :: sim_logger where
  "logger_default = \<lparr>lg_min_level = LL_Info, lg_sink = 0\<rparr>"

definition set_sink :: "nat \<Rightarrow> sim_logger \<Rightarrow> sim_logger" where
  "set_sink sink lg = lg\<lparr>lg_sink := sink\<rparr>"

definition set_min_level :: "log_level \<Rightarrow> sim_logger \<Rightarrow> sim_logger" where
  "set_min_level level lg = lg\<lparr>lg_min_level := level\<rparr>"

definition should_log :: "sim_logger \<Rightarrow> log_level \<Rightarrow> bool" where
  "should_log lg level \<longleftrightarrow> level \<ge> lg_min_level lg"

definition emit :: "sim_logger \<Rightarrow> log_level \<Rightarrow> log_context \<Rightarrow> string \<Rightarrow> string" where
  "emit lg level ctx message =
     (if \<not> should_log lg level then []
      else ''['' @ pad_right 5 CHR '' '' (level_text level) @ ''] cycle='' @
        (case lc_cycle ctx of Some c \<Rightarrow> dec_text c | None \<Rightarrow> ''?'') @
        '' module='' @ lc_module ctx @ '' stage='' @ lc_stage ctx @ '' | '' @ message @ [CHR 0x0A] @
        (if level \<ge> LL_Error
         then ''  at '' @ lc_file ctx @ '':'' @ dec_text (lc_line ctx) @ [CHR 0x0A] else []))"

text \<open>The spelling that the command line takes for each level.\<close>

fun level_option :: "log_level \<Rightarrow> string" where
  "level_option LL_Trace = ''trace''"
| "level_option LL_Debug = ''debug''"
| "level_option LL_Info = ''info''"
| "level_option LL_Warning = ''warn''"
| "level_option LL_Error = ''error''"
| "level_option LL_Fatal = ''fatal''"

lemma parse_level_option [simp]: "parse_log_level (level_option l) = Some l"
  by (cases l) (simp_all add: parse_log_level_def)

text \<open>The threshold is monotone in the severity and in the threshold: a logger that prints a level prints
  every more severe one, and lowering the minimum level never removes or changes a line; every
  logger prints \<open>Fatal\<close>.\<close>
lemma log_threshold_monotone:
  "{l. should_log lg l} = {lg_min_level lg..} \<and> LL_Fatal \<in> {l. should_log lg l} \<and>
   emit (set_min_level (min m (lg_min_level lg)) lg) l ctx msg \<in>
     (if should_log lg l then {emit lg l ctx msg} else {[], emit (set_min_level m lg) l ctx msg})"
proof -
  have top: "l \<le> LL_Fatal" for l by (cases l) (simp_all add: less_eq_log_level_def)
  have low: "should_log (set_min_level (min m (lg_min_level lg)) lg) l"
    if "should_log lg l" using that by (auto simp: should_log_def set_min_level_def min_def)
  have "should_log (set_min_level (min m (lg_min_level lg)) lg) l = should_log (set_min_level m lg) l"
    if "\<not> should_log lg l" using that by (auto simp: should_log_def set_min_level_def min_def)
  with low top show ?thesis
    by (auto simp: emit_def should_log_def [of lg LL_Fatal] should_log_def [of lg] atLeast_def)
qed

text \<open>The streams with what was written to them.\<close>

type_synonym sinks = "nat \<Rightarrow> string"

definition emit_to :: "sim_logger \<Rightarrow> log_level \<Rightarrow> log_context \<Rightarrow> string \<Rightarrow> sinks \<Rightarrow> sinks" where
  "emit_to lg level ctx message out = out(lg_sink lg := out (lg_sink lg) @ emit lg level ctx message)"

section \<open>Log lines\<close>

text \<open>\<^verbatim>\<open>LogLine\<close>: the line is collected in a stream and emitted by the destructor; the line that another one was
  moved from has no logger any more.  The text of a value is that of \<^verbatim>\<open>DumpValue\<close>.\<close>

record log_line =
  ll_logger :: "sim_logger option"
  ll_level :: log_level
  ll_context :: log_context
  ll_text :: string

definition log_line_new :: "sim_logger option \<Rightarrow> log_level \<Rightarrow> log_context \<Rightarrow> log_line" where
  "log_line_new lg level ctx = \<lparr>ll_logger = lg, ll_level = level, ll_context = ctx, ll_text = []\<rparr>"

definition log_line_move :: "log_line \<Rightarrow> log_line \<times> log_line" where
  "log_line_move l = (l, l\<lparr>ll_logger := None, ll_text := []\<rparr>)"

definition log_line_put :: "string \<Rightarrow> log_line \<Rightarrow> log_line" where
  "log_line_put t l = l\<lparr>ll_text := ll_text l @ t\<rparr>"

definition log_line_destroy :: "log_line \<Rightarrow> sinks \<Rightarrow> sinks" where
  "log_line_destroy l out =
     (case ll_logger l of None \<Rightarrow> out | Some lg \<Rightarrow> emit_to lg (ll_level l) (ll_context l) (ll_text l) out)"

text \<open>\<^verbatim>\<open>SimObject::Log\<close>: an object without a runtime logger uses the default logger, one without a cycle counter
  has no cycle.\<close>

definition object_log :: "sim_logger \<Rightarrow> sim_logger option \<Rightarrow> nat option \<Rightarrow> string \<Rightarrow> log_level \<Rightarrow> string \<Rightarrow> string \<Rightarrow>
    nat \<Rightarrow> log_line" where
  "object_log dl runtime cycle name level stage file line =
     log_line_new (Some (case runtime of Some lg \<Rightarrow> lg | None \<Rightarrow> dl)) level
       \<lparr>lc_cycle = cycle, lc_module = name, lc_stage = stage, lc_file = file, lc_line = line\<rparr>"

text \<open>A line that is written to and moved any number of times, and all the objects it was moved from, are emitted
  once, with everything that was put into the line in order.\<close>

datatype line_op = Line_Put string | Line_Move

fun line_ops :: "line_op list \<Rightarrow> log_line \<Rightarrow> sinks \<Rightarrow> sinks" where
  "line_ops [] l out = log_line_destroy l out"
| "line_ops (Line_Put t # ops) l out = line_ops ops (log_line_put t l) out"
| "line_ops (Line_Move # ops) l out =
     (case log_line_move l of (l', old) \<Rightarrow> log_line_destroy old (line_ops ops l' out))"

lemma line_ops_text: "line_ops ops l out =
    log_line_destroy (log_line_put (concat (map (\<lambda>op. case op of Line_Put t \<Rightarrow> t | Line_Move \<Rightarrow> []) ops)) l) out"
  by (induction ops l out rule: line_ops.induct)
    (simp_all add: log_line_put_def log_line_move_def log_line_destroy_def)

lemma line_emitted_once:
  "line_ops ops (object_log dl runtime cycle name level stage file line) out =
   emit_to (case runtime of Some lg \<Rightarrow> lg | None \<Rightarrow> dl) level
     \<lparr>lc_cycle = cycle, lc_module = name, lc_stage = stage, lc_file = file, lc_line = line\<rparr>
     (concat (map (\<lambda>op. case op of Line_Put t \<Rightarrow> t | Line_Move \<Rightarrow> []) ops)) out"
  by (simp add: line_ops_text log_line_put_def log_line_destroy_def object_log_def log_line_new_def)

end
