(* ===== verification/Sim_Args.thy ===== *)
theory Sim_Args
  imports Logging Model_Prelude
begin

text \<open>
  The command line of the simulator binaries (\<^verbatim>\<open>ParseSimMainArgs\<close> of \<^verbatim>\<open>src/sim_main.cpp\<close>).  The
  arguments after the program name are a list of strings.  \<open>stoull\<close> is \<^verbatim>\<open>std::stoull\<close> with base 0:
  white space, a sign, then hexadecimal after \<open>0x\<close>, octal after a leading \<open>0\<close>, else decimal; \<open>None\<close>
  stands for its two exceptions.
\<close>

section \<open>Numbers\<close>

definition is_space :: "char \<Rightarrow> bool" where
  "is_space c \<longleftrightarrow> c \<in> {CHR 0x20, CHR 0x09, CHR 0x0A, CHR 0x0B, CHR 0x0C, CHR 0x0D}"

definition digit_of :: "char \<Rightarrow> nat option" where
  "digit_of c = (let n = of_char c :: nat
     in if 48 \<le> n \<and> n \<le> 57 then Some (n - 48)
        else if 97 \<le> n \<and> n \<le> 122 then Some (n - 87)
        else if 65 \<le> n \<and> n \<le> 90 then Some (n - 55)
        else None)"

definition is_digit :: "nat \<Rightarrow> char \<Rightarrow> bool" where
  "is_digit base c = (case digit_of c of Some d \<Rightarrow> d < base | None \<Rightarrow> False)"

definition digits_value :: "nat \<Rightarrow> string \<Rightarrow> nat" where
  "digits_value base ds = foldl (\<lambda>n c. base * n + the (digit_of c)) 0 ds"

definition skip_prefix :: "string \<Rightarrow> nat \<times> nat" where
  "skip_prefix s =
     (case s of
        CHR ''0'' # x # d # _ \<Rightarrow> if (x = CHR ''x'' \<or> x = CHR ''X'') \<and> is_digit 16 d then (16, 2) else (8, 0)
      | CHR ''0'' # _ \<Rightarrow> (8, 0)
      | _ \<Rightarrow> (10, 0))"

definition stoull :: "string \<Rightarrow> (u64 \<times> nat) option" where
  "stoull s =
     (let spaces = length (takeWhile is_space s);
          s1 = drop spaces s;
          sign = (if s1 \<noteq> [] \<and> hd s1 \<in> {CHR ''+'', CHR ''-''} then 1 else 0);
          negative = (s1 \<noteq> [] \<and> hd s1 = CHR ''-'');
          s2 = drop sign s1
      in case skip_prefix s2 of (base, prefix) \<Rightarrow>
        let ds = takeWhile (is_digit base) (drop prefix s2); n = digits_value base ds
        in if ds = [] \<or> n \<ge> 2 ^ 64 then None
           else Some (if negative then - of_nat n else of_nat n, spaces + sign + prefix + length ds))"

text \<open>\<^verbatim>\<open>ParseUnsignedArg\<close>: \<open>None\<close> is any of its exceptions.\<close>

definition parse_unsigned_arg :: "string \<Rightarrow> u64 option" where
  "parse_unsigned_arg s =
     (case stoull s of None \<Rightarrow> None | Some (v, consumed) \<Rightarrow> if consumed = length s then Some v else None)"

section \<open>Options\<close>

record sim_main_args =
  sa_engine :: string
  sa_emit_trace_path :: "string option"
  sa_result_dump_path :: "string option"
  sa_result_address :: "u64 option"
  sa_result_size :: "u64 option"
  sa_stop_pc :: "u64 option"
  sa_max_cycles :: "u64 option"
  sa_compare_window :: u64
  sa_program_path :: "string option"
  sa_raw_base_address :: u64
  sa_log_level :: log_level
  sa_enable_reference :: bool
  sa_enable_pipeview :: bool
  sa_enable_report :: bool
  sa_enable_disassembly :: bool
  sa_disassembly_only :: bool

definition sim_main_args_default :: sim_main_args where
  "sim_main_args_default = \<lparr>sa_engine = ''ref'', sa_emit_trace_path = None, sa_result_dump_path = None,
     sa_result_address = None, sa_result_size = None, sa_stop_pc = None, sa_max_cycles = None,
     sa_compare_window = 128, sa_program_path = None, sa_raw_base_address = 0, sa_log_level = LL_Info,
     sa_enable_reference = True, sa_enable_pipeview = True, sa_enable_report = True,
     sa_enable_disassembly = False, sa_disassembly_only = False\<rparr>"

text \<open>What the parser returns: the options, or an exit code with the text for the two streams.\<close>

datatype parse_result = Parsed sim_main_args | Stop int string string

definition line_end :: string where "line_end = [CHR 0x0A]"

definition usage_text :: "string \<Rightarrow> string" where
  "usage_text program = concat (map (\<lambda>l. l @ line_end)
     [''Usage: '' @ program @ '' [options]'',
      ''  --engine <kind>     ref|ca|compare'',
      ''  --bin <path>        Load ELF or raw binary image'',
      ''  --raw-base <addr>   Base address for raw non-ELF binaries'',
      ''  --emit-minst-trace <path>'',
      ''                      Emit Minst-native JSONL trace records'',
      ''  --result-dump <path>'',
      ''  --result-address <addr>'',
      ''  --result-size <bytes>'',
      ''                      Export architecture-visible result memory'',
      ''  --disasm            Print program disassembly before simulation'',
      ''  --disasm-only       Print program disassembly and exit'',
      ''  --compare-window <n> Buffered compare window size (default 128)'',
      ''  --stop-pc <pc>      Stop/reference PC in hex or decimal'',
      ''  --max-cycles <n>    Terminate after n cycles'',
      ''  --no-reference      Skip RunReference() in the main loop'',
      ''  --no-pipeview       Skip PrintPipeView() in the main loop'',
      ''  --no-report         Skip Report() at shutdown'',
      ''  --log-level <lvl>   trace|debug|info|warn|error|fatal'',
      ''  -h, --help          Show this help text''])"

definition refuse :: "string \<Rightarrow> parse_result + 'a" where
  "refuse msg = Inl (Stop 1 [] (msg @ line_end))"

definition with_value :: "string \<Rightarrow> string list \<Rightarrow> (string \<Rightarrow> parse_result + sim_main_args) \<Rightarrow>
    parse_result + string list \<times> sim_main_args" where
  "with_value option_name rest f =
     (case rest of
        [] \<Rightarrow> refuse (''missing value for '' @ option_name)
      | v # rest' \<Rightarrow> (case f v of Inl r \<Rightarrow> Inl r | Inr a \<Rightarrow> Inr (rest', a)))"

definition with_number :: "string \<Rightarrow> string \<Rightarrow> (u64 \<Rightarrow> parse_result + sim_main_args) \<Rightarrow>
    parse_result + sim_main_args" where
  "with_number option_name v f =
     (case parse_unsigned_arg v of
        None \<Rightarrow> refuse (''invalid integer for '' @ option_name @ '': '' @ v)
      | Some n \<Rightarrow> f n)"

text \<open>One round of the loop: the argument, those after it and the options so far.\<close>

definition parse_option :: "string \<Rightarrow> string \<Rightarrow> string list \<Rightarrow> sim_main_args \<Rightarrow>
    parse_result + string list \<times> sim_main_args" where
  "parse_option program arg rest a =
     (if arg = ''-h'' \<or> arg = ''--help'' then Inl (Stop 0 (usage_text program) [])
      else if arg = ''--stop-pc'' then
        with_value arg rest (\<lambda>v. with_number arg v (\<lambda>n. Inr (a\<lparr>sa_stop_pc := Some n\<rparr>)))
      else if arg = ''--engine'' then
        with_value arg rest (\<lambda>v.
          if v \<noteq> ''ref'' \<and> v \<noteq> ''ca'' \<and> v \<noteq> ''compare'' then refuse (''invalid engine: '' @ v)
          else Inr (a\<lparr>sa_engine := v\<rparr>))
      else if arg = ''--bin'' then with_value arg rest (\<lambda>v. Inr (a\<lparr>sa_program_path := Some v\<rparr>))
      else if arg = ''--raw-base'' then
        with_value arg rest (\<lambda>v. with_number arg v (\<lambda>n. Inr (a\<lparr>sa_raw_base_address := n\<rparr>)))
      else if arg = ''--disasm'' then Inr (rest, a\<lparr>sa_enable_disassembly := True\<rparr>)
      else if arg = ''--disasm-only'' then
        Inr (rest, a\<lparr>sa_enable_disassembly := True, sa_disassembly_only := True\<rparr>)
      else if arg = ''--emit-minst-trace'' then
        with_value arg rest (\<lambda>v. Inr (a\<lparr>sa_emit_trace_path := Some v\<rparr>))
      else if arg = ''--result-dump'' then
        with_value arg rest (\<lambda>v. Inr (a\<lparr>sa_result_dump_path := Some v\<rparr>))
      else if arg = ''--result-address'' \<or> arg = ''--result-size'' then
        with_value arg rest (\<lambda>v. with_number arg v (\<lambda>n.
          if arg = ''--result-address'' then Inr (a\<lparr>sa_result_address := Some n\<rparr>)
          else Inr (a\<lparr>sa_result_size := Some n\<rparr>)))
      else if arg = ''--max-cycles'' then
        with_value arg rest (\<lambda>v. with_number arg v (\<lambda>n. Inr (a\<lparr>sa_max_cycles := Some n\<rparr>)))
      else if arg = ''--compare-window'' then
        with_value arg rest (\<lambda>v. with_number arg v (\<lambda>n.
          if n = 0 then refuse ''--compare-window must be > 0'' else Inr (a\<lparr>sa_compare_window := n\<rparr>)))
      else if arg = ''--no-reference'' then Inr (rest, a\<lparr>sa_enable_reference := False\<rparr>)
      else if arg = ''--no-pipeview'' then Inr (rest, a\<lparr>sa_enable_pipeview := False\<rparr>)
      else if arg = ''--no-report'' then Inr (rest, a\<lparr>sa_enable_report := False\<rparr>)
      else if arg = ''--log-level'' then
        with_value arg rest (\<lambda>v. case parse_log_level v of
          None \<Rightarrow> refuse (''invalid log level: '' @ v) | Some l \<Rightarrow> Inr (a\<lparr>sa_log_level := l\<rparr>))
      else if arg \<noteq> [] \<and> hd arg \<noteq> CHR ''-'' then
        (if sa_program_path a \<noteq> None then refuse ''multiple input binaries provided''
         else Inr (rest, a\<lparr>sa_program_path := Some arg\<rparr>))
      else refuse (''unknown option: '' @ arg))"

lemma with_value_rest: "with_value n rest f = Inr (rest', a) \<Longrightarrow> length rest' \<le> length rest"
  by (auto simp: with_value_def refuse_def split: list.splits sum.splits)

lemma Inl_not_Inr: "Inl x = Inr y \<Longrightarrow> Q" by simp

lemma refuse_not_Inr: "refuse msg = Inr y \<Longrightarrow> Q" by (simp add: refuse_def)

lemma same_rest: "Inr (rest, x) = Inr (rest', y) \<Longrightarrow> length rest' \<le> length rest" by simp

lemma parse_option_rest: "parse_option program arg rest a = Inr (rest', a') \<Longrightarrow> length rest' \<le> length rest"
  unfolding parse_option_def
  by (elim if_elim) (erule with_value_rest Inl_not_Inr refuse_not_Inr same_rest)+

function parse_options :: "string \<Rightarrow> string list \<Rightarrow> sim_main_args \<Rightarrow> parse_result" where
  "parse_options program [] a = Parsed a"
| "parse_options program (arg # rest) a =
     (case parse_option program arg rest a of
        Inl r \<Rightarrow> r | Inr (rest', a') \<Rightarrow> parse_options program rest' a')"
  by pat_completeness auto
termination
  by (relation "measure (\<lambda>(program, args, a). length args)") (auto dest: parse_option_rest)

definition result_option_count :: "sim_main_args \<Rightarrow> nat" where
  "result_option_count a = of_bool (sa_result_dump_path a \<noteq> None) + of_bool (sa_result_address a \<noteq> None) +
     of_bool (sa_result_size a \<noteq> None)"

definition check_result_options :: "sim_main_args \<Rightarrow> parse_result" where
  "check_result_options a =
     (if result_option_count a \<noteq> 0 \<and> result_option_count a \<noteq> 3 then
        Stop 1 [] (''--result-dump, --result-address, and --result-size must be specified together'' @ line_end)
      else if sa_result_size a = Some 0 then Stop 1 [] (''--result-size must be greater than zero'' @ line_end)
      else Parsed a)"

definition parse_sim_main_args :: "string \<Rightarrow> string list \<Rightarrow> parse_result" where
  "parse_sim_main_args program args =
     (case parse_options program args sim_main_args_default of
        Stop code out err \<Rightarrow> Stop code out err
      | Parsed a \<Rightarrow> check_result_options a)"

end
