(* ===== verification/Args_Claims.thy ===== *)
theory Args_Claims
  imports Sim_Args
begin

text \<open>
  The options that the parser can return, the command line that gives each of them, and how it
  refuses the others.
\<close>

section \<open>Numbers\<close>

lemma digit_char_facts:
  assumes "d < 10"
  shows "digit_of (digit_char d) = Some d" "\<not> is_space (digit_char d)"
    "digit_char d \<noteq> CHR ''+''" "digit_char d \<noteq> CHR ''-''" "digit_char d = CHR ''0'' \<longleftrightarrow> d = 0"
proof -
  have "d \<in> {0, 1, 2, 3, 4, 5, 6, 7, 8, 9}" using assms by (auto simp: less_Suc_eq numeral_eq_Suc)
  then have "digit_of (digit_char d) = Some d \<and> \<not> is_space (digit_char d) \<and> digit_char d \<noteq> CHR ''+'' \<and>
      digit_char d \<noteq> CHR ''-'' \<and> (digit_char d = CHR ''0'' \<longleftrightarrow> d = 0)"
    by (elim insertE emptyE) (simp_all add: digit_char_def digit_of_def is_space_def Let_def)
  then show "digit_of (digit_char d) = Some d" "\<not> is_space (digit_char d)"
    "digit_char d \<noteq> CHR ''+''" "digit_char d \<noteq> CHR ''-''" "digit_char d = CHR ''0'' \<longleftrightarrow> d = 0" by auto
qed

lemma digits_value_snoc: "digits_value b (ds @ [c]) = b * digits_value b ds + the (digit_of c)"
  by (simp add: digits_value_def)

lemma dec_text_digits:
  "digits_value 10 (dec_text n) = n \<and> (\<forall>c \<in> set (dec_text n). \<exists>d < 10. c = digit_char d) \<and>
   dec_text n \<noteq> [] \<and> (n > 0 \<longrightarrow> hd (dec_text n) \<noteq> CHR ''0'')"
proof (induction n rule: less_induct)
  case (less n)
  show ?case
  proof (cases "n < 10")
    case True
    then have "dec_text n = [digit_char n]" by (simp add: dec_text_def radix_text.simps [of 10 n])
    then show ?thesis using True digit_char_facts [OF True] by (auto simp: digits_value_def)
  next
    case False
    then have rec: "dec_text n = dec_text (n div 10) @ [digit_char (n mod 10)]"
      by (simp add: dec_text_def radix_text.simps [of 10 n])
    have "n div 10 < n" "n div 10 > 0" using False by auto
    from less.IH [OF this(1)] this(2) digit_char_facts [of "n mod 10"] show ?thesis
      unfolding rec digits_value_snoc by (auto intro: exI [of _ "n mod 10"])
  qed
qed

lemma stoull_dec: "n < 2 ^ 64 \<Longrightarrow> stoull (dec_text n) = Some (of_nat n, length (dec_text n))"
proof -
  assume n: "n < 2 ^ 64"
  obtain c cs where text_eq: "dec_text n = c # cs" using dec_text_digits [of n] by (cases "dec_text n") auto
  have all: "\<forall>x \<in> set (c # cs). \<exists>d < 10. x = digit_char d" using dec_text_digits [of n] by (simp add: text_eq)
  then obtain d where d: "d < 10" "c = digit_char d" by auto
  have sp: "takeWhile is_space (c # cs) = []" using digit_char_facts(2) [OF d(1)] d by simp
  have sg: "c \<noteq> CHR ''+''" "c \<noteq> CHR ''-''" using digit_char_facts(3,4) [OF d(1)] d by auto
  show ?thesis
  proof (cases "n = 0")
    case True
    then have "dec_text n = ''0''" by (simp add: dec_text_def radix_text.simps [of 10 0] digit_char_def)
    then show ?thesis using True
      by (simp add: stoull_def skip_prefix_def is_space_def is_digit_def digit_of_def digits_value_def)
  next
    case False
    then have c0: "c \<noteq> CHR ''0''" using dec_text_digits [of n] by (simp add: text_eq)
    have pre: "skip_prefix (c # cs) = (10, 0)" using c0 by (auto simp: skip_prefix_def split: list.split char.split bool.split)
    have "takeWhile (is_digit 10) (c # cs) = c # cs"
      using all digit_char_facts(1) by (intro takeWhile_eq_all_conv [THEN iffD2]) (auto simp: is_digit_def)
    moreover have "digits_value 10 (c # cs) = n" using dec_text_digits [of n] by (simp add: text_eq)
    ultimately show ?thesis using n sp sg pre by (simp add: stoull_def text_eq Let_def)
  qed
qed

lemma parse_unsigned_dec [simp]: "parse_unsigned_arg (dec_text (unat (n :: u64))) = Some n"
proof -
  have "unat n < 2 ^ LENGTH(64)" by (rule unsigned_less)
  then have "unat n < 2 ^ 64" by simp
  then show ?thesis by (simp add: parse_unsigned_arg_def stoull_dec)
qed

section \<open>The options that can be returned\<close>

definition options_ok :: "sim_main_args \<Rightarrow> bool" where
  "options_ok a \<longleftrightarrow> sa_engine a \<in> {''ref'', ''ca'', ''compare''} \<and> sa_compare_window a \<noteq> 0 \<and>
     (sa_disassembly_only a \<longrightarrow> sa_enable_disassembly a)"

definition valid_args :: "sim_main_args \<Rightarrow> bool" where
  "valid_args a \<longleftrightarrow> options_ok a \<and> sa_result_size a \<noteq> Some 0 \<and>
     (sa_result_dump_path a = None) = (sa_result_size a = None) \<and>
     (sa_result_address a = None) = (sa_result_size a = None)"

lemma with_value_ok:
  "with_value n rest f = Inr (rest', a') \<Longrightarrow> (\<And>v b. f v = Inr b \<Longrightarrow> options_ok b) \<Longrightarrow> options_ok a'"
  by (auto simp: with_value_def refuse_def split: list.splits sum.splits)

lemma with_number_ok: "with_number n v f = Inr b \<Longrightarrow> (\<And>k c. f k = Inr c \<Longrightarrow> options_ok c) \<Longrightarrow> options_ok b"
  by (auto simp: with_number_def refuse_def split: option.splits)

lemma options_ok_updates:
  "options_ok (a\<lparr>sa_stop_pc := o1\<rparr>) = options_ok a" "options_ok (a\<lparr>sa_max_cycles := o1\<rparr>) = options_ok a"
  "options_ok (a\<lparr>sa_program_path := o2\<rparr>) = options_ok a" "options_ok (a\<lparr>sa_raw_base_address := n\<rparr>) = options_ok a"
  "options_ok (a\<lparr>sa_emit_trace_path := o2\<rparr>) = options_ok a" "options_ok (a\<lparr>sa_result_dump_path := o2\<rparr>) = options_ok a"
  "options_ok (a\<lparr>sa_result_address := o1\<rparr>) = options_ok a" "options_ok (a\<lparr>sa_result_size := o1\<rparr>) = options_ok a"
  "options_ok (a\<lparr>sa_enable_reference := b\<rparr>) = options_ok a" "options_ok (a\<lparr>sa_enable_pipeview := b\<rparr>) = options_ok a"
  "options_ok (a\<lparr>sa_enable_report := b\<rparr>) = options_ok a" "options_ok (a\<lparr>sa_log_level := l\<rparr>) = options_ok a"
  "options_ok a \<Longrightarrow> options_ok (a\<lparr>sa_enable_disassembly := True\<rparr>)"
  "options_ok a \<Longrightarrow> options_ok (a\<lparr>sa_enable_disassembly := True, sa_disassembly_only := True\<rparr>)"
  "options_ok a \<Longrightarrow> n \<noteq> 0 \<Longrightarrow> options_ok (a\<lparr>sa_compare_window := n\<rparr>)"
  "options_ok a \<Longrightarrow> \<not> (v \<noteq> ''ref'' \<and> v \<noteq> ''ca'' \<and> v \<noteq> ''compare'') \<Longrightarrow> options_ok (a\<lparr>sa_engine := v\<rparr>)"
  by (auto simp: options_ok_def)

lemma Inr_ok: "Inr x = Inr y \<Longrightarrow> options_ok x \<Longrightarrow> options_ok y" by simp

lemma pair_ok: "Inr (r, x) = Inr (r', y) \<Longrightarrow> options_ok x \<Longrightarrow> options_ok y" by simp

lemma option_elim:
  "(case x of None \<Rightarrow> u | Some l \<Rightarrow> g l) = z \<Longrightarrow> (u = z \<Longrightarrow> Q) \<Longrightarrow> (\<And>l. g l = z \<Longrightarrow> Q) \<Longrightarrow> Q"
  by (cases x) auto

lemma parse_option_ok:
  assumes "parse_option program arg rest a = Inr (rest', a')" and ok: "options_ok a"
  shows "options_ok a'"
  using assms(1) unfolding parse_option_def
  by (elim if_elim)
    (erule Inl_not_Inr refuse_not_Inr if_elim option_elim with_value_ok with_number_ok pair_ok Inr_ok |
     rule options_ok_updates(13-16) [OF ok] options_ok_updates(1-12) [THEN iffD2, OF ok] | assumption)+

text \<open>How the parser stops: help with code 0, or a message with code 1.\<close>

definition stops_with :: "string \<Rightarrow> parse_result \<Rightarrow> bool" where
  "stops_with program r \<longleftrightarrow> r = Stop 0 (usage_text program) [] \<or> (\<exists>msg. r = Stop 1 [] (msg @ line_end))"

lemma refuse_stops: "refuse msg = Inl r \<Longrightarrow> stops_with program r"
  by (auto simp: refuse_def stops_with_def)

lemma with_value_stops:
  "with_value n rest f = Inl r \<Longrightarrow> (\<And>v. f v = Inl r \<Longrightarrow> stops_with program r) \<Longrightarrow> stops_with program r"
  by (auto simp: with_value_def split: list.splits sum.splits intro: refuse_stops)

lemma with_number_stops:
  "with_number n v f = Inl r \<Longrightarrow> (\<And>k. f k = Inl r \<Longrightarrow> stops_with program r) \<Longrightarrow> stops_with program r"
  by (auto simp: with_number_def split: option.splits intro: refuse_stops)

lemma Inr_not_Inl: "Inr x = Inl y \<Longrightarrow> Q" by simp

lemma usage_stops: "Inl (Stop 0 (usage_text program) []) = Inl r \<Longrightarrow> stops_with program r"
  by (auto simp: stops_with_def)

lemma parse_option_stops: "parse_option program arg rest a = Inl r \<Longrightarrow> stops_with program r"
  unfolding parse_option_def
  by (elim if_elim)
    (erule Inr_not_Inl usage_stops refuse_stops if_elim option_elim with_value_stops with_number_stops)+

lemma parse_options_result:
  "options_ok a \<Longrightarrow> (case parse_options program args a of Parsed b \<Rightarrow> options_ok b | r \<Rightarrow> stops_with program r)"
proof (induction program args a rule: parse_options.induct)
  case (1 program a)
  then show ?case by simp
next
  case (2 program arg rest a)
  show ?case
  proof (cases "parse_option program arg rest a")
    case (Inl r)
    then show ?thesis using parse_option_stops [OF Inl] by (auto simp: stops_with_def)
  next
    case (Inr b)
    obtain rest' a' where b: "b = (rest', a')" by (cases b)
    have "options_ok a'" using parse_option_ok Inr 2(2) unfolding b by blast
    from 2(1) [OF Inr b [symmetric] this] show ?thesis by (simp add: Inr b)
  qed
qed

lemma check_result_ok: "options_ok a \<Longrightarrow> check_result_options a = Parsed b \<longleftrightarrow> b = a \<and> valid_args a"
  by (cases "sa_result_dump_path a"; cases "sa_result_address a"; cases "sa_result_size a")
    (auto simp: check_result_options_def result_option_count_def valid_args_def)

lemma check_result_stops: "check_result_options a = Stop c out err \<Longrightarrow> stops_with program (Stop c out err)"
  by (auto simp: check_result_options_def stops_with_def split: if_splits)

lemma options_ok_default: "options_ok sim_main_args_default"
  by (simp add: options_ok_def sim_main_args_default_def)

lemma parse_result_cases:
  "case parse_sim_main_args program args of Parsed a \<Rightarrow> valid_args a | r \<Rightarrow> stops_with program r"
proof (cases "parse_options program args sim_main_args_default")
  case (Parsed a)
  then have "options_ok a" using parse_options_result [OF options_ok_default, of program args] by simp
  then show ?thesis
    using check_result_ok [of a] check_result_stops [of a]
    by (auto simp: parse_sim_main_args_def Parsed split: parse_result.split)
next
  case (Stop c out err)
  then show ?thesis
    using parse_options_result [OF options_ok_default, of program args] by (simp add: parse_sim_main_args_def)
qed

section \<open>A command line for every valid option set\<close>

definition value_option :: "string \<Rightarrow> ('a \<Rightarrow> string) \<Rightarrow> 'a option \<Rightarrow> string list" where
  "value_option name f x = (case x of None \<Rightarrow> [] | Some v \<Rightarrow> [name, f v])"

definition number_text :: "u64 \<Rightarrow> string" where
  "number_text n = dec_text (unat n)"

definition flag_option :: "string \<Rightarrow> bool \<Rightarrow> string list" where
  "flag_option name b = (if b then [name] else [])"

definition command_line :: "sim_main_args \<Rightarrow> string list" where
  "command_line a =
     [''--engine'', sa_engine a] @ value_option ''--emit-minst-trace'' id (sa_emit_trace_path a) @
     value_option ''--result-dump'' id (sa_result_dump_path a) @
     value_option ''--result-address'' number_text (sa_result_address a) @
     value_option ''--result-size'' number_text (sa_result_size a) @
     value_option ''--stop-pc'' number_text (sa_stop_pc a) @
     value_option ''--max-cycles'' number_text (sa_max_cycles a) @
     [''--compare-window'', number_text (sa_compare_window a)] @
     value_option ''--bin'' id (sa_program_path a) @
     [''--raw-base'', number_text (sa_raw_base_address a), ''--log-level'', level_option (sa_log_level a)] @
     flag_option ''--no-reference'' (\<not> sa_enable_reference a) @
     flag_option ''--no-pipeview'' (\<not> sa_enable_pipeview a) @
     flag_option ''--no-report'' (\<not> sa_enable_report a) @
     flag_option ''--disasm'' (sa_enable_disassembly a) @
     flag_option ''--disasm-only'' (sa_disassembly_only a)"

text \<open>What each option of such a line does.\<close>

lemma option_steps:
  "parse_option program ''--engine'' (v # rest) a =
     (if v \<in> {''ref'', ''ca'', ''compare''} then Inr (rest, a\<lparr>sa_engine := v\<rparr>) else refuse (''invalid engine: '' @ v))"
  "parse_option program ''--emit-minst-trace'' (v # rest) a = Inr (rest, a\<lparr>sa_emit_trace_path := Some v\<rparr>)"
  "parse_option program ''--result-dump'' (v # rest) a = Inr (rest, a\<lparr>sa_result_dump_path := Some v\<rparr>)"
  "parse_option program ''--result-address'' (number_text n # rest) a = Inr (rest, a\<lparr>sa_result_address := Some n\<rparr>)"
  "parse_option program ''--result-size'' (number_text n # rest) a = Inr (rest, a\<lparr>sa_result_size := Some n\<rparr>)"
  "parse_option program ''--stop-pc'' (number_text n # rest) a = Inr (rest, a\<lparr>sa_stop_pc := Some n\<rparr>)"
  "parse_option program ''--max-cycles'' (number_text n # rest) a = Inr (rest, a\<lparr>sa_max_cycles := Some n\<rparr>)"
  "n \<noteq> 0 \<Longrightarrow> parse_option program ''--compare-window'' (number_text n # rest) a = Inr (rest, a\<lparr>sa_compare_window := n\<rparr>)"
  "parse_option program ''--bin'' (v # rest) a = Inr (rest, a\<lparr>sa_program_path := Some v\<rparr>)"
  "parse_option program ''--raw-base'' (number_text n # rest) a = Inr (rest, a\<lparr>sa_raw_base_address := n\<rparr>)"
  "parse_option program ''--log-level'' (level_option l # rest) a = Inr (rest, a\<lparr>sa_log_level := l\<rparr>)"
  "parse_option program ''--no-reference'' rest a = Inr (rest, a\<lparr>sa_enable_reference := False\<rparr>)"
  "parse_option program ''--no-pipeview'' rest a = Inr (rest, a\<lparr>sa_enable_pipeview := False\<rparr>)"
  "parse_option program ''--no-report'' rest a = Inr (rest, a\<lparr>sa_enable_report := False\<rparr>)"
  "parse_option program ''--disasm'' rest a = Inr (rest, a\<lparr>sa_enable_disassembly := True\<rparr>)"
  "parse_option program ''--disasm-only'' rest a =
     Inr (rest, a\<lparr>sa_enable_disassembly := True, sa_disassembly_only := True\<rparr>)"
  by (simp_all add: parse_option_def with_value_def with_number_def number_text_def refuse_def)

lemma parse_value_option:
  assumes "\<And>v rest a. parse_option program name (f v # rest) a = Inr (rest, upd v a)"
  shows "parse_options program (value_option name f x @ rest) a =
    parse_options program rest (case x of None \<Rightarrow> a | Some v \<Rightarrow> upd v a)"
  using assms by (cases x) (simp_all add: value_option_def)

lemma parse_flag_option:
  assumes "\<And>rest a. parse_option program name rest a = Inr (rest, upd a)"
  shows "parse_options program (flag_option name b @ rest) a = parse_options program rest (if b then upd a else a)"
  using assms by (simp add: flag_option_def)

lemma value_blocks:
  "sa_emit_trace_path b = None \<Longrightarrow> parse_options program (value_option ''--emit-minst-trace'' id x @ rest) b =
     parse_options program rest (b\<lparr>sa_emit_trace_path := x\<rparr>)"
  "sa_result_dump_path b = None \<Longrightarrow> parse_options program (value_option ''--result-dump'' id x @ rest) b =
     parse_options program rest (b\<lparr>sa_result_dump_path := x\<rparr>)"
  "sa_program_path b = None \<Longrightarrow> parse_options program (value_option ''--bin'' id x @ rest) b =
     parse_options program rest (b\<lparr>sa_program_path := x\<rparr>)"
  "sa_result_address b = None \<Longrightarrow> parse_options program (value_option ''--result-address'' number_text y @ rest) b =
     parse_options program rest (b\<lparr>sa_result_address := y\<rparr>)"
  "sa_result_size b = None \<Longrightarrow> parse_options program (value_option ''--result-size'' number_text y @ rest) b =
     parse_options program rest (b\<lparr>sa_result_size := y\<rparr>)"
  "sa_stop_pc b = None \<Longrightarrow> parse_options program (value_option ''--stop-pc'' number_text y @ rest) b =
     parse_options program rest (b\<lparr>sa_stop_pc := y\<rparr>)"
  "sa_max_cycles b = None \<Longrightarrow> parse_options program (value_option ''--max-cycles'' number_text y @ rest) b =
     parse_options program rest (b\<lparr>sa_max_cycles := y\<rparr>)"
  by (cases b; cases x; cases y; simp add: value_option_def option_steps)+

lemma flag_blocks:
  "sa_enable_reference b \<Longrightarrow> parse_options program (flag_option ''--no-reference'' (\<not> e) @ rest) b =
     parse_options program rest (b\<lparr>sa_enable_reference := e\<rparr>)"
  "sa_enable_pipeview b \<Longrightarrow> parse_options program (flag_option ''--no-pipeview'' (\<not> e) @ rest) b =
     parse_options program rest (b\<lparr>sa_enable_pipeview := e\<rparr>)"
  "sa_enable_report b \<Longrightarrow> parse_options program (flag_option ''--no-report'' (\<not> e) @ rest) b =
     parse_options program rest (b\<lparr>sa_enable_report := e\<rparr>)"
  "\<not> sa_enable_disassembly b \<Longrightarrow> parse_options program (flag_option ''--disasm'' e @ rest) b =
     parse_options program rest (b\<lparr>sa_enable_disassembly := e\<rparr>)"
  "\<not> sa_disassembly_only b \<Longrightarrow> (e \<longrightarrow> sa_enable_disassembly b) \<Longrightarrow>
     parse_options program (flag_option ''--disasm-only'' e) b = Parsed (b\<lparr>sa_disassembly_only := e\<rparr>)"
  by (cases b; cases e; simp add: flag_option_def option_steps)+

lemma command_line_parses:
  assumes "valid_args a"
  shows "parse_options program (command_line a) sim_main_args_default = Parsed a"
proof -
  have ok: "sa_engine a \<in> {''ref'', ''ca'', ''compare''}" "sa_compare_window a \<noteq> 0"
    "sa_disassembly_only a \<longrightarrow> sa_enable_disassembly a"
    using assms by (auto simp: valid_args_def options_ok_def)
  show ?thesis
    unfolding command_line_def sim_main_args_default_def
    using ok by (simp add: option_steps value_blocks flag_blocks)
qed

text \<open>C24: the options that the parser can return are exactly the consistent ones: one of the three engines, a
  compare window above zero, the three result options together or not at all with a size above zero,
  and \<open>--disasm-only\<close> only with disassembly.  For each of them \<open>command_line\<close> is a command line that
  gives it, with every number written in decimal.\<close>
theorem parser_returns_exactly_valid_options:
  "((\<exists>args. parse_sim_main_args program args = Parsed a) = valid_args a) \<and>
   (parse_sim_main_args program (command_line a) = Parsed a) = valid_args a"
proof -
  have only_valid: "valid_args a" if "parse_sim_main_args program args = Parsed a" for args
    using parse_result_cases [of program args] that by simp
  have "parse_sim_main_args program (command_line a) = Parsed a" if v: "valid_args a"
    using command_line_parses [OF v] check_result_ok [of a a] v
    by (simp add: parse_sim_main_args_def valid_args_def [of a])
  with only_valid show ?thesis by blast
qed

text \<open>The parser always ends in one of three ways: options, the help text on the output with code 0, or
  an error text with code 1 and nothing on the output.\<close>
lemma parser_outcomes:
  "parse_sim_main_args program args \<in> Parsed ` {a. valid_args a} \<union> {Stop 0 (usage_text program) []} \<union>
     (\<lambda>msg. Stop 1 [] (msg @ line_end)) ` UNIV"
  using parse_result_cases [of program args]
  by (cases "parse_sim_main_args program args") (auto simp: stops_with_def)

text \<open>The number syntax of the addresses and counts takes more than the decimal and hexadecimal that the help
  text promises: a leading zero makes the number octal, and a minus sign is accepted and wraps, so that
  \<open>--max-cycles -1\<close> asks for \<open>2 ^ 64 - 1\<close> cycles.\<close>
lemma number_syntax_surprises:
  "parse_unsigned_arg ''0x10'' = Some 16 \<and> parse_unsigned_arg ''10'' = Some 10 \<and>
   parse_unsigned_arg ''010'' = Some 8 \<and> parse_unsigned_arg ''-1'' = Some (- 1) \<and>
   parse_unsigned_arg ''08'' = None \<and> parse_unsigned_arg ''18446744073709551616'' = None \<and>
   parse_sim_main_args ''sim'' [''--max-cycles'', ''-1''] =
     Parsed (sim_main_args_default\<lparr>sa_max_cycles := Some (- 1)\<rparr>)"
proof -
  have m: "parse_unsigned_arg ''-1'' = Some (- 1)"
    by (simp add: parse_unsigned_arg_def stoull_def skip_prefix_def is_space_def is_digit_def digit_of_def digits_value_def)
  have "parse_sim_main_args ''sim'' [''--max-cycles'', ''-1''] =
     Parsed (sim_main_args_default\<lparr>sa_max_cycles := Some (- 1)\<rparr>)"
    by (simp add: parse_sim_main_args_def parse_option_def with_value_def with_number_def m
        check_result_options_def result_option_count_def sim_main_args_default_def)
  with m show ?thesis
    by (simp add: parse_unsigned_arg_def stoull_def skip_prefix_def is_space_def is_digit_def digit_of_def digits_value_def)
qed

end
