(* ===== verification/Module_Ports.thy ===== *)
theory Module_Ports
  imports Sim_Queue Text_Format
begin

text \<open>
  One module of the tree without its children: its port lists, queue slots and event state
  (\<^verbatim>\<open>Module\<close> of \<^verbatim>\<open>include/linx/model/module.hpp\<close>, \<^verbatim>\<open>port_info.hpp\<close>), how ports are described and bound, and
  the validation report (\<^verbatim>\<open>validation.hpp\<close>, \<^verbatim>\<open>src/validation.cpp\<close>).

  A pointer to a queue is an index into the list of all queues, \<open>None\<close> the null pointer; queues are
  created at the end of the list and never destroyed while modules run, so an index stays valid.
\<close>

section \<open>Ports\<close>

datatype port_direction = Dir_Input | Dir_Output | Dir_Inner

fun direction_text :: "port_direction \<Rightarrow> string" where
  "direction_text Dir_Input = ''input''"
| "direction_text Dir_Output = ''output''"
| "direction_text Dir_Inner = ''inner''"

record port_info =
  pt_index :: nat
  pt_direction :: port_direction
  pt_name :: string
  pt_description :: string

type_synonym qid = nat

type_synonym 'p queues = "'p sim_queue list"

text \<open>The members of a module; \<open>'l\<close> is the state that the derived class adds.  The active submodules are
  the indices of children; \<open>mn_runtime\<close> says whether \<^verbatim>\<open>AttachRuntime\<close> gave it the logger and cycle.\<close>

record 'l module_node =
  mn_name :: string
  mn_inputs :: "qid option list"
  mn_outputs :: "qid option list"
  mn_inners :: "qid option list"
  mn_owned :: "qid list"
  mn_input_ports :: "port_info list"
  mn_output_ports :: "port_info list"
  mn_inner_ports :: "port_info list"
  mn_seen_inputs :: "u64 list"
  mn_seen_inners :: "u64 list"
  mn_active :: "nat list"
  mn_built :: bool
  mn_require_io :: bool
  mn_force :: bool
  mn_ran :: bool
  mn_runtime :: bool
  mn_local :: 'l

definition module_new :: "string \<Rightarrow> 'l \<Rightarrow> 'l module_node" where
  "module_new name l = \<lparr>mn_name = name, mn_inputs = [], mn_outputs = [], mn_inners = [], mn_owned = [],
     mn_input_ports = [], mn_output_ports = [], mn_inner_ports = [], mn_seen_inputs = [],
     mn_seen_inners = [], mn_active = [], mn_built = False, mn_require_io = True, mn_force = False,
     mn_ran = False, mn_runtime = False, mn_local = l\<rparr>"

text \<open>The three pairs of port list and slot list.\<close>

fun slots :: "port_direction \<Rightarrow> 'l module_node \<Rightarrow> qid option list" where
  "slots Dir_Input n = mn_inputs n"
| "slots Dir_Output n = mn_outputs n"
| "slots Dir_Inner n = mn_inners n"

fun set_slots :: "port_direction \<Rightarrow> qid option list \<Rightarrow> 'l module_node \<Rightarrow> 'l module_node" where
  "set_slots Dir_Input qs n = n\<lparr>mn_inputs := qs\<rparr>"
| "set_slots Dir_Output qs n = n\<lparr>mn_outputs := qs\<rparr>"
| "set_slots Dir_Inner qs n = n\<lparr>mn_inners := qs\<rparr>"

fun ports :: "port_direction \<Rightarrow> 'l module_node \<Rightarrow> port_info list" where
  "ports Dir_Input n = mn_input_ports n"
| "ports Dir_Output n = mn_output_ports n"
| "ports Dir_Inner n = mn_inner_ports n"

fun set_ports :: "port_direction \<Rightarrow> port_info list \<Rightarrow> 'l module_node \<Rightarrow> 'l module_node" where
  "set_ports Dir_Input ps n = n\<lparr>mn_input_ports := ps\<rparr>"
| "set_ports Dir_Output ps n = n\<lparr>mn_output_ports := ps\<rparr>"
| "set_ports Dir_Inner ps n = n\<lparr>mn_inner_ports := ps\<rparr>"

lemma slots_ports_simps [simp]:
  "slots d (set_slots e qs n) = (if d = e then qs else slots d n)" "slots d (set_ports e ps n) = slots d n"
  "ports d (set_ports e ps n) = (if d = e then ps else ports d n)" "ports d (set_slots e qs n) = ports d n"
  by (cases d; cases e; simp)+

definition resize :: "nat \<Rightarrow> 'a \<Rightarrow> 'a list \<Rightarrow> 'a list" where
  "resize n x xs = take n xs @ replicate (n - length xs) x"

definition describe_port :: "port_direction \<Rightarrow> string \<Rightarrow> string \<Rightarrow> 'l module_node \<Rightarrow> nat \<times> 'l module_node" where
  "describe_port d name description n =
     (let idx = length (ports d n);
          n = set_ports d (ports d n @ [\<lparr>pt_index = idx, pt_direction = d, pt_name = name,
                pt_description = description\<rparr>]) n
      in (idx, set_slots d (resize (idx + 1) None (slots d n)) n))"

definition contains_queue :: "qid option list \<Rightarrow> qid option \<Rightarrow> bool" where
  "contains_queue qs q \<longleftrightarrow> q \<in> set qs"

definition assert_role_slot_bindable :: "qid option \<Rightarrow> qid option \<Rightarrow> 'l module_node \<Rightarrow> unit outcome" where
  "assert_role_slot_bindable q current_slot n =
     obind (check_that (q \<noteq> None)) (\<lambda>_.
       if current_slot = q then Inr ()
       else obind (check_that (\<not> contains_queue (mn_inputs n) q)) (\<lambda>_.
            obind (check_that (\<not> contains_queue (mn_outputs n) q)) (\<lambda>_.
              check_that (\<not> contains_queue (mn_inners n) q))))"

definition bind_port :: "port_direction \<Rightarrow> nat \<Rightarrow> qid option \<Rightarrow> 'l module_node \<Rightarrow> 'l module_node outcome" where
  "bind_port d idx q n =
     obind (check_that (q \<noteq> None)) (\<lambda>_.
     obind (check_that (idx < length (slots d n))) (\<lambda>_.
     obind (assert_role_slot_bindable q (slots d n ! idx) n) (\<lambda>_.
       Inr (set_slots d ((slots d n)[idx := q]) n))))"

text \<open>\<^verbatim>\<open>AddInput\<close>, \<^verbatim>\<open>AddOutput\<close> and \<^verbatim>\<open>AddInner\<close>: when binding fails, the port stays described.\<close>

definition add_port :: "port_direction \<Rightarrow> qid option \<Rightarrow> string \<Rightarrow> string \<Rightarrow> 'l module_node \<Rightarrow>
    'l module_node \<times> unit outcome" where
  "add_port d q name description n =
     (case describe_port d name description n of (idx, n) \<Rightarrow>
        (case bind_port d idx q n of Inl e \<Rightarrow> (n, Inl e) | Inr n \<Rightarrow> (n, Inr ())))"

text \<open>\<^verbatim>\<open>Input(idx)\<close>, \<^verbatim>\<open>Output(idx)\<close>, \<^verbatim>\<open>Inner(idx)\<close> and the port information.\<close>

definition port_queue :: "port_direction \<Rightarrow> nat \<Rightarrow> 'l module_node \<Rightarrow> qid outcome" where
  "port_queue d idx n =
     obind (check_that (idx < length (slots d n))) (\<lambda>_.
       case slots d n ! idx of None \<Rightarrow> Inl Assert_Failed | Some q \<Rightarrow> Inr q)"

definition get_port_info :: "port_direction \<Rightarrow> nat \<Rightarrow> 'l module_node \<Rightarrow> port_info outcome" where
  "get_port_info d idx n = obind (check_that (idx < length (ports d n))) (\<lambda>_. Inr (ports d n ! idx))"

definition owned_queue :: "nat \<Rightarrow> 'l module_node \<Rightarrow> qid outcome" where
  "owned_queue idx n = obind (check_that (idx < length (mn_owned n))) (\<lambda>_. Inr (mn_owned n ! idx))"

definition create_owned_queue :: "nat \<Rightarrow> u32 \<Rightarrow> 'l module_node \<Rightarrow> 'p queues \<Rightarrow>
    (qid \<times> 'l module_node \<times> 'p queues) outcome" where
  "create_owned_queue max_size lat n g =
     obind (sq_new max_size lat) (\<lambda>q.
       Inr (length g, n\<lparr>mn_owned := mn_owned n @ [length g]\<rparr>, g @ [q]))"

definition set_require_io :: "bool \<Rightarrow> 'l module_node \<Rightarrow> 'l module_node" where
  "set_require_io enabled n = n\<lparr>mn_require_io := enabled\<rparr>"

definition request_activation :: "'l module_node \<Rightarrow> 'l module_node" where
  "request_activation n = n\<lparr>mn_force := True\<rparr>"

definition attach_runtime :: "bool \<Rightarrow> 'l module_node \<Rightarrow> 'l module_node" where
  "attach_runtime r n = n\<lparr>mn_runtime := r\<rparr>"

section \<open>Sequences of port operations\<close>

text \<open>The public operations that change ports; a refused one throws, and the caller may go on.\<close>

datatype port_op =
    Describe port_direction string string
  | Bind port_direction nat "qid option"
  | Add port_direction "qid option" string string

fun port_step :: "port_op \<Rightarrow> 'l module_node \<Rightarrow> 'l module_node" where
  "port_step (Describe d name description) n = snd (describe_port d name description n)"
| "port_step (Bind d idx q) n = (case bind_port d idx q n of Inl e \<Rightarrow> n | Inr n' \<Rightarrow> n')"
| "port_step (Add d q name description) n = fst (add_port d q name description n)"

definition port_run :: "port_op list \<Rightarrow> 'l module_node \<Rightarrow> 'l module_node" where
  "port_run = fold port_step"

text \<open>The invariant: every port has its own index and direction and one slot, and no queue is bound to
  two slots of the module, whatever their role.\<close>

definition bound_queues :: "'l module_node \<Rightarrow> qid option list" where
  "bound_queues n = filter (\<lambda>q. q \<noteq> None) (mn_inputs n @ mn_outputs n @ mn_inners n)"

definition port_list_ok :: "port_direction \<Rightarrow> 'l module_node \<Rightarrow> bool" where
  "port_list_ok d n \<longleftrightarrow> length (slots d n) = length (ports d n) \<and>
     map pt_index (ports d n) = [0..<length (ports d n)] \<and> (\<forall>p \<in> set (ports d n). pt_direction p = d)"

definition ports_inv :: "'l module_node \<Rightarrow> bool" where
  "ports_inv n \<longleftrightarrow> (\<forall>d. port_list_ok d n) \<and> distinct (bound_queues n)"

lemma ports_inv_new: "ports_inv (module_new name l)"
proof -
  have "port_list_ok d (module_new name l)" for d
    by (cases d) (simp_all add: port_list_ok_def module_new_def)
  then show ?thesis by (simp add: ports_inv_def bound_queues_def module_new_def)
qed

lemma bound_queues_describe:
  assumes "\<And>d. port_list_ok d n"
  shows "bound_queues (snd (describe_port d name description n)) = bound_queues n"
  using assms [of d]
  by (cases d) (simp_all add: describe_port_def Let_def bound_queues_def resize_def port_list_ok_def)

lemma ports_inv_describe: "ports_inv n \<Longrightarrow> ports_inv (snd (describe_port d name description n))"
proof -
  assume inv: "ports_inv n"
  have "port_list_ok e (snd (describe_port d name description n))" for e
    using inv by (cases "e = d") (auto simp: ports_inv_def port_list_ok_def describe_port_def Let_def resize_def)
  then show ?thesis using inv bound_queues_describe [of n d name description] by (simp add: ports_inv_def)
qed

lemma bind_ok_iff:
  "bind_port d idx q n = Inr n' \<longleftrightarrow>
     q \<noteq> None \<and> idx < length (slots d n) \<and> (slots d n ! idx = q \<or> q \<notin> set (bound_queues n)) \<and>
     n' = set_slots d ((slots d n)[idx := q]) n"
  by (auto simp: bind_port_def assert_role_slot_bindable_def contains_queue_def bound_queues_def check_that_def
      split: if_split_asm)

lemma distinct_update_slot:
  assumes "distinct (filter P xs)" "i < length xs" "q \<notin> set (filter P xs)"
  shows "distinct (filter P (xs[i := q]))"
proof -
  have "xs[i := q] = take i xs @ q # drop (Suc i) xs" using assms(2) by (rule upd_conv_take_nth_drop)
  moreover have xs: "filter P xs = filter P (take i xs) @ filter P [xs ! i] @ filter P (drop (Suc i) xs)"
    using id_take_nth_drop [OF assms(2)] by (metis append_Cons append_Nil filter_append)
  ultimately show ?thesis using assms(1,3) by (auto split: if_split_asm)
qed

lemma set_filter_update: "set (filter P (xs[i := q])) \<subseteq> insert q (set (filter P xs))"
  using set_update_subset_insert [of xs i q] by auto

lemma bound_queues_bind:
  assumes "distinct (bound_queues n)" "idx < length (slots d n)" "q \<notin> set (bound_queues n)"
  shows "distinct (bound_queues (set_slots d ((slots d n)[idx := q]) n))"
proof -
  let ?P = "\<lambda>q. q \<noteq> None"
  note upd = distinct_update_slot [where P = ?P, of "slots d n" idx q]
    and sub = set_filter_update [where P = ?P, of "slots d n" idx q]
  show ?thesis using assms upd sub
    by (cases d) (simp_all add: bound_queues_def del: set_filter, blast+)
qed

lemma ports_inv_bind: "ports_inv n \<Longrightarrow> bind_port d idx q n = Inr n' \<Longrightarrow> ports_inv n'"
proof -
  assume inv: "ports_inv n" and bind: "bind_port d idx q n = Inr n'"
  then have n': "n' = set_slots d ((slots d n)[idx := q]) n" and idx: "idx < length (slots d n)"
    and q: "slots d n ! idx = q \<or> q \<notin> set (bound_queues n)" by (auto simp: bind_ok_iff)
  have "port_list_ok e n'" for e
    using inv by (cases "e = d") (auto simp: ports_inv_def port_list_ok_def n')
  moreover have "distinct (bound_queues n')"
  proof (cases "slots d n ! idx = q")
    case True
    then have "(slots d n)[idx := q] = slots d n" by auto
    then have "bound_queues n' = bound_queues n" by (cases d) (simp_all add: n' bound_queues_def)
    with inv show ?thesis by (simp add: ports_inv_def)
  next
    case False
    with q idx inv bound_queues_bind show ?thesis unfolding n' ports_inv_def by blast
  qed
  ultimately show ?thesis by (simp add: ports_inv_def)
qed

lemma ports_inv_described: "ports_inv n \<Longrightarrow> describe_port d name description n = (idx, n') \<Longrightarrow> ports_inv n'"
  using ports_inv_describe [of n d name description] by simp

lemma ports_inv_step: "ports_inv n \<Longrightarrow> ports_inv (port_step op n)"
  by (cases op)
    (auto simp: add_port_def split: sum.split prod.split
      dest: ports_inv_described ports_inv_bind intro: ports_inv_describe)

lemma ports_inv_run: "ports_inv n \<Longrightarrow> ports_inv (port_run ops n)"
  by (induction ops arbitrary: n) (simp_all add: port_run_def ports_inv_step)

text \<open>C25: after any sequence of describing, binding and adding ports on a new module, refused operations
  included, every port has its own position and direction, every role has one slot for each port, and
  no queue is bound to two slots, be it in one role or in different ones.  A bind succeeds exactly
  for a slot that exists and a queue that is not null and is bound to no slot, or to that slot already.\<close>
theorem port_roles_exclusive:
  "ports_inv (port_run ops (module_new name l)) \<and>
   ((\<exists>n'. bind_port d idx q n = Inr n') =
     (q \<noteq> None \<and> idx < length (slots d n) \<and> q \<in> {slots d n ! idx} \<union> - set (bound_queues n)))"
  using ports_inv_run [OF ports_inv_new] by (auto simp: bind_ok_iff)

section \<open>The validation report\<close>

datatype validation_severity = VS_Warning | VS_Error

record validation_issue =
  vi_severity :: validation_severity
  vi_component :: string
  vi_message :: string

type_synonym validation_report = "validation_issue list"

definition add_error :: "string \<Rightarrow> string \<Rightarrow> validation_report \<Rightarrow> validation_report" where
  "add_error component message report =
     report @ [\<lparr>vi_severity = VS_Error, vi_component = component, vi_message = message\<rparr>]"

definition add_warning :: "string \<Rightarrow> string \<Rightarrow> validation_report \<Rightarrow> validation_report" where
  "add_warning component message report =
     report @ [\<lparr>vi_severity = VS_Warning, vi_component = component, vi_message = message\<rparr>]"

fun has_errors :: "validation_report \<Rightarrow> bool" where
  "has_errors [] = False"
| "has_errors (i # is) = (if vi_severity i = VS_Error then True else has_errors is)"

definition report_ok :: "validation_report \<Rightarrow> bool" where
  "report_ok report \<longleftrightarrow> \<not> has_errors report"

definition format_report :: "validation_report \<Rightarrow> string" where
  "format_report report = concat (map (\<lambda>i.
     (if vi_severity i = VS_Error then ''error'' else ''warning'') @ '': '' @ vi_component i @ '': '' @
     vi_message i @ [CHR 0x0A]) report)"

text \<open>The body of the loop of \<^verbatim>\<open>ValidateDeclaredPorts\<close> and the loop.\<close>

definition validate_port :: "string \<Rightarrow> qid option list \<Rightarrow> nat \<times> port_info \<Rightarrow> validation_report \<Rightarrow> validation_report" where
  "validate_port component queues = (\<lambda>(i, port) report.
     let label = direction_text (pt_direction port) @ '' port'';
         r1 = (if pt_name port = []
           then add_error component (label @ ''['' @ dec_text i @ ''] is missing a signal name'') report else report);
         r2 = (if pt_description port = []
           then add_error component (label @ ''['' @ dec_text i @ ''] is missing a description'') r1 else r1)
     in if i \<ge> length queues \<or> queues ! i = None
        then add_error component (label @ '' '' @ [CHR 0x27] @ pt_name port @ [CHR 0x27] @ '' is not bound to a queue'') r2
        else r2)"

definition validate_declared_ports :: "string \<Rightarrow> port_info list \<Rightarrow> qid option list \<Rightarrow> validation_report \<Rightarrow>
    validation_report" where
  "validate_declared_ports component ps queues report =
     fold (validate_port component queues) (enumerate 0 ps) report"

text \<open>The part of \<^verbatim>\<open>CollectValidationIssues\<close> before the submodules.\<close>

definition validate_node :: "'l module_node \<Rightarrow> validation_report \<Rightarrow> validation_report" where
  "validate_node n report =
     (let r1 = validate_declared_ports (mn_name n) (mn_input_ports n) (mn_inputs n) report;
          r2 = validate_declared_ports (mn_name n) (mn_output_ports n) (mn_outputs n) r1;
          r3 = validate_declared_ports (mn_name n) (mn_inner_ports n) (mn_inners n) r2
      in if mn_require_io n \<and> (mn_input_ports n = [] \<or> mn_output_ports n = [])
         then add_error (mn_name n) ''module must declare at least one input and one output'' r3 else r3)"

text \<open>The contract of a module: every port named, described and bound, and an input and an output unless the
  module is exempt.\<close>

definition port_complete :: "qid option list \<Rightarrow> nat \<times> port_info \<Rightarrow> bool" where
  "port_complete queues = (\<lambda>(i, port). pt_name port \<noteq> [] \<and> pt_description port \<noteq> [] \<and>
     i < length queues \<and> queues ! i \<noteq> None)"

definition node_contract :: "'l module_node \<Rightarrow> bool" where
  "node_contract n \<longleftrightarrow> list_all (port_complete (mn_inputs n)) (enumerate 0 (mn_input_ports n)) \<and>
     list_all (port_complete (mn_outputs n)) (enumerate 0 (mn_output_ports n)) \<and>
     list_all (port_complete (mn_inners n)) (enumerate 0 (mn_inner_ports n)) \<and>
     \<not> (mn_require_io n \<and> (mn_input_ports n = [] \<or> mn_output_ports n = []))"

lemma has_errors_append [simp]: "has_errors (xs @ ys) \<longleftrightarrow> has_errors xs \<or> has_errors ys"
  by (induction xs) auto

lemma has_errors_add [simp]: "has_errors (add_error c m r)" "has_errors (add_warning c m r) = has_errors r"
  by (simp_all add: add_error_def add_warning_def)

lemma has_errors_port:
  "has_errors (validate_port c queues p r) \<longleftrightarrow> has_errors r \<or> \<not> port_complete queues p"
  by (cases p) (auto simp: validate_port_def port_complete_def Let_def)

lemma has_errors_ports:
  "has_errors (validate_declared_ports c ps queues r) \<longleftrightarrow>
     has_errors r \<or> \<not> list_all (port_complete queues) (enumerate 0 ps)"
proof -
  have "has_errors (fold (validate_port c queues) xs r) \<longleftrightarrow> has_errors r \<or> \<not> list_all (port_complete queues) xs"
    for xs by (induction xs arbitrary: r) (auto simp: has_errors_port)
  then show ?thesis by (simp add: validate_declared_ports_def)
qed

lemma has_errors_node: "has_errors (validate_node n r) \<longleftrightarrow> has_errors r \<or> \<not> node_contract n"
  by (auto simp: validate_node_def Let_def has_errors_ports node_contract_def)

end
