(* ===== verification/Module_Tree.thy ===== *)
theory Module_Tree
  imports Module_Ports
begin

text \<open>
  The tree of modules and its phases (\<^verbatim>\<open>Module\<close> of \<^verbatim>\<open>include/linx/model/module.hpp\<close>): \<^verbatim>\<open>Build\<close>, \<^verbatim>\<open>Reset\<close>,
  \<^verbatim>\<open>Work\<close> with its event filter, \<^verbatim>\<open>Xfer\<close>, \<^verbatim>\<open>Report\<close> and the validation.

  The virtual functions of the derived class are parameters.  \<open>WorkSelf\<close> and the other phase hooks see
  their module and all queues; they may change the derived state and the queues and request an
  activation, but not rewire the module.  \<open>BuildSelf\<close> may change its whole subtree, so \<open>Build\<close> takes fuel
  for the depth that it builds.  An exception leaves no state.
\<close>

datatype 'l module = Module (self: "'l module_node") (subs: "'l module list")

text \<open>What a hook leaves: the derived state, whether it called \<^verbatim>\<open>RequestActivation\<close>, and the queues.\<close>

type_synonym ('l, 'p) hook = "'l module_node \<Rightarrow> 'p queues \<Rightarrow> ('l \<times> bool \<times> 'p queues) outcome"

record ('l, 'p) module_hooks =
  mh_build_self :: "'l module \<Rightarrow> 'p queues \<Rightarrow> ('l module \<times> 'p queues) outcome"
  mh_reset_self :: "('l, 'p) hook"
  mh_report_self :: "('l, 'p) hook"
  mh_work_self :: "('l, 'p) hook"
  mh_xfer_self :: "('l, 'p) hook"

definition run_hook :: "('l, 'p) hook \<Rightarrow> 'l module_node \<Rightarrow> 'p queues \<Rightarrow> ('l module_node \<times> 'p queues) outcome" where
  "run_hook hook n g = obind (hook n g) (\<lambda>(l, activate, g).
     Inr ((if activate then request_activation n else n)\<lparr>mn_local := l\<rparr>, g))"

section \<open>Events\<close>

definition slot_epoch :: "'p queues \<Rightarrow> qid option \<Rightarrow> u64" where
  "slot_epoch g slot = (case slot of None \<Rightarrow> 0 | Some q \<Rightarrow> visible_epoch (g ! q))"

text \<open>\<^verbatim>\<open>CaptureQueueEpochs\<close> resizes the list and writes every position; \<^verbatim>\<open>QueuesChanged\<close> compares them in order.\<close>

definition capture_queue_epochs :: "'p queues \<Rightarrow> qid option list \<Rightarrow> u64 list \<Rightarrow> u64 list" where
  "capture_queue_epochs g queues epochs =
     fold (\<lambda>idx epochs. epochs[idx := slot_epoch g (queues ! idx)]) [0..<length queues]
       (resize (length queues) 0 epochs)"

definition queues_changed :: "'p queues \<Rightarrow> qid option list \<Rightarrow> u64 list \<Rightarrow> bool" where
  "queues_changed g queues epochs \<longleftrightarrow> length queues \<noteq> length epochs \<or>
     list_ex (\<lambda>idx. slot_epoch g (queues ! idx) \<noteq> epochs ! idx) [0..<length queues]"

definition has_input_event :: "'p queues \<Rightarrow> 'l module_node \<Rightarrow> bool" where
  "has_input_event g n \<longleftrightarrow> mn_force n \<or> queues_changed g (mn_inputs n) (mn_seen_inputs n) \<or>
     queues_changed g (mn_inners n) (mn_seen_inners n)"

definition capture_observed :: "'p queues \<Rightarrow> 'l module_node \<Rightarrow> 'l module_node" where
  "capture_observed g n = n\<lparr>mn_seen_inputs := capture_queue_epochs g (mn_inputs n) (mn_seen_inputs n),
     mn_seen_inners := capture_queue_epochs g (mn_inners n) (mn_seen_inners n)\<rparr>"

fun has_pending_work :: "'p queues \<Rightarrow> 'l module \<Rightarrow> bool" where
  "has_pending_work g (Module n ms) \<longleftrightarrow>
     (if has_input_event g n then True else list_ex (has_pending_work g) ms)"

fun reset_event_state :: "'p queues \<Rightarrow> 'l module \<Rightarrow> 'l module" where
  "reset_event_state g (Module n ms) =
     Module (capture_observed g (n\<lparr>mn_force := False, mn_ran := False, mn_active := []\<rparr>))
       (map (reset_event_state g) ms)"

section \<open>Work\<close>

definition update_queue :: "('p sim_queue \<Rightarrow> 'p sim_queue outcome) \<Rightarrow> qid \<Rightarrow> 'p queues \<Rightarrow> 'p queues outcome" where
  "update_queue f q g = obind (f (g ! q)) (\<lambda>x. Inr (g[q := x]))"

definition tick_queues :: "qid list \<Rightarrow> 'p queues \<Rightarrow> 'p queues outcome" where
  "tick_queues qs g = ofold (update_queue sq_work) qs g"

text \<open>\<^verbatim>\<open>Work\<close>, \<^verbatim>\<open>AdvanceQueuesOnly\<close> and their common loop over the submodules, which also gives the active ones.\<close>

fun module_work :: "('l, 'p) module_hooks \<Rightarrow> 'l module \<Rightarrow> 'p queues \<Rightarrow> ('l module \<times> 'p queues) outcome"
  and advance_queues_only :: "('l, 'p) module_hooks \<Rightarrow> 'l module \<Rightarrow> 'p queues \<Rightarrow> ('l module \<times> 'p queues) outcome"
  and work_submodules :: "('l, 'p) module_hooks \<Rightarrow> nat \<Rightarrow> 'l module list \<Rightarrow> 'p queues \<Rightarrow>
    ('l module list \<times> nat list \<times> 'p queues) outcome" where
  "module_work H (Module n ms) g =
     (let ran = has_input_event g n; n = n\<lparr>mn_active := [], mn_ran := ran\<rparr>
      in obind (if ran
           then obind (run_hook (mh_work_self H) n g) (\<lambda>(n, g). Inr (capture_observed g (n\<lparr>mn_force := False\<rparr>), g))
           else Inr (n, g)) (\<lambda>(n, g).
         obind (work_submodules H 0 ms g) (\<lambda>(ms, active, g).
         obind (tick_queues (mn_owned n) g) (\<lambda>g. Inr (Module (n\<lparr>mn_active := active\<rparr>) ms, g)))))"
| "advance_queues_only H (Module n ms) g =
     (let n = n\<lparr>mn_active := [], mn_ran := False\<rparr>
      in obind (work_submodules H 0 ms g) (\<lambda>(ms, active, g).
         obind (tick_queues (mn_owned n) g) (\<lambda>g. Inr (Module (n\<lparr>mn_active := active\<rparr>) ms, g))))"
| "work_submodules H idx [] g = Inr ([], [], g)"
| "work_submodules H idx (m # ms) g =
     (if has_pending_work g m
      then obind (module_work H m g) (\<lambda>(m, g).
           obind (work_submodules H (Suc idx) ms g) (\<lambda>(ms, active, g). Inr (m # ms, idx # active, g)))
      else obind (advance_queues_only H m g) (\<lambda>(m, g).
           obind (work_submodules H (Suc idx) ms g) (\<lambda>(ms, active, g). Inr (m # ms, active, g))))"

section \<open>Transfer, report, reset and build\<close>

text \<open>\<^verbatim>\<open>Xfer\<close> of a queue does nothing.  The active submodules are in the order of the children, so the loop over
  them visits the children whose index is in the list.\<close>

fun module_xfer :: "('l, 'p) module_hooks \<Rightarrow> 'l module \<Rightarrow> 'p queues \<Rightarrow> ('l module \<times> 'p queues) outcome"
  and xfer_active :: "('l, 'p) module_hooks \<Rightarrow> nat list \<Rightarrow> nat \<Rightarrow> 'l module list \<Rightarrow> 'p queues \<Rightarrow>
    ('l module list \<times> 'p queues) outcome" where
  "module_xfer H (Module n ms) g =
     obind (if mn_ran n then run_hook (mh_xfer_self H) n g else Inr (n, g)) (\<lambda>(n, g).
     obind (xfer_active H (mn_active n) 0 ms g) (\<lambda>(ms, g). Inr (Module n ms, g)))"
| "xfer_active H active idx [] g = Inr ([], g)"
| "xfer_active H active idx (m # ms) g =
     obind (if idx \<in> set active then module_xfer H m g else Inr (m, g)) (\<lambda>(m, g).
     obind (xfer_active H active (Suc idx) ms g) (\<lambda>(ms, g). Inr (m # ms, g)))"

fun module_report :: "('l, 'p) module_hooks \<Rightarrow> 'l module \<Rightarrow> 'p queues \<Rightarrow> ('l module \<times> 'p queues) outcome"
  and report_all :: "('l, 'p) module_hooks \<Rightarrow> 'l module list \<Rightarrow> 'p queues \<Rightarrow> ('l module list \<times> 'p queues) outcome" where
  "module_report H (Module n ms) g =
     obind (run_hook (mh_report_self H) n g) (\<lambda>(n, g).
     obind (report_all H ms g) (\<lambda>(ms, g). Inr (Module n ms, g)))"
| "report_all H [] g = Inr ([], g)"
| "report_all H (m # ms) g =
     obind (module_report H m g) (\<lambda>(m, g). obind (report_all H ms g) (\<lambda>(ms, g). Inr (m # ms, g)))"

definition reset_queues :: "qid list \<Rightarrow> 'p queues \<Rightarrow> 'p queues outcome" where
  "reset_queues qs g = ofold (update_queue (\<lambda>q. Inr (sq_reset q))) qs g"

fun module_reset :: "('l, 'p) module_hooks \<Rightarrow> 'l module \<Rightarrow> 'p queues \<Rightarrow> ('l module \<times> 'p queues) outcome"
  and reset_all :: "('l, 'p) module_hooks \<Rightarrow> 'l module list \<Rightarrow> 'p queues \<Rightarrow> ('l module list \<times> 'p queues) outcome" where
  "module_reset H (Module n ms) g =
     obind (run_hook (mh_reset_self H) n g) (\<lambda>(n, g).
     obind (reset_all H ms g) (\<lambda>(ms, g).
     obind (reset_queues (mn_owned n) g) (\<lambda>g. Inr (reset_event_state g (Module n ms), g))))"
| "reset_all H [] g = Inr ([], g)"
| "reset_all H (m # ms) g =
     obind (module_reset H m g) (\<lambda>(m, g). obind (reset_all H ms g) (\<lambda>(ms, g). Inr (m # ms, g)))"

fun each_build :: "('l module \<Rightarrow> 'p queues \<Rightarrow> ('l module \<times> 'p queues) outcome option) \<Rightarrow> 'l module list \<Rightarrow> 'p queues \<Rightarrow>
    ('l module list \<times> 'p queues) outcome option" where
  "each_build f [] g = Some (Inr ([], g))"
| "each_build f (m # ms) g =
     (case f m g of
        None \<Rightarrow> None
      | Some (Inl e) \<Rightarrow> Some (Inl e)
      | Some (Inr (m, g)) \<Rightarrow>
          map_option (\<lambda>r. obind r (\<lambda>(ms, g). Inr (m # ms, g))) (each_build f ms g))"

fun module_build :: "nat \<Rightarrow> ('l, 'p) module_hooks \<Rightarrow> 'l module \<Rightarrow> 'p queues \<Rightarrow>
    ('l module \<times> 'p queues) outcome option" where
  "module_build 0 H m g = None"
| "module_build (Suc fuel) H m g =
     (case obind (check_that (\<not> mn_built (self m))) (\<lambda>_. mh_build_self H m g) of
        Inl e \<Rightarrow> Some (Inl e)
      | Inr (m, g) \<Rightarrow>
          map_option (\<lambda>r. obind r (\<lambda>(ms, g).
              case reset_event_state g (Module (self m) ms) of Module n ms \<Rightarrow>
                Inr (Module (n\<lparr>mn_built := True\<rparr>) ms, g)))
            (each_build (module_build fuel H) (subs m) g))"

section \<open>Wiring and validation\<close>

definition add_submodule :: "'l module \<Rightarrow> 'l module \<Rightarrow> 'l module" where
  "add_submodule child m = (case (child, m) of (Module c cs, Module n ms) \<Rightarrow>
     Module n (ms @ [Module (attach_runtime (mn_runtime n) c) cs]))"

text \<open>\<^verbatim>\<open>SimSystem::AddModule\<close> attaches the runtime to the module itself.\<close>

definition sim_attach :: "'l module \<Rightarrow> 'l module" where
  "sim_attach m = Module (attach_runtime True (self m)) (subs m)"

definition get_submodule :: "nat \<Rightarrow> 'l module \<Rightarrow> 'l module outcome" where
  "get_submodule idx m = obind (check_that (idx < length (subs m))) (\<lambda>_. Inr (subs m ! idx))"

definition connect :: "port_direction \<Rightarrow> nat \<Rightarrow> nat \<Rightarrow> qid option \<Rightarrow> 'l module \<Rightarrow> 'l module outcome" where
  "connect d child idx q m =
     obind (get_submodule child m) (\<lambda>c.
     obind (bind_port d idx q (self c)) (\<lambda>n.
       Inr (Module (self m) ((subs m)[child := Module n (subs c)]))))"

fun collect_validation_issues :: "'l module \<Rightarrow> validation_report \<Rightarrow> validation_report" where
  "collect_validation_issues (Module n ms) report =
     fold collect_validation_issues ms (validate_node n report)"

text \<open>An object registered with the simulation: a null pointer, a module, a queue or another object, which
  adds no issues of its own.\<close>

datatype 'l registered = Reg_Null | Reg_Module "'l module" | Reg_Queue string | Reg_Plain string

definition validate_registered :: "'l registered \<Rightarrow> validation_report \<Rightarrow> validation_report" where
  "validate_registered r report =
     (case r of
        Reg_Null \<Rightarrow> add_error ''sim'' ''registered null module'' report
      | Reg_Module m \<Rightarrow> collect_validation_issues m report
      | Reg_Queue name \<Rightarrow> report
      | Reg_Plain name \<Rightarrow>
          add_error name ''registered top-level object is not declared as SimQueue-based'' report)"

definition validate_model :: "'l registered list \<Rightarrow> validation_report" where
  "validate_model rs = fold validate_registered rs []"

end
