(* ===== verification/Module_Claims.thy ===== *)
theory Module_Claims
  imports Module_Tree
begin

text \<open>
  What the event filter of the module tree promises: skipping idle modules is not observable, an idle module runs
  no hook, a reset leaves the tree idle, and \<^verbatim>\<open>Xfer\<close> reaches exactly the modules that worked when no
  module watches a queue owned below an earlier sibling; without that wiring it does not.
\<close>

text \<open>The modules of a tree, parents first.\<close>

fun nodes :: "'l module \<Rightarrow> 'l module_node list" where
  "nodes (Module n ms) = n # concat (map nodes ms)"

section \<open>Events\<close>

lemma fold_update_all:
  assumes "n \<le> length xs"
  shows "fold (\<lambda>i xs. xs[i := f i]) [0..<n] xs = map f [0..<n] @ drop n xs"
  using assms
proof (induction n)
  case 0
  then show ?case by simp
next
  case (Suc n)
  have "fold (\<lambda>i xs. xs[i := f i]) [0..<Suc n] xs = (map f [0..<n] @ drop n xs)[n := f n]"
    using Suc by simp
  also have "\<dots> = map f [0..<Suc n] @ drop (Suc n) xs"
    using Suc.prems by (simp add: list_update_append Cons_nth_drop_Suc [symmetric])
  finally show ?case .
qed

lemma length_resize [simp]: "length (resize n x xs) = n"
  by (simp add: resize_def)

lemma capture_eq: "capture_queue_epochs g queues epochs = map (slot_epoch g) queues"
proof -
  have "capture_queue_epochs g queues epochs = map (\<lambda>i. slot_epoch g (queues ! i)) [0..<length queues]"
    unfolding capture_queue_epochs_def by (subst fold_update_all) simp_all
  also have "\<dots> = map (slot_epoch g) (map (\<lambda>i. queues ! i) [0..<length queues])" by (simp only: map_map comp_def)
  finally show ?thesis by (simp only: map_nth)
qed

lemma queues_changed_iff: "queues_changed g queues epochs \<longleftrightarrow> epochs \<noteq> map (slot_epoch g) queues"
proof -
  have eq: "epochs = map (slot_epoch g) queues \<longleftrightarrow> length queues = length epochs \<and>
      (\<forall>i < length queues. slot_epoch g (queues ! i) = epochs ! i)"
  proof
    show "length queues = length epochs \<and> (\<forall>i < length queues. slot_epoch g (queues ! i) = epochs ! i)"
      if "epochs = map (slot_epoch g) queues" by (simp add: that)
    show "epochs = map (slot_epoch g) queues"
      if "length queues = length epochs \<and> (\<forall>i < length queues. slot_epoch g (queues ! i) = epochs ! i)"
      using that by (intro nth_equalityI) simp_all
  qed
  show ?thesis unfolding eq queues_changed_def list_ex_iff by auto
qed

lemma event_after_reset: "\<not> has_pending_work g (reset_event_state g m)"
proof (induction m)
  case (Module n ms)
  then show ?case
    by (auto simp: list_ex_iff has_input_event_def capture_observed_def capture_eq queues_changed_iff)
qed

section \<open>The event filter\<close>

text \<open>The reference: \<^verbatim>\<open>Work\<close> without the filter on the submodules, each of them always works.\<close>

fun work_always :: "('l, 'p) module_hooks \<Rightarrow> 'l module \<Rightarrow> 'p queues \<Rightarrow> ('l module \<times> 'p queues) outcome"
  and work_all :: "('l, 'p) module_hooks \<Rightarrow> nat \<Rightarrow> 'l module list \<Rightarrow> 'p queues \<Rightarrow>
    ('l module list \<times> nat list \<times> 'p queues) outcome" where
  "work_always H (Module n ms) g =
     (let ran = has_input_event g n; n = n\<lparr>mn_active := [], mn_ran := ran\<rparr>
      in obind (if ran
           then obind (run_hook (mh_work_self H) n g) (\<lambda>(n, g). Inr (capture_observed g (n\<lparr>mn_force := False\<rparr>), g))
           else Inr (n, g)) (\<lambda>(n, g).
         obind (work_all H 0 ms g) (\<lambda>(ms, active, g).
         obind (tick_queues (mn_owned n) g) (\<lambda>g. Inr (Module (n\<lparr>mn_active := active\<rparr>) ms, g)))))"
| "work_all H idx [] g = Inr ([], [], g)"
| "work_all H idx (m # ms) g =
     obind (work_always H m g) (\<lambda>(m', g').
     obind (work_all H (Suc idx) ms g') (\<lambda>(ms', active, g'').
       Inr (m' # ms', (if has_pending_work g m then [idx] else []) @ active, g'')))"

lemma advance_is_work: "\<not> has_pending_work g m \<Longrightarrow> advance_queues_only H m g = module_work H m g"
  by (cases m) (simp add: Let_def split: if_split_asm)

lemma work_submodules_is_work:
  "work_submodules H idx (m # ms) g =
     obind (module_work H m g) (\<lambda>(m', g').
     obind (work_submodules H (Suc idx) ms g') (\<lambda>(ms', active, g'').
       Inr (m' # ms', (if has_pending_work g m then [idx] else []) @ active, g'')))"
  by (cases "has_pending_work g m") (simp_all add: advance_is_work cong: prod.case_cong)

lemma work_filter_exact:
  "module_work H m g = work_always H m g" "work_submodules H idx ms g = work_all H idx ms g"
proof (induction H m g and H idx ms g rule: work_always_work_all.induct)
  case (1 H n ms g)
  then show ?case by (simp only: module_work.simps work_always.simps)
next
  case (2 H idx g)
  then show ?case by simp
next
  case (3 H idx m ms g)
  then show ?case by (simp only: work_submodules_is_work work_all.simps)
qed

text \<open>C6: skipping idle submodules is not observable: for every tree, every state of the queues and all hooks,
  \<^verbatim>\<open>Work\<close> with its event filter (\<^verbatim>\<open>HasPendingWorkRecursive\<close>, \<^verbatim>\<open>AdvanceQueuesOnly\<close>) does what it would do
  if every submodule always worked, errors included, and the active submodules are exactly those
  that had pending work when their turn came.\<close>
theorem event_filter_unobservable:
  "module_work H m g = work_always H m g"
  by (rule work_filter_exact)

section \<open>Wiring\<close>

text \<open>The queues that the modules of a tree watch (inputs and inners) and own.\<close>

definition watched_node :: "'l module_node \<Rightarrow> qid list" where
  "watched_node n = List.map_filter id (mn_inputs n @ mn_inners n)"

fun watched :: "'l module \<Rightarrow> qid list" where
  "watched (Module n ms) = watched_node n @ concat (map watched ms)"

fun owned :: "'l module \<Rightarrow> qid list" where
  "owned (Module n ms) = mn_owned n @ concat (map owned ms)"

text \<open>The wiring discipline: no module watches a queue that is owned in the subtree of an earlier sibling of it
  or of an ancestor of it; parents own the queues between their children.\<close>

definition separate :: "'l module \<Rightarrow> 'l module \<Rightarrow> bool" where
  "separate a b \<longleftrightarrow> set (owned a) \<inter> set (watched b) = {}"

fun wired :: "'l module \<Rightarrow> bool" where
  "wired (Module n ms) \<longleftrightarrow> sorted_wrt separate ms \<and> list_all wired ms"

lemma input_event_cong:
  assumes "\<And>q. q \<in> set (watched_node n) \<Longrightarrow> visible_epoch (g' ! q) = visible_epoch (g ! q)"
  shows "has_input_event g' n = has_input_event g n"
proof -
  have epoch: "map (slot_epoch g') qs = map (slot_epoch g) qs"
    if "set (List.map_filter id qs) \<subseteq> set (watched_node n)" for qs
  proof (rule map_cong [OF refl])
    fix slot assume slot: "slot \<in> set qs"
    show "slot_epoch g' slot = slot_epoch g slot"
    proof (cases slot)
      case (Some q)
      then have "q \<in> set (List.map_filter id qs)" using slot by (force simp: map_filter_def)
      with that assms Some show ?thesis by (auto simp: slot_epoch_def)
    qed (simp add: slot_epoch_def)
  qed
  have "map (slot_epoch g') (mn_inputs n) = map (slot_epoch g) (mn_inputs n)"
    by (rule epoch) (auto simp: map_filter_def watched_node_def)
  moreover have "map (slot_epoch g') (mn_inners n) = map (slot_epoch g) (mn_inners n)"
    by (rule epoch) (auto simp: map_filter_def watched_node_def)
  ultimately show ?thesis unfolding has_input_event_def queues_changed_iff by (simp only:)
qed

lemma pending_cong:
  "(\<And>q. q \<in> set (watched m) \<Longrightarrow> visible_epoch (g' ! q) = visible_epoch (g ! q)) \<Longrightarrow>
   has_pending_work g' m = has_pending_work g m"
proof (induction m)
  case (Module n ms)
  have "has_input_event g' n = has_input_event g n"
    using Module.prems by (intro input_event_cong) simp
  moreover have "has_pending_work g' c = has_pending_work g c" if "c \<in> set ms" for c
    using that Module.prems by (intro Module.IH) auto
  ultimately show ?case by (auto simp: list_ex_iff)
qed

fun quiet :: "'l module \<Rightarrow> bool" where
  "quiet (Module n ms) \<longleftrightarrow> \<not> mn_ran n \<and> mn_active n = [] \<and> list_all quiet ms"

lemma tick_queues_frame: "tick_queues qs g = Inr g' \<Longrightarrow> q \<notin> set qs \<Longrightarrow> g' ! q = g ! q"
  unfolding tick_queues_def
  by (induction qs arbitrary: g) (auto simp: update_queue_def outcome_simps)

text \<open>An idle module stays quiet whatever the hooks are, and only its own queues change.\<close>

definition idle_step :: "('l, 'p) module_hooks \<Rightarrow> ('l, 'p) module_hooks \<Rightarrow> 'l module \<Rightarrow> 'p queues \<Rightarrow> bool" where
  "idle_step H H' m g \<longleftrightarrow> module_work H m g = module_work H' m g \<and>
     (\<forall>m' g'. module_work H m g = Inr (m', g') \<longrightarrow> quiet m' \<and> (\<forall>q. q \<notin> set (owned m) \<longrightarrow> g' ! q = g ! q))"

lemma idle_submodules:
  assumes "\<And>c g. c \<in> set ms \<Longrightarrow> \<not> has_pending_work g c \<Longrightarrow> idle_step H H' c g"
    "sorted_wrt separate ms" "\<And>c. c \<in> set ms \<Longrightarrow> \<not> has_pending_work g c"
  shows "work_submodules H idx ms g = work_submodules H' idx ms g \<and>
    (\<forall>ms' active g'. work_submodules H idx ms g = Inr (ms', active, g') \<longrightarrow>
      list_all quiet ms' \<and> active = [] \<and> (\<forall>q. q \<notin> set (concat (map owned ms)) \<longrightarrow> g' ! q = g ! q))"
  using assms
proof (induction ms arbitrary: idx g)
  case Nil
  then show ?case by simp
next
  case (Cons m ms)
  have idle: "idle_step H H' m g" using Cons.prems by simp
  have rest: "\<not> has_pending_work g1 c" if "module_work H m g = Inr (m1, g1)" "c \<in> set ms" for m1 g1 c
  proof -
    have "visible_epoch (g1 ! q) = visible_epoch (g ! q)" if "q \<in> set (watched c)" for q
    proof -
      have "separate m c" using Cons.prems(2) \<open>c \<in> set ms\<close> by simp
      then have "q \<notin> set (owned m)" using that by (auto simp: separate_def)
      with idle \<open>module_work H m g = _\<close> show ?thesis unfolding idle_step_def by simp
    qed
    from pending_cong [OF this] Cons.prems(3) that(2) show ?thesis by auto
  qed
  show ?case
  proof (cases "module_work H m g")
    case (Inl e)
    moreover from this idle have "module_work H' m g = Inl e" by (simp add: idle_step_def)
    ultimately show ?thesis by (simp add: work_submodules_is_work del: work_submodules.simps)
  next
    case (Inr r)
    obtain m1 g1 where r: "r = (m1, g1)" by (cases r)
    have "\<And>c. c \<in> set ms \<Longrightarrow> \<not> has_pending_work g1 c" using rest Inr r by blast
    then have ih: "work_submodules H (Suc idx) ms g1 = work_submodules H' (Suc idx) ms g1 \<and>
      (\<forall>ms' active g'. work_submodules H (Suc idx) ms g1 = Inr (ms', active, g') \<longrightarrow>
         list_all quiet ms' \<and> active = [] \<and> (\<forall>q. q \<notin> set (concat (map owned ms)) \<longrightarrow> g' ! q = g1 ! q))"
      using Cons.prems(1,2) by (intro Cons.IH) simp_all
    have np: "\<not> has_pending_work g m" using Cons.prems(3) by simp
    have "module_work H' m g = Inr (m1, g1)" using idle Inr r by (simp add: idle_step_def)
    with np Inr r ih have "work_submodules H idx (m # ms) g = work_submodules H' idx (m # ms) g"
      by (simp only: work_submodules_is_work obind.simps prod.case)
    moreover have "list_all quiet ms' \<and> active = [] \<and>
        (\<forall>q. q \<notin> set (concat (map owned (m # ms))) \<longrightarrow> g' ! q = g ! q)"
      if res: "work_submodules H idx (m # ms) g = Inr (ms', active, g')" for ms' active g'
    proof -
      from res np Inr r obtain ms1 active1 where
        r1: "work_submodules H (Suc idx) ms g1 = Inr (ms1, active1, g')" "ms' = m1 # ms1" "active = active1"
        by (auto simp: work_submodules_is_work outcome_simps simp del: work_submodules.simps)
      with ih idle Inr r show ?thesis by (auto simp: idle_step_def)
    qed
    ultimately show ?thesis by blast
  qed
qed

lemma idle_module: "wired m \<Longrightarrow> \<not> has_pending_work g m \<Longrightarrow> idle_step H H' m g"
proof (induction m arbitrary: g)
  case (Module n ms)
  have ev: "\<not> has_input_event g n" using Module.prems(2) by auto
  have np: "\<And>c. c \<in> set ms \<Longrightarrow> \<not> has_pending_work g c" using Module.prems(2) by (auto simp: list_ex_iff split: if_split_asm)
  have wired: "sorted_wrt separate ms" "\<And>c. c \<in> set ms \<Longrightarrow> wired c"
    using Module.prems(1) by (auto simp: list_all_iff)
  have ih: "\<And>c g. c \<in> set ms \<Longrightarrow> \<not> has_pending_work g c \<Longrightarrow> idle_step H H' c g"
    using Module.IH wired(2) by blast
  note sub = idle_submodules [OF ih wired(1) np, of 0]
  show ?case
    unfolding idle_step_def
    using ev sub by (auto simp: Let_def outcome_simps tick_queues_frame)
qed

section \<open>Transfer\<close>

text \<open>The reference: \<^verbatim>\<open>XferSelf\<close> on every module whose \<^verbatim>\<open>WorkSelf\<close> ran, parents first.\<close>

fun xfer_ran :: "('l, 'p) module_hooks \<Rightarrow> 'l module \<Rightarrow> 'p queues \<Rightarrow> ('l module \<times> 'p queues) outcome"
  and xfer_ran_all :: "('l, 'p) module_hooks \<Rightarrow> 'l module list \<Rightarrow> 'p queues \<Rightarrow> ('l module list \<times> 'p queues) outcome" where
  "xfer_ran H (Module n ms) g =
     obind (if mn_ran n then run_hook (mh_xfer_self H) n g else Inr (n, g)) (\<lambda>(n, g).
     obind (xfer_ran_all H ms g) (\<lambda>(ms, g). Inr (Module n ms, g)))"
| "xfer_ran_all H [] g = Inr ([], g)"
| "xfer_ran_all H (m # ms) g =
     obind (xfer_ran H m g) (\<lambda>(m, g). obind (xfer_ran_all H ms g) (\<lambda>(ms, g). Inr (m # ms, g)))"

text \<open>A tree whose active lists reach every module that ran: what is not active is quiet.\<close>

fun reaches :: "'l module \<Rightarrow> bool" and reaches_all :: "nat list \<Rightarrow> nat \<Rightarrow> 'l module list \<Rightarrow> bool" where
  "reaches (Module n ms) \<longleftrightarrow> reaches_all (mn_active n) 0 ms"
| "reaches_all active idx [] \<longleftrightarrow> True"
| "reaches_all active idx (m # ms) \<longleftrightarrow>
     (if idx \<in> set active then reaches m else quiet m) \<and> reaches_all active (Suc idx) ms"

lemma reaches_all_cong:
  "(\<And>j. idx \<le> j \<Longrightarrow> j \<in> set a \<longleftrightarrow> j \<in> set b) \<Longrightarrow> reaches_all a idx ms = reaches_all b idx ms"
proof (induction ms arbitrary: idx)
  case (Cons m ms)
  then have "reaches_all a (Suc idx) ms = reaches_all b (Suc idx) ms" by simp
  with Cons.prems show ?case by simp
qed simp

lemma xfer_ran_quiet:
  "quiet m \<Longrightarrow> xfer_ran H m g = Inr (m, g)" "list_all quiet ms \<Longrightarrow> xfer_ran_all H ms g = Inr (ms, g)"
  by (induction H m g and H ms g rule: xfer_ran_xfer_ran_all.induct) auto

lemma run_hook_active: "run_hook hook n g = Inr (n', g') \<Longrightarrow> mn_active n' = mn_active n \<and> mn_ran n' = mn_ran n \<and>
    mn_inputs n' = mn_inputs n \<and> mn_inners n' = mn_inners n \<and> mn_owned n' = mn_owned n"
  by (auto simp: run_hook_def outcome_simps request_activation_def split: if_split_asm)

lemma xfer_reaches:
  "reaches m \<Longrightarrow> module_xfer H m g = xfer_ran H m g"
  "reaches_all active idx ms \<Longrightarrow> xfer_active H active idx ms g = xfer_ran_all H ms g"
proof (induction H m g and H active idx ms g rule: module_xfer_xfer_active.induct)
  case (1 H n ms g)
  have "xfer_active H (mn_active n') 0 ms g' = xfer_ran_all H ms g'"
    if "(if mn_ran n then run_hook (mh_xfer_self H) n g else Inr (n, g)) = Inr (n', g')" for n' g'
  proof -
    have "mn_active n' = mn_active n"
      using that run_hook_active [of "mh_xfer_self H" n g n' g'] by (auto split: if_split_asm)
    then show ?thesis using "1.IH" [of n' g'] "1.prems" by simp
  qed
  then show ?case
    by (cases "if mn_ran n then run_hook (mh_xfer_self H) n g else Inr (n, g)") auto
next
  case (2 H active idx g)
  then show ?case by simp
next
  case (3 H active idx m ms g)
  have head: "(if idx \<in> set active then module_xfer H m g else Inr (m, g)) = xfer_ran H m g"
    using 3 by (auto simp: xfer_ran_quiet)
  have "xfer_active H active (Suc idx) ms g' = xfer_ran_all H ms g'" if "xfer_ran H m g = Inr (m', g')" for m' g'
    using "3.IH"(2) [of g'] "3.prems" head that by simp
  then show ?case unfolding xfer_active.simps head by (cases "xfer_ran H m g") auto
qed

lemma work_active_bound: "work_submodules H idx ms g = Inr (ms', active, g') \<Longrightarrow> j \<in> set active \<Longrightarrow> idx \<le> j"
proof (induction ms arbitrary: idx g ms' active g')
  case (Cons m ms)
  from Cons.prems(1) obtain m1 g1 ms1 active1 where
    "work_submodules H (Suc idx) ms g1 = Inr (ms1, active1, g')"
    "active = (if has_pending_work g m then [idx] else []) @ active1"
    by (auto simp: work_submodules_is_work outcome_simps simp del: work_submodules.simps)
  with Cons.IH [of "Suc idx" g1] Cons.prems(2) show ?case by (fastforce split: if_split_asm)
qed simp

lemma work_reaches: "wired m \<Longrightarrow> module_work H m g = Inr (m', g') \<Longrightarrow> reaches m'"
proof (induction m arbitrary: g m' g')
  case (Module n ms)
  have sub: "reaches_all active idx cs'"
    if "set cs \<subseteq> set ms" "work_submodules H idx cs g = Inr (cs', active, g')" for cs idx g cs' active g'
    using that
  proof (induction cs arbitrary: idx g cs' active g')
    case (Cons c cs)
    from Cons.prems(2) obtain c1 g1 cs1 active1 where
      c1: "module_work H c g = Inr (c1, g1)" "work_submodules H (Suc idx) cs g1 = Inr (cs1, active1, g')"
      and res: "cs' = c1 # cs1" "active = (if has_pending_work g c then [idx] else []) @ active1"
      by (auto simp: work_submodules_is_work outcome_simps simp del: work_submodules.simps)
    have wired: "wired c" using Module.prems(1) Cons.prems(1) by (auto simp: list_all_iff)
    have "reaches_all active1 (Suc idx) cs1" using Cons.IH [OF _ c1(2)] Cons.prems(1) by simp
    moreover have "j \<in> set active \<longleftrightarrow> j \<in> set active1" if "Suc idx \<le> j" for j using that res(2) by auto
    ultimately have "reaches_all active (Suc idx) cs1" using reaches_all_cong by blast
    moreover have "idx \<in> set active \<longleftrightarrow> has_pending_work g c"
      using res(2) work_active_bound [OF c1(2), of idx] by auto
    moreover have "reaches c1" using Module.IH [OF _ wired c1(1)] Cons.prems(1) by simp
    moreover have "quiet c1" if "\<not> has_pending_work g c"
      using idle_module [OF wired that, of H H] c1(1) by (simp add: idle_step_def)
    ultimately show ?case by (simp add: res(1))
  qed simp
  from Module.prems(2) obtain n1 g1 ms1 active g2 where
    "work_submodules H 0 ms g1 = Inr (ms1, active, g2)" "m' = Module (n1\<lparr>mn_active := active\<rparr>) ms1"
    by (auto simp: Let_def outcome_simps split: if_split_asm)
  with sub [OF subset_refl] show ?case by simp
qed

text \<open>C10: in a wired tree \<^verbatim>\<open>Xfer\<close> after \<^verbatim>\<open>Work\<close> runs \<^verbatim>\<open>XferSelf\<close> on exactly the modules whose \<^verbatim>\<open>WorkSelf\<close> ran
  in that cycle, parents first: following the active submodules is the same as visiting every module
  and testing whether it ran, for all hooks and whatever happened to the queues in between.\<close>
theorem xfer_follows_work:
  assumes "wired m" "module_work H m g = Inr (m', g')"
  shows "module_xfer H m' h = xfer_ran H m' h"
  using xfer_reaches(1) [OF work_reaches [OF assms]] .

text \<open>Two stages under a root that owns the queues between them; a stage passes a payload on when it can and
  counts its work and its transfers.\<close>

definition stage_hooks :: "(nat \<times> nat, nat) module_hooks" where
  "stage_hooks = \<lparr>mh_build_self = (\<lambda>m g. Inr (m, g)),
     mh_reset_self = (\<lambda>n g. Inr (mn_local n, False, g)),
     mh_report_self = (\<lambda>n g. Inr (mn_local n, False, g)),
     mh_work_self = (\<lambda>n g. let l = (fst (mn_local n) + 1, snd (mn_local n)) in
        case (mn_inputs n, mn_outputs n) of
          ([Some i], [Some k]) \<Rightarrow>
            if sq_empty (g ! i) \<or> sq_full (g ! k) then Inr (l, False, g)
            else obind (sq_read (g ! i)) (\<lambda>(x, q).
                 obind (sq_write (x + 1) (g ! k)) (\<lambda>q'. Inr (l, False, g[i := q, k := q'])))
        | _ \<Rightarrow> Inr (l, False, g)),
     mh_xfer_self = (\<lambda>n g. Inr ((fst (mn_local n), snd (mn_local n) + 1), False, g))\<rparr>"

definition stage :: "qid \<Rightarrow> qid \<Rightarrow> (nat \<times> nat) module" where
  "stage i k = Module ((module_new ''stage'' (0, 0))\<lparr>mn_inputs := [Some i], mn_outputs := [Some k],
     mn_seen_inputs := [0]\<rparr>) []"

definition two_stages :: "(nat \<times> nat) module" where
  "two_stages = Module ((module_new ''root'' (0, 0))\<lparr>mn_owned := [0, 1, 2]\<rparr>) [stage 0 1, stage 1 2]"

definition demo_queue :: "nat list \<Rightarrow> nat sim_queue" where
  "demo_queue xs = \<lparr>maxQSize = 4, writeQ = [], readQ = xs, delayQ = [], latency = 1, stalled = False,
     visible_epoch = of_nat (length xs)\<rparr>"

theorem xfer_follows_work_witness:
  "\<exists>m' g'. module_work stage_hooks two_stages [demo_queue [7], demo_queue [], demo_queue []] = Inr (m', g') \<and>
     map mn_ran (nodes m') = [False, True, False] \<and> module_xfer stage_hooks m' g' = xfer_ran stage_hooks m' g'"
proof -
  have w: "wired two_stages" by code_simp
  have "(case module_work stage_hooks two_stages [demo_queue [7], demo_queue [], demo_queue []] of
      Inl e \<Rightarrow> False | Inr (m', g') \<Rightarrow> map mn_ran (nodes m') = [False, True, False])" by code_simp
  then obtain m' g' where "module_work stage_hooks two_stages [demo_queue [7], demo_queue [], demo_queue []] = Inr (m', g')"
    "map mn_ran (nodes m') = [False, True, False]" by (auto split: sum.splits)
  then show ?thesis using xfer_follows_work [OF w] by (intro exI conjI)
qed

text \<open>Without the wiring the documented rule \<^verbatim>\<open>XferSelf() runs for modules whose WorkSelf() executed in the
  same cycle\<close> fails: when a module watches a queue that an earlier sibling owns, a packet that becomes
  visible while their idle parent only advances its queues runs \<^verbatim>\<open>WorkSelf\<close> of the module, but the
  parent is not an active submodule of the root and \<^verbatim>\<open>XferSelf\<close> is never called.\<close>

definition sibling_owned :: "(nat \<times> nat) module" where
  "sibling_owned = Module (module_new ''root'' (0, 0))
     [Module (module_new ''parent'' (0, 0))
       [Module ((module_new ''first'' (0, 0))\<lparr>mn_owned := [0]\<rparr>) [], stage 0 1]]"

definition pending_queue :: "nat sim_queue" where
  "pending_queue = (demo_queue [])\<lparr>writeQ := [7], delayQ := [1]\<rparr>"

lemma transfer_lost_without_wiring:
  "\<not> wired sibling_owned \<and>
   (case module_work stage_hooks sibling_owned [pending_queue, demo_queue []] of
      Inl e \<Rightarrow> False
    | Inr (m', g') \<Rightarrow> map (fst \<circ> mn_local) (nodes m') = [0, 0, 0, 1] \<and>
        (case (module_xfer stage_hooks m' g', xfer_ran stage_hooks m' g') of
           (Inr (x, _), Inr (y, _)) \<Rightarrow> map (snd \<circ> mn_local) (nodes x) = [0, 0, 0, 0] \<and>
              map (snd \<circ> mn_local) (nodes y) = [0, 0, 0, 1]
         | _ \<Rightarrow> False))"
  by code_simp

section \<open>The cycle boundary\<close>

text \<open>\<open>R\<close> gives the queues that each module may read or flush: its \<^verbatim>\<open>WorkSelf\<close> leaves the visible side of
  all other queues alone, though it may write to them.\<close>

definition reads_only :: "('l, 'p) module_hooks \<Rightarrow> ('l module_node \<Rightarrow> qid set) \<Rightarrow> bool" where
  "reads_only H R \<longleftrightarrow> (\<forall>n g l b g'. mh_work_self H (n\<lparr>mn_active := [], mn_ran := True\<rparr>) g = Inr (l, b, g') \<longrightarrow>
     (\<forall>q. q \<notin> R n \<longrightarrow> visible_epoch (g' ! q) = visible_epoch (g ! q)))"

definition reads_of :: "('l module_node \<Rightarrow> qid set) \<Rightarrow> 'l module \<Rightarrow> qid set" where
  "reads_of R m = (\<Union>n \<in> set (nodes m). R n)"

lemma reads_of_Module: "reads_of R (Module n ms) = R n \<union> (\<Union>m \<in> set ms. reads_of R m)"
  by (auto simp: reads_of_def)

lemma watched_nodes: "set (watched m) = (\<Union>n \<in> set (nodes m). set (watched_node n))"
  by (induction m) auto

text \<open>What one module's \<^verbatim>\<open>Work\<close> does when the queues it watches are as they were in \<open>g0\<close>.\<close>

definition decided :: "('l, 'p) module_hooks \<Rightarrow> ('l module_node \<Rightarrow> qid set) \<Rightarrow> 'l module \<Rightarrow> bool" where
  "decided H R m \<longleftrightarrow> (\<forall>(g0 :: 'p queues) (g :: 'p queues) m' g'. module_work H m g = Inr (m', g') \<longrightarrow>
     (\<forall>q \<in> set (watched m). visible_epoch (g ! q) = visible_epoch (g0 ! q)) \<longrightarrow>
     map mn_ran (nodes m') = map (has_input_event g0) (nodes m) \<and>
     (\<forall>q. q \<notin> set (owned m) \<and> q \<notin> reads_of R m \<longrightarrow> visible_epoch (g' ! q) = visible_epoch (g ! q)))"

lemma decidedI:
  fixes H :: "('l, 'p) module_hooks"
  assumes "\<And>(g0 :: 'p queues) g m' g'. module_work H m g = Inr (m', g') \<Longrightarrow>
      \<forall>q \<in> set (watched m). visible_epoch (g ! q) = visible_epoch (g0 ! q) \<Longrightarrow>
      map mn_ran (nodes m') = map (has_input_event g0) (nodes m) \<and>
      (\<forall>q. q \<notin> set (owned m) \<and> q \<notin> reads_of R m \<longrightarrow> visible_epoch (g' ! q) = visible_epoch (g ! q))"
  shows "decided H R m"
  unfolding decided_def using assms by (intro allI impI)

lemma decidedD:
  fixes H :: "('l, 'p) module_hooks" and g0 :: "'p queues"
  assumes "decided H R m" "module_work H m g = Inr (m', g')"
    "\<And>q. q \<in> set (watched m) \<Longrightarrow> visible_epoch (g ! q) = visible_epoch (g0 ! q)"
  shows "map mn_ran (nodes m') = map (has_input_event g0) (nodes m)"
    "\<And>q. q \<notin> set (owned m) \<Longrightarrow> q \<notin> reads_of R m \<Longrightarrow> visible_epoch (g' ! q) = visible_epoch (g ! q)"
proof -
  have "\<forall>q \<in> set (watched m). visible_epoch (g ! q) = visible_epoch (g0 ! q)" using assms(3) by blast
  with assms(1,2) have "map mn_ran (nodes m') = map (has_input_event g0) (nodes m) \<and>
      (\<forall>q. q \<notin> set (owned m) \<and> q \<notin> reads_of R m \<longrightarrow> visible_epoch (g' ! q) = visible_epoch (g ! q))"
    unfolding decided_def by metis
  then show "map mn_ran (nodes m') = map (has_input_event g0) (nodes m)"
    "\<And>q. q \<notin> set (owned m) \<Longrightarrow> q \<notin> reads_of R m \<Longrightarrow> visible_epoch (g' ! q) = visible_epoch (g ! q)" by simp_all
qed

lemma module_work_reads:
  assumes "reads_only H R" "module_work H (Module n ms) g = Inr (m', g')"
  obtains n1 g1 ms1 active g2 where
    "work_submodules H 0 ms g1 = Inr (ms1, active, g2)" "tick_queues (mn_owned n) g2 = Inr g'"
    "m' = Module (n1\<lparr>mn_active := active\<rparr>) ms1" "mn_ran n1 = has_input_event g n"
    "\<And>q. q \<notin> R n \<Longrightarrow> visible_epoch (g1 ! q) = visible_epoch (g ! q)"
proof (cases "has_input_event g n")
  case True
  let ?n = "n\<lparr>mn_active := [], mn_ran := True\<rparr>"
  from assms(2) True obtain n1 g1 ms1 active g2 where
    r: "run_hook (mh_work_self H) ?n g = Inr (n1, g1)" "work_submodules H 0 ms g1 = Inr (ms1, active, g2)"
      "tick_queues (mn_owned (capture_observed g1 (n1\<lparr>mn_force := False\<rparr>))) g2 = Inr g'"
      "m' = Module ((capture_observed g1 (n1\<lparr>mn_force := False\<rparr>))\<lparr>mn_active := active\<rparr>) ms1"
    by (auto simp: Let_def outcome_simps)
  from run_hook_active [OF r(1)] have "mn_ran n1" "mn_owned n1 = mn_owned n" by simp_all
  moreover from r(1) obtain l b where "mh_work_self H ?n g = Inr (l, b, g1)"
    by (auto simp: run_hook_def outcome_simps)
  then have "visible_epoch (g1 ! q) = visible_epoch (g ! q)" if "q \<notin> R n" for q
    using assms(1) that unfolding reads_only_def by fastforce
  ultimately show ?thesis using that r True by (simp add: capture_observed_def)
next
  case False
  with assms(2) that show ?thesis by (auto simp: Let_def outcome_simps)
qed

definition reads_apart :: "('l module_node \<Rightarrow> qid set) \<Rightarrow> 'l module_node \<Rightarrow> 'l module_node \<Rightarrow> bool" where
  "reads_apart R a b \<longleftrightarrow> R a \<inter> set (watched_node b) = {}"

lemma decided_submodules:
  fixes H :: "('l, 'p) module_hooks" and g0 :: "'p queues"
  assumes "\<And>c. c \<in> set ms \<Longrightarrow> decided H R c" "sorted_wrt separate ms"
    "sorted_wrt (reads_apart R) (concat (map nodes ms))"
    "work_submodules H idx ms g = Inr (ms', active, g')"
    "\<And>q c. c \<in> set ms \<Longrightarrow> q \<in> set (watched c) \<Longrightarrow> visible_epoch (g ! q) = visible_epoch (g0 ! q)"
  shows "map mn_ran (concat (map nodes ms')) = map (has_input_event g0) (concat (map nodes ms)) \<and>
    (\<forall>q. q \<notin> set (concat (map owned ms)) \<and> (\<forall>c \<in> set ms. q \<notin> reads_of R c) \<longrightarrow>
       visible_epoch (g' ! q) = visible_epoch (g ! q))"
  using assms
proof (induction ms arbitrary: idx g ms' active)
  case Nil
  then show ?case by simp
next
  case (Cons m ms)
  from Cons.prems(4) obtain m1 g1 ms1 active1 where
    r: "module_work H m g = Inr (m1, g1)" "work_submodules H (Suc idx) ms g1 = Inr (ms1, active1, g')" "ms' = m1 # ms1"
    by (auto simp: work_submodules_is_work outcome_simps simp del: work_submodules.simps)
  have "decided H R m" using Cons.prems(1) by simp
  note m = decidedD [OF this r(1) Cons.prems(5) [OF list.set_intros(1)]]
  have same: "visible_epoch (g1 ! q) = visible_epoch (g0 ! q)" if "c \<in> set ms" "q \<in> set (watched c)" for q c
  proof -
    have "q \<notin> set (owned m)" using Cons.prems(2) that by (auto simp: separate_def)
    moreover have "q \<notin> reads_of R m"
      using Cons.prems(3) that by (fastforce simp: reads_of_def watched_nodes reads_apart_def sorted_wrt_append)
    ultimately show ?thesis using m(2) Cons.prems(5) [of c q] that by simp
  qed
  have "map mn_ran (concat (map nodes ms1)) = map (has_input_event g0) (concat (map nodes ms)) \<and>
    (\<forall>q. q \<notin> set (concat (map owned ms)) \<and> (\<forall>c \<in> set ms. q \<notin> reads_of R c) \<longrightarrow>
       visible_epoch (g' ! q) = visible_epoch (g1 ! q))"
    using Cons.prems(1-3) same by (intro Cons.IH [OF _ _ _ r(2)]) (auto simp: sorted_wrt_append)
  with m r(3) show ?case by simp
qed

lemma nodes_apart: "sorted_wrt (reads_apart R) (concat (map nodes ms)) \<Longrightarrow> c \<in> set ms \<Longrightarrow> sorted_wrt (reads_apart R) (nodes c)"
  by (induction ms) (auto simp: sorted_wrt_append)

lemma decided_module:
  fixes H :: "('l, 'p) module_hooks"
  assumes "reads_only H R"
  shows "wired m \<Longrightarrow> sorted_wrt (reads_apart R) (nodes m) \<Longrightarrow> decided H R m"
proof (induction m)
  case (Module n ms)
  have sub: "decided H R c" if "c \<in> set ms" for c
    using Module that nodes_apart by (auto simp: list_all_iff)
  have apart: "sorted_wrt separate ms" "sorted_wrt (reads_apart R) (concat (map nodes ms))"
    "\<And>c q. c \<in> set ms \<Longrightarrow> q \<in> set (watched c) \<Longrightarrow> q \<notin> R n"
    using Module.prems by (simp, simp, force simp: reads_apart_def watched_nodes)
  show ?case
  proof (rule decidedI)
    fix g0 g :: "'p queues" and m' g'
    assume work: "module_work H (Module n ms) g = Inr (m', g')"
      and same: "\<forall>q \<in> set (watched (Module n ms)). visible_epoch (g ! q) = visible_epoch (g0 ! q)"
    have ev: "has_input_event g n = has_input_event g0 n" using same by (intro input_event_cong) simp
    from work obtain n1 g1 ms1 active g2 where
      r: "work_submodules H 0 ms g1 = Inr (ms1, active, g2)" "tick_queues (mn_owned n) g2 = Inr g'"
        "m' = Module (n1\<lparr>mn_active := active\<rparr>) ms1" "mn_ran n1 = has_input_event g n"
      and self: "\<And>q. q \<notin> R n \<Longrightarrow> visible_epoch (g1 ! q) = visible_epoch (g ! q)"
      by (rule module_work_reads [OF assms]) (rule that)
    have kept: "visible_epoch (g1 ! q) = visible_epoch (g0 ! q)" if "c \<in> set ms" "q \<in> set (watched c)" for q c
      using that same self apart(3) by force
    note rest = decided_submodules [OF sub apart(1,2) r(1) kept]
    show "map mn_ran (nodes m') = map (has_input_event g0) (nodes (Module n ms)) \<and>
      (\<forall>q. q \<notin> set (owned (Module n ms)) \<and> q \<notin> reads_of R (Module n ms) \<longrightarrow>
        visible_epoch (g' ! q) = visible_epoch (g ! q))"
      using rest r(3,4) ev self tick_queues_frame [OF r(2)] by (simp add: reads_of_Module)
  qed
qed

text \<open>What a cycle runs is decided at its start: when the modules are wired and no \<^verbatim>\<open>WorkSelf\<close> reads or flushes
  a queue that a later module watches, the modules whose \<^verbatim>\<open>WorkSelf\<close> runs are exactly those that had an input
  event in the queues as the cycle found them.  Nothing that is written in the cycle activates a module
  in the same cycle, in whatever order the tree is visited.\<close>
lemma activation_decided_at_cycle_start:
  assumes "wired m" "reads_only H R" "sorted_wrt (reads_apart R) (nodes m)" "module_work H m g = Inr (m', g')"
  shows "map mn_ran (nodes m') = map (has_input_event g) (nodes m)"
  using decidedD(1) [OF decided_module [OF assms(2,1,3)] assms(4) refl] .

text \<open>The reference for a cycle: every module is visited, parents first and without a filter, and whether it runs
  \<^verbatim>\<open>WorkSelf\<close> is read off the queues \<open>g0\<close> of the cycle's start.\<close>

definition pending_children :: "'p queues \<Rightarrow> nat \<Rightarrow> 'l module list \<Rightarrow> nat list" where
  "pending_children g0 idx ms = map fst (filter (\<lambda>(i, c). has_pending_work g0 c) (List.enumerate idx ms))"

fun work_at_start :: "('l, 'p) module_hooks \<Rightarrow> 'p queues \<Rightarrow> 'l module \<Rightarrow> 'p queues \<Rightarrow> ('l module \<times> 'p queues) outcome"
  and work_each_at_start :: "('l, 'p) module_hooks \<Rightarrow> 'p queues \<Rightarrow> 'l module list \<Rightarrow> 'p queues \<Rightarrow>
    ('l module list \<times> 'p queues) outcome" where
  "work_at_start H g0 (Module n ms) g =
     (let ran = has_input_event g0 n; n = n\<lparr>mn_active := [], mn_ran := ran\<rparr>
      in obind (if ran
           then obind (run_hook (mh_work_self H) n g) (\<lambda>(n, g). Inr (capture_observed g (n\<lparr>mn_force := False\<rparr>), g))
           else Inr (n, g)) (\<lambda>(n, g).
         obind (work_each_at_start H g0 ms g) (\<lambda>(ms', g).
         obind (tick_queues (mn_owned n) g) (\<lambda>g. Inr (Module (n\<lparr>mn_active := pending_children g0 0 ms\<rparr>) ms', g)))))"
| "work_each_at_start H g0 [] g = Inr ([], g)"
| "work_each_at_start H g0 (m # ms) g =
     obind (work_at_start H g0 m g) (\<lambda>(m, g).
     obind (work_each_at_start H g0 ms g) (\<lambda>(ms, g). Inr (m # ms, g)))"

lemma pending_children_simps [simp]:
  "pending_children g0 idx [] = []"
  "pending_children g0 idx (m # ms) =
     (if has_pending_work g0 m then [idx] else []) @ pending_children g0 (Suc idx) ms"
  by (simp_all add: pending_children_def)

lemma submodules_at_start:
  fixes H :: "('l, 'p) module_hooks" and g0 :: "'p queues"
  assumes "\<And>c g. c \<in> set ms \<Longrightarrow> (\<And>q. q \<in> set (watched c) \<Longrightarrow> visible_epoch (g ! q) = visible_epoch (g0 ! q)) \<Longrightarrow>
      module_work H c g = work_at_start H g0 c g"
    "\<And>c. c \<in> set ms \<Longrightarrow> decided H R c" "sorted_wrt separate ms"
    "sorted_wrt (reads_apart R) (concat (map nodes ms))"
    "\<And>q c. c \<in> set ms \<Longrightarrow> q \<in> set (watched c) \<Longrightarrow> visible_epoch (g ! q) = visible_epoch (g0 ! q)"
  shows "work_submodules H idx ms g =
    obind (work_each_at_start H g0 ms g) (\<lambda>(ms', g'). Inr (ms', pending_children g0 idx ms, g'))"
  using assms
proof (induction ms arbitrary: idx g)
  case Nil
  then show ?case by simp
next
  case (Cons m ms)
  have here: "visible_epoch (g ! q) = visible_epoch (g0 ! q)" if "q \<in> set (watched m)" for q
    using Cons.prems(5) [of m q] that by simp
  have head: "module_work H m g = work_at_start H g0 m g"
    using here by (intro Cons.prems(1)) simp_all
  have pend: "has_pending_work g m = has_pending_work g0 m" using here by (rule pending_cong)
  show ?case
  proof (cases "work_at_start H g0 m g")
    case (Inl e)
    then show ?thesis using head by (simp add: work_submodules_is_work del: work_submodules.simps)
  next
    case (Inr r)
    obtain m1 g1 where r: "work_at_start H g0 m g = Inr (m1, g1)" using Inr by (cases r) simp
    have dec: "decided H R m" using Cons.prems(2) by simp
    note frame = decidedD(2) [OF dec trans [OF head r] here]
    have same: "visible_epoch (g1 ! q) = visible_epoch (g0 ! q)" if "c \<in> set ms" "q \<in> set (watched c)" for q c
    proof -
      have "q \<notin> set (owned m)" using Cons.prems(3) that by (auto simp: separate_def)
      moreover have "q \<notin> reads_of R m"
        using Cons.prems(4) that by (fastforce simp: reads_of_def watched_nodes reads_apart_def sorted_wrt_append)
      ultimately show ?thesis using frame Cons.prems(5) [of c q] that by simp
    qed
    have "work_submodules H (Suc idx) ms g1 =
        obind (work_each_at_start H g0 ms g1) (\<lambda>(ms', g'). Inr (ms', pending_children g0 (Suc idx) ms, g'))"
    proof (rule Cons.IH [OF _ _ _ _ same])
      show "module_work H c g = work_at_start H g0 c g"
        if "c \<in> set ms" "\<And>q. q \<in> set (watched c) \<Longrightarrow> visible_epoch (g ! q) = visible_epoch (g0 ! q)" for c g
        using Cons.prems(1) [of c g] that by simp
      show "decided H R c" if "c \<in> set ms" for c using Cons.prems(2) that by simp
    qed (use Cons.prems(3,4) in \<open>simp_all add: sorted_wrt_append\<close>)
    then show ?thesis
      by (cases "work_each_at_start H g0 ms g1")
        (auto simp: work_submodules_is_work head r pend simp del: work_submodules.simps)
  qed
qed

lemma work_is_at_start:
  fixes H :: "('l, 'p) module_hooks" and g0 :: "'p queues"
  assumes "reads_only H R"
  shows "wired m \<Longrightarrow> sorted_wrt (reads_apart R) (nodes m) \<Longrightarrow>
    (\<And>q. q \<in> set (watched m) \<Longrightarrow> visible_epoch (g ! q) = visible_epoch (g0 ! q)) \<Longrightarrow>
    module_work H m g = work_at_start H g0 m g"
proof (induction m arbitrary: g)
  case (Module n ms)
  have sub: "decided H R c" "module_work H c h = work_at_start H g0 c h"
    if "c \<in> set ms" "\<And>q. q \<in> set (watched c) \<Longrightarrow> visible_epoch (h ! q) = visible_epoch (g0 ! q)" for c h
  proof -
    have "wired c" "sorted_wrt (reads_apart R) (nodes c)"
      using Module.prems(1,2) that nodes_apart by (auto simp: list_all_iff)
    with Module.IH [OF that(1)] that(2) decided_module [OF assms]
    show "decided H R c" "module_work H c h = work_at_start H g0 c h" by blast+
  qed
  have dec: "decided H R c" if "c \<in> set ms" for c by (rule sub(1) [OF that, of g0]) simp
  have apart: "sorted_wrt separate ms" "sorted_wrt (reads_apart R) (concat (map nodes ms))"
    "\<And>c q. c \<in> set ms \<Longrightarrow> q \<in> set (watched c) \<Longrightarrow> q \<notin> R n"
    using Module.prems by (simp, simp, force simp: reads_apart_def watched_nodes)
  have ev: "has_input_event g n = has_input_event g0 n" using Module.prems(3) by (intro input_event_cong) simp
  let ?self = "\<lambda>n. if mn_ran n
     then obind (run_hook (mh_work_self H) n g) (\<lambda>(n, g). Inr (capture_observed g (n\<lparr>mn_force := False\<rparr>), g))
     else Inr (n, g)"
  let ?n = "n\<lparr>mn_active := [], mn_ran := has_input_event g0 n\<rparr>"
  have rest: "work_submodules H 0 ms g1 =
      obind (work_each_at_start H g0 ms g1) (\<lambda>(ms', g'). Inr (ms', pending_children g0 0 ms, g'))"
    if "?self ?n = Inr (n1, g1)" for n1 g1
  proof (rule submodules_at_start [OF sub(2) dec apart(1,2)])
    fix q c
    assume c: "c \<in> set ms" "q \<in> set (watched c)"
    have self: "visible_epoch (g1 ! q) = visible_epoch (g ! q)" if "q \<notin> R n" for q
    proof (cases "has_input_event g0 n")
      case True
      with \<open>?self ?n = Inr (n1, g1)\<close> obtain l b where "mh_work_self H (n\<lparr>mn_active := [], mn_ran := True\<rparr>) g = Inr (l, b, g1)"
        by (auto simp: run_hook_def outcome_simps)
      with assms that show ?thesis unfolding reads_only_def by blast
    qed (use \<open>?self ?n = Inr (n1, g1)\<close> in simp)
    show "visible_epoch (g1 ! q) = visible_epoch (g0 ! q)"
      using self apart(3) c Module.prems(3) [of q] by auto
  qed auto
  show ?case
  proof (cases "?self ?n")
    case (Inl e)
    then show ?thesis using ev by (auto simp: Let_def)
  next
    case (Inr r)
    obtain n1 g1 where r: "?self ?n = Inr (n1, g1)" using Inr by (cases r) simp
    then show ?thesis
      using rest [OF r] ev
      by (cases "work_each_at_start H g0 ms g1") (auto simp: Let_def)
  qed
qed

definition inputs_of :: "'l module_node \<Rightarrow> qid set" where
  "inputs_of n = set (List.map_filter id (mn_inputs n))"

lemma epoch_update:
  "visible_epoch (g[k := x] ! q) = (if k = q \<and> q < length g then visible_epoch x else visible_epoch (g ! q))"
  by (cases "k = q"; cases "q < length g") (simp_all add: list_update_beyond)

lemma stage_reads_only: "reads_only stage_hooks inputs_of"
proof -
  have "visible_epoch (g' ! q) = visible_epoch (g ! q)"
    if "mh_work_self stage_hooks (n\<lparr>mn_active := [], mn_ran := True\<rparr>) g = Inr (l, b, g')" "q \<notin> inputs_of n"
    for n g l b g' q
    using that
    by (auto simp: stage_hooks_def Let_def inputs_of_def map_filter_def outcome_simps sq_write_def epoch_update
        split: list.splits option.splits if_split_asm)
  then show ?thesis by (simp add: reads_only_def)
qed

section \<open>Activation and reset\<close>

text \<open>An activation that a module requests while it works is lost: \<^verbatim>\<open>Work\<close> clears the request after
  \<^verbatim>\<open>WorkSelf\<close>, so no module is forced when its \<^verbatim>\<open>Work\<close> returns.\<close>
lemma activation_request_lost:
  "module_work H m g = Inr (m', g') \<Longrightarrow> \<not> mn_force (self m')"
  by (cases m) (auto simp: Let_def outcome_simps capture_observed_def has_input_event_def split: if_split_asm)

lemma reset_idle: "module_reset H m g = Inr (m', g') \<Longrightarrow> \<not> has_pending_work g' m'"
proof -
  assume "module_reset H m g = Inr (m', g')"
  then obtain x where "m' = reset_event_state g' x"
    by (cases m) (auto simp: outcome_simps simp del: reset_event_state.simps)
  then show ?thesis by (simp add: event_after_reset)
qed

lemma wiring_event_state: "watched (reset_event_state g m) = watched m \<and> owned (reset_event_state g m) = owned m"
proof (induction m)
  case (Module n ms)
  then have "map watched (map (reset_event_state g) ms) = map watched ms"
    "map owned (map (reset_event_state g) ms) = map owned ms" by (simp_all cong: map_cong)
  then show ?case by (simp add: capture_observed_def watched_node_def del: map_map)
qed

lemma sorted_wrt_separate:
  "map watched xs = map watched ys \<Longrightarrow> map owned xs = map owned ys \<Longrightarrow> sorted_wrt separate xs = sorted_wrt separate ys"
proof (induction xs arbitrary: ys)
  case (Cons x xs)
  then obtain y zs where ys: "ys = y # zs" by (cases ys) auto
  have "(\<forall>z \<in> set xs. separate x z) \<longleftrightarrow> (\<forall>w \<in> set (map watched xs). set (owned x) \<inter> set w = {})"
    "(\<forall>z \<in> set zs. separate y z) \<longleftrightarrow> (\<forall>w \<in> set (map watched zs). set (owned y) \<inter> set w = {})"
    by (auto simp: separate_def)
  with Cons ys show ?case by simp
qed simp

lemma wired_event_state: "wired (reset_event_state g m) = wired m"
proof (induction m)
  case (Module n ms)
  have "sorted_wrt separate (map (reset_event_state g) ms) = sorted_wrt separate ms"
    by (rule sorted_wrt_separate) (simp_all add: wiring_event_state)
  moreover have "list_all wired (map (reset_event_state g) ms) = list_all wired ms"
    using Module by (simp add: list_all_iff)
  ultimately show ?case by (simp del: list.pred_map)
qed

lemma reset_wiring:
  "module_reset H m g = Inr (m', g') \<Longrightarrow> watched m' = watched m \<and> owned m' = owned m \<and> wired m' = wired m"
  "reset_all H ms g = Inr (ms', g') \<Longrightarrow> map watched ms' = map watched ms \<and> map owned ms' = map owned ms \<and>
     list_all wired ms' = list_all wired ms"
proof (induction H m g and H ms g arbitrary: m' g' and ms' g' rule: module_reset_reset_all.induct)
  case (1 H n ms g)
  then obtain n1 g1 ms1 g2 where r: "run_hook (mh_reset_self H) n g = Inr (n1, g1)"
    "reset_all H ms g1 = Inr (ms1, g2)" "m' = reset_event_state g' (Module n1 ms1)"
    by (auto simp: outcome_simps simp del: reset_event_state.simps)
  have "map watched ms1 = map watched ms" "map owned ms1 = map owned ms" "list_all wired ms1 = list_all wired ms"
    using "1.IH" [OF r(2)] by simp_all
  with run_hook_active [OF r(1)] show ?case
    using sorted_wrt_separate [of ms1 ms] by (simp add: r(3) watched_node_def wiring_event_state wired_event_state del: reset_event_state.simps)
next
  case (2 H g)
  then show ?case by simp
next
  case (3 H m ms g)
  then show ?case by (auto simp: outcome_simps)
qed

text \<open>C20: after a reset nothing is pending, so the first \<^verbatim>\<open>Work\<close> of a wired tree runs no hook of any module:
  it does the same for any two derived classes, leaves every module marked as not run, and so it
  only advances the queues.\<close>
theorem reset_then_work_is_idle:
  assumes "wired m" "module_reset H m g = Inr (m', g')"
  shows "\<not> has_pending_work g' m' \<and> module_work H1 m' g' = module_work H2 m' g' \<and>
    (\<forall>m'' g''. module_work H1 m' g' = Inr (m'', g'') \<longrightarrow> quiet m'')"
proof -
  have "wired m'" using reset_wiring(1) [OF assms(2)] assms(1) by simp
  from idle_module [OF this reset_idle [OF assms(2)], of H1 H2] reset_idle [OF assms(2)]
  show ?thesis by (auto simp: idle_step_def)
qed

theorem reset_then_work_is_idle_witness:
  "\<exists>m' g'. module_reset stage_hooks two_stages [demo_queue [7], demo_queue [], demo_queue []] = Inr (m', g') \<and>
     \<not> has_pending_work g' m'"
proof -
  have w: "wired two_stages" by code_simp
  have "(case module_reset stage_hooks two_stages [demo_queue [7], demo_queue [], demo_queue []] of
      Inl e \<Rightarrow> False | Inr _ \<Rightarrow> True)" by code_simp
  then obtain m' g' where r: "module_reset stage_hooks two_stages [demo_queue [7], demo_queue [], demo_queue []] = Inr (m', g')"
    by (auto split: sum.splits)
  from reset_then_work_is_idle [OF w r, of stage_hooks stage_hooks] r show ?thesis by blast
qed

text \<open>A submodule or queue that a constructor adds, before the module is registered with the simulation, never gets
  the simulation's logger and cycle: registering attaches them to the module alone.\<close>
lemma early_submodule_unattached:
  "map (mn_runtime \<circ> self) (subs (sim_attach (add_submodule (Module (module_new c l) []) (Module (module_new p l') [])))) = [False]"
  "map (mn_runtime \<circ> self) (subs (add_submodule (Module (module_new c l) []) (sim_attach (Module (module_new p l') [])))) = [True]"
  by (simp_all add: sim_attach_def add_submodule_def attach_runtime_def module_new_def)

section \<open>Validation\<close>

text \<open>The contract of a registered object.\<close>

fun registered_contract :: "'l registered \<Rightarrow> bool" where
  "registered_contract Reg_Null = False"
| "registered_contract (Reg_Module m) = list_all node_contract (nodes m)"
| "registered_contract (Reg_Queue name) = True"
| "registered_contract (Reg_Plain name) = False"

text \<open>Validation only ever adds errors.\<close>

definition only_errors :: "validation_report \<Rightarrow> bool" where
  "only_errors r \<longleftrightarrow> list_all (\<lambda>i. vi_severity i = VS_Error) r"

lemma only_errors_add [simp]: "only_errors (add_error c m r) = only_errors r"
  by (simp add: only_errors_def add_error_def)

lemma only_errors_fold: "(\<And>x r. x \<in> set xs \<Longrightarrow> only_errors r \<Longrightarrow> only_errors (f x r)) \<Longrightarrow> only_errors r \<Longrightarrow> only_errors (fold f xs r)"
  by (induction xs arbitrary: r) auto

lemma only_errors_port: "only_errors r \<Longrightarrow> only_errors (validate_port c qs p r)"
  by (cases p) (simp add: validate_port_def Let_def)

lemma only_errors_ports: "only_errors r \<Longrightarrow> only_errors (validate_declared_ports c ps qs r)"
  unfolding validate_declared_ports_def by (rule only_errors_fold) (simp_all add: only_errors_port)

lemma only_errors_node: "only_errors r \<Longrightarrow> only_errors (validate_node n r)"
  by (simp add: validate_node_def Let_def only_errors_ports)

lemma collect_issues:
  "only_errors r \<Longrightarrow> only_errors (collect_validation_issues m r)"
  "has_errors (collect_validation_issues m r) \<longleftrightarrow> has_errors r \<or> \<not> list_all node_contract (nodes m)"
proof (induction m arbitrary: r)
  case (Module n ms)
  {
    case 1
    then show ?case by (auto intro!: only_errors_fold Module.IH(1) only_errors_node)
  next
    case 2
    have "has_errors (fold collect_validation_issues cs r) \<longleftrightarrow> has_errors r \<or>
        \<not> list_all node_contract (concat (map nodes cs))" if "set cs \<subseteq> set ms" for cs r
      using that by (induction cs arbitrary: r) (auto simp: Module.IH(2))
    from this [of ms] show ?case by (auto simp: has_errors_node)
  }
qed

lemma validate_registered_issues:
  "only_errors r \<Longrightarrow> only_errors (validate_registered x r)"
  "has_errors (validate_registered x r) \<longleftrightarrow> has_errors r \<or> \<not> registered_contract x"
  by (cases x; simp add: validate_registered_def collect_issues)+

lemma only_errors_ok: "only_errors r \<Longrightarrow> report_ok r \<longleftrightarrow> r = []"
  by (cases r) (simp_all add: only_errors_def report_ok_def)

text \<open>C26: the validation of a model is exact: its report is empty, prints nothing and is ok exactly when every
  registered object is a queue or a module tree in which each module keeps the contract: every declared
  port has a name, a description and a bound queue, and there is an input and an output unless the
  module is exempt.\<close>
theorem validation_exact:
  "(validate_model rs = []) = list_all registered_contract rs \<and>
   report_ok (validate_model rs) = list_all registered_contract rs \<and>
   (format_report (validate_model rs) = []) = list_all registered_contract rs"
proof -
  have errs: "has_errors (fold validate_registered rs r) \<longleftrightarrow> has_errors r \<or> \<not> list_all registered_contract rs" for r
    by (induction rs arbitrary: r) (auto simp: validate_registered_issues)
  have "only_errors (validate_model rs)"
    unfolding validate_model_def
    by (rule only_errors_fold) (simp_all add: validate_registered_issues only_errors_def [of "[]"])
  note ok = only_errors_ok [OF this]
  moreover have "report_ok (validate_model rs) = list_all registered_contract rs"
    by (simp add: report_ok_def validate_model_def errs)
  moreover have "format_report r = [] \<longleftrightarrow> r = []" for r
    by (cases r) (simp_all add: format_report_def)
  ultimately show ?thesis by simp
qed

end
