(* ===== verification/Sim_System.thy ===== *)
theory Sim_System
  imports Sim_Args Elf_Loader Disasm
begin

text \<open>
  The top-level simulation (\<^verbatim>\<open>include/linx/model/sim_system.hpp\<close>) and its main loop (\<^verbatim>\<open>RunSimMain\<close> of
  \<^verbatim>\<open>include/linx/model/sim_main.hpp\<close>).  \<open>'m\<close> are the registered modules, which work on a shared store
  \<open>'g\<close> of queues, and \<open>'d\<close> is the state of the derived class.  The virtual functions are fields of
  \<open>sim_ops\<close>.  Modules are registered by reference or checked, so the null checks of the loops over
  them never fail and are left out, as are the pointers to logger and cycle that \<^verbatim>\<open>AttachRuntime\<close> sets.
\<close>

section \<open>State\<close>

record ('m, 'g, 'd) sim_system =
  ss_modules :: "'m list"
  ss_store :: 'g
  ss_derived :: 'd
  ss_program_image :: "program_image option"
  ss_logger :: sim_logger
  ss_cycle :: u64
  ss_built :: bool
  ss_terminate_requested :: bool

definition sim_system_new :: "'g \<Rightarrow> 'd \<Rightarrow> ('m, 'g, 'd) sim_system" where
  "sim_system_new store derived = \<lparr>ss_modules = [], ss_store = store, ss_derived = derived,
     ss_program_image = None, ss_logger = logger_default, ss_cycle = 0, ss_built = False,
     ss_terminate_requested = False\<rparr>"

text \<open>The phase functions of a module and the virtual functions of the simulation.\<close>

record ('m, 'g, 'd) sim_ops =
  so_build :: "'m \<Rightarrow> 'g \<Rightarrow> ('m \<times> 'g) outcome"
  so_reset :: "'m \<Rightarrow> 'g \<Rightarrow> ('m \<times> 'g) outcome"
  so_work :: "'m \<Rightarrow> 'g \<Rightarrow> ('m \<times> 'g) outcome"
  so_xfer :: "'m \<Rightarrow> 'g \<Rightarrow> ('m \<times> 'g) outcome"
  so_report :: "'m \<Rightarrow> 'g \<Rightarrow> ('m \<times> 'g) outcome"
  so_build_system :: "('m, 'g, 'd) sim_system \<Rightarrow> ('m, 'g, 'd) sim_system outcome"
  so_reset_system :: "('m, 'g, 'd) sim_system \<Rightarrow> ('m, 'g, 'd) sim_system outcome"
  so_report_system :: "('m, 'g, 'd) sim_system \<Rightarrow> ('m, 'g, 'd) sim_system outcome"
  so_on_program_loaded :: "program_image \<Rightarrow> ('m, 'g, 'd) sim_system \<Rightarrow> ('m, 'g, 'd) sim_system outcome"
  so_run_reference :: "u64 option \<Rightarrow> ('m, 'g, 'd) sim_system \<Rightarrow> ('m, 'g, 'd) sim_system outcome"
  so_need_terminate :: "('m, 'g, 'd) sim_system \<Rightarrow> bool"
  so_pipe_view :: "('m, 'g, 'd) sim_system \<Rightarrow> string"

section \<open>Phases\<close>

fun each_module :: "('m \<Rightarrow> 'g \<Rightarrow> ('m \<times> 'g) outcome) \<Rightarrow> 'm list \<Rightarrow> 'g \<Rightarrow> ('m list \<times> 'g) outcome" where
  "each_module f [] g = Inr ([], g)"
| "each_module f (m # ms) g =
     obind (f m g) (\<lambda>(m', g'). obind (each_module f ms g') (\<lambda>(ms', g''). Inr (m' # ms', g'')))"

definition run_phase :: "('m \<Rightarrow> 'g \<Rightarrow> ('m \<times> 'g) outcome) \<Rightarrow> ('m, 'g, 'd) sim_system \<Rightarrow>
    ('m, 'g, 'd) sim_system outcome" where
  "run_phase f s = obind (each_module f (ss_modules s) (ss_store s)) (\<lambda>(ms, g).
     Inr (s\<lparr>ss_modules := ms, ss_store := g\<rparr>))"

definition add_module :: "'m \<Rightarrow> ('m, 'g, 'd) sim_system \<Rightarrow> ('m, 'g, 'd) sim_system" where
  "add_module m s = s\<lparr>ss_modules := ss_modules s @ [m]\<rparr>"

text \<open>\<^verbatim>\<open>AddOwnedModule\<close> takes a pointer that may be null.\<close>

definition add_owned_module :: "'m option \<Rightarrow> ('m, 'g, 'd) sim_system \<Rightarrow> ('m, 'g, 'd) sim_system outcome" where
  "add_owned_module m s = (case m of None \<Rightarrow> Inl Assert_Failed | Some m \<Rightarrow> Inr (add_module m s))"

definition sim_build :: "('m, 'g, 'd) sim_ops \<Rightarrow> ('m, 'g, 'd) sim_system \<Rightarrow> ('m, 'g, 'd) sim_system outcome" where
  "sim_build ops s =
     obind (check_that (\<not> ss_built s)) (\<lambda>_.
     obind (so_build_system ops s) (\<lambda>s.
     obind (run_phase (so_build ops) s) (\<lambda>s. Inr (s\<lparr>ss_built := True\<rparr>))))"

definition sim_reset :: "('m, 'g, 'd) sim_ops \<Rightarrow> ('m, 'g, 'd) sim_system \<Rightarrow> ('m, 'g, 'd) sim_system outcome" where
  "sim_reset ops s =
     obind (so_reset_system ops s) (\<lambda>s.
       run_phase (so_reset ops) (s\<lparr>ss_cycle := 0, ss_terminate_requested := False\<rparr>))"

definition sim_report :: "('m, 'g, 'd) sim_ops \<Rightarrow> ('m, 'g, 'd) sim_system \<Rightarrow> ('m, 'g, 'd) sim_system outcome" where
  "sim_report ops s = obind (so_report_system ops s) (run_phase (so_report ops))"

definition sim_step :: "('m, 'g, 'd) sim_ops \<Rightarrow> ('m, 'g, 'd) sim_system \<Rightarrow> ('m, 'g, 'd) sim_system outcome" where
  "sim_step ops s =
     obind (run_phase (so_work ops) s) (\<lambda>s.
     obind (run_phase (so_xfer ops) s) (\<lambda>s. Inr (s\<lparr>ss_cycle := ss_cycle s + 1\<rparr>)))"

definition sim_request_terminate :: "('m, 'g, 'd) sim_system \<Rightarrow> ('m, 'g, 'd) sim_system" where
  "sim_request_terminate s = s\<lparr>ss_terminate_requested := True\<rparr>"

section \<open>Programs\<close>

definition sim_load_program_image :: "('m, 'g, 'd) sim_ops \<Rightarrow> program_image \<Rightarrow> ('m, 'g, 'd) sim_system \<Rightarrow>
    ('m, 'g, 'd) sim_system outcome" where
  "sim_load_program_image ops img s = so_on_program_loaded ops img (s\<lparr>ss_program_image := Some img\<rparr>)"

definition sim_load_program_file :: "('m, 'g, 'd) sim_ops \<Rightarrow> (string \<Rightarrow> u8 list outcome) \<Rightarrow> string \<Rightarrow> u64 \<Rightarrow>
    ('m, 'g, 'd) sim_system \<Rightarrow> ('m, 'g, 'd) sim_system outcome" where
  "sim_load_program_file ops read_file path raw_base s =
     obind (load_program_image read_file path raw_base) (\<lambda>img. sim_load_program_image ops img s)"

definition sim_load_elf :: "('m, 'g, 'd) sim_ops \<Rightarrow> (string \<Rightarrow> u8 list outcome) \<Rightarrow> string \<Rightarrow>
    ('m, 'g, 'd) sim_system \<Rightarrow> ('m, 'g, 'd) sim_system outcome" where
  "sim_load_elf ops read_file path s =
     obind (load_elf_image_from_file read_file path) (\<lambda>img. sim_load_program_image ops img s)"

definition sim_load_binary :: "('m, 'g, 'd) sim_ops \<Rightarrow> (string \<Rightarrow> u8 list outcome) \<Rightarrow> string \<Rightarrow> u64 \<Rightarrow>
    ('m, 'g, 'd) sim_system \<Rightarrow> ('m, 'g, 'd) sim_system outcome" where
  "sim_load_binary ops read_file path base s =
     obind (load_raw_binary_from_file read_file path base ''.text'') (\<lambda>img. sim_load_program_image ops img s)"

definition sim_print_disassembly :: "codec_tables \<Rightarrow> (asm_replacement list \<Rightarrow> asm_replacement list) \<Rightarrow>
    ('m, 'g, 'd) sim_system \<Rightarrow> string outcome" where
  "sim_print_disassembly T srt s =
     (case ss_program_image s of None \<Rightarrow> Inl Assert_Failed | Some img \<Rightarrow> Inr (print_disassembly T srt img))"

section \<open>The main loop\<close>

text \<open>One round of the loop of \<^verbatim>\<open>RunSimMain\<close>: the simulation, the text of the pipe view and whether to stop.\<close>

definition main_round :: "('m, 'g, 'd) sim_ops \<Rightarrow> sim_main_args \<Rightarrow> ('m, 'g, 'd) sim_system \<Rightarrow>
    (('m, 'g, 'd) sim_system \<times> string \<times> bool) outcome" where
  "main_round ops a s =
     obind (if sa_enable_reference a then so_run_reference ops (sa_stop_pc a) s else Inr s) (\<lambda>s.
     obind (sim_step ops s) (\<lambda>s.
       let view = (if sa_enable_pipeview a then so_pipe_view ops s else []);
           terminate = so_need_terminate ops s
       in if \<not> terminate \<and> (case sa_max_cycles a of None \<Rightarrow> False | Some m \<Rightarrow> ss_cycle s \<ge> m)
          then Inr (sim_request_terminate s, view, True)
          else Inr (s, view, terminate)))"

text \<open>The loop, with fuel; \<open>None\<close> when it runs out.\<close>

fun main_loop :: "nat \<Rightarrow> ('m, 'g, 'd) sim_ops \<Rightarrow> sim_main_args \<Rightarrow> ('m, 'g, 'd) sim_system \<Rightarrow> string \<Rightarrow>
    (('m, 'g, 'd) sim_system \<times> string) outcome option" where
  "main_loop 0 ops a s out = None"
| "main_loop (Suc fuel) ops a s out =
     (case main_round ops a s of
        Inl e \<Rightarrow> Some (Inl e)
      | Inr (s', view, terminate) \<Rightarrow>
          if terminate then Some (Inr (s', out @ view)) else main_loop fuel ops a s' (out @ view))"

definition prepare_main :: "('m, 'g, 'd) sim_ops \<Rightarrow> codec_tables \<Rightarrow> (asm_replacement list \<Rightarrow> asm_replacement list) \<Rightarrow>
    (string \<Rightarrow> u8 list outcome) \<Rightarrow> sim_main_args \<Rightarrow> ('m, 'g, 'd) sim_system \<Rightarrow>
    (('m, 'g, 'd) sim_system \<times> string) outcome" where
  "prepare_main ops T srt read_file a s =
     obind (case sa_program_path a of
         None \<Rightarrow> Inr (s\<lparr>ss_logger := set_min_level (sa_log_level a) (ss_logger s)\<rparr>)
       | Some path \<Rightarrow> sim_load_program_file ops read_file path (sa_raw_base_address a)
           (s\<lparr>ss_logger := set_min_level (sa_log_level a) (ss_logger s)\<rparr>)) (\<lambda>s.
     obind (if sa_enable_disassembly a then sim_print_disassembly T srt s else Inr []) (\<lambda>out. Inr (s, out)))"

text \<open>\<^verbatim>\<open>RunSimMain\<close> without its exit code, which is 0 whenever it returns.\<close>

definition run_sim_main :: "nat \<Rightarrow> ('m, 'g, 'd) sim_ops \<Rightarrow> codec_tables \<Rightarrow>
    (asm_replacement list \<Rightarrow> asm_replacement list) \<Rightarrow> (string \<Rightarrow> u8 list outcome) \<Rightarrow> sim_main_args \<Rightarrow>
    ('m, 'g, 'd) sim_system \<Rightarrow> (('m, 'g, 'd) sim_system \<times> string) outcome option" where
  "run_sim_main fuel ops T srt read_file a s =
     (case prepare_main ops T srt read_file a s of
        Inl e \<Rightarrow> Some (Inl e)
      | Inr (s, out) \<Rightarrow>
          if sa_disassembly_only a then Some (Inr (s, out))
          else (case obind (sim_build ops s) (sim_reset ops) of
            Inl e \<Rightarrow> Some (Inl e)
          | Inr s \<Rightarrow>
              (case (if so_need_terminate ops s then Some (Inr (s, out)) else main_loop fuel ops a s out) of
                 None \<Rightarrow> None
               | Some (Inl e) \<Rightarrow> Some (Inl e)
               | Some (Inr (s, out)) \<Rightarrow>
                   if sa_enable_report a
                   then Some (obind (sim_report ops s) (\<lambda>s. Inr (s, out)))
                   else Some (Inr (s, out)))))"

text \<open>\<^verbatim>\<open>RunSimMain\<close> on a command line, for a given simulation and for one that a factory makes from the options: the
  exit code, both outputs and the simulation, if there is one.\<close>

definition run_sim_main_with_factory :: "nat \<Rightarrow> ('m, 'g, 'd) sim_ops \<Rightarrow> codec_tables \<Rightarrow>
    (asm_replacement list \<Rightarrow> asm_replacement list) \<Rightarrow> (string \<Rightarrow> u8 list outcome) \<Rightarrow>
    (sim_main_args \<Rightarrow> ('m, 'g, 'd) sim_system option) \<Rightarrow> string \<Rightarrow> string list \<Rightarrow>
    (int \<times> string \<times> string \<times> ('m, 'g, 'd) sim_system option) outcome option" where
  "run_sim_main_with_factory fuel ops T srt read_file factory program args =
     (case parse_sim_main_args program args of
        Stop code out err \<Rightarrow> Some (Inr (code, out, err, None))
      | Parsed a \<Rightarrow>
          (case factory a of
             None \<Rightarrow> Some (Inl Assert_Failed)
           | Some s \<Rightarrow> map_option (\<lambda>r. obind r (\<lambda>(s, out). Inr (0, out, [], Some s)))
               (run_sim_main fuel ops T srt read_file a s)))"

definition run_sim_main_argv :: "nat \<Rightarrow> ('m, 'g, 'd) sim_ops \<Rightarrow> codec_tables \<Rightarrow>
    (asm_replacement list \<Rightarrow> asm_replacement list) \<Rightarrow> (string \<Rightarrow> u8 list outcome) \<Rightarrow> ('m, 'g, 'd) sim_system \<Rightarrow>
    string \<Rightarrow> string list \<Rightarrow> (int \<times> string \<times> string \<times> ('m, 'g, 'd) sim_system) outcome option" where
  "run_sim_main_argv fuel ops T srt read_file s program args =
     (case parse_sim_main_args program args of
        Stop code out err \<Rightarrow> Some (Inr (code, out, err, s))
      | Parsed a \<Rightarrow> map_option (\<lambda>r. obind r (\<lambda>(s, out). Inr (0, out, [], s)))
          (run_sim_main fuel ops T srt read_file a s))"

lemma argv_is_constant_factory:
  "run_sim_main_with_factory fuel ops T srt read_file (\<lambda>_. Some s) program args =
   (case parse_sim_main_args program args of
      Stop code out err \<Rightarrow> Some (Inr (code, out, err, None))
    | Parsed a \<Rightarrow> map_option (\<lambda>r. obind r (\<lambda>(code, out, err, s). Inr (code, out, err, Some s)))
        (run_sim_main_argv fuel ops T srt read_file s program args))"
  by (auto simp: run_sim_main_with_factory_def run_sim_main_argv_def option.map_comp comp_def obind_assoc split_def
      split: parse_result.split)

section \<open>The loop ends under a cycle bound\<close>

lemma run_phase_cycle:
  "run_phase f s = Inr s' \<Longrightarrow> ss_cycle s' = ss_cycle s \<and> ss_derived s' = ss_derived s"
  by (auto simp: run_phase_def outcome_simps)

lemma sim_step_cycle:
  "sim_step ops s = Inr s' \<Longrightarrow> ss_cycle s' = ss_cycle s + 1 \<and> ss_derived s' = ss_derived s"
  by (auto simp: sim_step_def outcome_simps dest!: run_phase_cycle)

text \<open>The contract of a derived simulation: its reference model leaves the simulation's cycle to \<^verbatim>\<open>Step\<close>.\<close>

locale clocked_sim =
  fixes ops :: "('m, 'g, 'd) sim_ops"
  assumes reference_cycle: "so_run_reference ops stop s = Inr s' \<Longrightarrow> ss_cycle s' = ss_cycle s"
begin

lemma main_round_cycle:
  assumes "main_round ops a s = Inr (s', view, terminate)"
  shows "ss_cycle s' = ss_cycle s + 1" "sa_max_cycles a = Some m \<Longrightarrow> \<not> terminate \<Longrightarrow> ss_cycle s' < m"
proof -
  obtain s1 s2 where ref: "(if sa_enable_reference a then so_run_reference ops (sa_stop_pc a) s else Inr s) = Inr s1"
    and step: "sim_step ops s1 = Inr s2"
    and res: "(s', terminate) = (if \<not> so_need_terminate ops s2 \<and>
        (case sa_max_cycles a of None \<Rightarrow> False | Some m \<Rightarrow> ss_cycle s2 \<ge> m)
      then (sim_request_terminate s2, True) else (s2, so_need_terminate ops s2))"
    using assms unfolding main_round_def obind_Inr_iff Let_def
    by (elim exE conjE) (simp split: if_split_asm)
  have "ss_cycle s1 = ss_cycle s"
    using ref by (auto dest: reference_cycle split: if_split_asm)
  then have s2: "ss_cycle s2 = ss_cycle s + 1" using sim_step_cycle [OF step] by simp
  then show "ss_cycle s' = ss_cycle s + 1" using res by (simp add: sim_request_terminate_def split: if_split_asm)
  assume "sa_max_cycles a = Some m" "\<not> terminate"
  then show "ss_cycle s' < m" using res by (simp add: not_le split: if_split_asm)
qed

lemma main_loop_bounded:
  assumes "sa_max_cycles a = Some m"
  shows "unat (ss_cycle s) < unat m \<or> unat (ss_cycle s) = 0 \<Longrightarrow> unat m - unat (ss_cycle s) < fuel \<Longrightarrow>
    \<exists>r. \<forall>fuel' \<ge> fuel. main_loop fuel' ops a s out = Some r"
proof (induction fuel arbitrary: s out)
  case 0
  then show ?case by simp
next
  case (Suc fuel)
  have unfold: "\<forall>fuel' \<ge> Suc fuel. main_loop fuel' ops a s out = Some r"
    if "\<forall>f \<ge> fuel. main_loop (Suc f) ops a s out = Some r" for r
    using that Suc_le_D by blast
  show ?case
  proof (cases "main_round ops a s")
    case (Inl e)
    then show ?thesis using unfold [of "Inl e"] by auto
  next
    case (Inr res)
    obtain s' view terminate where res: "res = (s', view, terminate)" by (cases res) auto
    note cyc = main_round_cycle [OF Inr [unfolded res]]
    show ?thesis
    proof (cases terminate)
      case True
      then show ?thesis using unfold [of "Inr (s', out @ view)"] Inr res by auto
    next
      case False
      have less: "ss_cycle s' < m" using cyc(2) [OF assms False] .
      have "unat (ss_cycle s) + 1 < 2 ^ 64"
      proof -
        have "unat m < 2 ^ LENGTH(64)" by (rule unsigned_less)
        with Suc.prems(1) show ?thesis by auto
      qed
      then have n: "unat (ss_cycle s') = unat (ss_cycle s) + 1"
        using cyc(1) unat_add_lem [of "ss_cycle s" 1] by simp
      have "\<exists>r. \<forall>fuel' \<ge> fuel. main_loop fuel' ops a s' (out @ view) = Some r"
        using Suc.prems less n by (intro Suc.IH) (auto simp: word_less_nat_alt)
      then obtain r where "\<forall>fuel' \<ge> fuel. main_loop fuel' ops a s' (out @ view) = Some r" by blast
      then show ?thesis using unfold [of r] Inr res False by auto
    qed
  qed
qed

end

end
