(* ===== verification/Module_Sim.thy ===== *)
theory Module_Sim
  imports Module_Claims Sim_System
begin

text \<open>
  A simulation made of modules and queues: the objects registered with \<^verbatim>\<open>SimSystem\<close>
  (\<^verbatim>\<open>include/linx/model/sim_system.hpp\<close>) are trees of modules (\<^verbatim>\<open>Module_Tree\<close>) and single queues, whose
  phases \<^verbatim>\<open>Step\<close> runs over one store of queues.  What one cycle runs, and when nothing runs any more.
\<close>

section \<open>The parts of a simulation\<close>

datatype 'l sim_part = Part_Module (part_module: "'l module") | Part_Queue (part_queue: qid)

text \<open>\<^verbatim>\<open>SimQueue\<close> overrides \<^verbatim>\<open>Work\<close> and \<^verbatim>\<open>Reset\<close>; its other phases do nothing.\<close>

fun part_phase :: "('l module \<Rightarrow> 'p queues \<Rightarrow> ('l module \<times> 'p queues) outcome) \<Rightarrow> (qid \<Rightarrow> 'p queues \<Rightarrow> 'p queues outcome) \<Rightarrow>
    'l sim_part \<Rightarrow> 'p queues \<Rightarrow> ('l sim_part \<times> 'p queues) outcome" where
  "part_phase f h (Part_Module m) g = obind (f m g) (\<lambda>(m, g). Inr (Part_Module m, g))"
| "part_phase f h (Part_Queue q) g = obind (h q g) (\<lambda>g. Inr (Part_Queue q, g))"

text \<open>The simulation with the default virtual functions of \<^verbatim>\<open>SimSystem\<close>; \<open>depth\<close> is enough fuel for the modules
  that \<^verbatim>\<open>Build\<close> creates.\<close>

definition module_sim_ops :: "nat \<Rightarrow> ('l, 'p) module_hooks \<Rightarrow> ('l sim_part, 'p queues, unit) sim_ops" where
  "module_sim_ops depth H = \<lparr>
     so_build = part_phase (\<lambda>m g. case module_build depth H m g of None \<Rightarrow> Inl Undefined_Behaviour | Some r \<Rightarrow> r) (\<lambda>q. Inr),
     so_reset = part_phase (module_reset H) (update_queue (\<lambda>q. Inr (sq_reset q))),
     so_work = part_phase (module_work H) (update_queue sq_work),
     so_xfer = part_phase (module_xfer H) (\<lambda>q. Inr),
     so_report = part_phase (module_report H) (\<lambda>q. Inr),
     so_build_system = Inr, so_reset_system = Inr, so_report_system = Inr,
     so_on_program_loaded = (\<lambda>img. Inr), so_run_reference = (\<lambda>stop. Inr),
     so_need_terminate = ss_terminate_requested, so_pipe_view = (\<lambda>s. [])\<rparr>"

lemma module_sim_simps [simp]:
  "so_work (module_sim_ops depth H) = part_phase (module_work H) (update_queue sq_work)"
  "so_xfer (module_sim_ops depth H) = part_phase (module_xfer H) (\<lambda>q. Inr)"
  "so_run_reference (module_sim_ops depth H) stop s = Inr s"
  "so_need_terminate (module_sim_ops depth H) = ss_terminate_requested"
  by (simp_all add: module_sim_ops_def)

interpretation modules: clocked_sim "module_sim_ops depth H"
  by unfold_locales simp

lemma module_sim_bounded_run_returns:
  assumes "sa_max_cycles a = Some m" "ss_cycle s = 0"
  shows "\<exists>r. \<forall>fuel > unat m. main_loop fuel (module_sim_ops depth H) a s out = Some r"
  using modules.main_loop_bounded [OF assms(1), of s "Suc (unat m)"] assms(2) by (simp add: Suc_le_eq)

section \<open>One cycle\<close>

lemma xfer_ran_flags:
  "xfer_ran H m g = Inr (m', g') \<Longrightarrow> map mn_ran (nodes m') = map mn_ran (nodes m)"
  "xfer_ran_all H ms g = Inr (ms', g') \<Longrightarrow> map (map mn_ran \<circ> nodes) ms' = map (map mn_ran \<circ> nodes) ms"
proof (induction H m g and H ms g arbitrary: m' g' and ms' g' rule: xfer_ran_xfer_ran_all.induct)
  case (1 H n ms g)
  from "1.prems" obtain n1 g1 ms1 where
    r: "(if mn_ran n then run_hook (mh_xfer_self H) n g else Inr (n, g)) = Inr (n1, g1)"
      "xfer_ran_all H ms g1 = Inr (ms1, g')" "m' = Module n1 ms1" by (auto simp: outcome_simps)
  have "mn_ran n1 = mn_ran n" using r(1) run_hook_active [of "mh_xfer_self H" n g n1 g1] by (auto split: if_split_asm)
  moreover have "map (map mn_ran \<circ> nodes) ms1 = map (map mn_ran \<circ> nodes) ms" using "1.IH" r(1,2) by blast
  ultimately show ?case using r(3) by (simp add: map_concat comp_def)
next
  case (2 H g)
  then show ?case by simp
next
  case (3 H m ms g)
  then show ?case by (auto simp: outcome_simps)
qed

lemma ran_at_start:
  "work_at_start H g0 m g = Inr (m', g') \<Longrightarrow> map mn_ran (nodes m') = map (has_input_event g0) (nodes m)"
  "work_each_at_start H g0 ms g = Inr (ms', g') \<Longrightarrow>
     map (map mn_ran \<circ> nodes) ms' = map (map (has_input_event g0) \<circ> nodes) ms"
proof (induction H g0 m g and H g0 ms g arbitrary: m' g' and ms' g' rule: work_at_start_work_each_at_start.induct)
  case (1 H g0 n ms g)
  let ?n = "n\<lparr>mn_active := [], mn_ran := has_input_event g0 n\<rparr>"
  from "1.prems" obtain n1 g1 ms1 g2 where
    r: "(if has_input_event g0 n
         then obind (run_hook (mh_work_self H) ?n g) (\<lambda>(n, g). Inr (capture_observed g (n\<lparr>mn_force := False\<rparr>), g))
         else Inr (?n, g)) = Inr (n1, g1)"
      "work_each_at_start H g0 ms g1 = Inr (ms1, g2)" "m' = Module (n1\<lparr>mn_active := pending_children g0 0 ms\<rparr>) ms1"
    by (auto simp: Let_def outcome_simps split: if_split_asm)
  have "mn_ran n1 = has_input_event g0 n"
    using r(1) by (auto simp: outcome_simps capture_observed_def dest!: run_hook_active split: if_split_asm)
  moreover have "map (map mn_ran \<circ> nodes) ms1 = map (map (has_input_event g0) \<circ> nodes) ms"
    using r(2) by (rule "1.IH" [OF refl refl])
  ultimately show ?case using r(3) by (simp add: map_concat comp_def)
next
  case (2 H g0 g)
  then show ?case by simp
next
  case (3 H g0 m ms g)
  then show ?case by (auto simp: outcome_simps)
qed

text \<open>C9: a cycle is driven by the events at its start.  A wired tree is registered, the \<^verbatim>\<open>WorkSelf\<close> of each
  module reads or flushes only the queues that \<open>R\<close> gives for it, and no module reads a queue that a
  later module (parents first) watches.  Then one \<^verbatim>\<open>Step\<close> does, errors included, what the plain
  traversal \<open>work_at_start\<close> does, followed by \<open>xfer_ran\<close>: every module is visited, parents first; those
  that had an input event in the queues as the step found them, and no others, execute the hook
  \<^verbatim>\<open>WorkSelf\<close>, note the epochs they see and drop their activation request; each module's own queues
  advance after its submodules; then \<^verbatim>\<open>XferSelf\<close> executes for the same modules, parents first, and the
  cycle counter goes up by one.\<close>
theorem step_runs_exactly_the_events:
  assumes "ss_modules s = [Part_Module m]" "wired m" "reads_only H R" "sorted_wrt (reads_apart R) (nodes m)"
  shows "sim_step (module_sim_ops depth H) s =
      obind (work_at_start H (ss_store s) m (ss_store s)) (\<lambda>(m1, g1).
      obind (xfer_ran H m1 g1) (\<lambda>(m2, g2).
        Inr (s\<lparr>ss_modules := [Part_Module m2], ss_store := g2, ss_cycle := ss_cycle s + 1\<rparr>))) \<and>
    (\<forall>m1 g1. work_at_start H (ss_store s) m (ss_store s) = Inr (m1, g1) \<longrightarrow>
      map mn_ran (nodes m1) = map (has_input_event (ss_store s)) (nodes m))"
proof -
  have work: "module_work H m (ss_store s) = work_at_start H (ss_store s) m (ss_store s)"
    by (rule work_is_at_start [OF assms(3,2,4) refl])
  have xfer: "module_xfer H m1 g1 = xfer_ran H m1 g1"
    if "work_at_start H (ss_store s) m (ss_store s) = Inr (m1, g1)" for m1 g1
    using xfer_reaches(1) [OF work_reaches [OF assms(2) trans [OF work that]]] .
  have "sim_step (module_sim_ops depth H) s =
      obind (work_at_start H (ss_store s) m (ss_store s)) (\<lambda>(m1, g1).
      obind (xfer_ran H m1 g1) (\<lambda>(m2, g2).
        Inr (s\<lparr>ss_modules := [Part_Module m2], ss_store := g2, ss_cycle := ss_cycle s + 1\<rparr>)))"
  proof (cases "work_at_start H (ss_store s) m (ss_store s)")
    case (Inl e)
    then show ?thesis by (simp add: sim_step_def run_phase_def assms(1) work)
  next
    case (Inr r)
    obtain m1 g1 where r: "r = (m1, g1)" by (cases r)
    show ?thesis
      using Inr r xfer by (cases "xfer_ran H m1 g1") (auto simp: sim_step_def run_phase_def assms(1) work)
  qed
  with ran_at_start(1) show ?thesis by blast
qed

text \<open>The two stages of \<open>two_stages\<close> registered with a simulation, one packet waiting for the first.\<close>

definition stage_sim :: "((nat \<times> nat) sim_part, nat queues, unit) sim_system" where
  "stage_sim = (sim_system_new [demo_queue [7], demo_queue [], demo_queue []] ())\<lparr>ss_modules := [Part_Module two_stages]\<rparr>"

theorem step_runs_exactly_the_events_witness:
  "\<exists>s' m'. sim_step (module_sim_ops 1 stage_hooks) stage_sim = Inr s' \<and> ss_cycle s' = 1 \<and>
     ss_modules s' = [Part_Module m'] \<and> map mn_local (nodes m') = [(0, 0), (1, 1), (0, 0)] \<and>
     map mn_ran (nodes m') = [False, True, False] \<and> map readQ (ss_store s') = [[], [8], []]"
proof -
  have w: "wired two_stages" by code_simp
  have apart: "sorted_wrt (reads_apart inputs_of) (nodes two_stages)" by code_simp
  have "ss_modules stage_sim = [Part_Module two_stages]" "ss_cycle stage_sim = 0"
    by (simp_all add: stage_sim_def sim_system_new_def)
  note step = step_runs_exactly_the_events [OF this(1) w stage_reads_only apart, of 1, THEN conjunct1]
  have "(case work_at_start stage_hooks (ss_store stage_sim) two_stages (ss_store stage_sim) of
      Inl e \<Rightarrow> False
    | Inr (m1, g1) \<Rightarrow> (case xfer_ran stage_hooks m1 g1 of
        Inl e \<Rightarrow> False
      | Inr (m2, g2) \<Rightarrow> map mn_local (nodes m2) = [(0, 0), (1, 1), (0, 0)] \<and>
          map mn_ran (nodes m2) = [False, True, False] \<and> map readQ g2 = [[], [8], []]))" by code_simp
  then obtain m1 g1 where r1: "work_at_start stage_hooks (ss_store stage_sim) two_stages (ss_store stage_sim) = Inr (m1, g1)"
    and x: "(case xfer_ran stage_hooks m1 g1 of
        Inl e \<Rightarrow> False
      | Inr (m2, g2) \<Rightarrow> map mn_local (nodes m2) = [(0, 0), (1, 1), (0, 0)] \<and>
          map mn_ran (nodes m2) = [False, True, False] \<and> map readQ g2 = [[], [8], []])"
    by (cases "work_at_start stage_hooks (ss_store stage_sim) two_stages (ss_store stage_sim)") auto
  from x obtain m2 g2 where r2: "xfer_ran stage_hooks m1 g1 = Inr (m2, g2)"
    and res: "map mn_local (nodes m2) = [(0, 0), (1, 1), (0, 0)]" "map mn_ran (nodes m2) = [False, True, False]"
      "map readQ g2 = [[], [8], []]"
    by (cases "xfer_ran stage_hooks m1 g1") auto
  have "sim_step (module_sim_ops 1 stage_hooks) stage_sim =
      Inr (stage_sim\<lparr>ss_modules := [Part_Module m2], ss_store := g2, ss_cycle := 0 + 1\<rparr>)"
    by (simp only: step r1 r2 obind.simps prod.case \<open>ss_cycle stage_sim = 0\<close>)
  with res show ?thesis by simp
qed

section \<open>A simulation at rest\<close>

definition drained :: "'p sim_queue \<Rightarrow> bool" where
  "drained q \<longleftrightarrow> writeQ q = [] \<and> delayQ q = []"

lemma sq_work_drained: "drained q \<Longrightarrow> sq_work q = Inr q"
  by (simp add: drained_def sq_work_def count_down_def)

text \<open>Nothing is pending and nothing is on its way in the queues.\<close>

definition resting :: "'p queues \<Rightarrow> 'l module \<Rightarrow> bool" where
  "resting g m \<longleftrightarrow> \<not> has_pending_work g m \<and> list_all (\<lambda>q. drained (g ! q)) (owned m)"

fun resting_part :: "'p queues \<Rightarrow> 'l sim_part \<Rightarrow> bool" where
  "resting_part g (Part_Module m) = resting g m"
| "resting_part g (Part_Queue q) = drained (g ! q)"

text \<open>A module that did not run.\<close>

fun settle :: "'l module \<Rightarrow> 'l module" where
  "settle (Module n ms) = Module (n\<lparr>mn_active := [], mn_ran := False\<rparr>) (map settle ms)"

definition settle_part :: "'l sim_part \<Rightarrow> 'l sim_part" where
  "settle_part p = (case p of Part_Module m \<Rightarrow> Part_Module (settle m) | Part_Queue q \<Rightarrow> Part_Queue q)"

lemma tick_drained: "list_all (\<lambda>q. drained (g ! q)) qs \<Longrightarrow> tick_queues qs g = Inr g"
  unfolding tick_queues_def by (induction qs) (simp_all add: update_queue_def sq_work_drained)

lemma settle_pending: "has_pending_work g (settle m) = has_pending_work g m" "owned (settle m) = owned m"
proof (induction m)
  case (Module n ms)
  {
    case 1
    have "list_ex (has_pending_work g) (map settle ms) = list_ex (has_pending_work g) ms"
      using Module by (auto simp: list_ex_iff)
    then show ?case by (simp add: has_input_event_def)
  next
    case 2
    have "map owned (map settle ms) = map owned ms" using Module by simp
    then show ?case by (simp del: map_map)
  }
qed

lemma resting_settle: "resting g m \<Longrightarrow> resting g (settle m)"
  by (simp add: resting_def settle_pending)

lemma resting_work: "resting g m \<Longrightarrow> module_work H m g = Inr (settle m, g)"
proof (induction m)
  case (Module n ms)
  have idle: "\<not> has_input_event g n" and own: "list_all (\<lambda>q. drained (g ! q)) (mn_owned n)"
    and subs: "\<And>c. c \<in> set ms \<Longrightarrow> resting g c"
    using Module.prems by (auto simp: resting_def list_ex_iff list_all_iff split: if_split_asm)
  have "work_submodules H idx cs g = Inr (map settle cs, [], g)" if "set cs \<subseteq> set ms" for idx cs
    using that
  proof (induction cs arbitrary: idx)
    case (Cons c cs)
    have "resting g c" using subs Cons.prems by simp
    moreover from this have "module_work H c g = Inr (settle c, g)" using Module.IH Cons.prems by simp
    ultimately show ?case using Cons by (simp add: work_submodules_is_work resting_def del: work_submodules.simps)
  qed simp
  from this [OF subset_refl, of 0] show ?case using idle own by (simp add: Let_def tick_drained)
qed

lemma settle_xfer: "module_xfer H (settle m) g = Inr (settle m, g)"
proof -
  have "xfer_active H [] idx ms g = Inr (ms, g)" for idx ms by (induction ms arbitrary: idx) simp_all
  then show ?thesis by (cases m) simp
qed

lemma settle_idem: "settle (settle m) = settle m"
  by (induction m) simp

lemma resting_parts:
  assumes "list_all (resting_part g) ps"
  shows "each_module (part_phase (module_work H) (update_queue sq_work)) ps g = Inr (map settle_part ps, g)"
    "each_module (part_phase (module_xfer H) (\<lambda>q. Inr)) (map settle_part ps) g = Inr (map settle_part ps, g)"
    "list_all (resting_part g) (map settle_part ps)" "map settle_part (map settle_part ps) = map settle_part ps"
proof -
  show "each_module (part_phase (module_work H) (update_queue sq_work)) ps g = Inr (map settle_part ps, g)"
    "each_module (part_phase (module_xfer H) (\<lambda>q. Inr)) (map settle_part ps) g = Inr (map settle_part ps, g)"
    "list_all (resting_part g) (map settle_part ps)" "map settle_part (map settle_part ps) = map settle_part ps"
    using assms
    by (induction ps)
      (auto simp: settle_part_def resting_work settle_xfer resting_settle update_queue_def sq_work_drained settle_idem split: sim_part.splits)
qed

lemma resting_step:
  assumes "list_all (resting_part (ss_store s)) (ss_modules s)"
  shows "sim_step (module_sim_ops depth H) s =
    Inr (s\<lparr>ss_modules := map settle_part (ss_modules s), ss_cycle := ss_cycle s + 1\<rparr>)"
  by (simp add: sim_step_def run_phase_def resting_parts [OF assms])

fun sim_steps :: "nat \<Rightarrow> ('m, 'g, 'd) sim_ops \<Rightarrow> ('m, 'g, 'd) sim_system \<Rightarrow> ('m, 'g, 'd) sim_system outcome" where
  "sim_steps 0 ops s = Inr s"
| "sim_steps (Suc n) ops s = obind (sim_step ops s) (sim_steps n ops)"

lemma resting_steps:
  "list_all (resting_part (ss_store s)) (ss_modules s) \<Longrightarrow>
   sim_steps (Suc n) (module_sim_ops depth H) s =
     Inr (s\<lparr>ss_modules := map settle_part (ss_modules s), ss_cycle := ss_cycle s + of_nat (Suc n)\<rparr>)"
proof (induction n arbitrary: s)
  case 0
  then show ?case by (simp add: resting_step)
next
  case (Suc n)
  let ?s = "s\<lparr>ss_modules := map settle_part (ss_modules s), ss_cycle := ss_cycle s + 1\<rparr>"
  have "sim_steps (Suc (Suc n)) (module_sim_ops depth H) s = sim_steps (Suc n) (module_sim_ops depth H) ?s"
    by (simp only: sim_steps.simps(2) [of "Suc n"] resting_step [OF Suc.prems] obind.simps)
  moreover have "list_all (resting_part (ss_store ?s)) (ss_modules ?s)" using resting_parts(3) [OF Suc.prems] by simp
  ultimately show ?case using Suc.IH [of ?s] resting_parts(4) [OF Suc.prems] by (simp del: sim_steps.simps map_map add: add.assoc)
qed

lemma resting_loop:
  "list_all (resting_part (ss_store s)) (ss_modules s) \<Longrightarrow> \<not> ss_terminate_requested s \<Longrightarrow> sa_max_cycles a = None \<Longrightarrow>
   main_loop fuel (module_sim_ops depth H) a s out = None"
proof (induction fuel arbitrary: s out)
  case (Suc fuel)
  let ?s = "s\<lparr>ss_modules := map settle_part (ss_modules s), ss_cycle := ss_cycle s + 1\<rparr>"
  have "main_round (module_sim_ops depth H) a s = Inr (?s, [], False)"
    using Suc.prems by (simp add: main_round_def resting_step Let_def) (simp add: module_sim_ops_def)
  moreover have "main_loop fuel (module_sim_ops depth H) a ?s (out @ []) = None"
    using Suc.prems resting_parts(3) [OF Suc.prems(1)] by (intro Suc.IH) simp_all
  ultimately show ?case by simp
qed simp

text \<open>C19: a simulation of modules and queues, with the default virtual functions of \<^verbatim>\<open>SimSystem\<close>, in which
  no module has an input event and no queue has a packet on its way, is at rest for ever.  Any number of
  cycles leaves the store of queues and every module's own state as they are and runs no \<^verbatim>\<open>WorkSelf\<close>
  and no \<^verbatim>\<open>XferSelf\<close>: it only advances the cycle counter and clears each module's note of the last cycle
  (\<open>settle\<close>: whether it ran, and its active submodules).  And unless termination was already requested,
  the main loop without a cycle bound never returns.\<close>
theorem resting_simulation_is_stuck:
  assumes "list_all (resting_part (ss_store s)) (ss_modules s)"
  shows "sim_steps (Suc n) (module_sim_ops depth H) s =
      Inr (s\<lparr>ss_modules := map settle_part (ss_modules s), ss_cycle := ss_cycle s + of_nat (Suc n)\<rparr>) \<and>
    (\<not> ss_terminate_requested s \<and> sa_max_cycles a = None \<longrightarrow>
      main_loop fuel (module_sim_ops depth H) a s out = None)"
  using resting_steps [OF assms] resting_loop [OF assms] by blast

text \<open>The stages with nothing to do.\<close>

definition idle_sim :: "((nat \<times> nat) sim_part, nat queues, unit) sim_system" where
  "idle_sim = (sim_system_new [demo_queue [], demo_queue [], demo_queue []] ())\<lparr>ss_modules := [Part_Module two_stages, Part_Queue 0]\<rparr>"

theorem resting_simulation_is_stuck_witness:
  "sim_steps (Suc 9) (module_sim_ops 1 stage_hooks) idle_sim =
     Inr (idle_sim\<lparr>ss_modules := [Part_Module (settle two_stages), Part_Queue 0], ss_cycle := 10\<rparr>) \<and>
   main_loop 100 (module_sim_ops 1 stage_hooks) sim_main_args_default idle_sim [] = None"
proof -
  have rest: "list_all (resting_part (ss_store idle_sim)) (ss_modules idle_sim)" by code_simp
  have "\<not> ss_terminate_requested idle_sim \<and> sa_max_cycles sim_main_args_default = None"
    "ss_modules idle_sim = [Part_Module two_stages, Part_Queue 0]" "ss_cycle idle_sim = 0"
    by (simp_all add: idle_sim_def sim_system_new_def sim_main_args_default_def)
  with resting_simulation_is_stuck [OF rest, of 9 1 stage_hooks sim_main_args_default 100 "[]"] show ?thesis
    by (simp add: settle_part_def del: sim_steps.simps)
qed

end
