(* ===== verification/Record_Json.thy ===== *)
theory Record_Json
  imports Minst_Record Disasm
begin

text \<open>
  The JSON line and the dump line of a trace record (\<^verbatim>\<open>src/emulator/minst_record.cpp\<close>), and the
  comparison that reports both records as JSON.  \<open>T\<close> are the codec's tables, \<open>srt\<close> the sorting
  function of the assembly text.  A failed assertion of the code is \<open>Assert_Failed\<close>.
\<close>

section \<open>Decoration\<close>

definition hex_value :: "u64 \<Rightarrow> nat \<Rightarrow> bool \<Rightarrow> string" where
  "hex_value v digits with_prefix = (if with_prefix then ''0x'' else []) @ hex_text digits (unat v)"

definition bytes_for_len :: "u32 \<Rightarrow> nat outcome" where
  "bytes_for_len len_bits =
     obind (check_that (len_bits mod 8 = 0)) (\<lambda>_.
     obind (check_that (len_bits \<ge> 16 \<and> len_bits \<le> 64)) (\<lambda>_. Inr (unat (len_bits div 8))))"

text \<open>\<^verbatim>\<open>UnpackBytes\<close> fills an array of eight zero bytes from the front.\<close>

definition unpack_bytes :: "minst_record \<Rightarrow> u8 list outcome" where
  "unpack_bytes r =
     obind (bytes_for_len (rc_len r)) (\<lambda>size_bytes.
       Inr (fold (\<lambda>idx bytes. bytes[idx := byte_of (rc_insn r) idx]) [0..<size_bytes] (replicate 8 0)))"

definition decode_record_line :: "codec_tables \<Rightarrow> (asm_replacement list \<Rightarrow> asm_replacement list) \<Rightarrow>
    minst_record \<Rightarrow> disassembly_line outcome" where
  "decode_record_line T srt r =
     obind (unpack_bytes r) (\<lambda>bytes.
     obind (bytes_for_len (rc_len r)) (\<lambda>size_bytes.
       case decode_disassembly_line T srt (take size_bytes bytes) (rc_pc r) ''trace'' of
         None \<Rightarrow> Inl Assert_Failed
       | Some line \<Rightarrow> Inr line))"

record record_decoration =
  rd_pc_hex :: string
  rd_next_pc_hex :: string
  rd_insn_hex :: string
  rd_bytes_hex :: string
  rd_asm_text :: string
  rd_dump_line :: string

definition decorate_minst_record :: "codec_tables \<Rightarrow> (asm_replacement list \<Rightarrow> asm_replacement list) \<Rightarrow>
    minst_record \<Rightarrow> record_decoration outcome" where
  "decorate_minst_record T srt r =
     obind (decode_record_line T srt r) (\<lambda>line. Inr
       \<lparr>rd_pc_hex = hex_value (rc_pc r) 16 True, rd_next_pc_hex = hex_value (rc_next_pc r) 16 True,
        rd_insn_hex = hex_value (rc_insn r) (max (unat (rc_len r div 4)) 1) True,
        rd_bytes_hex = dl_bytes_hex line, rd_asm_text = dl_text line,
        rd_dump_line = format_disassembly_dump_line line\<rparr>)"

section \<open>JSON\<close>

definition quote :: string where "quote = [CHR 0x22]"

definition json_key :: "string \<Rightarrow> string" where
  "json_key key = '','' @ quote @ key @ quote @ '':''"

definition json_uint :: "string \<Rightarrow> 'a::len word \<Rightarrow> string" where
  "json_uint key v = json_key key @ dec_text (unat v)"

definition json_int :: "string \<Rightarrow> int \<Rightarrow> string" where
  "json_int key v = json_key key @ int_text v"

definition json_string :: "string \<Rightarrow> string \<Rightarrow> string" where
  "json_string key v = json_key key @ quote @ json_escape v @ quote"

definition json_operand :: "string \<Rightarrow> operand_record \<Rightarrow> string" where
  "json_operand key p = json_uint (key @ ''_valid'') (or_valid p) @ json_uint (key @ ''_kind'') (or_kind p) @
     json_uint (key @ ''_value'') (or_value p) @ json_uint (key @ ''_data'') (or_data p)"

definition write_minst_record_json :: "codec_tables \<Rightarrow> (asm_replacement list \<Rightarrow> asm_replacement list) \<Rightarrow>
    minst_record \<Rightarrow> string outcome" where
  "write_minst_record_json T srt r =
     obind (decorate_minst_record T srt r) (\<lambda>d. Inr (
       ''{'' @ quote @ ''schema_version'' @ quote @ '':'' @ quote @ ''1.0'' @ quote @
       json_uint ''cycle'' (rc_cycle r) @ json_uint ''pc'' (rc_pc r) @ json_uint ''next_pc'' (rc_next_pc r) @
       json_uint ''insn'' (rc_insn r) @ json_uint ''len'' (rc_len r) @ json_int ''lane_id'' (sint (rc_lane_id r)) @
       json_string ''pc_hex'' (rd_pc_hex d) @ json_string ''next_pc_hex'' (rd_next_pc_hex d) @
       json_string ''insn_hex'' (rd_insn_hex d) @ json_string ''bytes_hex'' (rd_bytes_hex d) @
       json_string ''asm'' (rd_asm_text d) @ json_string ''dump'' (rd_dump_line d) @
       json_string ''mnemonic'' (c_text (rc_mnemonic r)) @ json_string ''form_id'' (c_text (rc_form_id r)) @
       json_string ''opcode_class'' (c_text (rc_opcode_class r)) @
       json_string ''lifecycle'' (c_text (rc_lifecycle r)) @ json_string ''block_kind'' (c_text (rc_block_kind r)) @
       json_operand ''src0'' (rc_src0 r) @ json_operand ''src1'' (rc_src1 r) @ json_operand ''dst0'' (rc_dst0 r) @
       json_uint ''mem_valid'' (mr_valid (rc_memory r)) @ json_uint ''mem_is_load'' (mr_is_load (rc_memory r)) @
       json_uint ''mem_is_store'' (mr_is_store (rc_memory r)) @ json_uint ''mem_addr'' (mr_addr (rc_memory r)) @
       json_uint ''mem_size'' (mr_size (rc_memory r)) @ json_uint ''mem_wdata'' (mr_wdata (rc_memory r)) @
       json_uint ''mem_rdata'' (mr_rdata (rc_memory r)) @ json_uint ''trap_valid'' (tr_valid (rc_trap r)) @
       json_uint ''trap_cause'' (tr_cause (rc_trap r)) @ json_uint ''traparg0'' (tr_traparg0 (rc_trap r)) @ ''}''))"

definition write_minst_record_dump :: "codec_tables \<Rightarrow> (asm_replacement list \<Rightarrow> asm_replacement list) \<Rightarrow>
    minst_record \<Rightarrow> string outcome" where
  "write_minst_record_dump T srt r = obind (decorate_minst_record T srt r) (\<lambda>d. Inr (rd_dump_line d))"

text \<open>\<^verbatim>\<open>EqualMinstRecord\<close> with its report: \<open>None\<close> when the records are equal, else the reason.  It compares the
  bytes of the two structs; they start value-initialised, padding included, so this is equality of
  the members.\<close>

definition equal_minst_record :: "codec_tables \<Rightarrow> (asm_replacement list \<Rightarrow> asm_replacement list) \<Rightarrow>
    minst_record \<Rightarrow> minst_record \<Rightarrow> string option outcome" where
  "equal_minst_record T srt lhs rhs =
     (if lhs = rhs then Inr None
      else obind (write_minst_record_json T srt lhs) (\<lambda>l.
           obind (write_minst_record_json T srt rhs) (\<lambda>r.
             Inr (Some (''record mismatch: ref='' @ l @ '' ca='' @ r)))))"

section \<open>When a record can be written\<close>

definition writable_len :: "u32 \<Rightarrow> bool" where
  "writable_len n \<longleftrightarrow> n mod 8 = 0 \<and> 16 \<le> n \<and> n \<le> 64"

lemma bytes_for_len_ok: "writable_len n \<Longrightarrow> bytes_for_len n = Inr (unat (n div 8)) \<and> unat (n div 8) > 0"
proof -
  assume n: "writable_len n"
  have "16 \<le> unat n" using n by (simp add: writable_len_def word_le_nat_alt)
  then show ?thesis using n by (simp add: writable_len_def bytes_for_len_def unat_div)
qed

lemma unpack_fold_length: "length (fold (\<lambda>idx bytes. bytes[idx := f idx]) is xs) = length xs"
  by (induction "is" arbitrary: xs) auto

lemma decorate_ok:
  assumes "writable_len (rc_len r)"
  shows "\<exists>d. decorate_minst_record T srt r = Inr d"
proof -
  let ?n = "unat (rc_len r div 8)"
  let ?bytes = "fold (\<lambda>idx bytes. bytes[idx := byte_of (rc_insn r) idx]) [0..<?n] (replicate 8 0)"
  have n: "bytes_for_len (rc_len r) = Inr ?n" "?n > 0" using bytes_for_len_ok [OF assms] by auto
  have "length ?bytes = 8" by (simp add: unpack_fold_length)
  then have "take ?n ?bytes \<noteq> []" using n(2) by auto
  from line_exists [OF this, of T srt "rc_pc r" "''trace''"] obtain line where
    "decode_disassembly_line T srt (take ?n ?bytes) (rc_pc r) ''trace'' = Some line" by blast
  then have "decode_record_line T srt r = Inr line"
    by (simp add: decode_record_line_def unpack_bytes_def n(1))
  then show ?thesis by (simp add: decorate_minst_record_def)
qed

lemma json_ok: "writable_len (rc_len r) \<Longrightarrow> \<exists>text. write_minst_record_json T srt r = Inr text"
  using decorate_ok [of r T srt] by (auto simp: write_minst_record_json_def)

lemma json_fails: "\<not> writable_len (rc_len r) \<Longrightarrow> write_minst_record_json T srt r = Inl Assert_Failed"
  by (auto simp: writable_len_def write_minst_record_json_def decorate_minst_record_def decode_record_line_def
      unpack_bytes_def bytes_for_len_def check_that_def)

text \<open>C38: a trace record can be written as JSON and as a dump line exactly when its length is a whole number
  of bytes from 16 to 64 bits; any other record trips the assertion.  Two records compare equal
  exactly when all their members are; unequal records are reported with both JSON texts exactly when
  both can be written.\<close>
theorem record_writing_exact:
  "(\<exists>text. write_minst_record_json T srt r = Inr text) = writable_len (rc_len r) \<and>
   (\<exists>text. write_minst_record_dump T srt r = Inr text) = writable_len (rc_len r) \<and>
   (equal_minst_record T srt r s = Inr None) = (r = s) \<and>
   (\<exists>why. equal_minst_record T srt r s = Inr why) =
     (r = s \<or> (writable_len (rc_len r) \<and> writable_len (rc_len s)))"
proof -
  have json: "(\<exists>text. write_minst_record_json T srt r = Inr text) = writable_len (rc_len r)" for r
    using json_ok [of r T srt] json_fails [of r T srt] by (cases "writable_len (rc_len r)") auto
  moreover have "(\<exists>text. write_minst_record_dump T srt r = Inr text) = writable_len (rc_len r)"
    using json [of r] by (cases "decorate_minst_record T srt r")
      (auto simp: write_minst_record_dump_def write_minst_record_json_def)
  moreover have "(\<exists>why. equal_minst_record T srt r s = Inr why) =
      (r = s \<or> (writable_len (rc_len r) \<and> writable_len (rc_len s)))"
    unfolding json [symmetric] by (auto simp: equal_minst_record_def outcome_simps)
  moreover have "(equal_minst_record T srt r s = Inr None) = (r = s)"
    by (auto simp: equal_minst_record_def outcome_simps)
  ultimately show ?thesis by blast
qed

end
