(* ===== verification/Compare_Harness.thy ===== *)
theory Compare_Harness
  imports Record_Json Emulator_State
begin

text \<open>
  The harness that compares two executions record by record (\<^verbatim>\<open>src/emulator/compare.cpp\<close>): a window
  of the latest records of both sides and the first mismatch, with the state summaries of both.
\<close>

record compare_mismatch =
  cm_reason :: string
  cm_ref_state :: string
  cm_ca_state :: string
  cm_ref_window :: "minst_record list"
  cm_ca_window :: "minst_record list"

record compare_harness =
  ch_window_size :: nat
  ch_ref_window :: "minst_record list"
  ch_ca_window :: "minst_record list"
  ch_mismatch :: "compare_mismatch option"

definition harness_new :: "nat \<Rightarrow> compare_harness" where
  "harness_new window_size =
     \<lparr>ch_window_size = window_size, ch_ref_window = [], ch_ca_window = [], ch_mismatch = None\<rparr>"

text \<open>The loop of \<^verbatim>\<open>PushWindow\<close> drops from the front until the window fits.\<close>

fun trim_window :: "nat \<Rightarrow> 'a list \<Rightarrow> 'a list" where
  "trim_window n [] = []"
| "trim_window n (x # xs) = (if length (x # xs) > n then trim_window n xs else x # xs)"

definition push_window :: "nat \<Rightarrow> 'a list \<Rightarrow> 'a \<Rightarrow> 'a list" where
  "push_window n window x = trim_window n (window @ [x])"

definition harness_push :: "codec_tables \<Rightarrow> (asm_replacement list \<Rightarrow> asm_replacement list) \<Rightarrow>
    minst_record \<Rightarrow> minst_record \<Rightarrow> linx_state \<Rightarrow> linx_state \<Rightarrow> compare_harness \<Rightarrow>
    (bool \<times> compare_harness) outcome" where
  "harness_push T srt ref_rec ca_rec ref_state ca_state h =
     (if ch_mismatch h \<noteq> None then Inr (False, h)
      else
        let h = h\<lparr>ch_ref_window := push_window (ch_window_size h) (ch_ref_window h) ref_rec,
                  ch_ca_window := push_window (ch_window_size h) (ch_ca_window h) ca_rec\<rparr>
        in obind (equal_minst_record T srt ref_rec ca_rec) (\<lambda>why.
             case why of
               None \<Rightarrow> Inr (True, h)
             | Some reason \<Rightarrow> Inr (False, h\<lparr>ch_mismatch := Some
                 \<lparr>cm_reason = reason, cm_ref_state = dump_state_summary ref_state,
                  cm_ca_state = dump_state_summary ca_state, cm_ref_window = ch_ref_window h,
                  cm_ca_window = ch_ca_window h\<rparr>\<rparr>)))"

section \<open>The window\<close>

definition last_n :: "nat \<Rightarrow> 'a list \<Rightarrow> 'a list" where
  "last_n n xs = drop (length xs - n) xs"

lemma trim_window_last: "trim_window n xs = last_n n xs"
  by (induction xs) (auto simp: last_n_def Suc_diff_le not_less_eq_eq)

lemma last_n_snoc: "last_n n (last_n n xs @ [x]) = last_n n (xs @ [x])"
  by (cases "n \<le> length xs") (simp_all add: last_n_def Suc_diff_le)

lemma push_window_last: "window = last_n n xs \<Longrightarrow> push_window n window x = last_n n (xs @ [x])"
  by (simp add: push_window_def trim_window_last last_n_snoc)

section \<open>A sequence of pushes\<close>

type_synonym push_pair = "minst_record \<times> minst_record \<times> linx_state \<times> linx_state"

fun push_all :: "codec_tables \<Rightarrow> (asm_replacement list \<Rightarrow> asm_replacement list) \<Rightarrow> push_pair list \<Rightarrow>
    compare_harness \<Rightarrow> (bool list \<times> compare_harness) outcome" where
  "push_all T srt [] h = Inr ([], h)"
| "push_all T srt ((r, c, rs, cs) # ps) h =
     obind (harness_push T srt r c rs cs h) (\<lambda>(ok, h).
     obind (push_all T srt ps h) (\<lambda>(oks, h). Inr (ok # oks, h)))"

definition agrees :: "push_pair \<Rightarrow> bool" where
  "agrees = (\<lambda>(r, c, rs, cs). r = c)"

lemma push_after_mismatch:
  "ch_mismatch h \<noteq> None \<Longrightarrow> push_all T srt ps h = Inr (replicate (length ps) False, h)"
  by (induction T srt ps h rule: push_all.induct) (auto simp: harness_push_def)

text \<open>The harness after the pairs \<open>ps\<close> have been pushed, all of them equal.\<close>

definition harness_after :: "nat \<Rightarrow> push_pair list \<Rightarrow> compare_harness" where
  "harness_after n ps = \<lparr>ch_window_size = n, ch_ref_window = last_n n (map fst ps),
     ch_ca_window = last_n n (map (fst \<circ> snd) ps), ch_mismatch = None\<rparr>"

lemma harness_new_after: "harness_new n = harness_after n []"
  by (simp add: harness_new_def harness_after_def last_n_def)

lemma harness_push_after:
  assumes "harness_push T srt r c rs cs (harness_after n ps) = Inr (ok, h)"
  shows "ok = (r = c)" and "ok \<Longrightarrow> h = harness_after n (ps @ [(r, c, rs, cs)])"
    and "\<not> ok \<Longrightarrow> (\<exists>reason. ch_mismatch h = Some \<lparr>cm_reason = reason,
       cm_ref_state = dump_state_summary rs, cm_ca_state = dump_state_summary cs,
       cm_ref_window = last_n n (map fst ps @ [r]), cm_ca_window = last_n n (map (fst \<circ> snd) ps @ [c])\<rparr>)"
  using assms
  by (auto simp: harness_push_def harness_after_def Let_def outcome_simps equal_minst_record_def
      push_window_last [OF refl] split: option.splits if_splits)

text \<open>The index of the first pair that differs, if any.\<close>

definition first_difference :: "push_pair list \<Rightarrow> nat option" where
  "first_difference ps = List.find (\<lambda>i. \<not> agrees (ps ! i)) [0..<length ps]"

lemma push_all_agreeing:
  assumes "\<forall>p \<in> set ps. agrees p"
  shows "push_all T srt ps (harness_after n qs) = Inr (replicate (length ps) True, harness_after n (qs @ ps))"
  using assms
proof (induction ps arbitrary: qs)
  case Nil
  then show ?case by simp
next
  case (Cons p ps)
  obtain r c rs cs where p: "p = (r, c, rs, cs)" by (cases p)
  have "harness_push T srt r c rs cs (harness_after n qs) = Inr (True, harness_after n (qs @ [p]))"
    using Cons.prems by (simp add: p agrees_def harness_push_def harness_after_def equal_minst_record_def
        push_window_last [OF refl])
  with Cons show ?case by (simp add: p)
qed

text \<open>C39: a run of the harness over any sequence of record pairs, when it completes: without a difference every
  push succeeds, no mismatch is recorded and the windows hold the last records of each side, as many
  as the window size; otherwise pushes succeed up to the first pair that differs, fail from it on, and
  the mismatch keeps that pair's state summaries and the windows that end with its records.\<close>
theorem harness_finds_first_difference:
  assumes "push_all T srt (same @ rest) (harness_new n) = Inr (oks, h)"
    and "\<forall>p \<in> set same. agrees p" and "rest = [] \<or> \<not> agrees (hd rest)"
  shows "oks = replicate (length same) True @ replicate (length rest) False \<and>
    (case rest of
       [] \<Rightarrow> h = harness_after n same
     | (r, c, rs, cs) # _ \<Rightarrow> (\<exists>reason. ch_mismatch h = Some \<lparr>cm_reason = reason,
         cm_ref_state = dump_state_summary rs, cm_ca_state = dump_state_summary cs,
         cm_ref_window = last_n n (map fst same @ [r]),
         cm_ca_window = last_n n (map (fst \<circ> snd) same @ [c])\<rparr>))"
proof -
  have split: "push_all T srt (ps @ qs) g = obind (push_all T srt ps g) (\<lambda>(oks, g).
      obind (push_all T srt qs g) (\<lambda>(oks', g). Inr (oks @ oks', g)))" for ps qs g
  proof (induction T srt ps g rule: push_all.induct)
    case (1 T srt h)
    then show ?case by (cases "push_all T srt qs h") auto
  next
    case (2 T srt r c rs cs ps h)
    show ?case
    proof (cases "harness_push T srt r c rs cs h")
      case (Inr a)
      with 2 show ?thesis by (cases a; cases "push_all T srt ps (snd a)") (auto simp: obind_assoc split_def)
    qed simp
  qed
  have run: "obind (push_all T srt rest (harness_after n same)) (\<lambda>(oks', g).
      Inr (replicate (length same) True @ oks', g)) = Inr (oks, h)"
    using assms(1) unfolding harness_new_after split push_all_agreeing [OF assms(2)] by simp
  show ?thesis
  proof (cases rest)
    case Nil
    with run show ?thesis by simp
  next
    case (Cons p ps)
    obtain r c rs cs where p: "p = (r, c, rs, cs)" by (cases p)
    from run obtain ok g where push: "harness_push T srt r c rs cs (harness_after n same) = Inr (ok, g)"
      and tail: "obind (push_all T srt ps g) (\<lambda>(oks', g). Inr (replicate (length same) True @ ok # oks', g)) = Inr (oks, h)"
      by (auto simp: Cons p outcome_simps)
    note res = harness_push_after [OF push]
    have no: "\<not> ok" using res(1) assms(3) by (simp add: Cons p agrees_def)
    from res(3) [OF no] obtain reason where m: "ch_mismatch g = Some \<lparr>cm_reason = reason,
       cm_ref_state = dump_state_summary rs, cm_ca_state = dump_state_summary cs,
       cm_ref_window = last_n n (map fst same @ [r]), cm_ca_window = last_n n (map (fst \<circ> snd) same @ [c])\<rparr>" by blast
    then have "oks = replicate (length same) True @ False # replicate (length ps) False" "h = g"
      using tail no by (auto simp: push_after_mismatch)
    with m show ?thesis by (simp add: Cons p)
  qed
qed

definition sample_record :: "u64 \<Rightarrow> minst_record" where
  "sample_record cycle = make_minst_record (minst_default\<lparr>length_bits := 16\<rparr>) cycle ''scalar'' 0 None None"

theorem harness_finds_first_difference_witness:
  "\<exists>h. push_all excerpt_tables id ([(sample_record 0, sample_record 0, linx_state_default, linx_state_default)] @
       [(sample_record 1, sample_record 2, linx_state_default, linx_state_default)]) (harness_new 128) =
       Inr ([True, False], h) \<and> ch_mismatch h \<noteq> None"
proof -
  let ?s = linx_state_default
  let ?same = "[(sample_record 0, sample_record 0, ?s, ?s)]" and ?rest = "[(sample_record 1, sample_record 2, ?s, ?s)]"
  have len: "writable_len (rc_len (sample_record c))" for c
    by (simp add: sample_record_def make_minst_record_def writable_len_def)
  have diff: "sample_record 1 \<noteq> sample_record 2"
    by (simp add: sample_record_def make_minst_record_def)
  obtain x y where "write_minst_record_json excerpt_tables id (sample_record 1) = Inr x"
    "write_minst_record_json excerpt_tables id (sample_record 2) = Inr y"
    using json_ok [OF len] by blast
  then have eq: "equal_minst_record excerpt_tables id (sample_record 1) (sample_record 2) =
      Inr (Some (''record mismatch: ref='' @ x @ '' ca='' @ y))"
    using diff by (simp add: equal_minst_record_def)
  obtain oks h where run: "push_all excerpt_tables id (?same @ ?rest) (harness_new 128) = Inr (oks, h)"
    using eq by (simp add: harness_push_def harness_new_def equal_minst_record_def Let_def)
  from harness_finds_first_difference [OF run] diff
  have "oks = [True, False] \<and> ch_mismatch h \<noteq> None" by (auto simp: agrees_def)
  with run show ?thesis by auto
qed

end
