(* ===== verification/Trace_Files.thy ===== *)
theory Trace_Files
  imports Executor_Claims Compare_Harness Sim_Args
begin

text \<open>
  The trace files of an execution (\<^verbatim>\<open>SetTracePath\<close> and the writes of \<^verbatim>\<open>AppendRecord\<close> in
  \<^verbatim>\<open>src/emulator/execution_context.cpp\<close>) and the files that the compare engine leaves on a mismatch
  (\<^verbatim>\<open>WriteMismatchDump\<close> in \<^verbatim>\<open>src/linx_model_cli.cpp\<close>), with the operations of \<^verbatim>\<open>std::filesystem::path\<close> they use.

  The file system is a map from paths to contents.  \<open>make_dirs\<close> is \<^verbatim>\<open>create_directories\<close>, \<open>can_open\<close> says whether a
  file can be opened for writing; an open stream stays good.  A stream writes at its own position, so
  two streams on one file overwrite each other.
\<close>

section \<open>Paths\<close>

text \<open>POSIX paths; a second slash at the start has no meaning of its own.\<close>

definition filename :: "string \<Rightarrow> string" where
  "filename p = rev (takeWhile (\<lambda>c. c \<noteq> CHR ''/'') (rev p))"

definition parent_path :: "string \<Rightarrow> string" where
  "parent_path p =
     (let dir = take (length p - length (filename p)) p;
          stripped = rev (dropWhile (\<lambda>c. c = CHR ''/'') (rev dir))
      in if stripped = [] \<and> dir \<noteq> [] then ''/'' else stripped)"

definition path_append :: "string \<Rightarrow> string \<Rightarrow> string" where
  "path_append p q = (if p = [] \<or> last p = CHR ''/'' then p @ q else p @ ''/'' @ q)"

text \<open>From the last dot of the file name on; a leading dot does not count, nor do the names \<^verbatim>\<open>.\<close> and \<^verbatim>\<open>..\<close>.\<close>

definition extension :: "string \<Rightarrow> string" where
  "extension p =
     (let f = filename p; tail = rev (takeWhile (\<lambda>c. c \<noteq> CHR ''.'') (rev f))
      in if f = ''..'' \<or> length f \<le> Suc (length tail) then [] else ''.'' @ tail)"

definition replace_extension :: "string \<Rightarrow> string \<Rightarrow> string" where
  "replace_extension p e = take (length p - length (extension p)) p @ e"

definition dump_path :: "string \<Rightarrow> string" where
  "dump_path p = (if extension p \<noteq> [] then replace_extension p ''.dump'' else p @ ''.dump'')"

lemma last_part: "\<exists>d. p = d @ rev (takeWhile P (rev p))"
proof
  show "p = rev (dropWhile P (rev p)) @ rev (takeWhile P (rev p))"
    unfolding rev_append [symmetric] takeWhile_dropWhile_id by simp
qed

lemma part_after:
  assumes "rev (takeWhile (\<lambda>c. c \<noteq> x) (rev p)) \<noteq> p"
  shows "\<exists>d. p = d @ x # rev (takeWhile (\<lambda>c. c \<noteq> x) (rev p))"
proof -
  let ?P = "\<lambda>c. c \<noteq> x"
  have parts: "rev p = takeWhile ?P (rev p) @ dropWhile ?P (rev p)" by simp
  with assms have "dropWhile ?P (rev p) \<noteq> []" by (metis append_Nil2 rev_rev_ident)
  then obtain cs where "dropWhile ?P (rev p) = x # cs" using hd_dropWhile [of ?P "rev p"] by (metis list.collapse)
  with parts have "rev p = takeWhile ?P (rev p) @ x # cs" by simp
  then have "p = rev (takeWhile ?P (rev p) @ x # cs)" by (simp only: rev_swap)
  then show ?thesis by (intro exI [of _ "rev cs"]) simp
qed

lemma extension_suffix: "\<exists>s. p = s @ extension p"
proof (cases "extension p = []")
  case False
  obtain d where d: "p = d @ filename p" unfolding filename_def using last_part by blast
  let ?tail = "rev (takeWhile (\<lambda>c. c \<noteq> CHR ''.'') (rev (filename p)))"
  from False have "?tail \<noteq> filename p" and ext: "extension p = ''.'' @ ?tail"
    by (auto simp: extension_def Let_def split: if_split_asm dest: arg_cong [of _ _ length])
  from part_after [OF this(1)] obtain c where "filename p = c @ CHR ''.'' # ?tail" by blast
  then have "filename p = c @ extension p" using ext by simp
  then have "p = (d @ c) @ extension p" using d by simp
  then show ?thesis ..
qed simp

text \<open>The dump file is a second file unless the trace file already has its extension.\<close>

lemma dump_path_same: "dump_path p = p \<longleftrightarrow> extension p = ''.dump''"
proof -
  obtain s where s: "p = s @ extension p" using extension_suffix by blast
  then have "replace_extension p ''.dump'' = s @ ''.dump''"
    unfolding replace_extension_def by (metis append_eq_conv_conj length_append add_diff_cancel_right')
  with s show ?thesis unfolding dump_path_def by (metis append_self_conv same_append_eq list.distinct(1))
qed

section \<open>Streams\<close>

type_synonym files = "string \<Rightarrow> string option"

record out_stream =
  os_path :: string
  os_pos :: nat

definition stream_write :: "string \<Rightarrow> out_stream \<Rightarrow> files \<Rightarrow> out_stream \<times> files" where
  "stream_write t s fs =
     (let old = (case fs (os_path s) of None \<Rightarrow> [] | Some c \<Rightarrow> c);
          new = take (os_pos s) old @ replicate (os_pos s - length old) (CHR 0x00) @ t @ drop (os_pos s + length t) old
      in (s\<lparr>os_pos := os_pos s + length t\<rparr>, fs(os_path s \<mapsto> new)))"

text \<open>The two streams of an execution context and the files.\<close>

record trace_state =
  ts_files :: files
  ts_json :: "out_stream option"
  ts_dump :: "out_stream option"

definition set_trace_path :: "(string \<Rightarrow> unit outcome) \<Rightarrow> (string \<Rightarrow> bool) \<Rightarrow> string \<Rightarrow> trace_state \<Rightarrow>
    trace_state outcome" where
  "set_trace_path make_dirs can_open path ts =
     (let ts = ts\<lparr>ts_json := None, ts_dump := None\<rparr>
      in if path = [] then Inr ts
         else obind (if parent_path path \<noteq> [] then make_dirs (parent_path path) else Inr ()) (\<lambda>_.
              obind (check_that (can_open path)) (\<lambda>_.
              let ts = ts\<lparr>ts_json := Some \<lparr>os_path = path, os_pos = 0\<rparr>, ts_files := (ts_files ts)(path \<mapsto> [])\<rparr>
              in obind (check_that (can_open (dump_path path))) (\<lambda>_. Inr
                 (ts\<lparr>ts_dump := Some \<lparr>os_path = dump_path path, os_pos = 0\<rparr>,
                     ts_files := (ts_files ts)(dump_path path \<mapsto> [])\<rparr>)))))"

text \<open>The part of \<^verbatim>\<open>AppendRecord\<close> that writes; the rest of it is \<open>append_record\<close>.\<close>

definition trace_record :: "codec_tables \<Rightarrow> (asm_replacement list \<Rightarrow> asm_replacement list) \<Rightarrow> minst_record \<Rightarrow>
    trace_state \<Rightarrow> trace_state outcome" where
  "trace_record T srt r ts =
     obind (case ts_json ts of
         None \<Rightarrow> Inr ts
       | Some s \<Rightarrow> obind (write_minst_record_json T srt r) (\<lambda>t.
           case stream_write (t @ newline) s (ts_files ts) of
             (s, fs) \<Rightarrow> Inr (ts\<lparr>ts_json := Some s, ts_files := fs\<rparr>))) (\<lambda>ts.
     case ts_dump ts of
       None \<Rightarrow> Inr ts
     | Some s \<Rightarrow> obind (write_minst_record_dump T srt r) (\<lambda>t.
         case stream_write (t @ newline) s (ts_files ts) of
           (s, fs) \<Rightarrow> Inr (ts\<lparr>ts_dump := Some s, ts_files := fs\<rparr>)))"

definition append_record_traced :: "codec_tables \<Rightarrow> (asm_replacement list \<Rightarrow> asm_replacement list) \<Rightarrow> minst_record \<Rightarrow>
    exec_context \<times> trace_state \<Rightarrow> (exec_context \<times> trace_state) outcome" where
  "append_record_traced T srt r = (\<lambda>(ctx, ts).
     obind (trace_record T srt r ts) (\<lambda>ts. Inr (append_record r ctx, ts)))"

text \<open>What a step committed is written when it ends: \<^verbatim>\<open>AppendRecord\<close> is the last action of \<^verbatim>\<open>Execute\<close>.\<close>

definition trace_new :: "codec_tables \<Rightarrow> (asm_replacement list \<Rightarrow> asm_replacement list) \<Rightarrow> exec_context \<Rightarrow>
    exec_context \<Rightarrow> trace_state \<Rightarrow> trace_state outcome" where
  "trace_new T srt ctx ctx' = ofold (trace_record T srt) (drop (length (cx_committed ctx)) (cx_committed ctx'))"

definition traced_step :: "codec_tables \<Rightarrow> (asm_replacement list \<Rightarrow> asm_replacement list) \<Rightarrow> u64 option \<Rightarrow>
    exec_context \<Rightarrow> trace_state \<Rightarrow> (bool \<times> exec_context \<times> trace_state) outcome" where
  "traced_step T srt stop_pc ctx ts =
     (case exec_step T stop_pc ctx of (go, ctx') \<Rightarrow>
        obind (trace_new T srt ctx ctx' ts) (\<lambda>ts. Inr (go, ctx', ts)))"

fun traced_run :: "nat \<Rightarrow> codec_tables \<Rightarrow> (asm_replacement list \<Rightarrow> asm_replacement list) \<Rightarrow> u64 option \<Rightarrow>
    u64 option \<Rightarrow> exec_context \<Rightarrow> trace_state \<Rightarrow> (exec_context \<times> trace_state) outcome option" where
  "traced_run 0 T srt stop_pc max_cycles ctx ts = None"
| "traced_run (Suc fuel) T srt stop_pc max_cycles ctx ts =
     (if cx_terminated ctx then Some (Inr (ctx, ts))
      else if (case max_cycles of None \<Rightarrow> False | Some m \<Rightarrow> cx_cycle ctx \<ge> m)
      then Some (Inr (request_terminate (cx_exit_code ctx) ''max_cycles'' ctx, ts))
      else (case traced_step T srt stop_pc ctx ts of
          Inl e \<Rightarrow> Some (Inl e)
        | Inr (go, ctx, ts) \<Rightarrow>
            if go then traced_run fuel T srt stop_pc max_cycles ctx ts else Some (Inr (ctx, ts))))"

section \<open>What the files hold\<close>

text \<open>The lines of a list of records; a record that cannot be written ends it.\<close>

fun trace_text :: "(minst_record \<Rightarrow> string outcome) \<Rightarrow> minst_record list \<Rightarrow> string outcome" where
  "trace_text f [] = Inr []"
| "trace_text f (r # rs) = obind (f r) (\<lambda>t. obind (trace_text f rs) (\<lambda>u. Inr (t @ newline @ u)))"

lemma trace_text_append:
  "trace_text f (rs @ ss) = obind (trace_text f rs) (\<lambda>t. obind (trace_text f ss) (\<lambda>u. Inr (t @ u)))"
proof (induction rs)
  case (Cons r rs)
  then show ?case by (cases "f r"; cases "trace_text f rs"; cases "trace_text f ss") simp_all
qed simp

lemma trace_text_writable:
  assumes "list_all (\<lambda>r. writable_len (rc_len r)) rs"
  shows "\<exists>j d. trace_text (write_minst_record_json T srt) rs = Inr j \<and> trace_text (write_minst_record_dump T srt) rs = Inr d"
  using assms
proof (induction rs)
  case (Cons r rs)
  then have "writable_len (rc_len r)" by simp
  from json_ok [OF this, of T srt] decorate_ok [OF this, of T srt] Cons
  show ?case by (auto simp: write_minst_record_dump_def)
qed simp

text \<open>Both streams stand at the end of their files, and the files are two.\<close>

definition tracing :: "string \<Rightarrow> files \<Rightarrow> string \<Rightarrow> string \<Rightarrow> trace_state \<Rightarrow> bool" where
  "tracing path fs j d ts \<longleftrightarrow> dump_path path \<noteq> path \<and>
     ts = \<lparr>ts_files = fs(path \<mapsto> j, dump_path path \<mapsto> d),
           ts_json = Some \<lparr>os_path = path, os_pos = length j\<rparr>,
           ts_dump = Some \<lparr>os_path = dump_path path, os_pos = length d\<rparr>\<rparr>"

lemma tracing_open:
  assumes "set_trace_path make_dirs can_open path ts = Inr ts'" "path \<noteq> []" "extension path \<noteq> ''.dump''"
  shows "tracing path (ts_files ts) [] [] ts'"
  using assms by (cases ts) (auto simp: set_trace_path_def tracing_def dump_path_same Let_def outcome_simps)

lemma tracing_record:
  assumes "tracing path fs j d ts" "write_minst_record_json T srt r = Inr t" "write_minst_record_dump T srt r = Inr u"
  shows "\<exists>ts'. trace_record T srt r ts = Inr ts' \<and> tracing path fs (j @ t @ newline) (d @ u @ newline) ts'"
  using assms by (auto simp: trace_record_def tracing_def stream_write_def Let_def fun_upd_twist)

lemma tracing_records:
  assumes "tracing path fs j d ts" "trace_text (write_minst_record_json T srt) rs = Inr t"
    "trace_text (write_minst_record_dump T srt) rs = Inr u"
  shows "\<exists>ts'. ofold (trace_record T srt) rs ts = Inr ts' \<and> tracing path fs (j @ t) (d @ u) ts'"
  using assms
proof (induction rs arbitrary: j d ts t u)
  case (Cons r rs)
  from Cons.prems(2,3) obtain t1 t2 u1 u2 where
    head: "write_minst_record_json T srt r = Inr t1" "write_minst_record_dump T srt r = Inr u1"
    and tail: "trace_text (write_minst_record_json T srt) rs = Inr t2" "trace_text (write_minst_record_dump T srt) rs = Inr u2"
    and eq: "t = t1 @ newline @ t2" "u = u1 @ newline @ u2" by (auto simp: outcome_simps)
  from tracing_record [OF Cons.prems(1) head] obtain ts1 where
    "trace_record T srt r ts = Inr ts1" "tracing path fs (j @ t1 @ newline) (d @ u1 @ newline) ts1" by blast
  with Cons.IH [OF this(2) tail] eq show ?case by simp
qed simp

text \<open>Every record of a run can be written.\<close>

lemma trace_wf_writable: "trace_wf c0 rs \<Longrightarrow> list_all (\<lambda>r. writable_len (rc_len r)) rs"
  by (auto simp: list_all_length trace_wf_def writable_len_def)

lemma exec_step_extends: "exec_step T stop_pc ctx = (go, ctx') \<Longrightarrow> \<exists>new. cx_committed ctx' = cx_committed ctx @ new"
  using exec_step_cases [of T stop_pc ctx go ctx'] by (auto simp: stops_def commits_def)

lemma step_writes:
  assumes "exec_inv c0 e ctx" "exec_step T stop_pc ctx = (go, ctx1)" "tracing path fs j d ts"
    "trace_text (write_minst_record_json T srt) (cx_committed ctx) = Inr j"
    "trace_text (write_minst_record_dump T srt) (cx_committed ctx) = Inr d"
  shows "\<exists>t u ts1. trace_new T srt ctx ctx1 ts = Inr ts1 \<and> tracing path fs (j @ t) (d @ u) ts1 \<and>
    trace_text (write_minst_record_json T srt) (cx_committed ctx1) = Inr (j @ t) \<and>
    trace_text (write_minst_record_dump T srt) (cx_committed ctx1) = Inr (d @ u)"
proof -
  obtain new where new: "cx_committed ctx1 = cx_committed ctx @ new" using exec_step_extends [OF assms(2)] by blast
  have "exec_inv c0 e ctx1" using exec_inv_step [OF assms(1,2)] .
  then have "list_all (\<lambda>r. writable_len (rc_len r)) (cx_committed ctx1)"
    unfolding exec_inv_def using trace_wf_writable by blast
  then have "list_all (\<lambda>r. writable_len (rc_len r)) new" by (simp add: new)
  from trace_text_writable [OF this, of T srt] obtain t u where
    tu: "trace_text (write_minst_record_json T srt) new = Inr t" "trace_text (write_minst_record_dump T srt) new = Inr u"
    by blast
  from tracing_records [OF assms(3) tu] obtain ts1 where
    "ofold (trace_record T srt) new ts = Inr ts1" "tracing path fs (j @ t) (d @ u) ts1" by blast
  with assms(4,5) tu show ?thesis by (intro exI [of _ t] exI [of _ u]) (simp add: trace_new_def new trace_text_append)
qed

lemma traced_run_writes:
  assumes "exec_inv c0 e ctx" "run_loop fuel T stop_pc max_cycles ctx = Some ctx'" "tracing path fs j d ts"
    "trace_text (write_minst_record_json T srt) (cx_committed ctx) = Inr j"
    "trace_text (write_minst_record_dump T srt) (cx_committed ctx) = Inr d"
  shows "\<exists>j' d' ts'. traced_run fuel T srt stop_pc max_cycles ctx ts = Some (Inr (ctx', ts')) \<and>
    tracing path fs j' d' ts' \<and> trace_text (write_minst_record_json T srt) (cx_committed ctx') = Inr j' \<and>
    trace_text (write_minst_record_dump T srt) (cx_committed ctx') = Inr d'"
  using assms
proof (induction fuel arbitrary: ctx ts j d)
  case 0
  then show ?case by simp
next
  case (Suc fuel)
  show ?case
  proof (cases "cx_terminated ctx \<or> (case max_cycles of None \<Rightarrow> False | Some m \<Rightarrow> cx_cycle ctx \<ge> m)")
    case True
    with Suc.prems show ?thesis by (auto simp: request_terminate_def split: if_split_asm)
  next
    case False
    obtain go ctx1 where step: "exec_step T stop_pc ctx = (go, ctx1)" by fastforce
    have inv: "exec_inv c0 e ctx1" using exec_inv_step [OF Suc.prems(1) step] .
    from step_writes [OF Suc.prems(1) step Suc.prems(3-5)] obtain t u ts1 where
      new: "trace_new T srt ctx ctx1 ts = Inr ts1" "tracing path fs (j @ t) (d @ u) ts1"
      and texts: "trace_text (write_minst_record_json T srt) (cx_committed ctx1) = Inr (j @ t)"
        "trace_text (write_minst_record_dump T srt) (cx_committed ctx1) = Inr (d @ u)" by blast
    have traced: "traced_step T srt stop_pc ctx ts = Inr (go, ctx1, ts1)" by (simp add: traced_step_def step new(1))
    show ?thesis
    proof (cases go)
      case True
      then have "run_loop fuel T stop_pc max_cycles ctx1 = Some ctx'" using Suc.prems(2) False step by auto
      from Suc.IH [OF inv this new(2) texts] True False traced show ?thesis by auto
    next
      case go: False
      then have "ctx1 = ctx'" using Suc.prems(2) False step by auto
      with go False traced new(2) texts show ?thesis by auto
    qed
  qed
qed

text \<open>C17: when tracing of a run is switched on with a path that does not end in \<^verbatim>\<open>.dump\<close>, the run ends as it does
  without tracing, writing never fails, and afterwards the trace file holds exactly the JSON lines of
  the committed records in their order, the dump file next to it exactly their dump lines, and no
  other file was changed.\<close>
theorem run_writes_its_trace:
  assumes "set_trace_path make_dirs can_open path ts = Inr ts0" "path \<noteq> []" "extension path \<noteq> ''.dump''"
    "run_loop fuel T stop_pc max_cycles (load_program img ctx) = Some ctx'"
  shows "\<exists>j d ts'. traced_run fuel T srt stop_pc max_cycles (load_program img ctx) ts0 = Some (Inr (ctx', ts')) \<and>
    trace_text (write_minst_record_json T srt) (cx_committed ctx') = Inr j \<and>
    trace_text (write_minst_record_dump T srt) (cx_committed ctx') = Inr d \<and>
    ts_files ts' = (ts_files ts)(path \<mapsto> j, dump_path path \<mapsto> d)"
proof -
  have empty: "trace_text f (cx_committed (load_program img ctx)) = Inr []" for f by (simp add: load_program_def)
  from traced_run_writes [OF exec_inv_load assms(4) tracing_open [OF assms(1-3)] empty empty, of srt]
  obtain j d ts' where w: "traced_run fuel T srt stop_pc max_cycles (load_program img ctx) ts0 = Some (Inr (ctx', ts'))"
    "tracing path (ts_files ts) j d ts'" "trace_text (write_minst_record_json T srt) (cx_committed ctx') = Inr j"
    "trace_text (write_minst_record_dump T srt) (cx_committed ctx') = Inr d" by blast
  have "ts_files ts' = (ts_files ts)(path \<mapsto> j, dump_path path \<mapsto> d)" using w(2) by (simp add: tracing_def)
  with w show ?thesis by blast
qed

definition no_files :: trace_state where
  "no_files = \<lparr>ts_files = Map.empty, ts_json = None, ts_dump = None\<rparr>"

theorem run_writes_its_trace_witness:
  "\<exists>ts0 ctx' ts' j d. set_trace_path (\<lambda>_. Inr ()) (\<lambda>_. True) ''out/ref.jsonl'' no_files = Inr ts0 \<and>
     traced_run 5 excerpt_tables id None (Some 4) (load_program demo_program exec_context_default) ts0 = Some (Inr (ctx', ts')) \<and>
     length (cx_committed ctx') = 4 \<and> ts_files ts' = [''out/ref.jsonl'' \<mapsto> j, ''out/ref.dump'' \<mapsto> d]"
proof -
  have path: "extension ''out/ref.jsonl'' \<noteq> ''.dump''" "dump_path ''out/ref.jsonl'' = ''out/ref.dump''"
    "''out/ref.jsonl'' \<noteq> []" by code_simp+
  obtain ts0 where set: "set_trace_path (\<lambda>_. Inr ()) (\<lambda>_. True) ''out/ref.jsonl'' no_files = Inr ts0"
    by (simp add: set_trace_path_def Let_def)
  have "map_option (\<lambda>ctx. length (cx_committed ctx)) (run_loop 5 excerpt_tables None (Some 4)
      (load_program demo_program exec_context_default)) = Some 4" by code_simp
  then obtain ctx' where run: "run_loop 5 excerpt_tables None (Some 4) (load_program demo_program exec_context_default) = Some ctx'"
    and four: "length (cx_committed ctx') = 4" by auto
  from run_writes_its_trace [OF set path(3,1) run, of id] set four show ?thesis
    unfolding path(2) by (auto simp: no_files_def)
qed

text \<open>A trace path that ends in \<^verbatim>\<open>.dump\<close> is also the path of the dump file: both streams are on one file, and the
  second overwrites what the first wrote.\<close>
lemma dump_overwrites_trace:
  assumes "set_trace_path make_dirs can_open path ts = Inr ts0" "extension path = ''.dump''" "path \<noteq> []"
    "write_minst_record_json T srt r = Inr t" "write_minst_record_dump T srt r = Inr u"
  shows "\<exists>ts'. trace_record T srt r ts0 = Inr ts' \<and>
    ts_files ts' = (ts_files ts)(path \<mapsto> u @ newline @ drop (length (u @ newline)) (t @ newline))"
proof -
  have "dump_path path = path" using assms(2) by (simp add: dump_path_same)
  then have "ts0 = ts\<lparr>ts_json := Some \<lparr>os_path = path, os_pos = 0\<rparr>, ts_dump := Some \<lparr>os_path = path, os_pos = 0\<rparr>,
      ts_files := (ts_files ts)(path \<mapsto> [])\<rparr>"
    using assms(1,3) by (auto simp: set_trace_path_def Let_def outcome_simps)
  with assms(4,5) show ?thesis by (auto simp: trace_record_def stream_write_def Let_def)
qed

section \<open>The traces of the compare engine\<close>

text \<open>The compare engine takes only the directory of the given path.\<close>

definition compare_trace_paths :: "string \<Rightarrow> string \<times> string" where
  "compare_trace_paths path =
     (path_append (parent_path path) ''ref.jsonl'', path_append (parent_path path) ''ca.jsonl'')"

lemma compare_trace_ignores_name:
  "compare_trace_paths ''out/x.jsonl'' = (''out/ref.jsonl'', ''out/ca.jsonl'')"
  "compare_trace_paths ''x.jsonl'' = (''ref.jsonl'', ''ca.jsonl'')"
  by code_simp+

lemma filename_append: "CHR ''/'' \<notin> set f \<Longrightarrow> filename (path_append p f) = f"
proof -
  assume f: "CHR ''/'' \<notin> set f"
  have all: "takeWhile (\<lambda>c. c \<noteq> CHR ''/'') (rev f @ xs) = rev f @ takeWhile (\<lambda>c. c \<noteq> CHR ''/'') xs" for xs
    using f by (intro takeWhile_append2) auto
  show ?thesis
  proof (cases "p = [] \<or> last p = CHR ''/''")
    case True
    then have "takeWhile (\<lambda>c. c \<noteq> CHR ''/'') (rev p) = []" by (cases p rule: rev_cases) auto
    with True all [of "rev p"] show ?thesis by (simp add: filename_def path_append_def)
  next
    case False
    with all [of "CHR ''/'' # rev p"] show ?thesis by (simp add: filename_def path_append_def)
  qed
qed

lemma dump_path_append:
  assumes "CHR ''/'' \<notin> set f" "extension f \<noteq> []"
  shows "dump_path (path_append p f) = path_append p (dump_path f)"
proof -
  have "filename f = f" using filename_append [OF assms(1), of "[]"] by (simp add: path_append_def)
  then have ext: "extension (path_append p f) = extension f"
    using filename_append [OF assms(1), of p] by (simp add: extension_def)
  obtain q where q: "path_append p g = q @ g" for g
    unfolding path_append_def by (cases "p = [] \<or> last p = CHR ''/''") (auto simp: that [of p] that [of "p @ ''/''"])
  obtain s where "f = s @ extension f" using extension_suffix by blast
  then have len: "length (extension f) \<le> length f" by (metis length_append le_add2)
  have "dump_path (q @ f) = q @ dump_path f"
    using ext len assms(2) unfolding q by (simp add: dump_path_def replace_extension_def)
  then show ?thesis by (simp add: q)
qed

text \<open>The four trace files of the compare engine are four files.\<close>

lemma compare_traces_apart:
  "case compare_trace_paths path of (r, c) \<Rightarrow> distinct [r, dump_path r, c, dump_path c]"
proof -
  have names: "CHR ''/'' \<notin> set ''ref.jsonl''" "extension ''ref.jsonl'' \<noteq> []" "dump_path ''ref.jsonl'' = ''ref.dump''"
    "CHR ''/'' \<notin> set ''ca.jsonl''" "extension ''ca.jsonl'' \<noteq> []" "dump_path ''ca.jsonl'' = ''ca.dump''" by code_simp+
  show ?thesis
    unfolding compare_trace_paths_def prod.case dump_path_append [OF names(1,2)] dump_path_append [OF names(4,5)] names(3,6)
    by (simp add: path_append_def)
qed

section \<open>The files of a mismatch\<close>

text \<open>A file stream that cannot be opened takes its text and drops it; \<open>temp_dir\<close> is \<^verbatim>\<open>temp_directory_path\<close>.\<close>

definition write_text_file :: "(string \<Rightarrow> bool) \<Rightarrow> string \<Rightarrow> string \<Rightarrow> files \<Rightarrow> files" where
  "write_text_file can_open path t fs = (if can_open path then fs(path \<mapsto> t) else fs)"

definition write_window :: "(string \<Rightarrow> bool) \<Rightarrow> string \<Rightarrow> (minst_record \<Rightarrow> string outcome) \<Rightarrow> minst_record list \<Rightarrow>
    files \<Rightarrow> files outcome" where
  "write_window can_open path f rs fs =
     obind (trace_text f rs) (\<lambda>t. Inr (write_text_file can_open path t fs))"

definition write_mismatch_dump :: "codec_tables \<Rightarrow> (asm_replacement list \<Rightarrow> asm_replacement list) \<Rightarrow>
    (string \<Rightarrow> unit outcome) \<Rightarrow> (string \<Rightarrow> bool) \<Rightarrow> string outcome \<Rightarrow> sim_main_args \<Rightarrow> compare_mismatch \<Rightarrow> files \<Rightarrow>
    files outcome" where
  "write_mismatch_dump T srt make_dirs can_open temp_dir a m fs =
     obind (case sa_emit_trace_path a of Some path \<Rightarrow> Inr (parent_path path) | None \<Rightarrow> temp_dir) (\<lambda>base.
     let dir = path_append base ''linx_model_compare_dfx'' in
     obind (make_dirs dir) (\<lambda>_.
     let fs = write_text_file can_open (path_append dir ''mismatch.txt'')
           (cm_reason m @ newline @ ''ref_state='' @ cm_ref_state m @ newline @
            ''ca_state='' @ cm_ca_state m @ newline) fs in
     obind (write_window can_open (path_append dir ''ref_window.jsonl'') (write_minst_record_json T srt) (cm_ref_window m) fs) (\<lambda>fs.
     obind (write_window can_open (path_append dir ''ca_window.jsonl'') (write_minst_record_json T srt) (cm_ca_window m) fs) (\<lambda>fs.
     obind (write_window can_open (path_append dir ''ref_window.dump'') (write_minst_record_dump T srt) (cm_ref_window m) fs) (\<lambda>fs.
     write_window can_open (path_append dir ''ca_window.dump'') (write_minst_record_dump T srt) (cm_ca_window m) fs)))))"

text \<open>The windows of two runs can always be written: the dump then leaves its five files.\<close>

lemma mismatch_dump_files:
  assumes "list_all (\<lambda>r. writable_len (rc_len r)) (cm_ref_window m @ cm_ca_window m)"
    "sa_emit_trace_path a = Some path" "\<And>p. make_dirs p = Inr ()" "\<And>p. can_open p"
  shows "\<exists>j1 j2 d1 d2 fs'. write_mismatch_dump T srt make_dirs can_open temp_dir a m fs = Inr fs' \<and>
    trace_text (write_minst_record_json T srt) (cm_ref_window m) = Inr j1 \<and>
    trace_text (write_minst_record_json T srt) (cm_ca_window m) = Inr j2 \<and>
    trace_text (write_minst_record_dump T srt) (cm_ref_window m) = Inr d1 \<and>
    trace_text (write_minst_record_dump T srt) (cm_ca_window m) = Inr d2 \<and>
    (let dir = path_append (parent_path path) ''linx_model_compare_dfx'' in
     fs' (path_append dir ''ref_window.jsonl'') = Some j1 \<and> fs' (path_append dir ''ca_window.jsonl'') = Some j2 \<and>
     fs' (path_append dir ''ref_window.dump'') = Some d1 \<and> fs' (path_append dir ''ca_window.dump'') = Some d2)"
proof -
  obtain j1 d1 where 1: "trace_text (write_minst_record_json T srt) (cm_ref_window m) = Inr j1"
    "trace_text (write_minst_record_dump T srt) (cm_ref_window m) = Inr d1"
    using trace_text_writable [of "cm_ref_window m" T srt] assms(1) by auto
  obtain j2 d2 where 2: "trace_text (write_minst_record_json T srt) (cm_ca_window m) = Inr j2"
    "trace_text (write_minst_record_dump T srt) (cm_ca_window m) = Inr d2"
    using trace_text_writable [of "cm_ca_window m" T srt] assms(1) by auto
  have apart: "path_append dir f = path_append dir g \<longleftrightarrow> f = g" for dir f g by (simp add: path_append_def)
  show ?thesis
    by (simp add: write_mismatch_dump_def write_window_def write_text_file_def Let_def assms(2-4) 1 2 apart)
qed

end
