(* ===== verification/Engines.thy ===== *)
theory Engines
  imports Sim_System Executor_Claims Compare_Harness
begin

text \<open>
  The model's binary (\<^verbatim>\<open>src/linx_model_cli.cpp\<close>): the simulation that runs the reference executor
  (\<^verbatim>\<open>ExecutorBackedSim\<close>), the three engines and \<^verbatim>\<open>main\<close>.  Files are parameters: \<open>read_file\<close>
  reads one, \<open>write_file\<close> says whether writing one succeeds, and a result carries what was written.
  \<^verbatim>\<open>Traced_Engines\<close> adds the trace files and the mismatch files.  Engines take fuel for their loops and are
  \<open>None\<close> when it runs out; an exception that leaves \<^verbatim>\<open>main\<close> is \<open>Inl\<close>.
\<close>

section \<open>The executor as a simulation\<close>

type_synonym exec_sim = "(unit, unit, exec_context) sim_system"

definition exec_sim_new :: exec_sim where
  "exec_sim_new = sim_system_new () exec_context_default"

definition exec_sim_ops :: "codec_tables \<Rightarrow> (unit, unit, exec_context) sim_ops" where
  "exec_sim_ops T = \<lparr>so_build = (\<lambda>m g. Inr (m, g)), so_reset = (\<lambda>m g. Inr (m, g)),
     so_work = (\<lambda>m g. Inr (m, g)), so_xfer = (\<lambda>m g. Inr (m, g)), so_report = (\<lambda>m g. Inr (m, g)),
     so_build_system = Inr,
     so_reset_system = (\<lambda>s. Inr (s\<lparr>ss_derived := context_reset (ss_derived s)\<rparr>)),
     so_report_system = Inr,
     so_on_program_loaded = (\<lambda>img s. Inr (s\<lparr>ss_derived := load_program img (ss_derived s)\<rparr>)),
     so_run_reference = (\<lambda>stop s. Inr (s\<lparr>ss_derived := snd (exec_step T stop (ss_derived s))\<rparr>)),
     so_need_terminate = (\<lambda>s. cx_terminated (ss_derived s)),
     so_pipe_view = (\<lambda>s. [])\<rparr>"

interpretation executor: clocked_sim "exec_sim_ops T"
  by unfold_locales (auto simp: exec_sim_ops_def)

text \<open>The line that \<^verbatim>\<open>ReportSystem\<close> sends to the log; \<open>file\<close> and \<open>line\<close> are its source position.\<close>

definition exec_sim_report_text :: "string \<Rightarrow> nat \<Rightarrow> exec_sim \<Rightarrow> string" where
  "exec_sim_report_text file line s =
     (if cx_last_error (ss_derived s) = [] then []
      else emit (ss_logger s) LL_Info
        \<lparr>lc_cycle = Some (unat (ss_cycle s)), lc_module = ''executor'', lc_stage = ''report'',
         lc_file = file, lc_line = line\<rparr>
        (''termination='' @ cx_last_error (ss_derived s) @ '' exit='' @ int_text (cx_exit_code (ss_derived s))))"

section \<open>The result file\<close>

record engine_result =
  er_code :: int
  er_out :: string
  er_err :: string
  er_file :: "(string \<times> u8 list) option"

definition stop_code :: "int \<Rightarrow> string \<Rightarrow> engine_result" where
  "stop_code code out = \<lparr>er_code = code, er_out = out, er_err = [], er_file = None\<rparr>"

definition stop_error :: "int \<Rightarrow> string \<Rightarrow> string \<Rightarrow> engine_result" where
  "stop_error code out msg = \<lparr>er_code = code, er_out = out, er_err = msg @ newline, er_file = None\<rparr>"

text \<open>A path on a stream is quoted.\<close>

definition quoted_text :: "string \<Rightarrow> string" where
  "quoted_text s = quote @ concat (map (\<lambda>c. if c = CHR 0x22 \<or> c = CHR 0x5C then [CHR 0x5C, c] else [c]) s) @ quote"

definition write_result_dump :: "(string \<Rightarrow> u8 list \<Rightarrow> bool) \<Rightarrow> sim_main_args \<Rightarrow> exec_context \<Rightarrow> string \<Rightarrow>
    engine_result outcome" where
  "write_result_dump write_file a ctx out =
     (case sa_result_dump_path a of
        None \<Rightarrow> Inr (stop_code 0 out)
      | Some path \<Rightarrow>
          (case (sa_result_address a, sa_result_size a) of
             (Some addr, Some n) \<Rightarrow>
               (case read_memory_range ctx addr (unat n) of
                  None \<Rightarrow> Inr (stop_error 1 out ''result memory range is not fully mapped'')
                | Some bytes \<Rightarrow>
                    if write_file path bytes
                    then Inr \<lparr>er_code = 0, er_out = out, er_err = [], er_file = Some (path, bytes)\<rparr>
                    else Inr (stop_error 1 out (''failed to write result memory: '' @ quoted_text path)))
           | _ \<Rightarrow> Inl Undefined_Behaviour))"

definition finish_engine :: "(string \<Rightarrow> u8 list \<Rightarrow> bool) \<Rightarrow> sim_main_args \<Rightarrow> int \<Rightarrow> exec_context \<Rightarrow> string \<Rightarrow>
    engine_result outcome" where
  "finish_engine write_file a code ctx out =
     (if code = 0 then write_result_dump write_file a ctx out else Inr (stop_code code out))"

section \<open>The reference engine\<close>

definition prepare_reference :: "codec_tables \<Rightarrow> (asm_replacement list \<Rightarrow> asm_replacement list) \<Rightarrow>
    (string \<Rightarrow> u8 list outcome) \<Rightarrow> sim_main_args \<Rightarrow> (exec_context \<times> string) outcome" where
  "prepare_reference T srt read_file a =
     obind (case sa_program_path a of
         None \<Rightarrow> Inr exec_context_default
       | Some path \<Rightarrow> obind (load_program_image read_file path (sa_raw_base_address a))
           (\<lambda>img. Inr (load_program img exec_context_default))) (\<lambda>ctx.
     obind (if sa_enable_disassembly a then
         (case sa_program_path a of
            None \<Rightarrow> Inl Undefined_Behaviour
          | Some path \<Rightarrow> obind (load_program_image read_file path (sa_raw_base_address a))
              (\<lambda>img. Inr (print_disassembly T srt img)))
       else Inr []) (\<lambda>out. Inr (ctx, out)))"

definition run_reference_engine :: "nat \<Rightarrow> codec_tables \<Rightarrow> (asm_replacement list \<Rightarrow> asm_replacement list) \<Rightarrow>
    (string \<Rightarrow> u8 list outcome) \<Rightarrow> (string \<Rightarrow> u8 list \<Rightarrow> bool) \<Rightarrow> sim_main_args \<Rightarrow>
    engine_result outcome option" where
  "run_reference_engine fuel T srt read_file write_file a =
     (case prepare_reference T srt read_file a of
        Inl e \<Rightarrow> Some (Inl e)
      | Inr (ctx, out) \<Rightarrow>
          if sa_disassembly_only a then Some (Inr (stop_code 0 out))
          else map_option (\<lambda>ctx. finish_engine write_file a (cx_exit_code ctx) ctx out)
            (run_loop fuel T (sa_stop_pc a) (sa_max_cycles a) ctx))"

section \<open>The compare engine\<close>

datatype compare_end = Compared exec_context exec_sim | Mismatched string

fun compare_loop :: "nat \<Rightarrow> codec_tables \<Rightarrow> (asm_replacement list \<Rightarrow> asm_replacement list) \<Rightarrow> sim_main_args \<Rightarrow>
    exec_context \<Rightarrow> exec_sim \<Rightarrow> compare_harness \<Rightarrow> compare_end outcome option" where
  "compare_loop 0 T srt a ref_ctx ca h = None"
| "compare_loop (Suc fuel) T srt a ref_ctx ca h =
     (if cx_terminated ref_ctx \<or> so_need_terminate (exec_sim_ops T) ca then Some (Inr (Compared ref_ctx ca))
      else if (case sa_max_cycles a of None \<Rightarrow> False | Some m \<Rightarrow> cx_cycle ref_ctx \<ge> m)
      then Some (Inr (Compared ref_ctx ca))
      else
        let ref_ctx = snd (exec_step T (sa_stop_pc a) ref_ctx)
        in (case obind (so_run_reference (exec_sim_ops T) (sa_stop_pc a) ca) (sim_step (exec_sim_ops T)) of
              Inl e \<Rightarrow> Some (Inl e)
            | Inr ca \<Rightarrow>
                (case (cx_last_committed ref_ctx, cx_last_committed (ss_derived ca)) of
                   (Some r, Some c) \<Rightarrow>
                     (case harness_push T srt r c (cx_state ref_ctx) (cx_state (ss_derived ca)) h of
                        Inl e \<Rightarrow> Some (Inl e)
                      | Inr (ok, h) \<Rightarrow>
                          if ok then compare_loop fuel T srt a ref_ctx ca h
                          else (case ch_mismatch h of
                              None \<Rightarrow> Some (Inl Undefined_Behaviour)
                            | Some m \<Rightarrow> Some (Inr (Mismatched (cm_reason m)))))
                 | _ \<Rightarrow> Some (Inr (Compared ref_ctx ca)))))"

definition prepare_compare :: "codec_tables \<Rightarrow> program_image \<Rightarrow> exec_sim outcome" where
  "prepare_compare T img =
     obind (sim_load_program_image (exec_sim_ops T) img exec_sim_new) (\<lambda>s.
     obind (sim_build (exec_sim_ops T) s) (sim_reset (exec_sim_ops T)))"

definition compare_finish :: "(string \<Rightarrow> u8 list \<Rightarrow> bool) \<Rightarrow> sim_main_args \<Rightarrow> compare_end \<Rightarrow> engine_result outcome" where
  "compare_finish write_file a e =
     (case e of
        Mismatched reason \<Rightarrow> Inr (stop_error 2 [] reason)
      | Compared ref_ctx ca \<Rightarrow>
          let ref_count = length (cx_committed ref_ctx); ca_count = length (cx_committed (ss_derived ca))
          in if ref_count \<noteq> ca_count
             then Inr (stop_error 3 [] (''commit count mismatch: ref='' @ dec_text ref_count @ '' ca='' @ dec_text ca_count))
             else finish_engine write_file a (max (cx_exit_code ref_ctx) (cx_exit_code (ss_derived ca)))
               (ss_derived ca) [])"

definition run_compare_engine :: "nat \<Rightarrow> codec_tables \<Rightarrow> (asm_replacement list \<Rightarrow> asm_replacement list) \<Rightarrow>
    (string \<Rightarrow> u8 list outcome) \<Rightarrow> (string \<Rightarrow> u8 list \<Rightarrow> bool) \<Rightarrow> sim_main_args \<Rightarrow>
    engine_result outcome option" where
  "run_compare_engine fuel T srt read_file write_file a =
     (case sa_program_path a of
        None \<Rightarrow> Some (Inr (stop_error 1 [] ''compare engine requires --bin''))
      | Some path \<Rightarrow>
          (case load_program_image read_file path (sa_raw_base_address a) of
             Inl e \<Rightarrow> Some (Inl e)
           | Inr img \<Rightarrow>
               (case prepare_compare T img of
                  Inl e \<Rightarrow> Some (Inl e)
                | Inr ca \<Rightarrow>
                    map_option (\<lambda>r. obind r (compare_finish write_file a))
                      (compare_loop fuel T srt a (load_program img exec_context_default) ca
                        (harness_new (unat (sa_compare_window a)))))))"

section \<open>main\<close>

definition run_ca_engine :: "nat \<Rightarrow> codec_tables \<Rightarrow> (asm_replacement list \<Rightarrow> asm_replacement list) \<Rightarrow>
    (string \<Rightarrow> u8 list outcome) \<Rightarrow> (string \<Rightarrow> u8 list \<Rightarrow> bool) \<Rightarrow> sim_main_args \<Rightarrow>
    engine_result outcome option" where
  "run_ca_engine fuel T srt read_file write_file a =
     map_option (\<lambda>r. obind r (\<lambda>(s, out). write_result_dump write_file a (ss_derived s) out))
       (run_sim_main fuel (exec_sim_ops T) T srt read_file a exec_sim_new)"

definition model_main :: "nat \<Rightarrow> codec_tables \<Rightarrow> (asm_replacement list \<Rightarrow> asm_replacement list) \<Rightarrow>
    (string \<Rightarrow> u8 list outcome) \<Rightarrow> (string \<Rightarrow> u8 list \<Rightarrow> bool) \<Rightarrow> string \<Rightarrow> string list \<Rightarrow>
    engine_result outcome option" where
  "model_main fuel T srt read_file write_file program args =
     (case parse_sim_main_args program args of
        Stop code out err \<Rightarrow> Some (Inr \<lparr>er_code = code, er_out = out, er_err = err, er_file = None\<rparr>)
      | Parsed a \<Rightarrow>
          if sa_engine a = ''ref'' then run_reference_engine fuel T srt read_file write_file a
          else if sa_engine a = ''compare'' then run_compare_engine fuel T srt read_file write_file a
          else run_ca_engine fuel T srt read_file write_file a)"

end
