(* ===== verification/Engine_Claims.thy ===== *)
theory Engine_Claims
  imports Engines
begin

text \<open>
  The engines against each other: the compare engine and the cycle-accurate engine refine the reference
  engine, and the main loop ends under a cycle bound.  The simulation's context follows the reference
  context step by step, so that each engine stops in the same context.
\<close>

section \<open>The simulation follows the reference\<close>

lemma exec_sim_need [simp]: "so_need_terminate (exec_sim_ops T) s = cx_terminated (ss_derived s)"
  by (simp add: exec_sim_ops_def)

lemma exec_sim_view [simp]: "so_pipe_view (exec_sim_ops T) s = []"
  by (simp add: exec_sim_ops_def)

lemma exec_sim_reference [simp]: "so_run_reference (exec_sim_ops T) stop s =
    Inr (s\<lparr>ss_derived := snd (exec_step T stop (ss_derived s))\<rparr>)"
  by (simp add: exec_sim_ops_def)

lemma exec_sim_step:
  "ss_modules s = [] \<Longrightarrow> sim_step (exec_sim_ops T) s = Inr (s\<lparr>ss_cycle := ss_cycle s + 1\<rparr>)"
  by (simp add: sim_step_def run_phase_def exec_sim_ops_def)

lemma exec_sim_report:
  "ss_modules s = [] \<Longrightarrow> sim_report (exec_sim_ops T) s = Inr s"
  by (simp add: sim_report_def run_phase_def exec_sim_ops_def)

lemma exec_sim_start:
  assumes "ss_modules s = []" "\<not> ss_built s"
  shows "obind (sim_build (exec_sim_ops T) s) (sim_reset (exec_sim_ops T)) =
    Inr (s\<lparr>ss_built := True, ss_derived := context_reset (ss_derived s), ss_cycle := 0,
           ss_terminate_requested := False\<rparr>)"
  using assms
  by (simp add: sim_build_def sim_reset_def run_phase_def exec_sim_ops_def check_that_def)

lemma exec_sim_load:
  "sim_load_program_image (exec_sim_ops T) img s =
     Inr (s\<lparr>ss_program_image := Some img, ss_derived := load_program img (ss_derived s)\<rparr>)"
  by (simp add: sim_load_program_image_def exec_sim_ops_def)

lemma reset_loaded:
  "context_reset (load_program img exec_context_default) = load_program img exec_context_default"
  by (simp add: context_reset_def load_program_def exec_context_default_def linx_state_reset_def Let_def)

text \<open>Two contexts are the same to a finished engine when exit code, memory and trace agree; the cycle bound
  changes no more than the reason of the stop.\<close>

definition same_end :: "exec_context \<Rightarrow> exec_context \<Rightarrow> bool" where
  "same_end x y \<longleftrightarrow> cx_exit_code x = cx_exit_code y \<and> cx_memory x = cx_memory y \<and> cx_committed x = cx_committed y"

lemma same_end_refl [simp]: "same_end x x" by (simp add: same_end_def)

lemma same_end_stop [simp]: "same_end x (request_terminate (cx_exit_code x) reason x)"
  by (simp add: same_end_def request_terminate_def)

lemma read_bytes_memory: "cx_memory x = cx_memory y \<Longrightarrow> read_bytes x a i n bs = read_bytes y a i n bs"
  by (induction n arbitrary: i bs) (auto simp: read8_def split: option.split)

lemma same_end_range: "same_end x y \<Longrightarrow> read_memory_range x = read_memory_range y"
  by (intro ext) (simp add: read_memory_range_def same_end_def read_bytes_memory [of x y])

lemma same_end_dump: "same_end x y \<Longrightarrow> write_result_dump w a x out = write_result_dump w a y out"
  unfolding write_result_dump_def by (drule same_end_range, erule subst, rule refl)

lemma same_end_finish: "same_end x y \<Longrightarrow> finish_engine w a c x out = finish_engine w a c y out"
  by (simp add: finish_engine_def same_end_dump [of x y])

section \<open>The compare engine\<close>

lemma harness_accepts_equal:
  "ch_mismatch h = None \<Longrightarrow> \<exists>h'. harness_push T srt r r rs cs h = Inr (True, h') \<and> ch_mismatch h' = None"
  by (simp add: harness_push_def equal_minst_record_def Let_def)

text \<open>One round of the compare loop when both sides hold the same context.\<close>

lemma compare_round:
  assumes "ch_mismatch h = None" "ss_modules ca = []" "ss_derived ca = ctx" "\<not> cx_terminated ctx"
    "\<not> (case sa_max_cycles a of None \<Rightarrow> False | Some m \<Rightarrow> cx_cycle ctx \<ge> m)"
  obtains h' ca' where "ch_mismatch h' = None" "ss_modules ca' = []"
    "ss_derived ca' = snd (exec_step T (sa_stop_pc a) ctx)"
    "compare_loop (Suc fuel) T srt a ctx ca h =
       (if cx_last_committed (ss_derived ca') = None then Some (Inr (Compared (ss_derived ca') ca'))
        else compare_loop fuel T srt a (ss_derived ca') ca' h')"
proof -
  let ?ctx = "snd (exec_step T (sa_stop_pc a) ctx)"
  let ?ca = "ca\<lparr>ss_derived := ?ctx, ss_cycle := ss_cycle ca + 1\<rparr>"
  have go: "obind (so_run_reference (exec_sim_ops T) (sa_stop_pc a) ca) (sim_step (exec_sim_ops T)) = Inr ?ca"
    using assms(2,3) by (simp add: exec_sim_step)
  obtain h' where h': "ch_mismatch h' = None"
    "harness_push T srt (the (cx_last_committed ?ctx)) (the (cx_last_committed ?ctx)) (cx_state ?ctx) (cx_state ?ctx) h
       = Inr (True, h')"
    using harness_accepts_equal [OF assms(1)] by blast
  have "compare_loop (Suc fuel) T srt a ctx ca h =
       (if cx_last_committed ?ctx = None then Some (Inr (Compared ?ctx ?ca))
        else compare_loop fuel T srt a ?ctx ?ca h')"
    using assms(3-5) go h'(2) by (cases "cx_last_committed ?ctx") (simp_all add: Let_def)
  then show ?thesis using that [of h' ?ca] h'(1) assms(2) by simp
qed

definition compared_as :: "exec_context \<Rightarrow> compare_end outcome \<Rightarrow> bool" where
  "compared_as ctx r \<longleftrightarrow> (\<exists>ref_ctx ca. r = Inr (Compared ref_ctx ca) \<and> ss_derived ca = ref_ctx \<and> same_end ref_ctx ctx)"

lemma compared_as_iff [simp]:
  "compared_as ctx (Inr (Compared ref_ctx ca)) \<longleftrightarrow> ss_derived ca = ref_ctx \<and> same_end ref_ctx ctx"
  by (simp add: compared_as_def)

lemma step_commits_last: "exec_step T stop ctx = (True, ctx') \<Longrightarrow> cx_last_committed ctx' \<noteq> None"
  by (drule exec_step_cases) (auto simp: commits_def)

text \<open>The reference loop in terms of one round.\<close>

lemma run_loop_ended: "cx_terminated ctx \<Longrightarrow> run_loop (Suc fuel) T stop m ctx = Some ctx"
  by simp

lemma compare_loop_ended:
  "cx_terminated ctx \<Longrightarrow> ss_derived ca = ctx \<Longrightarrow>
   compare_loop (Suc fuel) T srt a ctx ca h = Some (Inr (Compared ctx ca))"
  by simp

lemma compare_follows_run:
  "run_loop fuel T (sa_stop_pc a) (sa_max_cycles a) ctx = Some ctx' \<Longrightarrow>
   ch_mismatch h = None \<Longrightarrow> ss_modules ca = [] \<Longrightarrow> ss_derived ca = ctx \<Longrightarrow>
   \<exists>r. compare_loop (Suc fuel) T srt a ctx ca h = Some r \<and> compared_as ctx' r"
proof (induction fuel arbitrary: ctx ca h)
  case 0
  then show ?case by simp
next
  case (Suc fuel)
  let ?bound = "case sa_max_cycles a of None \<Rightarrow> False | Some m \<Rightarrow> cx_cycle ctx \<ge> m"
  show ?case
  proof (cases "cx_terminated ctx \<or> ?bound")
    case True
    then show ?thesis using Suc.prems by (auto split: if_split_asm)
  next
    case False
    obtain go ctx1 where step: "exec_step T (sa_stop_pc a) ctx = (go, ctx1)" by fastforce
    from False compare_round [OF Suc.prems(2-4), where T = T and a = a and srt = srt and fuel = "Suc fuel"]
    obtain h1 ca1 where r1: "ch_mismatch h1 = None" "ss_modules ca1 = []" "ss_derived ca1 = ctx1"
      and loop: "compare_loop (Suc (Suc fuel)) T srt a ctx ca h =
        (if cx_last_committed ctx1 = None then Some (Inr (Compared ctx1 ca1))
         else compare_loop (Suc fuel) T srt a ctx1 ca1 h1)"
      unfolding step by (metis snd_conv)
    show ?thesis
    proof (cases go)
      case True
      have "run_loop fuel T (sa_stop_pc a) (sa_max_cycles a) ctx1 = Some ctx'"
        using Suc.prems(1) False step True by simp
      with Suc.IH [OF this r1] step_commits_last [of T "sa_stop_pc a" ctx ctx1] step True show ?thesis
        unfolding loop by (auto simp del: compare_loop.simps)
    next
      case no: False
      then have "ctx' = ctx1" "cx_terminated ctx1"
        using Suc.prems(1) False step step_stops_terminated [of T "sa_stop_pc a" ctx ctx1] by simp_all
      then show ?thesis unfolding loop using r1(3) compare_loop_ended [of ctx1 ca1 fuel T srt a h1]
        by (auto split: if_split_asm)
    qed
  qed
qed

lemma run_follows_compare:
  "compare_loop fuel T srt a ctx ca h = Some r \<Longrightarrow>
   ch_mismatch h = None \<Longrightarrow> ss_modules ca = [] \<Longrightarrow> ss_derived ca = ctx \<Longrightarrow>
   \<exists>ctx'. run_loop fuel T (sa_stop_pc a) (sa_max_cycles a) ctx = Some ctx' \<and> compared_as ctx' r"
proof (induction fuel arbitrary: ctx ca h)
  case 0
  then show ?case by simp
next
  case (Suc fuel)
  let ?bound = "case sa_max_cycles a of None \<Rightarrow> False | Some m \<Rightarrow> cx_cycle ctx \<ge> m"
  show ?case
  proof (cases "cx_terminated ctx \<or> ?bound")
    case True
    then show ?thesis using Suc.prems by (auto split: if_split_asm)
  next
    case False
    obtain go ctx1 where step: "exec_step T (sa_stop_pc a) ctx = (go, ctx1)" by fastforce
    from False compare_round [OF Suc.prems(2-4), where T = T and a = a and srt = srt and fuel = fuel]
    obtain h1 ca1 where r1: "ch_mismatch h1 = None" "ss_modules ca1 = []" "ss_derived ca1 = ctx1"
      and loop: "compare_loop (Suc fuel) T srt a ctx ca h =
        (if cx_last_committed ctx1 = None then Some (Inr (Compared ctx1 ca1))
         else compare_loop fuel T srt a ctx1 ca1 h1)"
      unfolding step by (metis snd_conv)
    show ?thesis
    proof (cases go)
      case True
      then have "compare_loop fuel T srt a ctx1 ca1 h1 = Some r"
        using Suc.prems(1) step_commits_last [of T "sa_stop_pc a" ctx ctx1] step unfolding loop
        by (auto simp del: compare_loop.simps)
      from Suc.IH [OF this r1] show ?thesis using False step True by simp
    next
      case no: False
      then have "cx_terminated ctx1"
        using step step_stops_terminated [of T "sa_stop_pc a" ctx ctx1] by simp
      then have "r = Inr (Compared ctx1 ca1)"
        using Suc.prems(1) r1(3) unfolding loop by (cases fuel) (auto split: if_splits)
      then show ?thesis using False step no r1(3) by (auto split: if_split_asm)
    qed
  qed
qed

lemma prepare_compare_start:
  obtains ca where "prepare_compare T img = Inr ca" "ss_modules ca = []"
    "ss_derived ca = load_program img exec_context_default"
proof -
  have "ss_modules exec_sim_new = []" "\<not> ss_built exec_sim_new" "ss_derived exec_sim_new = exec_context_default"
    by (simp_all add: exec_sim_new_def sim_system_new_def)
  then show ?thesis using that by (simp add: prepare_compare_def exec_sim_load exec_sim_start reset_loaded)
qed

lemma compared_finish:
  assumes "compared_as ctx r"
  shows "obind r (compare_finish w a) = finish_engine w a (cx_exit_code ctx) ctx []"
proof -
  obtain ref_ctx ca where r: "r = Inr (Compared ref_ctx ca)" "ss_derived ca = ref_ctx" "same_end ref_ctx ctx"
    using assms by (auto simp: compared_as_def)
  then have "cx_exit_code ref_ctx = cx_exit_code ctx" by (simp add: same_end_def)
  with r show ?thesis by (simp add: compare_finish_def Let_def same_end_finish [of ref_ctx ctx])
qed

text \<open>What the reference engine returns for the program \<open>path\<close> when it prints no disassembly: the end of its loop.\<close>

definition reference_end :: "nat \<Rightarrow> codec_tables \<Rightarrow> (string \<Rightarrow> u8 list outcome) \<Rightarrow> sim_main_args \<Rightarrow> string \<Rightarrow>
    exec_context outcome option" where
  "reference_end fuel T read_file a path =
     (case load_program_image read_file path (sa_raw_base_address a) of
        Inl e \<Rightarrow> Some (Inl e)
      | Inr img \<Rightarrow> map_option Inr
          (run_loop fuel T (sa_stop_pc a) (sa_max_cycles a) (load_program img exec_context_default)))"

definition runs_file :: "sim_main_args \<Rightarrow> string \<Rightarrow> sim_main_args" where
  "runs_file a path = a\<lparr>sa_program_path := Some path, sa_enable_disassembly := False, sa_disassembly_only := False\<rparr>"

lemma runs_file_options [simp]:
  "sa_stop_pc (runs_file a path) = sa_stop_pc a" "sa_max_cycles (runs_file a path) = sa_max_cycles a"
  "sa_program_path (runs_file a path) = Some path" "sa_compare_window (runs_file a path) = sa_compare_window a"
  "sa_raw_base_address (runs_file a path) = sa_raw_base_address a"
  "sa_result_dump_path (runs_file a path) = sa_result_dump_path a"
  "sa_result_address (runs_file a path) = sa_result_address a" "sa_result_size (runs_file a path) = sa_result_size a"
  "\<not> sa_enable_disassembly (runs_file a path)" "\<not> sa_disassembly_only (runs_file a path)"
  by (simp_all add: runs_file_def)

lemma dump_runs_file [simp]: "write_result_dump w (runs_file a path) = write_result_dump w a"
  unfolding write_result_dump_def fun_eq_iff runs_file_options by simp

lemma finish_runs_file [simp]: "finish_engine w (runs_file a path) = finish_engine w a"
  by (intro ext) (simp add: finish_engine_def)

lemma reference_engine_end:
  "run_reference_engine fuel T srt read_file w (runs_file a path) =
     map_option (\<lambda>r. obind r (\<lambda>ctx. finish_engine w a (cx_exit_code ctx) ctx []))
       (reference_end fuel T read_file a path)"
  by (cases "load_program_image read_file path (sa_raw_base_address a)")
    (simp_all add: run_reference_engine_def prepare_reference_def reference_end_def option.map_comp comp_def)

lemma compare_engine_end:
  "(\<exists>fuel. run_compare_engine fuel T srt read_file w (runs_file a path) = Some r) =
   (\<exists>fuel. map_option (\<lambda>r. obind r (\<lambda>ctx. finish_engine w a (cx_exit_code ctx) ctx []))
       (reference_end fuel T read_file a path) = Some r)"
proof (cases "load_program_image read_file path (sa_raw_base_address a)")
  case (Inl e)
  then show ?thesis by (simp add: run_compare_engine_def reference_end_def)
next
  case (Inr img)
  obtain ca where ca: "prepare_compare T img = Inr ca" "ss_modules ca = []"
    "ss_derived ca = load_program img exec_context_default" by (rule prepare_compare_start)
  let ?h = "harness_new (unat (sa_compare_window a))" and ?a = "runs_file a path"
  have h: "ch_mismatch ?h = None" by (simp add: harness_new_def)
  have engine: "run_compare_engine fuel T srt read_file w ?a =
      map_option (\<lambda>r. obind r (compare_finish w ?a)) (compare_loop fuel T srt ?a (ss_derived ca) ca ?h)" for fuel
    using Inr ca by (simp add: run_compare_engine_def)
  note forward = compare_follows_run [where a = ?a, OF _ h ca(2) refl, simplified runs_file_options]
    and backward = run_follows_compare [where a = ?a, OF _ h ca(2) refl, simplified runs_file_options]
  have "\<exists>fuel. run_compare_engine fuel T srt read_file w ?a = Some (finish_engine w a (cx_exit_code ctx) ctx [])"
    if "run_loop fuel T (sa_stop_pc a) (sa_max_cycles a) (ss_derived ca) = Some ctx" for fuel ctx
  proof -
    from forward [OF that, of srt] obtain r where
      r: "compare_loop (Suc fuel) T srt ?a (ss_derived ca) ca ?h = Some r" "compared_as ctx r" by blast
    show ?thesis using r(1) compared_finish [OF r(2), of w ?a] by (intro exI [of _ "Suc fuel"]) (simp add: engine)
  qed
  moreover have "\<exists>ctx. run_loop fuel T (sa_stop_pc a) (sa_max_cycles a) (ss_derived ca) = Some ctx \<and>
      r = finish_engine w a (cx_exit_code ctx) ctx []"
    if "run_compare_engine fuel T srt read_file w ?a = Some r" for fuel
  proof -
    from that obtain x where x: "compare_loop fuel T srt ?a (ss_derived ca) ca ?h = Some x"
      "r = obind x (compare_finish w ?a)" by (auto simp: engine)
    from backward [OF x(1)] compared_finish x(2) show ?thesis by auto
  qed
  ultimately show ?thesis
    using Inr ca(3) by (fastforce simp: reference_end_def option.map_comp comp_def)
qed

text \<open>C4: the compare engine refines the reference engine on options that ask for no disassembly
  (\<open>runs_file\<close>; the reference engine alone prints one, and only it stops after that under \<^verbatim>\<open>--disasm-only\<close>).
  For every program file, all tables and all other options (trace files are added in theory
  \<open>Traced_Engines\<close>) it returns exactly what the reference engine returns, exit code, error text and
  result file included, and returns exactly when the reference engine does.  So it never reports a
  mismatch or different commit counts, and loading errors are the same.\<close>
theorem compare_engine_refines_reference:
  "(\<exists>fuel. run_compare_engine fuel T srt read_file w (runs_file a path) = Some r) =
   (\<exists>fuel. run_reference_engine fuel T srt read_file w (runs_file a path) = Some r)"
  unfolding reference_engine_end by (rule compare_engine_end)

section \<open>The cycle-accurate engine\<close>

text \<open>With a cycle bound the main loop ends, also under \<open>--no-reference\<close>, where nothing else ends it.\<close>

lemma exec_main_loop_returns:
  assumes "sa_max_cycles a = Some m" "ss_cycle s = 0"
  shows "\<exists>r. \<forall>fuel > unat m. main_loop fuel (exec_sim_ops T) a s out = Some r"
  using executor.main_loop_bounded [OF assms(1), of s "Suc (unat m)"] assms(2) by (simp add: Suc_le_eq)

text \<open>One round of the main loop of the executor's simulation.\<close>

lemma exec_main_round:
  assumes "ss_modules s = []" "sa_enable_reference a"
  obtains s' terminate where "main_round (exec_sim_ops T) a s = Inr (s', [], terminate)" "ss_modules s' = []"
    "ss_derived s' = snd (exec_step T (sa_stop_pc a) (ss_derived s))" "ss_cycle s' = ss_cycle s + 1"
    "terminate = (cx_terminated (ss_derived s') \<or>
       (case sa_max_cycles a of None \<Rightarrow> False | Some m \<Rightarrow> ss_cycle s + 1 \<ge> m))"
proof -
  let ?s = "s\<lparr>ss_derived := snd (exec_step T (sa_stop_pc a) (ss_derived s)), ss_cycle := ss_cycle s + 1\<rparr>"
  let ?bound = "case sa_max_cycles a of None \<Rightarrow> False | Some m \<Rightarrow> ss_cycle s + 1 \<ge> m"
  have "main_round (exec_sim_ops T) a s =
      (if \<not> cx_terminated (ss_derived ?s) \<and> ?bound then Inr (sim_request_terminate ?s, [], True)
       else Inr (?s, [], cx_terminated (ss_derived ?s)))"
    using assms by (cases "sa_max_cycles a") (simp_all add: main_round_def exec_sim_step Let_def)
  note round = this
  show ?thesis
  proof (cases "\<not> cx_terminated (ss_derived ?s) \<and> ?bound")
    case True
    with round assms(1) show ?thesis
      by (intro that [of "sim_request_terminate ?s" True]) (simp_all add: sim_request_terminate_def)
  next
    case False
    with round assms(1) show ?thesis
      by (intro that [of ?s "cx_terminated (ss_derived ?s)"]) (simp_all, blast)
  qed
qed

definition cycle_bound :: "sim_main_args \<Rightarrow> u64 \<Rightarrow> bool" where
  "cycle_bound a c = (case sa_max_cycles a of None \<Rightarrow> False | Some m \<Rightarrow> c \<ge> m)"

lemma step_counts: "exec_step T stop ctx = (True, ctx') \<Longrightarrow> cx_cycle ctx' = cx_cycle ctx + 1"
  by (drule exec_step_cases) auto

text \<open>The loops stay in step: fuel for one is fuel for the other, give or take one round.\<close>

lemma main_loop_in_step:
  assumes "sa_enable_reference a"
  shows "ss_modules s = [] \<Longrightarrow> ss_derived s = ctx \<Longrightarrow> ss_cycle s = cx_cycle ctx \<Longrightarrow> \<not> cx_terminated ctx \<Longrightarrow>
      \<not> cycle_bound a (cx_cycle ctx) \<Longrightarrow>
    (\<forall>ctx'. run_loop fuel T (sa_stop_pc a) (sa_max_cycles a) ctx = Some ctx' \<longrightarrow>
      (\<exists>s'. main_loop fuel (exec_sim_ops T) a s out = Some (Inr (s', out)) \<and> same_end (ss_derived s') ctx' \<and>
         ss_modules s' = [])) \<and>
    (\<forall>r. main_loop fuel (exec_sim_ops T) a s out = Some r \<longrightarrow>
      (\<exists>ctx'. run_loop (Suc fuel) T (sa_stop_pc a) (sa_max_cycles a) ctx = Some ctx' \<and>
        (\<exists>s'. r = Inr (s', out) \<and> same_end (ss_derived s') ctx' \<and> ss_modules s' = [])))"
proof (induction fuel arbitrary: s ctx)
  case 0
  then show ?case by simp
next
  case (Suc fuel)
  obtain go ctx1 where step: "exec_step T (sa_stop_pc a) ctx = (go, ctx1)" by fastforce
  from exec_main_round [OF Suc.prems(1) assms, of T] obtain s1 terminate where
    r: "main_round (exec_sim_ops T) a s = Inr (s1, [], terminate)" "ss_modules s1 = []" "ss_derived s1 = ctx1"
      "ss_cycle s1 = cx_cycle ctx + 1" "terminate = (cx_terminated ctx1 \<or> cycle_bound a (cx_cycle ctx + 1))"
    using Suc.prems(2,3) step unfolding cycle_bound_def by (metis snd_conv)
  have main: "main_loop (Suc fuel) (exec_sim_ops T) a s out =
      (if terminate then Some (Inr (s1, out)) else main_loop fuel (exec_sim_ops T) a s1 out)"
    using r(1) by simp
  have run: "run_loop (Suc f) T (sa_stop_pc a) (sa_max_cycles a) ctx =
      (if go then run_loop f T (sa_stop_pc a) (sa_max_cycles a) ctx1 else Some ctx1)" for f
    using Suc.prems(4,5) step by (simp add: cycle_bound_def)
  show ?case
  proof (cases go)
    case False
    then have "terminate" using r(5) step step_stops_terminated [of T "sa_stop_pc a" ctx ctx1] by simp
    with False r(2,3) show ?thesis unfolding main run by simp
  next
    case True
    have live: "\<not> cx_terminated ctx1" and cyc: "cx_cycle ctx1 = cx_cycle ctx + 1"
      using step True step_goes_live [of T _ ctx ctx1] step_counts [of T _ ctx ctx1] by auto
    show ?thesis
    proof (cases terminate)
      case stop: True
      then have "cycle_bound a (cx_cycle ctx1)" using r(5) live cyc by simp
      then have "run_loop (Suc f) T (sa_stop_pc a) (sa_max_cycles a) ctx1 =
          Some (request_terminate (cx_exit_code ctx1) ''max_cycles'' ctx1)" for f
        using live by (simp add: cycle_bound_def)
      moreover have "run_loop 0 T (sa_stop_pc a) (sa_max_cycles a) ctx1 = None" by simp
      ultimately have "run_loop f T (sa_stop_pc a) (sa_max_cycles a) ctx1 =
          (if f = 0 then None else Some (request_terminate (cx_exit_code ctx1) ''max_cycles'' ctx1))" for f
        by (cases f) simp_all
      with True stop r(2,3) show ?thesis unfolding main run by (simp del: run_loop.simps)
    next
      case False
      then have "\<not> cycle_bound a (cx_cycle ctx1)" using r(5) cyc by simp
      from Suc.IH [OF r(2,3) _ live this] r(4) cyc True False show ?thesis unfolding main run
        by (simp del: run_loop.simps)
    qed
  qed
qed

lemma ca_engine_end:
  assumes "sa_enable_reference a" "sa_max_cycles a \<noteq> Some 0"
  shows "(\<exists>fuel. run_ca_engine fuel T srt read_file w (runs_file a path) = Some r) =
    (\<exists>fuel. map_option (\<lambda>r. obind r (\<lambda>ctx. write_result_dump w a ctx [])) (reference_end fuel T read_file a path) = Some r)"
proof (cases "load_program_image read_file path (sa_raw_base_address a)")
  case (Inl e)
  then show ?thesis
    by (simp add: run_ca_engine_def run_sim_main_def prepare_main_def sim_load_program_file_def reference_end_def)
next
  case (Inr img)
  let ?a = "runs_file a path" and ?ops = "exec_sim_ops T" and ?ctx = "load_program img exec_context_default"
  let ?start = "exec_sim_new\<lparr>ss_logger := set_min_level (sa_log_level ?a) (ss_logger exec_sim_new),
    ss_program_image := Some img, ss_derived := ?ctx\<rparr>"
  let ?s = "?start\<lparr>ss_built := True, ss_cycle := 0, ss_terminate_requested := False\<rparr>"
  have en: "sa_enable_reference ?a" using assms(1) by (simp add: runs_file_def)
  have new: "ss_modules exec_sim_new = []" "\<not> ss_built exec_sim_new" "ss_derived exec_sim_new = exec_context_default"
    by (simp_all add: exec_sim_new_def sim_system_new_def)
  have live: "\<not> cx_terminated ?ctx" "cx_cycle ?ctx = 0" by (simp_all add: load_program_def exec_context_default_def)
  have bound: "\<not> cycle_bound ?a 0" using assms(2)
    by (cases "sa_max_cycles a") (auto simp: cycle_bound_def)
  have prep: "prepare_main ?ops T srt read_file ?a exec_sim_new = Inr (?start, [])"
    using Inr new by (simp add: prepare_main_def sim_load_program_file_def exec_sim_load)
  have "obind (sim_build ?ops ?start) (sim_reset ?ops) = Inr ?s"
    using exec_sim_start [of ?start T] new by (simp add: reset_loaded exec_sim_new_def sim_system_new_def)
  with prep have run: "run_sim_main fuel ?ops T srt read_file ?a exec_sim_new =
      (case main_loop fuel ?ops ?a ?s [] of
         None \<Rightarrow> None
       | Some (Inl e) \<Rightarrow> Some (Inl e)
       | Some (Inr (s, out)) \<Rightarrow>
           if sa_enable_report ?a then Some (obind (sim_report ?ops s) (\<lambda>s. Inr (s, out))) else Some (Inr (s, out)))" for fuel
    using live by (simp add: run_sim_main_def)
  have step: "(\<forall>ctx'. run_loop fuel T (sa_stop_pc a) (sa_max_cycles a) ?ctx = Some ctx' \<longrightarrow>
      (\<exists>s'. main_loop fuel ?ops ?a ?s [] = Some (Inr (s', [])) \<and> same_end (ss_derived s') ctx' \<and> ss_modules s' = [])) \<and>
    (\<forall>r. main_loop fuel ?ops ?a ?s [] = Some r \<longrightarrow>
      (\<exists>ctx'. run_loop (Suc fuel) T (sa_stop_pc a) (sa_max_cycles a) ?ctx = Some ctx' \<and>
        (\<exists>s'. r = Inr (s', []) \<and> same_end (ss_derived s') ctx' \<and> ss_modules s' = [])))" for fuel
    using main_loop_in_step [OF en, of ?s ?ctx fuel T "[]"] live bound new by simp
  have dump: "run_ca_engine fuel T srt read_file w ?a = Some (write_result_dump w a ctx' [])"
    if "main_loop fuel ?ops ?a ?s [] = Some (Inr (s', []))" "same_end (ss_derived s') ctx'" "ss_modules s' = []"
    for fuel s' ctx'
    using that same_end_dump [of "ss_derived s'" ctx' w a] exec_sim_report [of s' T]
    by (simp add: run_ca_engine_def run)
  have ref: "map_option (\<lambda>r. obind r (\<lambda>ctx. write_result_dump w a ctx [])) (reference_end fuel T read_file a path) =
      map_option (\<lambda>ctx. write_result_dump w a ctx []) (run_loop fuel T (sa_stop_pc a) (sa_max_cycles a) ?ctx)" for fuel
    using Inr by (simp add: reference_end_def option.map_comp comp_def)
  show ?thesis
  proof (intro iffI; elim exE)
    fix fuel assume ca: "run_ca_engine fuel T srt read_file w ?a = Some r"
    then obtain x where x: "main_loop fuel ?ops ?a ?s [] = Some x"
      by (cases "main_loop fuel ?ops ?a ?s []") (auto simp: run_ca_engine_def run simp del: main_loop.simps)
    with step [of fuel] obtain ctx' s' where s': "x = Inr (s', [])" "same_end (ss_derived s') ctx'" "ss_modules s' = []"
      "run_loop (Suc fuel) T (sa_stop_pc a) (sa_max_cycles a) ?ctx = Some ctx'" by blast
    have "r = write_result_dump w a ctx' []" using dump [OF x [unfolded s'(1)] s'(2,3)] ca by simp
    with s'(4) show "\<exists>fuel. map_option (\<lambda>r. obind r (\<lambda>ctx. write_result_dump w a ctx []))
        (reference_end fuel T read_file a path) = Some r"
      unfolding ref by (intro exI [of _ "Suc fuel"]) (simp del: run_loop.simps)
  next
    fix fuel assume "map_option (\<lambda>r. obind r (\<lambda>ctx. write_result_dump w a ctx []))
        (reference_end fuel T read_file a path) = Some r"
    then obtain ctx' where "run_loop fuel T (sa_stop_pc a) (sa_max_cycles a) ?ctx = Some ctx'"
      "r = write_result_dump w a ctx' []" unfolding ref by auto
    with step [of fuel] dump show "\<exists>fuel. run_ca_engine fuel T srt read_file w ?a = Some r" by blast
  qed
qed

text \<open>C13: the cycle-accurate engine refines the reference engine, exit codes aside, on options that ask for no
  disassembly, keep the reference model enabled and give no cycle bound of 0.  It returns exactly when
  the reference engine does, and returns the result file or error of the context in which the reference
  engine stops, whatever the exit code of that context is; the reference engine returns that code when it
  is not 0, and writes no result file then.\<close>
theorem ca_engine_refines_reference:
  assumes "sa_enable_reference a" "sa_max_cycles a \<noteq> Some 0"
  shows "((\<exists>fuel. run_ca_engine fuel T srt read_file w (runs_file a path) = Some r) =
      (\<exists>fuel. map_option (\<lambda>r. obind r (\<lambda>ctx. write_result_dump w a ctx [])) (reference_end fuel T read_file a path) = Some r)) \<and>
    run_reference_engine fuel T srt read_file w (runs_file a path) =
      map_option (\<lambda>r. obind r (\<lambda>ctx. if cx_exit_code ctx = 0 then write_result_dump w a ctx []
         else Inr (stop_code (cx_exit_code ctx) []))) (reference_end fuel T read_file a path)"
  using ca_engine_end [OF assms] by (simp add: reference_engine_end finish_engine_def)

text \<open>A two-byte result read off the memory.\<close>

lemma read_two_bytes:
  assumes "cx_memory ctx 0x1000 = Some x" "cx_memory ctx 0x1001 = Some y"
  shows "read_memory_range ctx 0x1000 2 = Some [x, y]"
proof -
  have "read_bytes ctx 0x1000 0 (Suc (Suc 0)) [] = Some [x, y]" using assms by (simp add: read8_def)
  moreover have "unat (- 1 - 0x1000 :: u64) = 18446744073709547519" by simp
  ultimately show ?thesis by (simp only: read_memory_range_def numeral_2_eq_2) simp
qed

text \<open>Three instructions as a raw binary for at most four cycles; the result is their first two bytes.\<close>

definition result_args :: sim_main_args where
  "result_args = sim_main_args_default\<lparr>sa_raw_base_address := 0x1000, sa_max_cycles := Some 4,
     sa_result_dump_path := Some ''r.bin'', sa_result_address := Some 0x1000, sa_result_size := Some 2\<rparr>"

theorem ca_engine_refines_reference_witness:
  "\<exists>fuel. run_ca_engine fuel excerpt_tables id (\<lambda>_. Inr [0x16, 0x11, 0x02, 0, 0, 0]) (\<lambda>_ _. True)
       (runs_file result_args ''p.bin'') =
     Some (Inr \<lparr>er_code = 0, er_out = [], er_err = [], er_file = Some (''r.bin'', [0x16, 0x11])\<rparr>)"
proof -
  let ?read = "\<lambda>_ :: string. Inr [0x16, 0x11, 0x02, 0, 0, 0] :: u8 list outcome"
  have opts: "sa_enable_reference result_args" "sa_max_cycles result_args \<noteq> Some 0"
    by (simp_all add: result_args_def sim_main_args_default_def)
  have result: "sa_result_dump_path result_args = Some ''r.bin''" "sa_result_address result_args = Some 0x1000"
    "sa_result_size result_args = Some 2" by (simp_all add: result_args_def)
  have "map_option (\<lambda>r. obind r (\<lambda>ctx. Inr (cx_memory ctx 0x1000, cx_memory ctx 0x1001)))
      (reference_end 6 excerpt_tables ?read result_args ''p.bin'') = Some (Inr (Some 0x16, Some 0x11))" by code_simp
  then obtain ctx where ref: "reference_end 6 excerpt_tables ?read result_args ''p.bin'' = Some (Inr ctx)"
    and mem: "cx_memory ctx 0x1000 = Some 0x16" "cx_memory ctx 0x1001 = Some 0x11" by (auto simp: outcome_simps)
  from ref have "map_option (\<lambda>r. obind r (\<lambda>ctx. write_result_dump (\<lambda>_ _. True) result_args ctx []))
      (reference_end 6 excerpt_tables ?read result_args ''p.bin'') =
      Some (Inr \<lparr>er_code = 0, er_out = [], er_err = [], er_file = Some (''r.bin'', [0x16, 0x11])\<rparr>)"
    by (simp add: write_result_dump_def result read_two_bytes [OF mem])
  with ca_engine_refines_reference [OF opts, THEN conjunct1] show ?thesis by blast
qed

text \<open>The exit code of a failed run is lost: for a file of one zero byte, which cannot be fetched, the reference
  engine and the compare engine return 1 and the cycle-accurate engine 0.\<close>
lemma ca_engine_drops_exit_code:
  "map_option (\<lambda>r. obind r (\<lambda>x. Inr (er_code x)))
     (run_reference_engine 3 excerpt_tables id (\<lambda>_. Inr [0]) (\<lambda>_ _. True) (runs_file sim_main_args_default ''a'')) = Some (Inr 1) \<and>
   map_option (\<lambda>r. obind r (\<lambda>x. Inr (er_code x)))
     (run_compare_engine 3 excerpt_tables id (\<lambda>_. Inr [0]) (\<lambda>_ _. True) (runs_file sim_main_args_default ''a'')) = Some (Inr 1) \<and>
   map_option (\<lambda>r. obind r (\<lambda>x. Inr (er_code x)))
     (run_ca_engine 3 excerpt_tables id (\<lambda>_. Inr [0]) (\<lambda>_ _. True) (runs_file sim_main_args_default ''a'')) = Some (Inr 0)"
  by (intro conjI; code_simp)

text \<open>\<open>--disasm\<close> without a program is undefined behaviour in the reference engine: it dereferences the empty
  path, after a parser that accepts these options.\<close>
lemma disasm_without_bin_undefined:
  "parse_sim_main_args ''sim'' [''--disasm''] = Parsed (sim_main_args_default\<lparr>sa_enable_disassembly := True\<rparr>)"
  "model_main fuel T srt read_file w ''sim'' [''--disasm''] = Some (Inl Undefined_Behaviour)"
proof -
  show parsed: "parse_sim_main_args ''sim'' [''--disasm''] = Parsed (sim_main_args_default\<lparr>sa_enable_disassembly := True\<rparr>)"
    by (simp add: parse_sim_main_args_def parse_option_def check_result_options_def result_option_count_def
        sim_main_args_default_def)
  show "model_main fuel T srt read_file w ''sim'' [''--disasm''] = Some (Inl Undefined_Behaviour)"
    unfolding model_main_def parsed
    by (simp add: sim_main_args_default_def run_reference_engine_def prepare_reference_def)
qed

end
