(* ===== verification/Traced_Engines.thy ===== *)
theory Traced_Engines
  imports Trace_Files Engine_Claims
begin

text \<open>
  The engines of \<^verbatim>\<open>src/linx_model_cli.cpp\<close> with \<^verbatim>\<open>--emit-minst-trace\<close>: the reference engine with its trace, the compare
  engine with the traces of both sides and the files of a mismatch, and the result file (\<^verbatim>\<open>WriteResultDump\<close>) that
  every engine may write when it is done.  The results are those of \<^verbatim>\<open>Engines\<close>, and the two sides of the
  compare engine leave the same traces.
\<close>

section \<open>The engines\<close>

text \<open>The file system as the engines see it.  \<open>fe_failed_write\<close> is what a file holds after a write of the result
  that did not succeed, given its path, the bytes and what it held before.\<close>

record file_env =
  fe_make_dirs :: "string \<Rightarrow> unit outcome"
  fe_can_open :: "string \<Rightarrow> bool"
  fe_temp_dir :: "string outcome"
  fe_failed_write :: "string \<Rightarrow> u8 list \<Rightarrow> string option \<Rightarrow> string option"

definition untraced :: "files \<Rightarrow> trace_state" where
  "untraced fs = \<lparr>ts_files = fs, ts_json = None, ts_dump = None\<rparr>"

text \<open>The files after \<^verbatim>\<open>WriteResultDump\<close>, which an engine calls when its exit code is 0.  The trace streams are
  still open then but were flushed after every record, and nothing more is written to them.\<close>

definition result_files :: "file_env \<Rightarrow> (string \<Rightarrow> u8 list \<Rightarrow> bool) \<Rightarrow> sim_main_args \<Rightarrow> int \<Rightarrow> exec_context \<Rightarrow>
    files \<Rightarrow> files" where
  "result_files env write_file a code ctx fs =
     (case (sa_result_dump_path a, sa_result_address a, sa_result_size a) of
        (Some path, Some addr, Some n) \<Rightarrow>
          (case (if code = 0 then read_memory_range ctx addr (unat n) else None) of
             None \<Rightarrow> fs
           | Some bytes \<Rightarrow>
               fs(path := if write_file path bytes then Some (map (\<lambda>b. char_of (unat b)) bytes)
                          else fe_failed_write env path bytes (fs path)))
      | _ \<Rightarrow> fs)"

definition traced_reference_engine :: "nat \<Rightarrow> codec_tables \<Rightarrow> (asm_replacement list \<Rightarrow> asm_replacement list) \<Rightarrow>
    file_env \<Rightarrow> (string \<Rightarrow> u8 list outcome) \<Rightarrow> (string \<Rightarrow> u8 list \<Rightarrow> bool) \<Rightarrow> sim_main_args \<Rightarrow> files \<Rightarrow>
    (engine_result \<times> files) outcome option" where
  "traced_reference_engine fuel T srt env read_file write_file a fs =
     (case prepare_reference T srt read_file a of
        Inl e \<Rightarrow> Some (Inl e)
      | Inr (ctx, out) \<Rightarrow>
          if sa_disassembly_only a then Some (Inr (stop_code 0 out, fs))
          else (case (case sa_emit_trace_path a of
                   None \<Rightarrow> Inr (untraced fs)
                 | Some path \<Rightarrow> set_trace_path (fe_make_dirs env) (fe_can_open env) path (untraced fs)) of
               Inl e \<Rightarrow> Some (Inl e)
             | Inr ts \<Rightarrow>
                 map_option (\<lambda>r. obind r (\<lambda>(ctx, ts).
                     obind (finish_engine write_file a (cx_exit_code ctx) ctx out) (\<lambda>res.
                       Inr (res, result_files env write_file a (cx_exit_code ctx) ctx (ts_files ts)))))
                   (traced_run fuel T srt (sa_stop_pc a) (sa_max_cycles a) ctx ts)))"

text \<open>Two contexts write to one file system: the streams of one take over the files that the other left.\<close>

definition share :: "trace_state \<Rightarrow> trace_state \<Rightarrow> trace_state" where
  "share ts ts' = ts'\<lparr>ts_files := ts_files ts\<rparr>"

fun traced_compare_loop :: "nat \<Rightarrow> codec_tables \<Rightarrow> (asm_replacement list \<Rightarrow> asm_replacement list) \<Rightarrow> file_env \<Rightarrow>
    sim_main_args \<Rightarrow> exec_context \<Rightarrow> trace_state \<Rightarrow> exec_sim \<Rightarrow> trace_state \<Rightarrow> compare_harness \<Rightarrow>
    (compare_end \<times> files) outcome option" where
  "traced_compare_loop 0 T srt env a ref_ctx rts ca cts h = None"
| "traced_compare_loop (Suc fuel) T srt env a ref_ctx rts ca cts h =
     (if cx_terminated ref_ctx \<or> so_need_terminate (exec_sim_ops T) ca
      then Some (Inr (Compared ref_ctx ca, ts_files cts))
      else if (case sa_max_cycles a of None \<Rightarrow> False | Some m \<Rightarrow> cx_cycle ref_ctx \<ge> m)
      then Some (Inr (Compared ref_ctx ca, ts_files cts))
      else
        let ref_ctx' = snd (exec_step T (sa_stop_pc a) ref_ctx)
        in (case obind (trace_new T srt ref_ctx ref_ctx' rts) (\<lambda>rts.
                 obind (so_run_reference (exec_sim_ops T) (sa_stop_pc a) ca) (\<lambda>ca'.
                 obind (trace_new T srt (ss_derived ca) (ss_derived ca') (share rts cts)) (\<lambda>cts.
                 obind (sim_step (exec_sim_ops T) ca') (\<lambda>ca'. Inr (share cts rts, ca', cts))))) of
              Inl e \<Rightarrow> Some (Inl e)
            | Inr (rts, ca, cts) \<Rightarrow>
                (case (cx_last_committed ref_ctx', cx_last_committed (ss_derived ca)) of
                   (Some r, Some c) \<Rightarrow>
                     (case harness_push T srt r c (cx_state ref_ctx') (cx_state (ss_derived ca)) h of
                        Inl e \<Rightarrow> Some (Inl e)
                      | Inr (ok, h) \<Rightarrow>
                          if ok then traced_compare_loop fuel T srt env a ref_ctx' rts ca cts h
                          else (case ch_mismatch h of
                              None \<Rightarrow> Some (Inl Undefined_Behaviour)
                            | Some m \<Rightarrow> Some (obind
                                (write_mismatch_dump T srt (fe_make_dirs env) (fe_can_open env) (fe_temp_dir env) a m (ts_files cts))
                                (\<lambda>fs. Inr (Mismatched (cm_reason m), fs)))))
                 | _ \<Rightarrow> Some (Inr (Compared ref_ctx' ca, ts_files cts)))))"

definition set_compare_traces :: "file_env \<Rightarrow> sim_main_args \<Rightarrow> files \<Rightarrow> (trace_state \<times> trace_state) outcome" where
  "set_compare_traces env a fs =
     (case sa_emit_trace_path a of
        None \<Rightarrow> Inr (untraced fs, untraced fs)
      | Some path \<Rightarrow>
          (case compare_trace_paths path of (r, c) \<Rightarrow>
             obind (set_trace_path (fe_make_dirs env) (fe_can_open env) r (untraced fs)) (\<lambda>rts.
             obind (set_trace_path (fe_make_dirs env) (fe_can_open env) c (untraced (ts_files rts))) (\<lambda>cts.
               Inr (share cts rts, cts)))))"

definition compare_files :: "file_env \<Rightarrow> (string \<Rightarrow> u8 list \<Rightarrow> bool) \<Rightarrow> sim_main_args \<Rightarrow> compare_end \<Rightarrow>
    files \<Rightarrow> files" where
  "compare_files env write_file a e fs =
     (case e of
        Mismatched reason \<Rightarrow> fs
      | Compared ref_ctx ca \<Rightarrow>
          if length (cx_committed ref_ctx) \<noteq> length (cx_committed (ss_derived ca)) then fs
          else result_files env write_file a (max (cx_exit_code ref_ctx) (cx_exit_code (ss_derived ca)))
            (ss_derived ca) fs)"

definition traced_compare_engine :: "nat \<Rightarrow> codec_tables \<Rightarrow> (asm_replacement list \<Rightarrow> asm_replacement list) \<Rightarrow>
    file_env \<Rightarrow> (string \<Rightarrow> u8 list outcome) \<Rightarrow> (string \<Rightarrow> u8 list \<Rightarrow> bool) \<Rightarrow> sim_main_args \<Rightarrow> files \<Rightarrow>
    (engine_result \<times> files) outcome option" where
  "traced_compare_engine fuel T srt env read_file write_file a fs =
     (case sa_program_path a of
        None \<Rightarrow> Some (Inr (stop_error 1 [] ''compare engine requires --bin'', fs))
      | Some path \<Rightarrow>
          (case obind (load_program_image read_file path (sa_raw_base_address a)) (\<lambda>img.
                obind (set_compare_traces env a fs) (\<lambda>(rts, cts).
                obind (prepare_compare T img) (\<lambda>ca. Inr (img, rts, ca, cts)))) of
             Inl e \<Rightarrow> Some (Inl e)
           | Inr (img, rts, ca, cts) \<Rightarrow>
               map_option (\<lambda>r. obind r (\<lambda>(e, fs). obind (compare_finish write_file a e) (\<lambda>res.
                   Inr (res, compare_files env write_file a e fs))))
                 (traced_compare_loop fuel T srt env a (load_program img exec_context_default) rts ca cts
                   (harness_new (unat (sa_compare_window a))))))"

section \<open>Both sides leave the same trace\<close>

text \<open>Both pairs of streams stand at the end of the same texts.\<close>

definition tracing_both :: "string \<Rightarrow> string \<Rightarrow> files \<Rightarrow> string \<Rightarrow> string \<Rightarrow> trace_state \<Rightarrow> trace_state \<Rightarrow> bool" where
  "tracing_both r c fs j d rts cts \<longleftrightarrow> distinct [r, dump_path r, c, dump_path c] \<and>
     tracing r (fs(c \<mapsto> j, dump_path c \<mapsto> d)) j d rts \<and> tracing c (fs(r \<mapsto> j, dump_path r \<mapsto> d)) j d cts"

text \<open>One side writes, then the other.\<close>

lemma tracing_share:
  assumes "distinct [r, dump_path r, c, dump_path c]" "tracing r (fs(c \<mapsto> j, dump_path c \<mapsto> d)) j' d' rts"
    "tracing c fs' j d cts"
  shows "tracing c (fs(r \<mapsto> j', dump_path r \<mapsto> d')) j d (share rts cts)"
  using assms by (auto simp: tracing_def share_def fun_upd_twist fun_eq_iff)

lemma traced_sides:
  assumes "exec_inv c0 e ctx" "exec_step T stop ctx = (go, ctx1)" "tracing_both r c fs j d rts cts"
    "trace_text (write_minst_record_json T srt) (cx_committed ctx) = Inr j"
    "trace_text (write_minst_record_dump T srt) (cx_committed ctx) = Inr d"
  obtains j1 d1 rts1 cts1 where "trace_new T srt ctx ctx1 rts = Inr rts1"
    "trace_new T srt ctx ctx1 (share rts1 cts) = Inr cts1" "tracing_both r c fs j1 d1 (share cts1 rts1) cts1"
    "trace_text (write_minst_record_json T srt) (cx_committed ctx1) = Inr j1"
    "trace_text (write_minst_record_dump T srt) (cx_committed ctx1) = Inr d1"
proof -
  from assms(3) have apart: "distinct [r, dump_path r, c, dump_path c]"
    and sides: "tracing r (fs(c \<mapsto> j, dump_path c \<mapsto> d)) j d rts" "tracing c (fs(r \<mapsto> j, dump_path r \<mapsto> d)) j d cts"
    by (simp_all add: tracing_both_def)
  from step_writes [OF assms(1,2) sides(1) assms(4,5)] obtain t u rts1 where
    ref: "trace_new T srt ctx ctx1 rts = Inr rts1" "tracing r (fs(c \<mapsto> j, dump_path c \<mapsto> d)) (j @ t) (d @ u) rts1"
      "trace_text (write_minst_record_json T srt) (cx_committed ctx1) = Inr (j @ t)"
      "trace_text (write_minst_record_dump T srt) (cx_committed ctx1) = Inr (d @ u)" by blast
  have shared: "tracing c (fs(r \<mapsto> j @ t, dump_path r \<mapsto> d @ u)) j d (share rts1 cts)"
    using tracing_share [OF apart ref(2) sides(2)] .
  from step_writes [OF assms(1,2) shared assms(4,5)] ref(3,4) obtain cts1 where
    ca: "trace_new T srt ctx ctx1 (share rts1 cts) = Inr cts1"
      "tracing c (fs(r \<mapsto> j @ t, dump_path r \<mapsto> d @ u)) (j @ t) (d @ u) cts1" by auto
  have "distinct [c, dump_path c, r, dump_path r]" using apart by auto
  from tracing_share [OF this ca(2) ref(2)]
  have "tracing r (fs(c \<mapsto> j @ t, dump_path c \<mapsto> d @ u)) (j @ t) (d @ u) (share cts1 rts1)" .
  with that [OF ref(1) ca(1) _ ref(3,4)] apart ca(2) show ?thesis by (simp add: tracing_both_def)
qed

text \<open>One round of the traced loop when both sides hold the same context.\<close>

lemma traced_round:
  assumes "exec_inv c0 e ctx" "tracing_both r c fs j d rts cts"
    "trace_text (write_minst_record_json T srt) (cx_committed ctx) = Inr j"
    "trace_text (write_minst_record_dump T srt) (cx_committed ctx) = Inr d"
    "ch_mismatch h = None" "ss_modules ca = []" "ss_derived ca = ctx" "\<not> cx_terminated ctx"
    "\<not> (case sa_max_cycles a of None \<Rightarrow> False | Some m \<Rightarrow> cx_cycle ctx \<ge> m)"
    "exec_step T (sa_stop_pc a) ctx = (go, ctx1)"
  obtains h1 ca1 rts1 cts1 j1 d1 where "ch_mismatch h1 = None" "ss_modules ca1 = []" "ss_derived ca1 = ctx1"
    "tracing_both r c fs j1 d1 rts1 cts1"
    "trace_text (write_minst_record_json T srt) (cx_committed ctx1) = Inr j1"
    "trace_text (write_minst_record_dump T srt) (cx_committed ctx1) = Inr d1"
    "traced_compare_loop (Suc fuel) T srt env a ctx rts ca cts h =
       (if cx_last_committed ctx1 = None then Some (Inr (Compared ctx1 ca1, ts_files cts1))
        else traced_compare_loop fuel T srt env a ctx1 rts1 ca1 cts1 h1)"
proof -
  obtain j1 d1 rts1 cts1 where
    w: "trace_new T srt ctx ctx1 rts = Inr rts1" "trace_new T srt ctx ctx1 (share rts1 cts) = Inr cts1"
      "tracing_both r c fs j1 d1 (share cts1 rts1) cts1"
      "trace_text (write_minst_record_json T srt) (cx_committed ctx1) = Inr j1"
      "trace_text (write_minst_record_dump T srt) (cx_committed ctx1) = Inr d1"
    by (rule traced_sides [OF assms(1,10,2,3,4)])
  let ?ca = "ca\<lparr>ss_derived := ctx1, ss_cycle := ss_cycle ca + 1\<rparr>"
  have go: "obind (trace_new T srt ctx ctx1 rts) (\<lambda>rts.
      obind (so_run_reference (exec_sim_ops T) (sa_stop_pc a) ca) (\<lambda>ca'.
      obind (trace_new T srt (ss_derived ca) (ss_derived ca') (share rts cts)) (\<lambda>cts.
      obind (sim_step (exec_sim_ops T) ca') (\<lambda>ca'. Inr (share cts rts, ca', cts))))) = Inr (share cts1 rts1, ?ca, cts1)"
    using w(1,2) assms(6,7,10) by (simp add: exec_sim_step)
  obtain h1 where h1: "ch_mismatch h1 = None"
    "harness_push T srt (the (cx_last_committed ctx1)) (the (cx_last_committed ctx1)) (cx_state ctx1) (cx_state ctx1) h
       = Inr (True, h1)"
    using harness_accepts_equal [OF assms(5)] by blast
  have "traced_compare_loop (Suc fuel) T srt env a ctx rts ca cts h =
       (if cx_last_committed ctx1 = None then Some (Inr (Compared ctx1 ?ca, ts_files cts1))
        else traced_compare_loop fuel T srt env a ctx1 (share cts1 rts1) ?ca cts1 h1)"
    using assms(7-10) go h1(2) by (cases "cx_last_committed ctx1") (simp_all add: Let_def)
  then show ?thesis using that [of h1 ?ca j1 d1 "share cts1 rts1" cts1] h1(1) w(3-5) assms(6) by simp
qed

lemma tracing_both_files: "tracing_both r c fs j d rts cts \<Longrightarrow>
    ts_files cts = fs(r \<mapsto> j, dump_path r \<mapsto> d, c \<mapsto> j, dump_path c \<mapsto> d)"
  by (simp add: tracing_both_def tracing_def)

definition traced_as :: "codec_tables \<Rightarrow> (asm_replacement list \<Rightarrow> asm_replacement list) \<Rightarrow> string \<Rightarrow> string \<Rightarrow> files \<Rightarrow>
    exec_context \<Rightarrow> (compare_end \<times> files) outcome option \<Rightarrow> bool" where
  "traced_as T srt r c fs ctx res \<longleftrightarrow> (\<exists>e j d. compared_as ctx (Inr e) \<and>
     trace_text (write_minst_record_json T srt) (cx_committed ctx) = Inr j \<and>
     trace_text (write_minst_record_dump T srt) (cx_committed ctx) = Inr d \<and>
     res = Some (Inr (e, fs(r \<mapsto> j, dump_path r \<mapsto> d, c \<mapsto> j, dump_path c \<mapsto> d))))"

lemma traced_as_end:
  assumes "tracing_both r c fs j d rts cts" "trace_text (write_minst_record_json T srt) (cx_committed ctx) = Inr j"
    "trace_text (write_minst_record_dump T srt) (cx_committed ctx) = Inr d" "ss_derived ca = ctx" "same_end ctx ctx'"
  shows "traced_as T srt r c fs ctx' (Some (Inr (Compared ctx ca, ts_files cts)))"
  using assms(2-5) unfolding traced_as_def tracing_both_files [OF assms(1)]
  by (intro exI [of _ "Compared ctx ca"] exI [of _ j] exI [of _ d]) (simp add: same_end_def)

lemma traced_compare_follows:
  "run_loop fuel T (sa_stop_pc a) (sa_max_cycles a) ctx = Some ctx' \<Longrightarrow>
   ch_mismatch h = None \<Longrightarrow> ss_modules ca = [] \<Longrightarrow> ss_derived ca = ctx \<Longrightarrow>
   exec_inv c0 e ctx \<Longrightarrow> tracing_both r c fs j d rts cts \<Longrightarrow>
   trace_text (write_minst_record_json T srt) (cx_committed ctx) = Inr j \<Longrightarrow>
   trace_text (write_minst_record_dump T srt) (cx_committed ctx) = Inr d \<Longrightarrow>
   traced_as T srt r c fs ctx' (traced_compare_loop (Suc fuel) T srt env a ctx rts ca cts h)"
proof (induction fuel arbitrary: ctx ca h rts cts j d)
  case 0
  then show ?case by simp
next
  case (Suc fuel)
  let ?bound = "case sa_max_cycles a of None \<Rightarrow> False | Some m \<Rightarrow> cx_cycle ctx \<ge> m"
  show ?case
  proof (cases "cx_terminated ctx \<or> ?bound")
    case True
    then have "traced_compare_loop (Suc (Suc fuel)) T srt env a ctx rts ca cts h = Some (Inr (Compared ctx ca, ts_files cts))"
      "same_end ctx ctx'" using Suc.prems(1,4) by (auto split: if_split_asm)
    then show ?thesis using traced_as_end [OF Suc.prems(6-8,4)] by (simp only:)
  next
    case False
    obtain go ctx1 where step: "exec_step T (sa_stop_pc a) ctx = (go, ctx1)" by fastforce
    from False have live: "\<not> cx_terminated ctx" "\<not> ?bound" by simp_all
    obtain h1 ca1 rts1 cts1 j1 d1 where r1: "ch_mismatch h1 = None" "ss_modules ca1 = []" "ss_derived ca1 = ctx1"
      and w1: "tracing_both r c fs j1 d1 rts1 cts1"
        "trace_text (write_minst_record_json T srt) (cx_committed ctx1) = Inr j1"
        "trace_text (write_minst_record_dump T srt) (cx_committed ctx1) = Inr d1"
      and loop: "traced_compare_loop (Suc (Suc fuel)) T srt env a ctx rts ca cts h =
       (if cx_last_committed ctx1 = None then Some (Inr (Compared ctx1 ca1, ts_files cts1))
        else traced_compare_loop (Suc fuel) T srt env a ctx1 rts1 ca1 cts1 h1)"
      by (rule traced_round [OF Suc.prems(5-8,2-4) live step])
    note ends = traced_as_end [OF w1 r1(3)]
    show ?thesis
    proof (cases go)
      case True
      have "run_loop fuel T (sa_stop_pc a) (sa_max_cycles a) ctx1 = Some ctx'"
        using Suc.prems(1) False step True by simp
      from Suc.IH [OF this r1 exec_inv_step [OF Suc.prems(5) step] w1] step_commits_last [of T "sa_stop_pc a" ctx ctx1]
        step True show ?thesis unfolding loop by (auto simp del: traced_compare_loop.simps)
    next
      case no: False
      then have "ctx' = ctx1" "cx_terminated ctx1"
        using Suc.prems(1) False step step_stops_terminated [of T "sa_stop_pc a" ctx ctx1] by simp_all
      moreover from this(2) have "traced_compare_loop (Suc fuel) T srt env a ctx1 rts1 ca1 cts1 h1 =
          Some (Inr (Compared ctx1 ca1, ts_files cts1))" by simp
      ultimately show ?thesis unfolding loop using ends [of ctx1] by (simp del: traced_compare_loop.simps)
    qed
  qed
qed

lemma set_compare_traces_both:
  assumes "sa_emit_trace_path a = Some path" "set_compare_traces env a fs = Inr (rts, cts)"
  shows "case compare_trace_paths path of (r, c) \<Rightarrow> tracing_both r c fs [] [] rts cts"
proof -
  obtain r c where rc: "compare_trace_paths path = (r, c)" by fastforce
  have apart: "distinct [r, dump_path r, c, dump_path c]" using compare_traces_apart [of path] rc by simp
  have "path_append p f \<noteq> []" if "f \<noteq> []" for p f using that by (simp add: path_append_def)
  then have names: "r \<noteq> []" "c \<noteq> []" using rc by (auto simp: compare_trace_paths_def)
  have ext: "extension r \<noteq> ''.dump''" "extension c \<noteq> ''.dump''"
    using apart dump_path_same [of r] dump_path_same [of c] by auto
  from assms rc obtain rts1 where set: "set_trace_path (fe_make_dirs env) (fe_can_open env) r (untraced fs) = Inr rts1"
    "set_trace_path (fe_make_dirs env) (fe_can_open env) c (untraced (ts_files rts1)) = Inr cts" "rts = share cts rts1"
    by (auto simp: set_compare_traces_def outcome_simps)
  have r: "tracing r fs [] [] rts1" using tracing_open [OF set(1) names(1) ext(1)] by (simp add: untraced_def)
  then have files: "ts_files rts1 = fs(r \<mapsto> [], dump_path r \<mapsto> [])" by (simp add: tracing_def)
  have c: "tracing c (fs(r \<mapsto> [], dump_path r \<mapsto> [])) [] [] cts"
    using tracing_open [OF set(2) names(2) ext(2)] by (simp add: untraced_def files)
  have "distinct [c, dump_path c, r, dump_path r]" using apart by auto
  from tracing_share [OF this c r] apart c set(3) rc show ?thesis by (simp add: tracing_both_def)
qed

lemma compared_as_finish: "compared_as ctx (Inr e) \<Longrightarrow>
    compare_finish w a e = finish_engine w a (cx_exit_code ctx) ctx []"
  using compared_finish [of ctx "Inr e" w a] by simp

lemma compared_as_files: "compared_as ctx (Inr e) \<Longrightarrow>
    compare_files env w a e fs = result_files env w a (cx_exit_code ctx) ctx fs"
  by (auto simp: compared_as_def compare_files_def result_files_def same_end_range dest: same_end_range
      [THEN fun_cong, THEN fun_cong] split: option.split)
    (auto simp: same_end_def)

text \<open>C16: the compare engine leaves the same trace for both sides.  A program file runs to its end on the reference
  executor and the four trace files can be opened.  Then the traced compare engine returns the result of
  the compare engine; when the comparison is over, \<^verbatim>\<open>ref.jsonl\<close> and \<^verbatim>\<open>ca.jsonl\<close> in the directory of the given
  path both hold exactly the JSON lines of the reference run's records and \<^verbatim>\<open>ref.dump\<close> and \<^verbatim>\<open>ca.dump\<close> both
  exactly their dump lines.  After that only the result file is touched, when one is asked for, the exit
  code is 0 and the memory range is mapped (\<open>result_files\<close>): it holds the bytes of the range if it can be
  written, also when its path is that of a trace file.  No other file changes.\<close>
theorem compare_traces_agree:
  assumes "load_program_image read_file file (sa_raw_base_address a) = Inr img" "sa_program_path a = Some file"
    "sa_emit_trace_path a = Some path" "set_compare_traces env a fs = Inr (rts, cts)"
    "run_loop fuel T (sa_stop_pc a) (sa_max_cycles a) (load_program img exec_context_default) = Some ctx"
  shows "\<exists>j d. trace_text (write_minst_record_json T srt) (cx_committed ctx) = Inr j \<and>
    trace_text (write_minst_record_dump T srt) (cx_committed ctx) = Inr d \<and>
    (case compare_trace_paths path of (r, c) \<Rightarrow>
      traced_compare_engine (Suc fuel) T srt env read_file w a fs =
        map_option (\<lambda>x. obind x (\<lambda>res. Inr (res, result_files env w a (cx_exit_code ctx) ctx
            (fs(r \<mapsto> j, dump_path r \<mapsto> d, c \<mapsto> j, dump_path c \<mapsto> d)))))
          (run_compare_engine (Suc fuel) T srt read_file w a))"
proof -
  obtain r c where rc: "compare_trace_paths path = (r, c)" by fastforce
  obtain ca where ca: "prepare_compare T img = Inr ca" "ss_modules ca = []"
    "ss_derived ca = load_program img exec_context_default" by (rule prepare_compare_start)
  let ?h = "harness_new (unat (sa_compare_window a))" and ?start = "load_program img exec_context_default"
  have h: "ch_mismatch ?h = None" by (simp add: harness_new_def)
  have empty: "trace_text f (cx_committed ?start) = Inr []" for f by (simp add: load_program_def)
  have both: "tracing_both r c fs [] [] rts cts" using set_compare_traces_both [OF assms(3,4)] rc by simp
  from traced_compare_follows [OF assms(5) h ca(2,3) exec_inv_load both empty empty, of srt env] obtain e j d where
    t: "compared_as ctx (Inr e)" "trace_text (write_minst_record_json T srt) (cx_committed ctx) = Inr j"
      "trace_text (write_minst_record_dump T srt) (cx_committed ctx) = Inr d"
      "traced_compare_loop (Suc fuel) T srt env a ?start rts ca cts ?h =
        Some (Inr (e, fs(r \<mapsto> j, dump_path r \<mapsto> d, c \<mapsto> j, dump_path c \<mapsto> d)))"
    unfolding traced_as_def by blast
  from compare_follows_run [OF assms(5) h ca(2,3), of srt] obtain x where
    u: "compare_loop (Suc fuel) T srt a ?start ca ?h = Some x" "compared_as ctx x" by blast
  have "run_compare_engine (Suc fuel) T srt read_file w a = Some (finish_engine w a (cx_exit_code ctx) ctx [])"
    using assms(1,2) ca(1) u(1) compared_finish [OF u(2), of w a]
    by (simp add: run_compare_engine_def del: compare_loop.simps)
  moreover have "traced_compare_engine (Suc fuel) T srt env read_file w a fs =
      Some (obind (finish_engine w a (cx_exit_code ctx) ctx [])
        (\<lambda>res. Inr (res, result_files env w a (cx_exit_code ctx) ctx
          (fs(r \<mapsto> j, dump_path r \<mapsto> d, c \<mapsto> j, dump_path c \<mapsto> d)))))"
    using assms(1,2,4) ca(1) t(4) compared_as_finish [OF t(1), of w a] compared_as_files [OF t(1), of env w a]
    by (simp add: traced_compare_engine_def del: traced_compare_loop.simps)
  ultimately show ?thesis using t(2,3) rc by simp
qed

text \<open>The bytes of \<open>demo_program\<close> as a raw binary, compared for four cycles with traces under \<^verbatim>\<open>out\<close>; the
  result is the first two bytes.\<close>

definition demo_args :: sim_main_args where
  "demo_args = sim_main_args_default\<lparr>sa_program_path := Some ''p.bin'', sa_raw_base_address := 0x1000,
     sa_emit_trace_path := Some ''out/x.jsonl'', sa_max_cycles := Some 4,
     sa_result_dump_path := Some ''r.bin'', sa_result_address := Some 0x1000, sa_result_size := Some 2\<rparr>"

definition demo_bytes :: "u8 list" where
  "demo_bytes = [0x16, 0x11, 0x02, 0, 0, 0]"

definition demo_env :: file_env where
  "demo_env = \<lparr>fe_make_dirs = (\<lambda>_. Inr ()), fe_can_open = (\<lambda>_. True), fe_temp_dir = Inr ''/tmp'',
     fe_failed_write = (\<lambda>_ _ old. old)\<rparr>"

theorem compare_traces_agree_witness:
  "\<exists>(ctx :: exec_context) j d. length (cx_committed ctx) = 4 \<and>
     trace_text (write_minst_record_json excerpt_tables id) (cx_committed ctx) = Inr j \<and>
     traced_compare_engine (Suc 5) excerpt_tables id demo_env (\<lambda>_. Inr demo_bytes) (\<lambda>_ _. True) demo_args Map.empty =
       map_option (\<lambda>x. obind x (\<lambda>res. Inr (res,
           [''out/ref.jsonl'' \<mapsto> j, ''out/ref.dump'' \<mapsto> d, ''out/ca.jsonl'' \<mapsto> j, ''out/ca.dump'' \<mapsto> d,
            ''r.bin'' \<mapsto> [CHR 0x16, CHR 0x11]])))
         (run_compare_engine (Suc 5) excerpt_tables id (\<lambda>_. Inr demo_bytes) (\<lambda>_ _. True) demo_args)"
proof -
  let ?img = "load_raw_binary demo_bytes ''p.bin'' 0x1000 ''.text''"
  have args: "sa_program_path demo_args = Some ''p.bin''" "sa_emit_trace_path demo_args = Some ''out/x.jsonl''"
    "sa_stop_pc demo_args = None" "sa_max_cycles demo_args = Some 4" "sa_raw_base_address demo_args = 0x1000"
    by (simp_all add: demo_args_def sim_main_args_default_def)
  have result: "sa_result_dump_path demo_args = Some ''r.bin''" "sa_result_address demo_args = Some 0x1000"
    "sa_result_size demo_args = Some 2"
    by (simp_all add: demo_args_def)
  have img: "load_program_image (\<lambda>_. Inr demo_bytes) ''p.bin'' (sa_raw_base_address demo_args) = Inr ?img"
    unfolding args by code_simp
  have paths: "compare_trace_paths ''out/x.jsonl'' = (''out/ref.jsonl'', ''out/ca.jsonl'')"
    "dump_path ''out/ref.jsonl'' = ''out/ref.dump''" "dump_path ''out/ca.jsonl'' = ''out/ca.dump''" by code_simp+
  obtain rts cts where set: "set_compare_traces demo_env demo_args Map.empty = Inr (rts, cts)"
    by (simp add: set_compare_traces_def args(2) paths(1) demo_env_def set_trace_path_def Let_def)
  have "map_option (\<lambda>ctx. (length (cx_committed ctx), cx_exit_code ctx, cx_memory ctx 0x1000, cx_memory ctx 0x1001))
      (run_loop 5 excerpt_tables None (Some 4) (load_program ?img exec_context_default)) =
      Some (4, 0, Some 0x16, Some 0x11)" by code_simp
  then obtain ctx where run: "run_loop 5 excerpt_tables (sa_stop_pc demo_args) (sa_max_cycles demo_args)
      (load_program ?img exec_context_default) = Some ctx" and four: "length (cx_committed ctx) = 4"
    and exit: "cx_exit_code ctx = 0" and mem: "cx_memory ctx 0x1000 = Some 0x16" "cx_memory ctx 0x1001 = Some 0x11"
    unfolding args(3,4) by auto
  have bytes: "map (\<lambda>b. char_of (unat b)) [0x16, 0x11 :: u8] = [CHR 0x16, CHR 0x11]" by code_simp
  have files: "result_files demo_env (\<lambda>_ _. True) demo_args (cx_exit_code ctx) ctx fs = fs(''r.bin'' \<mapsto> [CHR 0x16, CHR 0x11])" for fs
    unfolding result_files_def result using exit bytes read_two_bytes [OF mem] by simp
  from compare_traces_agree [OF img args(1,2) set run, of id "\<lambda>_ _. True"] four show ?thesis
    unfolding paths prod.case files by (elim exE conjE) (intro exI conjI)
qed

section \<open>The reference engine and main\<close>

text \<open>With traces the reference engine returns what it returns without; the trace files hold its records.\<close>

lemma traced_reference_engine_result:
  assumes "prepare_reference T srt read_file a = Inr (load_program img exec_context_default, out)"
    "\<not> sa_disassembly_only a" "sa_emit_trace_path a = Some path" "path \<noteq> []" "extension path \<noteq> ''.dump''"
    "set_trace_path (fe_make_dirs env) (fe_can_open env) path (untraced fs) = Inr ts"
    "run_loop fuel T (sa_stop_pc a) (sa_max_cycles a) (load_program img exec_context_default) = Some ctx"
  shows "\<exists>j d. trace_text (write_minst_record_json T srt) (cx_committed ctx) = Inr j \<and>
    trace_text (write_minst_record_dump T srt) (cx_committed ctx) = Inr d \<and>
    traced_reference_engine fuel T srt env read_file w a fs =
      map_option (\<lambda>x. obind x (\<lambda>res. Inr (res, result_files env w a (cx_exit_code ctx) ctx
          (fs(path \<mapsto> j, dump_path path \<mapsto> d)))))
        (run_reference_engine fuel T srt read_file w a)"
proof -
  have empty: "trace_text f (cx_committed (load_program img exec_context_default)) = Inr []" for f
    by (simp add: load_program_def)
  have open_ts: "tracing path fs [] [] ts" using tracing_open [OF assms(6,4,5)] by (simp add: untraced_def)
  from traced_run_writes [OF exec_inv_load assms(7) open_ts empty empty, of srt] obtain j d ts' where
    t: "traced_run fuel T srt (sa_stop_pc a) (sa_max_cycles a) (load_program img exec_context_default) ts = Some (Inr (ctx, ts'))"
      "tracing path fs j d ts'" "trace_text (write_minst_record_json T srt) (cx_committed ctx) = Inr j"
      "trace_text (write_minst_record_dump T srt) (cx_committed ctx) = Inr d" by blast
  have "ts_files ts' = fs(path \<mapsto> j, dump_path path \<mapsto> d)" using t(2) by (simp add: tracing_def)
  then show ?thesis
    using assms(1-3,6,7) t(1,3,4) by (simp add: traced_reference_engine_def run_reference_engine_def)
qed

text \<open>\<^verbatim>\<open>main\<close> with its files; the cycle-accurate engine never sets a trace path.\<close>

definition traced_ca_engine :: "nat \<Rightarrow> codec_tables \<Rightarrow> (asm_replacement list \<Rightarrow> asm_replacement list) \<Rightarrow>
    file_env \<Rightarrow> (string \<Rightarrow> u8 list outcome) \<Rightarrow> (string \<Rightarrow> u8 list \<Rightarrow> bool) \<Rightarrow> sim_main_args \<Rightarrow> files \<Rightarrow>
    (engine_result \<times> files) outcome option" where
  "traced_ca_engine fuel T srt env read_file write_file a fs =
     map_option (\<lambda>r. obind r (\<lambda>(s, out). obind (write_result_dump write_file a (ss_derived s) out) (\<lambda>res.
         Inr (res, result_files env write_file a 0 (ss_derived s) fs))))
       (run_sim_main fuel (exec_sim_ops T) T srt read_file a exec_sim_new)"

definition traced_main :: "nat \<Rightarrow> codec_tables \<Rightarrow> (asm_replacement list \<Rightarrow> asm_replacement list) \<Rightarrow> file_env \<Rightarrow>
    (string \<Rightarrow> u8 list outcome) \<Rightarrow> (string \<Rightarrow> u8 list \<Rightarrow> bool) \<Rightarrow> string \<Rightarrow> string list \<Rightarrow> files \<Rightarrow>
    (engine_result \<times> files) outcome option" where
  "traced_main fuel T srt env read_file write_file program args fs =
     (case parse_sim_main_args program args of
        Stop code out err \<Rightarrow> Some (Inr (\<lparr>er_code = code, er_out = out, er_err = err, er_file = None\<rparr>, fs))
      | Parsed a \<Rightarrow>
          if sa_engine a = ''ref'' then traced_reference_engine fuel T srt env read_file write_file a fs
          else if sa_engine a = ''compare'' then traced_compare_engine fuel T srt env read_file write_file a fs
          else traced_ca_engine fuel T srt env read_file write_file a fs)"

end
