(* ===== verification/Isa_Check.thy ===== *)
theory Isa_Check
  imports Codec_Tables
begin

text \<open>
  Checking the shipped descriptor arrays piece by piece: a chunk of forms with its own fields, pieces and
  constraints is walked once, every form against the next fields, pieces and constraints of the chunk.
  A walk over all chunks says that the concatenated tables are well-formed.
\<close>

definition field_parts_wf :: "field_desc \<times> piece_desc list \<Rightarrow> bool" where
  "field_parts_wf = (\<lambda>(fd, ps). 0 < fd_bit_width fd \<and> fd_bit_width fd < 64 \<and>
     list_all (\<lambda>p. pd_insn_lsb p + pd_width p \<le> 64 \<and> pd_value_lsb p + pd_width p \<le> fd_bit_width fd) ps \<and>
     disjoint_masks 0 (map value_mask ps))"

definition form_parts_wf :: "form_desc \<Rightarrow> (field_desc \<times> piece_desc list) list \<Rightarrow> constraint_desc list \<Rightarrow> bool" where
  "form_parts_wf fm fps cs \<longleftrightarrow>
     fm_length_bits fm \<in> {16, 32, 48, 64} \<and> fm_match fm AND fm_mask fm = fm_match fm \<and>
     distinct (map (\<lambda>(fd, ps). fd_name fd) fps) \<and> list_all field_parts_wf fps \<and>
     disjoint_masks (fm_mask fm) (map insn_mask (concat (map snd fps))) \<and>
     union_masks (fm_mask fm) (map insn_mask (concat (map snd fps))) = bit_mask (fm_length_bits fm) \<and>
     list_all (\<lambda>c. list_ex (\<lambda>(fd, ps). fd_name fd = cd_field_name c) fps) cs"

text \<open>The pieces of consecutive fields, from index \<open>p\<close> on, and the pieces left over.\<close>

fun walk_fields :: "nat \<Rightarrow> field_desc list \<Rightarrow> piece_desc list \<Rightarrow>
    ((field_desc \<times> piece_desc list) list \<times> nat \<times> piece_desc list) option" where
  "walk_fields p [] ps = Some ([], p, ps)"
| "walk_fields p (fd # fds) ps =
     (if fd_piece_start fd = p \<and> fd_piece_count fd \<le> length ps
      then map_option (\<lambda>(fps, p', ps'). ((fd, take (fd_piece_count fd) ps) # fps, p', ps'))
             (walk_fields (p + fd_piece_count fd) fds (drop (fd_piece_count fd) ps))
      else None)"

text \<open>The forms of a chunk that starts at field \<open>f\<close>, piece \<open>p\<close> and constraint \<open>c\<close> and ends before \<open>f'\<close>, \<open>p'\<close>, \<open>c'\<close>.\<close>

fun walk_forms :: "form_desc list \<Rightarrow> field_desc list \<Rightarrow> piece_desc list \<Rightarrow> constraint_desc list \<Rightarrow>
    nat \<Rightarrow> nat \<Rightarrow> nat \<Rightarrow> nat \<Rightarrow> nat \<Rightarrow> nat \<Rightarrow> bool" where
  "walk_forms [] fs ps cs f p c f' p' c' \<longleftrightarrow> fs = [] \<and> ps = [] \<and> cs = [] \<and> f = f' \<and> p = p' \<and> c = c'"
| "walk_forms (m # ms) fs ps cs f p c f' p' c' \<longleftrightarrow>
     fm_field_start m = f \<and> fm_constraint_start m = c \<and>
     fm_field_count m \<le> length fs \<and> fm_constraint_count m \<le> length cs \<and>
     (case walk_fields p (take (fm_field_count m) fs) ps of
        None \<Rightarrow> False
      | Some (fps, p1, ps1) \<Rightarrow> form_parts_wf m fps (take (fm_constraint_count m) cs) \<and>
          walk_forms ms (drop (fm_field_count m) fs) ps1 (drop (fm_constraint_count m) cs)
            (f + fm_field_count m) p1 (c + fm_constraint_count m) f' p' c')"

lemmas walk_eval = mk_defs form_parts_wf_def field_parts_wf_def insn_mask_def value_mask_def bit_mask_def
  union_masks_def push_bit_eq_mult

section \<open>Walks and tables\<close>

lemma walk_fields_append:
  "walk_fields p fs ps = Some (fps, p', ps') \<Longrightarrow> walk_fields p fs (ps @ qs) = Some (fps, p', ps' @ qs)"
  by (induction p fs ps arbitrary: fps rule: walk_fields.induct) (auto split: if_split_asm)

lemma walk_forms_append:
  "walk_forms ms fs ps cs f p c f' p' c' \<Longrightarrow> walk_forms ms2 fs2 ps2 cs2 f' p' c' f'' p'' c'' \<Longrightarrow>
   walk_forms (ms @ ms2) (fs @ fs2) (ps @ ps2) (cs @ cs2) f p c f'' p'' c''"
proof (induction ms fs ps cs f p c f' p' c' rule: walk_forms.induct)
  case (1 fs ps cs f p c f' p' c')
  then show ?case by simp
next
  case (2 m ms fs ps cs f p c f' p' c')
  from "2.prems"(1) obtain fps p1 ps1 where
    w: "walk_fields p (take (fm_field_count m) fs) ps = Some (fps, p1, ps1)" by (auto split: option.splits)
  with "2.prems" "2.IH" [OF w refl refl] show ?case
    by (auto simp: walk_fields_append [OF w] split: option.splits)
qed

lemma walk_fields_pieces:
  "walk_fields p fds (drop p (kFieldPieces T)) = Some (fps, p', ps') \<Longrightarrow>
   fps = map (\<lambda>fd. (fd, pieces_for T fd)) fds \<and> ps' = drop p' (kFieldPieces T)"
proof (induction fds arbitrary: p fps)
  case (Cons fd fds)
  then show ?case
    by (auto simp: pieces_for_def add.commute split: if_split_asm)
qed simp

lemma field_parts_iff: "field_parts_wf (fd, pieces_for T fd) = field_wf T fd"
  by (simp add: field_parts_wf_def field_wf_def)

lemma form_parts_iff:
  "form_parts_wf fm (map (\<lambda>fd. (fd, pieces_for T fd)) (fields_for T fm)) (constraints_for T fm) = form_wf T fm"
proof -
  have "list_all field_parts_wf (map (\<lambda>fd. (fd, pieces_for T fd)) fds) = list_all (field_wf T) fds" for fds
    by (simp add: list_all_iff field_parts_iff)
  moreover have "list_ex (\<lambda>(fd, ps). fd_name fd = n) (map (\<lambda>fd. (fd, pieces_for T fd)) fds) = (n \<in> fd_name ` set fds)"
    for n fds by (auto simp: list_ex_iff)
  ultimately show ?thesis
    by (simp add: form_parts_wf_def form_wf_def form_pieces_def comp_def)
qed

lemma walk_forms_wf:
  "walk_forms ms (drop f (kFields T)) (drop p (kFieldPieces T)) (drop c (kConstraints T)) f p c f' p' c' \<Longrightarrow>
   list_all (form_wf T) ms"
proof (induction ms arbitrary: f p c)
  case (Cons m ms)
  from Cons.prems obtain fps p1 ps1 where
    start: "fm_field_start m = f" "fm_constraint_start m = c"
    and w: "walk_fields p (take (fm_field_count m) (drop f (kFields T))) (drop p (kFieldPieces T)) = Some (fps, p1, ps1)"
    and ok: "form_parts_wf m fps (take (fm_constraint_count m) (drop c (kConstraints T)))"
    and rest: "walk_forms ms (drop (fm_field_count m) (drop f (kFields T))) ps1
      (drop (fm_constraint_count m) (drop c (kConstraints T))) (f + fm_field_count m) p1
      (c + fm_constraint_count m) f' p' c'"
    by (auto split: option.splits)
  have fields: "take (fm_field_count m) (drop f (kFields T)) = fields_for T m"
    "take (fm_constraint_count m) (drop c (kConstraints T)) = constraints_for T m"
    by (simp_all add: fields_for_def constraints_for_def start)
  from walk_fields_pieces [OF w [unfolded fields]] have parts: "fps = map (\<lambda>fd. (fd, pieces_for T fd)) (fields_for T m)"
    "ps1 = drop p1 (kFieldPieces T)" by simp_all
  have "form_wf T m" using ok unfolding parts fields form_parts_iff .
  moreover have "list_all (form_wf T) ms"
    using rest unfolding parts(2) drop_drop by (intro Cons.IH) (simp add: add.commute)
  ultimately show ?case by simp
qed simp

lemma walk_tables_wf:
  "walk_forms (kForms T) (kFields T) (kFieldPieces T) (kConstraints T) 0 0 0 f' p' c' \<Longrightarrow> tables_wf T"
  using walk_forms_wf [of "kForms T" 0 T 0 0 f' p' c'] by (simp add: tables_wf_def)

text \<open>The end positions of a walk are the sizes of the arrays.\<close>

lemma walk_fields_length: "walk_fields p fds ps = Some (fps, p', ps') \<Longrightarrow> p' + length ps' = p + length ps"
  by (induction p fds ps arbitrary: fps rule: walk_fields.induct) (auto split: if_split_asm)

lemma walk_forms_length:
  "walk_forms ms fs ps cs f p c f' p' c' \<Longrightarrow>
   f' = f + length fs \<and> p' = p + length ps \<and> c' = c + length cs"
proof (induction ms fs ps cs f p c f' p' c' rule: walk_forms.induct)
  case (1 fs ps cs f p c f' p' c')
  then show ?case by simp
next
  case (2 m ms fs ps cs f p c f' p' c')
  from "2.prems" obtain fps p1 ps1 where
    w: "walk_fields p (take (fm_field_count m) fs) ps = Some (fps, p1, ps1)" by (auto split: option.splits)
  with "2.prems" "2.IH" [OF w refl refl] walk_fields_length [OF w] show ?case by auto
qed

end
