(* ===== verification/Isa_Table_00.thy ===== *)
theory Isa_Table_00
  imports Isa_Check
begin

text \<open>
  Forms 0 to 53 of the arrays of \<^verbatim>\<open>src/isa/generated_tables.cpp\<close> (lines 5582 to 6395), with their fields,
  pieces and constraints, in chunks of at most 9 forms, and the check of each chunk.
\<close>

definition kFieldPieces_0 :: "piece_desc list" where
  "kFieldPieces_0 = [
    mk_piece 20 4 0, mk_piece 20 4 0, mk_piece 7 5 0, mk_piece 15 5 0, mk_piece 20 5 0, mk_piece 25 2 0,
    mk_piece 27 5 0, mk_piece 7 5 0, mk_piece 15 5 0, mk_piece 20 12 0, mk_piece 7 5 0, mk_piece 15 5 0,
    mk_piece 20 12 0, mk_piece 7 5 0, mk_piece 12 20 0, mk_piece 7 5 0, mk_piece 15 5 0, mk_piece 20 5 0,
    mk_piece 25 2 0, mk_piece 27 5 0, mk_piece 7 5 0, mk_piece 15 5 0, mk_piece 20 5 0, mk_piece 25 2 0,
    mk_piece 27 5 0, mk_piece 7 5 0, mk_piece 15 5 0, mk_piece 20 12 0]"

definition kFields_0 :: "field_desc list" where
  "kFields_0 = [
    mk_field ''RST_Type'' (-1) 4 0 1, mk_field ''RRA_Type'' (-1) 4 1 1, mk_field ''RegDst'' (-1) 5 2 1,
    mk_field ''SrcL'' (-1) 5 3 1, mk_field ''SrcR'' (-1) 5 4 1, mk_field ''SrcRType'' (-1) 2 5 1,
    mk_field ''shamt'' (-1) 5 6 1, mk_field ''RegDst'' (-1) 5 7 1, mk_field ''SrcL'' (-1) 5 8 1,
    mk_field ''uimm12'' 0 12 9 1, mk_field ''RegDst'' (-1) 5 10 1, mk_field ''SrcL'' (-1) 5 11 1,
    mk_field ''uimm12'' 0 12 12 1, mk_field ''RegDst'' (-1) 5 13 1, mk_field ''imm20'' (-1) 20 14 1,
    mk_field ''RegDst'' (-1) 5 15 1, mk_field ''SrcL'' (-1) 5 16 1, mk_field ''SrcR'' (-1) 5 17 1,
    mk_field ''SrcRType'' (-1) 2 18 1, mk_field ''shamt'' (-1) 5 19 1, mk_field ''RegDst'' (-1) 5 20 1,
    mk_field ''SrcL'' (-1) 5 21 1, mk_field ''SrcR'' (-1) 5 22 1, mk_field ''SrcRType'' (-1) 2 23 1,
    mk_field ''shamt'' (-1) 5 24 1, mk_field ''RegDst'' (-1) 5 25 1, mk_field ''SrcL'' (-1) 5 26 1,
    mk_field ''simm12'' 1 12 27 1]"

definition kConstraints_0 :: "constraint_desc list" where
  "kConstraints_0 = [
    mk_constraint ''RRA_Type'' Op_Ne 2 ''2'', mk_constraint ''RRA_Type'' Op_Ne 3 ''3'',
    mk_constraint ''RRA_Type'' Op_Ne 4 ''4'', mk_constraint ''RRA_Type'' Op_Ne 5 ''5'',
    mk_constraint ''RRA_Type'' Op_Ne 6 ''6'', mk_constraint ''RRA_Type'' Op_Ne 7 ''7'',
    mk_constraint ''RRA_Type'' Op_Ne 8 ''8'', mk_constraint ''RRA_Type'' Op_Ne 9 ''9'',
    mk_constraint ''RRA_Type'' Op_Ne 10 ''10'', mk_constraint ''RRA_Type'' Op_Ne 11 ''11'',
    mk_constraint ''RRA_Type'' Op_Ne 12 ''12'', mk_constraint ''RRA_Type'' Op_Ne 13 ''13'',
    mk_constraint ''RRA_Type'' Op_Ne 14 ''14'', mk_constraint ''RRA_Type'' Op_Ne 15 ''15'',
    mk_constraint ''RegDst'' Op_Ne 10 ''10'']"

definition kForms_0 :: "form_desc list" where
  "kForms_0 = [
    mk_form ''a9c0e33f9904'' ''ACRC'' ''acrc rst_type'' ''L32'' ''SYS'' ''SYS'' ''SYS''
      32 28 0xff0fffff 0x302b 0 1 0 0,
    mk_form ''54b80944d32d'' ''ACRE'' ''acre rra_type'' ''L32'' ''SYS'' ''SYS'' ''SYS''
      32 28 0xff0fffff 0x100302b 1 1 0 14,
    mk_form ''d04202886d0a'' ''ADD'' ''add SrcL, SrcR<{.sw,.uw,.neg}><<<shamt>, ->{t, u, Rd}'' ''L32'' ''ALU'' ''ALU'' ''ALU''
      32 10 0x707f 0x5 2 5 14 0,
    mk_form ''2decd0a93a0a'' ''ADDI'' ''addi SrcL, uimm, ->{t, u, Rd}'' ''L32'' ''ALU'' ''ALU'' ''ALU''
      32 10 0x707f 0x15 7 3 14 0,
    mk_form ''08cc89cd2689'' ''ADDIW'' ''addiw SrcL, uimm, ->{t, u, Rd}'' ''L32'' ''ALU'' ''ALU'' ''ALU''
      32 10 0x707f 0x35 10 3 14 0,
    mk_form ''e5aa0f0abca3'' ''ADDTPC'' ''addtpc simm, ->{t, u, Rd}'' ''L32'' ''BRU'' ''BRU'' ''BRU''
      32 7 0x7f 0x7 13 2 14 1,
    mk_form ''a27109fe30fc'' ''ADDW'' ''addw SrcL, SrcR<{.sw,.uw,.neg}><<<shamt>, ->{t, u, Rd}'' ''L32'' ''ALU'' ''ALU'' ''ALU''
      32 10 0x707f 0x25 15 5 15 0,
    mk_form ''b6a903a3ec94'' ''AND'' ''and SrcL, SrcR<{.sw,.uw,.not}><<<shamt>, ->{t, u, Rd}'' ''L32'' ''ALU'' ''ALU'' ''ALU''
      32 10 0x707f 0x2005 20 5 15 0,
    mk_form ''1d9302e57d30'' ''ANDI'' ''andi SrcL, simm, ->{t, u, Rd}'' ''L32'' ''ALU'' ''ALU'' ''ALU''
      32 10 0x707f 0x2015 25 3 15 0]"

lemma chunk_0: "walk_forms kForms_0 kFields_0 kFieldPieces_0 kConstraints_0 0 0 0 28 28 15"
  by (simp add: kForms_0_def kFields_0_def kFieldPieces_0_def kConstraints_0_def walk_eval)

lemma length_kForms_0 [simp]: "length kForms_0 = 9"
  by (simp add: kForms_0_def)

definition kFieldPieces_1 :: "piece_desc list" where
  "kFieldPieces_1 = [
    mk_piece 7 5 0, mk_piece 15 5 0, mk_piece 20 12 0, mk_piece 7 5 0, mk_piece 15 5 0, mk_piece 20 5 0,
    mk_piece 25 2 0, mk_piece 27 5 0, mk_piece 15 5 0, mk_piece 31 1 0, mk_piece 11 1 0, mk_piece 15 5 0,
    mk_piece 7 4 0, mk_piece 20 11 0, mk_piece 26 1 0, mk_piece 16 1 0, mk_piece 17 1 0, mk_piece 18 1 0,
    mk_piece 15 1 0, mk_piece 19 1 0, mk_piece 29 3 0, mk_piece 25 1 0, mk_piece 20 5 0, mk_piece 7 5 0,
    mk_piece 27 2 0, mk_piece 14 1 0, mk_piece 15 3 0, mk_piece 26 1 0, mk_piece 13 1 0, mk_piece 15 5 0,
    mk_piece 20 12 0, mk_piece 7 5 12, mk_piece 15 5 0, mk_piece 20 12 0, mk_piece 7 5 12, mk_piece 15 5 0,
    mk_piece 20 12 0, mk_piece 7 5 12]"

definition kFields_1 :: "field_desc list" where
  "kFields_1 = [
    mk_field ''RegDst'' (-1) 5 28 1, mk_field ''SrcL'' (-1) 5 29 1, mk_field ''simm12'' 1 12 30 1,
    mk_field ''RegDst'' (-1) 5 31 1, mk_field ''SrcL'' (-1) 5 32 1, mk_field ''SrcR'' (-1) 5 33 1,
    mk_field ''SrcRType'' (-1) 2 34 1, mk_field ''shamt'' (-1) 5 35 1, mk_field ''SrcL'' (-1) 5 36 1,
    mk_field ''INIT'' (-1) 1 37 1, mk_field ''LAST'' (-1) 1 38 1, mk_field ''RegSrc'' (-1) 5 39 1,
    mk_field ''WriterSizeCode'' (-1) 4 40 1, mk_field ''uimm11'' 0 11 41 1, mk_field ''DR'' (-1) 1 42 1,
    mk_field ''aq'' (-1) 1 43 1, mk_field ''atom'' (-1) 1 44 1, mk_field ''far'' (-1) 1 45 1,
    mk_field ''rl'' (-1) 1 46 1, mk_field ''trap'' (-1) 1 47 1, mk_field ''CMode'' (-1) 3 48 1,
    mk_field ''Canonicalize'' (-1) 1 49 1, mk_field ''DataType'' (-1) 5 50 1,
    mk_field ''Layout'' (-1) 5 51 1, mk_field ''PadValueOrByteId'' (-1) 2 52 1,
    mk_field ''PredInv'' (-1) 1 53 1, mk_field ''RMode'' (-1) 3 54 1, mk_field ''Sat'' (-1) 1 55 1,
    mk_field ''Zero'' (-1) 1 56 1, mk_field ''RegSrc'' (-1) 5 57 1, mk_field ''uimm17'' 0 17 58 2,
    mk_field ''RegSrc'' (-1) 5 60 1, mk_field ''uimm17'' 0 17 61 2, mk_field ''RegSrc'' (-1) 5 63 1,
    mk_field ''uimm17'' 0 17 64 2]"

definition kConstraints_1 :: "constraint_desc list" where
  "kConstraints_1 = [
    mk_constraint ''RegSrc'' Op_Ne 24 ''24'', mk_constraint ''RegSrc'' Op_Ne 25 ''25'',
    mk_constraint ''RegSrc'' Op_Ne 26 ''26'', mk_constraint ''RegSrc'' Op_Ne 27 ''27'',
    mk_constraint ''RegSrc'' Op_Ne 28 ''28'', mk_constraint ''RegSrc'' Op_Ne 29 ''29'',
    mk_constraint ''RegSrc'' Op_Ne 30 ''30'', mk_constraint ''RegSrc'' Op_Ne 31 ''31'',
    mk_constraint ''WriterSizeCode'' Op_Ne 13 ''13'', mk_constraint ''WriterSizeCode'' Op_Ne 14 ''14'',
    mk_constraint ''WriterSizeCode'' Op_Ne 15 ''15'', mk_constraint ''CMode'' Op_Ne 6 ''6'',
    mk_constraint ''CMode'' Op_Ne 7 ''7'', mk_constraint ''DataType'' Op_Ne 22 ''22'',
    mk_constraint ''DataType'' Op_Ne 23 ''23'', mk_constraint ''DataType'' Op_Ne 29 ''29'',
    mk_constraint ''DataType'' Op_Ne 30 ''30'', mk_constraint ''Layout'' Op_Ne 2 ''2'',
    mk_constraint ''Layout'' Op_Ne 5 ''5'', mk_constraint ''Layout'' Op_Ne 7 ''7'',
    mk_constraint ''Layout'' Op_Ne 12 ''12'', mk_constraint ''Layout'' Op_Ne 13 ''13'',
    mk_constraint ''Layout'' Op_Ne 14 ''14'', mk_constraint ''Layout'' Op_Ne 15 ''15'',
    mk_constraint ''Layout'' Op_Ne 16 ''16'', mk_constraint ''Layout'' Op_Ne 19 ''19'',
    mk_constraint ''RegSrc'' Op_Ne 24 ''24'', mk_constraint ''RegSrc'' Op_Ne 25 ''25'',
    mk_constraint ''RegSrc'' Op_Ne 26 ''26'', mk_constraint ''RegSrc'' Op_Ne 27 ''27'',
    mk_constraint ''RegSrc'' Op_Ne 28 ''28'', mk_constraint ''RegSrc'' Op_Ne 29 ''29'',
    mk_constraint ''RegSrc'' Op_Ne 30 ''30'', mk_constraint ''RegSrc'' Op_Ne 31 ''31'',
    mk_constraint ''RegSrc'' Op_Ne 24 ''24'', mk_constraint ''RegSrc'' Op_Ne 25 ''25'',
    mk_constraint ''RegSrc'' Op_Ne 26 ''26'', mk_constraint ''RegSrc'' Op_Ne 27 ''27'',
    mk_constraint ''RegSrc'' Op_Ne 28 ''28'', mk_constraint ''RegSrc'' Op_Ne 29 ''29'',
    mk_constraint ''RegSrc'' Op_Ne 30 ''30'', mk_constraint ''RegSrc'' Op_Ne 31 ''31'',
    mk_constraint ''RegSrc'' Op_Ne 24 ''24'', mk_constraint ''RegSrc'' Op_Ne 25 ''25'',
    mk_constraint ''RegSrc'' Op_Ne 26 ''26'', mk_constraint ''RegSrc'' Op_Ne 27 ''27'',
    mk_constraint ''RegSrc'' Op_Ne 28 ''28'', mk_constraint ''RegSrc'' Op_Ne 29 ''29'',
    mk_constraint ''RegSrc'' Op_Ne 30 ''30'', mk_constraint ''RegSrc'' Op_Ne 31 ''31'']"

definition kForms_1 :: "form_desc list" where
  "kForms_1 = [
    mk_form ''9ec1f7343dbd'' ''ANDIW'' ''andiw SrcL, simm, ->{t, u, Rd}'' ''L32'' ''ALU'' ''ALU'' ''ALU''
      32 10 0x707f 0x2035 28 3 15 0,
    mk_form ''6907ed7cec90'' ''ANDW'' ''andw SrcL, SrcR<{.sw,.uw,.not}><<<shamt>, ->{t, u, Rd}'' ''L32'' ''ALU'' ''ALU'' ''ALU''
      32 10 0x707f 0x2025 31 5 15 0,
    mk_form ''f05d67874ae5'' ''ASSERT'' ''assert SrcL'' ''L32'' ''SYS'' ''SYS'' ''SYS''
      32 27 0xfff07fff 0x102b 36 1 15 0,
    mk_form ''122000000002'' ''B.ASSEMBLE'' ''B.ASSEMBLE INIT, LAST, RegSrc, uimm11, WriterSizeCode'' ''L32'' ''Bundle Range Modifier'' ''CMD'' ''CMD''
      32 10 0x707f 0x1053 37 5 15 11,
    mk_form ''e90bd52fa480'' ''B.CATR'' ''B.CATR {trap, atomic, <aq, rl, aqrl>, far, dr}'' ''L32'' ''Bundle Control Attribute'' ''CMD'' ''CMD''
      32 26 0xfbf07fff 0x23 42 6 26 0,
    mk_form ''c161a042ff38'' ''B.DATR'' ''B.DATR {layout, datatype, padvalue_or_byteid, cmode, rmode, sat, canonicalize, predinv, zero}'' ''L32'' ''Bundle Data Attribute'' ''CMD'' ''CMD''
      32 10 0xc107f 0x1023 48 9 26 15,
    mk_form ''4191099a5f4d'' ''B.DIM'' ''B.DIM RegSrc, uimm, ->LB1'' ''L32'' ''Bundle Argument'' ''CMD'' ''CMD''
      32 10 0x707f 0x1043 57 2 41 8,
    mk_form ''27602ab68929'' ''B.DIM'' ''B.DIM RegSrc, uimm, ->LB0'' ''L32'' ''Bundle Argument'' ''CMD'' ''CMD''
      32 10 0x707f 0x43 59 2 49 8,
    mk_form ''1caa1aa2944a'' ''B.DIM'' ''B.DIM RegSrc, uimm, ->LB2'' ''L32'' ''Bundle Argument'' ''CMD'' ''CMD''
      32 10 0x707f 0x2043 61 2 57 8]"

lemma chunk_1: "walk_forms kForms_1 kFields_1 kFieldPieces_1 kConstraints_1 28 28 15 63 66 65"
  by (simp add: kForms_1_def kFields_1_def kFieldPieces_1_def kConstraints_1_def walk_eval)

lemma length_kForms_1 [simp]: "length kForms_1 = 9"
  by (simp add: kForms_1_def)

definition kFieldPieces_2 :: "piece_desc list" where
  "kFieldPieces_2 = [
    mk_piece 9 1 0, mk_piece 17 1 0, mk_piece 19 4 0, mk_piece 15 1 0, mk_piece 26 6 0, mk_piece 23 3 0,
    mk_piece 18 1 0, mk_piece 16 1 0, mk_piece 7 1 0, mk_piece 8 1 0, mk_piece 15 1 0, mk_piece 16 1 0,
    mk_piece 15 1 0, mk_piece 20 12 0, mk_piece 17 2 0, mk_piece 26 1 0, mk_piece 7 5 0, mk_piece 15 5 0,
    mk_piece 20 5 0, mk_piece 27 5 0, mk_piece 9 3 0, mk_piece 20 6 0, mk_piece 15 4 0, mk_piece 9 3 0,
    mk_piece 20 6 0, mk_piece 19 1 0, mk_piece 9 3 0, mk_piece 20 6 0, mk_piece 26 6 0, mk_piece 19 1 0,
    mk_piece 9 3 0, mk_piece 20 6 0, mk_piece 26 6 0, mk_piece 19 1 0, mk_piece 9 3 0, mk_piece 20 6 0,
    mk_piece 26 6 0]"

definition kFields_2 :: "field_desc list" where
  "kFields_2 = [
    mk_field ''CScaleEn'' (-1) 1 66 1, mk_field ''GroupMaxEn'' (-1) 1 67 1,
    mk_field ''GroupNCode'' (-1) 4 68 1, mk_field ''MaxAbsEn'' (-1) 1 69 1,
    mk_field ''PreQuantMode'' (-1) 6 70 1, mk_field ''ReluMode'' (-1) 3 71 1,
    mk_field ''RowMaxEn'' (-1) 1 72 1, mk_field ''RowMaxInit'' (-1) 1 73 1, mk_field ''TransA'' (-1) 1 74 1,
    mk_field ''TransB'' (-1) 1 75 1, mk_field ''B/E'' (-1) 1 76 1, mk_field ''L/UL'' (-1) 1 77 1,
    mk_field ''V'' (-1) 1 78 1, mk_field ''prefetch_size'' (-1) 12 79 1, mk_field ''temp'' (-1) 2 80 1,
    mk_field ''ExecMaskPresent'' (-1) 1 81 1, mk_field ''RegDst'' (-1) 5 82 1,
    mk_field ''RegSrc0'' (-1) 5 83 1, mk_field ''RegSrc1'' (-1) 5 84 1, mk_field ''RegSrc2'' (-1) 5 85 1,
    mk_field ''PEMode'' (-1) 3 86 1, mk_field ''SharedTileID'' (-1) 6 87 1,
    mk_field ''SizeCode'' (-1) 4 88 1, mk_field ''PEMode'' (-1) 3 89 1,
    mk_field ''SharedTileID'' (-1) 6 90 1, mk_field ''L'' (-1) 1 91 1, mk_field ''PEMode'' (-1) 3 92 1,
    mk_field ''SrcTile0'' (-1) 6 93 1, mk_field ''SrcTile1'' (-1) 6 94 1, mk_field ''L'' (-1) 1 95 1,
    mk_field ''PEMode'' (-1) 3 96 1, mk_field ''SrcTile0'' (-1) 6 97 1, mk_field ''SrcTile1'' (-1) 6 98 1,
    mk_field ''L'' (-1) 1 99 1, mk_field ''PEMode'' (-1) 3 100 1, mk_field ''SrcTile0'' (-1) 6 101 1,
    mk_field ''SrcTile1'' (-1) 6 102 1]"

definition kConstraints_2 :: "constraint_desc list" where
  "kConstraints_2 = [
    mk_constraint ''PreQuantMode'' Op_Ne 6 ''6'', mk_constraint ''PreQuantMode'' Op_Ne 7 ''7'',
    mk_constraint ''PreQuantMode'' Op_Ne 8 ''8'', mk_constraint ''PreQuantMode'' Op_Ne 9 ''9'',
    mk_constraint ''PreQuantMode'' Op_Ne 10 ''10'', mk_constraint ''PreQuantMode'' Op_Ne 11 ''11'',
    mk_constraint ''PreQuantMode'' Op_Ne 14 ''14'', mk_constraint ''PreQuantMode'' Op_Ne 15 ''15'',
    mk_constraint ''PreQuantMode'' Op_Ne 21 ''21'', mk_constraint ''PreQuantMode'' Op_Ne 22 ''22'',
    mk_constraint ''PreQuantMode'' Op_Ne 29 ''29'', mk_constraint ''PreQuantMode'' Op_Ne 30 ''30'',
    mk_constraint ''PreQuantMode'' Op_Ne 31 ''31'', mk_constraint ''PreQuantMode'' Op_Ne 40 ''40'',
    mk_constraint ''PreQuantMode'' Op_Ne 41 ''41'', mk_constraint ''PreQuantMode'' Op_Ne 42 ''42'',
    mk_constraint ''PreQuantMode'' Op_Ne 43 ''43'', mk_constraint ''PreQuantMode'' Op_Ne 44 ''44'',
    mk_constraint ''PreQuantMode'' Op_Ne 45 ''45'', mk_constraint ''PreQuantMode'' Op_Ne 46 ''46'',
    mk_constraint ''PreQuantMode'' Op_Ne 47 ''47'', mk_constraint ''PreQuantMode'' Op_Ne 48 ''48'',
    mk_constraint ''PreQuantMode'' Op_Ne 49 ''49'', mk_constraint ''PreQuantMode'' Op_Ne 50 ''50'',
    mk_constraint ''PreQuantMode'' Op_Ne 51 ''51'', mk_constraint ''PreQuantMode'' Op_Ne 52 ''52'',
    mk_constraint ''PreQuantMode'' Op_Ne 53 ''53'', mk_constraint ''PreQuantMode'' Op_Ne 54 ''54'',
    mk_constraint ''PreQuantMode'' Op_Ne 55 ''55'', mk_constraint ''PreQuantMode'' Op_Ne 56 ''56'',
    mk_constraint ''PreQuantMode'' Op_Ne 57 ''57'', mk_constraint ''PreQuantMode'' Op_Ne 58 ''58'',
    mk_constraint ''PreQuantMode'' Op_Ne 59 ''59'', mk_constraint ''PreQuantMode'' Op_Ne 60 ''60'',
    mk_constraint ''PreQuantMode'' Op_Ne 61 ''61'', mk_constraint ''PreQuantMode'' Op_Ne 62 ''62'',
    mk_constraint ''PreQuantMode'' Op_Ne 63 ''63'', mk_constraint ''ReluMode'' Op_Ne 4 ''4'',
    mk_constraint ''ReluMode'' Op_Ne 5 ''5'', mk_constraint ''ReluMode'' Op_Ne 6 ''6'',
    mk_constraint ''ReluMode'' Op_Ne 7 ''7'', mk_constraint ''GroupNCode'' Op_Ne 10 ''10'',
    mk_constraint ''GroupNCode'' Op_Ne 11 ''11'', mk_constraint ''GroupNCode'' Op_Ne 12 ''12'',
    mk_constraint ''GroupNCode'' Op_Ne 13 ''13'', mk_constraint ''GroupNCode'' Op_Ne 14 ''14'',
    mk_constraint ''GroupNCode'' Op_Ne 15 ''15'', mk_constraint ''RegDst'' Op_Ne 24 ''24'',
    mk_constraint ''RegDst'' Op_Ne 25 ''25'', mk_constraint ''RegDst'' Op_Ne 26 ''26'',
    mk_constraint ''RegDst'' Op_Ne 27 ''27'', mk_constraint ''RegDst'' Op_Ne 28 ''28'',
    mk_constraint ''RegDst'' Op_Ne 29 ''29'', mk_constraint ''RegDst'' Op_Ne 30 ''30'',
    mk_constraint ''RegDst'' Op_Ne 31 ''31'', mk_constraint ''RegSrc0'' Op_Ne 24 ''24'',
    mk_constraint ''RegSrc0'' Op_Ne 25 ''25'', mk_constraint ''RegSrc0'' Op_Ne 26 ''26'',
    mk_constraint ''RegSrc0'' Op_Ne 27 ''27'', mk_constraint ''RegSrc0'' Op_Ne 28 ''28'',
    mk_constraint ''RegSrc0'' Op_Ne 29 ''29'', mk_constraint ''RegSrc0'' Op_Ne 30 ''30'',
    mk_constraint ''RegSrc0'' Op_Ne 31 ''31'', mk_constraint ''RegSrc1'' Op_Ne 24 ''24'',
    mk_constraint ''RegSrc1'' Op_Ne 25 ''25'', mk_constraint ''RegSrc1'' Op_Ne 26 ''26'',
    mk_constraint ''RegSrc1'' Op_Ne 27 ''27'', mk_constraint ''RegSrc1'' Op_Ne 28 ''28'',
    mk_constraint ''RegSrc1'' Op_Ne 29 ''29'', mk_constraint ''RegSrc1'' Op_Ne 30 ''30'',
    mk_constraint ''RegSrc1'' Op_Ne 31 ''31'', mk_constraint ''RegSrc2'' Op_Ne 24 ''24'',
    mk_constraint ''RegSrc2'' Op_Ne 25 ''25'', mk_constraint ''RegSrc2'' Op_Ne 26 ''26'',
    mk_constraint ''RegSrc2'' Op_Ne 27 ''27'', mk_constraint ''RegSrc2'' Op_Ne 28 ''28'',
    mk_constraint ''RegSrc2'' Op_Ne 29 ''29'', mk_constraint ''RegSrc2'' Op_Ne 30 ''30'',
    mk_constraint ''RegSrc2'' Op_Ne 31 ''31'', mk_constraint ''SizeCode'' Op_Ne 13 ''13'',
    mk_constraint ''SizeCode'' Op_Ne 14 ''14'', mk_constraint ''SizeCode'' Op_Ne 15 ''15'']"

definition kForms_2 :: "form_desc list" where
  "kForms_2 = [
    mk_form ''30c307e06d4a'' ''B.FPATR'' ''B.FPATR PreQuantMode, ReluMode, GroupNCode, RowMaxEn, GroupMaxEn, RowMaxInit, MaxAbsEn, TransA, TransB, CScaleEn'' ''L32'' ''Bundle Fixed-Point PostProcess Attribute'' ''CMD'' ''CMD''
      32 12 0x7c7f 0x2023 63 10 65 47,
    mk_form ''f7d01d734925'' ''B.HINT'' ''B.HINT TRACE.{begin, end}'' ''L32'' ''Bundle Hint'' ''CMD'' ''CMD''
      32 31 0xffff7fff 0x1033 73 1 112 0,
    mk_form ''69d942ff1583'' ''B.HINT'' ''B.HINT {BR.{likely, unlikely}, TEMP.{hot, warm, cool, none}, PRFSIZE}'' ''L32'' ''Bundle Hint'' ''CMD'' ''CMD''
      32 16 0x87fff 0x33 74 4 112 0,
    mk_form ''c3ea71404eb3'' ''B.IOR'' ''B.IOR [<gpr>[, <gpr>[, <gpr>]]][, -><gpr>][, ExecMaskPresent]'' ''L32'' ''Bundle Input & Output'' ''CMD'' ''CMD''
      32 11 0x200707f 0x13 78 5 112 32,
    mk_form ''4ba5ef98fdaa'' ''B.IOS'' ''B.IOS S<SharedTileID>.reuse, mask=<PE_MASK> | B.IOS mask=<PE_MASK>, ->S<SharedTileID><SizeCode>'' ''L32'' ''Bundle Input & Output'' ''CMD'' ''CMD''
      32 19 0xfc0871ff 0x1013 83 3 144 3,
    mk_form ''e7e9796a7025'' ''B.IOS'' ''B.IOS S<SharedTileID>, mask=<PE_MASK>'' ''L32'' ''Bundle Input & Output'' ''CMD'' ''CMD''
      32 23 0xfc0ff1ff 0x4001013 86 2 147 0,
    mk_form ''0175e009f69e'' ''B.IOT'' ''B.IOT SrcTile0, SrcTile1.reuse, mask=PE_MASK, <last>'' ''L32'' ''Bundle Input & Output'' ''CMD'' ''CMD''
      32 16 0x7f1ff 0x7013 88 4 147 0,
    mk_form ''15bc51973d26'' ''B.IOT'' ''B.IOT SrcTile0.reuse, SrcTile1, mask=PE_MASK, <last>'' ''L32'' ''Bundle Input & Output'' ''CMD'' ''CMD''
      32 16 0x7f1ff 0x3013 92 4 147 0,
    mk_form ''2d213eb811c7'' ''B.IOT'' ''B.IOT SrcTile0, SrcTile1, mask=PE_MASK, <last>'' ''L32'' ''Bundle Input & Output'' ''CMD'' ''CMD''
      32 16 0x7f1ff 0x2013 96 4 147 0]"

lemma chunk_2: "walk_forms kForms_2 kFields_2 kFieldPieces_2 kConstraints_2 63 66 65 100 103 147"
  by (simp add: kForms_2_def kFields_2_def kFieldPieces_2_def kConstraints_2_def walk_eval)

lemma length_kForms_2 [simp]: "length kForms_2 = 9"
  by (simp add: kForms_2_def)

definition kFieldPieces_3 :: "piece_desc list" where
  "kFieldPieces_3 = [
    mk_piece 7 2 0, mk_piece 19 1 0, mk_piece 9 3 0, mk_piece 15 4 0, mk_piece 20 6 0, mk_piece 7 2 0,
    mk_piece 19 1 0, mk_piece 9 3 0, mk_piece 15 4 0, mk_piece 20 6 0, mk_piece 7 2 0, mk_piece 19 1 0,
    mk_piece 9 3 0, mk_piece 15 4 0, mk_piece 20 6 0, mk_piece 26 6 0, mk_piece 7 2 0, mk_piece 19 1 0,
    mk_piece 9 3 0, mk_piece 15 4 0, mk_piece 20 6 0, mk_piece 26 6 0, mk_piece 7 2 0, mk_piece 19 1 0,
    mk_piece 9 3 0, mk_piece 15 4 0, mk_piece 7 2 0, mk_piece 19 1 0, mk_piece 9 3 0, mk_piece 15 4 0,
    mk_piece 20 6 0, mk_piece 26 6 0, mk_piece 19 1 0, mk_piece 9 3 0, mk_piece 20 6 0, mk_piece 26 6 0,
    mk_piece 7 2 0, mk_piece 19 1 0, mk_piece 9 3 0, mk_piece 15 4 0, mk_piece 20 6 0, mk_piece 26 6 0,
    mk_piece 19 1 0, mk_piece 9 3 0, mk_piece 20 6 0]"

definition kFields_3 :: "field_desc list" where
  "kFields_3 = [
    mk_field ''DstTile'' (-1) 2 103 1, mk_field ''L'' (-1) 1 104 1, mk_field ''PEMode'' (-1) 3 105 1,
    mk_field ''SizeCode'' (-1) 4 106 1, mk_field ''SrcTile0'' (-1) 6 107 1,
    mk_field ''DstTile'' (-1) 2 108 1, mk_field ''L'' (-1) 1 109 1, mk_field ''PEMode'' (-1) 3 110 1,
    mk_field ''SizeCode'' (-1) 4 111 1, mk_field ''SrcTile0'' (-1) 6 112 1,
    mk_field ''DstTile'' (-1) 2 113 1, mk_field ''L'' (-1) 1 114 1, mk_field ''PEMode'' (-1) 3 115 1,
    mk_field ''SizeCode'' (-1) 4 116 1, mk_field ''SrcTile0'' (-1) 6 117 1,
    mk_field ''SrcTile1'' (-1) 6 118 1, mk_field ''DstTile'' (-1) 2 119 1, mk_field ''L'' (-1) 1 120 1,
    mk_field ''PEMode'' (-1) 3 121 1, mk_field ''SizeCode'' (-1) 4 122 1, mk_field ''SrcTile0'' (-1) 6 123 1,
    mk_field ''SrcTile1'' (-1) 6 124 1, mk_field ''DstTile'' (-1) 2 125 1, mk_field ''L'' (-1) 1 126 1,
    mk_field ''PEMode'' (-1) 3 127 1, mk_field ''SizeCode'' (-1) 4 128 1, mk_field ''DstTile'' (-1) 2 129 1,
    mk_field ''L'' (-1) 1 130 1, mk_field ''PEMode'' (-1) 3 131 1, mk_field ''SizeCode'' (-1) 4 132 1,
    mk_field ''SrcTile0'' (-1) 6 133 1, mk_field ''SrcTile1'' (-1) 6 134 1, mk_field ''L'' (-1) 1 135 1,
    mk_field ''PEMode'' (-1) 3 136 1, mk_field ''SrcTile0'' (-1) 6 137 1, mk_field ''SrcTile1'' (-1) 6 138 1,
    mk_field ''DstTile'' (-1) 2 139 1, mk_field ''L'' (-1) 1 140 1, mk_field ''PEMode'' (-1) 3 141 1,
    mk_field ''SizeCode'' (-1) 4 142 1, mk_field ''SrcTile0'' (-1) 6 143 1,
    mk_field ''SrcTile1'' (-1) 6 144 1, mk_field ''L'' (-1) 1 145 1, mk_field ''PEMode'' (-1) 3 146 1,
    mk_field ''SrcTile0'' (-1) 6 147 1]"

definition kConstraints_3 :: "constraint_desc list" where
  "kConstraints_3 = [
    mk_constraint ''SizeCode'' Op_Ne 0 ''0'', mk_constraint ''SizeCode'' Op_Ne 11 ''11'',
    mk_constraint ''SizeCode'' Op_Ne 12 ''12'', mk_constraint ''SizeCode'' Op_Ne 13 ''13'',
    mk_constraint ''SizeCode'' Op_Ne 14 ''14'', mk_constraint ''SizeCode'' Op_Ne 15 ''15'',
    mk_constraint ''SizeCode'' Op_Ne 0 ''0'', mk_constraint ''SizeCode'' Op_Ne 11 ''11'',
    mk_constraint ''SizeCode'' Op_Ne 12 ''12'', mk_constraint ''SizeCode'' Op_Ne 13 ''13'',
    mk_constraint ''SizeCode'' Op_Ne 14 ''14'', mk_constraint ''SizeCode'' Op_Ne 15 ''15'',
    mk_constraint ''SizeCode'' Op_Ne 0 ''0'', mk_constraint ''SizeCode'' Op_Ne 11 ''11'',
    mk_constraint ''SizeCode'' Op_Ne 12 ''12'', mk_constraint ''SizeCode'' Op_Ne 13 ''13'',
    mk_constraint ''SizeCode'' Op_Ne 14 ''14'', mk_constraint ''SizeCode'' Op_Ne 15 ''15'',
    mk_constraint ''SizeCode'' Op_Ne 0 ''0'', mk_constraint ''SizeCode'' Op_Ne 11 ''11'',
    mk_constraint ''SizeCode'' Op_Ne 12 ''12'', mk_constraint ''SizeCode'' Op_Ne 13 ''13'',
    mk_constraint ''SizeCode'' Op_Ne 14 ''14'', mk_constraint ''SizeCode'' Op_Ne 15 ''15'',
    mk_constraint ''SizeCode'' Op_Ne 0 ''0'', mk_constraint ''SizeCode'' Op_Ne 11 ''11'',
    mk_constraint ''SizeCode'' Op_Ne 12 ''12'', mk_constraint ''SizeCode'' Op_Ne 13 ''13'',
    mk_constraint ''SizeCode'' Op_Ne 14 ''14'', mk_constraint ''SizeCode'' Op_Ne 15 ''15'',
    mk_constraint ''SizeCode'' Op_Ne 0 ''0'', mk_constraint ''SizeCode'' Op_Ne 11 ''11'',
    mk_constraint ''SizeCode'' Op_Ne 12 ''12'', mk_constraint ''SizeCode'' Op_Ne 13 ''13'',
    mk_constraint ''SizeCode'' Op_Ne 14 ''14'', mk_constraint ''SizeCode'' Op_Ne 15 ''15'',
    mk_constraint ''SizeCode'' Op_Ne 0 ''0'', mk_constraint ''SizeCode'' Op_Ne 11 ''11'',
    mk_constraint ''SizeCode'' Op_Ne 12 ''12'', mk_constraint ''SizeCode'' Op_Ne 13 ''13'',
    mk_constraint ''SizeCode'' Op_Ne 14 ''14'', mk_constraint ''SizeCode'' Op_Ne 15 ''15'']"

definition kForms_3 :: "form_desc list" where
  "kForms_3 = [
    mk_form ''2f60297debcb'' ''B.IOT'' ''B.IOT SrcTile0, mask=PE_MASK, <last>, ->DstTile<SizeCode>'' ''L32'' ''Bundle Input & Output'' ''CMD'' ''CMD''
      32 16 0xfc00707f 0x4005013 100 5 147 6,
    mk_form ''10db6db84f5d'' ''B.IOT'' ''B.IOT SrcTile0.reuse, mask=PE_MASK, <last>, ->DstTile<SizeCode>'' ''L32'' ''Bundle Input & Output'' ''CMD'' ''CMD''
      32 16 0xfc00707f 0x5013 105 5 153 6,
    mk_form ''610b3e49f01c'' ''B.IOT'' ''B.IOT SrcTile0, SrcTile1.reuse, mask=PE_MASK, <last>, ->DstTile<SizeCode>'' ''L32'' ''Bundle Input & Output'' ''CMD'' ''CMD''
      32 10 0x707f 0x7013 110 6 159 6,
    mk_form ''6d3f0819f3ed'' ''B.IOT'' ''B.IOT SrcTile0.reuse, SrcTile1, mask=PE_MASK, <last>, ->DstTile<SizeCode>'' ''L32'' ''Bundle Input & Output'' ''CMD'' ''CMD''
      32 10 0x707f 0x3013 116 6 165 6,
    mk_form ''efa0fe3fe49a'' ''B.IOT'' ''B.IOT mask=PE_MASK, <last>, ->DstTile<SizeCode>'' ''L32'' ''Bundle Input & Output'' ''CMD'' ''CMD''
      32 22 0xfff0707f 0x6013 122 4 171 6,
    mk_form ''ba693fbfdca5'' ''B.IOT'' ''B.IOT SrcTile0, SrcTile1, mask=PE_MASK, <last>, ->DstTile<SizeCode>'' ''L32'' ''Bundle Input & Output'' ''CMD'' ''CMD''
      32 10 0x707f 0x2013 126 6 177 6,
    mk_form ''2c07e7177fad'' ''B.IOT'' ''B.IOT SrcTile0.reuse, SrcTile1.reuse, mask=PE_MASK, <last>'' ''L32'' ''Bundle Input & Output'' ''CMD'' ''CMD''
      32 16 0x7f1ff 0x4013 132 4 183 0,
    mk_form ''8b8bce6bffe8'' ''B.IOT'' ''B.IOT SrcTile0.reuse, SrcTile1.reuse, mask=PE_MASK, <last>, ->DstTile<SizeCode>'' ''L32'' ''Bundle Input & Output'' ''CMD'' ''CMD''
      32 10 0x707f 0x4013 136 6 183 6,
    mk_form ''c11eb189dd83'' ''B.IOT'' ''B.IOT SrcTile0.reuse, mask=PE_MASK, <last>'' ''L32'' ''Bundle Input & Output'' ''CMD'' ''CMD''
      32 22 0xfc07f1ff 0x5013 142 3 189 0]"

lemma chunk_3: "walk_forms kForms_3 kFields_3 kFieldPieces_3 kConstraints_3 100 103 147 145 148 189"
  by (simp add: kForms_3_def kFields_3_def kFieldPieces_3_def kConstraints_3_def walk_eval)

lemma length_kForms_3 [simp]: "length kForms_3 = 9"
  by (simp add: kForms_3_def)

definition kFieldPieces_4 :: "piece_desc list" where
  "kFieldPieces_4 = [
    mk_piece 19 1 0, mk_piece 9 3 0, mk_piece 20 6 0, mk_piece 15 5 0, mk_piece 31 1 0, mk_piece 7 4 0,
    mk_piece 20 11 0, mk_piece 7 25 0, mk_piece 15 5 0, mk_piece 7 5 0, mk_piece 15 5 0, mk_piece 20 6 0,
    mk_piece 26 6 0, mk_piece 7 5 0, mk_piece 15 5 0, mk_piece 20 6 0, mk_piece 26 6 0, mk_piece 7 5 0,
    mk_piece 15 5 0, mk_piece 20 6 0, mk_piece 26 6 0, mk_piece 15 5 0]"

definition kFields_4 :: "field_desc list" where
  "kFields_4 = [
    mk_field ''L'' (-1) 1 148 1, mk_field ''PEMode'' (-1) 3 149 1, mk_field ''SrcTile0'' (-1) 6 150 1,
    mk_field ''RegSrc'' (-1) 5 151 1, mk_field ''SrcSelect'' (-1) 1 152 1,
    mk_field ''SubviewSizeCode'' (-1) 4 153 1, mk_field ''uimm11'' 0 11 154 1,
    mk_field ''simm25'' 1 25 155 1, mk_field ''SrcL'' (-1) 5 156 1, mk_field ''RegDst'' (-1) 5 157 1,
    mk_field ''SrcL'' (-1) 5 158 1, mk_field ''imml'' (-1) 6 159 1, mk_field ''imms'' (-1) 6 160 1,
    mk_field ''RegDst'' (-1) 5 161 1, mk_field ''SrcL'' (-1) 5 162 1, mk_field ''imml'' (-1) 6 163 1,
    mk_field ''imms'' (-1) 6 164 1, mk_field ''RegDst'' (-1) 5 165 1, mk_field ''SrcL'' (-1) 5 166 1,
    mk_field ''imml'' (-1) 6 167 1, mk_field ''imms'' (-1) 6 168 1, mk_field ''SrcL'' (-1) 5 169 1]"

definition kConstraints_4 :: "constraint_desc list" where
  "kConstraints_4 = [
    mk_constraint ''RegSrc'' Op_Ne 24 ''24'', mk_constraint ''RegSrc'' Op_Ne 25 ''25'',
    mk_constraint ''RegSrc'' Op_Ne 26 ''26'', mk_constraint ''RegSrc'' Op_Ne 27 ''27'',
    mk_constraint ''RegSrc'' Op_Ne 28 ''28'', mk_constraint ''RegSrc'' Op_Ne 29 ''29'',
    mk_constraint ''RegSrc'' Op_Ne 30 ''30'', mk_constraint ''RegSrc'' Op_Ne 31 ''31'',
    mk_constraint ''SubviewSizeCode'' Op_Ne 0 ''0'', mk_constraint ''SubviewSizeCode'' Op_Ne 13 ''13'',
    mk_constraint ''SubviewSizeCode'' Op_Ne 14 ''14'', mk_constraint ''SubviewSizeCode'' Op_Ne 15 ''15'']"

definition kForms_4 :: "form_desc list" where
  "kForms_4 = [
    mk_form ''ed562ab5801f'' ''B.IOT'' ''B.IOT SrcTile0, mask=PE_MASK, <last>'' ''L32'' ''Bundle Input & Output'' ''CMD'' ''CMD''
      32 22 0xfc07f1ff 0x4005013 145 3 189 0,
    mk_form ''122000000001'' ''B.SUBVIEW'' ''B.SUBVIEW SrcSelect, RegSrc, uimm11, SubviewSizeCode'' ''L32'' ''Bundle Range Modifier'' ''CMD'' ''CMD''
      32 11 0x787f 0x53 148 4 189 12,
    mk_form ''6f2fe6f95841'' ''B.TEXT'' ''B.TEXT <label>'' ''L32'' ''Bundle Offset'' ''CMD'' ''CMD''
      32 7 0x7f 0x3 152 1 201 0,
    mk_form ''fdceb48516a8'' ''BC.IALL'' ''bc.iall'' ''L32'' ''SYS'' ''SYS'' ''SYS''
      32 32 0xffffffff 0x10402b 153 0 201 0,
    mk_form ''c166de534c98'' ''BC.IVA'' ''bc.iva SrcL'' ''L32'' ''SYS'' ''SYS'' ''SYS''
      32 27 0xfff07fff 0x402b 153 1 201 0,
    mk_form ''e0b06e436a5b'' ''BCNT'' ''bcnt srcL,  M, N, ->{t, u, Rd}'' ''L32'' ''ALU'' ''ALU'' ''ALU''
      32 10 0x707f 0x6067 154 4 201 0,
    mk_form ''3a10830a3a93'' ''BIC'' ''bic SrcL, M, N, ->{t, u, Rd}'' ''L32'' ''ALU'' ''ALU'' ''ALU''
      32 10 0x707f 0x2067 158 4 201 0,
    mk_form ''bca5d1a80f32'' ''BIS'' ''bis SrcL, M, N, ->{t, u, Rd}'' ''L32'' ''ALU'' ''ALU'' ''ALU''
      32 10 0x707f 0x3067 162 4 201 0,
    mk_form ''883b5167edbc'' ''BSE'' ''bse SrcL'' ''L32'' ''SYS'' ''SYS'' ''SYS''
      32 27 0xfff07fff 0x2b 166 1 201 0]"

lemma chunk_4: "walk_forms kForms_4 kFields_4 kFieldPieces_4 kConstraints_4 145 148 189 167 170 201"
  by (simp add: kForms_4_def kFields_4_def kFieldPieces_4_def kConstraints_4_def walk_eval)

lemma length_kForms_4 [simp]: "length kForms_4 = 9"
  by (simp add: kForms_4_def)

definition kFieldPieces_5 :: "piece_desc list" where
  "kFieldPieces_5 = [
    mk_piece 7 25 0, mk_piece 7 25 0, mk_piece 15 17 0, mk_piece 15 17 0, mk_piece 15 17 0, mk_piece 27 5 0]"

definition kFields_5 :: "field_desc list" where
  "kFields_5 = [
    mk_field ''simm25'' 1 25 170 1, mk_field ''simm25'' 1 25 171 1, mk_field ''simm17'' 1 17 172 1,
    mk_field ''simm17'' 1 17 173 1, mk_field ''simm17'' 1 17 174 1, mk_field ''DataType'' (-1) 5 175 1]"

definition kConstraints_5 :: "constraint_desc list" where
  "kConstraints_5 = [
    mk_constraint ''DataType'' Op_Ne 15 ''15'', mk_constraint ''DataType'' Op_Ne 21 ''21'',
    mk_constraint ''DataType'' Op_Ne 22 ''22'', mk_constraint ''DataType'' Op_Ne 23 ''23'',
    mk_constraint ''DataType'' Op_Ne 29 ''29'', mk_constraint ''DataType'' Op_Ne 30 ''30'',
    mk_constraint ''DataType'' Op_Ne 31 ''31'']"

definition kForms_5 :: "form_desc list" where
  "kForms_5 = [
    mk_form ''7eb93b649748'' ''BSTART'' ''BSTART DIRECT, <label>'' ''L32'' ''Bundle Split'' ''CMD'' ''CMD''
      32 7 0x7f 0x11 167 1 201 0,
    mk_form ''e11e678a32ac'' ''BSTART'' ''BSTART COND, <label>'' ''L32'' ''Bundle Split'' ''CMD'' ''CMD''
      32 7 0x7f 0x21 168 1 201 0,
    mk_form ''face4f238d84'' ''BSTART.FP'' ''BSTART.FP FALL'' ''L32'' ''Bundle Split'' ''CMD'' ''CMD''
      32 32 0xffffffff 0x1101 169 0 201 0,
    mk_form ''0c671a644214'' ''BSTART.FP'' ''BSTART.FP RET'' ''L32'' ''Bundle Split'' ''CMD'' ''CMD''
      32 32 0xffffffff 0x7101 169 0 201 0,
    mk_form ''d00a708a81f0'' ''BSTART.FP'' ''BSTART.FP DIRECT, <label>'' ''L32'' ''Bundle Split'' ''CMD'' ''CMD''
      32 15 0x7fff 0x2101 169 1 201 0,
    mk_form ''7978795a29a1'' ''BSTART.FP'' ''BSTART.FP IND'' ''L32'' ''Bundle Split'' ''CMD'' ''CMD''
      32 32 0xffffffff 0x5101 170 0 201 0,
    mk_form ''dd7bc8dd694c'' ''BSTART.FP'' ''BSTART.FP CALL, <label>'' ''L32'' ''Bundle Split'' ''CMD'' ''CMD''
      32 15 0x7fff 0x4101 170 1 201 0,
    mk_form ''58ad7954fb49'' ''BSTART.FP'' ''BSTART.FP COND, <label>'' ''L32'' ''Bundle Split'' ''CMD'' ''CMD''
      32 15 0x7fff 0x3101 171 1 201 0,
    mk_form ''6c21e223eaa7'' ''BSTART.GMOV'' ''BSTART.GMOV DataType'' ''L32'' ''Bundle Split'' ''CMD'' ''CMD''
      32 27 0x7ffffff 0xd11181 172 1 201 7]"

lemma chunk_5: "walk_forms kForms_5 kFields_5 kFieldPieces_5 kConstraints_5 167 170 201 173 176 208"
  by (simp add: kForms_5_def kFields_5_def kFieldPieces_5_def kConstraints_5_def walk_eval)

lemma length_kForms_5 [simp]: "length kForms_5 = 9"
  by (simp add: kForms_5_def)

end
