(* ===== verification/Isa_Table_01.thy ===== *)
theory Isa_Table_01
  imports Isa_Check
begin

text \<open>
  Forms 54 to 107 of the arrays of \<^verbatim>\<open>src/isa/generated_tables.cpp\<close> (lines 6396 to 7205), with their fields,
  pieces and constraints, in chunks of at most 9 forms, and the check of each chunk.
\<close>

definition kFieldPieces_6 :: "piece_desc list" where
  "kFieldPieces_6 = [
    mk_piece 22 5 0, mk_piece 27 5 0, mk_piece 27 5 0, mk_piece 27 5 0, mk_piece 27 5 0, mk_piece 27 5 0,
    mk_piece 27 5 0, mk_piece 27 5 0, mk_piece 27 5 0]"

definition kFields_6 :: "field_desc list" where
  "kFields_6 = [
    mk_field ''uimm5'' 0 5 176 1, mk_field ''DataType'' (-1) 5 177 1, mk_field ''DataType'' (-1) 5 178 1,
    mk_field ''DataType'' (-1) 5 179 1, mk_field ''DataType'' (-1) 5 180 1,
    mk_field ''DataType'' (-1) 5 181 1, mk_field ''DataType'' (-1) 5 182 1,
    mk_field ''DataType'' (-1) 5 183 1, mk_field ''DataType'' (-1) 5 184 1]"

definition kConstraints_6 :: "constraint_desc list" where
  "kConstraints_6 = [
    mk_constraint ''DataType'' Op_Ne 15 ''15'', mk_constraint ''DataType'' Op_Ne 21 ''21'',
    mk_constraint ''DataType'' Op_Ne 22 ''22'', mk_constraint ''DataType'' Op_Ne 23 ''23'',
    mk_constraint ''DataType'' Op_Ne 29 ''29'', mk_constraint ''DataType'' Op_Ne 30 ''30'',
    mk_constraint ''DataType'' Op_Ne 31 ''31'', mk_constraint ''DataType'' Op_Ne 15 ''15'',
    mk_constraint ''DataType'' Op_Ne 21 ''21'', mk_constraint ''DataType'' Op_Ne 22 ''22'',
    mk_constraint ''DataType'' Op_Ne 23 ''23'', mk_constraint ''DataType'' Op_Ne 29 ''29'',
    mk_constraint ''DataType'' Op_Ne 30 ''30'', mk_constraint ''DataType'' Op_Ne 31 ''31'',
    mk_constraint ''DataType'' Op_Ne 15 ''15'', mk_constraint ''DataType'' Op_Ne 21 ''21'',
    mk_constraint ''DataType'' Op_Ne 22 ''22'', mk_constraint ''DataType'' Op_Ne 23 ''23'',
    mk_constraint ''DataType'' Op_Ne 29 ''29'', mk_constraint ''DataType'' Op_Ne 30 ''30'',
    mk_constraint ''DataType'' Op_Ne 31 ''31'', mk_constraint ''DataType'' Op_Ne 15 ''15'',
    mk_constraint ''DataType'' Op_Ne 21 ''21'', mk_constraint ''DataType'' Op_Ne 22 ''22'',
    mk_constraint ''DataType'' Op_Ne 23 ''23'', mk_constraint ''DataType'' Op_Ne 29 ''29'',
    mk_constraint ''DataType'' Op_Ne 30 ''30'', mk_constraint ''DataType'' Op_Ne 31 ''31'',
    mk_constraint ''DataType'' Op_Ne 15 ''15'', mk_constraint ''DataType'' Op_Ne 21 ''21'',
    mk_constraint ''DataType'' Op_Ne 22 ''22'', mk_constraint ''DataType'' Op_Ne 23 ''23'',
    mk_constraint ''DataType'' Op_Ne 29 ''29'', mk_constraint ''DataType'' Op_Ne 30 ''30'',
    mk_constraint ''DataType'' Op_Ne 31 ''31'', mk_constraint ''DataType'' Op_Ne 15 ''15'',
    mk_constraint ''DataType'' Op_Ne 21 ''21'', mk_constraint ''DataType'' Op_Ne 22 ''22'',
    mk_constraint ''DataType'' Op_Ne 23 ''23'', mk_constraint ''DataType'' Op_Ne 29 ''29'',
    mk_constraint ''DataType'' Op_Ne 30 ''30'', mk_constraint ''DataType'' Op_Ne 31 ''31'',
    mk_constraint ''DataType'' Op_Ne 15 ''15'', mk_constraint ''DataType'' Op_Ne 21 ''21'',
    mk_constraint ''DataType'' Op_Ne 22 ''22'', mk_constraint ''DataType'' Op_Ne 23 ''23'',
    mk_constraint ''DataType'' Op_Ne 29 ''29'', mk_constraint ''DataType'' Op_Ne 30 ''30'',
    mk_constraint ''DataType'' Op_Ne 31 ''31'', mk_constraint ''DataType'' Op_Ne 15 ''15'',
    mk_constraint ''DataType'' Op_Ne 21 ''21'', mk_constraint ''DataType'' Op_Ne 22 ''22'',
    mk_constraint ''DataType'' Op_Ne 23 ''23'', mk_constraint ''DataType'' Op_Ne 29 ''29'',
    mk_constraint ''DataType'' Op_Ne 30 ''30'', mk_constraint ''DataType'' Op_Ne 31 ''31'']"

definition kForms_6 :: "form_desc list" where
  "kForms_6 = [
    mk_form ''ae989925e2df'' ''BSTART.ICALL'' ''BSTART.ICALL <rt_label>, ->ra'' ''L32'' ''BSTART'' ''BBD'' ''BBD''
      32 27 0xf83fffff 0x50166001 173 1 208 0,
    mk_form ''c9defbf18276'' ''BSTART.MGATHER'' ''BSTART.MGATHER DataType'' ''L32'' ''Bundle Split'' ''CMD'' ''CMD''
      32 27 0x7ffffff 0x411181 174 1 208 7,
    mk_form ''088f8627077f'' ''BSTART.MGATHER.ADD'' ''BSTART.MGATHER.ADD DataType'' ''L32'' ''Bundle Split'' ''CMD'' ''CMD''
      32 27 0x7ffffff 0xc11181 175 1 215 7,
    mk_form ''232d20899377'' ''BSTART.MGATHER.AND'' ''BSTART.MGATHER.AND DataType'' ''L32'' ''Bundle Split'' ''CMD'' ''CMD''
      32 27 0x7ffffff 0x1011181 176 1 222 7,
    mk_form ''fd8c8a3b720a'' ''BSTART.MGATHER.CAS'' ''BSTART.MGATHER.CAS DataType'' ''L32'' ''Bundle Split'' ''CMD'' ''CMD''
      32 27 0x7ffffff 0x811181 177 1 229 7,
    mk_form ''a4404f381481'' ''BSTART.MGATHER.DEC'' ''BSTART.MGATHER.DEC DataType'' ''L32'' ''Bundle Split'' ''CMD'' ''CMD''
      32 27 0x7ffffff 0xf11181 178 1 236 7,
    mk_form ''c3ad9cf2ffd3'' ''BSTART.MGATHER.EXCH'' ''BSTART.MGATHER.EXCH DataType'' ''L32'' ''Bundle Split'' ''CMD'' ''CMD''
      32 27 0x7ffffff 0x911181 179 1 243 7,
    mk_form ''da1952ec2a27'' ''BSTART.MGATHER.INC'' ''BSTART.MGATHER.INC DataType'' ''L32'' ''Bundle Split'' ''CMD'' ''CMD''
      32 27 0x7ffffff 0xe11181 180 1 250 7,
    mk_form ''5573241cd944'' ''BSTART.MGATHER.MASK'' ''BSTART.MGATHER.MASK DataType'' ''L32'' ''Bundle Split'' ''CMD'' ''CMD''
      32 27 0x7ffffff 0x611181 181 1 257 7]"

lemma chunk_6: "walk_forms kForms_6 kFields_6 kFieldPieces_6 kConstraints_6 173 176 208 182 185 264"
  by (simp add: kForms_6_def kFields_6_def kFieldPieces_6_def kConstraints_6_def walk_eval)

lemma length_kForms_6 [simp]: "length kForms_6 = 9"
  by (simp add: kForms_6_def)

definition kFieldPieces_7 :: "piece_desc list" where
  "kFieldPieces_7 = [
    mk_piece 27 5 0, mk_piece 27 5 0, mk_piece 27 5 0, mk_piece 27 5 0, mk_piece 25 2 0, mk_piece 27 5 0,
    mk_piece 27 5 0, mk_piece 27 5 0, mk_piece 27 5 0]"

definition kFields_7 :: "field_desc list" where
  "kFields_7 = [
    mk_field ''DataType'' (-1) 5 185 1, mk_field ''DataType'' (-1) 5 186 1,
    mk_field ''DataType'' (-1) 5 187 1, mk_field ''DataType'' (-1) 5 188 1, mk_field ''Mode'' (-1) 2 189 1,
    mk_field ''DataType'' (-1) 5 190 1, mk_field ''DataType'' (-1) 5 191 1,
    mk_field ''DataType'' (-1) 5 192 1, mk_field ''DataType'' (-1) 5 193 1]"

definition kConstraints_7 :: "constraint_desc list" where
  "kConstraints_7 = [
    mk_constraint ''DataType'' Op_Ne 15 ''15'', mk_constraint ''DataType'' Op_Ne 21 ''21'',
    mk_constraint ''DataType'' Op_Ne 22 ''22'', mk_constraint ''DataType'' Op_Ne 23 ''23'',
    mk_constraint ''DataType'' Op_Ne 29 ''29'', mk_constraint ''DataType'' Op_Ne 30 ''30'',
    mk_constraint ''DataType'' Op_Ne 31 ''31'', mk_constraint ''DataType'' Op_Ne 15 ''15'',
    mk_constraint ''DataType'' Op_Ne 21 ''21'', mk_constraint ''DataType'' Op_Ne 22 ''22'',
    mk_constraint ''DataType'' Op_Ne 23 ''23'', mk_constraint ''DataType'' Op_Ne 29 ''29'',
    mk_constraint ''DataType'' Op_Ne 30 ''30'', mk_constraint ''DataType'' Op_Ne 31 ''31'',
    mk_constraint ''DataType'' Op_Ne 15 ''15'', mk_constraint ''DataType'' Op_Ne 21 ''21'',
    mk_constraint ''DataType'' Op_Ne 22 ''22'', mk_constraint ''DataType'' Op_Ne 23 ''23'',
    mk_constraint ''DataType'' Op_Ne 29 ''29'', mk_constraint ''DataType'' Op_Ne 30 ''30'',
    mk_constraint ''DataType'' Op_Ne 31 ''31'', mk_constraint ''DataType'' Op_Ne 15 ''15'',
    mk_constraint ''DataType'' Op_Ne 21 ''21'', mk_constraint ''DataType'' Op_Ne 22 ''22'',
    mk_constraint ''DataType'' Op_Ne 23 ''23'', mk_constraint ''DataType'' Op_Ne 29 ''29'',
    mk_constraint ''DataType'' Op_Ne 30 ''30'', mk_constraint ''DataType'' Op_Ne 31 ''31'',
    mk_constraint ''DataType'' Op_Ne 15 ''15'', mk_constraint ''DataType'' Op_Ne 21 ''21'',
    mk_constraint ''DataType'' Op_Ne 22 ''22'', mk_constraint ''DataType'' Op_Ne 23 ''23'',
    mk_constraint ''DataType'' Op_Ne 29 ''29'', mk_constraint ''DataType'' Op_Ne 30 ''30'',
    mk_constraint ''DataType'' Op_Ne 31 ''31'', mk_constraint ''DataType'' Op_Ne 15 ''15'',
    mk_constraint ''DataType'' Op_Ne 21 ''21'', mk_constraint ''DataType'' Op_Ne 22 ''22'',
    mk_constraint ''DataType'' Op_Ne 23 ''23'', mk_constraint ''DataType'' Op_Ne 29 ''29'',
    mk_constraint ''DataType'' Op_Ne 30 ''30'', mk_constraint ''DataType'' Op_Ne 31 ''31'',
    mk_constraint ''DataType'' Op_Ne 15 ''15'', mk_constraint ''DataType'' Op_Ne 21 ''21'',
    mk_constraint ''DataType'' Op_Ne 22 ''22'', mk_constraint ''DataType'' Op_Ne 23 ''23'',
    mk_constraint ''DataType'' Op_Ne 29 ''29'', mk_constraint ''DataType'' Op_Ne 30 ''30'',
    mk_constraint ''DataType'' Op_Ne 31 ''31'', mk_constraint ''DataType'' Op_Ne 15 ''15'',
    mk_constraint ''DataType'' Op_Ne 21 ''21'', mk_constraint ''DataType'' Op_Ne 22 ''22'',
    mk_constraint ''DataType'' Op_Ne 23 ''23'', mk_constraint ''DataType'' Op_Ne 29 ''29'',
    mk_constraint ''DataType'' Op_Ne 30 ''30'', mk_constraint ''DataType'' Op_Ne 31 ''31'']"

definition kForms_7 :: "form_desc list" where
  "kForms_7 = [
    mk_form ''e8ab09c078b5'' ''BSTART.MGATHER.MAX'' ''BSTART.MGATHER.MAX DataType'' ''L32'' ''Bundle Split'' ''CMD'' ''CMD''
      32 27 0x7ffffff 0xa11181 182 1 264 7,
    mk_form ''aade0e4a1ded'' ''BSTART.MGATHER.MIN'' ''BSTART.MGATHER.MIN DataType'' ''L32'' ''Bundle Split'' ''CMD'' ''CMD''
      32 27 0x7ffffff 0xb11181 183 1 271 7,
    mk_form ''0c2334253cc3'' ''BSTART.MGATHER.OR'' ''BSTART.MGATHER.OR DataType'' ''L32'' ''Bundle Split'' ''CMD'' ''CMD''
      32 27 0x7ffffff 0x1111181 184 1 278 7,
    mk_form ''f8b9f1a43450'' ''BSTART.MGATHER.XOR'' ''BSTART.MGATHER.XOR DataType'' ''L32'' ''Bundle Split'' ''CMD'' ''CMD''
      32 27 0x7ffffff 0x1211181 185 1 285 7,
    mk_form ''beccb0565e7d'' ''BSTART.MPAR'' ''BSTART.MPAR <VS8, VS16>'' ''L32'' ''Bundle Split'' ''CMD'' ''CMD''
      32 30 0xf9ffffff 0x1181 186 1 292 0,
    mk_form ''0f0ba08bd798'' ''BSTART.MSCATTER'' ''BSTART.MSCATTER DataType'' ''L32'' ''Bundle Split'' ''CMD'' ''CMD''
      32 27 0x7ffffff 0x511181 187 1 292 7,
    mk_form ''f0caf08d9183'' ''BSTART.MSCATTER.ADD'' ''BSTART.MSCATTER.ADD DataType'' ''L32'' ''Bundle Split'' ''CMD'' ''CMD''
      32 27 0x7ffffff 0x1511181 188 1 299 7,
    mk_form ''035c8fd2a29c'' ''BSTART.MSCATTER.AND'' ''BSTART.MSCATTER.AND DataType'' ''L32'' ''Bundle Split'' ''CMD'' ''CMD''
      32 27 0x7ffffff 0x1811181 189 1 306 7,
    mk_form ''d307499ccedc'' ''BSTART.MSCATTER.DEC'' ''BSTART.MSCATTER.DEC DataType'' ''L32'' ''Bundle Split'' ''CMD'' ''CMD''
      32 27 0x7ffffff 0x1711181 190 1 313 7]"

lemma chunk_7: "walk_forms kForms_7 kFields_7 kFieldPieces_7 kConstraints_7 182 185 264 191 194 320"
  by (simp add: kForms_7_def kFields_7_def kFieldPieces_7_def kConstraints_7_def walk_eval)

lemma length_kForms_7 [simp]: "length kForms_7 = 9"
  by (simp add: kForms_7_def)

definition kFieldPieces_8 :: "piece_desc list" where
  "kFieldPieces_8 = [
    mk_piece 27 5 0, mk_piece 27 5 0, mk_piece 27 5 0, mk_piece 27 5 0, mk_piece 27 5 0, mk_piece 27 5 0,
    mk_piece 27 5 0, mk_piece 25 2 0]"

definition kFields_8 :: "field_desc list" where
  "kFields_8 = [
    mk_field ''DataType'' (-1) 5 194 1, mk_field ''DataType'' (-1) 5 195 1,
    mk_field ''DataType'' (-1) 5 196 1, mk_field ''DataType'' (-1) 5 197 1,
    mk_field ''DataType'' (-1) 5 198 1, mk_field ''DataType'' (-1) 5 199 1,
    mk_field ''DataType'' (-1) 5 200 1, mk_field ''Mode'' (-1) 2 201 1]"

definition kConstraints_8 :: "constraint_desc list" where
  "kConstraints_8 = [
    mk_constraint ''DataType'' Op_Ne 15 ''15'', mk_constraint ''DataType'' Op_Ne 21 ''21'',
    mk_constraint ''DataType'' Op_Ne 22 ''22'', mk_constraint ''DataType'' Op_Ne 23 ''23'',
    mk_constraint ''DataType'' Op_Ne 29 ''29'', mk_constraint ''DataType'' Op_Ne 30 ''30'',
    mk_constraint ''DataType'' Op_Ne 31 ''31'', mk_constraint ''DataType'' Op_Ne 15 ''15'',
    mk_constraint ''DataType'' Op_Ne 21 ''21'', mk_constraint ''DataType'' Op_Ne 22 ''22'',
    mk_constraint ''DataType'' Op_Ne 23 ''23'', mk_constraint ''DataType'' Op_Ne 29 ''29'',
    mk_constraint ''DataType'' Op_Ne 30 ''30'', mk_constraint ''DataType'' Op_Ne 31 ''31'',
    mk_constraint ''DataType'' Op_Ne 15 ''15'', mk_constraint ''DataType'' Op_Ne 21 ''21'',
    mk_constraint ''DataType'' Op_Ne 22 ''22'', mk_constraint ''DataType'' Op_Ne 23 ''23'',
    mk_constraint ''DataType'' Op_Ne 29 ''29'', mk_constraint ''DataType'' Op_Ne 30 ''30'',
    mk_constraint ''DataType'' Op_Ne 31 ''31'', mk_constraint ''DataType'' Op_Ne 15 ''15'',
    mk_constraint ''DataType'' Op_Ne 21 ''21'', mk_constraint ''DataType'' Op_Ne 22 ''22'',
    mk_constraint ''DataType'' Op_Ne 23 ''23'', mk_constraint ''DataType'' Op_Ne 29 ''29'',
    mk_constraint ''DataType'' Op_Ne 30 ''30'', mk_constraint ''DataType'' Op_Ne 31 ''31'',
    mk_constraint ''DataType'' Op_Ne 15 ''15'', mk_constraint ''DataType'' Op_Ne 21 ''21'',
    mk_constraint ''DataType'' Op_Ne 22 ''22'', mk_constraint ''DataType'' Op_Ne 23 ''23'',
    mk_constraint ''DataType'' Op_Ne 29 ''29'', mk_constraint ''DataType'' Op_Ne 30 ''30'',
    mk_constraint ''DataType'' Op_Ne 31 ''31'', mk_constraint ''DataType'' Op_Ne 15 ''15'',
    mk_constraint ''DataType'' Op_Ne 21 ''21'', mk_constraint ''DataType'' Op_Ne 22 ''22'',
    mk_constraint ''DataType'' Op_Ne 23 ''23'', mk_constraint ''DataType'' Op_Ne 29 ''29'',
    mk_constraint ''DataType'' Op_Ne 30 ''30'', mk_constraint ''DataType'' Op_Ne 31 ''31'',
    mk_constraint ''DataType'' Op_Ne 15 ''15'', mk_constraint ''DataType'' Op_Ne 21 ''21'',
    mk_constraint ''DataType'' Op_Ne 22 ''22'', mk_constraint ''DataType'' Op_Ne 23 ''23'',
    mk_constraint ''DataType'' Op_Ne 29 ''29'', mk_constraint ''DataType'' Op_Ne 30 ''30'',
    mk_constraint ''DataType'' Op_Ne 31 ''31'']"

definition kForms_8 :: "form_desc list" where
  "kForms_8 = [
    mk_form ''2c10d5f5e1af'' ''BSTART.MSCATTER.INC'' ''BSTART.MSCATTER.INC DataType'' ''L32'' ''Bundle Split'' ''CMD'' ''CMD''
      32 27 0x7ffffff 0x1611181 191 1 320 7,
    mk_form ''2a33eed646f7'' ''BSTART.MSCATTER.MASK'' ''BSTART.MSCATTER.MASK DataType'' ''L32'' ''Bundle Split'' ''CMD'' ''CMD''
      32 27 0x7ffffff 0x711181 192 1 327 7,
    mk_form ''7d06140ba225'' ''BSTART.MSCATTER.MAX'' ''BSTART.MSCATTER.MAX DataType'' ''L32'' ''Bundle Split'' ''CMD'' ''CMD''
      32 27 0x7ffffff 0x1311181 193 1 334 7,
    mk_form ''1a9b89a73ebc'' ''BSTART.MSCATTER.MIN'' ''BSTART.MSCATTER.MIN DataType'' ''L32'' ''Bundle Split'' ''CMD'' ''CMD''
      32 27 0x7ffffff 0x1411181 194 1 341 7,
    mk_form ''344e52424e47'' ''BSTART.MSCATTER.OR'' ''BSTART.MSCATTER.OR DataType'' ''L32'' ''Bundle Split'' ''CMD'' ''CMD''
      32 27 0x7ffffff 0x1911181 195 1 348 7,
    mk_form ''97e1aec263ac'' ''BSTART.MSCATTER.POPC'' ''BSTART.MSCATTER.POPC DataType'' ''L32'' ''Bundle Split'' ''CMD'' ''CMD''
      32 27 0x7ffffff 0x1b11181 196 1 355 7,
    mk_form ''fa03881618df'' ''BSTART.MSCATTER.XOR'' ''BSTART.MSCATTER.XOR DataType'' ''L32'' ''Bundle Split'' ''CMD'' ''CMD''
      32 27 0x7ffffff 0x1a11181 197 1 362 7,
    mk_form ''2cdcceaf89d4'' ''BSTART.MSEQ'' ''BSTART.MSEQ <VS8, VS16>'' ''L32'' ''Bundle Split'' ''CMD'' ''CMD''
      32 30 0xf9ffffff 0x9181 198 1 369 0,
    mk_form ''441ad677fffe'' ''BSTART.STD'' ''BSTART.STD FALL'' ''L32'' ''Bundle Split'' ''CMD'' ''CMD''
      32 32 0xffffffff 0x1001 199 0 369 0]"

lemma chunk_8: "walk_forms kForms_8 kFields_8 kFieldPieces_8 kConstraints_8 191 194 320 199 202 369"
  by (simp add: kForms_8_def kFields_8_def kFieldPieces_8_def kConstraints_8_def walk_eval)

lemma length_kForms_8 [simp]: "length kForms_8 = 9"
  by (simp add: kForms_8_def)

definition kFieldPieces_9 :: "piece_desc list" where
  "kFieldPieces_9 = [
    mk_piece 15 17 0, mk_piece 15 17 0, mk_piece 15 17 0, mk_piece 27 5 0, mk_piece 20 5 0, mk_piece 25 2 0,
    mk_piece 27 5 0, mk_piece 27 5 0]"

definition kFields_9 :: "field_desc list" where
  "kFields_9 = [
    mk_field ''simm17'' 1 17 202 1, mk_field ''simm17'' 1 17 203 1, mk_field ''simm17'' 1 17 204 1,
    mk_field ''DataType'' (-1) 5 205 1, mk_field ''Function'' (-1) 5 206 1, mk_field ''Mode'' (-1) 2 207 1,
    mk_field ''DataType'' (-1) 5 208 1, mk_field ''DataType'' (-1) 5 209 1]"

definition kConstraints_9 :: "constraint_desc list" where
  "kConstraints_9 = [
    mk_constraint ''DataType'' Op_Ne 22 ''22'', mk_constraint ''DataType'' Op_Ne 23 ''23'',
    mk_constraint ''DataType'' Op_Ne 29 ''29'', mk_constraint ''DataType'' Op_Ne 30 ''30'',
    mk_constraint ''DataType'' Op_Ne 31 ''31'', mk_constraint ''DataType'' Op_Ne 15 ''15'',
    mk_constraint ''DataType'' Op_Ne 21 ''21'', mk_constraint ''DataType'' Op_Ne 22 ''22'',
    mk_constraint ''DataType'' Op_Ne 23 ''23'', mk_constraint ''DataType'' Op_Ne 29 ''29'',
    mk_constraint ''DataType'' Op_Ne 30 ''30'', mk_constraint ''DataType'' Op_Ne 31 ''31'',
    mk_constraint ''DataType'' Op_Ne 15 ''15'', mk_constraint ''DataType'' Op_Ne 21 ''21'',
    mk_constraint ''DataType'' Op_Ne 22 ''22'', mk_constraint ''DataType'' Op_Ne 23 ''23'',
    mk_constraint ''DataType'' Op_Ne 29 ''29'', mk_constraint ''DataType'' Op_Ne 30 ''30'',
    mk_constraint ''DataType'' Op_Ne 31 ''31'']"

definition kForms_9 :: "form_desc list" where
  "kForms_9 = [
    mk_form ''986b7ee2cf6a'' ''BSTART.STD'' ''BSTART.STD IND'' ''L32'' ''Bundle Split'' ''CMD'' ''CMD''
      32 32 0xffffffff 0x5001 199 0 369 0,
    mk_form ''1ef99c4cedcb'' ''BSTART.STD'' ''BSTART.STD COND, <label>'' ''L32'' ''Bundle Split'' ''CMD'' ''CMD''
      32 15 0x7fff 0x3001 199 1 369 0,
    mk_form ''816dfa76cc4a'' ''BSTART.STD'' ''BSTART.STD RET'' ''L32'' ''Bundle Split'' ''CMD'' ''CMD''
      32 32 0xffffffff 0x7001 200 0 369 0,
    mk_form ''b05390d367cf'' ''BSTART.STD'' ''BSTART.STD CALL, <label>'' ''L32'' ''Bundle Split'' ''CMD'' ''CMD''
      32 15 0x7fff 0x4001 200 1 369 0,
    mk_form ''c1de85e06878'' ''BSTART.STD'' ''BSTART.STD DIRECT, <label>'' ''L32'' ''Bundle Split'' ''CMD'' ''CMD''
      32 15 0x7fff 0x2001 201 1 369 0,
    mk_form ''762d9d84a6d8'' ''BSTART.SYS'' ''BSTART.SYS FALL'' ''L32'' ''Bundle Split'' ''CMD'' ''CMD''
      32 32 0xffffffff 0x1081 202 0 369 0,
    mk_form ''d022db6dacb3'' ''BSTART.TEPL'' ''BSTART.TEPL Mode, Function, DataType'' ''L32'' ''Bundle Split'' ''CMD'' ''CMD''
      32 20 0xfffff 0x19181 202 3 369 5,
    mk_form ''ae19f5b678f5'' ''BSTART.TGEMV'' ''BSTART.TGEMV DataType'' ''L32'' ''Bundle Split'' ''CMD'' ''CMD''
      32 27 0x7ffffff 0x1031181 205 1 374 7,
    mk_form ''9a471b21913e'' ''BSTART.TGEMV.ACC'' ''BSTART.TGEMV.ACC DataType'' ''L32'' ''Bundle Split'' ''CMD'' ''CMD''
      32 27 0x7ffffff 0x1231181 206 1 381 7]"

lemma chunk_9: "walk_forms kForms_9 kFields_9 kFieldPieces_9 kConstraints_9 199 202 369 207 210 388"
  by (simp add: kForms_9_def kFields_9_def kFieldPieces_9_def kConstraints_9_def walk_eval)

lemma length_kForms_9 [simp]: "length kForms_9 = 9"
  by (simp add: kForms_9_def)

definition kFieldPieces_10 :: "piece_desc list" where
  "kFieldPieces_10 = [
    mk_piece 27 5 0, mk_piece 27 5 0, mk_piece 27 5 0, mk_piece 27 5 0, mk_piece 27 5 0, mk_piece 27 5 0,
    mk_piece 27 5 0, mk_piece 27 5 0, mk_piece 27 5 0]"

definition kFields_10 :: "field_desc list" where
  "kFields_10 = [
    mk_field ''DataType'' (-1) 5 210 1, mk_field ''DataType'' (-1) 5 211 1,
    mk_field ''DataType'' (-1) 5 212 1, mk_field ''DataType'' (-1) 5 213 1,
    mk_field ''DataType'' (-1) 5 214 1, mk_field ''DataType'' (-1) 5 215 1,
    mk_field ''DataType'' (-1) 5 216 1, mk_field ''DataType'' (-1) 5 217 1, mk_field ''DataType'' (-1) 5 218 1]"

definition kConstraints_10 :: "constraint_desc list" where
  "kConstraints_10 = [
    mk_constraint ''DataType'' Op_Ne 15 ''15'', mk_constraint ''DataType'' Op_Ne 21 ''21'',
    mk_constraint ''DataType'' Op_Ne 22 ''22'', mk_constraint ''DataType'' Op_Ne 23 ''23'',
    mk_constraint ''DataType'' Op_Ne 29 ''29'', mk_constraint ''DataType'' Op_Ne 30 ''30'',
    mk_constraint ''DataType'' Op_Ne 31 ''31'', mk_constraint ''DataType'' Op_Ne 15 ''15'',
    mk_constraint ''DataType'' Op_Ne 21 ''21'', mk_constraint ''DataType'' Op_Ne 22 ''22'',
    mk_constraint ''DataType'' Op_Ne 23 ''23'', mk_constraint ''DataType'' Op_Ne 29 ''29'',
    mk_constraint ''DataType'' Op_Ne 30 ''30'', mk_constraint ''DataType'' Op_Ne 31 ''31'',
    mk_constraint ''DataType'' Op_Ne 15 ''15'', mk_constraint ''DataType'' Op_Ne 21 ''21'',
    mk_constraint ''DataType'' Op_Ne 22 ''22'', mk_constraint ''DataType'' Op_Ne 23 ''23'',
    mk_constraint ''DataType'' Op_Ne 29 ''29'', mk_constraint ''DataType'' Op_Ne 30 ''30'',
    mk_constraint ''DataType'' Op_Ne 31 ''31'', mk_constraint ''DataType'' Op_Ne 15 ''15'',
    mk_constraint ''DataType'' Op_Ne 21 ''21'', mk_constraint ''DataType'' Op_Ne 22 ''22'',
    mk_constraint ''DataType'' Op_Ne 23 ''23'', mk_constraint ''DataType'' Op_Ne 29 ''29'',
    mk_constraint ''DataType'' Op_Ne 30 ''30'', mk_constraint ''DataType'' Op_Ne 31 ''31'',
    mk_constraint ''DataType'' Op_Ne 0 ''0'', mk_constraint ''DataType'' Op_Ne 9 ''9'',
    mk_constraint ''DataType'' Op_Ne 10 ''10'', mk_constraint ''DataType'' Op_Ne 11 ''11'',
    mk_constraint ''DataType'' Op_Ne 12 ''12'', mk_constraint ''DataType'' Op_Ne 14 ''14'',
    mk_constraint ''DataType'' Op_Ne 15 ''15'', mk_constraint ''DataType'' Op_Ne 16 ''16'',
    mk_constraint ''DataType'' Op_Ne 20 ''20'', mk_constraint ''DataType'' Op_Ne 21 ''21'',
    mk_constraint ''DataType'' Op_Ne 22 ''22'', mk_constraint ''DataType'' Op_Ne 23 ''23'',
    mk_constraint ''DataType'' Op_Ne 24 ''24'', mk_constraint ''DataType'' Op_Ne 28 ''28'',
    mk_constraint ''DataType'' Op_Ne 29 ''29'', mk_constraint ''DataType'' Op_Ne 30 ''30'',
    mk_constraint ''DataType'' Op_Ne 31 ''31'', mk_constraint ''DataType'' Op_Ne 15 ''15'',
    mk_constraint ''DataType'' Op_Ne 21 ''21'', mk_constraint ''DataType'' Op_Ne 22 ''22'',
    mk_constraint ''DataType'' Op_Ne 23 ''23'', mk_constraint ''DataType'' Op_Ne 29 ''29'',
    mk_constraint ''DataType'' Op_Ne 30 ''30'', mk_constraint ''DataType'' Op_Ne 31 ''31'',
    mk_constraint ''DataType'' Op_Ne 15 ''15'', mk_constraint ''DataType'' Op_Ne 21 ''21'',
    mk_constraint ''DataType'' Op_Ne 22 ''22'', mk_constraint ''DataType'' Op_Ne 23 ''23'',
    mk_constraint ''DataType'' Op_Ne 29 ''29'', mk_constraint ''DataType'' Op_Ne 30 ''30'',
    mk_constraint ''DataType'' Op_Ne 31 ''31'', mk_constraint ''DataType'' Op_Ne 15 ''15'',
    mk_constraint ''DataType'' Op_Ne 21 ''21'', mk_constraint ''DataType'' Op_Ne 22 ''22'',
    mk_constraint ''DataType'' Op_Ne 23 ''23'', mk_constraint ''DataType'' Op_Ne 29 ''29'',
    mk_constraint ''DataType'' Op_Ne 30 ''30'', mk_constraint ''DataType'' Op_Ne 31 ''31'',
    mk_constraint ''DataType'' Op_Ne 15 ''15'', mk_constraint ''DataType'' Op_Ne 21 ''21'',
    mk_constraint ''DataType'' Op_Ne 22 ''22'', mk_constraint ''DataType'' Op_Ne 23 ''23'',
    mk_constraint ''DataType'' Op_Ne 29 ''29'', mk_constraint ''DataType'' Op_Ne 30 ''30'',
    mk_constraint ''DataType'' Op_Ne 31 ''31'']"

definition kForms_10 :: "form_desc list" where
  "kForms_10 = [
    mk_form ''186ee96c0a8b'' ''BSTART.TGEMV.BIAS'' ''BSTART.TGEMV.BIAS DataType'' ''L32'' ''Bundle Split'' ''CMD'' ''CMD''
      32 27 0x7ffffff 0x1131181 207 1 388 7,
    mk_form ''ae5e005f6589'' ''BSTART.TGEMVMX'' ''BSTART.TGEMVMX DataType'' ''L32'' ''Bundle Split'' ''CMD'' ''CMD''
      32 27 0x7ffffff 0x1431181 208 1 395 7,
    mk_form ''368647b04bb0'' ''BSTART.TGEMVMX.ACC'' ''BSTART.TGEMVMX.ACC DataType'' ''L32'' ''Bundle Split'' ''CMD'' ''CMD''
      32 27 0x7ffffff 0x1631181 209 1 402 7,
    mk_form ''d23011f15171'' ''BSTART.TGEMVMX.BIAS'' ''BSTART.TGEMVMX.BIAS DataType'' ''L32'' ''Bundle Split'' ''CMD'' ''CMD''
      32 27 0x7ffffff 0x1531181 210 1 409 7,
    mk_form ''7a0f8d6c3e21'' ''BSTART.TIMG2COL'' ''BSTART.TIMG2COL DataType'' ''L32'' ''Bundle Split'' ''CMD'' ''CMD''
      32 27 0x7ffffff 0x1c11181 211 1 416 17,
    mk_form ''d0c18bb0ab15'' ''BSTART.TLOAD'' ''BSTART.TLOAD DataType'' ''L32'' ''Bundle Split'' ''CMD'' ''CMD''
      32 27 0x7ffffff 0x11181 212 1 433 7,
    mk_form ''f9da70e4e0ad'' ''BSTART.TMATMUL'' ''BSTART.TMATMUL DataType'' ''L32'' ''Bundle Split'' ''CMD'' ''CMD''
      32 27 0x7ffffff 0x31181 213 1 440 7,
    mk_form ''0c8c62e5f00a'' ''BSTART.TMATMUL.ACC'' ''BSTART.TMATMUL.ACC DataType'' ''L32'' ''Bundle Split'' ''CMD'' ''CMD''
      32 27 0x7ffffff 0x231181 214 1 447 7,
    mk_form ''4d5a498d12f3'' ''BSTART.TMATMUL.BIAS'' ''BSTART.TMATMUL.BIAS DataType'' ''L32'' ''Bundle Split'' ''CMD'' ''CMD''
      32 27 0x7ffffff 0x131181 215 1 454 7]"

lemma chunk_10: "walk_forms kForms_10 kFields_10 kFieldPieces_10 kConstraints_10 207 210 388 216 219 461"
  by (simp add: kForms_10_def kFields_10_def kFieldPieces_10_def kConstraints_10_def walk_eval)

lemma length_kForms_10 [simp]: "length kForms_10 = 9"
  by (simp add: kForms_10_def)

definition kFieldPieces_11 :: "piece_desc list" where
  "kFieldPieces_11 = [
    mk_piece 27 5 0, mk_piece 27 5 0, mk_piece 27 5 0, mk_piece 27 5 0, mk_piece 27 5 0, mk_piece 27 5 0,
    mk_piece 25 2 0, mk_piece 25 2 0]"

definition kFields_11 :: "field_desc list" where
  "kFields_11 = [
    mk_field ''DataType'' (-1) 5 219 1, mk_field ''DataType'' (-1) 5 220 1,
    mk_field ''DataType'' (-1) 5 221 1, mk_field ''DataType'' (-1) 5 222 1,
    mk_field ''DataType'' (-1) 5 223 1, mk_field ''DataType'' (-1) 5 224 1, mk_field ''Mode'' (-1) 2 225 1,
    mk_field ''Mode'' (-1) 2 226 1]"

definition kConstraints_11 :: "constraint_desc list" where
  "kConstraints_11 = [
    mk_constraint ''DataType'' Op_Ne 15 ''15'', mk_constraint ''DataType'' Op_Ne 21 ''21'',
    mk_constraint ''DataType'' Op_Ne 22 ''22'', mk_constraint ''DataType'' Op_Ne 23 ''23'',
    mk_constraint ''DataType'' Op_Ne 29 ''29'', mk_constraint ''DataType'' Op_Ne 30 ''30'',
    mk_constraint ''DataType'' Op_Ne 31 ''31'', mk_constraint ''DataType'' Op_Ne 15 ''15'',
    mk_constraint ''DataType'' Op_Ne 21 ''21'', mk_constraint ''DataType'' Op_Ne 22 ''22'',
    mk_constraint ''DataType'' Op_Ne 23 ''23'', mk_constraint ''DataType'' Op_Ne 29 ''29'',
    mk_constraint ''DataType'' Op_Ne 30 ''30'', mk_constraint ''DataType'' Op_Ne 31 ''31'',
    mk_constraint ''DataType'' Op_Ne 15 ''15'', mk_constraint ''DataType'' Op_Ne 21 ''21'',
    mk_constraint ''DataType'' Op_Ne 22 ''22'', mk_constraint ''DataType'' Op_Ne 23 ''23'',
    mk_constraint ''DataType'' Op_Ne 29 ''29'', mk_constraint ''DataType'' Op_Ne 30 ''30'',
    mk_constraint ''DataType'' Op_Ne 31 ''31'', mk_constraint ''DataType'' Op_Ne 15 ''15'',
    mk_constraint ''DataType'' Op_Ne 21 ''21'', mk_constraint ''DataType'' Op_Ne 22 ''22'',
    mk_constraint ''DataType'' Op_Ne 23 ''23'', mk_constraint ''DataType'' Op_Ne 29 ''29'',
    mk_constraint ''DataType'' Op_Ne 30 ''30'', mk_constraint ''DataType'' Op_Ne 15 ''15'',
    mk_constraint ''DataType'' Op_Ne 21 ''21'', mk_constraint ''DataType'' Op_Ne 22 ''22'',
    mk_constraint ''DataType'' Op_Ne 23 ''23'', mk_constraint ''DataType'' Op_Ne 29 ''29'',
    mk_constraint ''DataType'' Op_Ne 30 ''30'', mk_constraint ''DataType'' Op_Ne 31 ''31'',
    mk_constraint ''DataType'' Op_Ne 15 ''15'', mk_constraint ''DataType'' Op_Ne 21 ''21'',
    mk_constraint ''DataType'' Op_Ne 22 ''22'', mk_constraint ''DataType'' Op_Ne 23 ''23'',
    mk_constraint ''DataType'' Op_Ne 29 ''29'', mk_constraint ''DataType'' Op_Ne 30 ''30'',
    mk_constraint ''DataType'' Op_Ne 31 ''31'']"

definition kForms_11 :: "form_desc list" where
  "kForms_11 = [
    mk_form ''e26cb3874648'' ''BSTART.TMATMULMX'' ''BSTART.TMATMULMX DataType'' ''L32'' ''Bundle Split'' ''CMD'' ''CMD''
      32 27 0x7ffffff 0x431181 216 1 461 7,
    mk_form ''70fa59b0ab4c'' ''BSTART.TMATMULMX.ACC'' ''BSTART.TMATMULMX.ACC DataType'' ''L32'' ''Bundle Split'' ''CMD'' ''CMD''
      32 27 0x7ffffff 0x631181 217 1 468 7,
    mk_form ''098c7efa51b0'' ''BSTART.TMATMULMX.BIAS'' ''BSTART.TMATMULMX.BIAS DataType'' ''L32'' ''Bundle Split'' ''CMD'' ''CMD''
      32 27 0x7ffffff 0x531181 218 1 475 7,
    mk_form ''211446509efb'' ''BSTART.TMOV'' ''BSTART.TMOV DataType'' ''L32'' ''Bundle Split'' ''CMD'' ''CMD''
      32 27 0x7ffffff 0x211181 219 1 482 6,
    mk_form ''d5f83e5aadf6'' ''BSTART.TPREFETCH'' ''BSTART.TPREFETCH DataType'' ''L32'' ''Bundle Split'' ''CMD'' ''CMD''
      32 27 0x7ffffff 0x311181 220 1 488 7,
    mk_form ''4048b6e8b0f4'' ''BSTART.TSTORE'' ''BSTART.TSTORE DataType'' ''L32'' ''Bundle Split'' ''CMD'' ''CMD''
      32 27 0x7ffffff 0x111181 221 1 495 7,
    mk_form ''8998d3fa51f8'' ''BSTART.VPAR'' ''BSTART.VPAR <VS8, VS16>'' ''L32'' ''Block Split'' ''CMD'' ''CMD''
      32 30 0xf9ffffff 0x21181 222 1 502 0,
    mk_form ''9324064902ae'' ''BSTART.VSEQ'' ''BSTART.VSEQ <VS8, VS16>'' ''L32'' ''Block Split'' ''CMD'' ''CMD''
      32 30 0xf9ffffff 0x29181 223 1 502 0,
    mk_form ''d25b09fdd59c'' ''BSTOP'' ''BSTOP'' ''L32'' ''Bundle Split'' ''CMD'' ''CMD''
      32 32 0xffffffff 0x1 224 0 502 0]"

lemma chunk_11: "walk_forms kForms_11 kFields_11 kFieldPieces_11 kConstraints_11 216 219 461 224 227 502"
  by (simp add: kForms_11_def kFields_11_def kFieldPieces_11_def kConstraints_11_def walk_eval)

lemma length_kForms_11 [simp]: "length kForms_11 = 9"
  by (simp add: kForms_11_def)

end
