(* ===== verification/Isa_Table_02.thy ===== *)
theory Isa_Table_02
  imports Isa_Check
begin

text \<open>
  Forms 108 to 161 of the arrays of \<^verbatim>\<open>src/isa/generated_tables.cpp\<close> (lines 7206 to 8015), with their fields,
  pieces and constraints, in chunks of at most 9 forms, and the check of each chunk.
\<close>

definition kFieldPieces_12 :: "piece_desc list" where
  "kFieldPieces_12 = [
    mk_piece 15 5 0, mk_piece 15 5 0, mk_piece 15 5 0, mk_piece 7 5 0, mk_piece 15 5 0, mk_piece 20 6 0,
    mk_piece 26 6 0, mk_piece 7 5 0, mk_piece 15 5 0, mk_piece 20 6 0, mk_piece 26 6 0, mk_piece 6 5 0,
    mk_piece 11 5 0, mk_piece 6 5 0, mk_piece 11 5 0, mk_piece 6 5 0, mk_piece 11 5 0, mk_piece 14 2 0,
    mk_piece 6 8 0]"

definition kFields_12 :: "field_desc list" where
  "kFields_12 = [
    mk_field ''SrcL'' (-1) 5 227 1, mk_field ''SrcL'' (-1) 5 228 1, mk_field ''SrcL'' (-1) 5 229 1,
    mk_field ''RegDst'' (-1) 5 230 1, mk_field ''SrcL'' (-1) 5 231 1, mk_field ''imml'' (-1) 6 232 1,
    mk_field ''imms'' (-1) 6 233 1, mk_field ''RegDst'' (-1) 5 234 1, mk_field ''SrcL'' (-1) 5 235 1,
    mk_field ''imml'' (-1) 6 236 1, mk_field ''imms'' (-1) 6 237 1, mk_field ''SrcL'' (-1) 5 238 1,
    mk_field ''SrcR'' (-1) 5 239 1, mk_field ''SrcL'' (-1) 5 240 1, mk_field ''simm5'' 1 5 241 1,
    mk_field ''SrcL'' (-1) 5 242 1, mk_field ''SrcR'' (-1) 5 243 1, mk_field ''LoopNest'' (-1) 2 244 1,
    mk_field ''imm8'' (-1) 8 245 1]"

definition kConstraints_12 :: "constraint_desc list" where
  "kConstraints_12 = [
    mk_constraint ''LoopNest'' Op_Ne 3 ''3'']"

definition kForms_12 :: "form_desc list" where
  "kForms_12 = [
    mk_form ''e5a5240bdf9b'' ''BWE'' ''bwe SrcL'' ''L32'' ''SYS'' ''SYS'' ''SYS''
      32 27 0xfff07fff 0x10002b 224 1 502 0,
    mk_form ''d9a0905cb31b'' ''BWI'' ''bwi SrcL'' ''L32'' ''SYS'' ''SYS'' ''SYS''
      32 27 0xfff07fff 0x20002b 225 1 502 0,
    mk_form ''5a0fe4a8e61f'' ''BWT'' ''bwt SrcL'' ''L32'' ''SYS'' ''SYS'' ''SYS''
      32 27 0xfff07fff 0x30002b 226 1 502 0,
    mk_form ''b1bb003c1703'' ''BXS'' ''bxs SrcL, M, N, ->{t, u, Rd}'' ''L32'' ''ALU'' ''ALU'' ''ALU''
      32 10 0x707f 0x67 227 4 502 0,
    mk_form ''e9ea9715ba62'' ''BXU'' ''bxu SrcL, M, N, ->{t, u, Rd}'' ''L32'' ''ALU'' ''ALU'' ''ALU''
      32 10 0x707f 0x1067 231 4 502 0,
    mk_form ''85136d1e4904'' ''C.ADD'' ''c.add srcL, srcR, ->t'' ''C16'' ''ALU'' ''ALU'' ''ALU''
      16 6 0x3f 0x8 235 2 502 0,
    mk_form ''3050744f2322'' ''C.ADDI'' ''c.addi srcL, simm, ->t'' ''C16'' ''ALU'' ''ALU'' ''ALU''
      16 6 0x3f 0xc 237 2 502 0,
    mk_form ''379e5bed3352'' ''C.AND'' ''c.and srcL, srcR, ->t'' ''C16'' ''ALU'' ''ALU'' ''ALU''
      16 6 0x3f 0x28 239 2 502 0,
    mk_form ''3f1b113c76ce'' ''C.B.DIMI'' ''C.B.DIMI imm, ->{LB0, LB1, LB2}'' ''C16'' ''Bundle Dimension'' ''CMD'' ''CMD''
      16 6 0x3f 0x3c 241 2 502 1]"

lemma chunk_12: "walk_forms kForms_12 kFields_12 kFieldPieces_12 kConstraints_12 224 227 502 243 246 503"
  by (simp add: kForms_12_def kFields_12_def kFieldPieces_12_def kConstraints_12_def walk_eval)

lemma length_kForms_12 [simp]: "length kForms_12 = 9"
  by (simp add: kForms_12_def)

definition kFieldPieces_13 :: "piece_desc list" where
  "kFieldPieces_13 = [
    mk_piece 4 12 0, mk_piece 4 12 0, mk_piece 11 3 0, mk_piece 11 3 0]"

definition kFields_13 :: "field_desc list" where
  "kFields_13 = [
    mk_field ''simm12'' 1 12 246 1, mk_field ''simm12'' 1 12 247 1, mk_field ''BrType'' (-1) 3 248 1,
    mk_field ''BrType'' (-1) 3 249 1]"

definition kConstraints_13 :: "constraint_desc list" where
  "kConstraints_13 = [
    mk_constraint ''BrType'' Op_Ne 0 ''0'', mk_constraint ''BrType'' Op_Ne 2 ''2'',
    mk_constraint ''BrType'' Op_Ne 3 ''3'', mk_constraint ''BrType'' Op_Ne 4 ''4'',
    mk_constraint ''BrType'' Op_Ne 6 ''6'', mk_constraint ''BrType'' Op_Ne 0 ''0'',
    mk_constraint ''BrType'' Op_Ne 2 ''2'', mk_constraint ''BrType'' Op_Ne 3 ''3'',
    mk_constraint ''BrType'' Op_Ne 4 ''4'', mk_constraint ''BrType'' Op_Ne 6 ''6'']"

definition kForms_13 :: "form_desc list" where
  "kForms_13 = [
    mk_form ''f833d2a4753c'' ''C.BSTART'' ''C.BSTART DIRECT, label'' ''C16'' ''Bundle Split'' ''CMD'' ''CMD''
      16 4 0xf 0x2 243 1 503 0,
    mk_form ''c4e238a9227a'' ''C.BSTART'' ''C.BSTART COND,  label'' ''C16'' ''Bundle Split'' ''CMD'' ''CMD''
      16 4 0xf 0x4 244 1 503 0,
    mk_form ''9dcef7e3a85b'' ''C.BSTART.FP'' ''C.BSTART.FP {FALL, IND, RET}'' ''C16'' ''C.BSTART'' ''BBD'' ''BBD''
      16 13 0xc7ff 0x80 245 1 503 5,
    mk_form ''44b1572333b1'' ''C.BSTART.MPAR'' ''C.BSTART.MPAR FALL'' ''C16'' ''C.BSTART'' ''BBD'' ''BBD''
      16 16 0xffff 0x8c0 246 0 508 0,
    mk_form ''190877b09b0a'' ''C.BSTART.MSEQ'' ''C.BSTART.MSEQ FALL'' ''C16'' ''C.BSTART'' ''BBD'' ''BBD''
      16 16 0xffff 0x48c0 246 0 508 0,
    mk_form ''8b40f078c14a'' ''C.BSTART.STD'' ''C.BSTART.STD {FALL, IND, RET}'' ''C16'' ''C.BSTART'' ''BBD'' ''BBD''
      16 13 0xc7ff 0x0 246 1 508 5,
    mk_form ''ec213ce96eb7'' ''C.BSTART.SYS'' ''C.BSTART.SYS FALL'' ''C16'' ''C.BSTART'' ''BBD'' ''BBD''
      16 16 0xffff 0x840 247 0 513 0,
    mk_form ''c4d89efc71ea'' ''C.BSTART.VPAR'' ''C.BSTART.VPAR FALL'' ''C16'' ''C.BSTART'' ''BBD'' ''BBD''
      16 16 0xffff 0x88c0 247 0 513 0,
    mk_form ''50d70de3f84f'' ''C.BSTART.VSEQ'' ''C.BSTART.VSEQ FALL'' ''C16'' ''C.BSTART'' ''BBD'' ''BBD''
      16 16 0xffff 0xc8c0 247 0 513 0]"

lemma chunk_13: "walk_forms kForms_13 kFields_13 kFieldPieces_13 kConstraints_13 243 246 503 247 250 513"
  by (simp add: kForms_13_def kFields_13_def kFieldPieces_13_def kConstraints_13_def walk_eval)

lemma length_kForms_13 [simp]: "length kForms_13 = 9"
  by (simp add: kForms_13_def)

definition kFieldPieces_14 :: "piece_desc list" where
  "kFieldPieces_14 = [
    mk_piece 6 5 0, mk_piece 6 5 0, mk_piece 6 5 0, mk_piece 6 5 0, mk_piece 11 5 0, mk_piece 6 5 0,
    mk_piece 11 5 0, mk_piece 11 5 0, mk_piece 6 5 0, mk_piece 11 5 0, mk_piece 6 5 0, mk_piece 6 5 0,
    mk_piece 11 5 0]"

definition kFields_14 :: "field_desc list" where
  "kFields_14 = [
    mk_field ''simm5'' 1 5 250 1, mk_field ''simm5'' 1 5 251 1, mk_field ''imm5'' (-1) 5 252 1,
    mk_field ''SrcL'' (-1) 5 253 1, mk_field ''simm5'' 1 5 254 1, mk_field ''SrcL'' (-1) 5 255 1,
    mk_field ''simm5'' 1 5 256 1, mk_field ''RegDst'' (-1) 5 257 1, mk_field ''simm5'' 1 5 258 1,
    mk_field ''RegDst'' (-1) 5 259 1, mk_field ''SrcL'' (-1) 5 260 1, mk_field ''SrcL'' (-1) 5 261 1,
    mk_field ''SrcR'' (-1) 5 262 1]"

definition kConstraints_14 :: "constraint_desc list" where
  "kConstraints_14 = [
    mk_constraint ''RegDst'' Op_Ne 10 ''10'']"

definition kForms_14 :: "form_desc list" where
  "kForms_14 = [
    mk_form ''ca4743d8a95e'' ''C.BSTOP'' ''C.BSTOP'' ''C16'' ''Bundle Split'' ''CMD'' ''CMD''
      16 16 0xffff 0x0 247 0 513 0,
    mk_form ''e34367883ba1'' ''C.CMP.EQI'' ''c.cmp.eqi t#1, simm, ->t'' ''C16'' ''BRU'' ''BRU'' ''BRU''
      16 11 0xf83f 0x2c 247 1 513 0,
    mk_form ''35d1f02063e2'' ''C.CMP.NEI'' ''c.cmp.nei t#1, simm, ->t'' ''C16'' ''BRU'' ''BRU'' ''BRU''
      16 11 0xf83f 0x82c 248 1 513 0,
    mk_form ''7f9c245fa13c'' ''C.EBREAK'' ''c.break imm'' ''C16'' ''SYS'' ''SYS'' ''SYS''
      16 11 0xf83f 0xc02c 249 1 513 0,
    mk_form ''973f42d37f29'' ''C.LDI'' ''c.ldi [srcL, simm], ->t'' ''C16'' ''LDA/BASE_IMM'' ''LDA/BASE_IMM'' ''AGU''
      16 6 0x3f 0x1a 250 2 513 0,
    mk_form ''b224525971da'' ''C.LWI'' ''c.lwi [srcL, simm], ->t'' ''C16'' ''LDA/BASE_IMM'' ''LDA/BASE_IMM'' ''AGU''
      16 6 0x3f 0xa 252 2 513 0,
    mk_form ''2c84faf1bc72'' ''C.MOVI'' ''c.movi simm, ->{t, u, Rd}'' ''C16'' ''ALU'' ''ALU'' ''ALU''
      16 6 0x3f 0x16 254 2 513 1,
    mk_form ''80d2b5f3580b'' ''C.MOVR'' ''c.movr SrcL, ->{t, u, Rd}'' ''C16'' ''ALU'' ''ALU'' ''ALU''
      16 6 0x3f 0x6 256 2 514 0,
    mk_form ''90864d13a661'' ''C.OR'' ''c.or srcL, srcR, ->t'' ''C16'' ''ALU'' ''ALU'' ''ALU''
      16 6 0x3f 0x38 258 2 514 0]"

lemma chunk_14: "walk_forms kForms_14 kFields_14 kFieldPieces_14 kConstraints_14 247 250 513 260 263 514"
  by (simp add: kForms_14_def kFields_14_def kFieldPieces_14_def kConstraints_14_def walk_eval)

lemma length_kForms_14 [simp]: "length kForms_14 = 9"
  by (simp add: kForms_14_def)

definition kFieldPieces_15 :: "piece_desc list" where
  "kFieldPieces_15 = [
    mk_piece 6 5 0, mk_piece 11 5 0, mk_piece 6 5 0, mk_piece 11 5 0, mk_piece 6 5 0, mk_piece 11 5 0,
    mk_piece 6 5 0, mk_piece 6 5 0, mk_piece 6 5 0, mk_piece 6 5 0, mk_piece 6 5 0, mk_piece 6 5 0]"

definition kFields_15 :: "field_desc list" where
  "kFields_15 = [
    mk_field ''SrcL'' (-1) 5 263 1, mk_field ''simm5'' 1 5 264 1, mk_field ''SrcL'' (-1) 5 265 1,
    mk_field ''SrcR'' (-1) 5 266 1, mk_field ''SrcL'' (-1) 5 267 1, mk_field ''SrcR'' (-1) 5 268 1,
    mk_field ''SrcL'' (-1) 5 269 1, mk_field ''uimm5'' 0 5 270 1, mk_field ''SrcL'' (-1) 5 271 1,
    mk_field ''SrcL'' (-1) 5 272 1, mk_field ''SrcL'' (-1) 5 273 1, mk_field ''uimm5'' 0 5 274 1]"

definition kConstraints_15 :: "constraint_desc list" where
  "kConstraints_15 = []"

definition kForms_15 :: "form_desc list" where
  "kForms_15 = [
    mk_form ''bbec69bcfd5d'' ''C.SDI'' ''c.sdi t#1, [srcL, simm]'' ''C16'' ''STA/BASE_IMM'' ''STA/BASE_IMM'' ''AGU''
      16 6 0x3f 0x3a 260 2 514 0,
    mk_form ''03e6b07a3699'' ''C.SETC.EQ'' ''c.setc.eq srcL, srcR'' ''C16'' ''BRU'' ''BRU'' ''BRU''
      16 6 0x3f 0x26 262 2 514 0,
    mk_form ''e9092e487e98'' ''C.SETC.NE'' ''c.setc.ne srcL, srcR'' ''C16'' ''BRU'' ''BRU'' ''BRU''
      16 6 0x3f 0x36 264 2 514 0,
    mk_form ''736be9cada01'' ''C.SETC.TGT'' ''c.setc.tgt srcL'' ''C16'' ''ALU'' ''ALU'' ''ALU''
      16 11 0xf83f 0x1c 266 1 514 0,
    mk_form ''335651ef6c27'' ''C.SETRET'' ''c.setret uimm, ->ra'' ''C16'' ''ALU'' ''ALU'' ''ALU''
      16 11 0xf83f 0x5016 267 1 514 0,
    mk_form ''8ffd07d15409'' ''C.SEXT.B'' ''c.sext.b srcL, ->t'' ''C16'' ''ALU'' ''ALU'' ''ALU''
      16 11 0xf83f 0x401c 268 1 514 0,
    mk_form ''90cb7ea36bd3'' ''C.SEXT.H'' ''c.sext.h srcL, ->t'' ''C16'' ''ALU'' ''ALU'' ''ALU''
      16 11 0xf83f 0x481c 269 1 514 0,
    mk_form ''f2bb13f0797b'' ''C.SEXT.W'' ''c.sext.w srcL, ->t'' ''C16'' ''ALU'' ''ALU'' ''ALU''
      16 11 0xf83f 0x501c 270 1 514 0,
    mk_form ''958a14dc4058'' ''C.SLLI'' ''c.slli t#1, uimm, ->t'' ''C16'' ''ALU'' ''ALU'' ''ALU''
      16 11 0xf83f 0x102c 271 1 514 0]"

lemma chunk_15: "walk_forms kForms_15 kFields_15 kFieldPieces_15 kConstraints_15 260 263 514 272 275 514"
  by (simp add: kForms_15_def kFields_15_def kFieldPieces_15_def kConstraints_15_def walk_eval)

lemma length_kForms_15 [simp]: "length kForms_15 = 9"
  by (simp add: kForms_15_def)

definition kFieldPieces_16 :: "piece_desc list" where
  "kFieldPieces_16 = [
    mk_piece 6 5 0, mk_piece 6 5 0, mk_piece 6 5 0, mk_piece 11 5 0, mk_piece 6 5 0, mk_piece 11 5 0,
    mk_piece 6 5 0, mk_piece 6 5 0, mk_piece 6 5 0, mk_piece 7 5 0, mk_piece 27 5 0, mk_piece 15 5 0,
    mk_piece 20 5 0, mk_piece 26 1 0, mk_piece 25 1 0, mk_piece 7 5 0, mk_piece 27 5 0, mk_piece 15 5 0,
    mk_piece 20 5 0, mk_piece 26 1 0, mk_piece 25 1 0]"

definition kFields_16 :: "field_desc list" where
  "kFields_16 = [
    mk_field ''uimm5'' 0 5 275 1, mk_field ''SSRID'' (-1) 5 276 1, mk_field ''SrcL'' (-1) 5 277 1,
    mk_field ''SrcR'' (-1) 5 278 1, mk_field ''SrcL'' (-1) 5 279 1, mk_field ''simm5'' 1 5 280 1,
    mk_field ''SrcL'' (-1) 5 281 1, mk_field ''SrcL'' (-1) 5 282 1, mk_field ''SrcL'' (-1) 5 283 1,
    mk_field ''RegDst'' (-1) 5 284 1, mk_field ''SrcD'' (-1) 5 285 1, mk_field ''SrcL'' (-1) 5 286 1,
    mk_field ''SrcR'' (-1) 5 287 1, mk_field ''aq'' (-1) 1 288 1, mk_field ''rl'' (-1) 1 289 1,
    mk_field ''RegDst'' (-1) 5 290 1, mk_field ''SrcD'' (-1) 5 291 1, mk_field ''SrcL'' (-1) 5 292 1,
    mk_field ''SrcR'' (-1) 5 293 1, mk_field ''aq'' (-1) 1 294 1, mk_field ''rl'' (-1) 1 295 1]"

definition kConstraints_16 :: "constraint_desc list" where
  "kConstraints_16 = [
    mk_constraint ''SSRID'' Op_Ne 2 ''2'', mk_constraint ''SSRID'' Op_Ne 3 ''3'',
    mk_constraint ''SSRID'' Op_Ne 4 ''4'', mk_constraint ''SSRID'' Op_Ne 5 ''5'',
    mk_constraint ''SSRID'' Op_Ne 6 ''6'', mk_constraint ''SSRID'' Op_Ne 7 ''7'',
    mk_constraint ''SSRID'' Op_Ne 8 ''8'', mk_constraint ''SSRID'' Op_Ne 9 ''9'',
    mk_constraint ''SSRID'' Op_Ne 10 ''10'', mk_constraint ''SSRID'' Op_Ne 11 ''11'',
    mk_constraint ''SSRID'' Op_Ne 12 ''12'', mk_constraint ''SSRID'' Op_Ne 13 ''13'',
    mk_constraint ''SSRID'' Op_Ne 14 ''14'', mk_constraint ''SSRID'' Op_Ne 15 ''15'',
    mk_constraint ''SSRID'' Op_Ne 17 ''17'', mk_constraint ''SSRID'' Op_Ne 18 ''18'',
    mk_constraint ''SSRID'' Op_Ne 19 ''19'', mk_constraint ''SSRID'' Op_Ne 20 ''20'',
    mk_constraint ''SSRID'' Op_Ne 21 ''21'', mk_constraint ''SSRID'' Op_Ne 22 ''22'',
    mk_constraint ''SSRID'' Op_Ne 23 ''23'', mk_constraint ''SSRID'' Op_Ne 24 ''24'',
    mk_constraint ''SSRID'' Op_Ne 25 ''25'', mk_constraint ''SSRID'' Op_Ne 26 ''26'',
    mk_constraint ''SSRID'' Op_Ne 27 ''27'', mk_constraint ''SSRID'' Op_Ne 28 ''28'',
    mk_constraint ''SSRID'' Op_Ne 29 ''29'', mk_constraint ''SSRID'' Op_Ne 30 ''30'',
    mk_constraint ''SSRID'' Op_Ne 31 ''31'']"

definition kForms_16 :: "form_desc list" where
  "kForms_16 = [
    mk_form ''b411862f7820'' ''C.SRLI'' ''c.srli t#1, uimm, ->t'' ''C16'' ''ALU'' ''ALU'' ''ALU''
      16 11 0xf83f 0x182c 272 1 514 0,
    mk_form ''9d83a6f2749a'' ''C.SSRGET'' ''c.ssrget SSR-ID, ->t'' ''C16'' ''SYS'' ''SYS'' ''SYS''
      16 11 0xf83f 0x802c 273 1 514 29,
    mk_form ''ff0056ac7053'' ''C.SUB'' ''c.sub srcL, srcR, ->t'' ''C16'' ''ALU'' ''ALU'' ''ALU''
      16 6 0x3f 0x18 274 2 543 0,
    mk_form ''ca6c111163e5'' ''C.SWI'' ''c.swi t#1, [srcL, simm]'' ''C16'' ''STA/BASE_IMM'' ''STA/BASE_IMM'' ''AGU''
      16 6 0x3f 0x2a 276 2 543 0,
    mk_form ''7ea1a59fa2da'' ''C.ZEXT.B'' ''c.zext.b srcL, ->t'' ''C16'' ''ALU'' ''ALU'' ''ALU''
      16 11 0xf83f 0x581c 278 1 543 0,
    mk_form ''4c0976791cbc'' ''C.ZEXT.H'' ''c.zext.h srcL, ->t'' ''C16'' ''ALU'' ''ALU'' ''ALU''
      16 11 0xf83f 0x601c 279 1 543 0,
    mk_form ''e8bc051c7e8c'' ''C.ZEXT.W'' ''c.zext.w srcL, ->t'' ''C16'' ''ALU'' ''ALU'' ''ALU''
      16 11 0xf83f 0x681c 280 1 543 0,
    mk_form ''7e529b871832'' ''CASB'' ''casb<.{aq, rl, aqrl}> [SrcL], SrcR, SrcD, ->{t, u, Rd}'' ''L32'' ''AMO'' ''AMO'' ''AMO''
      32 10 0x707f 0x1b 281 6 543 0,
    mk_form ''5852c57277a6'' ''CASD'' ''casd<.{aq, rl, aqrl}> [SrcL], SrcR, SrcD, ->{t, u, Rd}'' ''L32'' ''AMO'' ''AMO'' ''AMO''
      32 10 0x707f 0x301b 287 6 543 0]"

lemma chunk_16: "walk_forms kForms_16 kFields_16 kFieldPieces_16 kConstraints_16 272 275 514 293 296 543"
  by (simp add: kForms_16_def kFields_16_def kFieldPieces_16_def kConstraints_16_def walk_eval)

lemma length_kForms_16 [simp]: "length kForms_16 = 9"
  by (simp add: kForms_16_def)

definition kFieldPieces_17 :: "piece_desc list" where
  "kFieldPieces_17 = [
    mk_piece 7 5 0, mk_piece 27 5 0, mk_piece 15 5 0, mk_piece 20 5 0, mk_piece 26 1 0, mk_piece 25 1 0,
    mk_piece 7 5 0, mk_piece 27 5 0, mk_piece 15 5 0, mk_piece 20 5 0, mk_piece 26 1 0, mk_piece 25 1 0,
    mk_piece 7 5 0, mk_piece 15 5 0, mk_piece 20 6 0, mk_piece 26 6 0, mk_piece 7 5 0, mk_piece 15 5 0,
    mk_piece 20 5 0, mk_piece 25 2 0, mk_piece 7 5 0, mk_piece 15 5 0, mk_piece 20 12 0, mk_piece 7 5 0,
    mk_piece 15 5 0, mk_piece 20 5 0, mk_piece 25 2 0, mk_piece 7 5 0, mk_piece 15 5 0, mk_piece 20 12 0,
    mk_piece 7 5 0, mk_piece 15 5 0, mk_piece 20 5 0, mk_piece 25 2 0, mk_piece 7 5 0, mk_piece 15 5 0,
    mk_piece 20 12 0]"

definition kFields_17 :: "field_desc list" where
  "kFields_17 = [
    mk_field ''RegDst'' (-1) 5 296 1, mk_field ''SrcD'' (-1) 5 297 1, mk_field ''SrcL'' (-1) 5 298 1,
    mk_field ''SrcR'' (-1) 5 299 1, mk_field ''aq'' (-1) 1 300 1, mk_field ''rl'' (-1) 1 301 1,
    mk_field ''RegDst'' (-1) 5 302 1, mk_field ''SrcD'' (-1) 5 303 1, mk_field ''SrcL'' (-1) 5 304 1,
    mk_field ''SrcR'' (-1) 5 305 1, mk_field ''aq'' (-1) 1 306 1, mk_field ''rl'' (-1) 1 307 1,
    mk_field ''RegDst'' (-1) 5 308 1, mk_field ''SrcL'' (-1) 5 309 1, mk_field ''imml'' (-1) 6 310 1,
    mk_field ''imms'' (-1) 6 311 1, mk_field ''RegDst'' (-1) 5 312 1, mk_field ''SrcL'' (-1) 5 313 1,
    mk_field ''SrcR'' (-1) 5 314 1, mk_field ''SrcRType'' (-1) 2 315 1, mk_field ''RegDst'' (-1) 5 316 1,
    mk_field ''SrcL'' (-1) 5 317 1, mk_field ''simm12'' 1 12 318 1, mk_field ''RegDst'' (-1) 5 319 1,
    mk_field ''SrcL'' (-1) 5 320 1, mk_field ''SrcR'' (-1) 5 321 1, mk_field ''SrcRType'' (-1) 2 322 1,
    mk_field ''RegDst'' (-1) 5 323 1, mk_field ''SrcL'' (-1) 5 324 1, mk_field ''simm12'' 1 12 325 1,
    mk_field ''RegDst'' (-1) 5 326 1, mk_field ''SrcL'' (-1) 5 327 1, mk_field ''SrcR'' (-1) 5 328 1,
    mk_field ''SrcRType'' (-1) 2 329 1, mk_field ''RegDst'' (-1) 5 330 1, mk_field ''SrcL'' (-1) 5 331 1,
    mk_field ''simm12'' 1 12 332 1]"

definition kConstraints_17 :: "constraint_desc list" where
  "kConstraints_17 = []"

definition kForms_17 :: "form_desc list" where
  "kForms_17 = [
    mk_form ''cb1315ff6cb5'' ''CASH'' ''cash<.{aq, rl, aqrl}> [SrcL], SrcR, SrcD, ->{t, u, Rd}'' ''L32'' ''AMO'' ''AMO'' ''AMO''
      32 10 0x707f 0x101b 293 6 543 0,
    mk_form ''cb29e4287223'' ''CASW'' ''casw<.{aq, rl, aqrl}> [SrcL], SrcR, SrcD, ->{t, u, Rd}'' ''L32'' ''AMO'' ''AMO'' ''AMO''
      32 10 0x707f 0x201b 299 6 543 0,
    mk_form ''f890415c15b6'' ''CLZ'' ''clz SrcL,  M, N, ->{t, u, Rd}'' ''L32'' ''ALU'' ''ALU'' ''ALU''
      32 10 0x707f 0x5067 305 4 543 0,
    mk_form ''036813a12ae8'' ''CMP.AND'' ''cmp.and SrcL, SrcR<.sw, .uw, .not>, ->{t, u, Rd}'' ''L32'' ''BRU'' ''BRU'' ''BRU''
      32 15 0xf800707f 0x2045 309 4 543 0,
    mk_form ''da7a5391738d'' ''CMP.ANDI'' ''cmp.andi SrcL, simm, ->{t, u, Rd}'' ''L32'' ''BRU'' ''BRU'' ''BRU''
      32 10 0x707f 0x2055 313 3 543 0,
    mk_form ''6af7c8f41300'' ''CMP.EQ'' ''cmp.eq SrcL, SrcR<{.sw, .uw}>, ->{t, u, Rd}'' ''L32'' ''BRU'' ''BRU'' ''BRU''
      32 15 0xf800707f 0x45 316 4 543 0,
    mk_form ''252943516dca'' ''CMP.EQI'' ''cmp.eqi SrcL, simm, ->{t, u, Rd}'' ''L32'' ''BRU'' ''BRU'' ''BRU''
      32 10 0x707f 0x55 320 3 543 0,
    mk_form ''d88e3a1cfff4'' ''CMP.GE'' ''cmp.ge SrcL, SrcR<{.sw, .uw}>, ->{t, u, Rd}'' ''L32'' ''BRU'' ''BRU'' ''BRU''
      32 15 0xf800707f 0x5045 323 4 543 0,
    mk_form ''48bf7ea50737'' ''CMP.GEI'' ''cmp.gei SrcL, simm, ->{t, u, Rd}'' ''L32'' ''BRU'' ''BRU'' ''BRU''
      32 10 0x707f 0x5055 327 3 543 0]"

lemma chunk_17: "walk_forms kForms_17 kFields_17 kFieldPieces_17 kConstraints_17 293 296 543 330 333 543"
  by (simp add: kForms_17_def kFields_17_def kFieldPieces_17_def kConstraints_17_def walk_eval)

lemma length_kForms_17 [simp]: "length kForms_17 = 9"
  by (simp add: kForms_17_def)

end
