(* ===== verification/Isa_Table_03.thy ===== *)
theory Isa_Table_03
  imports Isa_Check
begin

text \<open>
  Forms 162 to 215 of the arrays of \<^verbatim>\<open>src/isa/generated_tables.cpp\<close> (lines 8016 to 8825), with their fields,
  pieces and constraints, in chunks of at most 9 forms, and the check of each chunk.
\<close>

definition kFieldPieces_18 :: "piece_desc list" where
  "kFieldPieces_18 = [
    mk_piece 7 5 0, mk_piece 15 5 0, mk_piece 20 5 0, mk_piece 25 2 0, mk_piece 7 5 0, mk_piece 15 5 0,
    mk_piece 20 12 0, mk_piece 7 5 0, mk_piece 15 5 0, mk_piece 20 5 0, mk_piece 25 2 0, mk_piece 7 5 0,
    mk_piece 15 5 0, mk_piece 20 12 0, mk_piece 7 5 0, mk_piece 15 5 0, mk_piece 20 5 0, mk_piece 25 2 0,
    mk_piece 7 5 0, mk_piece 15 5 0, mk_piece 20 12 0, mk_piece 7 5 0, mk_piece 15 5 0, mk_piece 20 5 0,
    mk_piece 25 2 0, mk_piece 7 5 0, mk_piece 15 5 0, mk_piece 20 12 0, mk_piece 7 5 0, mk_piece 15 5 0,
    mk_piece 20 5 0, mk_piece 25 2 0]"

definition kFields_18 :: "field_desc list" where
  "kFields_18 = [
    mk_field ''RegDst'' (-1) 5 333 1, mk_field ''SrcL'' (-1) 5 334 1, mk_field ''SrcR'' (-1) 5 335 1,
    mk_field ''SrcRType'' (-1) 2 336 1, mk_field ''RegDst'' (-1) 5 337 1, mk_field ''SrcL'' (-1) 5 338 1,
    mk_field ''uimm12'' 0 12 339 1, mk_field ''RegDst'' (-1) 5 340 1, mk_field ''SrcL'' (-1) 5 341 1,
    mk_field ''SrcR'' (-1) 5 342 1, mk_field ''SrcRType'' (-1) 2 343 1, mk_field ''RegDst'' (-1) 5 344 1,
    mk_field ''SrcL'' (-1) 5 345 1, mk_field ''simm12'' 1 12 346 1, mk_field ''RegDst'' (-1) 5 347 1,
    mk_field ''SrcL'' (-1) 5 348 1, mk_field ''SrcR'' (-1) 5 349 1, mk_field ''SrcRType'' (-1) 2 350 1,
    mk_field ''RegDst'' (-1) 5 351 1, mk_field ''SrcL'' (-1) 5 352 1, mk_field ''uimm12'' 0 12 353 1,
    mk_field ''RegDst'' (-1) 5 354 1, mk_field ''SrcL'' (-1) 5 355 1, mk_field ''SrcR'' (-1) 5 356 1,
    mk_field ''SrcRType'' (-1) 2 357 1, mk_field ''RegDst'' (-1) 5 358 1, mk_field ''SrcL'' (-1) 5 359 1,
    mk_field ''simm12'' 1 12 360 1, mk_field ''RegDst'' (-1) 5 361 1, mk_field ''SrcL'' (-1) 5 362 1,
    mk_field ''SrcR'' (-1) 5 363 1, mk_field ''SrcRType'' (-1) 2 364 1]"

definition kConstraints_18 :: "constraint_desc list" where
  "kConstraints_18 = []"

definition kForms_18 :: "form_desc list" where
  "kForms_18 = [
    mk_form ''0c002dc415ef'' ''CMP.GEU'' ''cmp.geu SrcL, SrcR<{.sw, .uw}>, ->{t, u, Rd}'' ''L32'' ''BRU'' ''BRU'' ''BRU''
      32 15 0xf800707f 0x7045 330 4 543 0,
    mk_form ''69ec7b908f5d'' ''CMP.GEUI'' ''cmp.geui SrcL, uimm, ->{t, u, Rd}'' ''L32'' ''BRU'' ''BRU'' ''BRU''
      32 10 0x707f 0x7055 334 3 543 0,
    mk_form ''c0b8cc320f12'' ''CMP.LT'' ''cmp.lt SrcL, SrcR<{.sw, .uw}>, ->{t, u, Rd}'' ''L32'' ''BRU'' ''BRU'' ''BRU''
      32 15 0xf800707f 0x4045 337 4 543 0,
    mk_form ''02d3081d120b'' ''CMP.LTI'' ''cmp.lti SrcL, simm, ->{t, u, Rd}'' ''L32'' ''BRU'' ''BRU'' ''BRU''
      32 10 0x707f 0x4055 341 3 543 0,
    mk_form ''4377481baebc'' ''CMP.LTU'' ''cmp.ltu SrcL, SrcR<{.sw, .uw}>, ->{t, u, Rd}'' ''L32'' ''BRU'' ''BRU'' ''BRU''
      32 15 0xf800707f 0x6045 344 4 543 0,
    mk_form ''8676c7bfd797'' ''CMP.LTUI'' ''cmp.ltui SrcL, uimm, ->{t, u, Rd}'' ''L32'' ''BRU'' ''BRU'' ''BRU''
      32 10 0x707f 0x6055 348 3 543 0,
    mk_form ''fc47fbb1a0de'' ''CMP.NE'' ''cmp.ne SrcL, SrcR<{.sw, .uw}>, ->{t, u, Rd}'' ''L32'' ''BRU'' ''BRU'' ''BRU''
      32 15 0xf800707f 0x1045 351 4 543 0,
    mk_form ''00abf831b572'' ''CMP.NEI'' ''cmp.nei SrcL, simm, ->{t, u, Rd}'' ''L32'' ''BRU'' ''BRU'' ''BRU''
      32 10 0x707f 0x1055 355 3 543 0,
    mk_form ''75e1fa54ba94'' ''CMP.OR'' ''cmp.or SrcL, SrcR<.sw, .uw, .not>, ->{t, u, Rd}'' ''L32'' ''BRU'' ''BRU'' ''BRU''
      32 15 0xf800707f 0x3045 358 4 543 0]"

lemma chunk_18: "walk_forms kForms_18 kFields_18 kFieldPieces_18 kConstraints_18 330 333 543 362 365 543"
  by (simp add: kForms_18_def kFields_18_def kFieldPieces_18_def kConstraints_18_def walk_eval)

lemma length_kForms_18 [simp]: "length kForms_18 = 9"
  by (simp add: kForms_18_def)

definition kFieldPieces_19 :: "piece_desc list" where
  "kFieldPieces_19 = [
    mk_piece 7 5 0, mk_piece 15 5 0, mk_piece 20 12 0, mk_piece 7 5 0, mk_piece 15 5 0, mk_piece 27 5 0,
    mk_piece 20 5 0, mk_piece 25 2 0, mk_piece 7 5 0, mk_piece 15 5 0, mk_piece 20 6 0, mk_piece 26 6 0,
    mk_piece 15 5 0, mk_piece 15 5 0, mk_piece 15 5 0, mk_piece 15 5 0, mk_piece 15 5 0]"

definition kFields_19 :: "field_desc list" where
  "kFields_19 = [
    mk_field ''RegDst'' (-1) 5 365 1, mk_field ''SrcL'' (-1) 5 366 1, mk_field ''simm12'' 1 12 367 1,
    mk_field ''RegDst'' (-1) 5 368 1, mk_field ''SrcL'' (-1) 5 369 1, mk_field ''SrcP'' (-1) 5 370 1,
    mk_field ''SrcR'' (-1) 5 371 1, mk_field ''SrcRType'' (-1) 2 372 1, mk_field ''RegDst'' (-1) 5 373 1,
    mk_field ''SrcL'' (-1) 5 374 1, mk_field ''imml'' (-1) 6 375 1, mk_field ''imms'' (-1) 6 376 1,
    mk_field ''SrcL'' (-1) 5 377 1, mk_field ''SrcL'' (-1) 5 378 1, mk_field ''SrcL'' (-1) 5 379 1,
    mk_field ''SrcL'' (-1) 5 380 1, mk_field ''SrcL'' (-1) 5 381 1]"

definition kConstraints_19 :: "constraint_desc list" where
  "kConstraints_19 = []"

definition kForms_19 :: "form_desc list" where
  "kForms_19 = [
    mk_form ''6d3efbc3d093'' ''CMP.ORI'' ''cmp.ori SrcL, simm, ->{t, u, Rd}'' ''L32'' ''BRU'' ''BRU'' ''BRU''
      32 10 0x707f 0x3055 362 3 543 0,
    mk_form ''ba77cbad3c99'' ''CSEL'' ''csel SrcP, SrcL, SrcR<.neg>, ->{t, u, Rd}'' ''L32'' ''ALU'' ''ALU'' ''ALU''
      32 10 0x707f 0x77 365 5 543 0,
    mk_form ''1761cbcc2a89'' ''CTZ'' ''ctz SrcL,  M, N, ->{t, u, Rd}'' ''L32'' ''ALU'' ''ALU'' ''ALU''
      32 10 0x707f 0x4067 370 4 543 0,
    mk_form ''166b7135e3c1'' ''DC.CISW'' ''dc.cisw SrcL'' ''L32'' ''SYS'' ''SYS'' ''SYS''
      32 27 0xfff07fff 0x60602b 374 1 543 0,
    mk_form ''265d686549c8'' ''DC.CIVA'' ''dc.civa SrcL'' ''L32'' ''SYS'' ''SYS'' ''SYS''
      32 27 0xfff07fff 0x30602b 375 1 543 0,
    mk_form ''2719115a9246'' ''DC.CSW'' ''dc.csw SrcL'' ''L32'' ''SYS'' ''SYS'' ''SYS''
      32 27 0xfff07fff 0x50602b 376 1 543 0,
    mk_form ''166d5a076f0e'' ''DC.CVA'' ''dc.cva SrcL'' ''L32'' ''SYS'' ''SYS'' ''SYS''
      32 27 0xfff07fff 0x20602b 377 1 543 0,
    mk_form ''3d61563dd077'' ''DC.IALL'' ''dc.iall'' ''L32'' ''SYS'' ''SYS'' ''SYS''
      32 32 0xffffffff 0x10602b 378 0 543 0,
    mk_form ''7940273560b2'' ''DC.ISW'' ''dc.isw SrcL'' ''L32'' ''SYS'' ''SYS'' ''SYS''
      32 27 0xfff07fff 0x40602b 378 1 543 0]"

lemma chunk_19: "walk_forms kForms_19 kFields_19 kFieldPieces_19 kConstraints_19 362 365 543 379 382 543"
  by (simp add: kForms_19_def kFields_19_def kFieldPieces_19_def kConstraints_19_def walk_eval)

lemma length_kForms_19 [simp]: "length kForms_19 = 9"
  by (simp add: kForms_19_def)

definition kFieldPieces_20 :: "piece_desc list" where
  "kFieldPieces_20 = [
    mk_piece 15 5 0, mk_piece 15 5 0, mk_piece 7 5 0, mk_piece 15 5 0, mk_piece 20 5 0, mk_piece 7 5 0,
    mk_piece 15 5 0, mk_piece 20 5 0, mk_piece 7 5 0, mk_piece 15 5 0, mk_piece 20 5 0, mk_piece 7 5 0,
    mk_piece 15 5 0, mk_piece 20 5 0, mk_piece 15 5 0, mk_piece 20 5 0, mk_piece 15 5 0, mk_piece 15 5 0]"

definition kFields_20 :: "field_desc list" where
  "kFields_20 = [
    mk_field ''SrcL'' (-1) 5 382 1, mk_field ''SrcL'' (-1) 5 383 1, mk_field ''RegDst'' (-1) 5 384 1,
    mk_field ''SrcL'' (-1) 5 385 1, mk_field ''SrcR'' (-1) 5 386 1, mk_field ''RegDst'' (-1) 5 387 1,
    mk_field ''SrcL'' (-1) 5 388 1, mk_field ''SrcR'' (-1) 5 389 1, mk_field ''RegDst'' (-1) 5 390 1,
    mk_field ''SrcL'' (-1) 5 391 1, mk_field ''SrcR'' (-1) 5 392 1, mk_field ''RegDst'' (-1) 5 393 1,
    mk_field ''SrcL'' (-1) 5 394 1, mk_field ''SrcR'' (-1) 5 395 1, mk_field ''SrcL'' (-1) 5 396 1,
    mk_field ''SrcR'' (-1) 5 397 1, mk_field ''SrcL'' (-1) 5 398 1, mk_field ''SrcL'' (-1) 5 399 1]"

definition kConstraints_20 :: "constraint_desc list" where
  "kConstraints_20 = []"

definition kForms_20 :: "form_desc list" where
  "kForms_20 = [
    mk_form ''0131d0cf364f'' ''DC.IVA'' ''dc.iva SrcL'' ''L32'' ''SYS'' ''SYS'' ''SYS''
      32 27 0xfff07fff 0x602b 379 1 543 0,
    mk_form ''0859a1d7aa5b'' ''DC.ZVA'' ''dc.zva SrcL'' ''L32'' ''SYS'' ''SYS'' ''SYS''
      32 27 0xfff07fff 0x70602b 380 1 543 0,
    mk_form ''a6efe85f8662'' ''DIV'' ''div SrcL, SrcR, ->{t, u, Rd}'' ''L32'' ''ALU'' ''ALU'' ''ALU''
      32 17 0xfe00707f 0x57 381 3 543 0,
    mk_form ''cfbc0d1760e4'' ''DIVU'' ''divu SrcL, SrcR, ->{t, u, Rd}'' ''L32'' ''ALU'' ''ALU'' ''ALU''
      32 17 0xfe00707f 0x1057 384 3 543 0,
    mk_form ''9c9470ef8982'' ''DIVUW'' ''divuw SrcL, SrcR, ->{t, u, Rd}'' ''L32'' ''ALU'' ''ALU'' ''ALU''
      32 17 0xfe00707f 0x3057 387 3 543 0,
    mk_form ''b6366c50ac8c'' ''DIVW'' ''divw SrcL, SrcR, ->{t, u, Rd}'' ''L32'' ''ALU'' ''ALU'' ''ALU''
      32 17 0xfe00707f 0x2057 390 3 543 0,
    mk_form ''a168aeca5fa5'' ''DMA'' ''dma [SrcL], SrcR'' ''L32'' ''AMO'' ''AMO'' ''AMO''
      32 22 0xfe007fff 0x700b 393 2 543 0,
    mk_form ''5af48f644596'' ''DMA.FREE.L'' ''dma.free.l [SrcL]'' ''L32'' ''AMO'' ''AMO'' ''AMO''
      32 27 0xfff07fff 0x600700b 395 1 543 0,
    mk_form ''5de9a6bba806'' ''DMA.FREE.S'' ''dma.free.s [SrcL]'' ''L32'' ''AMO'' ''AMO'' ''AMO''
      32 27 0xfff07fff 0x400700b 396 1 543 0]"

lemma chunk_20: "walk_forms kForms_20 kFields_20 kFieldPieces_20 kConstraints_20 379 382 543 397 400 543"
  by (simp add: kForms_20_def kFields_20_def kFieldPieces_20_def kConstraints_20_def walk_eval)

lemma length_kForms_20 [simp]: "length kForms_20 = 9"
  by (simp add: kForms_20_def)

definition kFieldPieces_21 :: "piece_desc list" where
  "kFieldPieces_21 = [
    mk_piece 24 4 0, mk_piece 15 5 0, mk_piece 20 5 0, mk_piece 27 5 0, mk_piece 15 5 0, mk_piece 20 5 0,
    mk_piece 27 5 0, mk_piece 7 5 0, mk_piece 15 5 0, mk_piece 25 2 0, mk_piece 7 5 0, mk_piece 15 5 0,
    mk_piece 20 5 0, mk_piece 25 2 0, mk_piece 27 5 0, mk_piece 7 5 0, mk_piece 15 5 0, mk_piece 25 2 0,
    mk_piece 27 5 0, mk_piece 7 5 0, mk_piece 15 5 0, mk_piece 25 2 0, mk_piece 27 5 0, mk_piece 7 5 0,
    mk_piece 15 5 0, mk_piece 25 2 0, mk_piece 27 5 0, mk_piece 7 5 0, mk_piece 15 5 0, mk_piece 25 2 0]"

definition kFields_21 :: "field_desc list" where
  "kFields_21 = [
    mk_field ''imm4'' (-1) 4 400 1, mk_field ''RegSrc0'' (-1) 5 401 1, mk_field ''RegSrc1'' (-1) 5 402 1,
    mk_field ''RegSrc2'' (-1) 5 403 1, mk_field ''RegSrc0'' (-1) 5 404 1, mk_field ''RegSrc1'' (-1) 5 405 1,
    mk_field ''RegSrc2'' (-1) 5 406 1, mk_field ''RegDst'' (-1) 5 407 1, mk_field ''SrcL'' (-1) 5 408 1,
    mk_field ''SrcType'' (-1) 2 409 1, mk_field ''RegDst'' (-1) 5 410 1, mk_field ''SrcL'' (-1) 5 411 1,
    mk_field ''SrcR'' (-1) 5 412 1, mk_field ''SrcType'' (-1) 2 413 1, mk_field ''DstType'' (-1) 5 414 1,
    mk_field ''RegDst'' (-1) 5 415 1, mk_field ''SrcL'' (-1) 5 416 1, mk_field ''SrcType'' (-1) 2 417 1,
    mk_field ''DstType'' (-1) 5 418 1, mk_field ''RegDst'' (-1) 5 419 1, mk_field ''SrcL'' (-1) 5 420 1,
    mk_field ''SrcType'' (-1) 2 421 1, mk_field ''DstType'' (-1) 5 422 1, mk_field ''RegDst'' (-1) 5 423 1,
    mk_field ''SrcL'' (-1) 5 424 1, mk_field ''SrcType'' (-1) 2 425 1, mk_field ''DstType'' (-1) 5 426 1,
    mk_field ''RegDst'' (-1) 5 427 1, mk_field ''SrcL'' (-1) 5 428 1, mk_field ''SrcType'' (-1) 2 429 1]"

definition kConstraints_21 :: "constraint_desc list" where
  "kConstraints_21 = [
    mk_constraint ''SrcType'' Op_Ne 2 ''2'', mk_constraint ''SrcType'' Op_Ne 3 ''3'',
    mk_constraint ''SrcType'' Op_Ne 2 ''2'', mk_constraint ''SrcType'' Op_Ne 3 ''3'',
    mk_constraint ''DstType'' Op_Ne 4 ''4'', mk_constraint ''DstType'' Op_Ne 5 ''5'',
    mk_constraint ''DstType'' Op_Ne 6 ''6'', mk_constraint ''DstType'' Op_Ne 7 ''7'',
    mk_constraint ''DstType'' Op_Ne 8 ''8'', mk_constraint ''DstType'' Op_Ne 9 ''9'',
    mk_constraint ''DstType'' Op_Ne 10 ''10'', mk_constraint ''DstType'' Op_Ne 11 ''11'',
    mk_constraint ''DstType'' Op_Ne 12 ''12'', mk_constraint ''DstType'' Op_Ne 13 ''13'',
    mk_constraint ''DstType'' Op_Ne 14 ''14'', mk_constraint ''DstType'' Op_Ne 15 ''15'',
    mk_constraint ''DstType'' Op_Ne 16 ''16'', mk_constraint ''DstType'' Op_Ne 17 ''17'',
    mk_constraint ''DstType'' Op_Ne 18 ''18'', mk_constraint ''DstType'' Op_Ne 19 ''19'',
    mk_constraint ''DstType'' Op_Ne 20 ''20'', mk_constraint ''DstType'' Op_Ne 21 ''21'',
    mk_constraint ''DstType'' Op_Ne 22 ''22'', mk_constraint ''DstType'' Op_Ne 23 ''23'',
    mk_constraint ''DstType'' Op_Ne 24 ''24'', mk_constraint ''DstType'' Op_Ne 25 ''25'',
    mk_constraint ''DstType'' Op_Ne 26 ''26'', mk_constraint ''DstType'' Op_Ne 27 ''27'',
    mk_constraint ''DstType'' Op_Ne 28 ''28'', mk_constraint ''DstType'' Op_Ne 29 ''29'',
    mk_constraint ''DstType'' Op_Ne 30 ''30'', mk_constraint ''DstType'' Op_Ne 31 ''31'',
    mk_constraint ''DstType'' Op_Ne 8 ''8'', mk_constraint ''DstType'' Op_Ne 9 ''9'',
    mk_constraint ''DstType'' Op_Ne 10 ''10'', mk_constraint ''DstType'' Op_Ne 11 ''11'',
    mk_constraint ''DstType'' Op_Ne 12 ''12'', mk_constraint ''DstType'' Op_Ne 13 ''13'',
    mk_constraint ''DstType'' Op_Ne 14 ''14'', mk_constraint ''DstType'' Op_Ne 15 ''15'',
    mk_constraint ''DstType'' Op_Ne 16 ''16'', mk_constraint ''DstType'' Op_Ne 17 ''17'',
    mk_constraint ''DstType'' Op_Ne 18 ''18'', mk_constraint ''DstType'' Op_Ne 19 ''19'',
    mk_constraint ''DstType'' Op_Ne 20 ''20'', mk_constraint ''DstType'' Op_Ne 21 ''21'',
    mk_constraint ''DstType'' Op_Ne 22 ''22'', mk_constraint ''DstType'' Op_Ne 23 ''23'',
    mk_constraint ''DstType'' Op_Ne 24 ''24'', mk_constraint ''DstType'' Op_Ne 25 ''25'',
    mk_constraint ''DstType'' Op_Ne 26 ''26'', mk_constraint ''DstType'' Op_Ne 27 ''27'',
    mk_constraint ''DstType'' Op_Ne 28 ''28'', mk_constraint ''DstType'' Op_Ne 29 ''29'',
    mk_constraint ''DstType'' Op_Ne 30 ''30'', mk_constraint ''DstType'' Op_Ne 31 ''31'',
    mk_constraint ''DstType'' Op_Ne 8 ''8'', mk_constraint ''DstType'' Op_Ne 9 ''9'',
    mk_constraint ''DstType'' Op_Ne 10 ''10'', mk_constraint ''DstType'' Op_Ne 11 ''11'',
    mk_constraint ''DstType'' Op_Ne 12 ''12'', mk_constraint ''DstType'' Op_Ne 13 ''13'',
    mk_constraint ''DstType'' Op_Ne 14 ''14'', mk_constraint ''DstType'' Op_Ne 15 ''15'',
    mk_constraint ''DstType'' Op_Ne 16 ''16'', mk_constraint ''DstType'' Op_Ne 17 ''17'',
    mk_constraint ''DstType'' Op_Ne 18 ''18'', mk_constraint ''DstType'' Op_Ne 19 ''19'',
    mk_constraint ''DstType'' Op_Ne 20 ''20'', mk_constraint ''DstType'' Op_Ne 21 ''21'',
    mk_constraint ''DstType'' Op_Ne 22 ''22'', mk_constraint ''DstType'' Op_Ne 23 ''23'',
    mk_constraint ''DstType'' Op_Ne 24 ''24'', mk_constraint ''DstType'' Op_Ne 25 ''25'',
    mk_constraint ''DstType'' Op_Ne 26 ''26'', mk_constraint ''DstType'' Op_Ne 27 ''27'',
    mk_constraint ''DstType'' Op_Ne 28 ''28'', mk_constraint ''DstType'' Op_Ne 29 ''29'',
    mk_constraint ''DstType'' Op_Ne 30 ''30'', mk_constraint ''DstType'' Op_Ne 31 ''31'',
    mk_constraint ''DstType'' Op_Ne 8 ''8'', mk_constraint ''DstType'' Op_Ne 9 ''9'',
    mk_constraint ''DstType'' Op_Ne 10 ''10'', mk_constraint ''DstType'' Op_Ne 11 ''11'',
    mk_constraint ''DstType'' Op_Ne 12 ''12'', mk_constraint ''DstType'' Op_Ne 13 ''13'',
    mk_constraint ''DstType'' Op_Ne 14 ''14'', mk_constraint ''DstType'' Op_Ne 15 ''15'',
    mk_constraint ''DstType'' Op_Ne 16 ''16'', mk_constraint ''DstType'' Op_Ne 17 ''17'',
    mk_constraint ''DstType'' Op_Ne 18 ''18'', mk_constraint ''DstType'' Op_Ne 19 ''19'',
    mk_constraint ''DstType'' Op_Ne 20 ''20'', mk_constraint ''DstType'' Op_Ne 21 ''21'',
    mk_constraint ''DstType'' Op_Ne 22 ''22'', mk_constraint ''DstType'' Op_Ne 23 ''23'',
    mk_constraint ''DstType'' Op_Ne 24 ''24'', mk_constraint ''DstType'' Op_Ne 25 ''25'',
    mk_constraint ''DstType'' Op_Ne 26 ''26'', mk_constraint ''DstType'' Op_Ne 27 ''27'',
    mk_constraint ''DstType'' Op_Ne 28 ''28'', mk_constraint ''DstType'' Op_Ne 29 ''29'',
    mk_constraint ''DstType'' Op_Ne 30 ''30'', mk_constraint ''DstType'' Op_Ne 31 ''31'']"

definition kForms_21 :: "form_desc list" where
  "kForms_21 = [
    mk_form ''4f122d1e6be3'' ''EBREAK'' ''ebreak imm'' ''L32'' ''SYS'' ''SYS'' ''SYS''
      32 28 0xf0ffffff 0x10102b 397 1 543 0,
    mk_form ''dc0be14a2d8b'' ''ERCOV'' ''ERCOV [RegSrc0=BasePtr, RegSrc1=LenBytes, RegSrc2=Kind]'' ''L32'' ''Bundle Split'' ''CMD'' ''CMD''
      32 17 0x6007fff 0x3031 398 3 543 0,
    mk_form ''4c4f79fe3171'' ''ESAVE'' ''ESAVE [RegSrc0=BasePtr, RegSrc1=LenBytes, RegSrc2=Kind]'' ''L32'' ''Bundle Split'' ''CMD'' ''CMD''
      32 17 0x6007fff 0x2031 401 3 543 0,
    mk_form ''9515e008bf17'' ''FABS'' ''fabs.{T} SrcL, ->{t, u, Rd}'' ''L32'' ''FSU'' ''FSU'' ''FSU''
      32 20 0xf9f0707f 0x7b 404 3 543 2,
    mk_form ''b78b658e6740'' ''FADD'' ''fadd.{T} SrcL, SrcR, ->{t, u, Rd}'' ''L32'' ''FSU'' ''FSU'' ''FSU''
      32 15 0xf800707f 0x4b 407 4 545 2,
    mk_form ''1102f5aeeda9'' ''FCVT'' ''fcvt.{srcT2dstT} SrcL, ->{t, u, Rd}'' ''L32'' ''FSU'' ''FSU'' ''FSU''
      32 15 0x1f0707f 0x6b 411 4 547 28,
    mk_form ''010837b9acbd'' ''FCVTA'' ''fcvta.{srcT2dstT} SrcL, ->{t, u, Rd}'' ''L32'' ''FSU'' ''FSU'' ''FSU''
      32 15 0x1f0707f 0x106b 415 4 575 24,
    mk_form ''8801f1562870'' ''FCVTM'' ''fcvtm.{srcT2dstT} SrcL, ->{t, u, Rd}'' ''L32'' ''FSU'' ''FSU'' ''FSU''
      32 15 0x1f0707f 0x206b 419 4 599 24,
    mk_form ''8714ba358d80'' ''FCVTN'' ''fcvtn.{srcT2dstT} SrcL, ->{t, u, Rd}'' ''L32'' ''FSU'' ''FSU'' ''FSU''
      32 15 0x1f0707f 0x306b 423 4 623 24]"

lemma chunk_21: "walk_forms kForms_21 kFields_21 kFieldPieces_21 kConstraints_21 397 400 543 427 430 647"
  by (simp add: kForms_21_def kFields_21_def kFieldPieces_21_def kConstraints_21_def walk_eval)

lemma length_kForms_21 [simp]: "length kForms_21 = 9"
  by (simp add: kForms_21_def)

definition kFieldPieces_22 :: "piece_desc list" where
  "kFieldPieces_22 = [
    mk_piece 27 5 0, mk_piece 7 5 0, mk_piece 15 5 0, mk_piece 25 2 0, mk_piece 27 5 0, mk_piece 7 5 0,
    mk_piece 15 5 0, mk_piece 25 2 0, mk_piece 7 5 0, mk_piece 15 5 0, mk_piece 20 5 0, mk_piece 25 2 0,
    mk_piece 24 4 0, mk_piece 20 4 0, mk_piece 15 5 0, mk_piece 20 5 0, mk_piece 25 7 0, mk_piece 7 5 7,
    mk_piece 7 5 0, mk_piece 15 5 0, mk_piece 20 5 0, mk_piece 25 2 0, mk_piece 7 5 0, mk_piece 15 5 0,
    mk_piece 20 5 0, mk_piece 25 2 0, mk_piece 15 5 0, mk_piece 20 5 0, mk_piece 25 7 0, mk_piece 7 5 7]"

definition kFields_22 :: "field_desc list" where
  "kFields_22 = [
    mk_field ''DstType'' (-1) 5 430 1, mk_field ''RegDst'' (-1) 5 431 1, mk_field ''SrcL'' (-1) 5 432 1,
    mk_field ''SrcType'' (-1) 2 433 1, mk_field ''DstType'' (-1) 5 434 1, mk_field ''RegDst'' (-1) 5 435 1,
    mk_field ''SrcL'' (-1) 5 436 1, mk_field ''SrcType'' (-1) 2 437 1, mk_field ''RegDst'' (-1) 5 438 1,
    mk_field ''SrcL'' (-1) 5 439 1, mk_field ''SrcR'' (-1) 5 440 1, mk_field ''SrcType'' (-1) 2 441 1,
    mk_field ''PRED_IMM'' (-1) 4 442 1, mk_field ''SUCC_IMM'' (-1) 4 443 1,
    mk_field ''SrcBegin'' (-1) 5 444 1, mk_field ''SrcEnd'' (-1) 5 445 1, mk_field ''uimm'' 0 12 446 2,
    mk_field ''RegDst'' (-1) 5 448 1, mk_field ''SrcL'' (-1) 5 449 1, mk_field ''SrcR'' (-1) 5 450 1,
    mk_field ''SrcType'' (-1) 2 451 1, mk_field ''RegDst'' (-1) 5 452 1, mk_field ''SrcL'' (-1) 5 453 1,
    mk_field ''SrcR'' (-1) 5 454 1, mk_field ''SrcType'' (-1) 2 455 1, mk_field ''DstBegin'' (-1) 5 456 1,
    mk_field ''DstEnd'' (-1) 5 457 1, mk_field ''uimm'' 0 12 458 2]"

definition kConstraints_22 :: "constraint_desc list" where
  "kConstraints_22 = [
    mk_constraint ''DstType'' Op_Ne 8 ''8'', mk_constraint ''DstType'' Op_Ne 9 ''9'',
    mk_constraint ''DstType'' Op_Ne 10 ''10'', mk_constraint ''DstType'' Op_Ne 11 ''11'',
    mk_constraint ''DstType'' Op_Ne 12 ''12'', mk_constraint ''DstType'' Op_Ne 13 ''13'',
    mk_constraint ''DstType'' Op_Ne 14 ''14'', mk_constraint ''DstType'' Op_Ne 15 ''15'',
    mk_constraint ''DstType'' Op_Ne 16 ''16'', mk_constraint ''DstType'' Op_Ne 17 ''17'',
    mk_constraint ''DstType'' Op_Ne 18 ''18'', mk_constraint ''DstType'' Op_Ne 19 ''19'',
    mk_constraint ''DstType'' Op_Ne 20 ''20'', mk_constraint ''DstType'' Op_Ne 21 ''21'',
    mk_constraint ''DstType'' Op_Ne 22 ''22'', mk_constraint ''DstType'' Op_Ne 23 ''23'',
    mk_constraint ''DstType'' Op_Ne 24 ''24'', mk_constraint ''DstType'' Op_Ne 25 ''25'',
    mk_constraint ''DstType'' Op_Ne 26 ''26'', mk_constraint ''DstType'' Op_Ne 27 ''27'',
    mk_constraint ''DstType'' Op_Ne 28 ''28'', mk_constraint ''DstType'' Op_Ne 29 ''29'',
    mk_constraint ''DstType'' Op_Ne 30 ''30'', mk_constraint ''DstType'' Op_Ne 31 ''31'',
    mk_constraint ''DstType'' Op_Ne 8 ''8'', mk_constraint ''DstType'' Op_Ne 9 ''9'',
    mk_constraint ''DstType'' Op_Ne 10 ''10'', mk_constraint ''DstType'' Op_Ne 11 ''11'',
    mk_constraint ''DstType'' Op_Ne 12 ''12'', mk_constraint ''DstType'' Op_Ne 13 ''13'',
    mk_constraint ''DstType'' Op_Ne 14 ''14'', mk_constraint ''DstType'' Op_Ne 15 ''15'',
    mk_constraint ''DstType'' Op_Ne 16 ''16'', mk_constraint ''DstType'' Op_Ne 17 ''17'',
    mk_constraint ''DstType'' Op_Ne 18 ''18'', mk_constraint ''DstType'' Op_Ne 19 ''19'',
    mk_constraint ''DstType'' Op_Ne 20 ''20'', mk_constraint ''DstType'' Op_Ne 21 ''21'',
    mk_constraint ''DstType'' Op_Ne 22 ''22'', mk_constraint ''DstType'' Op_Ne 23 ''23'',
    mk_constraint ''DstType'' Op_Ne 24 ''24'', mk_constraint ''DstType'' Op_Ne 25 ''25'',
    mk_constraint ''DstType'' Op_Ne 26 ''26'', mk_constraint ''DstType'' Op_Ne 27 ''27'',
    mk_constraint ''DstType'' Op_Ne 28 ''28'', mk_constraint ''DstType'' Op_Ne 29 ''29'',
    mk_constraint ''DstType'' Op_Ne 30 ''30'', mk_constraint ''DstType'' Op_Ne 31 ''31'',
    mk_constraint ''SrcType'' Op_Ne 2 ''2'', mk_constraint ''SrcType'' Op_Ne 3 ''3'',
    mk_constraint ''SrcBegin'' Op_Ne 0 ''0'', mk_constraint ''SrcBegin'' Op_Ne 1 ''1'',
    mk_constraint ''SrcBegin'' Op_Ne 24 ''24'', mk_constraint ''SrcBegin'' Op_Ne 25 ''25'',
    mk_constraint ''SrcBegin'' Op_Ne 26 ''26'', mk_constraint ''SrcBegin'' Op_Ne 27 ''27'',
    mk_constraint ''SrcBegin'' Op_Ne 28 ''28'', mk_constraint ''SrcBegin'' Op_Ne 29 ''29'',
    mk_constraint ''SrcBegin'' Op_Ne 30 ''30'', mk_constraint ''SrcBegin'' Op_Ne 31 ''31'',
    mk_constraint ''SrcEnd'' Op_Ne 0 ''0'', mk_constraint ''SrcEnd'' Op_Ne 1 ''1'',
    mk_constraint ''SrcEnd'' Op_Ne 24 ''24'', mk_constraint ''SrcEnd'' Op_Ne 25 ''25'',
    mk_constraint ''SrcEnd'' Op_Ne 26 ''26'', mk_constraint ''SrcEnd'' Op_Ne 27 ''27'',
    mk_constraint ''SrcEnd'' Op_Ne 28 ''28'', mk_constraint ''SrcEnd'' Op_Ne 29 ''29'',
    mk_constraint ''SrcEnd'' Op_Ne 30 ''30'', mk_constraint ''SrcEnd'' Op_Ne 31 ''31'',
    mk_constraint ''SrcType'' Op_Ne 2 ''2'', mk_constraint ''SrcType'' Op_Ne 3 ''3'',
    mk_constraint ''SrcType'' Op_Ne 2 ''2'', mk_constraint ''SrcType'' Op_Ne 3 ''3'',
    mk_constraint ''DstBegin'' Op_Ne 0 ''0'', mk_constraint ''DstBegin'' Op_Ne 1 ''1'',
    mk_constraint ''DstBegin'' Op_Ne 24 ''24'', mk_constraint ''DstBegin'' Op_Ne 25 ''25'',
    mk_constraint ''DstBegin'' Op_Ne 26 ''26'', mk_constraint ''DstBegin'' Op_Ne 27 ''27'',
    mk_constraint ''DstBegin'' Op_Ne 28 ''28'', mk_constraint ''DstBegin'' Op_Ne 29 ''29'',
    mk_constraint ''DstBegin'' Op_Ne 30 ''30'', mk_constraint ''DstBegin'' Op_Ne 31 ''31'',
    mk_constraint ''DstEnd'' Op_Ne 0 ''0'', mk_constraint ''DstEnd'' Op_Ne 1 ''1'',
    mk_constraint ''DstEnd'' Op_Ne 24 ''24'', mk_constraint ''DstEnd'' Op_Ne 25 ''25'',
    mk_constraint ''DstEnd'' Op_Ne 26 ''26'', mk_constraint ''DstEnd'' Op_Ne 27 ''27'',
    mk_constraint ''DstEnd'' Op_Ne 28 ''28'', mk_constraint ''DstEnd'' Op_Ne 29 ''29'',
    mk_constraint ''DstEnd'' Op_Ne 30 ''30'', mk_constraint ''DstEnd'' Op_Ne 31 ''31'']"

definition kForms_22 :: "form_desc list" where
  "kForms_22 = [
    mk_form ''84354a7aa6b1'' ''FCVTP'' ''fcvtp.{srcT2dstT} SrcL, ->{t, u, Rd}'' ''L32'' ''FSU'' ''FSU'' ''FSU''
      32 15 0x1f0707f 0x406b 427 4 647 24,
    mk_form ''bee01d31217c'' ''FCVTZ'' ''fcvtz.{srcT2dstT} SrcL, ->{t, u, Rd}'' ''L32'' ''FSU'' ''FSU'' ''FSU''
      32 15 0x1f0707f 0x506b 431 4 671 24,
    mk_form ''04a5bb6ab56f'' ''FDIV'' ''fdiv.{T} SrcL, SrcR, ->{t, u, Rd}'' ''L32'' ''FSU'' ''FSU'' ''FSU''
      32 15 0xf800707f 0x304b 435 4 695 2,
    mk_form ''f4783f17d84d'' ''FENCE.D'' ''fence.d pred_imm, succ_imm'' ''L32'' ''SYS'' ''SYS'' ''SYS''
      32 24 0xf00fffff 0x202b 439 2 697 0,
    mk_form ''a321a2a186b1'' ''FENCE.I'' ''fence.i'' ''L32'' ''SYS'' ''SYS'' ''SYS''
      32 32 0xffffffff 0x1000202b 441 0 697 0,
    mk_form ''a47584ec13b6'' ''FENTRY'' ''FENTRY [RegSrc0 ~ RegSrcn], sp!, uimm'' ''L32'' ''Bundle Split'' ''CMD'' ''CMD''
      32 10 0x707f 0x41 441 3 697 20,
    mk_form ''9435d6959c3c'' ''FEQ'' ''feq.{T} SrcL, SrcR, ->{t, u, Rd}'' ''L32'' ''FSU'' ''FSU'' ''FSU''
      32 15 0xf800707f 0x5b 444 4 717 2,
    mk_form ''1d3011890fa8'' ''FEQS'' ''feqs.{T} SrcL, SrcR, ->{t, u, Rd}'' ''L32'' ''FSU'' ''FSU'' ''FSU''
      32 15 0xf800707f 0x800005b 448 4 719 2,
    mk_form ''37b663f2a34d'' ''FEXIT'' ''FEXIT [RegDst0 ~ RegDstn], sp!, uimm'' ''L32'' ''Bundle Split'' ''CMD'' ''CMD''
      32 10 0x707f 0x1041 452 3 721 20]"

lemma chunk_22: "walk_forms kForms_22 kFields_22 kFieldPieces_22 kConstraints_22 427 430 647 455 460 741"
  by (simp add: kForms_22_def kFields_22_def kFieldPieces_22_def kConstraints_22_def walk_eval)

lemma length_kForms_22 [simp]: "length kForms_22 = 9"
  by (simp add: kForms_22_def)

definition kFieldPieces_23 :: "piece_desc list" where
  "kFieldPieces_23 = [
    mk_piece 7 5 0, mk_piece 15 5 0, mk_piece 25 2 0, mk_piece 7 5 0, mk_piece 15 5 0, mk_piece 20 5 0,
    mk_piece 25 2 0, mk_piece 7 5 0, mk_piece 15 5 0, mk_piece 20 5 0, mk_piece 25 2 0, mk_piece 7 5 0,
    mk_piece 15 5 0, mk_piece 20 5 0, mk_piece 25 2 0, mk_piece 7 5 0, mk_piece 15 5 0, mk_piece 20 5 0,
    mk_piece 25 2 0, mk_piece 7 5 0, mk_piece 27 5 0, mk_piece 15 5 0, mk_piece 20 5 0, mk_piece 25 2 0,
    mk_piece 7 5 0, mk_piece 15 5 0, mk_piece 20 5 0, mk_piece 25 2 0, mk_piece 7 5 0, mk_piece 15 5 0,
    mk_piece 20 5 0, mk_piece 25 2 0, mk_piece 7 5 0, mk_piece 27 5 0, mk_piece 15 5 0, mk_piece 20 5 0,
    mk_piece 25 2 0]"

definition kFields_23 :: "field_desc list" where
  "kFields_23 = [
    mk_field ''RegDst'' (-1) 5 460 1, mk_field ''SrcL'' (-1) 5 461 1, mk_field ''SrcType'' (-1) 2 462 1,
    mk_field ''RegDst'' (-1) 5 463 1, mk_field ''SrcL'' (-1) 5 464 1, mk_field ''SrcR'' (-1) 5 465 1,
    mk_field ''SrcType'' (-1) 2 466 1, mk_field ''RegDst'' (-1) 5 467 1, mk_field ''SrcL'' (-1) 5 468 1,
    mk_field ''SrcR'' (-1) 5 469 1, mk_field ''SrcType'' (-1) 2 470 1, mk_field ''RegDst'' (-1) 5 471 1,
    mk_field ''SrcL'' (-1) 5 472 1, mk_field ''SrcR'' (-1) 5 473 1, mk_field ''SrcType'' (-1) 2 474 1,
    mk_field ''RegDst'' (-1) 5 475 1, mk_field ''SrcL'' (-1) 5 476 1, mk_field ''SrcR'' (-1) 5 477 1,
    mk_field ''SrcType'' (-1) 2 478 1, mk_field ''RegDst'' (-1) 5 479 1, mk_field ''SrcA'' (-1) 5 480 1,
    mk_field ''SrcL'' (-1) 5 481 1, mk_field ''SrcR'' (-1) 5 482 1, mk_field ''SrcType'' (-1) 2 483 1,
    mk_field ''RegDst'' (-1) 5 484 1, mk_field ''SrcL'' (-1) 5 485 1, mk_field ''SrcR'' (-1) 5 486 1,
    mk_field ''SrcType'' (-1) 2 487 1, mk_field ''RegDst'' (-1) 5 488 1, mk_field ''SrcL'' (-1) 5 489 1,
    mk_field ''SrcR'' (-1) 5 490 1, mk_field ''SrcType'' (-1) 2 491 1, mk_field ''RegDst'' (-1) 5 492 1,
    mk_field ''SrcA'' (-1) 5 493 1, mk_field ''SrcL'' (-1) 5 494 1, mk_field ''SrcR'' (-1) 5 495 1,
    mk_field ''SrcType'' (-1) 2 496 1]"

definition kConstraints_23 :: "constraint_desc list" where
  "kConstraints_23 = [
    mk_constraint ''SrcType'' Op_Ne 2 ''2'', mk_constraint ''SrcType'' Op_Ne 3 ''3'',
    mk_constraint ''SrcType'' Op_Ne 2 ''2'', mk_constraint ''SrcType'' Op_Ne 3 ''3'',
    mk_constraint ''SrcType'' Op_Ne 2 ''2'', mk_constraint ''SrcType'' Op_Ne 3 ''3'',
    mk_constraint ''SrcType'' Op_Ne 2 ''2'', mk_constraint ''SrcType'' Op_Ne 3 ''3'',
    mk_constraint ''SrcType'' Op_Ne 2 ''2'', mk_constraint ''SrcType'' Op_Ne 3 ''3'',
    mk_constraint ''SrcType'' Op_Ne 2 ''2'', mk_constraint ''SrcType'' Op_Ne 3 ''3'',
    mk_constraint ''SrcType'' Op_Ne 2 ''2'', mk_constraint ''SrcType'' Op_Ne 3 ''3'',
    mk_constraint ''SrcType'' Op_Ne 2 ''2'', mk_constraint ''SrcType'' Op_Ne 3 ''3'',
    mk_constraint ''SrcType'' Op_Ne 2 ''2'', mk_constraint ''SrcType'' Op_Ne 3 ''3'']"

definition kForms_23 :: "form_desc list" where
  "kForms_23 = [
    mk_form ''592ef5288c7d'' ''FEXP'' ''fexp.{T} SrcL, ->{t, u, Rd}'' ''L32'' ''FSU'' ''FSU'' ''FSU''
      32 20 0xf9f0707f 0x307b 455 3 741 2,
    mk_form ''b3244b2ffa89'' ''FGE'' ''fge.{T} SrcL, SrcR, ->{t, u, Rd}'' ''L32'' ''FSU'' ''FSU'' ''FSU''
      32 15 0xf800707f 0x305b 458 4 743 2,
    mk_form ''e0301fcee743'' ''FGES'' ''fges.{T} SrcL, SrcR, ->{t, u, Rd}'' ''L32'' ''FSU'' ''FSU'' ''FSU''
      32 15 0xf800707f 0x800305b 462 4 745 2,
    mk_form ''1c09549d8d3f'' ''FLT'' ''flt.{T} SrcL, SrcR, ->{t, u, Rd}'' ''L32'' ''FSU'' ''FSU'' ''FSU''
      32 15 0xf800707f 0x205b 466 4 747 2,
    mk_form ''c744c874e6a2'' ''FLTS'' ''flts.{T} SrcL, SrcR, ->{t, u, Rd}'' ''L32'' ''FSU'' ''FSU'' ''FSU''
      32 15 0xf800707f 0x800205b 470 4 749 2,
    mk_form ''c616a17bcb12'' ''FMADD'' ''fmadd.{T} SrcL, SrcR, SrcA, ->{t, u, Rd}'' ''L32'' ''FSU'' ''FSU'' ''FSU''
      32 10 0x707f 0x404b 474 5 751 2,
    mk_form ''eaf3880d7739'' ''FMAX'' ''fmax.{T} SrcL, SrcR, ->{t, u, Rd}'' ''L32'' ''FSU'' ''FSU'' ''FSU''
      32 15 0xf800707f 0x605b 479 4 753 2,
    mk_form ''b5c106e5cd7e'' ''FMIN'' ''fmin.{T} SrcL, SrcR, ->{t, u, Rd}'' ''L32'' ''FSU'' ''FSU'' ''FSU''
      32 15 0xf800707f 0x705b 483 4 755 2,
    mk_form ''b83012b83148'' ''FMSUB'' ''fmsub.{T} SrcL, SrcR, SrcA, ->{t, u, Rd}'' ''L32'' ''FSU'' ''FSU'' ''FSU''
      32 10 0x707f 0x504b 487 5 757 2]"

lemma chunk_23: "walk_forms kForms_23 kFields_23 kFieldPieces_23 kConstraints_23 455 460 741 492 497 759"
  by (simp add: kForms_23_def kFields_23_def kFieldPieces_23_def kConstraints_23_def walk_eval)

lemma length_kForms_23 [simp]: "length kForms_23 = 9"
  by (simp add: kForms_23_def)

end
