(* ===== verification/Isa_Table_04.thy ===== *)
theory Isa_Table_04
  imports Isa_Check
begin

text \<open>
  Forms 216 to 269 of the arrays of \<^verbatim>\<open>src/isa/generated_tables.cpp\<close> (lines 8826 to 9639), with their fields,
  pieces and constraints, in chunks of at most 9 forms, and the check of each chunk.
\<close>

definition kFieldPieces_24 :: "piece_desc list" where
  "kFieldPieces_24 = [
    mk_piece 7 5 0, mk_piece 15 5 0, mk_piece 20 5 0, mk_piece 25 2 0, mk_piece 7 5 0, mk_piece 15 5 0,
    mk_piece 20 5 0, mk_piece 25 2 0, mk_piece 7 5 0, mk_piece 15 5 0, mk_piece 20 5 0, mk_piece 25 2 0,
    mk_piece 7 5 0, mk_piece 27 5 0, mk_piece 15 5 0, mk_piece 20 5 0, mk_piece 25 2 0, mk_piece 7 5 0,
    mk_piece 27 5 0, mk_piece 15 5 0, mk_piece 20 5 0, mk_piece 25 2 0, mk_piece 7 5 0, mk_piece 15 5 0,
    mk_piece 25 2 0, mk_piece 15 5 0, mk_piece 20 5 0, mk_piece 25 7 0, mk_piece 7 5 7, mk_piece 20 5 0,
    mk_piece 25 7 0, mk_piece 7 5 7, mk_piece 7 5 0, mk_piece 15 5 0, mk_piece 25 2 0]"

definition kFields_24 :: "field_desc list" where
  "kFields_24 = [
    mk_field ''RegDst'' (-1) 5 497 1, mk_field ''SrcL'' (-1) 5 498 1, mk_field ''SrcR'' (-1) 5 499 1,
    mk_field ''SrcType'' (-1) 2 500 1, mk_field ''RegDst'' (-1) 5 501 1, mk_field ''SrcL'' (-1) 5 502 1,
    mk_field ''SrcR'' (-1) 5 503 1, mk_field ''SrcType'' (-1) 2 504 1, mk_field ''RegDst'' (-1) 5 505 1,
    mk_field ''SrcL'' (-1) 5 506 1, mk_field ''SrcR'' (-1) 5 507 1, mk_field ''SrcType'' (-1) 2 508 1,
    mk_field ''RegDst'' (-1) 5 509 1, mk_field ''SrcA'' (-1) 5 510 1, mk_field ''SrcL'' (-1) 5 511 1,
    mk_field ''SrcR'' (-1) 5 512 1, mk_field ''SrcType'' (-1) 2 513 1, mk_field ''RegDst'' (-1) 5 514 1,
    mk_field ''SrcA'' (-1) 5 515 1, mk_field ''SrcL'' (-1) 5 516 1, mk_field ''SrcR'' (-1) 5 517 1,
    mk_field ''SrcType'' (-1) 2 518 1, mk_field ''RegDst'' (-1) 5 519 1, mk_field ''SrcL'' (-1) 5 520 1,
    mk_field ''SrcType'' (-1) 2 521 1, mk_field ''DstBegin'' (-1) 5 522 1, mk_field ''DstEnd'' (-1) 5 523 1,
    mk_field ''uimm'' 0 12 524 2, mk_field ''DstEnd'' (-1) 5 526 1, mk_field ''uimm'' 0 12 527 2,
    mk_field ''RegDst'' (-1) 5 529 1, mk_field ''SrcL'' (-1) 5 530 1, mk_field ''SrcType'' (-1) 2 531 1]"

definition kConstraints_24 :: "constraint_desc list" where
  "kConstraints_24 = [
    mk_constraint ''SrcType'' Op_Ne 2 ''2'', mk_constraint ''SrcType'' Op_Ne 3 ''3'',
    mk_constraint ''SrcType'' Op_Ne 2 ''2'', mk_constraint ''SrcType'' Op_Ne 3 ''3'',
    mk_constraint ''SrcType'' Op_Ne 2 ''2'', mk_constraint ''SrcType'' Op_Ne 3 ''3'',
    mk_constraint ''SrcType'' Op_Ne 2 ''2'', mk_constraint ''SrcType'' Op_Ne 3 ''3'',
    mk_constraint ''SrcType'' Op_Ne 2 ''2'', mk_constraint ''SrcType'' Op_Ne 3 ''3'',
    mk_constraint ''SrcType'' Op_Ne 2 ''2'', mk_constraint ''SrcType'' Op_Ne 3 ''3'',
    mk_constraint ''DstBegin'' Op_Ne 0 ''0'', mk_constraint ''DstBegin'' Op_Ne 1 ''1'',
    mk_constraint ''DstBegin'' Op_Ne 24 ''24'', mk_constraint ''DstBegin'' Op_Ne 25 ''25'',
    mk_constraint ''DstBegin'' Op_Ne 26 ''26'', mk_constraint ''DstBegin'' Op_Ne 27 ''27'',
    mk_constraint ''DstBegin'' Op_Ne 28 ''28'', mk_constraint ''DstBegin'' Op_Ne 29 ''29'',
    mk_constraint ''DstBegin'' Op_Ne 30 ''30'', mk_constraint ''DstBegin'' Op_Ne 31 ''31'',
    mk_constraint ''DstEnd'' Op_Ne 0 ''0'', mk_constraint ''DstEnd'' Op_Ne 1 ''1'',
    mk_constraint ''DstEnd'' Op_Ne 24 ''24'', mk_constraint ''DstEnd'' Op_Ne 25 ''25'',
    mk_constraint ''DstEnd'' Op_Ne 26 ''26'', mk_constraint ''DstEnd'' Op_Ne 27 ''27'',
    mk_constraint ''DstEnd'' Op_Ne 28 ''28'', mk_constraint ''DstEnd'' Op_Ne 29 ''29'',
    mk_constraint ''DstEnd'' Op_Ne 30 ''30'', mk_constraint ''DstEnd'' Op_Ne 31 ''31'',
    mk_constraint ''DstEnd'' Op_Ne 0 ''0'', mk_constraint ''DstEnd'' Op_Ne 1 ''1'',
    mk_constraint ''DstEnd'' Op_Ne 24 ''24'', mk_constraint ''DstEnd'' Op_Ne 25 ''25'',
    mk_constraint ''DstEnd'' Op_Ne 26 ''26'', mk_constraint ''DstEnd'' Op_Ne 27 ''27'',
    mk_constraint ''DstEnd'' Op_Ne 28 ''28'', mk_constraint ''DstEnd'' Op_Ne 29 ''29'',
    mk_constraint ''DstEnd'' Op_Ne 30 ''30'', mk_constraint ''DstEnd'' Op_Ne 31 ''31'',
    mk_constraint ''SrcType'' Op_Ne 2 ''2'', mk_constraint ''SrcType'' Op_Ne 3 ''3'']"

definition kForms_24 :: "form_desc list" where
  "kForms_24 = [
    mk_form ''7d521d9d65e7'' ''FMUL'' ''fmul.{T} SrcL, SrcR, ->{t, u, Rd}'' ''L32'' ''FSU'' ''FSU'' ''FSU''
      32 15 0xf800707f 0x204b 492 4 759 2,
    mk_form ''822c18caca3b'' ''FNE'' ''fne.{T} SrcL, SrcR, ->{t, u, Rd}'' ''L32'' ''FSU'' ''FSU'' ''FSU''
      32 15 0xf800707f 0x105b 496 4 761 2,
    mk_form ''9b4b5a493783'' ''FNES'' ''fnes.{T} SrcL, SrcR, ->{t, u, Rd}'' ''L32'' ''FSU'' ''FSU'' ''FSU''
      32 15 0xf800707f 0x800105b 500 4 763 2,
    mk_form ''7f45e606d299'' ''FNMADD'' ''fnmadd.{T} SrcL, SrcR, SrcA, ->{t, u, Rd}'' ''L32'' ''FSU'' ''FSU'' ''FSU''
      32 10 0x707f 0x604b 504 5 765 2,
    mk_form ''6542d56665b3'' ''FNMSUB'' ''fnmsub.{T} SrcL, SrcR, SrcA, ->{t, u, Rd}'' ''L32'' ''FSU'' ''FSU'' ''FSU''
      32 10 0x707f 0x704b 509 5 767 2,
    mk_form ''3d51f4f727ea'' ''FRECIP'' ''frecip.{T} SrcL, ->{t, u, Rd}'' ''L32'' ''FSU'' ''FSU'' ''FSU''
      32 20 0xf9f0707f 0x207b 514 3 769 2,
    mk_form ''659c886221c1'' ''FRET.RA'' ''FRET.RA [RegDst0 ~ RegDstn], sp!, uimm'' ''L32'' ''Bundle Split'' ''CMD'' ''CMD''
      32 10 0x707f 0x2041 517 3 771 20,
    mk_form ''4fe246bd8241'' ''FRET.STK'' ''FRET.STK [ra ~ RegDstn], sp!, uimm'' ''L32'' ''Bundle Split'' ''CMD'' ''CMD''
      32 15 0xff07f 0x53041 520 2 791 10,
    mk_form ''84b3495cc6c7'' ''FSQRT'' ''fsqrt.{T} SrcL, ->{t, u, Rd}'' ''L32'' ''FSU'' ''FSU'' ''FSU''
      32 20 0xf9f0707f 0x107b 522 3 801 2]"

lemma chunk_24: "walk_forms kForms_24 kFields_24 kFieldPieces_24 kConstraints_24 492 497 759 525 532 803"
  by (simp add: kForms_24_def kFields_24_def kFieldPieces_24_def kConstraints_24_def walk_eval)

lemma length_kForms_24 [simp]: "length kForms_24 = 9"
  by (simp add: kForms_24_def)

definition kFieldPieces_25 :: "piece_desc list" where
  "kFieldPieces_25 = [
    mk_piece 7 5 0, mk_piece 15 5 0, mk_piece 20 5 0, mk_piece 25 2 0, mk_piece 23 5 0, mk_piece 31 5 0,
    mk_piece 36 12 0, mk_piece 4 12 12, mk_piece 23 5 0, mk_piece 31 5 0, mk_piece 36 12 0, mk_piece 4 12 12,
    mk_piece 23 5 0, mk_piece 28 20 0, mk_piece 4 12 20, mk_piece 23 5 0, mk_piece 31 5 0, mk_piece 36 12 0,
    mk_piece 4 12 12, mk_piece 23 5 0, mk_piece 31 5 0, mk_piece 36 12 0, mk_piece 4 12 12, mk_piece 23 5 0,
    mk_piece 31 5 0, mk_piece 36 5 0, mk_piece 4 6 0, mk_piece 10 6 0, mk_piece 7 25 0, mk_piece 38 5 0,
    mk_piece 31 17 1, mk_piece 4 12 18]"

definition kFields_25 :: "field_desc list" where
  "kFields_25 = [
    mk_field ''RegDst'' (-1) 5 532 1, mk_field ''SrcL'' (-1) 5 533 1, mk_field ''SrcR'' (-1) 5 534 1,
    mk_field ''SrcType'' (-1) 2 535 1, mk_field ''RegDst'' (-1) 5 536 1, mk_field ''SrcL'' (-1) 5 537 1,
    mk_field ''uimm24'' 0 24 538 2, mk_field ''RegDst'' (-1) 5 540 1, mk_field ''SrcL'' (-1) 5 541 1,
    mk_field ''uimm24'' 0 24 542 2, mk_field ''RegDst'' (-1) 5 544 1, mk_field ''imm32'' (-1) 32 545 2,
    mk_field ''RegDst'' (-1) 5 547 1, mk_field ''SrcL'' (-1) 5 548 1, mk_field ''simm24'' 1 24 549 2,
    mk_field ''RegDst'' (-1) 5 551 1, mk_field ''SrcL'' (-1) 5 552 1, mk_field ''simm24'' 1 24 553 2,
    mk_field ''RegDst'' (-1) 5 555 1, mk_field ''SrcL'' (-1) 5 556 1, mk_field ''SrcR'' (-1) 5 557 1,
    mk_field ''immr'' (-1) 6 558 1, mk_field ''imms'' (-1) 6 559 1, mk_field ''simm25'' 1 25 560 1,
    mk_field ''uimm5'' 0 5 561 1, mk_field ''simm'' 1 30 562 2]"

definition kConstraints_25 :: "constraint_desc list" where
  "kConstraints_25 = [
    mk_constraint ''SrcType'' Op_Ne 2 ''2'', mk_constraint ''SrcType'' Op_Ne 3 ''3'',
    mk_constraint ''RegDst'' Op_Ne 10 ''10'']"

definition kForms_25 :: "form_desc list" where
  "kForms_25 = [
    mk_form ''a4479d0d4276'' ''FSUB'' ''fsub.{T} SrcL, SrcR, ->{t, u, Rd}'' ''L32'' ''FSU'' ''FSU'' ''FSU''
      32 15 0xf800707f 0x104b 525 4 803 2,
    mk_form ''9d3818bfbe64'' ''HL.ADDI'' ''hl.addi SrcL, uimm, ->{t, u, Rd}'' ''HL48'' ''ALU'' ''ALU'' ''ALU''
      48 14 0x707f000f 0x15000e 529 3 805 0,
    mk_form ''f6d7f5032964'' ''HL.ADDIW'' ''hl.addiw SrcL, uimm, ->{t, u, Rd}'' ''HL48'' ''ALU'' ''ALU'' ''ALU''
      48 14 0x707f000f 0x35000e 532 3 805 0,
    mk_form ''2e8e692eea09'' ''HL.ADDTPC'' ''hl.addtpc imm, ->{t, u, Rd}'' ''HL48'' ''BRU'' ''BRU'' ''BRU''
      48 11 0x7f000f 0x7000e 535 2 805 1,
    mk_form ''fe11c7ebca41'' ''HL.ANDI'' ''hl.andi SrcL, simm, ->{t, u, Rd}'' ''HL48'' ''ALU'' ''ALU'' ''ALU''
      48 14 0x707f000f 0x2015000e 537 3 806 0,
    mk_form ''878c6594c6ff'' ''HL.ANDIW'' ''hl.andiw SrcL, simm, ->{t, u, Rd}'' ''HL48'' ''ALU'' ''ALU'' ''ALU''
      48 14 0x707f000f 0x2035000e 540 3 806 0,
    mk_form ''8adfd476aacc'' ''HL.BFI'' ''hl.bfi SrcL, SrcR, M, N, ->{t, u, Rd}'' ''HL48'' ''ALU'' ''ALU'' ''ALU''
      48 21 0xfe00707f000f 0x204d000e 543 5 806 0,
    mk_form ''d71cee46ab50'' ''HL.BSTART CALL'' ''HL.BSTART.CALL <br_label>, <rt_label>, ->ra'' ''HL48'' ''BSTART'' ''BBD'' ''BBD''
      48 18 0xf83f0000007f 0x501600000011 548 2 806 0,
    mk_form ''0368fb7424f4'' ''HL.BSTART.FP'' ''HL.BSTART.FP FALL<, fixup_label>'' ''HL48'' ''BSTART'' ''BBD'' ''BBD''
      48 19 0x7fff000f 0x1101000e 550 1 806 0]"

lemma chunk_25: "walk_forms kForms_25 kFields_25 kFieldPieces_25 kConstraints_25 525 532 803 551 564 806"
  by (simp add: kForms_25_def kFields_25_def kFieldPieces_25_def kConstraints_25_def walk_eval)

lemma length_kForms_25 [simp]: "length kForms_25 = 9"
  by (simp add: kForms_25_def)

definition kFieldPieces_26 :: "piece_desc list" where
  "kFieldPieces_26 = [
    mk_piece 31 17 1, mk_piece 4 12 18, mk_piece 31 17 1, mk_piece 4 12 18, mk_piece 31 17 1,
    mk_piece 4 12 18, mk_piece 31 17 1, mk_piece 4 12 18, mk_piece 31 17 1, mk_piece 4 12 18,
    mk_piece 31 17 1, mk_piece 4 12 18, mk_piece 31 17 1, mk_piece 4 12 18, mk_piece 31 17 1,
    mk_piece 4 12 18, mk_piece 23 5 0, mk_piece 6 5 0, mk_piece 31 5 0, mk_piece 36 5 0, mk_piece 42 1 0,
    mk_piece 43 1 0, mk_piece 41 1 0]"

definition kFields_26 :: "field_desc list" where
  "kFields_26 = [
    mk_field ''simm'' 1 30 564 2, mk_field ''simm'' 1 30 566 2, mk_field ''simm'' 1 30 568 2,
    mk_field ''simm'' 1 30 570 2, mk_field ''simm'' 1 30 572 2, mk_field ''simm'' 1 30 574 2,
    mk_field ''simm'' 1 30 576 2, mk_field ''simm'' 1 30 578 2, mk_field ''RegDst'' (-1) 5 580 1,
    mk_field ''SrcD'' (-1) 5 581 1, mk_field ''SrcL'' (-1) 5 582 1, mk_field ''SrcR'' (-1) 5 583 1,
    mk_field ''aq'' (-1) 1 584 1, mk_field ''far'' (-1) 1 585 1, mk_field ''rl'' (-1) 1 586 1]"

definition kConstraints_26 :: "constraint_desc list" where
  "kConstraints_26 = []"

definition kForms_26 :: "form_desc list" where
  "kForms_26 = [
    mk_form ''9955c1f823f6'' ''HL.BSTART.FP'' ''HL.BSTART.FP CALL, <label>'' ''HL48'' ''BSTART'' ''BBD'' ''BBD''
      48 19 0x7fff000f 0x4101000e 551 1 806 0,
    mk_form ''9a0544563449'' ''HL.BSTART.FP'' ''HL.BSTART.FP DIRECT, <label>'' ''HL48'' ''BSTART'' ''BBD'' ''BBD''
      48 19 0x7fff000f 0x2101000e 552 1 806 0,
    mk_form ''f074f1e2c089'' ''HL.BSTART.FP'' ''HL.BSTART.FP COND, <label>'' ''HL48'' ''BSTART'' ''BBD'' ''BBD''
      48 19 0x7fff000f 0x3101000e 553 1 806 0,
    mk_form ''170d04be4f7e'' ''HL.BSTART.STD'' ''HL.BSTART.STD FALL<, fixup_label>'' ''HL48'' ''BSTART'' ''BBD'' ''BBD''
      48 19 0x7fff000f 0x1001000e 554 1 806 0,
    mk_form ''436ff4a95f39'' ''HL.BSTART.STD'' ''HL.BSTART.STD COND, <label>'' ''HL48'' ''BSTART'' ''BBD'' ''BBD''
      48 19 0x7fff000f 0x3001000e 555 1 806 0,
    mk_form ''4eff98193028'' ''HL.BSTART.STD'' ''HL.BSTART.STD CALL, <label>'' ''HL48'' ''BSTART'' ''BBD'' ''BBD''
      48 19 0x7fff000f 0x4001000e 556 1 806 0,
    mk_form ''c970f578674f'' ''HL.BSTART.STD'' ''HL.BSTART.STD DIRECT, <label>'' ''HL48'' ''BSTART'' ''BBD'' ''BBD''
      48 19 0x7fff000f 0x2001000e 557 1 806 0,
    mk_form ''54ff489122fe'' ''HL.BSTART.SYS'' ''HL.BSTART.SYS FALL<, fixup_label>'' ''HL48'' ''BSTART'' ''BBD'' ''BBD''
      48 19 0x7fff000f 0x1081000e 558 1 806 0,
    mk_form ''21fb578617a8'' ''HL.CASB'' ''hl.casb<.{aq, rl, f, aqrl, aqf, rlf, aqrlf}> [SrcL], SrcR, SrcD, ->{t, u, Rd}'' ''HL48'' ''AMO'' ''AMO'' ''AMO''
      48 25 0xf000707ff83f 0x600b000e 559 7 806 0]"

lemma chunk_26: "walk_forms kForms_26 kFields_26 kFieldPieces_26 kConstraints_26 551 564 806 566 587 806"
  by (simp add: kForms_26_def kFields_26_def kFieldPieces_26_def kConstraints_26_def walk_eval)

lemma length_kForms_26 [simp]: "length kForms_26 = 9"
  by (simp add: kForms_26_def)

definition kFieldPieces_27 :: "piece_desc list" where
  "kFieldPieces_27 = [
    mk_piece 23 5 0, mk_piece 6 5 0, mk_piece 31 5 0, mk_piece 36 5 0, mk_piece 42 1 0, mk_piece 43 1 0,
    mk_piece 41 1 0, mk_piece 23 5 0, mk_piece 6 5 0, mk_piece 31 5 0, mk_piece 36 5 0, mk_piece 42 1 0,
    mk_piece 43 1 0, mk_piece 41 1 0, mk_piece 23 5 0, mk_piece 6 5 0, mk_piece 31 5 0, mk_piece 36 5 0,
    mk_piece 42 1 0, mk_piece 43 1 0, mk_piece 41 1 0, mk_piece 23 5 0, mk_piece 11 5 0, mk_piece 31 5 0,
    mk_piece 36 5 0, mk_piece 41 7 0, mk_piece 23 5 0, mk_piece 11 5 0, mk_piece 31 5 0, mk_piece 36 5 0,
    mk_piece 41 7 0, mk_piece 23 5 0, mk_piece 31 5 0, mk_piece 36 12 0, mk_piece 4 12 12, mk_piece 23 5 0,
    mk_piece 31 5 0, mk_piece 36 12 0, mk_piece 4 12 12, mk_piece 23 5 0, mk_piece 31 5 0, mk_piece 36 12 0,
    mk_piece 4 12 12, mk_piece 23 5 0, mk_piece 31 5 0, mk_piece 36 12 0, mk_piece 4 12 12]"

definition kFields_27 :: "field_desc list" where
  "kFields_27 = [
    mk_field ''RegDst'' (-1) 5 587 1, mk_field ''SrcD'' (-1) 5 588 1, mk_field ''SrcL'' (-1) 5 589 1,
    mk_field ''SrcR'' (-1) 5 590 1, mk_field ''aq'' (-1) 1 591 1, mk_field ''far'' (-1) 1 592 1,
    mk_field ''rl'' (-1) 1 593 1, mk_field ''RegDst'' (-1) 5 594 1, mk_field ''SrcD'' (-1) 5 595 1,
    mk_field ''SrcL'' (-1) 5 596 1, mk_field ''SrcR'' (-1) 5 597 1, mk_field ''aq'' (-1) 1 598 1,
    mk_field ''far'' (-1) 1 599 1, mk_field ''rl'' (-1) 1 600 1, mk_field ''RegDst'' (-1) 5 601 1,
    mk_field ''SrcD'' (-1) 5 602 1, mk_field ''SrcL'' (-1) 5 603 1, mk_field ''SrcR'' (-1) 5 604 1,
    mk_field ''aq'' (-1) 1 605 1, mk_field ''far'' (-1) 1 606 1, mk_field ''rl'' (-1) 1 607 1,
    mk_field ''RegDst0'' (-1) 5 608 1, mk_field ''RegDst1'' (-1) 5 609 1, mk_field ''SrcL'' (-1) 5 610 1,
    mk_field ''SrcR'' (-1) 5 611 1, mk_field ''shamt'' (-1) 7 612 1, mk_field ''RegDst0'' (-1) 5 613 1,
    mk_field ''RegDst1'' (-1) 5 614 1, mk_field ''SrcL'' (-1) 5 615 1, mk_field ''SrcR'' (-1) 5 616 1,
    mk_field ''shamt'' (-1) 7 617 1, mk_field ''RegDst'' (-1) 5 618 1, mk_field ''SrcL'' (-1) 5 619 1,
    mk_field ''simm24'' 1 24 620 2, mk_field ''RegDst'' (-1) 5 622 1, mk_field ''SrcL'' (-1) 5 623 1,
    mk_field ''simm24'' 1 24 624 2, mk_field ''RegDst'' (-1) 5 626 1, mk_field ''SrcL'' (-1) 5 627 1,
    mk_field ''simm24'' 1 24 628 2, mk_field ''RegDst'' (-1) 5 630 1, mk_field ''SrcL'' (-1) 5 631 1,
    mk_field ''uimm24'' 0 24 632 2]"

definition kConstraints_27 :: "constraint_desc list" where
  "kConstraints_27 = []"

definition kForms_27 :: "form_desc list" where
  "kForms_27 = [
    mk_form ''fbb5c4256d30'' ''HL.CASD'' ''hl.casd<.{aq, rl, f, aqrl, aqf, rlf, aqrlf}> [SrcL], SrcR, SrcD, ->{t, u, Rd}'' ''HL48'' ''AMO'' ''AMO'' ''AMO''
      48 25 0xf000707ff83f 0x3000600b000e 566 7 806 0,
    mk_form ''eee12c324d97'' ''HL.CASH'' ''hl.cash<.{aq, rl, f, aqrl, aqf, rlf, aqrlf}> [SrcL], SrcR, SrcD, ->{t, u, Rd}'' ''HL48'' ''AMO'' ''AMO'' ''AMO''
      48 25 0xf000707ff83f 0x1000600b000e 573 7 806 0,
    mk_form ''a89b3d58d8f0'' ''HL.CASW'' ''hl.casw<.{aq, rl, f, aqrl, aqf, rlf, aqrlf}> [SrcL], SrcR, SrcD, ->{t, u, Rd}'' ''HL48'' ''AMO'' ''AMO'' ''AMO''
      48 25 0xf000707ff83f 0x2000600b000e 580 7 806 0,
    mk_form ''a1200d8bf5ac'' ''HL.CCAT'' ''hl.ccat SrcL, SrcR, shamt, ->Dst0, Dst1'' ''HL48'' ''ALU'' ''ALU'' ''ALU''
      48 21 0x707f07ff 0x105d000e 587 5 806 0,
    mk_form ''24a85ea4659c'' ''HL.CCATW'' ''hl.ccatw SrcL, SrcR, shamt, ->Dst0, Dst1'' ''HL48'' ''ALU'' ''ALU'' ''ALU''
      48 21 0x707f07ff 0x205d000e 592 5 806 0,
    mk_form ''de2aae3f4516'' ''HL.CMP.ANDI'' ''hl.cmp.andi SrcL, simm, ->{t, u, Rd}'' ''HL48'' ''BRU'' ''BRU'' ''BRU''
      48 14 0x707f000f 0x2055000e 597 3 806 0,
    mk_form ''887accd218b1'' ''HL.CMP.EQI'' ''hl.cmp.eqi SrcL, simm, ->{t, u, Rd}'' ''HL48'' ''BRU'' ''BRU'' ''BRU''
      48 14 0x707f000f 0x55000e 600 3 806 0,
    mk_form ''b3703d4c4619'' ''HL.CMP.GEI'' ''hl.cmp.gei SrcL, simm, ->{t, u, Rd}'' ''HL48'' ''BRU'' ''BRU'' ''BRU''
      48 14 0x707f000f 0x5055000e 603 3 806 0,
    mk_form ''c71f4fb29e6b'' ''HL.CMP.GEUI'' ''hl.cmp.geui SrcL, uimm, ->{t, u, Rd}'' ''HL48'' ''BRU'' ''BRU'' ''BRU''
      48 14 0x707f000f 0x7055000e 606 3 806 0]"

lemma chunk_27: "walk_forms kForms_27 kFields_27 kFieldPieces_27 kConstraints_27 566 587 806 609 634 806"
  by (simp add: kForms_27_def kFields_27_def kFieldPieces_27_def kConstraints_27_def walk_eval)

lemma length_kForms_27 [simp]: "length kForms_27 = 9"
  by (simp add: kForms_27_def)

definition kFieldPieces_28 :: "piece_desc list" where
  "kFieldPieces_28 = [
    mk_piece 23 5 0, mk_piece 31 5 0, mk_piece 36 12 0, mk_piece 4 12 12, mk_piece 23 5 0, mk_piece 31 5 0,
    mk_piece 36 12 0, mk_piece 4 12 12, mk_piece 23 5 0, mk_piece 31 5 0, mk_piece 36 12 0, mk_piece 4 12 12,
    mk_piece 23 5 0, mk_piece 31 5 0, mk_piece 36 12 0, mk_piece 4 12 12, mk_piece 23 5 0, mk_piece 11 5 0,
    mk_piece 31 5 0, mk_piece 36 5 0, mk_piece 23 5 0, mk_piece 11 5 0, mk_piece 31 5 0, mk_piece 36 5 0,
    mk_piece 23 5 0, mk_piece 11 5 0, mk_piece 31 5 0, mk_piece 36 5 0, mk_piece 23 5 0, mk_piece 11 5 0,
    mk_piece 31 5 0, mk_piece 36 5 0, mk_piece 23 5 0, mk_piece 31 17 0, mk_piece 4 12 17]"

definition kFields_28 :: "field_desc list" where
  "kFields_28 = [
    mk_field ''RegDst'' (-1) 5 634 1, mk_field ''SrcL'' (-1) 5 635 1, mk_field ''simm24'' 1 24 636 2,
    mk_field ''RegDst'' (-1) 5 638 1, mk_field ''SrcL'' (-1) 5 639 1, mk_field ''uimm24'' 0 24 640 2,
    mk_field ''RegDst'' (-1) 5 642 1, mk_field ''SrcL'' (-1) 5 643 1, mk_field ''simm24'' 1 24 644 2,
    mk_field ''RegDst'' (-1) 5 646 1, mk_field ''SrcL'' (-1) 5 647 1, mk_field ''simm24'' 1 24 648 2,
    mk_field ''RegDst0'' (-1) 5 650 1, mk_field ''RegDst1'' (-1) 5 651 1, mk_field ''SrcL'' (-1) 5 652 1,
    mk_field ''SrcR'' (-1) 5 653 1, mk_field ''RegDst0'' (-1) 5 654 1, mk_field ''RegDst1'' (-1) 5 655 1,
    mk_field ''SrcL'' (-1) 5 656 1, mk_field ''SrcR'' (-1) 5 657 1, mk_field ''RegDst0'' (-1) 5 658 1,
    mk_field ''RegDst1'' (-1) 5 659 1, mk_field ''SrcL'' (-1) 5 660 1, mk_field ''SrcR'' (-1) 5 661 1,
    mk_field ''RegDst0'' (-1) 5 662 1, mk_field ''RegDst1'' (-1) 5 663 1, mk_field ''SrcL'' (-1) 5 664 1,
    mk_field ''SrcR'' (-1) 5 665 1, mk_field ''RegDst'' (-1) 5 666 1, mk_field ''simm'' 1 29 667 2]"

definition kConstraints_28 :: "constraint_desc list" where
  "kConstraints_28 = []"

definition kForms_28 :: "form_desc list" where
  "kForms_28 = [
    mk_form ''bec21b77021a'' ''HL.CMP.LTI'' ''hl.cmp.lti SrcL, simm, ->{t, u, Rd}'' ''HL48'' ''BRU'' ''BRU'' ''BRU''
      48 14 0x707f000f 0x4055000e 609 3 806 0,
    mk_form ''d12167277d58'' ''HL.CMP.LTUI'' ''hl.cmp.ltui SrcL, uimm, ->{t, u, Rd}'' ''HL48'' ''BRU'' ''BRU'' ''BRU''
      48 14 0x707f000f 0x6055000e 612 3 806 0,
    mk_form ''e77da507704a'' ''HL.CMP.NEI'' ''hl.cmp.nei SrcL, simm, ->{t, u, Rd}'' ''HL48'' ''BRU'' ''BRU'' ''BRU''
      48 14 0x707f000f 0x1055000e 615 3 806 0,
    mk_form ''4167568cb50b'' ''HL.CMP.ORI'' ''hl.cmp.ori SrcL, simm, ->{t, u, Rd}'' ''HL48'' ''BRU'' ''BRU'' ''BRU''
      48 14 0x707f000f 0x3055000e 618 3 806 0,
    mk_form ''e8ff1fc1cb98'' ''HL.DIV'' ''hl.div SrcL, SrcR, ->Dst0, Dst1'' ''HL48'' ''ALU'' ''ALU'' ''ALU''
      48 28 0xfe00707f07ff 0x57000e 621 4 806 0,
    mk_form ''597acda29e08'' ''HL.DIVU'' ''hl.divu SrcL, SrcR, ->Dst0, Dst1'' ''HL48'' ''ALU'' ''ALU'' ''ALU''
      48 28 0xfe00707f07ff 0x1057000e 625 4 806 0,
    mk_form ''9ebe516091b8'' ''HL.DIVUW'' ''hl.divuw SrcL, SrcR, ->Dst0, Dst1'' ''HL48'' ''ALU'' ''ALU'' ''ALU''
      48 28 0xfe00707f07ff 0x3057000e 629 4 806 0,
    mk_form ''9048cdb3b22f'' ''HL.DIVW'' ''hl.divw SrcL, SrcR, ->Dst0, Dst1'' ''HL48'' ''ALU'' ''ALU'' ''ALU''
      48 28 0xfe00707f07ff 0x2057000e 633 4 806 0,
    mk_form ''c0ba9a54c8e0'' ''HL.LB.PCR'' ''hl.lb.pcr [<symbol>], ->{t, u, Rd}'' ''HL48'' ''LDA/PC_REL'' ''LDA/PC_REL'' ''AGU''
      48 14 0x707f000f 0x39000e 637 2 806 0]"

lemma chunk_28: "walk_forms kForms_28 kFields_28 kFieldPieces_28 kConstraints_28 609 634 806 639 669 806"
  by (simp add: kForms_28_def kFields_28_def kFieldPieces_28_def kConstraints_28_def walk_eval)

lemma length_kForms_28 [simp]: "length kForms_28 = 9"
  by (simp add: kForms_28_def)

definition kFieldPieces_29 :: "piece_desc list" where
  "kFieldPieces_29 = [
    mk_piece 23 5 0, mk_piece 11 5 0, mk_piece 31 5 0, mk_piece 36 5 0, mk_piece 41 2 0, mk_piece 43 5 0,
    mk_piece 23 5 0, mk_piece 11 5 0, mk_piece 31 5 0, mk_piece 36 5 0, mk_piece 41 2 0, mk_piece 43 5 0,
    mk_piece 23 5 0, mk_piece 31 5 0, mk_piece 36 12 0, mk_piece 6 10 12, mk_piece 23 5 0, mk_piece 11 5 0,
    mk_piece 31 5 0, mk_piece 36 12 0, mk_piece 6 5 12, mk_piece 23 5 0, mk_piece 11 5 0, mk_piece 31 5 0,
    mk_piece 36 12 0, mk_piece 6 5 12, mk_piece 23 5 0, mk_piece 11 5 0, mk_piece 31 5 0, mk_piece 36 12 0,
    mk_piece 6 5 12, mk_piece 23 5 0, mk_piece 11 5 0, mk_piece 31 5 0, mk_piece 36 5 0, mk_piece 41 2 0,
    mk_piece 43 5 0, mk_piece 23 5 0, mk_piece 31 17 0, mk_piece 4 12 17, mk_piece 23 5 0, mk_piece 11 5 0,
    mk_piece 31 5 0, mk_piece 36 5 0, mk_piece 41 2 0, mk_piece 43 5 0]"

definition kFields_29 :: "field_desc list" where
  "kFields_29 = [
    mk_field ''RegDst0'' (-1) 5 669 1, mk_field ''RegDst1'' (-1) 5 670 1, mk_field ''SrcL'' (-1) 5 671 1,
    mk_field ''SrcR'' (-1) 5 672 1, mk_field ''SrcRType'' (-1) 2 673 1, mk_field ''shamt'' (-1) 5 674 1,
    mk_field ''RegDst0'' (-1) 5 675 1, mk_field ''RegDst1'' (-1) 5 676 1, mk_field ''SrcL'' (-1) 5 677 1,
    mk_field ''SrcR'' (-1) 5 678 1, mk_field ''SrcRType'' (-1) 2 679 1, mk_field ''shamt'' (-1) 5 680 1,
    mk_field ''RegDst'' (-1) 5 681 1, mk_field ''SrcL'' (-1) 5 682 1, mk_field ''simm22'' 1 22 683 2,
    mk_field ''RegDst0'' (-1) 5 685 1, mk_field ''RegDst1'' (-1) 5 686 1, mk_field ''SrcL'' (-1) 5 687 1,
    mk_field ''simm17'' 1 17 688 2, mk_field ''RegDst0'' (-1) 5 690 1, mk_field ''RegDst1'' (-1) 5 691 1,
    mk_field ''SrcL'' (-1) 5 692 1, mk_field ''simm17'' 1 17 693 2, mk_field ''RegDst0'' (-1) 5 695 1,
    mk_field ''RegDst1'' (-1) 5 696 1, mk_field ''SrcL'' (-1) 5 697 1, mk_field ''simm17'' 1 17 698 2,
    mk_field ''RegDst0'' (-1) 5 700 1, mk_field ''RegDst1'' (-1) 5 701 1, mk_field ''SrcL'' (-1) 5 702 1,
    mk_field ''SrcR'' (-1) 5 703 1, mk_field ''SrcRType'' (-1) 2 704 1, mk_field ''shamt'' (-1) 5 705 1,
    mk_field ''RegDst'' (-1) 5 706 1, mk_field ''simm'' 1 29 707 2, mk_field ''RegDst0'' (-1) 5 709 1,
    mk_field ''RegDst1'' (-1) 5 710 1, mk_field ''SrcL'' (-1) 5 711 1, mk_field ''SrcR'' (-1) 5 712 1,
    mk_field ''SrcRType'' (-1) 2 713 1, mk_field ''shamt'' (-1) 5 714 1]"

definition kConstraints_29 :: "constraint_desc list" where
  "kConstraints_29 = [
    mk_constraint ''SrcRType'' Op_Ne 3 ''3'', mk_constraint ''SrcRType'' Op_Ne 3 ''3'',
    mk_constraint ''SrcRType'' Op_Ne 3 ''3'', mk_constraint ''SrcRType'' Op_Ne 3 ''3'']"

definition kForms_29 :: "form_desc list" where
  "kForms_29 = [
    mk_form ''5c7f5c82b186'' ''HL.LB.PO'' ''hl.lb.po [SrcL, SrcR<{.sw,.uw}><<<shamt>], ->Dst0, Dst1'' ''HL48'' ''LDA/POST_INDEX'' ''LDA/POST_INDEX'' ''AGU''
      48 21 0x707f07ff 0x9003e 639 6 806 1,
    mk_form ''cf73675cad50'' ''HL.LB.PR'' ''hl.lb.pr [SrcL, SrcR<{.sw,.uw}><<<shamt>], ->Dst0, Dst1'' ''HL48'' ''LDA/PRE_INDEX'' ''LDA/PRE_INDEX'' ''AGU''
      48 21 0x707f07ff 0x9002e 645 6 807 1,
    mk_form ''250803040cc8'' ''HL.LBI'' ''hl.lbi [SrcL, simm], ->{t, u, Rd}'' ''HL48'' ''LDA/LONG'' ''LDA/LONG'' ''AGU''
      48 16 0x707f003f 0x19000e 651 3 808 0,
    mk_form ''afbc00c48aba'' ''HL.LBI.PO'' ''hl.lbi.po [SrcL, simm], ->Dst0, Dst1'' ''HL48'' ''LDA/POST_INDEX'' ''LDA/POST_INDEX'' ''AGU''
      48 16 0x707f003f 0x19003e 654 4 808 0,
    mk_form ''b4bdbd29f859'' ''HL.LBI.PR'' ''hl.lbi.pr [SrcL, simm], ->Dst0, Dst1'' ''HL48'' ''LDA/PRE_INDEX'' ''LDA/PRE_INDEX'' ''AGU''
      48 16 0x707f003f 0x19002e 658 4 808 0,
    mk_form ''70a5767aff16'' ''HL.LBIP'' ''hl.lbip [SrcL, simm], ->Dst0, Dst1'' ''HL48'' ''LDA/PAIR'' ''LDA/PAIR'' ''AGU''
      48 16 0x707f003f 0x19001e 662 4 808 0,
    mk_form ''9d1fd0b3105b'' ''HL.LBP'' ''hl.lbp [SrcL, SrcR<{.sw,.uw}><<<shamt>], ->Dst0, Dst1'' ''HL48'' ''LDA/PAIR'' ''LDA/PAIR'' ''AGU''
      48 21 0x707f07ff 0x9001e 666 6 808 1,
    mk_form ''504b34c0ec9d'' ''HL.LBU.PCR'' ''hl.lbu.pcr [<symbol>], ->{t, u, Rd}'' ''HL48'' ''LDA/PC_REL'' ''LDA/PC_REL'' ''AGU''
      48 14 0x707f000f 0x4039000e 672 2 809 0,
    mk_form ''5c8a5b39e6c5'' ''HL.LBU.PO'' ''hl.lbu.po [SrcL, SrcR<{.sw,.uw}><<<shamt>], ->Dst0, Dst1'' ''HL48'' ''LDA/POST_INDEX'' ''LDA/POST_INDEX'' ''AGU''
      48 21 0x707f07ff 0x4009003e 674 6 809 1]"

lemma chunk_29: "walk_forms kForms_29 kFields_29 kFieldPieces_29 kConstraints_29 639 669 806 680 715 810"
  by (simp add: kForms_29_def kFields_29_def kFieldPieces_29_def kConstraints_29_def walk_eval)

lemma length_kForms_29 [simp]: "length kForms_29 = 9"
  by (simp add: kForms_29_def)

end
