(* ===== verification/Isa_Table_05.thy ===== *)
theory Isa_Table_05
  imports Isa_Check
begin

text \<open>
  Forms 270 to 323 of the arrays of \<^verbatim>\<open>src/isa/generated_tables.cpp\<close> (lines 9640 to 10449), with their fields,
  pieces and constraints, in chunks of at most 9 forms, and the check of each chunk.
\<close>

definition kFieldPieces_30 :: "piece_desc list" where
  "kFieldPieces_30 = [
    mk_piece 23 5 0, mk_piece 11 5 0, mk_piece 31 5 0, mk_piece 36 5 0, mk_piece 41 2 0, mk_piece 43 5 0,
    mk_piece 23 5 0, mk_piece 31 5 0, mk_piece 36 12 0, mk_piece 6 10 12, mk_piece 23 5 0, mk_piece 11 5 0,
    mk_piece 31 5 0, mk_piece 36 12 0, mk_piece 6 5 12, mk_piece 23 5 0, mk_piece 11 5 0, mk_piece 31 5 0,
    mk_piece 36 12 0, mk_piece 6 5 12, mk_piece 23 5 0, mk_piece 11 5 0, mk_piece 31 5 0, mk_piece 36 12 0,
    mk_piece 6 5 12, mk_piece 23 5 0, mk_piece 11 5 0, mk_piece 31 5 0, mk_piece 36 5 0, mk_piece 41 2 0,
    mk_piece 43 5 0, mk_piece 23 5 0, mk_piece 31 17 0, mk_piece 4 12 17, mk_piece 23 5 0, mk_piece 11 5 0,
    mk_piece 31 5 0, mk_piece 36 5 0, mk_piece 41 2 0, mk_piece 43 5 0, mk_piece 23 5 0, mk_piece 11 5 0,
    mk_piece 31 5 0, mk_piece 36 5 0, mk_piece 41 2 0, mk_piece 43 5 0]"

definition kFields_30 :: "field_desc list" where
  "kFields_30 = [
    mk_field ''RegDst0'' (-1) 5 715 1, mk_field ''RegDst1'' (-1) 5 716 1, mk_field ''SrcL'' (-1) 5 717 1,
    mk_field ''SrcR'' (-1) 5 718 1, mk_field ''SrcRType'' (-1) 2 719 1, mk_field ''shamt'' (-1) 5 720 1,
    mk_field ''RegDst'' (-1) 5 721 1, mk_field ''SrcL'' (-1) 5 722 1, mk_field ''simm22'' 1 22 723 2,
    mk_field ''RegDst0'' (-1) 5 725 1, mk_field ''RegDst1'' (-1) 5 726 1, mk_field ''SrcL'' (-1) 5 727 1,
    mk_field ''simm17'' 1 17 728 2, mk_field ''RegDst0'' (-1) 5 730 1, mk_field ''RegDst1'' (-1) 5 731 1,
    mk_field ''SrcL'' (-1) 5 732 1, mk_field ''simm17'' 1 17 733 2, mk_field ''RegDst0'' (-1) 5 735 1,
    mk_field ''RegDst1'' (-1) 5 736 1, mk_field ''SrcL'' (-1) 5 737 1, mk_field ''simm17'' 1 17 738 2,
    mk_field ''RegDst0'' (-1) 5 740 1, mk_field ''RegDst1'' (-1) 5 741 1, mk_field ''SrcL'' (-1) 5 742 1,
    mk_field ''SrcR'' (-1) 5 743 1, mk_field ''SrcRType'' (-1) 2 744 1, mk_field ''shamt'' (-1) 5 745 1,
    mk_field ''RegDst'' (-1) 5 746 1, mk_field ''simm'' 1 29 747 2, mk_field ''RegDst0'' (-1) 5 749 1,
    mk_field ''RegDst1'' (-1) 5 750 1, mk_field ''SrcL'' (-1) 5 751 1, mk_field ''SrcR'' (-1) 5 752 1,
    mk_field ''SrcRType'' (-1) 2 753 1, mk_field ''shamt'' (-1) 5 754 1, mk_field ''RegDst0'' (-1) 5 755 1,
    mk_field ''RegDst1'' (-1) 5 756 1, mk_field ''SrcL'' (-1) 5 757 1, mk_field ''SrcR'' (-1) 5 758 1,
    mk_field ''SrcRType'' (-1) 2 759 1, mk_field ''shamt'' (-1) 5 760 1]"

definition kConstraints_30 :: "constraint_desc list" where
  "kConstraints_30 = [
    mk_constraint ''SrcRType'' Op_Ne 3 ''3'', mk_constraint ''SrcRType'' Op_Ne 3 ''3'',
    mk_constraint ''SrcRType'' Op_Ne 3 ''3'', mk_constraint ''SrcRType'' Op_Ne 3 ''3'']"

definition kForms_30 :: "form_desc list" where
  "kForms_30 = [
    mk_form ''bf9a0ea4b0db'' ''HL.LBU.PR'' ''hl.lbu.pr [SrcL, SrcR<{.sw,.uw}><<<shamt>], ->Dst0, Dst1'' ''HL48'' ''LDA/PRE_INDEX'' ''LDA/PRE_INDEX'' ''AGU''
      48 21 0x707f07ff 0x4009002e 680 6 810 1,
    mk_form ''50579e3558f4'' ''HL.LBUI'' ''hl.lbui [SrcL, simm], ->{t, u, Rd}'' ''HL48'' ''LDA/LONG'' ''LDA/LONG'' ''AGU''
      48 16 0x707f003f 0x4019000e 686 3 811 0,
    mk_form ''c889b4445022'' ''HL.LBUI.PO'' ''hl.lbui.po [SrcL, simm], ->Dst0, Dst1'' ''HL48'' ''LDA/POST_INDEX'' ''LDA/POST_INDEX'' ''AGU''
      48 16 0x707f003f 0x4019003e 689 4 811 0,
    mk_form ''78a81538a7fa'' ''HL.LBUI.PR'' ''hl.lbui.pr [SrcL, simm], ->Dst0, Dst1'' ''HL48'' ''LDA/PRE_INDEX'' ''LDA/PRE_INDEX'' ''AGU''
      48 16 0x707f003f 0x4019002e 693 4 811 0,
    mk_form ''ad419fc474c0'' ''HL.LBUIP'' ''hl.lbuip [SrcL, simm], ->Dst0, Dst1'' ''HL48'' ''LDA/PAIR'' ''LDA/PAIR'' ''AGU''
      48 16 0x707f003f 0x4019001e 697 4 811 0,
    mk_form ''c9598658dde4'' ''HL.LBUP'' ''hl.lbup [SrcL, SrcR<{.sw,.uw}><<<shamt>], ->Dst0, Dst1'' ''HL48'' ''LDA/PAIR'' ''LDA/PAIR'' ''AGU''
      48 21 0x707f07ff 0x4009001e 701 6 811 1,
    mk_form ''703673c266da'' ''HL.LD.PCR'' ''hl.ld.pcr [<symbol>], ->{t, u, Rd}'' ''HL48'' ''LDA/PC_REL'' ''LDA/PC_REL'' ''AGU''
      48 14 0x707f000f 0x3039000e 707 2 812 0,
    mk_form ''870e30995d10'' ''HL.LD.PO'' ''hl.ld.po [SrcL, SrcR<{.sw,.uw}><<<shamt>], ->Dst0, Dst1'' ''HL48'' ''LDA/POST_INDEX'' ''LDA/POST_INDEX'' ''AGU''
      48 21 0x707f07ff 0x3009003e 709 6 812 1,
    mk_form ''7ec4111b123b'' ''HL.LD.PR'' ''hl.ld.pr [SrcL, SrcR<{.sw,.uw}><<<shamt>], ->Dst0, Dst1'' ''HL48'' ''LDA/PRE_INDEX'' ''LDA/PRE_INDEX'' ''AGU''
      48 21 0x707f07ff 0x3009002e 715 6 813 1]"

lemma chunk_30: "walk_forms kForms_30 kFields_30 kFieldPieces_30 kConstraints_30 680 715 810 721 761 814"
  by (simp add: kForms_30_def kFields_30_def kFieldPieces_30_def kConstraints_30_def walk_eval)

lemma length_kForms_30 [simp]: "length kForms_30 = 9"
  by (simp add: kForms_30_def)

definition kFieldPieces_31 :: "piece_desc list" where
  "kFieldPieces_31 = [
    mk_piece 23 5 0, mk_piece 31 5 0, mk_piece 36 12 0, mk_piece 6 10 12, mk_piece 23 5 0, mk_piece 11 5 0,
    mk_piece 31 5 0, mk_piece 36 12 0, mk_piece 6 5 12, mk_piece 23 5 0, mk_piece 11 5 0, mk_piece 31 5 0,
    mk_piece 36 12 0, mk_piece 6 5 12, mk_piece 23 5 0, mk_piece 31 5 0, mk_piece 36 12 0, mk_piece 6 10 12,
    mk_piece 23 5 0, mk_piece 11 5 0, mk_piece 31 5 0, mk_piece 36 12 0, mk_piece 6 5 12, mk_piece 23 5 0,
    mk_piece 11 5 0, mk_piece 31 5 0, mk_piece 36 12 0, mk_piece 6 5 12, mk_piece 23 5 0, mk_piece 11 5 0,
    mk_piece 31 5 0, mk_piece 36 12 0, mk_piece 6 5 12, mk_piece 23 5 0, mk_piece 11 5 0, mk_piece 31 5 0,
    mk_piece 36 12 0, mk_piece 6 5 12, mk_piece 23 5 0, mk_piece 11 5 0, mk_piece 31 5 0, mk_piece 36 5 0,
    mk_piece 41 2 0, mk_piece 43 5 0]"

definition kFields_31 :: "field_desc list" where
  "kFields_31 = [
    mk_field ''RegDst'' (-1) 5 761 1, mk_field ''SrcL'' (-1) 5 762 1, mk_field ''simm22'' 1 22 763 2,
    mk_field ''RegDst0'' (-1) 5 765 1, mk_field ''RegDst1'' (-1) 5 766 1, mk_field ''SrcL'' (-1) 5 767 1,
    mk_field ''simm17'' 1 17 768 2, mk_field ''RegDst0'' (-1) 5 770 1, mk_field ''RegDst1'' (-1) 5 771 1,
    mk_field ''SrcL'' (-1) 5 772 1, mk_field ''simm17'' 1 17 773 2, mk_field ''RegDst'' (-1) 5 775 1,
    mk_field ''SrcL'' (-1) 5 776 1, mk_field ''simm22'' 1 22 777 2, mk_field ''RegDst0'' (-1) 5 779 1,
    mk_field ''RegDst1'' (-1) 5 780 1, mk_field ''SrcL'' (-1) 5 781 1, mk_field ''simm17'' 1 17 782 2,
    mk_field ''RegDst0'' (-1) 5 784 1, mk_field ''RegDst1'' (-1) 5 785 1, mk_field ''SrcL'' (-1) 5 786 1,
    mk_field ''simm17'' 1 17 787 2, mk_field ''RegDst0'' (-1) 5 789 1, mk_field ''RegDst1'' (-1) 5 790 1,
    mk_field ''SrcL'' (-1) 5 791 1, mk_field ''simm17'' 1 17 792 2, mk_field ''RegDst0'' (-1) 5 794 1,
    mk_field ''RegDst1'' (-1) 5 795 1, mk_field ''SrcL'' (-1) 5 796 1, mk_field ''simm17'' 1 17 797 2,
    mk_field ''RegDst0'' (-1) 5 799 1, mk_field ''RegDst1'' (-1) 5 800 1, mk_field ''SrcL'' (-1) 5 801 1,
    mk_field ''SrcR'' (-1) 5 802 1, mk_field ''SrcRType'' (-1) 2 803 1, mk_field ''shamt'' (-1) 5 804 1]"

definition kConstraints_31 :: "constraint_desc list" where
  "kConstraints_31 = [
    mk_constraint ''SrcRType'' Op_Ne 3 ''3'']"

definition kForms_31 :: "form_desc list" where
  "kForms_31 = [
    mk_form ''088e69e45b37'' ''HL.LDI'' ''hl.ldi [SrcL, simm], ->{t, u, Rd}'' ''HL48'' ''LDA/LONG'' ''LDA/LONG'' ''AGU''
      48 16 0x707f003f 0x3019000e 721 3 814 0,
    mk_form ''0cc539e6798d'' ''HL.LDI.PO'' ''hl.ldi.po [SrcL, simm], ->Dst0, Dst1'' ''HL48'' ''LDA/POST_INDEX'' ''LDA/POST_INDEX'' ''AGU''
      48 16 0x707f003f 0x3019003e 724 4 814 0,
    mk_form ''d07cced5a281'' ''HL.LDI.PR'' ''hl.ldi.pr [SrcL, simm], ->Dst0, Dst1'' ''HL48'' ''LDA/PRE_INDEX'' ''LDA/PRE_INDEX'' ''AGU''
      48 16 0x707f003f 0x3019002e 728 4 814 0,
    mk_form ''894d02c12dcc'' ''HL.LDI.U'' ''hl.ldi.u [SrcL, simm], ->{t, u, Rd}'' ''HL48'' ''LDA/LONG'' ''LDA/LONG'' ''AGU''
      48 16 0x707f003f 0x3029000e 732 3 814 0,
    mk_form ''5126b735cfe8'' ''HL.LDI.UPO'' ''hl.ldi.upo [SrcL, simm], ->Dst0, Dst1'' ''HL48'' ''LDA/POST_INDEX'' ''LDA/POST_INDEX'' ''AGU''
      48 16 0x707f003f 0x3029003e 735 4 814 0,
    mk_form ''7a8e2794526f'' ''HL.LDI.UPR'' ''hl.ldi.upr [SrcL, simm], ->Dst0, Dst1'' ''HL48'' ''LDA/PRE_INDEX'' ''LDA/PRE_INDEX'' ''AGU''
      48 16 0x707f003f 0x3029002e 739 4 814 0,
    mk_form ''60afa6423d39'' ''HL.LDIP'' ''hl.ldip [SrcL, simm], ->Dst0, Dst1'' ''HL48'' ''LDA/PAIR'' ''LDA/PAIR'' ''AGU''
      48 16 0x707f003f 0x3019001e 743 4 814 0,
    mk_form ''6813f4fdce5c'' ''HL.LDIP.U'' ''hl.ldip.u [SrcL, simm], ->Dst0, Dst1'' ''HL48'' ''LDA/PAIR'' ''LDA/PAIR'' ''AGU''
      48 16 0x707f003f 0x3029001e 747 4 814 0,
    mk_form ''a7a45a43dff9'' ''HL.LDP'' ''hl.ldp [SrcL, SrcR<{.sw,.uw}><<<shamt>], ->Dst0, Dst1'' ''HL48'' ''LDA/PAIR'' ''LDA/PAIR'' ''AGU''
      48 21 0x707f07ff 0x3009001e 751 6 814 1]"

lemma chunk_31: "walk_forms kForms_31 kFields_31 kFieldPieces_31 kConstraints_31 721 761 814 757 805 815"
  by (simp add: kForms_31_def kFields_31_def kFieldPieces_31_def kConstraints_31_def walk_eval)

lemma length_kForms_31 [simp]: "length kForms_31 = 9"
  by (simp add: kForms_31_def)

definition kFieldPieces_32 :: "piece_desc list" where
  "kFieldPieces_32 = [
    mk_piece 23 5 0, mk_piece 31 17 0, mk_piece 4 12 17, mk_piece 23 5 0, mk_piece 11 5 0, mk_piece 31 5 0,
    mk_piece 36 5 0, mk_piece 41 2 0, mk_piece 43 5 0, mk_piece 23 5 0, mk_piece 11 5 0, mk_piece 31 5 0,
    mk_piece 36 5 0, mk_piece 41 2 0, mk_piece 43 5 0, mk_piece 23 5 0, mk_piece 31 5 0, mk_piece 36 12 0,
    mk_piece 6 10 12, mk_piece 23 5 0, mk_piece 11 5 0, mk_piece 31 5 0, mk_piece 36 12 0, mk_piece 6 5 12,
    mk_piece 23 5 0, mk_piece 11 5 0, mk_piece 31 5 0, mk_piece 36 12 0, mk_piece 6 5 12, mk_piece 23 5 0,
    mk_piece 31 5 0, mk_piece 36 12 0, mk_piece 6 10 12, mk_piece 23 5 0, mk_piece 11 5 0, mk_piece 31 5 0,
    mk_piece 36 12 0, mk_piece 6 5 12, mk_piece 23 5 0, mk_piece 11 5 0, mk_piece 31 5 0, mk_piece 36 12 0,
    mk_piece 6 5 12]"

definition kFields_32 :: "field_desc list" where
  "kFields_32 = [
    mk_field ''RegDst'' (-1) 5 805 1, mk_field ''simm'' 1 29 806 2, mk_field ''RegDst0'' (-1) 5 808 1,
    mk_field ''RegDst1'' (-1) 5 809 1, mk_field ''SrcL'' (-1) 5 810 1, mk_field ''SrcR'' (-1) 5 811 1,
    mk_field ''SrcRType'' (-1) 2 812 1, mk_field ''shamt'' (-1) 5 813 1, mk_field ''RegDst0'' (-1) 5 814 1,
    mk_field ''RegDst1'' (-1) 5 815 1, mk_field ''SrcL'' (-1) 5 816 1, mk_field ''SrcR'' (-1) 5 817 1,
    mk_field ''SrcRType'' (-1) 2 818 1, mk_field ''shamt'' (-1) 5 819 1, mk_field ''RegDst'' (-1) 5 820 1,
    mk_field ''SrcL'' (-1) 5 821 1, mk_field ''simm22'' 1 22 822 2, mk_field ''RegDst0'' (-1) 5 824 1,
    mk_field ''RegDst1'' (-1) 5 825 1, mk_field ''SrcL'' (-1) 5 826 1, mk_field ''simm17'' 1 17 827 2,
    mk_field ''RegDst0'' (-1) 5 829 1, mk_field ''RegDst1'' (-1) 5 830 1, mk_field ''SrcL'' (-1) 5 831 1,
    mk_field ''simm17'' 1 17 832 2, mk_field ''RegDst'' (-1) 5 834 1, mk_field ''SrcL'' (-1) 5 835 1,
    mk_field ''simm22'' 1 22 836 2, mk_field ''RegDst0'' (-1) 5 838 1, mk_field ''RegDst1'' (-1) 5 839 1,
    mk_field ''SrcL'' (-1) 5 840 1, mk_field ''simm17'' 1 17 841 2, mk_field ''RegDst0'' (-1) 5 843 1,
    mk_field ''RegDst1'' (-1) 5 844 1, mk_field ''SrcL'' (-1) 5 845 1, mk_field ''simm17'' 1 17 846 2]"

definition kConstraints_32 :: "constraint_desc list" where
  "kConstraints_32 = [
    mk_constraint ''SrcRType'' Op_Ne 3 ''3'', mk_constraint ''SrcRType'' Op_Ne 3 ''3'']"

definition kForms_32 :: "form_desc list" where
  "kForms_32 = [
    mk_form ''37df3cfe0d6e'' ''HL.LH.PCR'' ''hl.lh.pcr [<symbol>], ->{t, u, Rd}'' ''HL48'' ''LDA/PC_REL'' ''LDA/PC_REL'' ''AGU''
      48 14 0x707f000f 0x1039000e 757 2 815 0,
    mk_form ''7ca3e8b77906'' ''HL.LH.PO'' ''hl.lh.po [SrcL, SrcR<{.sw,.uw}><<<shamt>], ->Dst0, Dst1'' ''HL48'' ''LDA/POST_INDEX'' ''LDA/POST_INDEX'' ''AGU''
      48 21 0x707f07ff 0x1009003e 759 6 815 1,
    mk_form ''d59f64cde1dc'' ''HL.LH.PR'' ''hl.lh.pr [SrcL, SrcR<{.sw,.uw}><<<shamt>], ->Dst0, Dst1'' ''HL48'' ''LDA/PRE_INDEX'' ''LDA/PRE_INDEX'' ''AGU''
      48 21 0x707f07ff 0x1009002e 765 6 816 1,
    mk_form ''6d94cb04aeac'' ''HL.LHI'' ''hl.lhi [SrcL, simm], ->{t, u, Rd}'' ''HL48'' ''LDA/LONG'' ''LDA/LONG'' ''AGU''
      48 16 0x707f003f 0x1019000e 771 3 817 0,
    mk_form ''aa393747abda'' ''HL.LHI.PO'' ''hl.lhi.po [SrcL, simm], ->Dst0, Dst1'' ''HL48'' ''LDA/POST_INDEX'' ''LDA/POST_INDEX'' ''AGU''
      48 16 0x707f003f 0x1019003e 774 4 817 0,
    mk_form ''9ec8198594ad'' ''HL.LHI.PR'' ''hl.lhi.pr [SrcL, simm], ->Dst0, Dst1'' ''HL48'' ''LDA/PRE_INDEX'' ''LDA/PRE_INDEX'' ''AGU''
      48 16 0x707f003f 0x1019002e 778 4 817 0,
    mk_form ''4d4b89e63c98'' ''HL.LHI.U'' ''hl.lhi.u [SrcL, simm], ->{t, u, Rd}'' ''HL48'' ''LDA/LONG'' ''LDA/LONG'' ''AGU''
      48 16 0x707f003f 0x1029000e 782 3 817 0,
    mk_form ''81c796b13b12'' ''HL.LHI.UPO'' ''hl.lhi.upo [SrcL, simm], ->Dst0, Dst1'' ''HL48'' ''LDA/POST_INDEX'' ''LDA/POST_INDEX'' ''AGU''
      48 16 0x707f003f 0x1029003e 785 4 817 0,
    mk_form ''2a7c09d4b645'' ''HL.LHI.UPR'' ''hl.lhi.upr [SrcL, simm], ->Dst0, Dst1'' ''HL48'' ''LDA/PRE_INDEX'' ''LDA/PRE_INDEX'' ''AGU''
      48 16 0x707f003f 0x1029002e 789 4 817 0]"

lemma chunk_32: "walk_forms kForms_32 kFields_32 kFieldPieces_32 kConstraints_32 757 805 815 793 848 817"
  by (simp add: kForms_32_def kFields_32_def kFieldPieces_32_def kConstraints_32_def walk_eval)

lemma length_kForms_32 [simp]: "length kForms_32 = 9"
  by (simp add: kForms_32_def)

definition kFieldPieces_33 :: "piece_desc list" where
  "kFieldPieces_33 = [
    mk_piece 23 5 0, mk_piece 11 5 0, mk_piece 31 5 0, mk_piece 36 12 0, mk_piece 6 5 12, mk_piece 23 5 0,
    mk_piece 11 5 0, mk_piece 31 5 0, mk_piece 36 12 0, mk_piece 6 5 12, mk_piece 23 5 0, mk_piece 11 5 0,
    mk_piece 31 5 0, mk_piece 36 5 0, mk_piece 41 2 0, mk_piece 43 5 0, mk_piece 23 5 0, mk_piece 31 17 0,
    mk_piece 4 12 17, mk_piece 23 5 0, mk_piece 11 5 0, mk_piece 31 5 0, mk_piece 36 5 0, mk_piece 41 2 0,
    mk_piece 43 5 0, mk_piece 23 5 0, mk_piece 11 5 0, mk_piece 31 5 0, mk_piece 36 5 0, mk_piece 41 2 0,
    mk_piece 43 5 0, mk_piece 23 5 0, mk_piece 31 5 0, mk_piece 36 12 0, mk_piece 6 10 12, mk_piece 23 5 0,
    mk_piece 11 5 0, mk_piece 31 5 0, mk_piece 36 12 0, mk_piece 6 5 12, mk_piece 23 5 0, mk_piece 11 5 0,
    mk_piece 31 5 0, mk_piece 36 12 0, mk_piece 6 5 12]"

definition kFields_33 :: "field_desc list" where
  "kFields_33 = [
    mk_field ''RegDst0'' (-1) 5 848 1, mk_field ''RegDst1'' (-1) 5 849 1, mk_field ''SrcL'' (-1) 5 850 1,
    mk_field ''simm17'' 1 17 851 2, mk_field ''RegDst0'' (-1) 5 853 1, mk_field ''RegDst1'' (-1) 5 854 1,
    mk_field ''SrcL'' (-1) 5 855 1, mk_field ''simm17'' 1 17 856 2, mk_field ''RegDst0'' (-1) 5 858 1,
    mk_field ''RegDst1'' (-1) 5 859 1, mk_field ''SrcL'' (-1) 5 860 1, mk_field ''SrcR'' (-1) 5 861 1,
    mk_field ''SrcRType'' (-1) 2 862 1, mk_field ''shamt'' (-1) 5 863 1, mk_field ''RegDst'' (-1) 5 864 1,
    mk_field ''simm'' 1 29 865 2, mk_field ''RegDst0'' (-1) 5 867 1, mk_field ''RegDst1'' (-1) 5 868 1,
    mk_field ''SrcL'' (-1) 5 869 1, mk_field ''SrcR'' (-1) 5 870 1, mk_field ''SrcRType'' (-1) 2 871 1,
    mk_field ''shamt'' (-1) 5 872 1, mk_field ''RegDst0'' (-1) 5 873 1, mk_field ''RegDst1'' (-1) 5 874 1,
    mk_field ''SrcL'' (-1) 5 875 1, mk_field ''SrcR'' (-1) 5 876 1, mk_field ''SrcRType'' (-1) 2 877 1,
    mk_field ''shamt'' (-1) 5 878 1, mk_field ''RegDst'' (-1) 5 879 1, mk_field ''SrcL'' (-1) 5 880 1,
    mk_field ''simm22'' 1 22 881 2, mk_field ''RegDst0'' (-1) 5 883 1, mk_field ''RegDst1'' (-1) 5 884 1,
    mk_field ''SrcL'' (-1) 5 885 1, mk_field ''simm17'' 1 17 886 2, mk_field ''RegDst0'' (-1) 5 888 1,
    mk_field ''RegDst1'' (-1) 5 889 1, mk_field ''SrcL'' (-1) 5 890 1, mk_field ''simm17'' 1 17 891 2]"

definition kConstraints_33 :: "constraint_desc list" where
  "kConstraints_33 = [
    mk_constraint ''SrcRType'' Op_Ne 3 ''3'', mk_constraint ''SrcRType'' Op_Ne 3 ''3'',
    mk_constraint ''SrcRType'' Op_Ne 3 ''3'']"

definition kForms_33 :: "form_desc list" where
  "kForms_33 = [
    mk_form ''2c664751c537'' ''HL.LHIP'' ''hl.lhip [SrcL, simm], ->Dst0, Dst1'' ''HL48'' ''LDA/PAIR'' ''LDA/PAIR'' ''AGU''
      48 16 0x707f003f 0x1019001e 793 4 817 0,
    mk_form ''e37e98d63bfd'' ''HL.LHIP.U'' ''hl.lhip.u [SrcL, simm], ->Dst0, Dst1'' ''HL48'' ''LDA/PAIR'' ''LDA/PAIR'' ''AGU''
      48 16 0x707f003f 0x1029001e 797 4 817 0,
    mk_form ''128eb429101f'' ''HL.LHP'' ''hl.lhp [SrcL, SrcR<{.sw,.uw}><<<shamt>], ->Dst0, Dst1'' ''HL48'' ''LDA/PAIR'' ''LDA/PAIR'' ''AGU''
      48 21 0x707f07ff 0x1009001e 801 6 817 1,
    mk_form ''444cb4ddde1d'' ''HL.LHU.PCR'' ''hl.lhu.pcr [<symbol>], ->{t, u, Rd}'' ''HL48'' ''LDA/PC_REL'' ''LDA/PC_REL'' ''AGU''
      48 14 0x707f000f 0x5039000e 807 2 818 0,
    mk_form ''c57c3b4a74e8'' ''HL.LHU.PO'' ''hl.lhu.po [SrcL, SrcR<{.sw,.uw}><<<shamt>], ->Dst0, Dst1'' ''HL48'' ''LDA/POST_INDEX'' ''LDA/POST_INDEX'' ''AGU''
      48 21 0x707f07ff 0x5009003e 809 6 818 1,
    mk_form ''f874b126e29c'' ''HL.LHU.PR'' ''hl.lhu.pr [SrcL, SrcR<{.sw,.uw}><<<shamt>], ->Dst0, Dst1'' ''HL48'' ''LDA/PRE_INDEX'' ''LDA/PRE_INDEX'' ''AGU''
      48 21 0x707f07ff 0x5009002e 815 6 819 1,
    mk_form ''6450dca3aad9'' ''HL.LHUI'' ''hl.lhui [SrcL, simm], ->{t, u, Rd}'' ''HL48'' ''LDA/LONG'' ''LDA/LONG'' ''AGU''
      48 16 0x707f003f 0x5019000e 821 3 820 0,
    mk_form ''16db8d40eee8'' ''HL.LHUI.PO'' ''hl.lhui.po [SrcL, simm], ->Dst0, Dst1'' ''HL48'' ''LDA/POST_INDEX'' ''LDA/POST_INDEX'' ''AGU''
      48 16 0x707f003f 0x5019003e 824 4 820 0,
    mk_form ''6a99a2b99298'' ''HL.LHUI.PR'' ''hl.lhui.pr [SrcL, simm], ->Dst0, Dst1'' ''HL48'' ''LDA/PRE_INDEX'' ''LDA/PRE_INDEX'' ''AGU''
      48 16 0x707f003f 0x5019002e 828 4 820 0]"

lemma chunk_33: "walk_forms kForms_33 kFields_33 kFieldPieces_33 kConstraints_33 793 848 817 832 893 820"
  by (simp add: kForms_33_def kFields_33_def kFieldPieces_33_def kConstraints_33_def walk_eval)

lemma length_kForms_33 [simp]: "length kForms_33 = 9"
  by (simp add: kForms_33_def)

definition kFieldPieces_34 :: "piece_desc list" where
  "kFieldPieces_34 = [
    mk_piece 23 5 0, mk_piece 31 5 0, mk_piece 36 12 0, mk_piece 6 10 12, mk_piece 23 5 0, mk_piece 11 5 0,
    mk_piece 31 5 0, mk_piece 36 12 0, mk_piece 6 5 12, mk_piece 23 5 0, mk_piece 11 5 0, mk_piece 31 5 0,
    mk_piece 36 12 0, mk_piece 6 5 12, mk_piece 23 5 0, mk_piece 11 5 0, mk_piece 31 5 0, mk_piece 36 12 0,
    mk_piece 6 5 12, mk_piece 23 5 0, mk_piece 11 5 0, mk_piece 31 5 0, mk_piece 36 12 0, mk_piece 6 5 12,
    mk_piece 23 5 0, mk_piece 11 5 0, mk_piece 31 5 0, mk_piece 36 5 0, mk_piece 41 2 0, mk_piece 43 5 0,
    mk_piece 23 5 0, mk_piece 28 20 0, mk_piece 4 12 20, mk_piece 23 5 0, mk_piece 28 20 0, mk_piece 4 12 20,
    mk_piece 23 5 0, mk_piece 28 20 0, mk_piece 4 12 20]"

definition kFields_34 :: "field_desc list" where
  "kFields_34 = [
    mk_field ''RegDst'' (-1) 5 893 1, mk_field ''SrcL'' (-1) 5 894 1, mk_field ''simm22'' 1 22 895 2,
    mk_field ''RegDst0'' (-1) 5 897 1, mk_field ''RegDst1'' (-1) 5 898 1, mk_field ''SrcL'' (-1) 5 899 1,
    mk_field ''simm17'' 1 17 900 2, mk_field ''RegDst0'' (-1) 5 902 1, mk_field ''RegDst1'' (-1) 5 903 1,
    mk_field ''SrcL'' (-1) 5 904 1, mk_field ''simm17'' 1 17 905 2, mk_field ''RegDst0'' (-1) 5 907 1,
    mk_field ''RegDst1'' (-1) 5 908 1, mk_field ''SrcL'' (-1) 5 909 1, mk_field ''simm17'' 1 17 910 2,
    mk_field ''RegDst0'' (-1) 5 912 1, mk_field ''RegDst1'' (-1) 5 913 1, mk_field ''SrcL'' (-1) 5 914 1,
    mk_field ''simm17'' 1 17 915 2, mk_field ''RegDst0'' (-1) 5 917 1, mk_field ''RegDst1'' (-1) 5 918 1,
    mk_field ''SrcL'' (-1) 5 919 1, mk_field ''SrcR'' (-1) 5 920 1, mk_field ''SrcRType'' (-1) 2 921 1,
    mk_field ''shamt'' (-1) 5 922 1, mk_field ''RegDst'' (-1) 5 923 1, mk_field ''simm32'' 1 32 924 2,
    mk_field ''RegDst'' (-1) 5 926 1, mk_field ''uimm32'' 0 32 927 2, mk_field ''RegDst'' (-1) 5 929 1,
    mk_field ''imm'' (-1) 32 930 2]"

definition kConstraints_34 :: "constraint_desc list" where
  "kConstraints_34 = [
    mk_constraint ''SrcRType'' Op_Ne 3 ''3'']"

definition kForms_34 :: "form_desc list" where
  "kForms_34 = [
    mk_form ''d75649bac1c7'' ''HL.LHUI.U'' ''hl.lhui.u [SrcL, simm], ->{t, u, Rd}'' ''HL48'' ''LDA/LONG'' ''LDA/LONG'' ''AGU''
      48 16 0x707f003f 0x5029000e 832 3 820 0,
    mk_form ''7f2c3eae793e'' ''HL.LHUI.UPO'' ''hl.lhui.upo [SrcL, simm], ->Dst0, Dst1'' ''HL48'' ''LDA/POST_INDEX'' ''LDA/POST_INDEX'' ''AGU''
      48 16 0x707f003f 0x5029003e 835 4 820 0,
    mk_form ''7e66aaf61701'' ''HL.LHUI.UPR'' ''hl.lhui.upr [SrcL, simm], ->Dst0, Dst1'' ''HL48'' ''LDA/PRE_INDEX'' ''LDA/PRE_INDEX'' ''AGU''
      48 16 0x707f003f 0x5029002e 839 4 820 0,
    mk_form ''0b0ef5bd2405'' ''HL.LHUIP'' ''hl.lhuip [SrcL, simm], ->Dst0, Dst1'' ''HL48'' ''LDA/PAIR'' ''LDA/PAIR'' ''AGU''
      48 16 0x707f003f 0x5019001e 843 4 820 0,
    mk_form ''11a0e580caf1'' ''HL.LHUIP.U'' ''hl.lhuip.u [SrcL, simm], ->Dst0, Dst1'' ''HL48'' ''LDA/PAIR'' ''LDA/PAIR'' ''AGU''
      48 16 0x707f003f 0x5029001e 847 4 820 0,
    mk_form ''ea24f978b27a'' ''HL.LHUP'' ''hl.lhup [SrcL, SrcR<{.sw,.uw}><<<shamt>], ->Dst0, Dst1'' ''HL48'' ''LDA/PAIR'' ''LDA/PAIR'' ''AGU''
      48 21 0x707f07ff 0x5009001e 851 6 820 1,
    mk_form ''908853d6ef87'' ''HL.LIS'' ''hl.lis simm, ->{t, u, Rd}'' ''HL48'' ''ALU'' ''ALU'' ''ALU''
      48 11 0x7f000f 0xd000e 857 2 821 0,
    mk_form ''9dd207ce3aea'' ''HL.LIU'' ''hl.liu uimm, ->{t, u, Rd}'' ''HL48'' ''ALU'' ''ALU'' ''ALU''
      48 11 0x7f000f 0x1d000e 859 2 821 0,
    mk_form ''255991889818'' ''HL.LUI'' ''hl.lui imm, ->{t, u, Rd}'' ''HL48'' ''ALU'' ''ALU'' ''ALU''
      48 11 0x7f000f 0x17000e 861 2 821 0]"

lemma chunk_34: "walk_forms kForms_34 kFields_34 kFieldPieces_34 kConstraints_34 832 893 820 863 932 821"
  by (simp add: kForms_34_def kFields_34_def kFieldPieces_34_def kConstraints_34_def walk_eval)

lemma length_kForms_34 [simp]: "length kForms_34 = 9"
  by (simp add: kForms_34_def)

definition kFieldPieces_35 :: "piece_desc list" where
  "kFieldPieces_35 = [
    mk_piece 23 5 0, mk_piece 31 17 0, mk_piece 4 12 17, mk_piece 23 5 0, mk_piece 11 5 0, mk_piece 31 5 0,
    mk_piece 36 5 0, mk_piece 41 2 0, mk_piece 43 5 0, mk_piece 23 5 0, mk_piece 11 5 0, mk_piece 31 5 0,
    mk_piece 36 5 0, mk_piece 41 2 0, mk_piece 43 5 0, mk_piece 23 5 0, mk_piece 31 5 0, mk_piece 36 12 0,
    mk_piece 6 10 12, mk_piece 23 5 0, mk_piece 11 5 0, mk_piece 31 5 0, mk_piece 36 12 0, mk_piece 6 5 12,
    mk_piece 23 5 0, mk_piece 11 5 0, mk_piece 31 5 0, mk_piece 36 12 0, mk_piece 6 5 12, mk_piece 23 5 0,
    mk_piece 31 5 0, mk_piece 36 12 0, mk_piece 6 10 12, mk_piece 23 5 0, mk_piece 11 5 0, mk_piece 31 5 0,
    mk_piece 36 12 0, mk_piece 6 5 12, mk_piece 23 5 0, mk_piece 11 5 0, mk_piece 31 5 0, mk_piece 36 12 0,
    mk_piece 6 5 12]"

definition kFields_35 :: "field_desc list" where
  "kFields_35 = [
    mk_field ''RegDst'' (-1) 5 932 1, mk_field ''simm'' 1 29 933 2, mk_field ''RegDst0'' (-1) 5 935 1,
    mk_field ''RegDst1'' (-1) 5 936 1, mk_field ''SrcL'' (-1) 5 937 1, mk_field ''SrcR'' (-1) 5 938 1,
    mk_field ''SrcRType'' (-1) 2 939 1, mk_field ''shamt'' (-1) 5 940 1, mk_field ''RegDst0'' (-1) 5 941 1,
    mk_field ''RegDst1'' (-1) 5 942 1, mk_field ''SrcL'' (-1) 5 943 1, mk_field ''SrcR'' (-1) 5 944 1,
    mk_field ''SrcRType'' (-1) 2 945 1, mk_field ''shamt'' (-1) 5 946 1, mk_field ''RegDst'' (-1) 5 947 1,
    mk_field ''SrcL'' (-1) 5 948 1, mk_field ''simm22'' 1 22 949 2, mk_field ''RegDst0'' (-1) 5 951 1,
    mk_field ''RegDst1'' (-1) 5 952 1, mk_field ''SrcL'' (-1) 5 953 1, mk_field ''simm17'' 1 17 954 2,
    mk_field ''RegDst0'' (-1) 5 956 1, mk_field ''RegDst1'' (-1) 5 957 1, mk_field ''SrcL'' (-1) 5 958 1,
    mk_field ''simm17'' 1 17 959 2, mk_field ''RegDst'' (-1) 5 961 1, mk_field ''SrcL'' (-1) 5 962 1,
    mk_field ''simm22'' 1 22 963 2, mk_field ''RegDst0'' (-1) 5 965 1, mk_field ''RegDst1'' (-1) 5 966 1,
    mk_field ''SrcL'' (-1) 5 967 1, mk_field ''simm17'' 1 17 968 2, mk_field ''RegDst0'' (-1) 5 970 1,
    mk_field ''RegDst1'' (-1) 5 971 1, mk_field ''SrcL'' (-1) 5 972 1, mk_field ''simm17'' 1 17 973 2]"

definition kConstraints_35 :: "constraint_desc list" where
  "kConstraints_35 = [
    mk_constraint ''SrcRType'' Op_Ne 3 ''3'', mk_constraint ''SrcRType'' Op_Ne 3 ''3'']"

definition kForms_35 :: "form_desc list" where
  "kForms_35 = [
    mk_form ''00cf25e2ac36'' ''HL.LW.PCR'' ''hl.lw.pcr [<symbol>], ->{t, u, Rd}'' ''HL48'' ''LDA/PC_REL'' ''LDA/PC_REL'' ''AGU''
      48 14 0x707f000f 0x2039000e 863 2 821 0,
    mk_form ''ff2c6de58064'' ''HL.LW.PO'' ''hl.lw.po [SrcL, SrcR<{.sw,.uw}><<<shamt>], ->Dst0, Dst1'' ''HL48'' ''LDA/POST_INDEX'' ''LDA/POST_INDEX'' ''AGU''
      48 21 0x707f07ff 0x2009003e 865 6 821 1,
    mk_form ''2b0d62d28b57'' ''HL.LW.PR'' ''hl.lw.pr [SrcL, SrcR<{.sw,.uw}><<<shamt>], ->Dst0, Dst1'' ''HL48'' ''LDA/PRE_INDEX'' ''LDA/PRE_INDEX'' ''AGU''
      48 21 0x707f07ff 0x2009002e 871 6 822 1,
    mk_form ''549c666c56fd'' ''HL.LWI'' ''hl.lwi [SrcL, simm], ->{t, u, Rd}'' ''HL48'' ''LDA/LONG'' ''LDA/LONG'' ''AGU''
      48 16 0x707f003f 0x2019000e 877 3 823 0,
    mk_form ''2dc642d88d9d'' ''HL.LWI.PO'' ''hl.lwi.po [SrcL, simm], ->Dst0, Dst1'' ''HL48'' ''LDA/POST_INDEX'' ''LDA/POST_INDEX'' ''AGU''
      48 16 0x707f003f 0x2019003e 880 4 823 0,
    mk_form ''3b5e1524de1b'' ''HL.LWI.PR'' ''hl.lwi.pr [SrcL, simm], ->Dst0, Dst1'' ''HL48'' ''LDA/PRE_INDEX'' ''LDA/PRE_INDEX'' ''AGU''
      48 16 0x707f003f 0x2019002e 884 4 823 0,
    mk_form ''267e0f4a6222'' ''HL.LWI.U'' ''hl.lwi.u [SrcL, simm], ->{t, u, Rd}'' ''HL48'' ''LDA/LONG'' ''LDA/LONG'' ''AGU''
      48 16 0x707f003f 0x2029000e 888 3 823 0,
    mk_form ''1c25d6266934'' ''HL.LWI.UPO'' ''hl.lwi.upo [SrcL, simm], ->Dst0, Dst1'' ''HL48'' ''LDA/POST_INDEX'' ''LDA/POST_INDEX'' ''AGU''
      48 16 0x707f003f 0x2029003e 891 4 823 0,
    mk_form ''03b5f7994b14'' ''HL.LWI.UPR'' ''hl.lwi.upr [SrcL, simm], ->Dst0, Dst1'' ''HL48'' ''LDA/PRE_INDEX'' ''LDA/PRE_INDEX'' ''AGU''
      48 16 0x707f003f 0x2029002e 895 4 823 0]"

lemma chunk_35: "walk_forms kForms_35 kFields_35 kFieldPieces_35 kConstraints_35 863 932 821 899 975 823"
  by (simp add: kForms_35_def kFields_35_def kFieldPieces_35_def kConstraints_35_def walk_eval)

lemma length_kForms_35 [simp]: "length kForms_35 = 9"
  by (simp add: kForms_35_def)

end
