(* ===== verification/Isa_Table_06.thy ===== *)
theory Isa_Table_06
  imports Isa_Check
begin

text \<open>
  Forms 324 to 377 of the arrays of \<^verbatim>\<open>src/isa/generated_tables.cpp\<close> (lines 10450 to 11259), with their fields,
  pieces and constraints, in chunks of at most 9 forms, and the check of each chunk.
\<close>

definition kFieldPieces_36 :: "piece_desc list" where
  "kFieldPieces_36 = [
    mk_piece 23 5 0, mk_piece 11 5 0, mk_piece 31 5 0, mk_piece 36 12 0, mk_piece 6 5 12, mk_piece 23 5 0,
    mk_piece 11 5 0, mk_piece 31 5 0, mk_piece 36 12 0, mk_piece 6 5 12, mk_piece 23 5 0, mk_piece 11 5 0,
    mk_piece 31 5 0, mk_piece 36 5 0, mk_piece 41 2 0, mk_piece 43 5 0, mk_piece 23 5 0, mk_piece 31 17 0,
    mk_piece 4 12 17, mk_piece 23 5 0, mk_piece 11 5 0, mk_piece 31 5 0, mk_piece 36 5 0, mk_piece 41 2 0,
    mk_piece 43 5 0, mk_piece 23 5 0, mk_piece 11 5 0, mk_piece 31 5 0, mk_piece 36 5 0, mk_piece 41 2 0,
    mk_piece 43 5 0, mk_piece 23 5 0, mk_piece 31 5 0, mk_piece 36 12 0, mk_piece 6 10 12, mk_piece 23 5 0,
    mk_piece 11 5 0, mk_piece 31 5 0, mk_piece 36 12 0, mk_piece 6 5 12, mk_piece 23 5 0, mk_piece 11 5 0,
    mk_piece 31 5 0, mk_piece 36 12 0, mk_piece 6 5 12]"

definition kFields_36 :: "field_desc list" where
  "kFields_36 = [
    mk_field ''RegDst0'' (-1) 5 975 1, mk_field ''RegDst1'' (-1) 5 976 1, mk_field ''SrcL'' (-1) 5 977 1,
    mk_field ''simm17'' 1 17 978 2, mk_field ''RegDst0'' (-1) 5 980 1, mk_field ''RegDst1'' (-1) 5 981 1,
    mk_field ''SrcL'' (-1) 5 982 1, mk_field ''simm17'' 1 17 983 2, mk_field ''RegDst0'' (-1) 5 985 1,
    mk_field ''RegDst1'' (-1) 5 986 1, mk_field ''SrcL'' (-1) 5 987 1, mk_field ''SrcR'' (-1) 5 988 1,
    mk_field ''SrcRType'' (-1) 2 989 1, mk_field ''shamt'' (-1) 5 990 1, mk_field ''RegDst'' (-1) 5 991 1,
    mk_field ''simm'' 1 29 992 2, mk_field ''RegDst0'' (-1) 5 994 1, mk_field ''RegDst1'' (-1) 5 995 1,
    mk_field ''SrcL'' (-1) 5 996 1, mk_field ''SrcR'' (-1) 5 997 1, mk_field ''SrcRType'' (-1) 2 998 1,
    mk_field ''shamt'' (-1) 5 999 1, mk_field ''RegDst0'' (-1) 5 1000 1, mk_field ''RegDst1'' (-1) 5 1001 1,
    mk_field ''SrcL'' (-1) 5 1002 1, mk_field ''SrcR'' (-1) 5 1003 1, mk_field ''SrcRType'' (-1) 2 1004 1,
    mk_field ''shamt'' (-1) 5 1005 1, mk_field ''RegDst'' (-1) 5 1006 1, mk_field ''SrcL'' (-1) 5 1007 1,
    mk_field ''simm22'' 1 22 1008 2, mk_field ''RegDst0'' (-1) 5 1010 1, mk_field ''RegDst1'' (-1) 5 1011 1,
    mk_field ''SrcL'' (-1) 5 1012 1, mk_field ''simm17'' 1 17 1013 2, mk_field ''RegDst0'' (-1) 5 1015 1,
    mk_field ''RegDst1'' (-1) 5 1016 1, mk_field ''SrcL'' (-1) 5 1017 1, mk_field ''simm17'' 1 17 1018 2]"

definition kConstraints_36 :: "constraint_desc list" where
  "kConstraints_36 = [
    mk_constraint ''SrcRType'' Op_Ne 3 ''3'', mk_constraint ''SrcRType'' Op_Ne 3 ''3'',
    mk_constraint ''SrcRType'' Op_Ne 3 ''3'']"

definition kForms_36 :: "form_desc list" where
  "kForms_36 = [
    mk_form ''e459297b8b7c'' ''HL.LWIP'' ''hl.lwip [SrcL, simm], ->Dst0, Dst1'' ''HL48'' ''LDA/PAIR'' ''LDA/PAIR'' ''AGU''
      48 16 0x707f003f 0x2019001e 899 4 823 0,
    mk_form ''c9aca369eab2'' ''HL.LWIP.U'' ''hl.lwip.u [SrcL, simm], ->Dst0, Dst1'' ''HL48'' ''LDA/PAIR'' ''LDA/PAIR'' ''AGU''
      48 16 0x707f003f 0x2029001e 903 4 823 0,
    mk_form ''10fe25c62553'' ''HL.LWP'' ''hl.lwp [SrcL, SrcR<{.sw,.uw}><<<shamt>], ->Dst0, Dst1'' ''HL48'' ''LDA/PAIR'' ''LDA/PAIR'' ''AGU''
      48 21 0x707f07ff 0x2009001e 907 6 823 1,
    mk_form ''95ba33b7b68c'' ''HL.LWU.PCR'' ''hl.lwu.pcr [<symbol>], ->{t, u, Rd}'' ''HL48'' ''LDA/PC_REL'' ''LDA/PC_REL'' ''AGU''
      48 14 0x707f000f 0x6039000e 913 2 824 0,
    mk_form ''98730d2ddead'' ''HL.LWU.PO'' ''hl.lwu.po [SrcL, SrcR<{.sw,.uw}><<<shamt>], ->Dst0, Dst1'' ''HL48'' ''LDA/POST_INDEX'' ''LDA/POST_INDEX'' ''AGU''
      48 21 0x707f07ff 0x6009003e 915 6 824 1,
    mk_form ''f105cacec36c'' ''HL.LWU.PR'' ''hl.lwu.pr [SrcL, SrcR<{.sw,.uw}><<<shamt>], ->Dst0, Dst1'' ''HL48'' ''LDA/PRE_INDEX'' ''LDA/PRE_INDEX'' ''AGU''
      48 21 0x707f07ff 0x6009002e 921 6 825 1,
    mk_form ''eeb551f8269d'' ''HL.LWUI'' ''hl.lwui [SrcL, simm], ->{t, u, Rd}'' ''HL48'' ''LDA/LONG'' ''LDA/LONG'' ''AGU''
      48 16 0x707f003f 0x6019000e 927 3 826 0,
    mk_form ''09a75b628dc4'' ''HL.LWUI.PO'' ''hl.lwui.po [SrcL, simm], ->Dst0, Dst1'' ''HL48'' ''LDA/POST_INDEX'' ''LDA/POST_INDEX'' ''AGU''
      48 16 0x707f003f 0x6019003e 930 4 826 0,
    mk_form ''32de19a508f0'' ''HL.LWUI.PR'' ''hl.lwui.pr [SrcL, simm], ->Dst0, Dst1'' ''HL48'' ''LDA/PRE_INDEX'' ''LDA/PRE_INDEX'' ''AGU''
      48 16 0x707f003f 0x6019002e 934 4 826 0]"

lemma chunk_36: "walk_forms kForms_36 kFields_36 kFieldPieces_36 kConstraints_36 899 975 823 938 1020 826"
  by (simp add: kForms_36_def kFields_36_def kFieldPieces_36_def kConstraints_36_def walk_eval)

lemma length_kForms_36 [simp]: "length kForms_36 = 9"
  by (simp add: kForms_36_def)

definition kFieldPieces_37 :: "piece_desc list" where
  "kFieldPieces_37 = [
    mk_piece 23 5 0, mk_piece 31 5 0, mk_piece 36 12 0, mk_piece 6 10 12, mk_piece 23 5 0, mk_piece 11 5 0,
    mk_piece 31 5 0, mk_piece 36 12 0, mk_piece 6 5 12, mk_piece 23 5 0, mk_piece 11 5 0, mk_piece 31 5 0,
    mk_piece 36 12 0, mk_piece 6 5 12, mk_piece 23 5 0, mk_piece 11 5 0, mk_piece 31 5 0, mk_piece 36 12 0,
    mk_piece 6 5 12, mk_piece 23 5 0, mk_piece 11 5 0, mk_piece 31 5 0, mk_piece 36 12 0, mk_piece 6 5 12,
    mk_piece 23 5 0, mk_piece 11 5 0, mk_piece 31 5 0, mk_piece 36 5 0, mk_piece 41 2 0, mk_piece 43 5 0,
    mk_piece 23 5 0, mk_piece 11 5 0, mk_piece 43 5 0, mk_piece 31 5 0, mk_piece 36 5 0, mk_piece 23 5 0,
    mk_piece 11 5 0, mk_piece 43 5 0, mk_piece 31 5 0, mk_piece 36 5 0, mk_piece 23 5 0, mk_piece 31 5 0,
    mk_piece 36 5 0, mk_piece 41 7 0, mk_piece 4 12 7]"

definition kFields_37 :: "field_desc list" where
  "kFields_37 = [
    mk_field ''RegDst'' (-1) 5 1020 1, mk_field ''SrcL'' (-1) 5 1021 1, mk_field ''simm22'' 1 22 1022 2,
    mk_field ''RegDst0'' (-1) 5 1024 1, mk_field ''RegDst1'' (-1) 5 1025 1, mk_field ''SrcL'' (-1) 5 1026 1,
    mk_field ''simm17'' 1 17 1027 2, mk_field ''RegDst0'' (-1) 5 1029 1, mk_field ''RegDst1'' (-1) 5 1030 1,
    mk_field ''SrcL'' (-1) 5 1031 1, mk_field ''simm17'' 1 17 1032 2, mk_field ''RegDst0'' (-1) 5 1034 1,
    mk_field ''RegDst1'' (-1) 5 1035 1, mk_field ''SrcL'' (-1) 5 1036 1, mk_field ''simm17'' 1 17 1037 2,
    mk_field ''RegDst0'' (-1) 5 1039 1, mk_field ''RegDst1'' (-1) 5 1040 1, mk_field ''SrcL'' (-1) 5 1041 1,
    mk_field ''simm17'' 1 17 1042 2, mk_field ''RegDst0'' (-1) 5 1044 1, mk_field ''RegDst1'' (-1) 5 1045 1,
    mk_field ''SrcL'' (-1) 5 1046 1, mk_field ''SrcR'' (-1) 5 1047 1, mk_field ''SrcRType'' (-1) 2 1048 1,
    mk_field ''shamt'' (-1) 5 1049 1, mk_field ''RegDst0'' (-1) 5 1050 1, mk_field ''RegDst1'' (-1) 5 1051 1,
    mk_field ''SrcD'' (-1) 5 1052 1, mk_field ''SrcL'' (-1) 5 1053 1, mk_field ''SrcR'' (-1) 5 1054 1,
    mk_field ''RegDst0'' (-1) 5 1055 1, mk_field ''RegDst1'' (-1) 5 1056 1, mk_field ''SrcD'' (-1) 5 1057 1,
    mk_field ''SrcL'' (-1) 5 1058 1, mk_field ''SrcR'' (-1) 5 1059 1, mk_field ''RegDst'' (-1) 5 1060 1,
    mk_field ''SrcL'' (-1) 5 1061 1, mk_field ''SrcR'' (-1) 5 1062 1, mk_field ''uimm19'' 0 19 1063 2]"

definition kConstraints_37 :: "constraint_desc list" where
  "kConstraints_37 = [
    mk_constraint ''SrcRType'' Op_Ne 3 ''3'']"

definition kForms_37 :: "form_desc list" where
  "kForms_37 = [
    mk_form ''4570cc517629'' ''HL.LWUI.U'' ''hl.lwui.u [SrcL, simm], ->{t, u, Rd}'' ''HL48'' ''LDA/LONG'' ''LDA/LONG'' ''AGU''
      48 16 0x707f003f 0x6029000e 938 3 826 0,
    mk_form ''33260eb06a2c'' ''HL.LWUI.UPO'' ''hl.lwui.upo [SrcL, simm], ->Dst0, Dst1'' ''HL48'' ''LDA/POST_INDEX'' ''LDA/POST_INDEX'' ''AGU''
      48 16 0x707f003f 0x6029003e 941 4 826 0,
    mk_form ''998a98c46469'' ''HL.LWUI.UPR'' ''hl.lwui.upr [SrcL, simm], ->Dst0, Dst1'' ''HL48'' ''LDA/PRE_INDEX'' ''LDA/PRE_INDEX'' ''AGU''
      48 16 0x707f003f 0x6029002e 945 4 826 0,
    mk_form ''2a5d6d8f3b70'' ''HL.LWUIP'' ''hl.lwuip [SrcL, simm], ->Dst0, Dst1'' ''HL48'' ''LDA/PAIR'' ''LDA/PAIR'' ''AGU''
      48 16 0x707f003f 0x6019001e 949 4 826 0,
    mk_form ''0fed3b8c43b6'' ''HL.LWUIP.U'' ''hl.lwuip.u [SrcL, simm], ->Dst0, Dst1'' ''HL48'' ''LDA/PAIR'' ''LDA/PAIR'' ''AGU''
      48 16 0x707f003f 0x6029001e 953 4 826 0,
    mk_form ''30f20380c354'' ''HL.LWUP'' ''hl.lwup [SrcL, SrcR<{.sw,.uw}><<<shamt>], ->Dst0, Dst1'' ''HL48'' ''LDA/PAIR'' ''LDA/PAIR'' ''AGU''
      48 21 0x707f07ff 0x6009001e 957 6 826 1,
    mk_form ''b062d741fd99'' ''HL.MADD'' ''hl.madd SrcL, SrcR, SrcD, ->Dst0, Dst1'' ''HL48'' ''ALU'' ''ALU'' ''ALU''
      48 23 0x600707f07ff 0x6047000e 963 5 827 0,
    mk_form ''6fac897f0264'' ''HL.MADDW'' ''hl.maddw SrcL, SrcR, SrcD, ->Dst0, Dst1'' ''HL48'' ''ALU'' ''ALU'' ''ALU''
      48 23 0x600707f07ff 0x7047000e 968 5 827 0,
    mk_form ''ec5127b6dfd6'' ''HL.MIADD'' ''hl.miadd SrcL, SrcR, uimm, ->{t, u, Rd}'' ''HL48'' ''ALU'' ''ALU'' ''ALU''
      48 14 0x707f000f 0x4d000e 973 4 827 0]"

lemma chunk_37: "walk_forms kForms_37 kFields_37 kFieldPieces_37 kConstraints_37 938 1020 826 977 1065 827"
  by (simp add: kForms_37_def kFields_37_def kFieldPieces_37_def kConstraints_37_def walk_eval)

lemma length_kForms_37 [simp]: "length kForms_37 = 9"
  by (simp add: kForms_37_def)

definition kFieldPieces_38 :: "piece_desc list" where
  "kFieldPieces_38 = [
    mk_piece 23 5 0, mk_piece 31 5 0, mk_piece 36 5 0, mk_piece 41 7 0, mk_piece 4 12 7, mk_piece 23 5 0,
    mk_piece 11 5 0, mk_piece 31 5 0, mk_piece 36 5 0, mk_piece 23 5 0, mk_piece 11 5 0, mk_piece 31 5 0,
    mk_piece 36 5 0, mk_piece 23 5 0, mk_piece 31 5 0, mk_piece 36 12 0, mk_piece 4 12 12, mk_piece 23 5 0,
    mk_piece 31 5 0, mk_piece 36 12 0, mk_piece 4 12 12, mk_piece 31 5 0, mk_piece 36 5 0, mk_piece 41 2 0,
    mk_piece 11 5 0, mk_piece 43 5 0, mk_piece 23 5 0, mk_piece 31 5 0, mk_piece 36 5 0, mk_piece 41 2 0,
    mk_piece 11 5 0, mk_piece 43 5 0, mk_piece 31 5 0, mk_piece 11 5 0, mk_piece 36 12 0, mk_piece 6 5 12,
    mk_piece 23 5 0, mk_piece 31 5 0, mk_piece 11 5 0, mk_piece 36 12 0, mk_piece 6 5 12]"

definition kFields_38 :: "field_desc list" where
  "kFields_38 = [
    mk_field ''RegDst'' (-1) 5 1065 1, mk_field ''SrcL'' (-1) 5 1066 1, mk_field ''SrcR'' (-1) 5 1067 1,
    mk_field ''uimm19'' 0 19 1068 2, mk_field ''RegDst0'' (-1) 5 1070 1, mk_field ''RegDst1'' (-1) 5 1071 1,
    mk_field ''SrcL'' (-1) 5 1072 1, mk_field ''SrcR'' (-1) 5 1073 1, mk_field ''RegDst0'' (-1) 5 1074 1,
    mk_field ''RegDst1'' (-1) 5 1075 1, mk_field ''SrcL'' (-1) 5 1076 1, mk_field ''SrcR'' (-1) 5 1077 1,
    mk_field ''RegDst'' (-1) 5 1078 1, mk_field ''SrcL'' (-1) 5 1079 1, mk_field ''simm24'' 1 24 1080 2,
    mk_field ''RegDst'' (-1) 5 1082 1, mk_field ''SrcL'' (-1) 5 1083 1, mk_field ''simm24'' 1 24 1084 2,
    mk_field ''SrcL'' (-1) 5 1086 1, mk_field ''SrcR'' (-1) 5 1087 1, mk_field ''SrcRType'' (-1) 2 1088 1,
    mk_field ''model'' (-1) 5 1089 1, mk_field ''shamt'' (-1) 5 1090 1, mk_field ''RegDst'' (-1) 5 1091 1,
    mk_field ''SrcL'' (-1) 5 1092 1, mk_field ''SrcR'' (-1) 5 1093 1, mk_field ''SrcRType'' (-1) 2 1094 1,
    mk_field ''model'' (-1) 5 1095 1, mk_field ''shamt'' (-1) 5 1096 1, mk_field ''SrcL'' (-1) 5 1097 1,
    mk_field ''model'' (-1) 5 1098 1, mk_field ''simm17'' 1 17 1099 2, mk_field ''RegDst'' (-1) 5 1101 1,
    mk_field ''SrcL'' (-1) 5 1102 1, mk_field ''model'' (-1) 5 1103 1, mk_field ''simm17'' 1 17 1104 2]"

definition kConstraints_38 :: "constraint_desc list" where
  "kConstraints_38 = [
    mk_constraint ''SrcRType'' Op_Ne 3 ''3'', mk_constraint ''model'' Op_Ne 3 ''3'',
    mk_constraint ''model'' Op_Ne 4 ''4'', mk_constraint ''model'' Op_Ne 5 ''5'',
    mk_constraint ''model'' Op_Ne 6 ''6'', mk_constraint ''model'' Op_Ne 7 ''7'',
    mk_constraint ''model'' Op_Ne 8 ''8'', mk_constraint ''model'' Op_Ne 9 ''9'',
    mk_constraint ''model'' Op_Ne 10 ''10'', mk_constraint ''model'' Op_Ne 11 ''11'',
    mk_constraint ''model'' Op_Ne 12 ''12'', mk_constraint ''model'' Op_Ne 13 ''13'',
    mk_constraint ''model'' Op_Ne 14 ''14'', mk_constraint ''model'' Op_Ne 15 ''15'',
    mk_constraint ''model'' Op_Ne 16 ''16'', mk_constraint ''model'' Op_Ne 17 ''17'',
    mk_constraint ''model'' Op_Ne 18 ''18'', mk_constraint ''model'' Op_Ne 19 ''19'',
    mk_constraint ''model'' Op_Ne 20 ''20'', mk_constraint ''model'' Op_Ne 21 ''21'',
    mk_constraint ''model'' Op_Ne 22 ''22'', mk_constraint ''model'' Op_Ne 23 ''23'',
    mk_constraint ''model'' Op_Ne 24 ''24'', mk_constraint ''model'' Op_Ne 25 ''25'',
    mk_constraint ''model'' Op_Ne 26 ''26'', mk_constraint ''model'' Op_Ne 27 ''27'',
    mk_constraint ''model'' Op_Ne 28 ''28'', mk_constraint ''model'' Op_Ne 29 ''29'',
    mk_constraint ''model'' Op_Ne 30 ''30'', mk_constraint ''model'' Op_Ne 31 ''31'',
    mk_constraint ''SrcRType'' Op_Ne 3 ''3'', mk_constraint ''model'' Op_Ne 3 ''3'',
    mk_constraint ''model'' Op_Ne 4 ''4'', mk_constraint ''model'' Op_Ne 5 ''5'',
    mk_constraint ''model'' Op_Ne 6 ''6'', mk_constraint ''model'' Op_Ne 7 ''7'',
    mk_constraint ''model'' Op_Ne 8 ''8'', mk_constraint ''model'' Op_Ne 9 ''9'',
    mk_constraint ''model'' Op_Ne 10 ''10'', mk_constraint ''model'' Op_Ne 11 ''11'',
    mk_constraint ''model'' Op_Ne 12 ''12'', mk_constraint ''model'' Op_Ne 13 ''13'',
    mk_constraint ''model'' Op_Ne 14 ''14'', mk_constraint ''model'' Op_Ne 15 ''15'',
    mk_constraint ''model'' Op_Ne 16 ''16'', mk_constraint ''model'' Op_Ne 17 ''17'',
    mk_constraint ''model'' Op_Ne 18 ''18'', mk_constraint ''model'' Op_Ne 19 ''19'',
    mk_constraint ''model'' Op_Ne 20 ''20'', mk_constraint ''model'' Op_Ne 21 ''21'',
    mk_constraint ''model'' Op_Ne 22 ''22'', mk_constraint ''model'' Op_Ne 23 ''23'',
    mk_constraint ''model'' Op_Ne 24 ''24'', mk_constraint ''model'' Op_Ne 25 ''25'',
    mk_constraint ''model'' Op_Ne 26 ''26'', mk_constraint ''model'' Op_Ne 27 ''27'',
    mk_constraint ''model'' Op_Ne 28 ''28'', mk_constraint ''model'' Op_Ne 29 ''29'',
    mk_constraint ''model'' Op_Ne 30 ''30'', mk_constraint ''model'' Op_Ne 31 ''31'',
    mk_constraint ''model'' Op_Ne 3 ''3'', mk_constraint ''model'' Op_Ne 4 ''4'',
    mk_constraint ''model'' Op_Ne 5 ''5'', mk_constraint ''model'' Op_Ne 6 ''6'',
    mk_constraint ''model'' Op_Ne 7 ''7'', mk_constraint ''model'' Op_Ne 8 ''8'',
    mk_constraint ''model'' Op_Ne 9 ''9'', mk_constraint ''model'' Op_Ne 10 ''10'',
    mk_constraint ''model'' Op_Ne 11 ''11'', mk_constraint ''model'' Op_Ne 12 ''12'',
    mk_constraint ''model'' Op_Ne 13 ''13'', mk_constraint ''model'' Op_Ne 14 ''14'',
    mk_constraint ''model'' Op_Ne 15 ''15'', mk_constraint ''model'' Op_Ne 16 ''16'',
    mk_constraint ''model'' Op_Ne 17 ''17'', mk_constraint ''model'' Op_Ne 18 ''18'',
    mk_constraint ''model'' Op_Ne 19 ''19'', mk_constraint ''model'' Op_Ne 20 ''20'',
    mk_constraint ''model'' Op_Ne 21 ''21'', mk_constraint ''model'' Op_Ne 22 ''22'',
    mk_constraint ''model'' Op_Ne 23 ''23'', mk_constraint ''model'' Op_Ne 24 ''24'',
    mk_constraint ''model'' Op_Ne 25 ''25'', mk_constraint ''model'' Op_Ne 26 ''26'',
    mk_constraint ''model'' Op_Ne 27 ''27'', mk_constraint ''model'' Op_Ne 28 ''28'',
    mk_constraint ''model'' Op_Ne 29 ''29'', mk_constraint ''model'' Op_Ne 30 ''30'',
    mk_constraint ''model'' Op_Ne 31 ''31'', mk_constraint ''model'' Op_Ne 3 ''3'',
    mk_constraint ''model'' Op_Ne 4 ''4'', mk_constraint ''model'' Op_Ne 5 ''5'',
    mk_constraint ''model'' Op_Ne 6 ''6'', mk_constraint ''model'' Op_Ne 7 ''7'',
    mk_constraint ''model'' Op_Ne 8 ''8'', mk_constraint ''model'' Op_Ne 9 ''9'',
    mk_constraint ''model'' Op_Ne 10 ''10'', mk_constraint ''model'' Op_Ne 11 ''11'',
    mk_constraint ''model'' Op_Ne 12 ''12'', mk_constraint ''model'' Op_Ne 13 ''13'',
    mk_constraint ''model'' Op_Ne 14 ''14'', mk_constraint ''model'' Op_Ne 15 ''15'',
    mk_constraint ''model'' Op_Ne 16 ''16'', mk_constraint ''model'' Op_Ne 17 ''17'',
    mk_constraint ''model'' Op_Ne 18 ''18'', mk_constraint ''model'' Op_Ne 19 ''19'',
    mk_constraint ''model'' Op_Ne 20 ''20'', mk_constraint ''model'' Op_Ne 21 ''21'',
    mk_constraint ''model'' Op_Ne 22 ''22'', mk_constraint ''model'' Op_Ne 23 ''23'',
    mk_constraint ''model'' Op_Ne 24 ''24'', mk_constraint ''model'' Op_Ne 25 ''25'',
    mk_constraint ''model'' Op_Ne 26 ''26'', mk_constraint ''model'' Op_Ne 27 ''27'',
    mk_constraint ''model'' Op_Ne 28 ''28'', mk_constraint ''model'' Op_Ne 29 ''29'',
    mk_constraint ''model'' Op_Ne 30 ''30'', mk_constraint ''model'' Op_Ne 31 ''31'']"

definition kForms_38 :: "form_desc list" where
  "kForms_38 = [
    mk_form ''e9e4c7b23479'' ''HL.MISUB'' ''hl.misub SrcL, SrcR, uimm, ->{t, u, Rd}'' ''HL48'' ''ALU'' ''ALU'' ''ALU''
      48 14 0x707f000f 0x104d000e 977 4 827 0,
    mk_form ''0d059ff178fb'' ''HL.MUL'' ''hl.mul SrcL, SrcR, ->Dst0, Dst1'' ''HL48'' ''ALU'' ''ALU'' ''ALU''
      48 28 0xfe00707f07ff 0x47000e 981 4 827 0,
    mk_form ''85efdc81e8fc'' ''HL.MULU'' ''hl.mulu SrcL, SrcR, ->Dst0, Dst1'' ''HL48'' ''ALU'' ''ALU'' ''ALU''
      48 28 0xfe00707f07ff 0x1047000e 985 4 827 0,
    mk_form ''c6d8ce28a78b'' ''HL.ORI'' ''hl.ori SrcL, simm, ->{t, u, Rd}'' ''HL48'' ''ALU'' ''ALU'' ''ALU''
      48 14 0x707f000f 0x3015000e 989 3 827 0,
    mk_form ''17673d186249'' ''HL.ORIW'' ''hl.oriw SrcL, simm, ->{t, u, Rd}'' ''HL48'' ''ALU'' ''ALU'' ''ALU''
      48 14 0x707f000f 0x3035000e 992 3 827 0,
    mk_form ''39641863bb21'' ''HL.PRF'' ''hl.prf{.l1,.l2,.l3} [SrcL, SrcR<{.sw,.uw}><<<shamt>]'' ''HL48'' ''LDA'' ''LDA'' ''AGU''
      48 26 0x7fff07ff 0x7009000e 995 5 827 30,
    mk_form ''267dc57d14f4'' ''HL.PRF.A'' ''hl.prf.a{.l1,.l2,.l3} [SrcL, SrcR<{.sw,.uw}><<<shamt>], ->{t, u, Rd}'' ''HL48'' ''LDA'' ''LDA'' ''AGU''
      48 21 0x707f07ff 0x7009001e 1000 6 857 30,
    mk_form ''be73891e376e'' ''HL.PRFI.U'' ''hl.prfi.u{.l1,.l2,.l3} [SrcL, simm]'' ''HL48'' ''LDA'' ''LDA'' ''AGU''
      48 21 0x7fff003f 0x7029000e 1006 3 887 29,
    mk_form ''c37fb30ecb0f'' ''HL.PRFI.UA'' ''hl.prfi.ua{.l1,.l2,.l3} [SrcL, simm], ->{t, u, Rd}'' ''HL48'' ''LDA'' ''LDA'' ''AGU''
      48 16 0x707f003f 0x7029001e 1009 4 916 29]"

lemma chunk_38: "walk_forms kForms_38 kFields_38 kFieldPieces_38 kConstraints_38 977 1065 827 1013 1106 945"
  by (simp add: kForms_38_def kFields_38_def kFieldPieces_38_def kConstraints_38_def walk_eval)

lemma length_kForms_38 [simp]: "length kForms_38 = 9"
  by (simp add: kForms_38_def)

definition kFieldPieces_39 :: "piece_desc list" where
  "kFieldPieces_39 = [
    mk_piece 23 5 0, mk_piece 31 5 0, mk_piece 36 5 0, mk_piece 41 1 0, mk_piece 44 1 0, mk_piece 42 1 0,
    mk_piece 43 1 0, mk_piece 23 5 0, mk_piece 11 5 0, mk_piece 31 5 0, mk_piece 41 1 0, mk_piece 42 1 0,
    mk_piece 23 5 0, mk_piece 31 5 0, mk_piece 36 5 0, mk_piece 41 1 0, mk_piece 43 1 0, mk_piece 42 1 0,
    mk_piece 23 5 0, mk_piece 11 5 0, mk_piece 31 5 0, mk_piece 36 5 0, mk_piece 23 5 0, mk_piece 11 5 0,
    mk_piece 31 5 0, mk_piece 36 5 0, mk_piece 23 5 0, mk_piece 11 5 0, mk_piece 31 5 0, mk_piece 36 5 0,
    mk_piece 23 5 0, mk_piece 11 5 0, mk_piece 31 5 0, mk_piece 36 5 0, mk_piece 31 5 0, mk_piece 36 12 0,
    mk_piece 23 5 12, mk_piece 4 12 17, mk_piece 11 5 0, mk_piece 43 5 0, mk_piece 31 5 0, mk_piece 36 5 0,
    mk_piece 41 2 0]"

definition kFields_39 :: "field_desc list" where
  "kFields_39 = [
    mk_field ''RegDst'' (-1) 5 1106 1, mk_field ''SrcL'' (-1) 5 1107 1, mk_field ''SrcR'' (-1) 5 1108 1,
    mk_field ''e'' (-1) 1 1109 1, mk_field ''i'' (-1) 1 1110 1, mk_field ''r'' (-1) 1 1111 1,
    mk_field ''s'' (-1) 1 1112 1, mk_field ''RegDst0'' (-1) 5 1113 1, mk_field ''RegDst1'' (-1) 5 1114 1,
    mk_field ''SrcL'' (-1) 5 1115 1, mk_field ''e'' (-1) 1 1116 1, mk_field ''r'' (-1) 1 1117 1,
    mk_field ''RegDst'' (-1) 5 1118 1, mk_field ''SrcL'' (-1) 5 1119 1, mk_field ''SrcR'' (-1) 5 1120 1,
    mk_field ''e'' (-1) 1 1121 1, mk_field ''h'' (-1) 1 1122 1, mk_field ''r'' (-1) 1 1123 1,
    mk_field ''RegDst0'' (-1) 5 1124 1, mk_field ''RegDst1'' (-1) 5 1125 1, mk_field ''SrcL'' (-1) 5 1126 1,
    mk_field ''SrcR'' (-1) 5 1127 1, mk_field ''RegDst0'' (-1) 5 1128 1, mk_field ''RegDst1'' (-1) 5 1129 1,
    mk_field ''SrcL'' (-1) 5 1130 1, mk_field ''SrcR'' (-1) 5 1131 1, mk_field ''RegDst0'' (-1) 5 1132 1,
    mk_field ''RegDst1'' (-1) 5 1133 1, mk_field ''SrcL'' (-1) 5 1134 1, mk_field ''SrcR'' (-1) 5 1135 1,
    mk_field ''RegDst0'' (-1) 5 1136 1, mk_field ''RegDst1'' (-1) 5 1137 1, mk_field ''SrcL'' (-1) 5 1138 1,
    mk_field ''SrcR'' (-1) 5 1139 1, mk_field ''SrcL'' (-1) 5 1140 1, mk_field ''simm'' 1 29 1141 3,
    mk_field ''RegDst'' (-1) 5 1144 1, mk_field ''SrcD'' (-1) 5 1145 1, mk_field ''SrcL'' (-1) 5 1146 1,
    mk_field ''SrcR'' (-1) 5 1147 1, mk_field ''SrcRType'' (-1) 2 1148 1]"

definition kConstraints_39 :: "constraint_desc list" where
  "kConstraints_39 = [
    mk_constraint ''SrcRType'' Op_Ne 3 ''3'']"

definition kForms_39 :: "form_desc list" where
  "kForms_39 = [
    mk_form ''eb9e41958045'' ''HL.QMT'' ''hl.qmt[.{i,e,s,r,ie,is,ir,es,er,ies,ier}] SrcL[, SrcR when i], ->RegDst'' ''HL48'' ''General'' ''CMD'' ''CMD''
      48 29 0xe000707fffff 0x7d000e 1013 7 945 0,
    mk_form ''a2c57f5bc27b'' ''HL.QPOP'' ''hl.qpop[.{e,r,er}] SrcL, ->RegDst0, RegDst1'' ''HL48'' ''General'' ''CMD'' ''CMD''
      48 31 0xf9f0707f07ff 0x207d000e 1020 5 945 0,
    mk_form ''3eab8e05d61a'' ''HL.QPUSH'' ''hl.qpush[.{h,e,r,he,hr,er,her}] SrcL, SrcR, ->RegDst'' ''HL48'' ''General'' ''CMD'' ''CMD''
      48 30 0xf000707fffff 0x107d000e 1025 6 945 0,
    mk_form ''3c13e08615aa'' ''HL.REM'' ''hl.rem SrcL, SrcR, ->Dst0, Dst1'' ''HL48'' ''ALU'' ''ALU'' ''ALU''
      48 28 0xfe00707f07ff 0x4057000e 1031 4 945 0,
    mk_form ''3bf4e5a663c1'' ''HL.REMU'' ''hl.remu SrcL, SrcR, ->Dst0, Dst1'' ''HL48'' ''ALU'' ''ALU'' ''ALU''
      48 28 0xfe00707f07ff 0x5057000e 1035 4 945 0,
    mk_form ''26ea6e70f2fc'' ''HL.REMUW'' ''hl.remuw SrcL, SrcR, ->Dst0, Dst1'' ''HL48'' ''ALU'' ''ALU'' ''ALU''
      48 28 0xfe00707f07ff 0x7057000e 1039 4 945 0,
    mk_form ''3acb485d39a7'' ''HL.REMW'' ''hl.remw SrcL, SrcR, ->Dst0, Dst1'' ''HL48'' ''ALU'' ''ALU'' ''ALU''
      48 28 0xfe00707f07ff 0x6057000e 1043 4 945 0,
    mk_form ''d0ba4b6e0f54'' ''HL.SB.PCR'' ''hl.sb.pcr SrcL, [<symbol>]'' ''HL48'' ''STA/PC_REL'' ''STA/PC_REL'' ''AGU''
      48 14 0x707f000f 0x69000e 1047 2 945 0,
    mk_form ''c21837f2c14d'' ''HL.SB.PO'' ''hl.sb.po SrcD, [SrcL, SrcR<{.sw,.uw}>], ->{t, u, Rd}'' ''HL48'' ''STA/POST_INDEX'' ''STA/POST_INDEX'' ''AGU''
      48 26 0x7fff07ff 0x49003e 1049 5 945 1]"

lemma chunk_39: "walk_forms kForms_39 kFields_39 kFieldPieces_39 kConstraints_39 1013 1106 945 1054 1149 946"
  by (simp add: kForms_39_def kFields_39_def kFieldPieces_39_def kConstraints_39_def walk_eval)

lemma length_kForms_39 [simp]: "length kForms_39 = 9"
  by (simp add: kForms_39_def)

definition kFieldPieces_40 :: "piece_desc list" where
  "kFieldPieces_40 = [
    mk_piece 11 5 0, mk_piece 43 5 0, mk_piece 31 5 0, mk_piece 36 5 0, mk_piece 41 2 0, mk_piece 31 5 0,
    mk_piece 36 5 0, mk_piece 41 7 0, mk_piece 23 5 7, mk_piece 6 10 12, mk_piece 11 5 0, mk_piece 31 5 0,
    mk_piece 36 5 0, mk_piece 41 7 0, mk_piece 23 5 7, mk_piece 6 5 12, mk_piece 11 5 0, mk_piece 31 5 0,
    mk_piece 36 5 0, mk_piece 41 7 0, mk_piece 23 5 7, mk_piece 6 5 12, mk_piece 31 5 0, mk_piece 6 5 0,
    mk_piece 36 5 0, mk_piece 41 7 0, mk_piece 23 5 7, mk_piece 11 5 12, mk_piece 43 5 0, mk_piece 6 5 0,
    mk_piece 31 5 0, mk_piece 36 5 0, mk_piece 41 2 0, mk_piece 31 5 0, mk_piece 36 12 0, mk_piece 23 5 12,
    mk_piece 4 12 17, mk_piece 11 5 0, mk_piece 43 5 0, mk_piece 31 5 0, mk_piece 36 5 0, mk_piece 41 2 0,
    mk_piece 11 5 0, mk_piece 43 5 0, mk_piece 31 5 0, mk_piece 36 5 0, mk_piece 41 2 0]"

definition kFields_40 :: "field_desc list" where
  "kFields_40 = [
    mk_field ''RegDst'' (-1) 5 1149 1, mk_field ''SrcD'' (-1) 5 1150 1, mk_field ''SrcL'' (-1) 5 1151 1,
    mk_field ''SrcR'' (-1) 5 1152 1, mk_field ''SrcRType'' (-1) 2 1153 1, mk_field ''SrcD'' (-1) 5 1154 1,
    mk_field ''SrcR'' (-1) 5 1155 1, mk_field ''simm22'' 1 22 1156 3, mk_field ''RegDst'' (-1) 5 1159 1,
    mk_field ''SrcD'' (-1) 5 1160 1, mk_field ''SrcR'' (-1) 5 1161 1, mk_field ''simm17'' 1 17 1162 3,
    mk_field ''RegDst'' (-1) 5 1165 1, mk_field ''SrcD'' (-1) 5 1166 1, mk_field ''SrcR'' (-1) 5 1167 1,
    mk_field ''simm17'' 1 17 1168 3, mk_field ''SrcD'' (-1) 5 1171 1, mk_field ''SrcD1'' (-1) 5 1172 1,
    mk_field ''SrcR'' (-1) 5 1173 1, mk_field ''simm17'' 1 17 1174 3, mk_field ''SrcD'' (-1) 5 1177 1,
    mk_field ''SrcD1'' (-1) 5 1178 1, mk_field ''SrcL'' (-1) 5 1179 1, mk_field ''SrcR'' (-1) 5 1180 1,
    mk_field ''SrcRType'' (-1) 2 1181 1, mk_field ''SrcL'' (-1) 5 1182 1, mk_field ''simm'' 1 29 1183 3,
    mk_field ''RegDst'' (-1) 5 1186 1, mk_field ''SrcD'' (-1) 5 1187 1, mk_field ''SrcL'' (-1) 5 1188 1,
    mk_field ''SrcR'' (-1) 5 1189 1, mk_field ''SrcRType'' (-1) 2 1190 1, mk_field ''RegDst'' (-1) 5 1191 1,
    mk_field ''SrcD'' (-1) 5 1192 1, mk_field ''SrcL'' (-1) 5 1193 1, mk_field ''SrcR'' (-1) 5 1194 1,
    mk_field ''SrcRType'' (-1) 2 1195 1]"

definition kConstraints_40 :: "constraint_desc list" where
  "kConstraints_40 = [
    mk_constraint ''SrcRType'' Op_Ne 3 ''3'', mk_constraint ''SrcRType'' Op_Ne 3 ''3'',
    mk_constraint ''SrcRType'' Op_Ne 3 ''3'', mk_constraint ''SrcRType'' Op_Ne 3 ''3'']"

definition kForms_40 :: "form_desc list" where
  "kForms_40 = [
    mk_form ''40eae4513905'' ''HL.SB.PR'' ''hl.sb.pr SrcD, [SrcL, SrcR<{.sw,.uw}>], ->{t, u, Rd}'' ''HL48'' ''STA/PRE_INDEX'' ''STA/PRE_INDEX'' ''AGU''
      48 26 0x7fff07ff 0x49002e 1054 5 946 1,
    mk_form ''3504e6935382'' ''HL.SBI'' ''hl.sbi SrcD, [SrcR, simm]'' ''HL48'' ''STA/LONG'' ''STA/LONG'' ''AGU''
      48 16 0x707f003f 0x59000e 1059 3 947 0,
    mk_form ''493d9c8b27eb'' ''HL.SBI.PO'' ''hl.sbi.po SrcD, [SrcR, simm], ->{t, u, Rd}'' ''HL48'' ''STA/POST_INDEX'' ''STA/POST_INDEX'' ''AGU''
      48 16 0x707f003f 0x59003e 1062 4 947 0,
    mk_form ''d6f48429cca5'' ''HL.SBI.PR'' ''hl.sbi.pr SrcD, [SrcR, simm], ->{t, u, Rd}'' ''HL48'' ''STA/PRE_INDEX'' ''STA/PRE_INDEX'' ''AGU''
      48 16 0x707f003f 0x59002e 1066 4 947 0,
    mk_form ''48a212ee655e'' ''HL.SBIP'' ''hl.sbip SrcD, SrcD1, [SrcR, simm]'' ''HL48'' ''STA/PAIR'' ''STA/PAIR'' ''AGU''
      48 16 0x707f003f 0x59001e 1070 4 947 0,
    mk_form ''12e03c011f0a'' ''HL.SBP'' ''hl.sbp SrcD, SrcD1, [SrcL, SrcR<{.sw,.uw}>]'' ''HL48'' ''STA/PAIR'' ''STA/PAIR'' ''AGU''
      48 26 0x7ffff83f 0x49001e 1074 5 947 1,
    mk_form ''8ed6bb942a78'' ''HL.SD.PCR'' ''hl.sd.pcr SrcL, [<symbol>]'' ''HL48'' ''STA/PC_REL'' ''STA/PC_REL'' ''AGU''
      48 14 0x707f000f 0x3069000e 1079 2 948 0,
    mk_form ''9ced722101a8'' ''HL.SD.PO'' ''hl.sd.po SrcD, [SrcL, SrcR<{.sw,.uw}><<3], ->{t, u, Rd}'' ''HL48'' ''STA/POST_INDEX'' ''STA/POST_INDEX'' ''AGU''
      48 26 0x7fff07ff 0x3049003e 1081 5 948 1,
    mk_form ''4f96249f5efe'' ''HL.SD.PR'' ''hl.sd.pr SrcD, [SrcL, SrcR<{.sw,.uw}><<3], ->{t, u, Rd}'' ''HL48'' ''STA/PRE_INDEX'' ''STA/PRE_INDEX'' ''AGU''
      48 26 0x7fff07ff 0x3049002e 1086 5 949 1]"

lemma chunk_40: "walk_forms kForms_40 kFields_40 kFieldPieces_40 kConstraints_40 1054 1149 946 1091 1196 950"
  by (simp add: kForms_40_def kFields_40_def kFieldPieces_40_def kConstraints_40_def walk_eval)

lemma length_kForms_40 [simp]: "length kForms_40 = 9"
  by (simp add: kForms_40_def)

definition kFieldPieces_41 :: "piece_desc list" where
  "kFieldPieces_41 = [
    mk_piece 11 5 0, mk_piece 43 5 0, mk_piece 31 5 0, mk_piece 36 5 0, mk_piece 41 2 0, mk_piece 11 5 0,
    mk_piece 43 5 0, mk_piece 31 5 0, mk_piece 36 5 0, mk_piece 41 2 0, mk_piece 31 5 0, mk_piece 36 5 0,
    mk_piece 41 7 0, mk_piece 23 5 7, mk_piece 6 10 12, mk_piece 11 5 0, mk_piece 31 5 0, mk_piece 36 5 0,
    mk_piece 41 7 0, mk_piece 23 5 7, mk_piece 6 5 12, mk_piece 11 5 0, mk_piece 31 5 0, mk_piece 36 5 0,
    mk_piece 41 7 0, mk_piece 23 5 7, mk_piece 6 5 12, mk_piece 31 5 0, mk_piece 36 5 0, mk_piece 41 7 0,
    mk_piece 23 5 7, mk_piece 6 10 12, mk_piece 11 5 0, mk_piece 31 5 0, mk_piece 36 5 0, mk_piece 41 7 0,
    mk_piece 23 5 7, mk_piece 6 5 12, mk_piece 11 5 0, mk_piece 31 5 0, mk_piece 36 5 0, mk_piece 41 7 0,
    mk_piece 23 5 7, mk_piece 6 5 12, mk_piece 31 5 0, mk_piece 6 5 0, mk_piece 36 5 0, mk_piece 41 7 0,
    mk_piece 23 5 7, mk_piece 11 5 12]"

definition kFields_41 :: "field_desc list" where
  "kFields_41 = [
    mk_field ''RegDst'' (-1) 5 1196 1, mk_field ''SrcD'' (-1) 5 1197 1, mk_field ''SrcL'' (-1) 5 1198 1,
    mk_field ''SrcR'' (-1) 5 1199 1, mk_field ''SrcRType'' (-1) 2 1200 1, mk_field ''RegDst'' (-1) 5 1201 1,
    mk_field ''SrcD'' (-1) 5 1202 1, mk_field ''SrcL'' (-1) 5 1203 1, mk_field ''SrcR'' (-1) 5 1204 1,
    mk_field ''SrcRType'' (-1) 2 1205 1, mk_field ''SrcD'' (-1) 5 1206 1, mk_field ''SrcR'' (-1) 5 1207 1,
    mk_field ''simm22'' 1 22 1208 3, mk_field ''RegDst'' (-1) 5 1211 1, mk_field ''SrcD'' (-1) 5 1212 1,
    mk_field ''SrcR'' (-1) 5 1213 1, mk_field ''simm17'' 1 17 1214 3, mk_field ''RegDst'' (-1) 5 1217 1,
    mk_field ''SrcD'' (-1) 5 1218 1, mk_field ''SrcR'' (-1) 5 1219 1, mk_field ''simm17'' 1 17 1220 3,
    mk_field ''SrcD'' (-1) 5 1223 1, mk_field ''SrcR'' (-1) 5 1224 1, mk_field ''simm22'' 1 22 1225 3,
    mk_field ''RegDst'' (-1) 5 1228 1, mk_field ''SrcD'' (-1) 5 1229 1, mk_field ''SrcR'' (-1) 5 1230 1,
    mk_field ''simm17'' 1 17 1231 3, mk_field ''RegDst'' (-1) 5 1234 1, mk_field ''SrcD'' (-1) 5 1235 1,
    mk_field ''SrcR'' (-1) 5 1236 1, mk_field ''simm17'' 1 17 1237 3, mk_field ''SrcD'' (-1) 5 1240 1,
    mk_field ''SrcD1'' (-1) 5 1241 1, mk_field ''SrcR'' (-1) 5 1242 1, mk_field ''simm17'' 1 17 1243 3]"

definition kConstraints_41 :: "constraint_desc list" where
  "kConstraints_41 = [
    mk_constraint ''SrcRType'' Op_Ne 3 ''3'', mk_constraint ''SrcRType'' Op_Ne 3 ''3'']"

definition kForms_41 :: "form_desc list" where
  "kForms_41 = [
    mk_form ''ba930fbec5c7'' ''HL.SD.UPO'' ''hl.sd.upo SrcD, [SrcL, SrcR<{.sw,.uw}>], ->{t, u, Rd}'' ''HL48'' ''STA/POST_INDEX'' ''STA/POST_INDEX'' ''AGU''
      48 26 0x7fff07ff 0x7049003e 1091 5 950 1,
    mk_form ''af7118270a90'' ''HL.SD.UPR'' ''hl.sd.upr SrcD, [SrcL, SrcR<{.sw,.uw}>], ->{t, u, Rd}'' ''HL48'' ''STA/PRE_INDEX'' ''STA/PRE_INDEX'' ''AGU''
      48 26 0x7fff07ff 0x7049002e 1096 5 951 1,
    mk_form ''3203094081da'' ''HL.SDI'' ''hl.sdi SrcD, [SrcR, simm]'' ''HL48'' ''STA/LONG'' ''STA/LONG'' ''AGU''
      48 16 0x707f003f 0x3059000e 1101 3 952 0,
    mk_form ''4b6af4b433bb'' ''HL.SDI.PO'' ''hl.sdi.po SrcD, [SrcR, simm], ->{t, u, Rd}'' ''HL48'' ''STA/POST_INDEX'' ''STA/POST_INDEX'' ''AGU''
      48 16 0x707f003f 0x3059003e 1104 4 952 0,
    mk_form ''8b2688251991'' ''HL.SDI.PR'' ''hl.sdi.pr SrcD, [SrcR, simm], ->{t, u, Rd}'' ''HL48'' ''STA/PRE_INDEX'' ''STA/PRE_INDEX'' ''AGU''
      48 16 0x707f003f 0x3059002e 1108 4 952 0,
    mk_form ''d9597eeba6b4'' ''HL.SDI.U'' ''hl.sdi.u SrcD, [SrcR, simm]'' ''HL48'' ''STA/LONG'' ''STA/LONG'' ''AGU''
      48 16 0x707f003f 0x7059000e 1112 3 952 0,
    mk_form ''0ceed9e5fdb0'' ''HL.SDI.UPO'' ''hl.sdi.upo SrcD, [SrcR, simm], ->{t, u, Rd}'' ''HL48'' ''STA/POST_INDEX'' ''STA/POST_INDEX'' ''AGU''
      48 16 0x707f003f 0x7059003e 1115 4 952 0,
    mk_form ''f8aba43b65d5'' ''HL.SDI.UPR'' ''hl.sdi.upr SrcD, [SrcR, simm], ->{t, u, Rd}'' ''HL48'' ''STA/PRE_INDEX'' ''STA/PRE_INDEX'' ''AGU''
      48 16 0x707f003f 0x7059002e 1119 4 952 0,
    mk_form ''6d622cf167ca'' ''HL.SDIP'' ''hl.sdip SrcD, SrcD1, [SrcR, simm]'' ''HL48'' ''STA/PAIR'' ''STA/PAIR'' ''AGU''
      48 16 0x707f003f 0x3059001e 1123 4 952 0]"

lemma chunk_41: "walk_forms kForms_41 kFields_41 kFieldPieces_41 kConstraints_41 1091 1196 950 1127 1246 952"
  by (simp add: kForms_41_def kFields_41_def kFieldPieces_41_def kConstraints_41_def walk_eval)

lemma length_kForms_41 [simp]: "length kForms_41 = 9"
  by (simp add: kForms_41_def)

end
