(* ===== verification/Isa_Table_07.thy ===== *)
theory Isa_Table_07
  imports Isa_Check
begin

text \<open>
  Forms 378 to 431 of the arrays of \<^verbatim>\<open>src/isa/generated_tables.cpp\<close> (lines 11260 to 12069), with their fields,
  pieces and constraints, in chunks of at most 9 forms, and the check of each chunk.
\<close>

definition kFieldPieces_42 :: "piece_desc list" where
  "kFieldPieces_42 = [
    mk_piece 31 5 0, mk_piece 6 5 0, mk_piece 36 5 0, mk_piece 41 7 0, mk_piece 23 5 7, mk_piece 11 5 12,
    mk_piece 43 5 0, mk_piece 6 5 0, mk_piece 31 5 0, mk_piece 36 5 0, mk_piece 41 2 0, mk_piece 43 5 0,
    mk_piece 6 5 0, mk_piece 31 5 0, mk_piece 36 5 0, mk_piece 41 2 0, mk_piece 31 5 0, mk_piece 23 5 0,
    mk_piece 36 12 0, mk_piece 4 12 12, mk_piece 31 5 0, mk_piece 23 5 0, mk_piece 36 12 0, mk_piece 4 12 12,
    mk_piece 31 5 0, mk_piece 23 5 0, mk_piece 36 12 0, mk_piece 4 12 12, mk_piece 31 5 0, mk_piece 23 5 0,
    mk_piece 36 12 0, mk_piece 4 12 12, mk_piece 31 5 0, mk_piece 23 5 0, mk_piece 36 12 0, mk_piece 4 12 12,
    mk_piece 31 5 0, mk_piece 23 5 0, mk_piece 36 12 0, mk_piece 4 12 12]"

definition kFields_42 :: "field_desc list" where
  "kFields_42 = [
    mk_field ''SrcD'' (-1) 5 1246 1, mk_field ''SrcD1'' (-1) 5 1247 1, mk_field ''SrcR'' (-1) 5 1248 1,
    mk_field ''simm17'' 1 17 1249 3, mk_field ''SrcD'' (-1) 5 1252 1, mk_field ''SrcD1'' (-1) 5 1253 1,
    mk_field ''SrcL'' (-1) 5 1254 1, mk_field ''SrcR'' (-1) 5 1255 1, mk_field ''SrcRType'' (-1) 2 1256 1,
    mk_field ''SrcD'' (-1) 5 1257 1, mk_field ''SrcD1'' (-1) 5 1258 1, mk_field ''SrcL'' (-1) 5 1259 1,
    mk_field ''SrcR'' (-1) 5 1260 1, mk_field ''SrcRType'' (-1) 2 1261 1, mk_field ''SrcL'' (-1) 5 1262 1,
    mk_field ''shamt'' (-1) 5 1263 1, mk_field ''simm24'' 1 24 1264 2, mk_field ''SrcL'' (-1) 5 1266 1,
    mk_field ''shamt'' (-1) 5 1267 1, mk_field ''simm24'' 1 24 1268 2, mk_field ''SrcL'' (-1) 5 1270 1,
    mk_field ''shamt'' (-1) 5 1271 1, mk_field ''simm24'' 1 24 1272 2, mk_field ''SrcL'' (-1) 5 1274 1,
    mk_field ''shamt'' (-1) 5 1275 1, mk_field ''uimm24'' 0 24 1276 2, mk_field ''SrcL'' (-1) 5 1278 1,
    mk_field ''shamt'' (-1) 5 1279 1, mk_field ''simm24'' 1 24 1280 2, mk_field ''SrcL'' (-1) 5 1282 1,
    mk_field ''shamt'' (-1) 5 1283 1, mk_field ''uimm24'' 0 24 1284 2]"

definition kConstraints_42 :: "constraint_desc list" where
  "kConstraints_42 = [
    mk_constraint ''SrcRType'' Op_Ne 3 ''3'', mk_constraint ''SrcRType'' Op_Ne 3 ''3'']"

definition kForms_42 :: "form_desc list" where
  "kForms_42 = [
    mk_form ''3260b03bb762'' ''HL.SDIP.U'' ''hl.sdip.u SrcD, SrcD1, [SrcR, simm]'' ''HL48'' ''STA/PAIR'' ''STA/PAIR'' ''AGU''
      48 16 0x707f003f 0x7059001e 1127 4 952 0,
    mk_form ''5884c49a7e55'' ''HL.SDP'' ''hl.sdp SrcD, SrcD1, [SrcL, SrcR<{.sw,.uw}><<3]'' ''HL48'' ''STA/PAIR'' ''STA/PAIR'' ''AGU''
      48 26 0x7ffff83f 0x3049001e 1131 5 952 1,
    mk_form ''66de58724f2f'' ''HL.SDP.U'' ''hl.sdp.u SrcD, SrcD1, [SrcL, SrcR<{.sw,.uw}>]'' ''HL48'' ''STA/PAIR'' ''STA/PAIR'' ''AGU''
      48 26 0x7ffff83f 0x7049001e 1136 5 953 1,
    mk_form ''f27796612fb3'' ''HL.SETC.ANDI'' ''hl.setc.andi SrcL, simm'' ''HL48'' ''BRU'' ''BRU'' ''BRU''
      48 14 0x707f000f 0x2075000e 1141 3 954 0,
    mk_form ''0fe891fb0890'' ''HL.SETC.EQI'' ''hl.setc.eqi SrcL, simm'' ''HL48'' ''BRU'' ''BRU'' ''BRU''
      48 14 0x707f000f 0x75000e 1144 3 954 0,
    mk_form ''9563d6395d06'' ''HL.SETC.GEI'' ''hl.setc.gei SrcL, simm'' ''HL48'' ''BRU'' ''BRU'' ''BRU''
      48 14 0x707f000f 0x5075000e 1147 3 954 0,
    mk_form ''2390319baf54'' ''HL.SETC.GEUI'' ''hl.setc.geui SrcL, uimm'' ''HL48'' ''BRU'' ''BRU'' ''BRU''
      48 14 0x707f000f 0x7075000e 1150 3 954 0,
    mk_form ''ad4ffebe877c'' ''HL.SETC.LTI'' ''hl.setc.lti SrcL, simm'' ''HL48'' ''BRU'' ''BRU'' ''BRU''
      48 14 0x707f000f 0x4075000e 1153 3 954 0,
    mk_form ''cb7a12ba6ead'' ''HL.SETC.LTUI'' ''hl.setc.ltui SrcL, uimm'' ''HL48'' ''BRU'' ''BRU'' ''BRU''
      48 14 0x707f000f 0x6075000e 1156 3 954 0]"

lemma chunk_42: "walk_forms kForms_42 kFields_42 kFieldPieces_42 kConstraints_42 1127 1246 952 1159 1286 954"
  by (simp add: kForms_42_def kFields_42_def kFieldPieces_42_def kConstraints_42_def walk_eval)

lemma length_kForms_42 [simp]: "length kForms_42 = 9"
  by (simp add: kForms_42_def)

definition kFieldPieces_43 :: "piece_desc list" where
  "kFieldPieces_43 = [
    mk_piece 31 5 0, mk_piece 23 5 0, mk_piece 36 12 0, mk_piece 4 12 12, mk_piece 31 5 0, mk_piece 23 5 0,
    mk_piece 36 12 0, mk_piece 4 12 12, mk_piece 28 20 0, mk_piece 4 12 20, mk_piece 31 5 0,
    mk_piece 36 12 0, mk_piece 23 5 12, mk_piece 4 12 17, mk_piece 11 5 0, mk_piece 43 5 0, mk_piece 31 5 0,
    mk_piece 36 5 0, mk_piece 41 2 0, mk_piece 11 5 0, mk_piece 43 5 0, mk_piece 31 5 0, mk_piece 36 5 0,
    mk_piece 41 2 0, mk_piece 11 5 0, mk_piece 43 5 0, mk_piece 31 5 0, mk_piece 36 5 0, mk_piece 41 2 0,
    mk_piece 11 5 0, mk_piece 43 5 0, mk_piece 31 5 0, mk_piece 36 5 0, mk_piece 41 2 0, mk_piece 31 5 0,
    mk_piece 36 5 0, mk_piece 41 7 0, mk_piece 23 5 7, mk_piece 6 10 12]"

definition kFields_43 :: "field_desc list" where
  "kFields_43 = [
    mk_field ''SrcL'' (-1) 5 1286 1, mk_field ''shamt'' (-1) 5 1287 1, mk_field ''simm24'' 1 24 1288 2,
    mk_field ''SrcL'' (-1) 5 1290 1, mk_field ''shamt'' (-1) 5 1291 1, mk_field ''simm24'' 1 24 1292 2,
    mk_field ''imm32'' (-1) 32 1294 2, mk_field ''SrcL'' (-1) 5 1296 1, mk_field ''simm'' 1 29 1297 3,
    mk_field ''RegDst'' (-1) 5 1300 1, mk_field ''SrcD'' (-1) 5 1301 1, mk_field ''SrcL'' (-1) 5 1302 1,
    mk_field ''SrcR'' (-1) 5 1303 1, mk_field ''SrcRType'' (-1) 2 1304 1, mk_field ''RegDst'' (-1) 5 1305 1,
    mk_field ''SrcD'' (-1) 5 1306 1, mk_field ''SrcL'' (-1) 5 1307 1, mk_field ''SrcR'' (-1) 5 1308 1,
    mk_field ''SrcRType'' (-1) 2 1309 1, mk_field ''RegDst'' (-1) 5 1310 1, mk_field ''SrcD'' (-1) 5 1311 1,
    mk_field ''SrcL'' (-1) 5 1312 1, mk_field ''SrcR'' (-1) 5 1313 1, mk_field ''SrcRType'' (-1) 2 1314 1,
    mk_field ''RegDst'' (-1) 5 1315 1, mk_field ''SrcD'' (-1) 5 1316 1, mk_field ''SrcL'' (-1) 5 1317 1,
    mk_field ''SrcR'' (-1) 5 1318 1, mk_field ''SrcRType'' (-1) 2 1319 1, mk_field ''SrcD'' (-1) 5 1320 1,
    mk_field ''SrcR'' (-1) 5 1321 1, mk_field ''simm22'' 1 22 1322 3]"

definition kConstraints_43 :: "constraint_desc list" where
  "kConstraints_43 = [
    mk_constraint ''SrcRType'' Op_Ne 3 ''3'', mk_constraint ''SrcRType'' Op_Ne 3 ''3'',
    mk_constraint ''SrcRType'' Op_Ne 3 ''3'', mk_constraint ''SrcRType'' Op_Ne 3 ''3'']"

definition kForms_43 :: "form_desc list" where
  "kForms_43 = [
    mk_form ''f0bcf6586274'' ''HL.SETC.NEI'' ''hl.setc.nei SrcL, simm'' ''HL48'' ''BRU'' ''BRU'' ''BRU''
      48 14 0x707f000f 0x1075000e 1159 3 954 0,
    mk_form ''137bce8aeb04'' ''HL.SETC.ORI'' ''hl.setc.ori SrcL, simm'' ''HL48'' ''BRU'' ''BRU'' ''BRU''
      48 14 0x707f000f 0x3075000e 1162 3 954 0,
    mk_form ''302bb793a800'' ''HL.SETRET'' ''hl.setret imm, ->Ra'' ''HL48'' ''BRU'' ''BRU'' ''BRU''
      48 16 0xfff000f 0x507000e 1165 1 954 0,
    mk_form ''705ea4062d0b'' ''HL.SH.PCR'' ''hl.sh.pcr SrcL, [<symbol>]'' ''HL48'' ''STA/PC_REL'' ''STA/PC_REL'' ''AGU''
      48 14 0x707f000f 0x1069000e 1166 2 954 0,
    mk_form ''e0b543d5b724'' ''HL.SH.PO'' ''hl.sh.po SrcD, [SrcL, SrcR<{.sw,.uw}><<1], ->{t, u, Rd}'' ''HL48'' ''STA/POST_INDEX'' ''STA/POST_INDEX'' ''AGU''
      48 26 0x7fff07ff 0x1049003e 1168 5 954 1,
    mk_form ''40ab17f5a580'' ''HL.SH.PR'' ''hl.sh.pr SrcD, [SrcL, SrcR<{.sw,.uw}><<1], ->{t, u, Rd}'' ''HL48'' ''STA/PRE_INDEX'' ''STA/PRE_INDEX'' ''AGU''
      48 26 0x7fff07ff 0x1049002e 1173 5 955 1,
    mk_form ''5bfb8ea0c992'' ''HL.SH.UPO'' ''hl.sh.upo SrcD, [SrcL, SrcR<{.sw,.uw}>], ->{t, u, Rd}'' ''HL48'' ''STA/POST_INDEX'' ''STA/POST_INDEX'' ''AGU''
      48 26 0x7fff07ff 0x5049003e 1178 5 956 1,
    mk_form ''719102d66e45'' ''HL.SH.UPR'' ''hl.sh.upr SrcD, [SrcL, SrcR<{.sw,.uw}>], ->{t, u, Rd}'' ''HL48'' ''STA/PRE_INDEX'' ''STA/PRE_INDEX'' ''AGU''
      48 26 0x7fff07ff 0x5049002e 1183 5 957 1,
    mk_form ''38ea3f0a4f08'' ''HL.SHI'' ''hl.shi SrcD, [SrcR, simm]'' ''HL48'' ''STA/LONG'' ''STA/LONG'' ''AGU''
      48 16 0x707f003f 0x1059000e 1188 3 958 0]"

lemma chunk_43: "walk_forms kForms_43 kFields_43 kFieldPieces_43 kConstraints_43 1159 1286 954 1191 1325 958"
  by (simp add: kForms_43_def kFields_43_def kFieldPieces_43_def kConstraints_43_def walk_eval)

lemma length_kForms_43 [simp]: "length kForms_43 = 9"
  by (simp add: kForms_43_def)

definition kFieldPieces_44 :: "piece_desc list" where
  "kFieldPieces_44 = [
    mk_piece 11 5 0, mk_piece 31 5 0, mk_piece 36 5 0, mk_piece 41 7 0, mk_piece 23 5 7, mk_piece 6 5 12,
    mk_piece 11 5 0, mk_piece 31 5 0, mk_piece 36 5 0, mk_piece 41 7 0, mk_piece 23 5 7, mk_piece 6 5 12,
    mk_piece 31 5 0, mk_piece 36 5 0, mk_piece 41 7 0, mk_piece 23 5 7, mk_piece 6 10 12, mk_piece 11 5 0,
    mk_piece 31 5 0, mk_piece 36 5 0, mk_piece 41 7 0, mk_piece 23 5 7, mk_piece 6 5 12, mk_piece 11 5 0,
    mk_piece 31 5 0, mk_piece 36 5 0, mk_piece 41 7 0, mk_piece 23 5 7, mk_piece 6 5 12, mk_piece 31 5 0,
    mk_piece 6 5 0, mk_piece 36 5 0, mk_piece 41 7 0, mk_piece 23 5 7, mk_piece 11 5 12, mk_piece 31 5 0,
    mk_piece 6 5 0, mk_piece 36 5 0, mk_piece 41 7 0, mk_piece 23 5 7, mk_piece 11 5 12, mk_piece 43 5 0,
    mk_piece 6 5 0, mk_piece 31 5 0, mk_piece 36 5 0, mk_piece 41 2 0, mk_piece 43 5 0, mk_piece 6 5 0,
    mk_piece 31 5 0, mk_piece 36 5 0, mk_piece 41 2 0]"

definition kFields_44 :: "field_desc list" where
  "kFields_44 = [
    mk_field ''RegDst'' (-1) 5 1325 1, mk_field ''SrcD'' (-1) 5 1326 1, mk_field ''SrcR'' (-1) 5 1327 1,
    mk_field ''simm17'' 1 17 1328 3, mk_field ''RegDst'' (-1) 5 1331 1, mk_field ''SrcD'' (-1) 5 1332 1,
    mk_field ''SrcR'' (-1) 5 1333 1, mk_field ''simm17'' 1 17 1334 3, mk_field ''SrcD'' (-1) 5 1337 1,
    mk_field ''SrcR'' (-1) 5 1338 1, mk_field ''simm22'' 1 22 1339 3, mk_field ''RegDst'' (-1) 5 1342 1,
    mk_field ''SrcD'' (-1) 5 1343 1, mk_field ''SrcR'' (-1) 5 1344 1, mk_field ''simm17'' 1 17 1345 3,
    mk_field ''RegDst'' (-1) 5 1348 1, mk_field ''SrcD'' (-1) 5 1349 1, mk_field ''SrcR'' (-1) 5 1350 1,
    mk_field ''simm17'' 1 17 1351 3, mk_field ''SrcD'' (-1) 5 1354 1, mk_field ''SrcD1'' (-1) 5 1355 1,
    mk_field ''SrcR'' (-1) 5 1356 1, mk_field ''simm17'' 1 17 1357 3, mk_field ''SrcD'' (-1) 5 1360 1,
    mk_field ''SrcD1'' (-1) 5 1361 1, mk_field ''SrcR'' (-1) 5 1362 1, mk_field ''simm17'' 1 17 1363 3,
    mk_field ''SrcD'' (-1) 5 1366 1, mk_field ''SrcD1'' (-1) 5 1367 1, mk_field ''SrcL'' (-1) 5 1368 1,
    mk_field ''SrcR'' (-1) 5 1369 1, mk_field ''SrcRType'' (-1) 2 1370 1, mk_field ''SrcD'' (-1) 5 1371 1,
    mk_field ''SrcD1'' (-1) 5 1372 1, mk_field ''SrcL'' (-1) 5 1373 1, mk_field ''SrcR'' (-1) 5 1374 1,
    mk_field ''SrcRType'' (-1) 2 1375 1]"

definition kConstraints_44 :: "constraint_desc list" where
  "kConstraints_44 = [
    mk_constraint ''SrcRType'' Op_Ne 3 ''3'', mk_constraint ''SrcRType'' Op_Ne 3 ''3'']"

definition kForms_44 :: "form_desc list" where
  "kForms_44 = [
    mk_form ''636fea832c7b'' ''HL.SHI.PO'' ''hl.shi.po SrcD, [SrcR, simm], ->{t, u, Rd}'' ''HL48'' ''STA/POST_INDEX'' ''STA/POST_INDEX'' ''AGU''
      48 16 0x707f003f 0x1059003e 1191 4 958 0,
    mk_form ''1020eb4dff56'' ''HL.SHI.PR'' ''hl.shi.pr SrcD, [SrcR, simm], ->{t, u, Rd}'' ''HL48'' ''STA/PRE_INDEX'' ''STA/PRE_INDEX'' ''AGU''
      48 16 0x707f003f 0x1059002e 1195 4 958 0,
    mk_form ''79dbaa14d2c2'' ''HL.SHI.U'' ''hl.shi.u SrcD, [SrcR, simm]'' ''HL48'' ''STA/LONG'' ''STA/LONG'' ''AGU''
      48 16 0x707f003f 0x5059000e 1199 3 958 0,
    mk_form ''de81eed370cf'' ''HL.SHI.UPO'' ''hl.shi.upo SrcD, [SrcR, simm], ->{t, u, Rd}'' ''HL48'' ''STA/POST_INDEX'' ''STA/POST_INDEX'' ''AGU''
      48 16 0x707f003f 0x5059003e 1202 4 958 0,
    mk_form ''ca9f1acbb1b2'' ''HL.SHI.UPR'' ''hl.shi.upr SrcD, [SrcR, simm], ->{t, u, Rd}'' ''HL48'' ''STA/PRE_INDEX'' ''STA/PRE_INDEX'' ''AGU''
      48 16 0x707f003f 0x5059002e 1206 4 958 0,
    mk_form ''156afe74f95b'' ''HL.SHIP'' ''hl.ship SrcD, SrcD1, [SrcR, simm]'' ''HL48'' ''STA/PAIR'' ''STA/PAIR'' ''AGU''
      48 16 0x707f003f 0x1059001e 1210 4 958 0,
    mk_form ''fa5e1d981a8a'' ''HL.SHIP.U'' ''hl.ship.u SrcD, SrcD1, [SrcR, simm]'' ''HL48'' ''STA/PAIR'' ''STA/PAIR'' ''AGU''
      48 16 0x707f003f 0x5059001e 1214 4 958 0,
    mk_form ''ccc507e71a27'' ''HL.SHP'' ''hl.shp SrcD, SrcD1, [SrcL, SrcR<{.sw,.uw}><<1]'' ''HL48'' ''STA/PAIR'' ''STA/PAIR'' ''AGU''
      48 26 0x7ffff83f 0x1049001e 1218 5 958 1,
    mk_form ''232b2200b7b9'' ''HL.SHP.U'' ''hl.shp.u SrcD, SrcD1, [SrcL, SrcR<{.sw,.uw}>]'' ''HL48'' ''STA/PAIR'' ''STA/PAIR'' ''AGU''
      48 26 0x7ffff83f 0x5049001e 1223 5 959 1]"

lemma chunk_44: "walk_forms kForms_44 kFields_44 kFieldPieces_44 kConstraints_44 1191 1325 958 1228 1376 960"
  by (simp add: kForms_44_def kFields_44_def kFieldPieces_44_def kConstraints_44_def walk_eval)

lemma length_kForms_44 [simp]: "length kForms_44 = 9"
  by (simp add: kForms_44_def)

definition kFieldPieces_45 :: "piece_desc list" where
  "kFieldPieces_45 = [
    mk_piece 23 5 0, mk_piece 36 12 0, mk_piece 4 12 12, mk_piece 36 12 0, mk_piece 4 12 12, mk_piece 31 5 0,
    mk_piece 23 5 0, mk_piece 31 5 0, mk_piece 36 12 0, mk_piece 4 12 12, mk_piece 23 5 0, mk_piece 31 5 0,
    mk_piece 36 12 0, mk_piece 4 12 12, mk_piece 31 5 0, mk_piece 36 12 0, mk_piece 23 5 12,
    mk_piece 4 12 17, mk_piece 11 5 0, mk_piece 43 5 0, mk_piece 31 5 0, mk_piece 36 5 0, mk_piece 41 2 0,
    mk_piece 11 5 0, mk_piece 43 5 0, mk_piece 31 5 0, mk_piece 36 5 0, mk_piece 41 2 0, mk_piece 11 5 0,
    mk_piece 43 5 0, mk_piece 31 5 0, mk_piece 36 5 0, mk_piece 41 2 0, mk_piece 11 5 0, mk_piece 43 5 0,
    mk_piece 31 5 0, mk_piece 36 5 0, mk_piece 41 2 0]"

definition kFields_45 :: "field_desc list" where
  "kFields_45 = [
    mk_field ''RegDst'' (-1) 5 1376 1, mk_field ''SSR_ID'' (-1) 24 1377 2,
    mk_field ''SSR_ID'' (-1) 24 1379 2, mk_field ''SrcL'' (-1) 5 1381 1, mk_field ''RegDst'' (-1) 5 1382 1,
    mk_field ''SrcL'' (-1) 5 1383 1, mk_field ''uimm24'' 0 24 1384 2, mk_field ''RegDst'' (-1) 5 1386 1,
    mk_field ''SrcL'' (-1) 5 1387 1, mk_field ''uimm24'' 0 24 1388 2, mk_field ''SrcL'' (-1) 5 1390 1,
    mk_field ''simm'' 1 29 1391 3, mk_field ''RegDst'' (-1) 5 1394 1, mk_field ''SrcD'' (-1) 5 1395 1,
    mk_field ''SrcL'' (-1) 5 1396 1, mk_field ''SrcR'' (-1) 5 1397 1, mk_field ''SrcRType'' (-1) 2 1398 1,
    mk_field ''RegDst'' (-1) 5 1399 1, mk_field ''SrcD'' (-1) 5 1400 1, mk_field ''SrcL'' (-1) 5 1401 1,
    mk_field ''SrcR'' (-1) 5 1402 1, mk_field ''SrcRType'' (-1) 2 1403 1, mk_field ''RegDst'' (-1) 5 1404 1,
    mk_field ''SrcD'' (-1) 5 1405 1, mk_field ''SrcL'' (-1) 5 1406 1, mk_field ''SrcR'' (-1) 5 1407 1,
    mk_field ''SrcRType'' (-1) 2 1408 1, mk_field ''RegDst'' (-1) 5 1409 1, mk_field ''SrcD'' (-1) 5 1410 1,
    mk_field ''SrcL'' (-1) 5 1411 1, mk_field ''SrcR'' (-1) 5 1412 1, mk_field ''SrcRType'' (-1) 2 1413 1]"

definition kConstraints_45 :: "constraint_desc list" where
  "kConstraints_45 = [
    mk_constraint ''SrcRType'' Op_Ne 3 ''3'', mk_constraint ''SrcRType'' Op_Ne 3 ''3'',
    mk_constraint ''SrcRType'' Op_Ne 3 ''3'', mk_constraint ''SrcRType'' Op_Ne 3 ''3'']"

definition kForms_45 :: "form_desc list" where
  "kForms_45 = [
    mk_form ''fde37e58a3c4'' ''HL.SSRGET'' ''hl.ssrget SSR_ID, ->{t, u, Rd}'' ''HL48'' ''SYS'' ''SYS'' ''SYS''
      48 19 0xff07f000f 0x3b000e 1228 2 960 0,
    mk_form ''dd25753307c2'' ''HL.SSRSET'' ''hl.ssrset SrcL, SSR_ID'' ''HL48'' ''SYS'' ''SYS'' ''SYS''
      48 19 0x7fff000f 0x103b000e 1230 2 960 0,
    mk_form ''e1f491a8aead'' ''HL.SUBI'' ''hl.subi SrcL, uimm, ->{t, u, Rd}'' ''HL48'' ''ALU'' ''ALU'' ''ALU''
      48 14 0x707f000f 0x1015000e 1232 3 960 0,
    mk_form ''adc7b127a2f8'' ''HL.SUBIW'' ''hl.subiw SrcL, uimm, ->{t, u, Rd}'' ''HL48'' ''ALU'' ''ALU'' ''ALU''
      48 14 0x707f000f 0x1035000e 1235 3 960 0,
    mk_form ''8f8900dfac6b'' ''HL.SW.PCR'' ''hl.sw.pcr SrcL, [<symbol>]'' ''HL48'' ''STA/PC_REL'' ''STA/PC_REL'' ''AGU''
      48 14 0x707f000f 0x2069000e 1238 2 960 0,
    mk_form ''84cf0cd97fde'' ''HL.SW.PO'' ''hl.sw.po SrcD, [SrcL, SrcR<{.sw,.uw}><<2], ->{t, u, Rd}'' ''HL48'' ''STA/POST_INDEX'' ''STA/POST_INDEX'' ''AGU''
      48 26 0x7fff07ff 0x2049003e 1240 5 960 1,
    mk_form ''d80424b0a9cb'' ''HL.SW.PR'' ''hl.sw.pr SrcD, [SrcL, SrcR<{.sw,.uw}><<2], ->{t, u, Rd}'' ''HL48'' ''STA/PRE_INDEX'' ''STA/PRE_INDEX'' ''AGU''
      48 26 0x7fff07ff 0x2049002e 1245 5 961 1,
    mk_form ''59be7b468f8a'' ''HL.SW.UPO'' ''hl.sw.upo SrcD, [SrcL, SrcR<{.sw,.uw}>], ->{t, u, Rd}'' ''HL48'' ''STA/POST_INDEX'' ''STA/POST_INDEX'' ''AGU''
      48 26 0x7fff07ff 0x6049003e 1250 5 962 1,
    mk_form ''d4ccb513944a'' ''HL.SW.UPR'' ''hl.sw.upr SrcD, [SrcL, SrcR<{.sw,.uw}>], ->{t, u, Rd}'' ''HL48'' ''STA/PRE_INDEX'' ''STA/PRE_INDEX'' ''AGU''
      48 26 0x7fff07ff 0x6049002e 1255 5 963 1]"

lemma chunk_45: "walk_forms kForms_45 kFields_45 kFieldPieces_45 kConstraints_45 1228 1376 960 1260 1414 964"
  by (simp add: kForms_45_def kFields_45_def kFieldPieces_45_def kConstraints_45_def walk_eval)

lemma length_kForms_45 [simp]: "length kForms_45 = 9"
  by (simp add: kForms_45_def)

definition kFieldPieces_46 :: "piece_desc list" where
  "kFieldPieces_46 = [
    mk_piece 31 5 0, mk_piece 36 5 0, mk_piece 41 7 0, mk_piece 23 5 7, mk_piece 6 10 12, mk_piece 11 5 0,
    mk_piece 31 5 0, mk_piece 36 5 0, mk_piece 41 7 0, mk_piece 23 5 7, mk_piece 6 5 12, mk_piece 11 5 0,
    mk_piece 31 5 0, mk_piece 36 5 0, mk_piece 41 7 0, mk_piece 23 5 7, mk_piece 6 5 12, mk_piece 31 5 0,
    mk_piece 36 5 0, mk_piece 41 7 0, mk_piece 23 5 7, mk_piece 6 10 12, mk_piece 11 5 0, mk_piece 31 5 0,
    mk_piece 36 5 0, mk_piece 41 7 0, mk_piece 23 5 7, mk_piece 6 5 12, mk_piece 11 5 0, mk_piece 31 5 0,
    mk_piece 36 5 0, mk_piece 41 7 0, mk_piece 23 5 7, mk_piece 6 5 12, mk_piece 31 5 0, mk_piece 6 5 0,
    mk_piece 36 5 0, mk_piece 41 7 0, mk_piece 23 5 7, mk_piece 11 5 12, mk_piece 31 5 0, mk_piece 6 5 0,
    mk_piece 36 5 0, mk_piece 41 7 0, mk_piece 23 5 7, mk_piece 11 5 12, mk_piece 43 5 0, mk_piece 6 5 0,
    mk_piece 31 5 0, mk_piece 36 5 0, mk_piece 41 2 0]"

definition kFields_46 :: "field_desc list" where
  "kFields_46 = [
    mk_field ''SrcD'' (-1) 5 1414 1, mk_field ''SrcR'' (-1) 5 1415 1, mk_field ''simm22'' 1 22 1416 3,
    mk_field ''RegDst'' (-1) 5 1419 1, mk_field ''SrcD'' (-1) 5 1420 1, mk_field ''SrcR'' (-1) 5 1421 1,
    mk_field ''simm17'' 1 17 1422 3, mk_field ''RegDst'' (-1) 5 1425 1, mk_field ''SrcD'' (-1) 5 1426 1,
    mk_field ''SrcR'' (-1) 5 1427 1, mk_field ''simm17'' 1 17 1428 3, mk_field ''SrcD'' (-1) 5 1431 1,
    mk_field ''SrcR'' (-1) 5 1432 1, mk_field ''simm22'' 1 22 1433 3, mk_field ''RegDst'' (-1) 5 1436 1,
    mk_field ''SrcD'' (-1) 5 1437 1, mk_field ''SrcR'' (-1) 5 1438 1, mk_field ''simm17'' 1 17 1439 3,
    mk_field ''RegDst'' (-1) 5 1442 1, mk_field ''SrcD'' (-1) 5 1443 1, mk_field ''SrcR'' (-1) 5 1444 1,
    mk_field ''simm17'' 1 17 1445 3, mk_field ''SrcD'' (-1) 5 1448 1, mk_field ''SrcD1'' (-1) 5 1449 1,
    mk_field ''SrcR'' (-1) 5 1450 1, mk_field ''simm17'' 1 17 1451 3, mk_field ''SrcD'' (-1) 5 1454 1,
    mk_field ''SrcD1'' (-1) 5 1455 1, mk_field ''SrcR'' (-1) 5 1456 1, mk_field ''simm17'' 1 17 1457 3,
    mk_field ''SrcD'' (-1) 5 1460 1, mk_field ''SrcD1'' (-1) 5 1461 1, mk_field ''SrcL'' (-1) 5 1462 1,
    mk_field ''SrcR'' (-1) 5 1463 1, mk_field ''SrcRType'' (-1) 2 1464 1]"

definition kConstraints_46 :: "constraint_desc list" where
  "kConstraints_46 = [
    mk_constraint ''SrcRType'' Op_Ne 3 ''3'']"

definition kForms_46 :: "form_desc list" where
  "kForms_46 = [
    mk_form ''13deb2849df5'' ''HL.SWI'' ''hl.swi SrcD, [SrcR, simm]'' ''HL48'' ''STA/LONG'' ''STA/LONG'' ''AGU''
      48 16 0x707f003f 0x2059000e 1260 3 964 0,
    mk_form ''66a80d0fa7f5'' ''HL.SWI.PO'' ''hl.swi.po SrcD, [SrcR, simm], ->{t, u, Rd}'' ''HL48'' ''STA/POST_INDEX'' ''STA/POST_INDEX'' ''AGU''
      48 16 0x707f003f 0x2059003e 1263 4 964 0,
    mk_form ''68b9003e0421'' ''HL.SWI.PR'' ''hl.swi.pr SrcD, [SrcR, simm], ->{t, u, Rd}'' ''HL48'' ''STA/PRE_INDEX'' ''STA/PRE_INDEX'' ''AGU''
      48 16 0x707f003f 0x2059002e 1267 4 964 0,
    mk_form ''fac636330fd6'' ''HL.SWI.U'' ''hl.swi.u SrcD, [SrcR, simm]'' ''HL48'' ''STA/LONG'' ''STA/LONG'' ''AGU''
      48 16 0x707f003f 0x6059000e 1271 3 964 0,
    mk_form ''243d3c38cd1a'' ''HL.SWI.UPO'' ''hl.swi.upo SrcD, [SrcR, simm], ->{t, u, Rd}'' ''HL48'' ''STA/POST_INDEX'' ''STA/POST_INDEX'' ''AGU''
      48 16 0x707f003f 0x6059003e 1274 4 964 0,
    mk_form ''15c2fb96aab0'' ''HL.SWI.UPR'' ''hl.swi.upr SrcD, [SrcR, simm], ->{t, u, Rd}'' ''HL48'' ''STA/PRE_INDEX'' ''STA/PRE_INDEX'' ''AGU''
      48 16 0x707f003f 0x6059002e 1278 4 964 0,
    mk_form ''e2fca8cde001'' ''HL.SWIP'' ''hl.swip SrcD, SrcD1, [SrcR, simm]'' ''HL48'' ''STA/PAIR'' ''STA/PAIR'' ''AGU''
      48 16 0x707f003f 0x2059001e 1282 4 964 0,
    mk_form ''e2dc917c8505'' ''HL.SWIP.U'' ''hl.swip.u SrcD, SrcD1, [SrcR, simm]'' ''HL48'' ''STA/PAIR'' ''STA/PAIR'' ''AGU''
      48 16 0x707f003f 0x6059001e 1286 4 964 0,
    mk_form ''d0efe96e09f0'' ''HL.SWP'' ''hl.swp SrcD, SrcD1, [SrcL, SrcR<{.sw,.uw}><<2]'' ''HL48'' ''STA/PAIR'' ''STA/PAIR'' ''AGU''
      48 26 0x7ffff83f 0x2049001e 1290 5 964 1]"

lemma chunk_46: "walk_forms kForms_46 kFields_46 kFieldPieces_46 kConstraints_46 1260 1414 964 1295 1465 965"
  by (simp add: kForms_46_def kFields_46_def kFieldPieces_46_def kConstraints_46_def walk_eval)

lemma length_kForms_46 [simp]: "length kForms_46 = 9"
  by (simp add: kForms_46_def)

definition kFieldPieces_47 :: "piece_desc list" where
  "kFieldPieces_47 = [
    mk_piece 43 5 0, mk_piece 6 5 0, mk_piece 31 5 0, mk_piece 36 5 0, mk_piece 41 2 0, mk_piece 23 5 0,
    mk_piece 31 5 0, mk_piece 36 12 0, mk_piece 4 12 12, mk_piece 23 5 0, mk_piece 31 5 0, mk_piece 36 12 0,
    mk_piece 4 12 12, mk_piece 15 5 0, mk_piece 15 17 0, mk_piece 7 5 17, mk_piece 15 5 0, mk_piece 20 5 0,
    mk_piece 25 7 0, mk_piece 7 5 7, mk_piece 7 25 0, mk_piece 47 17 25, mk_piece 7 25 0, mk_piece 47 17 25]"

definition kFields_47 :: "field_desc list" where
  "kFields_47 = [
    mk_field ''SrcD'' (-1) 5 1465 1, mk_field ''SrcD1'' (-1) 5 1466 1, mk_field ''SrcL'' (-1) 5 1467 1,
    mk_field ''SrcR'' (-1) 5 1468 1, mk_field ''SrcRType'' (-1) 2 1469 1, mk_field ''RegDst'' (-1) 5 1470 1,
    mk_field ''SrcL'' (-1) 5 1471 1, mk_field ''simm24'' 1 24 1472 2, mk_field ''RegDst'' (-1) 5 1474 1,
    mk_field ''SrcL'' (-1) 5 1475 1, mk_field ''simm24'' 1 24 1476 2, mk_field ''SrcL'' (-1) 5 1478 1,
    mk_field ''simm22'' 1 22 1479 2, mk_field ''SrcL'' (-1) 5 1481 1, mk_field ''SrcZero'' (-1) 5 1482 1,
    mk_field ''simm12'' 1 12 1483 2, mk_field ''simm'' 1 42 1485 2, mk_field ''simm'' 1 42 1487 2]"

definition kConstraints_47 :: "constraint_desc list" where
  "kConstraints_47 = [
    mk_constraint ''SrcRType'' Op_Ne 3 ''3'']"

definition kForms_47 :: "form_desc list" where
  "kForms_47 = [
    mk_form ''c244a576be8e'' ''HL.SWP.U'' ''hl.swp.u SrcD, SrcD1, [SrcL, SrcR<{.sw,.uw}>]'' ''HL48'' ''STA/PAIR'' ''STA/PAIR'' ''AGU''
      48 26 0x7ffff83f 0x6049001e 1295 5 965 1,
    mk_form ''b4d85f91aad8'' ''HL.XORI'' ''hl.xori SrcL, simm, ->{t, u, Rd}'' ''HL48'' ''ALU'' ''ALU'' ''ALU''
      48 14 0x707f000f 0x4015000e 1300 3 966 0,
    mk_form ''9a3edbd09746'' ''HL.XORIW'' ''hl.xoriw SrcL, simm, ->{t, u, Rd}'' ''HL48'' ''ALU'' ''ALU'' ''ALU''
      48 14 0x707f000f 0x4035000e 1303 3 966 0,
    mk_form ''854f0d4d906a'' ''IC.IALL'' ''ic.iall'' ''L32'' ''SYS'' ''SYS'' ''SYS''
      32 32 0xffffffff 0x10502b 1306 0 966 0,
    mk_form ''11b9a61dd8b5'' ''IC.IVA'' ''ic.iva SrcL'' ''L32'' ''SYS'' ''SYS'' ''SYS''
      32 27 0xfff07fff 0x502b 1306 1 966 0,
    mk_form ''a303cf05af42'' ''J'' ''j label'' ''L32'' ''BRU'' ''BRU'' ''BRU''
      32 10 0x707f 0x37 1307 1 966 0,
    mk_form ''c4128e843b05'' ''JR'' ''jr SrcL, label'' ''L32'' ''BRU'' ''BRU'' ''BRU''
      32 10 0x707f 0x6027 1308 3 966 0,
    mk_form ''52a1fd45d908'' ''L.BSTART.FP'' ''L.BSTART.FP DIRECT, <label>'' ''L64'' ''BSTART'' ''BBD'' ''BBD''
      64 22 0x7fff0000007f 0x20810000000f 1311 1 966 0,
    mk_form ''59792b6f0002'' ''L.BSTART.FP'' ''L.BSTART.FP FALL<, fixup_label>'' ''L64'' ''BSTART'' ''BBD'' ''BBD''
      64 22 0x7fff0000007f 0x10810000000f 1312 1 966 0]"

lemma chunk_47: "walk_forms kForms_47 kFields_47 kFieldPieces_47 kConstraints_47 1295 1465 965 1313 1489 966"
  by (simp add: kForms_47_def kFields_47_def kFieldPieces_47_def kConstraints_47_def walk_eval)

lemma length_kForms_47 [simp]: "length kForms_47 = 9"
  by (simp add: kForms_47_def)

end
