(* ===== verification/Isa_Table_08.thy ===== *)
theory Isa_Table_08
  imports Isa_Check
begin

text \<open>
  Forms 432 to 485 of the arrays of \<^verbatim>\<open>src/isa/generated_tables.cpp\<close> (lines 12070 to 12879), with their fields,
  pieces and constraints, in chunks of at most 9 forms, and the check of each chunk.
\<close>

definition kFieldPieces_48 :: "piece_desc list" where
  "kFieldPieces_48 = [
    mk_piece 7 25 0, mk_piece 47 17 25, mk_piece 7 25 0, mk_piece 47 17 25, mk_piece 7 25 0,
    mk_piece 47 17 25, mk_piece 7 25 0, mk_piece 47 17 25, mk_piece 7 25 0, mk_piece 47 17 25,
    mk_piece 7 25 0, mk_piece 47 17 25, mk_piece 7 25 0, mk_piece 47 17 25, mk_piece 7 5 0, mk_piece 15 5 0,
    mk_piece 20 5 0, mk_piece 25 2 0, mk_piece 27 5 0]"

definition kFields_48 :: "field_desc list" where
  "kFields_48 = [
    mk_field ''simm'' 1 42 1489 2, mk_field ''simm'' 1 42 1491 2, mk_field ''simm'' 1 42 1493 2,
    mk_field ''simm'' 1 42 1495 2, mk_field ''simm'' 1 42 1497 2, mk_field ''simm'' 1 42 1499 2,
    mk_field ''simm'' 1 42 1501 2, mk_field ''RegDst'' (-1) 5 1503 1, mk_field ''SrcL'' (-1) 5 1504 1,
    mk_field ''SrcR'' (-1) 5 1505 1, mk_field ''SrcRType'' (-1) 2 1506 1, mk_field ''shamt'' (-1) 5 1507 1]"

definition kConstraints_48 :: "constraint_desc list" where
  "kConstraints_48 = [
    mk_constraint ''SrcRType'' Op_Ne 3 ''3'']"

definition kForms_48 :: "form_desc list" where
  "kForms_48 = [
    mk_form ''9673fedb498b'' ''L.BSTART.FP'' ''L.BSTART.FP CALL, <label>'' ''L64'' ''BSTART'' ''BBD'' ''BBD''
      64 22 0x7fff0000007f 0x40810000000f 1313 1 966 0,
    mk_form ''b27a4726298b'' ''L.BSTART.FP'' ''L.BSTART.FP COND, <label>'' ''L64'' ''BSTART'' ''BBD'' ''BBD''
      64 22 0x7fff0000007f 0x30810000000f 1314 1 966 0,
    mk_form ''40bf385dbbff'' ''L.BSTART.STD'' ''L.BSTART.STD COND, <label>'' ''L64'' ''BSTART'' ''BBD'' ''BBD''
      64 22 0x7fff0000007f 0x30010000000f 1315 1 966 0,
    mk_form ''49b7cf990e62'' ''L.BSTART.STD'' ''L.BSTART.STD DIRECT, <label>'' ''L64'' ''BSTART'' ''BBD'' ''BBD''
      64 22 0x7fff0000007f 0x20010000000f 1316 1 966 0,
    mk_form ''9a6081ab8f08'' ''L.BSTART.STD'' ''L.BSTART.STD CALL, <label>'' ''L64'' ''BSTART'' ''BBD'' ''BBD''
      64 22 0x7fff0000007f 0x40010000000f 1317 1 966 0,
    mk_form ''ed61315d3418'' ''L.BSTART.STD'' ''L.BSTART.STD FALL<, fixup_label>'' ''L64'' ''BSTART'' ''BBD'' ''BBD''
      64 22 0x7fff0000007f 0x10010000000f 1318 1 966 0,
    mk_form ''3e3b45c148bc'' ''L.BSTART.SYS'' ''L.BSTART.SYS FALL<, fixup_label>'' ''L64'' ''BSTART'' ''BBD'' ''BBD''
      64 22 0x7fff0000007f 0x10110000000f 1319 1 966 0,
    mk_form ''94c7f0a5e8b3'' ''L.BSTOP'' ''L.BSTOP'' ''L64'' ''Bundle Split'' ''CMD'' ''CMD''
      64 64 0xffffffffffffffff 0x10000000f 1320 0 966 0,
    mk_form ''b718aa88e28f'' ''LB'' ''lb [SrcL, SrcR<{.sw,.uw}><<<shamt>], ->{t, u, Rd}'' ''L32'' ''LDA/BASE_REG'' ''LDA/BASE_REG'' ''AGU''
      32 10 0x707f 0x9 1320 5 966 1]"

lemma chunk_48: "walk_forms kForms_48 kFields_48 kFieldPieces_48 kConstraints_48 1313 1489 966 1325 1508 967"
  by (simp add: kForms_48_def kFields_48_def kFieldPieces_48_def kConstraints_48_def walk_eval)

lemma length_kForms_48 [simp]: "length kForms_48 = 9"
  by (simp add: kForms_48_def)

definition kFieldPieces_49 :: "piece_desc list" where
  "kFieldPieces_49 = [
    mk_piece 7 5 0, mk_piece 15 17 0, mk_piece 7 5 0, mk_piece 15 5 0, mk_piece 20 12 0, mk_piece 7 5 0,
    mk_piece 15 5 0, mk_piece 20 5 0, mk_piece 25 2 0, mk_piece 27 5 0, mk_piece 7 5 0, mk_piece 15 17 0,
    mk_piece 7 5 0, mk_piece 15 5 0, mk_piece 20 12 0, mk_piece 7 5 0, mk_piece 15 5 0, mk_piece 20 5 0,
    mk_piece 25 2 0, mk_piece 27 5 0, mk_piece 7 5 0, mk_piece 15 5 0, mk_piece 20 5 0, mk_piece 26 1 0,
    mk_piece 31 1 0, mk_piece 25 1 0, mk_piece 7 5 0, mk_piece 15 5 0, mk_piece 20 5 0, mk_piece 26 1 0,
    mk_piece 31 1 0, mk_piece 25 1 0, mk_piece 7 5 0, mk_piece 15 5 0, mk_piece 20 5 0, mk_piece 26 1 0,
    mk_piece 31 1 0, mk_piece 25 1 0]"

definition kFields_49 :: "field_desc list" where
  "kFields_49 = [
    mk_field ''RegDst'' (-1) 5 1508 1, mk_field ''simm17'' 1 17 1509 1, mk_field ''RegDst'' (-1) 5 1510 1,
    mk_field ''SrcL'' (-1) 5 1511 1, mk_field ''simm12'' 1 12 1512 1, mk_field ''RegDst'' (-1) 5 1513 1,
    mk_field ''SrcL'' (-1) 5 1514 1, mk_field ''SrcR'' (-1) 5 1515 1, mk_field ''SrcRType'' (-1) 2 1516 1,
    mk_field ''shamt'' (-1) 5 1517 1, mk_field ''RegDst'' (-1) 5 1518 1, mk_field ''simm17'' 1 17 1519 1,
    mk_field ''RegDst'' (-1) 5 1520 1, mk_field ''SrcL'' (-1) 5 1521 1, mk_field ''simm12'' 1 12 1522 1,
    mk_field ''RegDst'' (-1) 5 1523 1, mk_field ''SrcL'' (-1) 5 1524 1, mk_field ''SrcR'' (-1) 5 1525 1,
    mk_field ''SrcRType'' (-1) 2 1526 1, mk_field ''shamt'' (-1) 5 1527 1, mk_field ''RegDst'' (-1) 5 1528 1,
    mk_field ''SrcL'' (-1) 5 1529 1, mk_field ''SrcR'' (-1) 5 1530 1, mk_field ''aq'' (-1) 1 1531 1,
    mk_field ''far'' (-1) 1 1532 1, mk_field ''rl'' (-1) 1 1533 1, mk_field ''RegDst'' (-1) 5 1534 1,
    mk_field ''SrcL'' (-1) 5 1535 1, mk_field ''SrcR'' (-1) 5 1536 1, mk_field ''aq'' (-1) 1 1537 1,
    mk_field ''far'' (-1) 1 1538 1, mk_field ''rl'' (-1) 1 1539 1, mk_field ''RegDst'' (-1) 5 1540 1,
    mk_field ''SrcL'' (-1) 5 1541 1, mk_field ''SrcR'' (-1) 5 1542 1, mk_field ''aq'' (-1) 1 1543 1,
    mk_field ''far'' (-1) 1 1544 1, mk_field ''rl'' (-1) 1 1545 1]"

definition kConstraints_49 :: "constraint_desc list" where
  "kConstraints_49 = [
    mk_constraint ''SrcRType'' Op_Ne 3 ''3'', mk_constraint ''SrcRType'' Op_Ne 3 ''3'']"

definition kForms_49 :: "form_desc list" where
  "kForms_49 = [
    mk_form ''3fa2540b22d0'' ''LB.PCR'' ''lb.pcr [symbol], ->{t, u, Rd}'' ''L32'' ''LDA'' ''LDA'' ''AGU''
      32 10 0x707f 0x39 1325 2 967 0,
    mk_form ''9af2cdbeb38f'' ''LBI'' ''lbi [SrcL, simm], ->{t, u, Rd}'' ''L32'' ''LDA/BASE_IMM'' ''LDA/BASE_IMM'' ''AGU''
      32 10 0x707f 0x19 1327 3 967 0,
    mk_form ''a9a58ab4ea22'' ''LBU'' ''lbu [SrcL, SrcR<{.sw,.uw}><<<shamt>], ->{t, u, Rd}'' ''L32'' ''LDA/BASE_REG'' ''LDA/BASE_REG'' ''AGU''
      32 10 0x707f 0x4009 1330 5 967 1,
    mk_form ''5b571b0c8dc2'' ''LBU.PCR'' ''lbu.pcr [symbol], ->{t, u, Rd}'' ''L32'' ''LDA'' ''LDA'' ''AGU''
      32 10 0x707f 0x4039 1335 2 968 0,
    mk_form ''c39b9aa11f02'' ''LBUI'' ''lbui [SrcL, simm], ->{t, u, Rd}'' ''L32'' ''LDA/BASE_IMM'' ''LDA/BASE_IMM'' ''AGU''
      32 10 0x707f 0x4019 1337 3 968 0,
    mk_form ''7c48838bc4e6'' ''LD'' ''ld [SrcL, SrcR<{.sw,.uw}><<<shamt>], ->{t, u, Rd}'' ''L32'' ''LDA/BASE_REG'' ''LDA/BASE_REG'' ''AGU''
      32 10 0x707f 0x3009 1340 5 968 1,
    mk_form ''a4038a6c7e86'' ''LD.ADD'' ''ld.add<.{aq, rl, f, aqrl, aqf, rlf, aqrlf}> [SrcL], SrcR, {->t, ->u, ->Rd}'' ''L32'' ''AMO'' ''AMO'' ''AMO''
      32 14 0x7800707f 0x400b 1345 6 969 0,
    mk_form ''2a46b3003480'' ''LD.AND'' ''ld.and<.{aq, rl, f, aqrl, aqf, rlf, aqrlf}> [SrcL], SrcR, {->t, ->u, ->Rd}'' ''L32'' ''AMO'' ''AMO'' ''AMO''
      32 14 0x7800707f 0x800400b 1351 6 969 0,
    mk_form ''456d270cfc7d'' ''LD.OR'' ''ld.or<.{aq, rl, f, aqrl, aqf, rlf, aqrlf}> [SrcL], SrcR, {->t, ->u, ->Rd}'' ''L32'' ''AMO'' ''AMO'' ''AMO''
      32 14 0x7800707f 0x1000400b 1357 6 969 0]"

lemma chunk_49: "walk_forms kForms_49 kFields_49 kFieldPieces_49 kConstraints_49 1325 1508 967 1363 1546 969"
  by (simp add: kForms_49_def kFields_49_def kFieldPieces_49_def kConstraints_49_def walk_eval)

lemma length_kForms_49 [simp]: "length kForms_49 = 9"
  by (simp add: kForms_49_def)

definition kFieldPieces_50 :: "piece_desc list" where
  "kFieldPieces_50 = [
    mk_piece 7 5 0, mk_piece 15 17 0, mk_piece 7 5 0, mk_piece 15 5 0, mk_piece 20 5 0, mk_piece 26 1 0,
    mk_piece 31 1 0, mk_piece 25 1 0, mk_piece 7 5 0, mk_piece 15 5 0, mk_piece 20 5 0, mk_piece 26 1 0,
    mk_piece 31 1 0, mk_piece 25 1 0, mk_piece 7 5 0, mk_piece 15 5 0, mk_piece 20 5 0, mk_piece 26 1 0,
    mk_piece 31 1 0, mk_piece 25 1 0, mk_piece 7 5 0, mk_piece 15 5 0, mk_piece 20 5 0, mk_piece 26 1 0,
    mk_piece 31 1 0, mk_piece 25 1 0, mk_piece 7 5 0, mk_piece 15 5 0, mk_piece 20 5 0, mk_piece 26 1 0,
    mk_piece 31 1 0, mk_piece 25 1 0, mk_piece 7 5 0, mk_piece 15 5 0, mk_piece 20 12 0, mk_piece 7 5 0,
    mk_piece 15 5 0, mk_piece 20 12 0, mk_piece 7 5 0, mk_piece 15 5 0, mk_piece 20 5 0, mk_piece 25 2 0,
    mk_piece 27 5 0]"

definition kFields_50 :: "field_desc list" where
  "kFields_50 = [
    mk_field ''RegDst'' (-1) 5 1546 1, mk_field ''simm17'' 1 17 1547 1, mk_field ''RegDst'' (-1) 5 1548 1,
    mk_field ''SrcL'' (-1) 5 1549 1, mk_field ''SrcR'' (-1) 5 1550 1, mk_field ''aq'' (-1) 1 1551 1,
    mk_field ''far'' (-1) 1 1552 1, mk_field ''rl'' (-1) 1 1553 1, mk_field ''RegDst'' (-1) 5 1554 1,
    mk_field ''SrcL'' (-1) 5 1555 1, mk_field ''SrcR'' (-1) 5 1556 1, mk_field ''aq'' (-1) 1 1557 1,
    mk_field ''far'' (-1) 1 1558 1, mk_field ''rl'' (-1) 1 1559 1, mk_field ''RegDst'' (-1) 5 1560 1,
    mk_field ''SrcL'' (-1) 5 1561 1, mk_field ''SrcR'' (-1) 5 1562 1, mk_field ''aq'' (-1) 1 1563 1,
    mk_field ''far'' (-1) 1 1564 1, mk_field ''rl'' (-1) 1 1565 1, mk_field ''RegDst'' (-1) 5 1566 1,
    mk_field ''SrcL'' (-1) 5 1567 1, mk_field ''SrcR'' (-1) 5 1568 1, mk_field ''aq'' (-1) 1 1569 1,
    mk_field ''far'' (-1) 1 1570 1, mk_field ''rl'' (-1) 1 1571 1, mk_field ''RegDst'' (-1) 5 1572 1,
    mk_field ''SrcL'' (-1) 5 1573 1, mk_field ''SrcR'' (-1) 5 1574 1, mk_field ''aq'' (-1) 1 1575 1,
    mk_field ''far'' (-1) 1 1576 1, mk_field ''rl'' (-1) 1 1577 1, mk_field ''RegDst'' (-1) 5 1578 1,
    mk_field ''SrcL'' (-1) 5 1579 1, mk_field ''simm12'' 1 12 1580 1, mk_field ''RegDst'' (-1) 5 1581 1,
    mk_field ''SrcL'' (-1) 5 1582 1, mk_field ''simm12'' 1 12 1583 1, mk_field ''RegDst'' (-1) 5 1584 1,
    mk_field ''SrcL'' (-1) 5 1585 1, mk_field ''SrcR'' (-1) 5 1586 1, mk_field ''SrcRType'' (-1) 2 1587 1,
    mk_field ''shamt'' (-1) 5 1588 1]"

definition kConstraints_50 :: "constraint_desc list" where
  "kConstraints_50 = [
    mk_constraint ''SrcRType'' Op_Ne 3 ''3'']"

definition kForms_50 :: "form_desc list" where
  "kForms_50 = [
    mk_form ''99bc3d2d487b'' ''LD.PCR'' ''ld.pcr [symbol], ->{t, u, Rd}'' ''L32'' ''LDA'' ''LDA'' ''AGU''
      32 10 0x707f 0x3039 1363 2 969 0,
    mk_form ''a3aad6120226'' ''LD.SMAX'' ''ld.smax<.{aq, rl, f, aqrl, aqf, rlf, aqrlf}> [SrcL], SrcR, {->t, ->u, ->Rd}'' ''L32'' ''AMO'' ''AMO'' ''AMO''
      32 14 0x7800707f 0x2000400b 1365 6 969 0,
    mk_form ''9461d345718f'' ''LD.SMIN'' ''ld.smin<.{aq, rl, f, aqrl, aqf, rlf, aqrlf}> [SrcL], SrcR, {->t, ->u, ->Rd}'' ''L32'' ''AMO'' ''AMO'' ''AMO''
      32 14 0x7800707f 0x2800400b 1371 6 969 0,
    mk_form ''a84af75745d9'' ''LD.UMAX'' ''ld.umax<.{aq, rl, f, aqrl, aqf, rlf, aqrlf}> [SrcL], SrcR, {->t, ->u, ->Rd}'' ''L32'' ''AMO'' ''AMO'' ''AMO''
      32 14 0x7800707f 0x3000400b 1377 6 969 0,
    mk_form ''4bf2f357eff3'' ''LD.UMIN'' ''ld.umin<.{aq, rl, f, aqrl, aqf, rlf, aqrlf}> [SrcL], SrcR, {->t, ->u, ->Rd}'' ''L32'' ''AMO'' ''AMO'' ''AMO''
      32 14 0x7800707f 0x3800400b 1383 6 969 0,
    mk_form ''33072c0fde61'' ''LD.XOR'' ''ld.xor<.{aq, rl, f, aqrl, aqf, rlf, aqrlf}> [SrcL], SrcR, {->t, ->u, ->Rd}'' ''L32'' ''AMO'' ''AMO'' ''AMO''
      32 14 0x7800707f 0x1800400b 1389 6 969 0,
    mk_form ''d82a643f7a2b'' ''LDI'' ''ldi [SrcL, simm], ->{t, u, Rd}'' ''L32'' ''LDA/BASE_IMM'' ''LDA/BASE_IMM'' ''AGU''
      32 10 0x707f 0x3019 1395 3 969 0,
    mk_form ''111bb521a439'' ''LDI.U'' ''ldi.u [SrcL, simm], ->{t, u, Rd}'' ''L32'' ''LDA/UNSCALED'' ''LDA/UNSCALED'' ''AGU''
      32 10 0x707f 0x3029 1398 3 969 0,
    mk_form ''d0f04d7d7696'' ''LH'' ''lh [SrcL, SrcR<{.sw,.uw}><<<shamt>], ->{t, u, Rd}'' ''L32'' ''LDA/BASE_REG'' ''LDA/BASE_REG'' ''AGU''
      32 10 0x707f 0x1009 1401 5 969 1]"

lemma chunk_50: "walk_forms kForms_50 kFields_50 kFieldPieces_50 kConstraints_50 1363 1546 969 1406 1589 970"
  by (simp add: kForms_50_def kFields_50_def kFieldPieces_50_def kConstraints_50_def walk_eval)

lemma length_kForms_50 [simp]: "length kForms_50 = 9"
  by (simp add: kForms_50_def)

definition kFieldPieces_51 :: "piece_desc list" where
  "kFieldPieces_51 = [
    mk_piece 7 5 0, mk_piece 15 17 0, mk_piece 7 5 0, mk_piece 15 5 0, mk_piece 20 12 0, mk_piece 7 5 0,
    mk_piece 15 5 0, mk_piece 20 12 0, mk_piece 7 5 0, mk_piece 15 5 0, mk_piece 20 5 0, mk_piece 25 2 0,
    mk_piece 27 5 0, mk_piece 7 5 0, mk_piece 15 17 0, mk_piece 7 5 0, mk_piece 15 5 0, mk_piece 20 12 0,
    mk_piece 7 5 0, mk_piece 15 5 0, mk_piece 20 12 0, mk_piece 7 5 0, mk_piece 15 5 0, mk_piece 20 5 0,
    mk_piece 26 1 0, mk_piece 31 1 0, mk_piece 25 1 0, mk_piece 7 5 0, mk_piece 15 5 0, mk_piece 20 5 0,
    mk_piece 26 1 0, mk_piece 31 1 0, mk_piece 25 1 0]"

definition kFields_51 :: "field_desc list" where
  "kFields_51 = [
    mk_field ''RegDst'' (-1) 5 1589 1, mk_field ''simm17'' 1 17 1590 1, mk_field ''RegDst'' (-1) 5 1591 1,
    mk_field ''SrcL'' (-1) 5 1592 1, mk_field ''simm12'' 1 12 1593 1, mk_field ''RegDst'' (-1) 5 1594 1,
    mk_field ''SrcL'' (-1) 5 1595 1, mk_field ''simm12'' 1 12 1596 1, mk_field ''RegDst'' (-1) 5 1597 1,
    mk_field ''SrcL'' (-1) 5 1598 1, mk_field ''SrcR'' (-1) 5 1599 1, mk_field ''SrcRType'' (-1) 2 1600 1,
    mk_field ''shamt'' (-1) 5 1601 1, mk_field ''RegDst'' (-1) 5 1602 1, mk_field ''simm17'' 1 17 1603 1,
    mk_field ''RegDst'' (-1) 5 1604 1, mk_field ''SrcL'' (-1) 5 1605 1, mk_field ''simm12'' 1 12 1606 1,
    mk_field ''RegDst'' (-1) 5 1607 1, mk_field ''SrcL'' (-1) 5 1608 1, mk_field ''simm12'' 1 12 1609 1,
    mk_field ''RegDst'' (-1) 5 1610 1, mk_field ''SrcL'' (-1) 5 1611 1, mk_field ''SrcZero'' (-1) 5 1612 1,
    mk_field ''aq'' (-1) 1 1613 1, mk_field ''far'' (-1) 1 1614 1, mk_field ''rl'' (-1) 1 1615 1,
    mk_field ''RegDst'' (-1) 5 1616 1, mk_field ''SrcL'' (-1) 5 1617 1, mk_field ''SrcZero'' (-1) 5 1618 1,
    mk_field ''aq'' (-1) 1 1619 1, mk_field ''far'' (-1) 1 1620 1, mk_field ''rl'' (-1) 1 1621 1]"

definition kConstraints_51 :: "constraint_desc list" where
  "kConstraints_51 = [
    mk_constraint ''SrcRType'' Op_Ne 3 ''3'']"

definition kForms_51 :: "form_desc list" where
  "kForms_51 = [
    mk_form ''aabf46d21e49'' ''LH.PCR'' ''lh.pcr [symbol], ->{t, u, Rd}'' ''L32'' ''LDA'' ''LDA'' ''AGU''
      32 10 0x707f 0x1039 1406 2 970 0,
    mk_form ''46a45ec7074d'' ''LHI'' ''lhi [SrcL, simm], ->{t, u, Rd}'' ''L32'' ''LDA/BASE_IMM'' ''LDA/BASE_IMM'' ''AGU''
      32 10 0x707f 0x1019 1408 3 970 0,
    mk_form ''bb0c81c6e61d'' ''LHI.U'' ''lhi.u [SrcL, simm], ->{t, u, Rd}'' ''L32'' ''LDA/UNSCALED'' ''LDA/UNSCALED'' ''AGU''
      32 10 0x707f 0x1029 1411 3 970 0,
    mk_form ''730caf67ecd1'' ''LHU'' ''lhu [SrcL, SrcR<{.sw,.uw}><<<shamt>], ->{t, u, Rd}'' ''L32'' ''LDA/BASE_REG'' ''LDA/BASE_REG'' ''AGU''
      32 10 0x707f 0x5009 1414 5 970 1,
    mk_form ''9f4a1c04f258'' ''LHU.PCR'' ''lhu.pcr [symbol], ->{t, u, Rd}'' ''L32'' ''LDA'' ''LDA'' ''AGU''
      32 10 0x707f 0x5039 1419 2 971 0,
    mk_form ''6da39bba900b'' ''LHUI'' ''lhui [SrcL, simm], ->{t, u, Rd}'' ''L32'' ''LDA/BASE_IMM'' ''LDA/BASE_IMM'' ''AGU''
      32 10 0x707f 0x5019 1421 3 971 0,
    mk_form ''748b15cd2ced'' ''LHUI.U'' ''lhui.u [SrcL, simm], ->{t, u, Rd}'' ''L32'' ''LDA/UNSCALED'' ''LDA/UNSCALED'' ''AGU''
      32 10 0x707f 0x5029 1424 3 971 0,
    mk_form ''cf80903a761a'' ''LR.B'' ''lr.b<.{aq, rl, f, aqrl, aqf, rlf, aqrlf}> [SrcL], {->t, ->u, ->Rd}'' ''L32'' ''AMO'' ''AMO'' ''AMO''
      32 14 0x7800707f 0xb 1427 6 971 0,
    mk_form ''84d21a553dc1'' ''LR.D'' ''lr.d<.{aq, rl, f, aqrl, aqf, rlf, aqrlf}> [SrcL], {->t, ->u, ->Rd}'' ''L32'' ''AMO'' ''AMO'' ''AMO''
      32 14 0x7800707f 0x1800000b 1433 6 971 0]"

lemma chunk_51: "walk_forms kForms_51 kFields_51 kFieldPieces_51 kConstraints_51 1406 1589 970 1439 1622 971"
  by (simp add: kForms_51_def kFields_51_def kFieldPieces_51_def kConstraints_51_def walk_eval)

lemma length_kForms_51 [simp]: "length kForms_51 = 9"
  by (simp add: kForms_51_def)

definition kFieldPieces_52 :: "piece_desc list" where
  "kFieldPieces_52 = [
    mk_piece 7 5 0, mk_piece 15 5 0, mk_piece 20 5 0, mk_piece 26 1 0, mk_piece 31 1 0, mk_piece 25 1 0,
    mk_piece 7 5 0, mk_piece 15 5 0, mk_piece 20 5 0, mk_piece 26 1 0, mk_piece 31 1 0, mk_piece 25 1 0,
    mk_piece 20 12 0, mk_piece 7 5 0, mk_piece 7 5 0, mk_piece 12 20 0, mk_piece 7 5 0, mk_piece 15 5 0,
    mk_piece 20 5 0, mk_piece 25 2 0, mk_piece 27 5 0, mk_piece 7 5 0, mk_piece 15 5 0, mk_piece 20 5 0,
    mk_piece 26 1 0, mk_piece 31 1 0, mk_piece 25 1 0, mk_piece 7 5 0, mk_piece 15 5 0, mk_piece 20 5 0,
    mk_piece 26 1 0, mk_piece 31 1 0, mk_piece 25 1 0, mk_piece 7 5 0, mk_piece 15 5 0, mk_piece 20 5 0,
    mk_piece 26 1 0, mk_piece 31 1 0, mk_piece 25 1 0, mk_piece 7 5 0, mk_piece 15 17 0]"

definition kFields_52 :: "field_desc list" where
  "kFields_52 = [
    mk_field ''RegDst'' (-1) 5 1622 1, mk_field ''SrcL'' (-1) 5 1623 1, mk_field ''SrcZero'' (-1) 5 1624 1,
    mk_field ''aq'' (-1) 1 1625 1, mk_field ''far'' (-1) 1 1626 1, mk_field ''rl'' (-1) 1 1627 1,
    mk_field ''RegDst'' (-1) 5 1628 1, mk_field ''SrcL'' (-1) 5 1629 1, mk_field ''SrcZero'' (-1) 5 1630 1,
    mk_field ''aq'' (-1) 1 1631 1, mk_field ''far'' (-1) 1 1632 1, mk_field ''rl'' (-1) 1 1633 1,
    mk_field ''LSR_ID'' (-1) 12 1634 1, mk_field ''RegDst'' (-1) 5 1635 1, mk_field ''RegDst'' (-1) 5 1636 1,
    mk_field ''imm20'' (-1) 20 1637 1, mk_field ''RegDst'' (-1) 5 1638 1, mk_field ''SrcL'' (-1) 5 1639 1,
    mk_field ''SrcR'' (-1) 5 1640 1, mk_field ''SrcRType'' (-1) 2 1641 1, mk_field ''shamt'' (-1) 5 1642 1,
    mk_field ''RegDst'' (-1) 5 1643 1, mk_field ''SrcL'' (-1) 5 1644 1, mk_field ''SrcR'' (-1) 5 1645 1,
    mk_field ''aq'' (-1) 1 1646 1, mk_field ''far'' (-1) 1 1647 1, mk_field ''rl'' (-1) 1 1648 1,
    mk_field ''RegDst'' (-1) 5 1649 1, mk_field ''SrcL'' (-1) 5 1650 1, mk_field ''SrcR'' (-1) 5 1651 1,
    mk_field ''aq'' (-1) 1 1652 1, mk_field ''far'' (-1) 1 1653 1, mk_field ''rl'' (-1) 1 1654 1,
    mk_field ''RegDst'' (-1) 5 1655 1, mk_field ''SrcL'' (-1) 5 1656 1, mk_field ''SrcR'' (-1) 5 1657 1,
    mk_field ''aq'' (-1) 1 1658 1, mk_field ''far'' (-1) 1 1659 1, mk_field ''rl'' (-1) 1 1660 1,
    mk_field ''RegDst'' (-1) 5 1661 1, mk_field ''simm17'' 1 17 1662 1]"

definition kConstraints_52 :: "constraint_desc list" where
  "kConstraints_52 = [
    mk_constraint ''SrcRType'' Op_Ne 3 ''3'']"

definition kForms_52 :: "form_desc list" where
  "kForms_52 = [
    mk_form ''f936df218d63'' ''LR.H'' ''lr.h<.{aq, rl, f, aqrl, aqf, rlf, aqrlf}> [SrcL], {->t, ->u, ->Rd}'' ''L32'' ''AMO'' ''AMO'' ''AMO''
      32 14 0x7800707f 0x800000b 1439 6 971 0,
    mk_form ''efecc735bb75'' ''LR.W'' ''lr.w<.{aq, rl, f, aqrl, aqf, rlf, aqrlf}> [SrcL], {->t, ->u, ->Rd}'' ''L32'' ''AMO'' ''AMO'' ''AMO''
      32 14 0x7800707f 0x1000000b 1445 6 971 0,
    mk_form ''448b17d7c20a'' ''LSRGET'' ''lsrget LSR_ID, ->{t, u, Rd}'' ''L32'' ''SYS'' ''SYS'' ''SYS''
      32 15 0xff07f 0x303b 1451 2 971 0,
    mk_form ''982113b541d6'' ''LUI'' ''lui simm, ->{t, u, Rd}'' ''L32'' ''ALU'' ''ALU'' ''ALU''
      32 7 0x7f 0x17 1453 2 971 0,
    mk_form ''3a77ffafcb34'' ''LW'' ''lw [SrcL, SrcR<{.sw,.uw}><<<shamt>], ->{t, u, Rd}'' ''L32'' ''LDA/BASE_REG'' ''LDA/BASE_REG'' ''AGU''
      32 10 0x707f 0x2009 1455 5 971 1,
    mk_form ''5be3ad1ad081'' ''LW.ADD'' ''lw.add<.{aq, rl, f, aqrl, aqf, rlf, aqrlf}> [SrcL], SrcR, {->t, ->u, ->Rd}'' ''L32'' ''AMO'' ''AMO'' ''AMO''
      32 14 0x7800707f 0x200b 1460 6 972 0,
    mk_form ''f8dd9866b069'' ''LW.AND'' ''lw.and<.{aq, rl, f, aqrl, aqf, rlf, aqrlf}> [SrcL], SrcR, {->t, ->u, ->Rd}'' ''L32'' ''AMO'' ''AMO'' ''AMO''
      32 14 0x7800707f 0x800200b 1466 6 972 0,
    mk_form ''d6d2f87706fd'' ''LW.OR'' ''lw.or<.{aq, rl, f, aqrl, aqf, rlf, aqrlf}> [SrcL], SrcR, {->t, ->u, ->Rd}'' ''L32'' ''AMO'' ''AMO'' ''AMO''
      32 14 0x7800707f 0x1000200b 1472 6 972 0,
    mk_form ''d135a1aa4ffb'' ''LW.PCR'' ''lw.pcr [symbol], ->{t, u, Rd}'' ''L32'' ''LDA'' ''LDA'' ''AGU''
      32 10 0x707f 0x2039 1478 2 972 0]"

lemma chunk_52: "walk_forms kForms_52 kFields_52 kFieldPieces_52 kConstraints_52 1439 1622 971 1480 1663 972"
  by (simp add: kForms_52_def kFields_52_def kFieldPieces_52_def kConstraints_52_def walk_eval)

lemma length_kForms_52 [simp]: "length kForms_52 = 9"
  by (simp add: kForms_52_def)

definition kFieldPieces_53 :: "piece_desc list" where
  "kFieldPieces_53 = [
    mk_piece 7 5 0, mk_piece 15 5 0, mk_piece 20 5 0, mk_piece 26 1 0, mk_piece 31 1 0, mk_piece 25 1 0,
    mk_piece 7 5 0, mk_piece 15 5 0, mk_piece 20 5 0, mk_piece 26 1 0, mk_piece 31 1 0, mk_piece 25 1 0,
    mk_piece 7 5 0, mk_piece 15 5 0, mk_piece 20 5 0, mk_piece 26 1 0, mk_piece 31 1 0, mk_piece 25 1 0,
    mk_piece 7 5 0, mk_piece 15 5 0, mk_piece 20 5 0, mk_piece 26 1 0, mk_piece 31 1 0, mk_piece 25 1 0,
    mk_piece 7 5 0, mk_piece 15 5 0, mk_piece 20 5 0, mk_piece 26 1 0, mk_piece 31 1 0, mk_piece 25 1 0,
    mk_piece 7 5 0, mk_piece 15 5 0, mk_piece 20 12 0, mk_piece 7 5 0, mk_piece 15 5 0, mk_piece 20 12 0,
    mk_piece 7 5 0, mk_piece 15 5 0, mk_piece 20 5 0, mk_piece 25 2 0, mk_piece 27 5 0, mk_piece 7 5 0,
    mk_piece 15 17 0]"

definition kFields_53 :: "field_desc list" where
  "kFields_53 = [
    mk_field ''RegDst'' (-1) 5 1663 1, mk_field ''SrcL'' (-1) 5 1664 1, mk_field ''SrcR'' (-1) 5 1665 1,
    mk_field ''aq'' (-1) 1 1666 1, mk_field ''far'' (-1) 1 1667 1, mk_field ''rl'' (-1) 1 1668 1,
    mk_field ''RegDst'' (-1) 5 1669 1, mk_field ''SrcL'' (-1) 5 1670 1, mk_field ''SrcR'' (-1) 5 1671 1,
    mk_field ''aq'' (-1) 1 1672 1, mk_field ''far'' (-1) 1 1673 1, mk_field ''rl'' (-1) 1 1674 1,
    mk_field ''RegDst'' (-1) 5 1675 1, mk_field ''SrcL'' (-1) 5 1676 1, mk_field ''SrcR'' (-1) 5 1677 1,
    mk_field ''aq'' (-1) 1 1678 1, mk_field ''far'' (-1) 1 1679 1, mk_field ''rl'' (-1) 1 1680 1,
    mk_field ''RegDst'' (-1) 5 1681 1, mk_field ''SrcL'' (-1) 5 1682 1, mk_field ''SrcR'' (-1) 5 1683 1,
    mk_field ''aq'' (-1) 1 1684 1, mk_field ''far'' (-1) 1 1685 1, mk_field ''rl'' (-1) 1 1686 1,
    mk_field ''RegDst'' (-1) 5 1687 1, mk_field ''SrcL'' (-1) 5 1688 1, mk_field ''SrcR'' (-1) 5 1689 1,
    mk_field ''aq'' (-1) 1 1690 1, mk_field ''far'' (-1) 1 1691 1, mk_field ''rl'' (-1) 1 1692 1,
    mk_field ''RegDst'' (-1) 5 1693 1, mk_field ''SrcL'' (-1) 5 1694 1, mk_field ''simm12'' 1 12 1695 1,
    mk_field ''RegDst'' (-1) 5 1696 1, mk_field ''SrcL'' (-1) 5 1697 1, mk_field ''simm12'' 1 12 1698 1,
    mk_field ''RegDst'' (-1) 5 1699 1, mk_field ''SrcL'' (-1) 5 1700 1, mk_field ''SrcR'' (-1) 5 1701 1,
    mk_field ''SrcRType'' (-1) 2 1702 1, mk_field ''shamt'' (-1) 5 1703 1, mk_field ''RegDst'' (-1) 5 1704 1,
    mk_field ''simm17'' 1 17 1705 1]"

definition kConstraints_53 :: "constraint_desc list" where
  "kConstraints_53 = [
    mk_constraint ''SrcRType'' Op_Ne 3 ''3'']"

definition kForms_53 :: "form_desc list" where
  "kForms_53 = [
    mk_form ''838b8c673c91'' ''LW.SMAX'' ''lw.smax<.{aq, rl, f, aqrl, aqf, rlf, aqrlf}> [SrcL], SrcR, {->t, ->u, ->Rd}'' ''L32'' ''AMO'' ''AMO'' ''AMO''
      32 14 0x7800707f 0x2000200b 1480 6 972 0,
    mk_form ''44452ae44d02'' ''LW.SMIN'' ''lw.smin<.{aq, rl, f, aqrl, aqf, rlf, aqrlf}> [SrcL], SrcR, {->t, ->u, ->Rd}'' ''L32'' ''AMO'' ''AMO'' ''AMO''
      32 14 0x7800707f 0x2800200b 1486 6 972 0,
    mk_form ''3c6a5a534674'' ''LW.UMAX'' ''lw.umax<.{aq, rl, f, aqrl, aqf, rlf, aqrlf}> [SrcL], SrcR, {->t, ->u, ->Rd}'' ''L32'' ''AMO'' ''AMO'' ''AMO''
      32 14 0x7800707f 0x3000200b 1492 6 972 0,
    mk_form ''fd9b7bb538a3'' ''LW.UMIN'' ''lw.umin<.{aq, rl, f, aqrl, aqf, rlf, aqrlf}> [SrcL], SrcR, {->t, ->u, ->Rd}'' ''L32'' ''AMO'' ''AMO'' ''AMO''
      32 14 0x7800707f 0x3800200b 1498 6 972 0,
    mk_form ''4d4aa82c676a'' ''LW.XOR'' ''lw.xor<.{aq, rl, f, aqrl, aqf, rlf, aqrlf}> [SrcL], SrcR, {->t, ->u, ->Rd}'' ''L32'' ''AMO'' ''AMO'' ''AMO''
      32 14 0x7800707f 0x1800200b 1504 6 972 0,
    mk_form ''7085c98058fa'' ''LWI'' ''lwi [SrcL, simm], ->{t, u, Rd}'' ''L32'' ''LDA/BASE_IMM'' ''LDA/BASE_IMM'' ''AGU''
      32 10 0x707f 0x2019 1510 3 972 0,
    mk_form ''4a7426a70f10'' ''LWI.U'' ''lwi.u [SrcL, simm], ->{t, u, Rd}'' ''L32'' ''LDA/UNSCALED'' ''LDA/UNSCALED'' ''AGU''
      32 10 0x707f 0x2029 1513 3 972 0,
    mk_form ''678935925636'' ''LWU'' ''lwu [SrcL, SrcR<{.sw,.uw}><<<shamt>], ->{t, u, Rd}'' ''L32'' ''LDA/BASE_REG'' ''LDA/BASE_REG'' ''AGU''
      32 10 0x707f 0x6009 1516 5 972 1,
    mk_form ''df27ea51c564'' ''LWU.PCR'' ''lwu.pcr [symbol], ->{t, u, Rd}'' ''L32'' ''LDA'' ''LDA'' ''AGU''
      32 10 0x707f 0x6039 1521 2 973 0]"

lemma chunk_53: "walk_forms kForms_53 kFields_53 kFieldPieces_53 kConstraints_53 1480 1663 972 1523 1706 973"
  by (simp add: kForms_53_def kFields_53_def kFieldPieces_53_def kConstraints_53_def walk_eval)

lemma length_kForms_53 [simp]: "length kForms_53 = 9"
  by (simp add: kForms_53_def)

end
