(* ===== verification/Isa_Table_09.thy ===== *)
theory Isa_Table_09
  imports Isa_Check
begin

text \<open>
  Forms 486 to 539 of the arrays of \<^verbatim>\<open>src/isa/generated_tables.cpp\<close> (lines 12880 to 13689), with their fields,
  pieces and constraints, in chunks of at most 9 forms, and the check of each chunk.
\<close>

definition kFieldPieces_54 :: "piece_desc list" where
  "kFieldPieces_54 = [
    mk_piece 7 5 0, mk_piece 15 5 0, mk_piece 20 12 0, mk_piece 7 5 0, mk_piece 15 5 0, mk_piece 20 12 0,
    mk_piece 7 5 0, mk_piece 27 5 0, mk_piece 15 5 0, mk_piece 20 5 0, mk_piece 7 5 0, mk_piece 27 5 0,
    mk_piece 15 5 0, mk_piece 20 5 0, mk_piece 7 5 0, mk_piece 15 5 0, mk_piece 20 5 0, mk_piece 7 5 0,
    mk_piece 15 5 0, mk_piece 20 5 0, mk_piece 15 5 0, mk_piece 20 5 0, mk_piece 27 5 0, mk_piece 7 5 0,
    mk_piece 15 5 0, mk_piece 20 5 0, mk_piece 27 5 0, mk_piece 7 5 0, mk_piece 15 5 0, mk_piece 20 5 0,
    mk_piece 27 5 0]"

definition kFields_54 :: "field_desc list" where
  "kFields_54 = [
    mk_field ''RegDst'' (-1) 5 1706 1, mk_field ''SrcL'' (-1) 5 1707 1, mk_field ''simm12'' 1 12 1708 1,
    mk_field ''RegDst'' (-1) 5 1709 1, mk_field ''SrcL'' (-1) 5 1710 1, mk_field ''simm12'' 1 12 1711 1,
    mk_field ''RegDst'' (-1) 5 1712 1, mk_field ''SrcD'' (-1) 5 1713 1, mk_field ''SrcL'' (-1) 5 1714 1,
    mk_field ''SrcR'' (-1) 5 1715 1, mk_field ''RegDst'' (-1) 5 1716 1, mk_field ''SrcD'' (-1) 5 1717 1,
    mk_field ''SrcL'' (-1) 5 1718 1, mk_field ''SrcR'' (-1) 5 1719 1, mk_field ''RegDst'' (-1) 5 1720 1,
    mk_field ''SrcL'' (-1) 5 1721 1, mk_field ''SrcR'' (-1) 5 1722 1, mk_field ''RegDst'' (-1) 5 1723 1,
    mk_field ''SrcL'' (-1) 5 1724 1, mk_field ''SrcR'' (-1) 5 1725 1, mk_field ''RegSrc0'' (-1) 5 1726 1,
    mk_field ''RegSrc1'' (-1) 5 1727 1, mk_field ''RegSrc2'' (-1) 5 1728 1,
    mk_field ''RegDst'' (-1) 5 1729 1, mk_field ''RegSrc0'' (-1) 5 1730 1,
    mk_field ''RegSrc1'' (-1) 5 1731 1, mk_field ''RegSrc2'' (-1) 5 1732 1,
    mk_field ''RegDst'' (-1) 5 1733 1, mk_field ''RegSrc0'' (-1) 5 1734 1,
    mk_field ''RegSrc1'' (-1) 5 1735 1, mk_field ''RegSrc2'' (-1) 5 1736 1]"

definition kConstraints_54 :: "constraint_desc list" where
  "kConstraints_54 = [
    mk_constraint ''RegSrc0'' Op_Ne 24 ''24'', mk_constraint ''RegSrc0'' Op_Ne 25 ''25'',
    mk_constraint ''RegSrc0'' Op_Ne 26 ''26'', mk_constraint ''RegSrc0'' Op_Ne 27 ''27'',
    mk_constraint ''RegSrc0'' Op_Ne 28 ''28'', mk_constraint ''RegSrc0'' Op_Ne 29 ''29'',
    mk_constraint ''RegSrc0'' Op_Ne 30 ''30'', mk_constraint ''RegSrc0'' Op_Ne 31 ''31'',
    mk_constraint ''RegSrc1'' Op_Ne 24 ''24'', mk_constraint ''RegSrc1'' Op_Ne 25 ''25'',
    mk_constraint ''RegSrc1'' Op_Ne 26 ''26'', mk_constraint ''RegSrc1'' Op_Ne 27 ''27'',
    mk_constraint ''RegSrc1'' Op_Ne 28 ''28'', mk_constraint ''RegSrc1'' Op_Ne 29 ''29'',
    mk_constraint ''RegSrc1'' Op_Ne 30 ''30'', mk_constraint ''RegSrc1'' Op_Ne 31 ''31'',
    mk_constraint ''RegSrc2'' Op_Ne 24 ''24'', mk_constraint ''RegSrc2'' Op_Ne 25 ''25'',
    mk_constraint ''RegSrc2'' Op_Ne 26 ''26'', mk_constraint ''RegSrc2'' Op_Ne 27 ''27'',
    mk_constraint ''RegSrc2'' Op_Ne 28 ''28'', mk_constraint ''RegSrc2'' Op_Ne 29 ''29'',
    mk_constraint ''RegSrc2'' Op_Ne 30 ''30'', mk_constraint ''RegSrc2'' Op_Ne 31 ''31'']"

definition kForms_54 :: "form_desc list" where
  "kForms_54 = [
    mk_form ''b435f946eb71'' ''LWUI'' ''lwui [SrcL, simm], ->{t, u, Rd}'' ''L32'' ''LDA/BASE_IMM'' ''LDA/BASE_IMM'' ''AGU''
      32 10 0x707f 0x6019 1523 3 973 0,
    mk_form ''1fcbb98df571'' ''LWUI.U'' ''lwui.u [SrcL, simm], ->{t, u, Rd}'' ''L32'' ''LDA/UNSCALED'' ''LDA/UNSCALED'' ''AGU''
      32 10 0x707f 0x6029 1526 3 973 0,
    mk_form ''6208e8e59303'' ''MADD'' ''madd SrcL, SrcR, SrcD, ->{t, u, Rd}'' ''L32'' ''ALU'' ''ALU'' ''ALU''
      32 12 0x600707f 0x6047 1529 4 973 0,
    mk_form ''9f922b15e674'' ''MADDW'' ''maddw SrcL, SrcR, SrcD, ->{t, u, Rd}'' ''L32'' ''ALU'' ''ALU'' ''ALU''
      32 12 0x600707f 0x7047 1533 4 973 0,
    mk_form ''9166468a1db7'' ''MAX'' ''max SrcL, SrcR, ->{t, u, Rd}'' ''L32'' ''ALU'' ''ALU'' ''ALU''
      32 17 0xfe00707f 0x405b 1537 3 973 0,
    mk_form ''b8789571339d'' ''MAXU'' ''maxu SrcL, SrcR, ->{t, u, Rd}'' ''L32'' ''ALU'' ''ALU'' ''ALU''
      32 17 0xfe00707f 0x800405b 1540 3 973 0,
    mk_form ''4fc4a803e995'' ''MCOPY'' ''MCOPY [RegSrc0, RegSrc1, RegSrc2]'' ''L32'' ''Bundle Split'' ''CMD'' ''CMD''
      32 17 0x6007fff 0x31 1543 3 973 24,
    mk_form ''d6af61213c20'' ''MCOPY.DL'' ''MCOPY.DL [RegSrc0, RegSrc1, RegSrc2], ->{t, u, Rd}'' ''L32'' ''Bundle Split'' ''CMD'' ''CMD''
      32 12 0x600707f 0x6001031 1546 4 997 0,
    mk_form ''e7a90ccbe4db'' ''MCOPY.DS'' ''MCOPY.DS [RegSrc0, RegSrc1, RegSrc2], ->{t, u, Rd}'' ''L32'' ''Bundle Split'' ''CMD'' ''CMD''
      32 12 0x600707f 0x2001031 1550 4 997 0]"

lemma chunk_54: "walk_forms kForms_54 kFields_54 kFieldPieces_54 kConstraints_54 1523 1706 973 1554 1737 997"
  by (simp add: kForms_54_def kFields_54_def kFieldPieces_54_def kConstraints_54_def walk_eval)

lemma length_kForms_54 [simp]: "length kForms_54 = 9"
  by (simp add: kForms_54_def)

definition kFieldPieces_55 :: "piece_desc list" where
  "kFieldPieces_55 = [
    mk_piece 7 5 0, mk_piece 15 5 0, mk_piece 20 5 0, mk_piece 7 5 0, mk_piece 15 5 0, mk_piece 20 5 0,
    mk_piece 15 5 0, mk_piece 20 5 0, mk_piece 27 5 0, mk_piece 7 5 0, mk_piece 15 5 0, mk_piece 20 5 0,
    mk_piece 7 5 0, mk_piece 15 5 0, mk_piece 20 5 0, mk_piece 7 5 0, mk_piece 15 5 0, mk_piece 20 5 0,
    mk_piece 7 5 0, mk_piece 15 5 0, mk_piece 20 5 0, mk_piece 7 5 0, mk_piece 15 5 0, mk_piece 20 5 0,
    mk_piece 25 2 0, mk_piece 27 5 0, mk_piece 7 5 0, mk_piece 15 5 0, mk_piece 20 12 0]"

definition kFields_55 :: "field_desc list" where
  "kFields_55 = [
    mk_field ''RegDst'' (-1) 5 1737 1, mk_field ''SrcL'' (-1) 5 1738 1, mk_field ''SrcR'' (-1) 5 1739 1,
    mk_field ''RegDst'' (-1) 5 1740 1, mk_field ''SrcL'' (-1) 5 1741 1, mk_field ''SrcR'' (-1) 5 1742 1,
    mk_field ''RegSrc0'' (-1) 5 1743 1, mk_field ''RegSrc1'' (-1) 5 1744 1,
    mk_field ''RegSrc2'' (-1) 5 1745 1, mk_field ''RegDst'' (-1) 5 1746 1, mk_field ''SrcL'' (-1) 5 1747 1,
    mk_field ''SrcR'' (-1) 5 1748 1, mk_field ''RegDst'' (-1) 5 1749 1, mk_field ''SrcL'' (-1) 5 1750 1,
    mk_field ''SrcR'' (-1) 5 1751 1, mk_field ''RegDst'' (-1) 5 1752 1, mk_field ''SrcL'' (-1) 5 1753 1,
    mk_field ''SrcR'' (-1) 5 1754 1, mk_field ''RegDst'' (-1) 5 1755 1, mk_field ''SrcL'' (-1) 5 1756 1,
    mk_field ''SrcR'' (-1) 5 1757 1, mk_field ''RegDst'' (-1) 5 1758 1, mk_field ''SrcL'' (-1) 5 1759 1,
    mk_field ''SrcR'' (-1) 5 1760 1, mk_field ''SrcRType'' (-1) 2 1761 1, mk_field ''shamt'' (-1) 5 1762 1,
    mk_field ''RegDst'' (-1) 5 1763 1, mk_field ''SrcL'' (-1) 5 1764 1, mk_field ''simm12'' 1 12 1765 1]"

definition kConstraints_55 :: "constraint_desc list" where
  "kConstraints_55 = [
    mk_constraint ''RegSrc0'' Op_Ne 24 ''24'', mk_constraint ''RegSrc0'' Op_Ne 25 ''25'',
    mk_constraint ''RegSrc0'' Op_Ne 26 ''26'', mk_constraint ''RegSrc0'' Op_Ne 27 ''27'',
    mk_constraint ''RegSrc0'' Op_Ne 28 ''28'', mk_constraint ''RegSrc0'' Op_Ne 29 ''29'',
    mk_constraint ''RegSrc0'' Op_Ne 30 ''30'', mk_constraint ''RegSrc0'' Op_Ne 31 ''31'',
    mk_constraint ''RegSrc1'' Op_Ne 24 ''24'', mk_constraint ''RegSrc1'' Op_Ne 25 ''25'',
    mk_constraint ''RegSrc1'' Op_Ne 26 ''26'', mk_constraint ''RegSrc1'' Op_Ne 27 ''27'',
    mk_constraint ''RegSrc1'' Op_Ne 28 ''28'', mk_constraint ''RegSrc1'' Op_Ne 29 ''29'',
    mk_constraint ''RegSrc1'' Op_Ne 30 ''30'', mk_constraint ''RegSrc1'' Op_Ne 31 ''31'',
    mk_constraint ''RegSrc2'' Op_Ne 24 ''24'', mk_constraint ''RegSrc2'' Op_Ne 25 ''25'',
    mk_constraint ''RegSrc2'' Op_Ne 26 ''26'', mk_constraint ''RegSrc2'' Op_Ne 27 ''27'',
    mk_constraint ''RegSrc2'' Op_Ne 28 ''28'', mk_constraint ''RegSrc2'' Op_Ne 29 ''29'',
    mk_constraint ''RegSrc2'' Op_Ne 30 ''30'', mk_constraint ''RegSrc2'' Op_Ne 31 ''31'']"

definition kForms_55 :: "form_desc list" where
  "kForms_55 = [
    mk_form ''25692b799267'' ''MIN'' ''min SrcL, SrcR, ->{t, u, Rd}'' ''L32'' ''ALU'' ''ALU'' ''ALU''
      32 17 0xfe00707f 0x505b 1554 3 997 0,
    mk_form ''9bdb71ef7b19'' ''MINU'' ''minu SrcL, SrcR, ->{t, u, Rd}'' ''L32'' ''ALU'' ''ALU'' ''ALU''
      32 17 0xfe00707f 0x800505b 1557 3 997 0,
    mk_form ''0b932f291932'' ''MSET'' ''MSET [RegSrc0=Destination, RegSrc1=FillByte, RegSrc2=LengthBytes]'' ''L32'' ''Bundle Split'' ''CMD'' ''CMD''
      32 17 0x6007fff 0x1031 1560 3 997 24,
    mk_form ''9f2affd8efb8'' ''MUL'' ''mul SrcL, SrcR, ->{t, u, Rd}'' ''L32'' ''ALU'' ''ALU'' ''ALU''
      32 17 0xfe00707f 0x47 1563 3 1021 0,
    mk_form ''10b9d1936631'' ''MULU'' ''mulu SrcL, SrcR, ->{t, u, Rd}'' ''L32'' ''ALU'' ''ALU'' ''ALU''
      32 17 0xfe00707f 0x1047 1566 3 1021 0,
    mk_form ''8f52b3d45e53'' ''MULUW'' ''muluw SrcL, SrcR, ->{t, u, Rd}'' ''L32'' ''ALU'' ''ALU'' ''ALU''
      32 17 0xfe00707f 0x3047 1569 3 1021 0,
    mk_form ''b90cb6a30a23'' ''MULW'' ''mulw SrcL, SrcR, ->{t, u, Rd}'' ''L32'' ''ALU'' ''ALU'' ''ALU''
      32 17 0xfe00707f 0x2047 1572 3 1021 0,
    mk_form ''a7fb80e78831'' ''OR'' ''or SrcL, SrcR<{.sw,.uw,.not}><<<shamt>, ->{t, u, Rd}'' ''L32'' ''ALU'' ''ALU'' ''ALU''
      32 10 0x707f 0x3005 1575 5 1021 0,
    mk_form ''413a6cc76e9a'' ''ORI'' ''ori SrcL, simm, ->{t, u, Rd}'' ''L32'' ''ALU'' ''ALU'' ''ALU''
      32 10 0x707f 0x3015 1580 3 1021 0]"

lemma chunk_55: "walk_forms kForms_55 kFields_55 kFieldPieces_55 kConstraints_55 1554 1737 997 1583 1766 1021"
  by (simp add: kForms_55_def kFields_55_def kFieldPieces_55_def kConstraints_55_def walk_eval)

lemma length_kForms_55 [simp]: "length kForms_55 = 9"
  by (simp add: kForms_55_def)

definition kFieldPieces_56 :: "piece_desc list" where
  "kFieldPieces_56 = [
    mk_piece 7 5 0, mk_piece 15 5 0, mk_piece 20 12 0, mk_piece 7 5 0, mk_piece 15 5 0, mk_piece 20 5 0,
    mk_piece 25 2 0, mk_piece 27 5 0, mk_piece 7 5 0, mk_piece 15 5 0, mk_piece 20 5 0, mk_piece 25 2 0,
    mk_piece 27 5 0, mk_piece 7 5 0, mk_piece 15 5 0, mk_piece 20 12 0, mk_piece 7 5 0, mk_piece 15 5 0,
    mk_piece 20 5 0, mk_piece 7 5 0, mk_piece 15 5 0, mk_piece 20 5 0, mk_piece 7 5 0, mk_piece 15 5 0,
    mk_piece 20 5 0, mk_piece 7 5 0, mk_piece 15 5 0, mk_piece 20 5 0, mk_piece 7 5 0, mk_piece 15 5 0,
    mk_piece 20 6 0, mk_piece 26 6 0]"

definition kFields_56 :: "field_desc list" where
  "kFields_56 = [
    mk_field ''RegDst'' (-1) 5 1766 1, mk_field ''SrcL'' (-1) 5 1767 1, mk_field ''simm12'' 1 12 1768 1,
    mk_field ''RegDst'' (-1) 5 1769 1, mk_field ''SrcL'' (-1) 5 1770 1, mk_field ''SrcR'' (-1) 5 1771 1,
    mk_field ''SrcRType'' (-1) 2 1772 1, mk_field ''shamt'' (-1) 5 1773 1, mk_field ''RegDst'' (-1) 5 1774 1,
    mk_field ''SrcL'' (-1) 5 1775 1, mk_field ''SrcR'' (-1) 5 1776 1, mk_field ''SrcRType'' (-1) 2 1777 1,
    mk_field ''shamt'' (-1) 5 1778 1, mk_field ''RegDst'' (-1) 5 1779 1, mk_field ''SrcL'' (-1) 5 1780 1,
    mk_field ''simm12'' 1 12 1781 1, mk_field ''RegDst'' (-1) 5 1782 1, mk_field ''SrcL'' (-1) 5 1783 1,
    mk_field ''SrcR'' (-1) 5 1784 1, mk_field ''RegDst'' (-1) 5 1785 1, mk_field ''SrcL'' (-1) 5 1786 1,
    mk_field ''SrcR'' (-1) 5 1787 1, mk_field ''RegDst'' (-1) 5 1788 1, mk_field ''SrcL'' (-1) 5 1789 1,
    mk_field ''SrcR'' (-1) 5 1790 1, mk_field ''RegDst'' (-1) 5 1791 1, mk_field ''SrcL'' (-1) 5 1792 1,
    mk_field ''SrcR'' (-1) 5 1793 1, mk_field ''RegDst'' (-1) 5 1794 1, mk_field ''SrcL'' (-1) 5 1795 1,
    mk_field ''imml'' (-1) 6 1796 1, mk_field ''immr'' (-1) 6 1797 1]"

definition kConstraints_56 :: "constraint_desc list" where
  "kConstraints_56 = [
    mk_constraint ''SrcRType'' Op_Ne 3 ''3'']"

definition kForms_56 :: "form_desc list" where
  "kForms_56 = [
    mk_form ''91608caf1ba6'' ''ORIW'' ''oriw SrcL, simm, ->{t, u, Rd}'' ''L32'' ''ALU'' ''ALU'' ''ALU''
      32 10 0x707f 0x3035 1583 3 1021 0,
    mk_form ''84f7ac2ed68f'' ''ORW'' ''orw SrcL, SrcR<{.sw,.uw,.not}><<<shamt>, ->{t, u, Rd}'' ''L32'' ''ALU'' ''ALU'' ''ALU''
      32 10 0x707f 0x3025 1586 5 1021 0,
    mk_form ''30e6dfe4e3ce'' ''PRF'' ''prf [SrcL, SrcR<{.sw,.uw}><<<shamt>]'' ''L32'' ''LDA/BASE_REG'' ''LDA/BASE_REG'' ''AGU''
      32 10 0x707f 0x7009 1591 5 1021 1,
    mk_form ''167b42882547'' ''PRFI.U'' ''prfi.u [SrcL, simm]'' ''L32'' ''LDA/UNSCALED'' ''LDA/UNSCALED'' ''AGU''
      32 10 0x707f 0x7029 1596 3 1022 0,
    mk_form ''0abbd6a3b865'' ''REM'' ''rem SrcL, SrcR, ->{t, u, Rd}'' ''L32'' ''ALU'' ''ALU'' ''ALU''
      32 17 0xfe00707f 0x4057 1599 3 1022 0,
    mk_form ''d7a5d1ebbbf5'' ''REMU'' ''remu SrcL, SrcR, ->{t, u, Rd}'' ''L32'' ''ALU'' ''ALU'' ''ALU''
      32 17 0xfe00707f 0x5057 1602 3 1022 0,
    mk_form ''f10ade2f5ccb'' ''REMUW'' ''remuw SrcL, SrcR, ->{t, u, Rd}'' ''L32'' ''ALU'' ''ALU'' ''ALU''
      32 17 0xfe00707f 0x7057 1605 3 1022 0,
    mk_form ''22659af46ec0'' ''REMW'' ''remw SrcL, SrcR, ->{t, u, Rd}'' ''L32'' ''ALU'' ''ALU'' ''ALU''
      32 17 0xfe00707f 0x6057 1608 3 1022 0,
    mk_form ''58badc109d49'' ''REV'' ''rev SrcL,  M, N, ->{t, u, Rd}'' ''L32'' ''ALU'' ''ALU'' ''ALU''
      32 10 0x707f 0x7067 1611 4 1022 0]"

lemma chunk_56: "walk_forms kForms_56 kFields_56 kFieldPieces_56 kConstraints_56 1583 1766 1021 1615 1798 1022"
  by (simp add: kForms_56_def kFields_56_def kFieldPieces_56_def kConstraints_56_def walk_eval)

lemma length_kForms_56 [simp]: "length kForms_56 = 9"
  by (simp add: kForms_56_def)

definition kFieldPieces_57 :: "piece_desc list" where
  "kFieldPieces_57 = [
    mk_piece 27 5 0, mk_piece 15 5 0, mk_piece 20 5 0, mk_piece 25 2 0, mk_piece 15 5 0, mk_piece 20 5 0,
    mk_piece 25 1 0, mk_piece 15 5 0, mk_piece 20 12 0, mk_piece 7 5 12, mk_piece 15 5 0, mk_piece 20 5 0,
    mk_piece 25 1 0, mk_piece 15 5 0, mk_piece 20 5 0, mk_piece 25 7 0, mk_piece 7 5 7, mk_piece 7 5 0,
    mk_piece 15 5 0, mk_piece 20 5 0, mk_piece 26 1 0, mk_piece 31 1 0, mk_piece 25 1 0, mk_piece 7 5 0,
    mk_piece 15 5 0, mk_piece 20 5 0, mk_piece 26 1 0, mk_piece 31 1 0, mk_piece 25 1 0, mk_piece 7 5 0,
    mk_piece 15 5 0, mk_piece 20 5 0, mk_piece 26 1 0, mk_piece 31 1 0, mk_piece 25 1 0, mk_piece 7 5 0,
    mk_piece 15 5 0, mk_piece 20 5 0, mk_piece 26 1 0, mk_piece 31 1 0, mk_piece 25 1 0]"

definition kFields_57 :: "field_desc list" where
  "kFields_57 = [
    mk_field ''SrcD'' (-1) 5 1798 1, mk_field ''SrcL'' (-1) 5 1799 1, mk_field ''SrcR'' (-1) 5 1800 1,
    mk_field ''SrcRType'' (-1) 2 1801 1, mk_field ''SrcL'' (-1) 5 1802 1, mk_field ''SrcR'' (-1) 5 1803 1,
    mk_field ''rl'' (-1) 1 1804 1, mk_field ''SrcL'' (-1) 5 1805 1, mk_field ''simm'' 1 17 1806 2,
    mk_field ''SrcL'' (-1) 5 1808 1, mk_field ''SrcR'' (-1) 5 1809 1, mk_field ''rl'' (-1) 1 1810 1,
    mk_field ''SrcL'' (-1) 5 1811 1, mk_field ''SrcR'' (-1) 5 1812 1, mk_field ''simm12'' 1 12 1813 2,
    mk_field ''RegDst'' (-1) 5 1815 1, mk_field ''SrcL'' (-1) 5 1816 1, mk_field ''SrcR'' (-1) 5 1817 1,
    mk_field ''aq'' (-1) 1 1818 1, mk_field ''far'' (-1) 1 1819 1, mk_field ''rl'' (-1) 1 1820 1,
    mk_field ''RegDst'' (-1) 5 1821 1, mk_field ''SrcL'' (-1) 5 1822 1, mk_field ''SrcR'' (-1) 5 1823 1,
    mk_field ''aq'' (-1) 1 1824 1, mk_field ''far'' (-1) 1 1825 1, mk_field ''rl'' (-1) 1 1826 1,
    mk_field ''RegDst'' (-1) 5 1827 1, mk_field ''SrcL'' (-1) 5 1828 1, mk_field ''SrcR'' (-1) 5 1829 1,
    mk_field ''aq'' (-1) 1 1830 1, mk_field ''far'' (-1) 1 1831 1, mk_field ''rl'' (-1) 1 1832 1,
    mk_field ''RegDst'' (-1) 5 1833 1, mk_field ''SrcL'' (-1) 5 1834 1, mk_field ''SrcR'' (-1) 5 1835 1,
    mk_field ''aq'' (-1) 1 1836 1, mk_field ''far'' (-1) 1 1837 1, mk_field ''rl'' (-1) 1 1838 1]"

definition kConstraints_57 :: "constraint_desc list" where
  "kConstraints_57 = [
    mk_constraint ''SrcRType'' Op_Ne 3 ''3'']"

definition kForms_57 :: "form_desc list" where
  "kForms_57 = [
    mk_form ''43c106ae3749'' ''SB'' ''sb SrcD, [SrcL, SrcR<{.sw,.uw}>]'' ''L32'' ''STA/BASE_REG'' ''STA/BASE_REG'' ''AGU''
      32 15 0x7fff 0x49 1615 4 1022 1,
    mk_form ''ad18d71fad23'' ''SB.ADD'' ''sb.add<.{rl}> [SrcL], SrcR'' ''L32'' ''AMO'' ''AMO'' ''AMO''
      32 21 0xfc007fff 0x8000300b 1619 3 1023 0,
    mk_form ''7625a9a24c59'' ''SB.PCR'' ''sb.pcr SrcL, [symbol]'' ''L32'' ''STA'' ''STA'' ''AGU''
      32 10 0x707f 0x69 1622 2 1023 0,
    mk_form ''229d7d0e2803'' ''SB.SUB'' ''sb.sub<.{rl}> [SrcL], SrcR'' ''L32'' ''AMO'' ''AMO'' ''AMO''
      32 21 0xfc007fff 0xc000300b 1624 3 1023 0,
    mk_form ''f3c6b796f0d9'' ''SBI'' ''sbi SrcL, [SrcR, simm]'' ''L32'' ''STA/BASE_IMM'' ''STA/BASE_IMM'' ''AGU''
      32 10 0x707f 0x59 1627 3 1023 0,
    mk_form ''baf609e1d5c3'' ''SC.B'' ''sc.b<.{aq, rl, f, aqrl, aqf, rlf, aqrlf}> SrcL, [SrcR], {->t, ->u, ->Rd}'' ''L32'' ''AMO'' ''AMO'' ''AMO''
      32 14 0x7800707f 0x100b 1630 6 1023 0,
    mk_form ''2e714149031c'' ''SC.D'' ''sc.d<.{aq, rl, f, aqrl, aqf, rlf, aqrlf}> SrcL, [SrcR], {->t, ->u, ->Rd}'' ''L32'' ''AMO'' ''AMO'' ''AMO''
      32 14 0x7800707f 0x1800100b 1636 6 1023 0,
    mk_form ''108941eabac6'' ''SC.H'' ''sc.h<.{aq, rl, f, aqrl, aqf, rlf, aqrlf}> SrcL, [SrcR], {->t, ->u, ->Rd}'' ''L32'' ''AMO'' ''AMO'' ''AMO''
      32 14 0x7800707f 0x800100b 1642 6 1023 0,
    mk_form ''14b238f02bfd'' ''SC.W'' ''sc.w<.{aq, rl, f, aqrl, aqf, rlf, aqrlf}> SrcL, [SrcR], {->t, ->u, ->Rd}'' ''L32'' ''AMO'' ''AMO'' ''AMO''
      32 14 0x7800707f 0x1000100b 1648 6 1023 0]"

lemma chunk_57: "walk_forms kForms_57 kFields_57 kFieldPieces_57 kConstraints_57 1615 1798 1022 1654 1839 1023"
  by (simp add: kForms_57_def kFields_57_def kFieldPieces_57_def kConstraints_57_def walk_eval)

lemma length_kForms_57 [simp]: "length kForms_57 = 9"
  by (simp add: kForms_57_def)

definition kFieldPieces_58 :: "piece_desc list" where
  "kFieldPieces_58 = [
    mk_piece 27 5 0, mk_piece 7 5 0, mk_piece 15 5 0, mk_piece 25 2 0, mk_piece 27 5 0, mk_piece 15 5 0,
    mk_piece 20 5 0, mk_piece 25 2 0, mk_piece 15 5 0, mk_piece 20 5 0, mk_piece 25 1 0, mk_piece 15 5 0,
    mk_piece 20 5 0, mk_piece 25 1 0, mk_piece 15 5 0, mk_piece 20 5 0, mk_piece 25 1 0, mk_piece 15 5 0,
    mk_piece 20 12 0, mk_piece 7 5 12, mk_piece 15 5 0, mk_piece 20 5 0, mk_piece 25 1 0, mk_piece 15 5 0,
    mk_piece 20 5 0, mk_piece 25 1 0, mk_piece 15 5 0, mk_piece 20 5 0, mk_piece 25 1 0]"

definition kFields_58 :: "field_desc list" where
  "kFields_58 = [
    mk_field ''DstType'' (-1) 5 1839 1, mk_field ''RegDst'' (-1) 5 1840 1, mk_field ''SrcL'' (-1) 5 1841 1,
    mk_field ''SrcType'' (-1) 2 1842 1, mk_field ''SrcD'' (-1) 5 1843 1, mk_field ''SrcL'' (-1) 5 1844 1,
    mk_field ''SrcR'' (-1) 5 1845 1, mk_field ''SrcRType'' (-1) 2 1846 1, mk_field ''SrcL'' (-1) 5 1847 1,
    mk_field ''SrcR'' (-1) 5 1848 1, mk_field ''rl'' (-1) 1 1849 1, mk_field ''SrcL'' (-1) 5 1850 1,
    mk_field ''SrcR'' (-1) 5 1851 1, mk_field ''rl'' (-1) 1 1852 1, mk_field ''SrcL'' (-1) 5 1853 1,
    mk_field ''SrcR'' (-1) 5 1854 1, mk_field ''rl'' (-1) 1 1855 1, mk_field ''SrcL'' (-1) 5 1856 1,
    mk_field ''simm'' 1 17 1857 2, mk_field ''SrcL'' (-1) 5 1859 1, mk_field ''SrcR'' (-1) 5 1860 1,
    mk_field ''rl'' (-1) 1 1861 1, mk_field ''SrcL'' (-1) 5 1862 1, mk_field ''SrcR'' (-1) 5 1863 1,
    mk_field ''rl'' (-1) 1 1864 1, mk_field ''SrcL'' (-1) 5 1865 1, mk_field ''SrcR'' (-1) 5 1866 1,
    mk_field ''rl'' (-1) 1 1867 1]"

definition kConstraints_58 :: "constraint_desc list" where
  "kConstraints_58 = [
    mk_constraint ''DstType'' Op_Ne 4 ''4'', mk_constraint ''DstType'' Op_Ne 5 ''5'',
    mk_constraint ''DstType'' Op_Ne 6 ''6'', mk_constraint ''DstType'' Op_Ne 7 ''7'',
    mk_constraint ''DstType'' Op_Ne 8 ''8'', mk_constraint ''DstType'' Op_Ne 9 ''9'',
    mk_constraint ''DstType'' Op_Ne 10 ''10'', mk_constraint ''DstType'' Op_Ne 11 ''11'',
    mk_constraint ''DstType'' Op_Ne 12 ''12'', mk_constraint ''DstType'' Op_Ne 13 ''13'',
    mk_constraint ''DstType'' Op_Ne 14 ''14'', mk_constraint ''DstType'' Op_Ne 15 ''15'',
    mk_constraint ''DstType'' Op_Ne 16 ''16'', mk_constraint ''DstType'' Op_Ne 17 ''17'',
    mk_constraint ''DstType'' Op_Ne 18 ''18'', mk_constraint ''DstType'' Op_Ne 19 ''19'',
    mk_constraint ''DstType'' Op_Ne 20 ''20'', mk_constraint ''DstType'' Op_Ne 21 ''21'',
    mk_constraint ''DstType'' Op_Ne 22 ''22'', mk_constraint ''DstType'' Op_Ne 23 ''23'',
    mk_constraint ''DstType'' Op_Ne 24 ''24'', mk_constraint ''DstType'' Op_Ne 25 ''25'',
    mk_constraint ''DstType'' Op_Ne 26 ''26'', mk_constraint ''DstType'' Op_Ne 27 ''27'',
    mk_constraint ''DstType'' Op_Ne 28 ''28'', mk_constraint ''DstType'' Op_Ne 29 ''29'',
    mk_constraint ''DstType'' Op_Ne 30 ''30'', mk_constraint ''DstType'' Op_Ne 31 ''31'',
    mk_constraint ''SrcRType'' Op_Ne 3 ''3'']"

definition kForms_58 :: "form_desc list" where
  "kForms_58 = [
    mk_form ''01861bbd5ef2'' ''SCVTF'' ''scvtf.{srcT2dstT} SrcL, ->{t, u, Rd}'' ''L32'' ''FSU'' ''FSU'' ''FSU''
      32 15 0x1f0707f 0x606b 1654 4 1023 28,
    mk_form ''9dbc40328653'' ''SD'' ''sd SrcD, [SrcL, SrcR<{.sw,.uw}><<3]'' ''L32'' ''STA/BASE_REG'' ''STA/BASE_REG'' ''AGU''
      32 15 0x7fff 0x3049 1658 4 1051 1,
    mk_form ''2a55ae1228bd'' ''SD.ADD'' ''sd.add<.{rl}> [SrcL], SrcR'' ''L32'' ''AMO'' ''AMO'' ''AMO''
      32 21 0xfc007fff 0x500b 1662 3 1052 0,
    mk_form ''71963e1769c2'' ''SD.AND'' ''sd.and<.{rl}> [SrcL], SrcR'' ''L32'' ''AMO'' ''AMO'' ''AMO''
      32 21 0xfc007fff 0x800500b 1665 3 1052 0,
    mk_form ''2a65eedfae0f'' ''SD.OR'' ''sd.or<.{rl}> [SrcL], SrcR'' ''L32'' ''AMO'' ''AMO'' ''AMO''
      32 21 0xfc007fff 0x1000500b 1668 3 1052 0,
    mk_form ''2340e0085413'' ''SD.PCR'' ''sd.pcr SrcL, [symbol]'' ''L32'' ''STA'' ''STA'' ''AGU''
      32 10 0x707f 0x3069 1671 2 1052 0,
    mk_form ''e59bf90b50c3'' ''SD.SMAX'' ''sd.smax<.{rl}> [SrcL], SrcR'' ''L32'' ''AMO'' ''AMO'' ''AMO''
      32 21 0xfc007fff 0x2000500b 1673 3 1052 0,
    mk_form ''188d93125032'' ''SD.SMIN'' ''sd.smin<.{rl}> [SrcL], SrcR'' ''L32'' ''AMO'' ''AMO'' ''AMO''
      32 21 0xfc007fff 0x2800500b 1676 3 1052 0,
    mk_form ''2b9cdb568661'' ''SD.SUB'' ''sd.sub<.{rl}> [SrcL], SrcR'' ''L32'' ''AMO'' ''AMO'' ''AMO''
      32 21 0xfc007fff 0x4000500b 1679 3 1052 0]"

lemma chunk_58: "walk_forms kForms_58 kFields_58 kFieldPieces_58 kConstraints_58 1654 1839 1023 1682 1868 1052"
  by (simp add: kForms_58_def kFields_58_def kFieldPieces_58_def kConstraints_58_def walk_eval)

lemma length_kForms_58 [simp]: "length kForms_58 = 9"
  by (simp add: kForms_58_def)

definition kFieldPieces_59 :: "piece_desc list" where
  "kFieldPieces_59 = [
    mk_piece 27 5 0, mk_piece 15 5 0, mk_piece 20 5 0, mk_piece 25 2 0, mk_piece 15 5 0, mk_piece 20 5 0,
    mk_piece 25 1 0, mk_piece 15 5 0, mk_piece 20 5 0, mk_piece 25 1 0, mk_piece 15 5 0, mk_piece 20 5 0,
    mk_piece 25 1 0, mk_piece 15 5 0, mk_piece 20 5 0, mk_piece 25 7 0, mk_piece 7 5 7, mk_piece 15 5 0,
    mk_piece 20 5 0, mk_piece 25 7 0, mk_piece 7 5 7, mk_piece 15 5 0, mk_piece 20 5 0, mk_piece 25 2 0,
    mk_piece 15 5 0, mk_piece 7 5 0, mk_piece 20 12 0, mk_piece 15 5 0, mk_piece 20 5 0, mk_piece 25 2 0]"

definition kFields_59 :: "field_desc list" where
  "kFields_59 = [
    mk_field ''SrcD'' (-1) 5 1868 1, mk_field ''SrcL'' (-1) 5 1869 1, mk_field ''SrcR'' (-1) 5 1870 1,
    mk_field ''SrcRType'' (-1) 2 1871 1, mk_field ''SrcL'' (-1) 5 1872 1, mk_field ''SrcR'' (-1) 5 1873 1,
    mk_field ''rl'' (-1) 1 1874 1, mk_field ''SrcL'' (-1) 5 1875 1, mk_field ''SrcR'' (-1) 5 1876 1,
    mk_field ''rl'' (-1) 1 1877 1, mk_field ''SrcL'' (-1) 5 1878 1, mk_field ''SrcR'' (-1) 5 1879 1,
    mk_field ''rl'' (-1) 1 1880 1, mk_field ''SrcL'' (-1) 5 1881 1, mk_field ''SrcR'' (-1) 5 1882 1,
    mk_field ''simm12'' 1 12 1883 2, mk_field ''SrcL'' (-1) 5 1885 1, mk_field ''SrcR'' (-1) 5 1886 1,
    mk_field ''simm12'' 1 12 1887 2, mk_field ''SrcL'' (-1) 5 1889 1, mk_field ''SrcR'' (-1) 5 1890 1,
    mk_field ''SrcRType'' (-1) 2 1891 1, mk_field ''SrcL'' (-1) 5 1892 1, mk_field ''shamt'' (-1) 5 1893 1,
    mk_field ''simm12'' 1 12 1894 1, mk_field ''SrcL'' (-1) 5 1895 1, mk_field ''SrcR'' (-1) 5 1896 1,
    mk_field ''SrcRType'' (-1) 2 1897 1]"

definition kConstraints_59 :: "constraint_desc list" where
  "kConstraints_59 = [
    mk_constraint ''SrcRType'' Op_Ne 3 ''3'']"

definition kForms_59 :: "form_desc list" where
  "kForms_59 = [
    mk_form ''1602c58c2031'' ''SD.U'' ''sd.u SrcD, [SrcL, SrcR<{.sw,.uw}>]'' ''L32'' ''STA/BASE_REG'' ''STA/BASE_REG'' ''AGU''
      32 15 0x7fff 0x7049 1682 4 1052 1,
    mk_form ''89c5ec42be68'' ''SD.UMAX'' ''sd.umax<.{rl}> [SrcL], SrcR'' ''L32'' ''AMO'' ''AMO'' ''AMO''
      32 21 0xfc007fff 0x3000500b 1686 3 1053 0,
    mk_form ''2388cbb378ac'' ''SD.UMIN'' ''sd.umin<.{rl}> [SrcL], SrcR'' ''L32'' ''AMO'' ''AMO'' ''AMO''
      32 21 0xfc007fff 0x3800500b 1689 3 1053 0,
    mk_form ''7655ceaf9497'' ''SD.XOR'' ''sd.xor<.{rl}> [SrcL], SrcR'' ''L32'' ''AMO'' ''AMO'' ''AMO''
      32 21 0xfc007fff 0x1800500b 1692 3 1053 0,
    mk_form ''fab563230a66'' ''SDI'' ''sdi SrcL, [SrcR, simm]'' ''L32'' ''STA/BASE_IMM'' ''STA/BASE_IMM'' ''AGU''
      32 10 0x707f 0x3059 1695 3 1053 0,
    mk_form ''cba5a4a04e7b'' ''SDI.U'' ''sdi.u SrcL, [SrcR, simm]'' ''L32'' ''STA/BASE_IMM'' ''STA/BASE_IMM'' ''AGU''
      32 10 0x707f 0x7059 1698 3 1053 0,
    mk_form ''90b4e93ef9d4'' ''SETC.AND'' ''setc.and SrcL, SrcR<.sw, .uw, .not>'' ''L32'' ''BRU'' ''BRU'' ''BRU''
      32 20 0xf8007fff 0x2065 1701 3 1053 0,
    mk_form ''32fe61c0559b'' ''SETC.ANDI'' ''setc.andi SrcL, simm'' ''L32'' ''BRU'' ''BRU'' ''BRU''
      32 10 0x707f 0x2075 1704 3 1053 0,
    mk_form ''fb06e1dddc5c'' ''SETC.EQ'' ''setc.eq SrcL, SrcR<{.sw, .uw}>'' ''L32'' ''BRU'' ''BRU'' ''BRU''
      32 20 0xf8007fff 0x65 1707 3 1053 0]"

lemma chunk_59: "walk_forms kForms_59 kFields_59 kFieldPieces_59 kConstraints_59 1682 1868 1052 1710 1898 1053"
  by (simp add: kForms_59_def kFields_59_def kFieldPieces_59_def kConstraints_59_def walk_eval)

lemma length_kForms_59 [simp]: "length kForms_59 = 9"
  by (simp add: kForms_59_def)

end
