(* ===== verification/Isa_Table_10.thy ===== *)
theory Isa_Table_10
  imports Isa_Check
begin

text \<open>
  Forms 540 to 593 of the arrays of \<^verbatim>\<open>src/isa/generated_tables.cpp\<close> (lines 13690 to 14499), with their fields,
  pieces and constraints, in chunks of at most 9 forms, and the check of each chunk.
\<close>

definition kFieldPieces_60 :: "piece_desc list" where
  "kFieldPieces_60 = [
    mk_piece 15 5 0, mk_piece 7 5 0, mk_piece 20 12 0, mk_piece 15 5 0, mk_piece 20 5 0, mk_piece 25 2 0,
    mk_piece 15 5 0, mk_piece 7 5 0, mk_piece 20 12 0, mk_piece 15 5 0, mk_piece 20 5 0, mk_piece 25 2 0,
    mk_piece 15 5 0, mk_piece 7 5 0, mk_piece 20 12 0, mk_piece 15 5 0, mk_piece 20 5 0, mk_piece 25 2 0,
    mk_piece 15 5 0, mk_piece 7 5 0, mk_piece 20 12 0, mk_piece 15 5 0, mk_piece 20 5 0, mk_piece 25 2 0,
    mk_piece 15 5 0, mk_piece 7 5 0, mk_piece 20 12 0]"

definition kFields_60 :: "field_desc list" where
  "kFields_60 = [
    mk_field ''SrcL'' (-1) 5 1898 1, mk_field ''shamt'' (-1) 5 1899 1, mk_field ''simm12'' 1 12 1900 1,
    mk_field ''SrcL'' (-1) 5 1901 1, mk_field ''SrcR'' (-1) 5 1902 1, mk_field ''SrcRType'' (-1) 2 1903 1,
    mk_field ''SrcL'' (-1) 5 1904 1, mk_field ''shamt'' (-1) 5 1905 1, mk_field ''simm12'' 1 12 1906 1,
    mk_field ''SrcL'' (-1) 5 1907 1, mk_field ''SrcR'' (-1) 5 1908 1, mk_field ''SrcRType'' (-1) 2 1909 1,
    mk_field ''SrcL'' (-1) 5 1910 1, mk_field ''shamt'' (-1) 5 1911 1, mk_field ''uimm12'' 0 12 1912 1,
    mk_field ''SrcL'' (-1) 5 1913 1, mk_field ''SrcR'' (-1) 5 1914 1, mk_field ''SrcRType'' (-1) 2 1915 1,
    mk_field ''SrcL'' (-1) 5 1916 1, mk_field ''shamt'' (-1) 5 1917 1, mk_field ''simm12'' 1 12 1918 1,
    mk_field ''SrcL'' (-1) 5 1919 1, mk_field ''SrcR'' (-1) 5 1920 1, mk_field ''SrcRType'' (-1) 2 1921 1,
    mk_field ''SrcL'' (-1) 5 1922 1, mk_field ''shamt'' (-1) 5 1923 1, mk_field ''uimm12'' 0 12 1924 1]"

definition kConstraints_60 :: "constraint_desc list" where
  "kConstraints_60 = []"

definition kForms_60 :: "form_desc list" where
  "kForms_60 = [
    mk_form ''5b2366a4e55d'' ''SETC.EQI'' ''setc.eqi SrcL, simm'' ''L32'' ''BRU'' ''BRU'' ''BRU''
      32 10 0x707f 0x75 1710 3 1053 0,
    mk_form ''56a2b539b072'' ''SETC.GE'' ''setc.ge SrcL, SrcR<{.sw, .uw}>'' ''L32'' ''BRU'' ''BRU'' ''BRU''
      32 20 0xf8007fff 0x5065 1713 3 1053 0,
    mk_form ''c3f4fdc4adcc'' ''SETC.GEI'' ''setc.gei SrcL, simm'' ''L32'' ''BRU'' ''BRU'' ''BRU''
      32 10 0x707f 0x5075 1716 3 1053 0,
    mk_form ''494f1f79099e'' ''SETC.GEU'' ''setc.geu SrcL, SrcR<{.sw, .uw}>'' ''L32'' ''BRU'' ''BRU'' ''BRU''
      32 20 0xf8007fff 0x7065 1719 3 1053 0,
    mk_form ''6c34bc4ad314'' ''SETC.GEUI'' ''setc.geui SrcL, uimm'' ''L32'' ''BRU'' ''BRU'' ''BRU''
      32 10 0x707f 0x7075 1722 3 1053 0,
    mk_form ''10de99f3ad6a'' ''SETC.LT'' ''setc.lt SrcL, SrcR<{.sw, .uw}>'' ''L32'' ''BRU'' ''BRU'' ''BRU''
      32 20 0xf8007fff 0x4065 1725 3 1053 0,
    mk_form ''89d74d948b74'' ''SETC.LTI'' ''setc.lti SrcL, simm'' ''L32'' ''BRU'' ''BRU'' ''BRU''
      32 10 0x707f 0x4075 1728 3 1053 0,
    mk_form ''4a1ff65ecafb'' ''SETC.LTU'' ''setc.ltu SrcL, SrcR<{.sw, .uw}>'' ''L32'' ''BRU'' ''BRU'' ''BRU''
      32 20 0xf8007fff 0x6065 1731 3 1053 0,
    mk_form ''7908d25901c6'' ''SETC.LTUI'' ''setc.ltui SrcL, uimm'' ''L32'' ''BRU'' ''BRU'' ''BRU''
      32 10 0x707f 0x6075 1734 3 1053 0]"

lemma chunk_60: "walk_forms kForms_60 kFields_60 kFieldPieces_60 kConstraints_60 1710 1898 1053 1737 1925 1053"
  by (simp add: kForms_60_def kFields_60_def kFieldPieces_60_def kConstraints_60_def walk_eval)

lemma length_kForms_60 [simp]: "length kForms_60 = 9"
  by (simp add: kForms_60_def)

definition kFieldPieces_61 :: "piece_desc list" where
  "kFieldPieces_61 = [
    mk_piece 15 5 0, mk_piece 20 5 0, mk_piece 25 2 0, mk_piece 15 5 0, mk_piece 7 5 0, mk_piece 20 12 0,
    mk_piece 15 5 0, mk_piece 20 5 0, mk_piece 25 2 0, mk_piece 15 5 0, mk_piece 7 5 0, mk_piece 20 12 0,
    mk_piece 15 5 0, mk_piece 12 20 0, mk_piece 27 5 0, mk_piece 15 5 0, mk_piece 20 5 0, mk_piece 25 2 0,
    mk_piece 15 5 0, mk_piece 20 5 0, mk_piece 25 1 0, mk_piece 15 5 0, mk_piece 20 12 0, mk_piece 7 5 12]"

definition kFields_61 :: "field_desc list" where
  "kFields_61 = [
    mk_field ''SrcL'' (-1) 5 1925 1, mk_field ''SrcR'' (-1) 5 1926 1, mk_field ''SrcRType'' (-1) 2 1927 1,
    mk_field ''SrcL'' (-1) 5 1928 1, mk_field ''shamt'' (-1) 5 1929 1, mk_field ''simm12'' 1 12 1930 1,
    mk_field ''SrcL'' (-1) 5 1931 1, mk_field ''SrcR'' (-1) 5 1932 1, mk_field ''SrcRType'' (-1) 2 1933 1,
    mk_field ''SrcL'' (-1) 5 1934 1, mk_field ''shamt'' (-1) 5 1935 1, mk_field ''simm12'' 1 12 1936 1,
    mk_field ''SrcL'' (-1) 5 1937 1, mk_field ''imm20'' (-1) 20 1938 1, mk_field ''SrcD'' (-1) 5 1939 1,
    mk_field ''SrcL'' (-1) 5 1940 1, mk_field ''SrcR'' (-1) 5 1941 1, mk_field ''SrcRType'' (-1) 2 1942 1,
    mk_field ''SrcL'' (-1) 5 1943 1, mk_field ''SrcR'' (-1) 5 1944 1, mk_field ''rl'' (-1) 1 1945 1,
    mk_field ''SrcL'' (-1) 5 1946 1, mk_field ''simm'' 1 17 1947 2]"

definition kConstraints_61 :: "constraint_desc list" where
  "kConstraints_61 = [
    mk_constraint ''SrcRType'' Op_Ne 3 ''3'']"

definition kForms_61 :: "form_desc list" where
  "kForms_61 = [
    mk_form ''77576a5c690c'' ''SETC.NE'' ''setc.ne SrcL, SrcR<{.sw, .uw}>'' ''L32'' ''BRU'' ''BRU'' ''BRU''
      32 20 0xf8007fff 0x1065 1737 3 1053 0,
    mk_form ''fa01e973ab76'' ''SETC.NEI'' ''setc.nei SrcL, simm'' ''L32'' ''BRU'' ''BRU'' ''BRU''
      32 10 0x707f 0x1075 1740 3 1053 0,
    mk_form ''740134c709d2'' ''SETC.OR'' ''setc.or SrcL, SrcR<.sw, .uw, .not>'' ''L32'' ''BRU'' ''BRU'' ''BRU''
      32 20 0xf8007fff 0x3065 1743 3 1053 0,
    mk_form ''183dc15fad54'' ''SETC.ORI'' ''setc.ori SrcL, simm'' ''L32'' ''BRU'' ''BRU'' ''BRU''
      32 10 0x707f 0x3075 1746 3 1053 0,
    mk_form ''c02656d3a2b8'' ''SETC.TGT'' ''setc.tgt SrcL'' ''L32'' ''SYS'' ''SYS'' ''SYS''
      32 27 0xfff07fff 0x403b 1749 1 1053 0,
    mk_form ''72003dcf3b59'' ''SETRET'' ''setret uimm, ->Ra'' ''L32'' ''BRU'' ''BRU'' ''BRU''
      32 12 0xfff 0x507 1750 1 1053 0,
    mk_form ''bc7d4a7dea28'' ''SH'' ''sh SrcD, [SrcL, SrcR<{.sw,.uw}><<1]'' ''L32'' ''STA/BASE_REG'' ''STA/BASE_REG'' ''AGU''
      32 15 0x7fff 0x1049 1751 4 1053 1,
    mk_form ''95d11aed3630'' ''SH.ADD'' ''sh.add<.{rl}> [SrcL], SrcR'' ''L32'' ''AMO'' ''AMO'' ''AMO''
      32 21 0xfc007fff 0x8000500b 1755 3 1054 0,
    mk_form ''14ba505eb3c2'' ''SH.PCR'' ''sh.pcr SrcL, [symbol]'' ''L32'' ''STA'' ''STA'' ''AGU''
      32 10 0x707f 0x1069 1758 2 1054 0]"

lemma chunk_61: "walk_forms kForms_61 kFields_61 kFieldPieces_61 kConstraints_61 1737 1925 1053 1760 1949 1054"
  by (simp add: kForms_61_def kFields_61_def kFieldPieces_61_def kConstraints_61_def walk_eval)

lemma length_kForms_61 [simp]: "length kForms_61 = 9"
  by (simp add: kForms_61_def)

definition kFieldPieces_62 :: "piece_desc list" where
  "kFieldPieces_62 = [
    mk_piece 15 5 0, mk_piece 20 5 0, mk_piece 25 1 0, mk_piece 27 5 0, mk_piece 15 5 0, mk_piece 20 5 0,
    mk_piece 25 2 0, mk_piece 15 5 0, mk_piece 20 5 0, mk_piece 25 7 0, mk_piece 7 5 7, mk_piece 15 5 0,
    mk_piece 20 5 0, mk_piece 25 7 0, mk_piece 7 5 7, mk_piece 7 5 0, mk_piece 15 5 0, mk_piece 20 5 0,
    mk_piece 7 5 0, mk_piece 15 5 0, mk_piece 20 6 0, mk_piece 7 5 0, mk_piece 15 5 0, mk_piece 20 5 0,
    mk_piece 7 5 0, mk_piece 15 5 0, mk_piece 20 5 0, mk_piece 7 5 0, mk_piece 15 5 0, mk_piece 20 5 0]"

definition kFields_62 :: "field_desc list" where
  "kFields_62 = [
    mk_field ''SrcL'' (-1) 5 1949 1, mk_field ''SrcR'' (-1) 5 1950 1, mk_field ''rl'' (-1) 1 1951 1,
    mk_field ''SrcD'' (-1) 5 1952 1, mk_field ''SrcL'' (-1) 5 1953 1, mk_field ''SrcR'' (-1) 5 1954 1,
    mk_field ''SrcRType'' (-1) 2 1955 1, mk_field ''SrcL'' (-1) 5 1956 1, mk_field ''SrcR'' (-1) 5 1957 1,
    mk_field ''simm12'' 1 12 1958 2, mk_field ''SrcL'' (-1) 5 1960 1, mk_field ''SrcR'' (-1) 5 1961 1,
    mk_field ''simm12'' 1 12 1962 2, mk_field ''RegDst'' (-1) 5 1964 1, mk_field ''SrcL'' (-1) 5 1965 1,
    mk_field ''SrcR'' (-1) 5 1966 1, mk_field ''RegDst'' (-1) 5 1967 1, mk_field ''SrcL'' (-1) 5 1968 1,
    mk_field ''shamt'' (-1) 6 1969 1, mk_field ''RegDst'' (-1) 5 1970 1, mk_field ''SrcL'' (-1) 5 1971 1,
    mk_field ''shamt'' (-1) 5 1972 1, mk_field ''RegDst'' (-1) 5 1973 1, mk_field ''SrcL'' (-1) 5 1974 1,
    mk_field ''SrcR'' (-1) 5 1975 1, mk_field ''RegDst'' (-1) 5 1976 1, mk_field ''SrcL'' (-1) 5 1977 1,
    mk_field ''SrcR'' (-1) 5 1978 1]"

definition kConstraints_62 :: "constraint_desc list" where
  "kConstraints_62 = [
    mk_constraint ''SrcRType'' Op_Ne 3 ''3'']"

definition kForms_62 :: "form_desc list" where
  "kForms_62 = [
    mk_form ''a50037f3c97d'' ''SH.SUB'' ''sh.sub<.{rl}> [SrcL], SrcR'' ''L32'' ''AMO'' ''AMO'' ''AMO''
      32 21 0xfc007fff 0xc000500b 1760 3 1054 0,
    mk_form ''fa87afbf8f24'' ''SH.U'' ''sh.u SrcD, [SrcL, SrcR<{.sw,.uw}>]'' ''L32'' ''STA/BASE_REG'' ''STA/BASE_REG'' ''AGU''
      32 15 0x7fff 0x5049 1763 4 1054 1,
    mk_form ''21351c202204'' ''SHI'' ''shi SrcL, [SrcR, simm]'' ''L32'' ''STA/BASE_IMM'' ''STA/BASE_IMM'' ''AGU''
      32 10 0x707f 0x1059 1767 3 1055 0,
    mk_form ''caaf3ed72a8f'' ''SHI.U'' ''shi.u SrcL, [SrcR, simm]'' ''L32'' ''STA/BASE_IMM'' ''STA/BASE_IMM'' ''AGU''
      32 10 0x707f 0x5059 1770 3 1055 0,
    mk_form ''a100b8961e21'' ''SLL'' ''sll SrcL, SrcR, ->{t, u, Rd}'' ''L32'' ''ALU'' ''ALU'' ''ALU''
      32 17 0xfe00707f 0x7005 1773 3 1055 0,
    mk_form ''b43ca2454e3a'' ''SLLI'' ''slli SrcL, shamt, ->{t, u, Rd}'' ''L32'' ''ALU'' ''ALU'' ''ALU''
      32 16 0xfc00707f 0x7015 1776 3 1055 0,
    mk_form ''c6bf463b97ae'' ''SLLIW'' ''slliw SrcL, shamt, ->{t, u, Rd}'' ''L32'' ''ALU'' ''ALU'' ''ALU''
      32 17 0xfe00707f 0x7035 1779 3 1055 0,
    mk_form ''a37b63c16b27'' ''SLLW'' ''sllw SrcL, SrcR, ->{t, u, Rd}'' ''L32'' ''ALU'' ''ALU'' ''ALU''
      32 17 0xfe00707f 0x7025 1782 3 1055 0,
    mk_form ''ba03eea6386b'' ''SRA'' ''sra SrcL, SrcR, ->{t, u, Rd}'' ''L32'' ''ALU'' ''ALU'' ''ALU''
      32 17 0xfe00707f 0x6005 1785 3 1055 0]"

lemma chunk_62: "walk_forms kForms_62 kFields_62 kFieldPieces_62 kConstraints_62 1760 1949 1054 1788 1979 1055"
  by (simp add: kForms_62_def kFields_62_def kFieldPieces_62_def kConstraints_62_def walk_eval)

lemma length_kForms_62 [simp]: "length kForms_62 = 9"
  by (simp add: kForms_62_def)

definition kFieldPieces_63 :: "piece_desc list" where
  "kFieldPieces_63 = [
    mk_piece 7 5 0, mk_piece 15 5 0, mk_piece 20 6 0, mk_piece 7 5 0, mk_piece 15 5 0, mk_piece 20 5 0,
    mk_piece 7 5 0, mk_piece 15 5 0, mk_piece 20 5 0, mk_piece 7 5 0, mk_piece 15 5 0, mk_piece 20 5 0,
    mk_piece 7 5 0, mk_piece 15 5 0, mk_piece 20 6 0, mk_piece 7 5 0, mk_piece 15 5 0, mk_piece 20 5 0,
    mk_piece 7 5 0, mk_piece 15 5 0, mk_piece 20 5 0, mk_piece 7 5 0, mk_piece 20 12 0, mk_piece 20 12 0,
    mk_piece 15 5 0]"

definition kFields_63 :: "field_desc list" where
  "kFields_63 = [
    mk_field ''RegDst'' (-1) 5 1979 1, mk_field ''SrcL'' (-1) 5 1980 1, mk_field ''shamt'' (-1) 6 1981 1,
    mk_field ''RegDst'' (-1) 5 1982 1, mk_field ''SrcL'' (-1) 5 1983 1, mk_field ''shamt'' (-1) 5 1984 1,
    mk_field ''RegDst'' (-1) 5 1985 1, mk_field ''SrcL'' (-1) 5 1986 1, mk_field ''SrcR'' (-1) 5 1987 1,
    mk_field ''RegDst'' (-1) 5 1988 1, mk_field ''SrcL'' (-1) 5 1989 1, mk_field ''SrcR'' (-1) 5 1990 1,
    mk_field ''RegDst'' (-1) 5 1991 1, mk_field ''SrcL'' (-1) 5 1992 1, mk_field ''shamt'' (-1) 6 1993 1,
    mk_field ''RegDst'' (-1) 5 1994 1, mk_field ''SrcL'' (-1) 5 1995 1, mk_field ''shamt'' (-1) 5 1996 1,
    mk_field ''RegDst'' (-1) 5 1997 1, mk_field ''SrcL'' (-1) 5 1998 1, mk_field ''SrcR'' (-1) 5 1999 1,
    mk_field ''RegDst'' (-1) 5 2000 1, mk_field ''SSR_ID'' (-1) 12 2001 1,
    mk_field ''SSR_ID'' (-1) 12 2002 1, mk_field ''SrcL'' (-1) 5 2003 1]"

definition kConstraints_63 :: "constraint_desc list" where
  "kConstraints_63 = []"

definition kForms_63 :: "form_desc list" where
  "kForms_63 = [
    mk_form ''e471ea84d4fd'' ''SRAI'' ''srai SrcL, shamt, ->{t, u, Rd}'' ''L32'' ''ALU'' ''ALU'' ''ALU''
      32 16 0xfc00707f 0x6015 1788 3 1055 0,
    mk_form ''db04a6299504'' ''SRAIW'' ''sraiw SrcL, shamt, ->{t, u, Rd}'' ''L32'' ''ALU'' ''ALU'' ''ALU''
      32 17 0xfe00707f 0x6035 1791 3 1055 0,
    mk_form ''5baf37f34241'' ''SRAW'' ''sraw SrcL, SrcR, ->{t, u, Rd}'' ''L32'' ''ALU'' ''ALU'' ''ALU''
      32 17 0xfe00707f 0x6025 1794 3 1055 0,
    mk_form ''5cfca42c59f3'' ''SRL'' ''srl SrcL, SrcR, ->{t, u, Rd}'' ''L32'' ''ALU'' ''ALU'' ''ALU''
      32 17 0xfe00707f 0x5005 1797 3 1055 0,
    mk_form ''dd29ca058cfe'' ''SRLI'' ''srli SrcL, shamt, ->{t, u, Rd}'' ''L32'' ''ALU'' ''ALU'' ''ALU''
      32 16 0xfc00707f 0x5015 1800 3 1055 0,
    mk_form ''ef4aa650f46e'' ''SRLIW'' ''srliw SrcL, shamt, ->{t, u, Rd}'' ''L32'' ''ALU'' ''ALU'' ''ALU''
      32 17 0xfe00707f 0x5035 1803 3 1055 0,
    mk_form ''2c6458b2aadb'' ''SRLW'' ''srlw SrcL, SrcR, ->{t, u, Rd}'' ''L32'' ''ALU'' ''ALU'' ''ALU''
      32 17 0xfe00707f 0x5025 1806 3 1055 0,
    mk_form ''959957ab6b75'' ''SSRGET'' ''ssrget SSR_ID, ->{t, u, Rd}'' ''L32'' ''SYS'' ''SYS'' ''SYS''
      32 15 0xff07f 0x3b 1809 2 1055 0,
    mk_form ''4dd3b71802c6'' ''SSRSET'' ''ssrset SrcL, SSR_ID'' ''L32'' ''SYS'' ''SYS'' ''SYS''
      32 15 0x7fff 0x103b 1811 2 1055 0]"

lemma chunk_63: "walk_forms kForms_63 kFields_63 kFieldPieces_63 kConstraints_63 1788 1979 1055 1813 2004 1055"
  by (simp add: kForms_63_def kFields_63_def kFieldPieces_63_def kConstraints_63_def walk_eval)

lemma length_kForms_63 [simp]: "length kForms_63 = 9"
  by (simp add: kForms_63_def)

definition kFieldPieces_64 :: "piece_desc list" where
  "kFieldPieces_64 = [
    mk_piece 7 5 0, mk_piece 20 12 0, mk_piece 15 5 0, mk_piece 7 5 0, mk_piece 15 5 0, mk_piece 20 5 0,
    mk_piece 25 2 0, mk_piece 27 5 0, mk_piece 7 5 0, mk_piece 15 5 0, mk_piece 20 12 0, mk_piece 7 5 0,
    mk_piece 15 5 0, mk_piece 20 12 0, mk_piece 7 5 0, mk_piece 15 5 0, mk_piece 20 5 0, mk_piece 25 2 0,
    mk_piece 27 5 0, mk_piece 27 5 0, mk_piece 15 5 0, mk_piece 20 5 0, mk_piece 25 2 0, mk_piece 15 5 0,
    mk_piece 20 5 0, mk_piece 25 1 0, mk_piece 15 5 0, mk_piece 20 5 0, mk_piece 25 1 0, mk_piece 15 5 0,
    mk_piece 20 5 0, mk_piece 25 1 0]"

definition kFields_64 :: "field_desc list" where
  "kFields_64 = [
    mk_field ''RegDst'' (-1) 5 2004 1, mk_field ''SSR_ID'' (-1) 12 2005 1, mk_field ''SrcL'' (-1) 5 2006 1,
    mk_field ''RegDst'' (-1) 5 2007 1, mk_field ''SrcL'' (-1) 5 2008 1, mk_field ''SrcR'' (-1) 5 2009 1,
    mk_field ''SrcRType'' (-1) 2 2010 1, mk_field ''shamt'' (-1) 5 2011 1, mk_field ''RegDst'' (-1) 5 2012 1,
    mk_field ''SrcL'' (-1) 5 2013 1, mk_field ''uimm12'' 0 12 2014 1, mk_field ''RegDst'' (-1) 5 2015 1,
    mk_field ''SrcL'' (-1) 5 2016 1, mk_field ''uimm12'' 0 12 2017 1, mk_field ''RegDst'' (-1) 5 2018 1,
    mk_field ''SrcL'' (-1) 5 2019 1, mk_field ''SrcR'' (-1) 5 2020 1, mk_field ''SrcRType'' (-1) 2 2021 1,
    mk_field ''shamt'' (-1) 5 2022 1, mk_field ''SrcD'' (-1) 5 2023 1, mk_field ''SrcL'' (-1) 5 2024 1,
    mk_field ''SrcR'' (-1) 5 2025 1, mk_field ''SrcRType'' (-1) 2 2026 1, mk_field ''SrcL'' (-1) 5 2027 1,
    mk_field ''SrcR'' (-1) 5 2028 1, mk_field ''rl'' (-1) 1 2029 1, mk_field ''SrcL'' (-1) 5 2030 1,
    mk_field ''SrcR'' (-1) 5 2031 1, mk_field ''rl'' (-1) 1 2032 1, mk_field ''SrcL'' (-1) 5 2033 1,
    mk_field ''SrcR'' (-1) 5 2034 1, mk_field ''rl'' (-1) 1 2035 1]"

definition kConstraints_64 :: "constraint_desc list" where
  "kConstraints_64 = [
    mk_constraint ''SrcRType'' Op_Ne 3 ''3'']"

definition kForms_64 :: "form_desc list" where
  "kForms_64 = [
    mk_form ''a01c7e2c7c29'' ''SSRSWAP'' ''ssrswap SrcL, SSR_ID, ->{t, u, Rd}'' ''L32'' ''SYS'' ''SYS'' ''SYS''
      32 10 0x707f 0x203b 1813 3 1055 0,
    mk_form ''af383d4a2b42'' ''SUB'' ''sub SrcL, SrcR<{.sw,.uw,.neg}><<<shamt>, ->{t, u, Rd}'' ''L32'' ''ALU'' ''ALU'' ''ALU''
      32 10 0x707f 0x1005 1816 5 1055 0,
    mk_form ''a0c87f5e7ac4'' ''SUBI'' ''subi SrcL, uimm, ->{t, u, Rd}'' ''L32'' ''ALU'' ''ALU'' ''ALU''
      32 10 0x707f 0x1015 1821 3 1055 0,
    mk_form ''51019ff77d0a'' ''SUBIW'' ''subiw SrcL, uimm, ->{t, u, Rd}'' ''L32'' ''ALU'' ''ALU'' ''ALU''
      32 10 0x707f 0x1035 1824 3 1055 0,
    mk_form ''3a8d45653c98'' ''SUBW'' ''subw SrcL, SrcR<{.sw,.uw,.neg}><<<shamt>, ->{t, u, Rd}'' ''L32'' ''ALU'' ''ALU'' ''ALU''
      32 10 0x707f 0x1025 1827 5 1055 0,
    mk_form ''28ad317b1b41'' ''SW'' ''sw SrcD, [SrcL, SrcR<{.sw,.uw}><<2]'' ''L32'' ''STA/BASE_REG'' ''STA/BASE_REG'' ''AGU''
      32 15 0x7fff 0x2049 1832 4 1055 1,
    mk_form ''3dca755552cb'' ''SW.ADD'' ''sw.add<.{rl}> [SrcL], SrcR'' ''L32'' ''AMO'' ''AMO'' ''AMO''
      32 21 0xfc007fff 0x300b 1836 3 1056 0,
    mk_form ''7ef0872d5502'' ''SW.AND'' ''sw.and<.{rl}> [SrcL], SrcR'' ''L32'' ''AMO'' ''AMO'' ''AMO''
      32 21 0xfc007fff 0x800300b 1839 3 1056 0,
    mk_form ''354579538c4e'' ''SW.OR'' ''sw.or<.{rl}> [SrcL], SrcR'' ''L32'' ''AMO'' ''AMO'' ''AMO''
      32 21 0xfc007fff 0x1000300b 1842 3 1056 0]"

lemma chunk_64: "walk_forms kForms_64 kFields_64 kFieldPieces_64 kConstraints_64 1813 2004 1055 1845 2036 1056"
  by (simp add: kForms_64_def kFields_64_def kFieldPieces_64_def kConstraints_64_def walk_eval)

lemma length_kForms_64 [simp]: "length kForms_64 = 9"
  by (simp add: kForms_64_def)

definition kFieldPieces_65 :: "piece_desc list" where
  "kFieldPieces_65 = [
    mk_piece 15 5 0, mk_piece 20 12 0, mk_piece 7 5 12, mk_piece 15 5 0, mk_piece 20 5 0, mk_piece 25 1 0,
    mk_piece 15 5 0, mk_piece 20 5 0, mk_piece 25 1 0, mk_piece 15 5 0, mk_piece 20 5 0, mk_piece 25 1 0,
    mk_piece 27 5 0, mk_piece 15 5 0, mk_piece 20 5 0, mk_piece 25 2 0, mk_piece 15 5 0, mk_piece 20 5 0,
    mk_piece 25 1 0, mk_piece 15 5 0, mk_piece 20 5 0, mk_piece 25 1 0, mk_piece 15 5 0, mk_piece 20 5 0,
    mk_piece 25 1 0, mk_piece 7 5 0, mk_piece 15 5 0, mk_piece 20 5 0, mk_piece 26 1 0, mk_piece 31 1 0,
    mk_piece 25 1 0]"

definition kFields_65 :: "field_desc list" where
  "kFields_65 = [
    mk_field ''SrcL'' (-1) 5 2036 1, mk_field ''simm'' 1 17 2037 2, mk_field ''SrcL'' (-1) 5 2039 1,
    mk_field ''SrcR'' (-1) 5 2040 1, mk_field ''rl'' (-1) 1 2041 1, mk_field ''SrcL'' (-1) 5 2042 1,
    mk_field ''SrcR'' (-1) 5 2043 1, mk_field ''rl'' (-1) 1 2044 1, mk_field ''SrcL'' (-1) 5 2045 1,
    mk_field ''SrcR'' (-1) 5 2046 1, mk_field ''rl'' (-1) 1 2047 1, mk_field ''SrcD'' (-1) 5 2048 1,
    mk_field ''SrcL'' (-1) 5 2049 1, mk_field ''SrcR'' (-1) 5 2050 1, mk_field ''SrcRType'' (-1) 2 2051 1,
    mk_field ''SrcL'' (-1) 5 2052 1, mk_field ''SrcR'' (-1) 5 2053 1, mk_field ''rl'' (-1) 1 2054 1,
    mk_field ''SrcL'' (-1) 5 2055 1, mk_field ''SrcR'' (-1) 5 2056 1, mk_field ''rl'' (-1) 1 2057 1,
    mk_field ''SrcL'' (-1) 5 2058 1, mk_field ''SrcR'' (-1) 5 2059 1, mk_field ''rl'' (-1) 1 2060 1,
    mk_field ''RegDst'' (-1) 5 2061 1, mk_field ''SrcL'' (-1) 5 2062 1, mk_field ''SrcR'' (-1) 5 2063 1,
    mk_field ''aq'' (-1) 1 2064 1, mk_field ''far'' (-1) 1 2065 1, mk_field ''rl'' (-1) 1 2066 1]"

definition kConstraints_65 :: "constraint_desc list" where
  "kConstraints_65 = [
    mk_constraint ''SrcRType'' Op_Ne 3 ''3'']"

definition kForms_65 :: "form_desc list" where
  "kForms_65 = [
    mk_form ''436677679523'' ''SW.PCR'' ''sw.pcr SrcL, [symbol]'' ''L32'' ''STA'' ''STA'' ''AGU''
      32 10 0x707f 0x2069 1845 2 1056 0,
    mk_form ''8bab38a878d7'' ''SW.SMAX'' ''sw.smax<.{rl}> [SrcL], SrcR'' ''L32'' ''AMO'' ''AMO'' ''AMO''
      32 21 0xfc007fff 0x2000300b 1847 3 1056 0,
    mk_form ''773e7d83b011'' ''SW.SMIN'' ''sw.smin<.{rl}> [SrcL], SrcR'' ''L32'' ''AMO'' ''AMO'' ''AMO''
      32 21 0xfc007fff 0x2800300b 1850 3 1056 0,
    mk_form ''33654a8ba8c8'' ''SW.SUB'' ''sw.sub<.{rl}> [SrcL], SrcR'' ''L32'' ''AMO'' ''AMO'' ''AMO''
      32 21 0xfc007fff 0x4000300b 1853 3 1056 0,
    mk_form ''718a61f75d33'' ''SW.U'' ''sw.u SrcD, [SrcL, SrcR<{.sw,.uw}>]'' ''L32'' ''STA/BASE_REG'' ''STA/BASE_REG'' ''AGU''
      32 15 0x7fff 0x6049 1856 4 1056 1,
    mk_form ''5530dfa23323'' ''SW.UMAX'' ''sw.umax<.{rl}> [SrcL], SrcR'' ''L32'' ''AMO'' ''AMO'' ''AMO''
      32 21 0xfc007fff 0x3000300b 1860 3 1057 0,
    mk_form ''3ce114819cfc'' ''SW.UMIN'' ''sw.umin<.{rl}> [SrcL], SrcR'' ''L32'' ''AMO'' ''AMO'' ''AMO''
      32 21 0xfc007fff 0x3800300b 1863 3 1057 0,
    mk_form ''874c32572226'' ''SW.XOR'' ''sw.xor<.{rl}> [SrcL], SrcR'' ''L32'' ''AMO'' ''AMO'' ''AMO''
      32 21 0xfc007fff 0x1800300b 1866 3 1057 0,
    mk_form ''80733f03b77f'' ''SWAPB'' ''swapb<.{aq, rl, f, aqrl, aqf, rlf, aqrlf}> [SrcL], SrcR, {->t, ->u, ->Rd}'' ''L32'' ''AMO'' ''AMO'' ''AMO''
      32 14 0x7800707f 0x600b 1869 6 1057 0]"

lemma chunk_65: "walk_forms kForms_65 kFields_65 kFieldPieces_65 kConstraints_65 1845 2036 1056 1875 2067 1057"
  by (simp add: kForms_65_def kFields_65_def kFieldPieces_65_def kConstraints_65_def walk_eval)

lemma length_kForms_65 [simp]: "length kForms_65 = 9"
  by (simp add: kForms_65_def)

end
