(* ===== verification/Isa_Table_11.thy ===== *)
theory Isa_Table_11
  imports Isa_Check
begin

text \<open>
  Forms 594 to 647 of the arrays of \<^verbatim>\<open>src/isa/generated_tables.cpp\<close> (lines 14500 to 15309), with their fields,
  pieces and constraints, in chunks of at most 9 forms, and the check of each chunk.
\<close>

definition kFieldPieces_66 :: "piece_desc list" where
  "kFieldPieces_66 = [
    mk_piece 7 5 0, mk_piece 15 5 0, mk_piece 20 5 0, mk_piece 26 1 0, mk_piece 31 1 0, mk_piece 25 1 0,
    mk_piece 7 5 0, mk_piece 15 5 0, mk_piece 20 5 0, mk_piece 26 1 0, mk_piece 31 1 0, mk_piece 25 1 0,
    mk_piece 7 5 0, mk_piece 15 5 0, mk_piece 20 5 0, mk_piece 26 1 0, mk_piece 31 1 0, mk_piece 25 1 0,
    mk_piece 15 5 0, mk_piece 20 5 0, mk_piece 25 7 0, mk_piece 7 5 7, mk_piece 15 5 0, mk_piece 20 5 0,
    mk_piece 25 7 0, mk_piece 7 5 7, mk_piece 15 5 0, mk_piece 15 5 0]"

definition kFields_66 :: "field_desc list" where
  "kFields_66 = [
    mk_field ''RegDst'' (-1) 5 2067 1, mk_field ''SrcL'' (-1) 5 2068 1, mk_field ''SrcR'' (-1) 5 2069 1,
    mk_field ''aq'' (-1) 1 2070 1, mk_field ''far'' (-1) 1 2071 1, mk_field ''rl'' (-1) 1 2072 1,
    mk_field ''RegDst'' (-1) 5 2073 1, mk_field ''SrcL'' (-1) 5 2074 1, mk_field ''SrcR'' (-1) 5 2075 1,
    mk_field ''aq'' (-1) 1 2076 1, mk_field ''far'' (-1) 1 2077 1, mk_field ''rl'' (-1) 1 2078 1,
    mk_field ''RegDst'' (-1) 5 2079 1, mk_field ''SrcL'' (-1) 5 2080 1, mk_field ''SrcR'' (-1) 5 2081 1,
    mk_field ''aq'' (-1) 1 2082 1, mk_field ''far'' (-1) 1 2083 1, mk_field ''rl'' (-1) 1 2084 1,
    mk_field ''SrcL'' (-1) 5 2085 1, mk_field ''SrcR'' (-1) 5 2086 1, mk_field ''simm12'' 1 12 2087 2,
    mk_field ''SrcL'' (-1) 5 2089 1, mk_field ''SrcR'' (-1) 5 2090 1, mk_field ''simm12'' 1 12 2091 2,
    mk_field ''SrcL'' (-1) 5 2093 1, mk_field ''SrcL'' (-1) 5 2094 1]"

definition kConstraints_66 :: "constraint_desc list" where
  "kConstraints_66 = []"

definition kForms_66 :: "form_desc list" where
  "kForms_66 = [
    mk_form ''cd31ccde2303'' ''SWAPD'' ''swapd<.{aq, rl, f, aqrl, aqf, rlf, aqrlf}> [SrcL], SrcR, {->t, ->u, ->Rd}'' ''L32'' ''AMO'' ''AMO'' ''AMO''
      32 14 0x7800707f 0x1800600b 1875 6 1057 0,
    mk_form ''8c2d4a28bf25'' ''SWAPH'' ''swaph<.{aq, rl, f, aqrl, aqf, rlf, aqrlf}> [SrcL], SrcR, {->t, ->u, ->Rd}'' ''L32'' ''AMO'' ''AMO'' ''AMO''
      32 14 0x7800707f 0x800600b 1881 6 1057 0,
    mk_form ''ef15c3ebac33'' ''SWAPW'' ''swapw<.{aq, rl, f, aqrl, aqf, rlf, aqrlf}> [SrcL], SrcR, {->t, ->u, ->Rd}'' ''L32'' ''AMO'' ''AMO'' ''AMO''
      32 14 0x7800707f 0x1000600b 1887 6 1057 0,
    mk_form ''147e55489c41'' ''SWI'' ''swi SrcL, [SrcR, simm]'' ''L32'' ''STA/BASE_IMM'' ''STA/BASE_IMM'' ''AGU''
      32 10 0x707f 0x2059 1893 3 1057 0,
    mk_form ''1630e926da1a'' ''SWI.U'' ''swi.u SrcL, [SrcR, simm]'' ''L32'' ''STA/BASE_IMM'' ''STA/BASE_IMM'' ''AGU''
      32 10 0x707f 0x6059 1896 3 1057 0,
    mk_form ''0330a02b7c32'' ''SYNC.CORE'' ''sync.core'' ''L32'' ''SYS'' ''SYS'' ''SYS''
      32 32 0xffffffff 0x330a02b 1899 0 1057 0,
    mk_form ''e794d6bf347e'' ''TLB.IA'' ''tlb.ia SrcL'' ''L32'' ''SYS'' ''SYS'' ''SYS''
      32 27 0xfff07fff 0x702b 1899 1 1057 0,
    mk_form ''0fb421b85c88'' ''TLB.IALL'' ''tlb.iall'' ''L32'' ''SYS'' ''SYS'' ''SYS''
      32 32 0xffffffff 0x30702b 1900 0 1057 0,
    mk_form ''95f4937d2917'' ''TLB.IAV'' ''tlb.iav SrcL'' ''L32'' ''SYS'' ''SYS'' ''SYS''
      32 27 0xfff07fff 0x20702b 1900 1 1057 0]"

lemma chunk_66: "walk_forms kForms_66 kFields_66 kFieldPieces_66 kConstraints_66 1875 2067 1057 1901 2095 1057"
  by (simp add: kForms_66_def kFields_66_def kFieldPieces_66_def kConstraints_66_def walk_eval)

lemma length_kForms_66 [simp]: "length kForms_66 = 9"
  by (simp add: kForms_66_def)

definition kFieldPieces_67 :: "piece_desc list" where
  "kFieldPieces_67 = [
    mk_piece 15 5 0, mk_piece 27 5 0, mk_piece 7 5 0, mk_piece 15 5 0, mk_piece 25 2 0, mk_piece 39 5 0,
    mk_piece 7 5 5, mk_piece 47 5 0, mk_piece 15 5 5, mk_piece 52 5 0, mk_piece 20 5 5, mk_piece 57 2 0,
    mk_piece 59 5 0, mk_piece 39 5 0, mk_piece 7 5 5, mk_piece 47 5 0, mk_piece 15 5 5, mk_piece 52 12 0,
    mk_piece 39 5 0, mk_piece 7 5 5, mk_piece 47 5 0, mk_piece 15 5 5, mk_piece 52 5 0, mk_piece 20 5 5,
    mk_piece 57 2 0, mk_piece 59 5 0, mk_piece 39 5 0, mk_piece 7 5 5, mk_piece 47 5 0, mk_piece 15 5 5,
    mk_piece 52 12 0, mk_piece 39 5 0, mk_piece 7 5 5, mk_piece 47 5 0, mk_piece 15 5 5, mk_piece 52 6 0,
    mk_piece 58 6 0, mk_piece 39 5 0, mk_piece 7 5 5, mk_piece 47 5 0, mk_piece 15 5 5, mk_piece 52 6 0,
    mk_piece 58 6 0, mk_piece 39 5 0, mk_piece 7 5 5, mk_piece 47 5 0, mk_piece 15 5 5, mk_piece 52 6 0,
    mk_piece 58 6 0]"

definition kFields_67 :: "field_desc list" where
  "kFields_67 = [
    mk_field ''SrcL'' (-1) 5 2095 1, mk_field ''DstType'' (-1) 5 2096 1, mk_field ''RegDst'' (-1) 5 2097 1,
    mk_field ''SrcL'' (-1) 5 2098 1, mk_field ''SrcType'' (-1) 2 2099 1, mk_field ''RegDst'' (-1) 10 2100 2,
    mk_field ''SrcL'' (-1) 10 2102 2, mk_field ''SrcR'' (-1) 10 2104 2, mk_field ''SrcRType'' (-1) 2 2106 1,
    mk_field ''shamt'' (-1) 5 2107 1, mk_field ''RegDst'' (-1) 10 2108 2, mk_field ''SrcL'' (-1) 10 2110 2,
    mk_field ''uimm12'' 0 12 2112 1, mk_field ''RegDst'' (-1) 10 2113 2, mk_field ''SrcL'' (-1) 10 2115 2,
    mk_field ''SrcR'' (-1) 10 2117 2, mk_field ''SrcRType'' (-1) 2 2119 1, mk_field ''shamt'' (-1) 5 2120 1,
    mk_field ''RegDst'' (-1) 10 2121 2, mk_field ''SrcL'' (-1) 10 2123 2, mk_field ''simm12'' 1 12 2125 1,
    mk_field ''RegDst'' (-1) 10 2126 2, mk_field ''SrcL'' (-1) 10 2128 2, mk_field ''imml'' (-1) 6 2130 1,
    mk_field ''imms'' (-1) 6 2131 1, mk_field ''RegDst'' (-1) 10 2132 2, mk_field ''SrcL'' (-1) 10 2134 2,
    mk_field ''imml'' (-1) 6 2136 1, mk_field ''imms'' (-1) 6 2137 1, mk_field ''RegDst'' (-1) 10 2138 2,
    mk_field ''SrcL'' (-1) 10 2140 2, mk_field ''imml'' (-1) 6 2142 1, mk_field ''imms'' (-1) 6 2143 1]"

definition kConstraints_67 :: "constraint_desc list" where
  "kConstraints_67 = [
    mk_constraint ''DstType'' Op_Ne 4 ''4'', mk_constraint ''DstType'' Op_Ne 5 ''5'',
    mk_constraint ''DstType'' Op_Ne 6 ''6'', mk_constraint ''DstType'' Op_Ne 7 ''7'',
    mk_constraint ''DstType'' Op_Ne 8 ''8'', mk_constraint ''DstType'' Op_Ne 9 ''9'',
    mk_constraint ''DstType'' Op_Ne 10 ''10'', mk_constraint ''DstType'' Op_Ne 11 ''11'',
    mk_constraint ''DstType'' Op_Ne 12 ''12'', mk_constraint ''DstType'' Op_Ne 13 ''13'',
    mk_constraint ''DstType'' Op_Ne 14 ''14'', mk_constraint ''DstType'' Op_Ne 15 ''15'',
    mk_constraint ''DstType'' Op_Ne 16 ''16'', mk_constraint ''DstType'' Op_Ne 17 ''17'',
    mk_constraint ''DstType'' Op_Ne 18 ''18'', mk_constraint ''DstType'' Op_Ne 19 ''19'',
    mk_constraint ''DstType'' Op_Ne 20 ''20'', mk_constraint ''DstType'' Op_Ne 21 ''21'',
    mk_constraint ''DstType'' Op_Ne 22 ''22'', mk_constraint ''DstType'' Op_Ne 23 ''23'',
    mk_constraint ''DstType'' Op_Ne 24 ''24'', mk_constraint ''DstType'' Op_Ne 25 ''25'',
    mk_constraint ''DstType'' Op_Ne 26 ''26'', mk_constraint ''DstType'' Op_Ne 27 ''27'',
    mk_constraint ''DstType'' Op_Ne 28 ''28'', mk_constraint ''DstType'' Op_Ne 29 ''29'',
    mk_constraint ''DstType'' Op_Ne 30 ''30'', mk_constraint ''DstType'' Op_Ne 31 ''31'']"

definition kForms_67 :: "form_desc list" where
  "kForms_67 = [
    mk_form ''bf0a5d1ea211'' ''TLB.IV'' ''tlb.iv SrcL'' ''L32'' ''SYS'' ''SYS'' ''SYS''
      32 27 0xfff07fff 0x10702b 1901 1 1057 0,
    mk_form ''987f4e019c32'' ''UCVTF'' ''ucvtf.{srcT2dstT} SrcL, ->{t, u, Rd}'' ''L32'' ''FSU'' ''FSU'' ''FSU''
      32 15 0x1f0707f 0x706b 1902 4 1057 28,
    mk_form ''394294cc5946'' ''V.ADD'' ''v.add SrcL, SrcR<.neg><<<shamt>, ->Dst'' ''L64'' ''Arithmetic Operation'' ''VEC'' ''VEC''
      64 27 0x707ffe00707f 0x50000007f 1906 5 1085 0,
    mk_form ''2b2209683a13'' ''V.ADDI'' ''v.addi SrcL, uimm, ->Dst'' ''L64'' ''Arithmetic Operation'' ''VEC'' ''VEC''
      64 32 0x707ffff0707f 0x150000007f 1911 3 1085 0,
    mk_form ''1ecd348ef07b'' ''V.AND'' ''v.and SrcL, SrcR<.not><<<shamt>, ->Dst'' ''L64'' ''Arithmetic Operation'' ''VEC'' ''VEC''
      64 27 0x707ffe00707f 0x20050000007f 1914 5 1085 0,
    mk_form ''169f397546d5'' ''V.ANDI'' ''v.andi SrcL, simm, ->Dst'' ''L64'' ''Arithmetic Operation'' ''VEC'' ''VEC''
      64 32 0x707ffff0707f 0x20150000007f 1919 3 1085 0,
    mk_form ''42c09bd34fa3'' ''V.BCNT'' ''v.bcnt SrcL, M, N, ->Dst'' ''L64'' ''Bit Manipulation'' ''VEC'' ''VEC''
      64 32 0x707ffff0707f 0x60670000007f 1922 4 1085 0,
    mk_form ''e87942a9adfa'' ''V.BIC'' ''v.bic SrcL, M, N, ->Dst'' ''L64'' ''Bit Manipulation'' ''VEC'' ''VEC''
      64 32 0x707ffff0707f 0x20670000007f 1926 4 1085 0,
    mk_form ''cefe4375764b'' ''V.BIS'' ''v.bis SrcL, M, N, ->Dst'' ''L64'' ''Bit Manipulation'' ''VEC'' ''VEC''
      64 32 0x707ffff0707f 0x30670000007f 1930 4 1085 0]"

lemma chunk_67: "walk_forms kForms_67 kFields_67 kFieldPieces_67 kConstraints_67 1901 2095 1057 1934 2144 1085"
  by (simp add: kForms_67_def kFields_67_def kFieldPieces_67_def kConstraints_67_def walk_eval)

lemma length_kForms_67 [simp]: "length kForms_67 = 9"
  by (simp add: kForms_67_def)

definition kFieldPieces_68 :: "piece_desc list" where
  "kFieldPieces_68 = [
    mk_piece 39 5 0, mk_piece 7 5 5, mk_piece 47 5 0, mk_piece 15 5 5, mk_piece 52 6 0, mk_piece 58 6 0,
    mk_piece 39 5 0, mk_piece 7 5 5, mk_piece 47 5 0, mk_piece 15 5 5, mk_piece 52 6 0, mk_piece 58 6 0,
    mk_piece 39 5 0, mk_piece 7 5 5, mk_piece 47 5 0, mk_piece 15 5 5, mk_piece 52 6 0, mk_piece 58 6 0,
    mk_piece 39 5 0, mk_piece 7 5 5, mk_piece 47 5 0, mk_piece 15 5 5, mk_piece 52 5 0, mk_piece 20 5 5,
    mk_piece 39 5 0, mk_piece 7 5 5, mk_piece 47 5 0, mk_piece 15 5 5, mk_piece 52 12 0, mk_piece 39 5 0,
    mk_piece 7 5 5, mk_piece 47 5 0, mk_piece 15 5 5, mk_piece 52 5 0, mk_piece 20 5 5, mk_piece 39 5 0,
    mk_piece 7 5 5, mk_piece 47 5 0, mk_piece 15 5 5, mk_piece 52 12 0, mk_piece 39 5 0, mk_piece 7 5 5,
    mk_piece 47 5 0, mk_piece 15 5 5, mk_piece 52 5 0, mk_piece 20 5 5, mk_piece 39 5 0, mk_piece 7 5 5,
    mk_piece 47 5 0, mk_piece 15 5 5, mk_piece 52 12 0]"

definition kFields_68 :: "field_desc list" where
  "kFields_68 = [
    mk_field ''RegDst'' (-1) 10 2144 2, mk_field ''SrcL'' (-1) 10 2146 2, mk_field ''imml'' (-1) 6 2148 1,
    mk_field ''imms'' (-1) 6 2149 1, mk_field ''RegDst'' (-1) 10 2150 2, mk_field ''SrcL'' (-1) 10 2152 2,
    mk_field ''imml'' (-1) 6 2154 1, mk_field ''imms'' (-1) 6 2155 1, mk_field ''RegDst'' (-1) 10 2156 2,
    mk_field ''SrcL'' (-1) 10 2158 2, mk_field ''imml'' (-1) 6 2160 1, mk_field ''imms'' (-1) 6 2161 1,
    mk_field ''RegDst'' (-1) 10 2162 2, mk_field ''SrcL'' (-1) 10 2164 2, mk_field ''SrcR'' (-1) 10 2166 2,
    mk_field ''RegDst'' (-1) 10 2168 2, mk_field ''SrcL'' (-1) 10 2170 2, mk_field ''simm12'' 1 12 2172 1,
    mk_field ''RegDst'' (-1) 10 2173 2, mk_field ''SrcL'' (-1) 10 2175 2, mk_field ''SrcR'' (-1) 10 2177 2,
    mk_field ''RegDst'' (-1) 10 2179 2, mk_field ''SrcL'' (-1) 10 2181 2, mk_field ''simm12'' 1 12 2183 1,
    mk_field ''RegDst'' (-1) 10 2184 2, mk_field ''SrcL'' (-1) 10 2186 2, mk_field ''SrcR'' (-1) 10 2188 2,
    mk_field ''RegDst'' (-1) 10 2190 2, mk_field ''SrcL'' (-1) 10 2192 2, mk_field ''simm12'' 1 12 2194 1]"

definition kConstraints_68 :: "constraint_desc list" where
  "kConstraints_68 = []"

definition kForms_68 :: "form_desc list" where
  "kForms_68 = [
    mk_form ''6227f276c17d'' ''V.BXS'' ''v.bxs SrcL, M, N, ->Dst'' ''L64'' ''Bit Manipulation'' ''VEC'' ''VEC''
      64 32 0x707ffff0707f 0x670000007f 1934 4 1085 0,
    mk_form ''c8bf73694717'' ''V.BXU'' ''v.bxu SrcL, M, N, ->Dst'' ''L64'' ''Bit Manipulation'' ''VEC'' ''VEC''
      64 32 0x707ffff0707f 0x10670000007f 1938 4 1085 0,
    mk_form ''193df5d3df15'' ''V.CLZ'' ''v.clz SrcL, M, N, ->Dst'' ''L64'' ''Bit Manipulation'' ''VEC'' ''VEC''
      64 32 0x707ffff0707f 0x50670000007f 1942 4 1085 0,
    mk_form ''5b3efc0f7b0a'' ''V.CMP.AND'' ''v.cmp.and SrcL, SrcR, ->Dst'' ''L64'' ''Compare Instruction'' ''VEC'' ''VEC''
      64 34 0xfe00707ffe00707f 0x20450000007f 1946 3 1085 0,
    mk_form ''84769d4e8fa2'' ''V.CMP.ANDI'' ''v.cmp.andi SrcL, simm, ->Dst'' ''L64'' ''Compare Instruction'' ''VEC'' ''VEC''
      64 32 0x707ffff0707f 0x20550000007f 1949 3 1085 0,
    mk_form ''81fb556b62ca'' ''V.CMP.EQ'' ''v.cmp.eq SrcL, SrcR, ->Dst'' ''L64'' ''Compare Instruction'' ''VEC'' ''VEC''
      64 34 0xfe00707ffe00707f 0x450000007f 1952 3 1085 0,
    mk_form ''e6769858459e'' ''V.CMP.EQI'' ''v.cmp.eqi SrcL, simm, ->Dst'' ''L64'' ''Compare Instruction'' ''VEC'' ''VEC''
      64 32 0x707ffff0707f 0x550000007f 1955 3 1085 0,
    mk_form ''77301f1e67a9'' ''V.CMP.GE'' ''v.cmp.ge SrcL, SrcR, ->Dst'' ''L64'' ''Compare Instruction'' ''VEC'' ''VEC''
      64 34 0xfe00707ffe00707f 0x50450000007f 1958 3 1085 0,
    mk_form ''f226c4f0d640'' ''V.CMP.GEI'' ''v.cmp.gei SrcL, simm, ->Dst'' ''L64'' ''Compare Instruction'' ''VEC'' ''VEC''
      64 32 0x707ffff0707f 0x50550000007f 1961 3 1085 0]"

lemma chunk_68: "walk_forms kForms_68 kFields_68 kFieldPieces_68 kConstraints_68 1934 2144 1085 1964 2195 1085"
  by (simp add: kForms_68_def kFields_68_def kFieldPieces_68_def kConstraints_68_def walk_eval)

lemma length_kForms_68 [simp]: "length kForms_68 = 9"
  by (simp add: kForms_68_def)

definition kFieldPieces_69 :: "piece_desc list" where
  "kFieldPieces_69 = [
    mk_piece 39 5 0, mk_piece 7 5 5, mk_piece 47 5 0, mk_piece 15 5 5, mk_piece 52 5 0, mk_piece 20 5 5,
    mk_piece 39 5 0, mk_piece 7 5 5, mk_piece 47 5 0, mk_piece 15 5 5, mk_piece 52 12 0, mk_piece 39 5 0,
    mk_piece 7 5 5, mk_piece 47 5 0, mk_piece 15 5 5, mk_piece 52 5 0, mk_piece 20 5 5, mk_piece 39 5 0,
    mk_piece 7 5 5, mk_piece 47 5 0, mk_piece 15 5 5, mk_piece 52 12 0, mk_piece 39 5 0, mk_piece 7 5 5,
    mk_piece 47 5 0, mk_piece 15 5 5, mk_piece 52 5 0, mk_piece 20 5 5, mk_piece 39 5 0, mk_piece 7 5 5,
    mk_piece 47 5 0, mk_piece 15 5 5, mk_piece 52 12 0, mk_piece 39 5 0, mk_piece 7 5 5, mk_piece 47 5 0,
    mk_piece 15 5 5, mk_piece 52 5 0, mk_piece 20 5 5, mk_piece 39 5 0, mk_piece 7 5 5, mk_piece 47 5 0,
    mk_piece 15 5 5, mk_piece 52 12 0, mk_piece 39 5 0, mk_piece 7 5 5, mk_piece 47 5 0, mk_piece 15 5 5,
    mk_piece 52 5 0, mk_piece 20 5 5]"

definition kFields_69 :: "field_desc list" where
  "kFields_69 = [
    mk_field ''RegDst'' (-1) 10 2195 2, mk_field ''SrcL'' (-1) 10 2197 2, mk_field ''SrcR'' (-1) 10 2199 2,
    mk_field ''RegDst'' (-1) 10 2201 2, mk_field ''SrcL'' (-1) 10 2203 2, mk_field ''uimm12'' 0 12 2205 1,
    mk_field ''RegDst'' (-1) 10 2206 2, mk_field ''SrcL'' (-1) 10 2208 2, mk_field ''SrcR'' (-1) 10 2210 2,
    mk_field ''RegDst'' (-1) 10 2212 2, mk_field ''SrcL'' (-1) 10 2214 2, mk_field ''simm12'' 1 12 2216 1,
    mk_field ''RegDst'' (-1) 10 2217 2, mk_field ''SrcL'' (-1) 10 2219 2, mk_field ''SrcR'' (-1) 10 2221 2,
    mk_field ''RegDst'' (-1) 10 2223 2, mk_field ''SrcL'' (-1) 10 2225 2, mk_field ''uimm12'' 0 12 2227 1,
    mk_field ''RegDst'' (-1) 10 2228 2, mk_field ''SrcL'' (-1) 10 2230 2, mk_field ''SrcR'' (-1) 10 2232 2,
    mk_field ''RegDst'' (-1) 10 2234 2, mk_field ''SrcL'' (-1) 10 2236 2, mk_field ''simm12'' 1 12 2238 1,
    mk_field ''RegDst'' (-1) 10 2239 2, mk_field ''SrcL'' (-1) 10 2241 2, mk_field ''SrcR'' (-1) 10 2243 2]"

definition kConstraints_69 :: "constraint_desc list" where
  "kConstraints_69 = []"

definition kForms_69 :: "form_desc list" where
  "kForms_69 = [
    mk_form ''5f66721154a8'' ''V.CMP.GEU'' ''v.cmp.geu SrcL, SrcR, ->Dst'' ''L64'' ''Compare Instruction'' ''VEC'' ''VEC''
      64 34 0xfe00707ffe00707f 0x70450000007f 1964 3 1085 0,
    mk_form ''ae111c2828e9'' ''V.CMP.GEUI'' ''v.cmp.geui SrcL, uimm, ->Dst'' ''L64'' ''Compare Instruction'' ''VEC'' ''VEC''
      64 32 0x707ffff0707f 0x70550000007f 1967 3 1085 0,
    mk_form ''3ef2162a77ba'' ''V.CMP.LT'' ''v.cmp.lt SrcL, SrcR, ->Dst'' ''L64'' ''Compare Instruction'' ''VEC'' ''VEC''
      64 34 0xfe00707ffe00707f 0x40450000007f 1970 3 1085 0,
    mk_form ''75af9c62bdfe'' ''V.CMP.LTI'' ''v.cmp.lti SrcL, simm, ->Dst'' ''L64'' ''Compare Instruction'' ''VEC'' ''VEC''
      64 32 0x707ffff0707f 0x40550000007f 1973 3 1085 0,
    mk_form ''48ae80b99c15'' ''V.CMP.LTU'' ''v.cmp.ltu SrcL, SrcR, ->Dst'' ''L64'' ''Compare Instruction'' ''VEC'' ''VEC''
      64 34 0xfe00707ffe00707f 0x60450000007f 1976 3 1085 0,
    mk_form ''d1b1db22be04'' ''V.CMP.LTUI'' ''v.cmp.ltui SrcL, uimm, ->Dst'' ''L64'' ''Compare Instruction'' ''VEC'' ''VEC''
      64 32 0x707ffff0707f 0x60550000007f 1979 3 1085 0,
    mk_form ''84c9e143b8b1'' ''V.CMP.NE'' ''v.cmp.ne SrcL, SrcR, ->Dst'' ''L64'' ''Compare Instruction'' ''VEC'' ''VEC''
      64 34 0xfe00707ffe00707f 0x10450000007f 1982 3 1085 0,
    mk_form ''56b66e30a15d'' ''V.CMP.NEI'' ''v.cmp.nei SrcL, simm, ->Dst'' ''L64'' ''Compare Instruction'' ''VEC'' ''VEC''
      64 32 0x707ffff0707f 0x10550000007f 1985 3 1085 0,
    mk_form ''c3444f939f6f'' ''V.CMP.OR'' ''v.cmp.or SrcL, SrcR, ->Dst'' ''L64'' ''Compare Instruction'' ''VEC'' ''VEC''
      64 34 0xfe00707ffe00707f 0x30450000007f 1988 3 1085 0]"

lemma chunk_69: "walk_forms kForms_69 kFields_69 kFieldPieces_69 kConstraints_69 1964 2195 1085 1991 2245 1085"
  by (simp add: kForms_69_def kFields_69_def kFieldPieces_69_def kConstraints_69_def walk_eval)

lemma length_kForms_69 [simp]: "length kForms_69 = 9"
  by (simp add: kForms_69_def)

definition kFieldPieces_70 :: "piece_desc list" where
  "kFieldPieces_70 = [
    mk_piece 39 5 0, mk_piece 7 5 5, mk_piece 47 5 0, mk_piece 15 5 5, mk_piece 52 12 0, mk_piece 39 5 0,
    mk_piece 7 5 5, mk_piece 47 5 0, mk_piece 15 5 5, mk_piece 59 5 0, mk_piece 27 5 5, mk_piece 52 5 0,
    mk_piece 20 5 5, mk_piece 57 2 0, mk_piece 39 5 0, mk_piece 7 5 5, mk_piece 47 5 0, mk_piece 15 5 5,
    mk_piece 52 6 0, mk_piece 58 6 0, mk_piece 39 5 0, mk_piece 7 5 5, mk_piece 47 5 0, mk_piece 15 5 5,
    mk_piece 52 5 0, mk_piece 20 5 5, mk_piece 39 5 0, mk_piece 7 5 5, mk_piece 47 5 0, mk_piece 15 5 5,
    mk_piece 39 5 0, mk_piece 7 5 5, mk_piece 47 5 0, mk_piece 15 5 5, mk_piece 52 5 0, mk_piece 20 5 5,
    mk_piece 39 5 0, mk_piece 7 5 5, mk_piece 47 5 0, mk_piece 15 5 5, mk_piece 39 5 0, mk_piece 7 5 5,
    mk_piece 47 5 0, mk_piece 15 5 5, mk_piece 59 5 0, mk_piece 52 5 0, mk_piece 39 5 0, mk_piece 7 5 5,
    mk_piece 47 5 0, mk_piece 15 5 5, mk_piece 59 5 0, mk_piece 52 5 0]"

definition kFields_70 :: "field_desc list" where
  "kFields_70 = [
    mk_field ''RegDst'' (-1) 10 2245 2, mk_field ''SrcL'' (-1) 10 2247 2, mk_field ''simm12'' 1 12 2249 1,
    mk_field ''RegDst'' (-1) 10 2250 2, mk_field ''SrcL'' (-1) 10 2252 2, mk_field ''SrcP'' (-1) 10 2254 2,
    mk_field ''SrcR'' (-1) 10 2256 2, mk_field ''SrcRType'' (-1) 2 2258 1,
    mk_field ''RegDst'' (-1) 10 2259 2, mk_field ''SrcL'' (-1) 10 2261 2, mk_field ''imml'' (-1) 6 2263 1,
    mk_field ''imms'' (-1) 6 2264 1, mk_field ''RegDst'' (-1) 10 2265 2, mk_field ''SrcL'' (-1) 10 2267 2,
    mk_field ''SrcR'' (-1) 10 2269 2, mk_field ''RegDst'' (-1) 10 2271 2, mk_field ''SrcL'' (-1) 10 2273 2,
    mk_field ''RegDst'' (-1) 10 2275 2, mk_field ''SrcL'' (-1) 10 2277 2, mk_field ''SrcR'' (-1) 10 2279 2,
    mk_field ''RegDst'' (-1) 10 2281 2, mk_field ''SrcL'' (-1) 10 2283 2, mk_field ''RegDst'' (-1) 10 2285 2,
    mk_field ''SrcL'' (-1) 10 2287 2, mk_field ''DstType'' (-1) 5 2289 1, mk_field ''SrcType'' (-1) 5 2290 1,
    mk_field ''RegDst'' (-1) 10 2291 2, mk_field ''SrcL'' (-1) 10 2293 2, mk_field ''DstType'' (-1) 5 2295 1,
    mk_field ''SrcType'' (-1) 5 2296 1]"

definition kConstraints_70 :: "constraint_desc list" where
  "kConstraints_70 = []"

definition kForms_70 :: "form_desc list" where
  "kForms_70 = [
    mk_form ''2e06ef6e16e7'' ''V.CMP.ORI'' ''v.cmp.ori SrcL, simm, ->Dst'' ''L64'' ''Compare Instruction'' ''VEC'' ''VEC''
      64 32 0x707ffff0707f 0x30550000007f 1991 3 1085 0,
    mk_form ''791e57f8ff22'' ''V.CSEL'' ''v.csel SrcP, SrcL, SrcR<.neg>, ->Dst'' ''L64'' ''Three Source Integer'' ''VEC'' ''VEC''
      64 22 0x707f0600707f 0x770000007f 1994 5 1085 0,
    mk_form ''7be9efa90a00'' ''V.CTZ'' ''v.ctz SrcL, M, N, ->Dst'' ''L64'' ''Bit Manipulation'' ''VEC'' ''VEC''
      64 32 0x707ffff0707f 0x40670000007f 1999 4 1085 0,
    mk_form ''74152b35b49c'' ''V.DIV'' ''v.div SrcL, SrcR, ->Dst'' ''L64'' ''Division'' ''VEC'' ''VEC''
      64 34 0xfe00707ffe00707f 0x570000007f 2003 3 1085 0,
    mk_form ''cd9c01ef8cc4'' ''V.FABS'' ''v.fabs SrcL, ->Dst'' ''L64'' ''Floating Point Arithmetic'' ''VEC'' ''VEC''
      64 44 0xfff0707ffff0707f 0x7b0000007f 2006 2 1085 0,
    mk_form ''c5c08b2ac830'' ''V.FADD'' ''v.fadd SrcL, SrcR, ->Dst'' ''L64'' ''Three-Source Floating Point'' ''VEC'' ''VEC''
      64 34 0xfe00707ffe00707f 0x4b0000007f 2008 3 1085 0,
    mk_form ''628ee3eaf4ba'' ''V.FCLASS'' ''v.fclass SrcL, ->Dst'' ''L64'' ''Floating Point Arithmetic'' ''VEC'' ''VEC''
      64 44 0xfff0707ffff0707f 0x707b0000007f 2011 2 1085 0,
    mk_form ''da9f59421cae'' ''V.FCVT'' ''v.fcvt.{st2dt} SrcL, ->Dst'' ''L64'' ''Format Convert'' ''VEC'' ''VEC''
      64 34 0x600707ffff0707f 0x6b0000007f 2013 4 1085 0,
    mk_form ''00dd1644b48d'' ''V.FCVTI'' ''v.fcvti.{st2dt} SrcL, ->Dst'' ''L64'' ''Format Convert'' ''VEC'' ''VEC''
      64 34 0x600707ffff0707f 0x106b0000007f 2017 4 1085 0]"

lemma chunk_70: "walk_forms kForms_70 kFields_70 kFieldPieces_70 kConstraints_70 1991 2245 1085 2021 2297 1085"
  by (simp add: kForms_70_def kFields_70_def kFieldPieces_70_def kConstraints_70_def walk_eval)

lemma length_kForms_70 [simp]: "length kForms_70 = 9"
  by (simp add: kForms_70_def)

definition kFieldPieces_71 :: "piece_desc list" where
  "kFieldPieces_71 = [
    mk_piece 39 5 0, mk_piece 7 5 5, mk_piece 47 5 0, mk_piece 15 5 5, mk_piece 52 5 0, mk_piece 20 5 5,
    mk_piece 39 5 0, mk_piece 7 5 5, mk_piece 47 5 0, mk_piece 15 5 5, mk_piece 52 5 0, mk_piece 20 5 5,
    mk_piece 39 5 0, mk_piece 7 5 5, mk_piece 47 5 0, mk_piece 15 5 5, mk_piece 52 5 0, mk_piece 20 5 5,
    mk_piece 39 5 0, mk_piece 7 5 5, mk_piece 47 5 0, mk_piece 15 5 5, mk_piece 39 5 0, mk_piece 7 5 5,
    mk_piece 47 5 0, mk_piece 15 5 5, mk_piece 52 5 0, mk_piece 20 5 5, mk_piece 39 5 0, mk_piece 7 5 5,
    mk_piece 47 5 0, mk_piece 15 5 5, mk_piece 52 5 0, mk_piece 20 5 5, mk_piece 39 5 0, mk_piece 7 5 5,
    mk_piece 47 5 0, mk_piece 15 5 5, mk_piece 52 5 0, mk_piece 20 5 5, mk_piece 39 5 0, mk_piece 7 5 5,
    mk_piece 47 5 0, mk_piece 15 5 5, mk_piece 52 5 0, mk_piece 20 5 5, mk_piece 39 5 0, mk_piece 7 5 5,
    mk_piece 59 5 0, mk_piece 27 5 5, mk_piece 47 5 0, mk_piece 15 5 5, mk_piece 52 5 0, mk_piece 20 5 5]"

definition kFields_71 :: "field_desc list" where
  "kFields_71 = [
    mk_field ''RegDst'' (-1) 10 2297 2, mk_field ''SrcL'' (-1) 10 2299 2, mk_field ''SrcR'' (-1) 10 2301 2,
    mk_field ''RegDst'' (-1) 10 2303 2, mk_field ''SrcL'' (-1) 10 2305 2, mk_field ''SrcR'' (-1) 10 2307 2,
    mk_field ''RegDst'' (-1) 10 2309 2, mk_field ''SrcL'' (-1) 10 2311 2, mk_field ''SrcR'' (-1) 10 2313 2,
    mk_field ''RegDst'' (-1) 10 2315 2, mk_field ''SrcL'' (-1) 10 2317 2, mk_field ''RegDst'' (-1) 10 2319 2,
    mk_field ''SrcL'' (-1) 10 2321 2, mk_field ''SrcR'' (-1) 10 2323 2, mk_field ''RegDst'' (-1) 10 2325 2,
    mk_field ''SrcL'' (-1) 10 2327 2, mk_field ''SrcR'' (-1) 10 2329 2, mk_field ''RegDst'' (-1) 10 2331 2,
    mk_field ''SrcL'' (-1) 10 2333 2, mk_field ''SrcR'' (-1) 10 2335 2, mk_field ''RegDst'' (-1) 10 2337 2,
    mk_field ''SrcL'' (-1) 10 2339 2, mk_field ''SrcR'' (-1) 10 2341 2, mk_field ''RegDst'' (-1) 10 2343 2,
    mk_field ''SrcA'' (-1) 10 2345 2, mk_field ''SrcL'' (-1) 10 2347 2, mk_field ''SrcR'' (-1) 10 2349 2]"

definition kConstraints_71 :: "constraint_desc list" where
  "kConstraints_71 = []"

definition kForms_71 :: "form_desc list" where
  "kForms_71 = [
    mk_form ''0e6eb42a8167'' ''V.FDIV'' ''v.fdiv SrcL, SrcR, ->Dst'' ''L64'' ''Three-Source Floating Point'' ''VEC'' ''VEC''
      64 34 0xfe00707ffe00707f 0x304b0000007f 2021 3 1085 0,
    mk_form ''310fa4a0c71c'' ''V.FEQ'' ''v.feq SrcL, SrcR, ->Dst'' ''L64'' ''Two-Source Floating Point'' ''VEC'' ''VEC''
      64 34 0xfe00707ffe00707f 0x5b0000007f 2024 3 1085 0,
    mk_form ''fa03903879d5'' ''V.FEQS'' ''v.feqs SrcL, SrcR, ->Dst'' ''L64'' ''Two-Source Floating Point'' ''VEC'' ''VEC''
      64 34 0xfe00707ffe00707f 0x405b0000007f 2027 3 1085 0,
    mk_form ''9fb55afd6ae9'' ''V.FEXP'' ''v.fexp SrcL, ->Dst'' ''L64'' ''Floating Point Arithmetic'' ''VEC'' ''VEC''
      64 44 0xfff0707ffff0707f 0x307b0000007f 2030 2 1085 0,
    mk_form ''6472fe8862ea'' ''V.FGE'' ''v.fge SrcL, SrcR, ->Dst'' ''L64'' ''Two-Source Floating Point'' ''VEC'' ''VEC''
      64 34 0xfe00707ffe00707f 0x305b0000007f 2032 3 1085 0,
    mk_form ''6cad59141271'' ''V.FGES'' ''v.fges SrcL, SrcR, ->Dst'' ''L64'' ''Two-Source Floating Point'' ''VEC'' ''VEC''
      64 34 0xfe00707ffe00707f 0x705b0000007f 2035 3 1085 0,
    mk_form ''1f2a82b04cd1'' ''V.FLT'' ''v.flt SrcL, SrcR, ->Dst'' ''L64'' ''Two-Source Floating Point'' ''VEC'' ''VEC''
      64 34 0xfe00707ffe00707f 0x205b0000007f 2038 3 1085 0,
    mk_form ''d39b1c33de29'' ''V.FLTS'' ''v.flts SrcL, SrcR, ->Dst'' ''L64'' ''Two-Source Floating Point'' ''VEC'' ''VEC''
      64 34 0xfe00707ffe00707f 0x605b0000007f 2041 3 1085 0,
    mk_form ''813d061de8ca'' ''V.FMADD'' ''v.fmadd SrcL, SrcR, SrcA, ->Dst'' ''L64'' ''Three-Source Floating Point'' ''VEC'' ''VEC''
      64 24 0x600707f0600707f 0x404b0000007f 2044 4 1085 0]"

lemma chunk_71: "walk_forms kForms_71 kFields_71 kFieldPieces_71 kConstraints_71 2021 2297 1085 2048 2351 1085"
  by (simp add: kForms_71_def kFields_71_def kFieldPieces_71_def kConstraints_71_def walk_eval)

lemma length_kForms_71 [simp]: "length kForms_71 = 9"
  by (simp add: kForms_71_def)

end
