(* ===== verification/Isa_Table_12.thy ===== *)
theory Isa_Table_12
  imports Isa_Check
begin

text \<open>
  Forms 648 to 701 of the arrays of \<^verbatim>\<open>src/isa/generated_tables.cpp\<close> (lines 15310 to 16119), with their fields,
  pieces and constraints, in chunks of at most 9 forms, and the check of each chunk.
\<close>

definition kFieldPieces_72 :: "piece_desc list" where
  "kFieldPieces_72 = [
    mk_piece 39 5 0, mk_piece 7 5 5, mk_piece 47 5 0, mk_piece 15 5 5, mk_piece 52 5 0, mk_piece 20 5 5,
    mk_piece 39 5 0, mk_piece 7 5 5, mk_piece 47 5 0, mk_piece 15 5 5, mk_piece 52 5 0, mk_piece 20 5 5,
    mk_piece 39 5 0, mk_piece 7 5 5, mk_piece 59 5 0, mk_piece 27 5 5, mk_piece 47 5 0, mk_piece 15 5 5,
    mk_piece 52 5 0, mk_piece 20 5 5, mk_piece 39 5 0, mk_piece 7 5 5, mk_piece 47 5 0, mk_piece 15 5 5,
    mk_piece 52 5 0, mk_piece 20 5 5, mk_piece 39 5 0, mk_piece 7 5 5, mk_piece 47 5 0, mk_piece 15 5 5,
    mk_piece 52 5 0, mk_piece 20 5 5, mk_piece 39 5 0, mk_piece 7 5 5, mk_piece 47 5 0, mk_piece 15 5 5,
    mk_piece 52 5 0, mk_piece 20 5 5, mk_piece 39 5 0, mk_piece 7 5 5, mk_piece 59 5 0, mk_piece 27 5 5,
    mk_piece 47 5 0, mk_piece 15 5 5, mk_piece 52 5 0, mk_piece 20 5 5, mk_piece 39 5 0, mk_piece 7 5 5,
    mk_piece 59 5 0, mk_piece 27 5 5, mk_piece 47 5 0, mk_piece 15 5 5, mk_piece 52 5 0, mk_piece 20 5 5,
    mk_piece 39 5 0, mk_piece 7 5 5, mk_piece 47 5 0, mk_piece 15 5 5]"

definition kFields_72 :: "field_desc list" where
  "kFields_72 = [
    mk_field ''RegDst'' (-1) 10 2351 2, mk_field ''SrcL'' (-1) 10 2353 2, mk_field ''SrcR'' (-1) 10 2355 2,
    mk_field ''RegDst'' (-1) 10 2357 2, mk_field ''SrcL'' (-1) 10 2359 2, mk_field ''SrcR'' (-1) 10 2361 2,
    mk_field ''RegDst'' (-1) 10 2363 2, mk_field ''SrcA'' (-1) 10 2365 2, mk_field ''SrcL'' (-1) 10 2367 2,
    mk_field ''SrcR'' (-1) 10 2369 2, mk_field ''RegDst'' (-1) 10 2371 2, mk_field ''SrcL'' (-1) 10 2373 2,
    mk_field ''SrcR'' (-1) 10 2375 2, mk_field ''RegDst'' (-1) 10 2377 2, mk_field ''SrcL'' (-1) 10 2379 2,
    mk_field ''SrcR'' (-1) 10 2381 2, mk_field ''RegDst'' (-1) 10 2383 2, mk_field ''SrcL'' (-1) 10 2385 2,
    mk_field ''SrcR'' (-1) 10 2387 2, mk_field ''RegDst'' (-1) 10 2389 2, mk_field ''SrcA'' (-1) 10 2391 2,
    mk_field ''SrcL'' (-1) 10 2393 2, mk_field ''SrcR'' (-1) 10 2395 2, mk_field ''RegDst'' (-1) 10 2397 2,
    mk_field ''SrcA'' (-1) 10 2399 2, mk_field ''SrcL'' (-1) 10 2401 2, mk_field ''SrcR'' (-1) 10 2403 2,
    mk_field ''RegDst'' (-1) 10 2405 2, mk_field ''SrcL'' (-1) 10 2407 2]"

definition kConstraints_72 :: "constraint_desc list" where
  "kConstraints_72 = []"

definition kForms_72 :: "form_desc list" where
  "kForms_72 = [
    mk_form ''b170fb3ede0f'' ''V.FMAX'' ''v.fmax SrcL, SrcR, ->Dst'' ''L64'' ''Two-Source Floating Point'' ''VEC'' ''VEC''
      64 34 0xfe00707ffe00707f 0x205b0000107f 2048 3 1085 0,
    mk_form ''86ba368048a2'' ''V.FMIN'' ''v.fmin SrcL, SrcR, ->Dst'' ''L64'' ''Two-Source Floating Point'' ''VEC'' ''VEC''
      64 34 0xfe00707ffe00707f 0x305b0000107f 2051 3 1085 0,
    mk_form ''19c6d15b8a1d'' ''V.FMSUB'' ''v.fmsub SrcL, SrcR, SrcA, ->Dst'' ''L64'' ''Three-Source Floating Point'' ''VEC'' ''VEC''
      64 24 0x600707f0600707f 0x504b0000007f 2054 4 1085 0,
    mk_form ''3e2b1576cbfe'' ''V.FMUL'' ''v.fmul SrcL, SrcR, ->Dst'' ''L64'' ''Three-Source Floating Point'' ''VEC'' ''VEC''
      64 34 0xfe00707ffe00707f 0x204b0000007f 2058 3 1085 0,
    mk_form ''10a12315c34e'' ''V.FNE'' ''v.fne SrcL, SrcR, ->Dst'' ''L64'' ''Two-Source Floating Point'' ''VEC'' ''VEC''
      64 34 0xfe00707ffe00707f 0x105b0000007f 2061 3 1085 0,
    mk_form ''ae92608cb0ea'' ''V.FNES'' ''v.fnes SrcL, SrcR, ->Dst'' ''L64'' ''Two-Source Floating Point'' ''VEC'' ''VEC''
      64 34 0xfe00707ffe00707f 0x505b0000007f 2064 3 1085 0,
    mk_form ''81449b1d3451'' ''V.FNMADD'' ''v.fnmadd SrcL, SrcR, SrcA, ->Dst'' ''L64'' ''Three-Source Floating Point'' ''VEC'' ''VEC''
      64 24 0x600707f0600707f 0x604b0000007f 2067 4 1085 0,
    mk_form ''837584633904'' ''V.FNMSUB'' ''v.fnmsub SrcL, SrcR, SrcA, ->Dst'' ''L64'' ''Three-Source Floating Point'' ''VEC'' ''VEC''
      64 24 0x600707f0600707f 0x704b0000007f 2071 4 1085 0,
    mk_form ''2d3f96b8d7db'' ''V.FRECIP'' ''v.frecip SrcL, ->Dst'' ''L64'' ''Floating Point Arithmetic'' ''VEC'' ''VEC''
      64 44 0xfff0707ffff0707f 0x207b0000007f 2075 2 1085 0]"

lemma chunk_72: "walk_forms kForms_72 kFields_72 kFieldPieces_72 kConstraints_72 2048 2351 1085 2077 2409 1085"
  by (simp add: kForms_72_def kFields_72_def kFieldPieces_72_def kConstraints_72_def walk_eval)

lemma length_kForms_72 [simp]: "length kForms_72 = 9"
  by (simp add: kForms_72_def)

definition kFieldPieces_73 :: "piece_desc list" where
  "kFieldPieces_73 = [
    mk_piece 39 5 0, mk_piece 7 5 5, mk_piece 47 5 0, mk_piece 15 5 5, mk_piece 39 5 0, mk_piece 7 5 5,
    mk_piece 47 5 0, mk_piece 15 5 5, mk_piece 52 5 0, mk_piece 20 5 5, mk_piece 39 5 0, mk_piece 7 5 5,
    mk_piece 47 5 0, mk_piece 15 5 5, mk_piece 59 5 0, mk_piece 52 5 0, mk_piece 39 5 0, mk_piece 7 5 5,
    mk_piece 47 5 0, mk_piece 15 5 5, mk_piece 59 5 0, mk_piece 52 5 0, mk_piece 12 1 0, mk_piece 14 1 0,
    mk_piece 39 5 0, mk_piece 7 5 5, mk_piece 47 5 0, mk_piece 15 5 5, mk_piece 52 5 0, mk_piece 20 5 5,
    mk_piece 59 5 0, mk_piece 12 1 0, mk_piece 14 1 0, mk_piece 39 5 0, mk_piece 7 5 5, mk_piece 47 5 0,
    mk_piece 15 5 5, mk_piece 52 5 0, mk_piece 20 5 5, mk_piece 59 5 0, mk_piece 12 1 0, mk_piece 14 1 0,
    mk_piece 39 5 0, mk_piece 7 5 5, mk_piece 47 5 0, mk_piece 15 5 5, mk_piece 52 12 0, mk_piece 20 12 12,
    mk_piece 12 1 0, mk_piece 14 1 0, mk_piece 39 5 0, mk_piece 7 5 5, mk_piece 47 5 0, mk_piece 15 5 5,
    mk_piece 52 12 0, mk_piece 20 12 12, mk_piece 12 1 0, mk_piece 14 1 0, mk_piece 39 5 0, mk_piece 7 5 5,
    mk_piece 47 5 0, mk_piece 15 5 5, mk_piece 52 5 0, mk_piece 20 5 5, mk_piece 59 5 0]"

definition kFields_73 :: "field_desc list" where
  "kFields_73 = [
    mk_field ''RegDst'' (-1) 10 2409 2, mk_field ''SrcL'' (-1) 10 2411 2, mk_field ''RegDst'' (-1) 10 2413 2,
    mk_field ''SrcL'' (-1) 10 2415 2, mk_field ''SrcR'' (-1) 10 2417 2, mk_field ''RegDst'' (-1) 10 2419 2,
    mk_field ''SrcL'' (-1) 10 2421 2, mk_field ''DstType'' (-1) 5 2423 1, mk_field ''SrcType'' (-1) 5 2424 1,
    mk_field ''RegDst'' (-1) 10 2425 2, mk_field ''SrcL'' (-1) 10 2427 2, mk_field ''DstType'' (-1) 5 2429 1,
    mk_field ''SrcType'' (-1) 5 2430 1, mk_field ''C'' (-1) 1 2431 1, mk_field ''L'' (-1) 1 2432 1,
    mk_field ''RegDst'' (-1) 10 2433 2, mk_field ''SrcL'' (-1) 10 2435 2, mk_field ''SrcR'' (-1) 10 2437 2,
    mk_field ''shamt'' (-1) 5 2439 1, mk_field ''C'' (-1) 1 2440 1, mk_field ''L'' (-1) 1 2441 1,
    mk_field ''RegDst'' (-1) 10 2442 2, mk_field ''SrcL'' (-1) 10 2444 2, mk_field ''SrcR'' (-1) 10 2446 2,
    mk_field ''shamt'' (-1) 5 2448 1, mk_field ''C'' (-1) 1 2449 1, mk_field ''L'' (-1) 1 2450 1,
    mk_field ''RegDst'' (-1) 10 2451 2, mk_field ''SrcL'' (-1) 10 2453 2, mk_field ''simm24'' 1 24 2455 2,
    mk_field ''C'' (-1) 1 2457 1, mk_field ''L'' (-1) 1 2458 1, mk_field ''RegDst'' (-1) 10 2459 2,
    mk_field ''SrcL'' (-1) 10 2461 2, mk_field ''simm24'' 1 24 2463 2, mk_field ''C'' (-1) 1 2465 1,
    mk_field ''L'' (-1) 1 2466 1, mk_field ''RegDst'' (-1) 10 2467 2, mk_field ''SrcL'' (-1) 10 2469 2,
    mk_field ''SrcR'' (-1) 10 2471 2, mk_field ''shamt'' (-1) 5 2473 1]"

definition kConstraints_73 :: "constraint_desc list" where
  "kConstraints_73 = []"

definition kForms_73 :: "form_desc list" where
  "kForms_73 = [
    mk_form ''80e65f8380da'' ''V.FSQRT'' ''v.fsqrt SrcL, ->Dst'' ''L64'' ''Floating Point Arithmetic'' ''VEC'' ''VEC''
      64 44 0xfff0707ffff0707f 0x107b0000007f 2077 2 1085 0,
    mk_form ''09953704a14a'' ''V.FSUB'' ''v.fsub SrcL, SrcR, ->Dst'' ''L64'' ''Three-Source Floating Point'' ''VEC'' ''VEC''
      64 34 0xfe00707ffe00707f 0x104b0000007f 2079 3 1085 0,
    mk_form ''c8fd1bad81c1'' ''V.ICVT'' ''v.icvt.{st2dt} SrcL, ->Dst'' ''L64'' ''Format Convert'' ''VEC'' ''VEC''
      64 34 0x600707ffff0707f 0x606b0000007f 2082 4 1085 0,
    mk_form ''a0f027af74bd'' ''V.ICVTF'' ''v.icvtf.{st2dt} SrcL, ->Dst'' ''L64'' ''Format Convert'' ''VEC'' ''VEC''
      64 34 0x600707ffff0707f 0x706b0000007f 2086 4 1085 0,
    mk_form ''67d7ec296657'' ''V.LB'' ''v.lb<.local> [SrcL, <lc0>, SrcR<<<shamt>], ->Dst'' ''L64'' ''Load Register Offset'' ''VEC'' ''VEC''
      64 27 0x600707ffe00207f 0x90000007f 2090 6 1085 0,
    mk_form ''8766090710da'' ''V.LB.BRG'' ''v.lb.brg<.local> [SrcL,  <lc0>, SrcR<<<shamt>], ->Dst'' ''L64'' ''Load Register Offset'' ''VEC'' ''VEC''
      64 27 0x600707ffe00207f 0x90000207f 2096 6 1085 0,
    mk_form ''5338c0a4b01c'' ''V.LBI'' ''v.lbi<.local> [SrcL, <lc0>, simm], ->Dst'' ''L64'' ''Load Immediate Offset'' ''VEC'' ''VEC''
      64 18 0x707f0000207f 0x190000007f 2102 5 1085 0,
    mk_form ''5223a985d13b'' ''V.LBI.BRG'' ''v.lbi.brg<.local> [SrcL, <lc0>, simm], ->Dst'' ''L64'' ''Load Immediate Offset'' ''VEC'' ''VEC''
      64 18 0x707f0000207f 0x190000207f 2107 5 1085 0,
    mk_form ''08cfacc47e8b'' ''V.LBU'' ''v.lbu<.local> [SrcL, <lc0>, SrcR<<<shamt>], ->Dst'' ''L64'' ''Load Register Offset'' ''VEC'' ''VEC''
      64 27 0x600707ffe00207f 0x40090000007f 2112 6 1085 0]"

lemma chunk_73: "walk_forms kForms_73 kFields_73 kFieldPieces_73 kConstraints_73 2077 2409 1085 2118 2474 1085"
  by (simp add: kForms_73_def kFields_73_def kFieldPieces_73_def kConstraints_73_def walk_eval)

lemma length_kForms_73 [simp]: "length kForms_73 = 9"
  by (simp add: kForms_73_def)

definition kFieldPieces_74 :: "piece_desc list" where
  "kFieldPieces_74 = [
    mk_piece 12 1 0, mk_piece 14 1 0, mk_piece 39 5 0, mk_piece 7 5 5, mk_piece 47 5 0, mk_piece 15 5 5,
    mk_piece 52 5 0, mk_piece 20 5 5, mk_piece 59 5 0, mk_piece 12 1 0, mk_piece 14 1 0, mk_piece 39 5 0,
    mk_piece 7 5 5, mk_piece 47 5 0, mk_piece 15 5 5, mk_piece 52 12 0, mk_piece 20 12 12, mk_piece 12 1 0,
    mk_piece 14 1 0, mk_piece 39 5 0, mk_piece 7 5 5, mk_piece 47 5 0, mk_piece 15 5 5, mk_piece 52 12 0,
    mk_piece 20 12 12, mk_piece 12 1 0, mk_piece 14 1 0, mk_piece 39 5 0, mk_piece 7 5 5, mk_piece 47 5 0,
    mk_piece 15 5 5, mk_piece 52 5 0, mk_piece 20 5 5, mk_piece 59 5 0, mk_piece 39 5 0, mk_piece 7 5 5,
    mk_piece 47 5 0, mk_piece 15 5 5, mk_piece 52 5 0, mk_piece 20 5 5, mk_piece 25 1 0, mk_piece 58 1 0,
    mk_piece 57 1 0, mk_piece 39 5 0, mk_piece 7 5 5, mk_piece 47 5 0, mk_piece 15 5 5, mk_piece 52 5 0,
    mk_piece 20 5 5, mk_piece 25 1 0, mk_piece 58 1 0, mk_piece 57 1 0, mk_piece 12 1 0, mk_piece 14 1 0,
    mk_piece 39 5 0, mk_piece 7 5 5, mk_piece 47 5 0, mk_piece 15 5 5, mk_piece 52 5 0, mk_piece 20 5 5,
    mk_piece 59 5 0, mk_piece 39 5 0, mk_piece 7 5 5, mk_piece 47 5 0, mk_piece 15 5 5, mk_piece 52 5 0,
    mk_piece 20 5 5, mk_piece 25 1 0, mk_piece 58 1 0, mk_piece 57 1 0, mk_piece 39 5 0, mk_piece 7 5 5,
    mk_piece 47 5 0, mk_piece 15 5 5, mk_piece 52 5 0, mk_piece 20 5 5, mk_piece 25 1 0, mk_piece 58 1 0,
    mk_piece 57 1 0]"

definition kFields_74 :: "field_desc list" where
  "kFields_74 = [
    mk_field ''C'' (-1) 1 2474 1, mk_field ''L'' (-1) 1 2475 1, mk_field ''RegDst'' (-1) 10 2476 2,
    mk_field ''SrcL'' (-1) 10 2478 2, mk_field ''SrcR'' (-1) 10 2480 2, mk_field ''shamt'' (-1) 5 2482 1,
    mk_field ''C'' (-1) 1 2483 1, mk_field ''L'' (-1) 1 2484 1, mk_field ''RegDst'' (-1) 10 2485 2,
    mk_field ''SrcL'' (-1) 10 2487 2, mk_field ''simm24'' 1 24 2489 2, mk_field ''C'' (-1) 1 2491 1,
    mk_field ''L'' (-1) 1 2492 1, mk_field ''RegDst'' (-1) 10 2493 2, mk_field ''SrcL'' (-1) 10 2495 2,
    mk_field ''simm24'' 1 24 2497 2, mk_field ''C'' (-1) 1 2499 1, mk_field ''L'' (-1) 1 2500 1,
    mk_field ''RegDst'' (-1) 10 2501 2, mk_field ''SrcL'' (-1) 10 2503 2, mk_field ''SrcR'' (-1) 10 2505 2,
    mk_field ''shamt'' (-1) 5 2507 1, mk_field ''RegDst'' (-1) 10 2508 2, mk_field ''SrcL'' (-1) 10 2510 2,
    mk_field ''SrcR'' (-1) 10 2512 2, mk_field ''far'' (-1) 1 2514 1, mk_field ''aq'' (-1) 1 2515 1,
    mk_field ''rl'' (-1) 1 2516 1, mk_field ''RegDst'' (-1) 10 2517 2, mk_field ''SrcL'' (-1) 10 2519 2,
    mk_field ''SrcR'' (-1) 10 2521 2, mk_field ''far'' (-1) 1 2523 1, mk_field ''aq'' (-1) 1 2524 1,
    mk_field ''rl'' (-1) 1 2525 1, mk_field ''C'' (-1) 1 2526 1, mk_field ''L'' (-1) 1 2527 1,
    mk_field ''RegDst'' (-1) 10 2528 2, mk_field ''SrcL'' (-1) 10 2530 2, mk_field ''SrcR'' (-1) 10 2532 2,
    mk_field ''shamt'' (-1) 5 2534 1, mk_field ''RegDst'' (-1) 10 2535 2, mk_field ''SrcL'' (-1) 10 2537 2,
    mk_field ''SrcR'' (-1) 10 2539 2, mk_field ''far'' (-1) 1 2541 1, mk_field ''aq'' (-1) 1 2542 1,
    mk_field ''rl'' (-1) 1 2543 1, mk_field ''RegDst'' (-1) 10 2544 2, mk_field ''SrcL'' (-1) 10 2546 2,
    mk_field ''SrcR'' (-1) 10 2548 2, mk_field ''far'' (-1) 1 2550 1, mk_field ''aq'' (-1) 1 2551 1,
    mk_field ''rl'' (-1) 1 2552 1]"

definition kConstraints_74 :: "constraint_desc list" where
  "kConstraints_74 = []"

definition kForms_74 :: "form_desc list" where
  "kForms_74 = [
    mk_form ''8981c96ac2c4'' ''V.LBU.BRG'' ''v.lbu.brg<.local> [SrcL, <lc0>, SrcR<<<shamt>], ->Dst'' ''L64'' ''Load Register Offset'' ''VEC'' ''VEC''
      64 27 0x600707ffe00207f 0x40090000207f 2118 6 1085 0,
    mk_form ''129c6d28d8fa'' ''V.LBUI'' ''v.lbui<.local> [SrcL, <lc0>, simm], ->Dst'' ''L64'' ''Load Immediate Offset'' ''VEC'' ''VEC''
      64 18 0x707f0000207f 0x40190000007f 2124 5 1085 0,
    mk_form ''0d4264b0b4fe'' ''V.LBUI.BRG'' ''v.lbui.brg<.local> [SrcL, <lc0>, simm], ->Dst'' ''L64'' ''Load Immediate Offset'' ''VEC'' ''VEC''
      64 18 0x707f0000207f 0x40190000207f 2129 5 1085 0,
    mk_form ''0bb4e0cd9760'' ''V.LD'' ''v.ld<.local> [SrcL, <lc0<<3>, SrcR<<<shamt>], ->Dst'' ''L64'' ''Load Register Offset'' ''VEC'' ''VEC''
      64 27 0x600707ffe00207f 0x30090000007f 2134 6 1085 0,
    mk_form ''b880252ca4af'' ''V.LD.ADD'' ''v.ld.add<.{aq, rl, f, aqrl, aqf, rlf, aqrlf}> [SrcL], SrcR, ->Dst'' ''L64'' ''Atomic Operation'' ''VEC'' ''VEC''
      64 31 0xf800707ffc00707f 0xb0000207f 2140 6 1085 0,
    mk_form ''18248e48be84'' ''V.LD.AND'' ''v.ld.and<.{aq, rl, f, aqrl, aqf, rlf, aqrlf}> [SrcL], SrcR, ->Dst'' ''L64'' ''Atomic Operation'' ''VEC'' ''VEC''
      64 31 0xf800707ffc00707f 0x100b0000207f 2146 6 1085 0,
    mk_form ''44d932c2c42b'' ''V.LD.BRG'' ''v.ld.brg<.local> [SrcL,  <lc0<<3>, SrcR<<<shamt>], ->Dst'' ''L64'' ''Load Register Offset'' ''VEC'' ''VEC''
      64 27 0x600707ffe00207f 0x30090000207f 2152 6 1085 0,
    mk_form ''e35d8e7957c3'' ''V.LD.MAX'' ''v.ld.max<.{aq, rl, f, aqrl, aqf, rlf, aqrlf}> [SrcL], SrcR, ->Dst'' ''L64'' ''Atomic Operation'' ''VEC'' ''VEC''
      64 31 0xf800707ffc00707f 0x400b0000207f 2158 6 1085 0,
    mk_form ''71f54b9b61ae'' ''V.LD.MIN'' ''v.ld.min<.{aq, rl, f, aqrl, aqf, rlf, aqrlf}> [SrcL], SrcR, ->Dst'' ''L64'' ''Atomic Operation'' ''VEC'' ''VEC''
      64 31 0xf800707ffc00707f 0x500b0000207f 2164 6 1085 0]"

lemma chunk_74: "walk_forms kForms_74 kFields_74 kFieldPieces_74 kConstraints_74 2118 2474 1085 2170 2553 1085"
  by (simp add: kForms_74_def kFields_74_def kFieldPieces_74_def kConstraints_74_def walk_eval)

lemma length_kForms_74 [simp]: "length kForms_74 = 9"
  by (simp add: kForms_74_def)

definition kFieldPieces_75 :: "piece_desc list" where
  "kFieldPieces_75 = [
    mk_piece 39 5 0, mk_piece 7 5 5, mk_piece 47 5 0, mk_piece 15 5 5, mk_piece 52 5 0, mk_piece 20 5 5,
    mk_piece 25 1 0, mk_piece 58 1 0, mk_piece 57 1 0, mk_piece 39 5 0, mk_piece 7 5 5, mk_piece 47 5 0,
    mk_piece 15 5 5, mk_piece 52 5 0, mk_piece 20 5 5, mk_piece 25 1 0, mk_piece 58 1 0, mk_piece 57 1 0,
    mk_piece 12 1 0, mk_piece 14 1 0, mk_piece 39 5 0, mk_piece 7 5 5, mk_piece 47 5 0, mk_piece 15 5 5,
    mk_piece 52 12 0, mk_piece 20 12 12, mk_piece 12 1 0, mk_piece 14 1 0, mk_piece 39 5 0, mk_piece 7 5 5,
    mk_piece 47 5 0, mk_piece 15 5 5, mk_piece 52 12 0, mk_piece 20 12 12, mk_piece 12 1 0, mk_piece 14 1 0,
    mk_piece 39 5 0, mk_piece 7 5 5, mk_piece 47 5 0, mk_piece 15 5 5, mk_piece 52 12 0, mk_piece 20 12 12,
    mk_piece 12 1 0, mk_piece 14 1 0, mk_piece 39 5 0, mk_piece 7 5 5, mk_piece 47 5 0, mk_piece 15 5 5,
    mk_piece 52 12 0, mk_piece 20 12 12, mk_piece 12 1 0, mk_piece 14 1 0, mk_piece 39 5 0, mk_piece 7 5 5,
    mk_piece 47 5 0, mk_piece 15 5 5, mk_piece 52 5 0, mk_piece 20 5 5, mk_piece 59 5 0, mk_piece 12 1 0,
    mk_piece 14 1 0, mk_piece 39 5 0, mk_piece 7 5 5, mk_piece 47 5 0, mk_piece 15 5 5, mk_piece 52 5 0,
    mk_piece 20 5 5, mk_piece 59 5 0, mk_piece 12 1 0, mk_piece 14 1 0, mk_piece 39 5 0, mk_piece 7 5 5,
    mk_piece 47 5 0, mk_piece 15 5 5, mk_piece 52 12 0, mk_piece 20 12 12]"

definition kFields_75 :: "field_desc list" where
  "kFields_75 = [
    mk_field ''RegDst'' (-1) 10 2553 2, mk_field ''SrcL'' (-1) 10 2555 2, mk_field ''SrcR'' (-1) 10 2557 2,
    mk_field ''far'' (-1) 1 2559 1, mk_field ''aq'' (-1) 1 2560 1, mk_field ''rl'' (-1) 1 2561 1,
    mk_field ''RegDst'' (-1) 10 2562 2, mk_field ''SrcL'' (-1) 10 2564 2, mk_field ''SrcR'' (-1) 10 2566 2,
    mk_field ''far'' (-1) 1 2568 1, mk_field ''aq'' (-1) 1 2569 1, mk_field ''rl'' (-1) 1 2570 1,
    mk_field ''C'' (-1) 1 2571 1, mk_field ''L'' (-1) 1 2572 1, mk_field ''RegDst'' (-1) 10 2573 2,
    mk_field ''SrcL'' (-1) 10 2575 2, mk_field ''simm24'' 1 24 2577 2, mk_field ''C'' (-1) 1 2579 1,
    mk_field ''L'' (-1) 1 2580 1, mk_field ''RegDst'' (-1) 10 2581 2, mk_field ''SrcL'' (-1) 10 2583 2,
    mk_field ''simm24'' 1 24 2585 2, mk_field ''C'' (-1) 1 2587 1, mk_field ''L'' (-1) 1 2588 1,
    mk_field ''RegDst'' (-1) 10 2589 2, mk_field ''SrcL'' (-1) 10 2591 2, mk_field ''simm24'' 1 24 2593 2,
    mk_field ''C'' (-1) 1 2595 1, mk_field ''L'' (-1) 1 2596 1, mk_field ''RegDst'' (-1) 10 2597 2,
    mk_field ''SrcL'' (-1) 10 2599 2, mk_field ''simm24'' 1 24 2601 2, mk_field ''C'' (-1) 1 2603 1,
    mk_field ''L'' (-1) 1 2604 1, mk_field ''RegDst'' (-1) 10 2605 2, mk_field ''SrcL'' (-1) 10 2607 2,
    mk_field ''SrcR'' (-1) 10 2609 2, mk_field ''shamt'' (-1) 5 2611 1, mk_field ''C'' (-1) 1 2612 1,
    mk_field ''L'' (-1) 1 2613 1, mk_field ''RegDst'' (-1) 10 2614 2, mk_field ''SrcL'' (-1) 10 2616 2,
    mk_field ''SrcR'' (-1) 10 2618 2, mk_field ''shamt'' (-1) 5 2620 1, mk_field ''C'' (-1) 1 2621 1,
    mk_field ''L'' (-1) 1 2622 1, mk_field ''RegDst'' (-1) 10 2623 2, mk_field ''SrcL'' (-1) 10 2625 2,
    mk_field ''simm24'' 1 24 2627 2]"

definition kConstraints_75 :: "constraint_desc list" where
  "kConstraints_75 = []"

definition kForms_75 :: "form_desc list" where
  "kForms_75 = [
    mk_form ''4568b99c9e57'' ''V.LD.OR'' ''v.ld.or<.{aq, rl, f, aqrl, aqf, rlf, aqrlf}> [SrcL], SrcR, ->Dst'' ''L64'' ''Atomic Operation'' ''VEC'' ''VEC''
      64 31 0xf800707ffc00707f 0x200b0000207f 2170 6 1085 0,
    mk_form ''c7a54911a5fa'' ''V.LD.XOR'' ''v.ld.xor<.{aq, rl, f, aqrl, aqf, rlf, aqrlf}> [SrcL], SrcR, ->Dst'' ''L64'' ''Atomic Operation'' ''VEC'' ''VEC''
      64 31 0xf800707ffc00707f 0x300b0000207f 2176 6 1085 0,
    mk_form ''c2dd6f17ebd3'' ''V.LDI'' ''v.ldi<.local> [SrcL, <lc0<<3>, simm], ->Dst'' ''L64'' ''Load Immediate Offset'' ''VEC'' ''VEC''
      64 18 0x707f0000207f 0x30190000007f 2182 5 1085 0,
    mk_form ''1696b123572b'' ''V.LDI.BRG'' ''v.ldi.brg<.local> [SrcL, <lc0<<3>, simm], ->Dst'' ''L64'' ''Load Immediate Offset'' ''VEC'' ''VEC''
      64 18 0x707f0000207f 0x30190000207f 2187 5 1085 0,
    mk_form ''35ef4d60d802'' ''V.LDI.U'' ''v.ldi.u<.local> [SrcL, <lc0<<3>, simm], ->Dst'' ''L64'' ''Load UnScaled'' ''VEC'' ''VEC''
      64 18 0x707f0000207f 0x30290000007f 2192 5 1085 0,
    mk_form ''d8020ef56426'' ''V.LDI.U.BRG'' ''v.ldi.u.brg<.local> [SrcL, <lc0<<3>, simm], ->Dst'' ''L64'' ''Load UnScaled'' ''VEC'' ''VEC''
      64 18 0x707f0000207f 0x30290000207f 2197 5 1085 0,
    mk_form ''4cc8701b698e'' ''V.LH'' ''v.lh<.local> [SrcL, <lc0<<1>, SrcR<<<shamt>], ->Dst'' ''L64'' ''Load Register Offset'' ''VEC'' ''VEC''
      64 27 0x600707ffe00207f 0x10090000007f 2202 6 1085 0,
    mk_form ''dc8629a69767'' ''V.LH.BRG'' ''v.lh.brg<.local> [SrcL,  <lc0<<1>, SrcR<<<shamt>], ->Dst'' ''L64'' ''Load Register Offset'' ''VEC'' ''VEC''
      64 27 0x600707ffe00207f 0x10090000207f 2208 6 1085 0,
    mk_form ''66ae52eb7684'' ''V.LHI'' ''v.lhi<.local> [SrcL, <lc0<<1>, simm], ->Dst'' ''L64'' ''Load Immediate Offset'' ''VEC'' ''VEC''
      64 18 0x707f0000207f 0x10190000007f 2214 5 1085 0]"

lemma chunk_75: "walk_forms kForms_75 kFields_75 kFieldPieces_75 kConstraints_75 2170 2553 1085 2219 2629 1085"
  by (simp add: kForms_75_def kFields_75_def kFieldPieces_75_def kConstraints_75_def walk_eval)

lemma length_kForms_75 [simp]: "length kForms_75 = 9"
  by (simp add: kForms_75_def)

definition kFieldPieces_76 :: "piece_desc list" where
  "kFieldPieces_76 = [
    mk_piece 12 1 0, mk_piece 14 1 0, mk_piece 39 5 0, mk_piece 7 5 5, mk_piece 47 5 0, mk_piece 15 5 5,
    mk_piece 52 12 0, mk_piece 20 12 12, mk_piece 12 1 0, mk_piece 14 1 0, mk_piece 39 5 0, mk_piece 7 5 5,
    mk_piece 47 5 0, mk_piece 15 5 5, mk_piece 52 12 0, mk_piece 20 12 12, mk_piece 12 1 0, mk_piece 14 1 0,
    mk_piece 39 5 0, mk_piece 7 5 5, mk_piece 47 5 0, mk_piece 15 5 5, mk_piece 52 12 0, mk_piece 20 12 12,
    mk_piece 12 1 0, mk_piece 14 1 0, mk_piece 39 5 0, mk_piece 7 5 5, mk_piece 47 5 0, mk_piece 15 5 5,
    mk_piece 52 5 0, mk_piece 20 5 5, mk_piece 59 5 0, mk_piece 12 1 0, mk_piece 14 1 0, mk_piece 39 5 0,
    mk_piece 7 5 5, mk_piece 47 5 0, mk_piece 15 5 5, mk_piece 52 5 0, mk_piece 20 5 5, mk_piece 59 5 0,
    mk_piece 12 1 0, mk_piece 14 1 0, mk_piece 39 5 0, mk_piece 7 5 5, mk_piece 47 5 0, mk_piece 15 5 5,
    mk_piece 52 12 0, mk_piece 20 12 12, mk_piece 12 1 0, mk_piece 14 1 0, mk_piece 39 5 0, mk_piece 7 5 5,
    mk_piece 47 5 0, mk_piece 15 5 5, mk_piece 52 12 0, mk_piece 20 12 12, mk_piece 12 1 0, mk_piece 14 1 0,
    mk_piece 39 5 0, mk_piece 7 5 5, mk_piece 47 5 0, mk_piece 15 5 5, mk_piece 52 12 0, mk_piece 20 12 12,
    mk_piece 12 1 0, mk_piece 14 1 0, mk_piece 39 5 0, mk_piece 7 5 5, mk_piece 47 5 0, mk_piece 15 5 5,
    mk_piece 52 12 0, mk_piece 20 12 12]"

definition kFields_76 :: "field_desc list" where
  "kFields_76 = [
    mk_field ''C'' (-1) 1 2629 1, mk_field ''L'' (-1) 1 2630 1, mk_field ''RegDst'' (-1) 10 2631 2,
    mk_field ''SrcL'' (-1) 10 2633 2, mk_field ''simm24'' 1 24 2635 2, mk_field ''C'' (-1) 1 2637 1,
    mk_field ''L'' (-1) 1 2638 1, mk_field ''RegDst'' (-1) 10 2639 2, mk_field ''SrcL'' (-1) 10 2641 2,
    mk_field ''simm24'' 1 24 2643 2, mk_field ''C'' (-1) 1 2645 1, mk_field ''L'' (-1) 1 2646 1,
    mk_field ''RegDst'' (-1) 10 2647 2, mk_field ''SrcL'' (-1) 10 2649 2, mk_field ''simm24'' 1 24 2651 2,
    mk_field ''C'' (-1) 1 2653 1, mk_field ''L'' (-1) 1 2654 1, mk_field ''RegDst'' (-1) 10 2655 2,
    mk_field ''SrcL'' (-1) 10 2657 2, mk_field ''SrcR'' (-1) 10 2659 2, mk_field ''shamt'' (-1) 5 2661 1,
    mk_field ''C'' (-1) 1 2662 1, mk_field ''L'' (-1) 1 2663 1, mk_field ''RegDst'' (-1) 10 2664 2,
    mk_field ''SrcL'' (-1) 10 2666 2, mk_field ''SrcR'' (-1) 10 2668 2, mk_field ''shamt'' (-1) 5 2670 1,
    mk_field ''C'' (-1) 1 2671 1, mk_field ''L'' (-1) 1 2672 1, mk_field ''RegDst'' (-1) 10 2673 2,
    mk_field ''SrcL'' (-1) 10 2675 2, mk_field ''simm24'' 1 24 2677 2, mk_field ''C'' (-1) 1 2679 1,
    mk_field ''L'' (-1) 1 2680 1, mk_field ''RegDst'' (-1) 10 2681 2, mk_field ''SrcL'' (-1) 10 2683 2,
    mk_field ''simm24'' 1 24 2685 2, mk_field ''C'' (-1) 1 2687 1, mk_field ''L'' (-1) 1 2688 1,
    mk_field ''RegDst'' (-1) 10 2689 2, mk_field ''SrcL'' (-1) 10 2691 2, mk_field ''simm24'' 1 24 2693 2,
    mk_field ''C'' (-1) 1 2695 1, mk_field ''L'' (-1) 1 2696 1, mk_field ''RegDst'' (-1) 10 2697 2,
    mk_field ''SrcL'' (-1) 10 2699 2, mk_field ''simm24'' 1 24 2701 2]"

definition kConstraints_76 :: "constraint_desc list" where
  "kConstraints_76 = []"

definition kForms_76 :: "form_desc list" where
  "kForms_76 = [
    mk_form ''d3af43d94f66'' ''V.LHI.BRG'' ''v.lhi.brg<.local> [SrcL, <lc0<<1>, simm], ->Dst'' ''L64'' ''Load Immediate Offset'' ''VEC'' ''VEC''
      64 18 0x707f0000207f 0x10190000207f 2219 5 1085 0,
    mk_form ''17c014a96651'' ''V.LHI.U'' ''v.lhi.u<.local> [SrcL, <lc0<<1>, simm], ->Dst'' ''L64'' ''Load UnScaled'' ''VEC'' ''VEC''
      64 18 0x707f0000207f 0x10290000007f 2224 5 1085 0,
    mk_form ''97603a7ac88f'' ''V.LHI.U.BRG'' ''v.lhi.u.brg<.local> [SrcL, <lc0<<1>, simm], ->Dst'' ''L64'' ''Load UnScaled'' ''VEC'' ''VEC''
      64 18 0x707f0000207f 0x10290000207f 2229 5 1085 0,
    mk_form ''83e59201d9ae'' ''V.LHU'' ''v.lhu<.local> [SrcL, <lc0<<1>, SrcR<<<shamt>], ->Dst'' ''L64'' ''Load Register Offset'' ''VEC'' ''VEC''
      64 27 0x600707ffe00207f 0x50090000007f 2234 6 1085 0,
    mk_form ''5e9d77a562d0'' ''V.LHU.BRG'' ''v.lhu.brg<.local> [SrcL,  <lc0<<1>, SrcR<<<shamt>], ->Dst'' ''L64'' ''Load Register Offset'' ''VEC'' ''VEC''
      64 27 0x600707ffe00207f 0x50090000207f 2240 6 1085 0,
    mk_form ''0d3046ae3eb8'' ''V.LHUI'' ''v.lhui<.local> [SrcL, <lc0<<1>, simm], ->Dst'' ''L64'' ''Load Immediate Offset'' ''VEC'' ''VEC''
      64 18 0x707f0000207f 0x50190000007f 2246 5 1085 0,
    mk_form ''e3dba0cc2fea'' ''V.LHUI.BRG'' ''v.lhui.brg<.local> [SrcL, <lc0<<1>, simm], ->Dst'' ''L64'' ''Load Immediate Offset'' ''VEC'' ''VEC''
      64 18 0x707f0000207f 0x50190000207f 2251 5 1085 0,
    mk_form ''85625cdca25f'' ''V.LHUI.U'' ''v.lhui.u<.local> [SrcL, <lc0<<1>, simm], ->Dst'' ''L64'' ''Load UnScaled'' ''VEC'' ''VEC''
      64 18 0x707f0000207f 0x50290000007f 2256 5 1085 0,
    mk_form ''3d2e899ff00f'' ''V.LHUI.U.BRG'' ''v.lhui.u.brg<.local> [SrcL, <lc0<<1>, simm], ->Dst'' ''L64'' ''Load UnScaled'' ''VEC'' ''VEC''
      64 18 0x707f0000207f 0x50290000207f 2261 5 1085 0]"

lemma chunk_76: "walk_forms kForms_76 kFields_76 kFieldPieces_76 kConstraints_76 2219 2629 1085 2266 2703 1085"
  by (simp add: kForms_76_def kFields_76_def kFieldPieces_76_def kConstraints_76_def walk_eval)

lemma length_kForms_76 [simp]: "length kForms_76 = 9"
  by (simp add: kForms_76_def)

definition kFieldPieces_77 :: "piece_desc list" where
  "kFieldPieces_77 = [
    mk_piece 12 1 0, mk_piece 14 1 0, mk_piece 39 5 0, mk_piece 7 5 5, mk_piece 47 5 0, mk_piece 15 5 5,
    mk_piece 52 5 0, mk_piece 20 5 5, mk_piece 59 5 0, mk_piece 39 5 0, mk_piece 7 5 5, mk_piece 47 5 0,
    mk_piece 15 5 5, mk_piece 52 5 0, mk_piece 20 5 5, mk_piece 25 1 0, mk_piece 58 1 0, mk_piece 57 1 0,
    mk_piece 39 5 0, mk_piece 7 5 5, mk_piece 47 5 0, mk_piece 15 5 5, mk_piece 52 5 0, mk_piece 20 5 5,
    mk_piece 25 1 0, mk_piece 58 1 0, mk_piece 57 1 0, mk_piece 12 1 0, mk_piece 14 1 0, mk_piece 39 5 0,
    mk_piece 7 5 5, mk_piece 47 5 0, mk_piece 15 5 5, mk_piece 52 5 0, mk_piece 20 5 5, mk_piece 59 5 0,
    mk_piece 39 5 0, mk_piece 7 5 5, mk_piece 47 5 0, mk_piece 15 5 5, mk_piece 52 5 0, mk_piece 20 5 5,
    mk_piece 25 1 0, mk_piece 58 1 0, mk_piece 57 1 0, mk_piece 39 5 0, mk_piece 7 5 5, mk_piece 47 5 0,
    mk_piece 15 5 5, mk_piece 52 5 0, mk_piece 20 5 5, mk_piece 25 1 0, mk_piece 58 1 0, mk_piece 57 1 0,
    mk_piece 39 5 0, mk_piece 7 5 5, mk_piece 47 5 0, mk_piece 15 5 5, mk_piece 52 5 0, mk_piece 20 5 5,
    mk_piece 25 1 0, mk_piece 58 1 0, mk_piece 57 1 0, mk_piece 39 5 0, mk_piece 7 5 5, mk_piece 47 5 0,
    mk_piece 15 5 5, mk_piece 52 5 0, mk_piece 20 5 5, mk_piece 25 1 0, mk_piece 58 1 0, mk_piece 57 1 0,
    mk_piece 12 1 0, mk_piece 14 1 0, mk_piece 39 5 0, mk_piece 7 5 5, mk_piece 47 5 0, mk_piece 15 5 5,
    mk_piece 52 12 0, mk_piece 20 12 12]"

definition kFields_77 :: "field_desc list" where
  "kFields_77 = [
    mk_field ''C'' (-1) 1 2703 1, mk_field ''L'' (-1) 1 2704 1, mk_field ''RegDst'' (-1) 10 2705 2,
    mk_field ''SrcL'' (-1) 10 2707 2, mk_field ''SrcR'' (-1) 10 2709 2, mk_field ''shamt'' (-1) 5 2711 1,
    mk_field ''RegDst'' (-1) 10 2712 2, mk_field ''SrcL'' (-1) 10 2714 2, mk_field ''SrcR'' (-1) 10 2716 2,
    mk_field ''far'' (-1) 1 2718 1, mk_field ''aq'' (-1) 1 2719 1, mk_field ''rl'' (-1) 1 2720 1,
    mk_field ''RegDst'' (-1) 10 2721 2, mk_field ''SrcL'' (-1) 10 2723 2, mk_field ''SrcR'' (-1) 10 2725 2,
    mk_field ''far'' (-1) 1 2727 1, mk_field ''aq'' (-1) 1 2728 1, mk_field ''rl'' (-1) 1 2729 1,
    mk_field ''C'' (-1) 1 2730 1, mk_field ''L'' (-1) 1 2731 1, mk_field ''RegDst'' (-1) 10 2732 2,
    mk_field ''SrcL'' (-1) 10 2734 2, mk_field ''SrcR'' (-1) 10 2736 2, mk_field ''shamt'' (-1) 5 2738 1,
    mk_field ''RegDst'' (-1) 10 2739 2, mk_field ''SrcL'' (-1) 10 2741 2, mk_field ''SrcR'' (-1) 10 2743 2,
    mk_field ''far'' (-1) 1 2745 1, mk_field ''aq'' (-1) 1 2746 1, mk_field ''rl'' (-1) 1 2747 1,
    mk_field ''RegDst'' (-1) 10 2748 2, mk_field ''SrcL'' (-1) 10 2750 2, mk_field ''SrcR'' (-1) 10 2752 2,
    mk_field ''far'' (-1) 1 2754 1, mk_field ''aq'' (-1) 1 2755 1, mk_field ''rl'' (-1) 1 2756 1,
    mk_field ''RegDst'' (-1) 10 2757 2, mk_field ''SrcL'' (-1) 10 2759 2, mk_field ''SrcR'' (-1) 10 2761 2,
    mk_field ''far'' (-1) 1 2763 1, mk_field ''aq'' (-1) 1 2764 1, mk_field ''rl'' (-1) 1 2765 1,
    mk_field ''RegDst'' (-1) 10 2766 2, mk_field ''SrcL'' (-1) 10 2768 2, mk_field ''SrcR'' (-1) 10 2770 2,
    mk_field ''far'' (-1) 1 2772 1, mk_field ''aq'' (-1) 1 2773 1, mk_field ''rl'' (-1) 1 2774 1,
    mk_field ''C'' (-1) 1 2775 1, mk_field ''L'' (-1) 1 2776 1, mk_field ''RegDst'' (-1) 10 2777 2,
    mk_field ''SrcL'' (-1) 10 2779 2, mk_field ''simm24'' 1 24 2781 2]"

definition kConstraints_77 :: "constraint_desc list" where
  "kConstraints_77 = []"

definition kForms_77 :: "form_desc list" where
  "kForms_77 = [
    mk_form ''5a07f2297805'' ''V.LW'' ''v.lw<.local> [SrcL, <lc0<<2>, SrcR<<<shamt>], ->Dst'' ''L64'' ''Load Register Offset'' ''VEC'' ''VEC''
      64 27 0x600707ffe00207f 0x20090000007f 2266 6 1085 0,
    mk_form ''d603802b2bed'' ''V.LW.ADD'' ''v.lw.add<.{aq, rl, f, aqrl, aqf, rlf, aqrlf}> [SrcL], SrcR, ->Dst'' ''L64'' ''Atomic Operation'' ''VEC'' ''VEC''
      64 31 0xf800707ffc00707f 0xb0000007f 2272 6 1085 0,
    mk_form ''c511f6c6aad9'' ''V.LW.AND'' ''v.lw.and<.{aq, rl, f, aqrl, aqf, rlf, aqrlf}> [SrcL], SrcR, ->Dst'' ''L64'' ''Atomic Operation'' ''VEC'' ''VEC''
      64 31 0xf800707ffc00707f 0x100b0000007f 2278 6 1085 0,
    mk_form ''6163b7a621fc'' ''V.LW.BRG'' ''v.lw.brg<.local> [SrcL, <lc0<<2>, SrcR<<<shamt>], ->Dst'' ''L64'' ''Load Register Offset'' ''VEC'' ''VEC''
      64 27 0x600707ffe00207f 0x20090000207f 2284 6 1085 0,
    mk_form ''c7e26075c749'' ''V.LW.MAX'' ''v.lw.max<.{aq, rl, f, aqrl, aqf, rlf, aqrlf}> [SrcL], SrcR, ->Dst'' ''L64'' ''Atomic Operation'' ''VEC'' ''VEC''
      64 31 0xf800707ffc00707f 0x400b0000007f 2290 6 1085 0,
    mk_form ''24160fd76a35'' ''V.LW.MIN'' ''v.lw.min<.{aq, rl, f, aqrl, aqf, rlf, aqrlf}> [SrcL], SrcR, ->Dst'' ''L64'' ''Atomic Operation'' ''VEC'' ''VEC''
      64 31 0xf800707ffc00707f 0x500b0000007f 2296 6 1085 0,
    mk_form ''baf9868390da'' ''V.LW.OR'' ''v.lw.or<.{aq, rl, f, aqrl, aqf, rlf, aqrlf}> [SrcL], SrcR, ->Dst'' ''L64'' ''Atomic Operation'' ''VEC'' ''VEC''
      64 31 0xf800707ffc00707f 0x200b0000007f 2302 6 1085 0,
    mk_form ''a520a467a6d4'' ''V.LW.XOR'' ''v.lw.xor<.{aq, rl, f, aqrl, aqf, rlf, aqrlf}> [SrcL], SrcR, ->Dst'' ''L64'' ''Atomic Operation'' ''VEC'' ''VEC''
      64 31 0xf800707ffc00707f 0x300b0000007f 2308 6 1085 0,
    mk_form ''4170735058bc'' ''V.LWI'' ''v.lwi<.local> [SrcL, <lc0<<2>, simm], ->Dst'' ''L64'' ''Load Immediate Offset'' ''VEC'' ''VEC''
      64 18 0x707f0000207f 0x20190000007f 2314 5 1085 0]"

lemma chunk_77: "walk_forms kForms_77 kFields_77 kFieldPieces_77 kConstraints_77 2266 2703 1085 2319 2783 1085"
  by (simp add: kForms_77_def kFields_77_def kFieldPieces_77_def kConstraints_77_def walk_eval)

lemma length_kForms_77 [simp]: "length kForms_77 = 9"
  by (simp add: kForms_77_def)

end
