(* ===== verification/Isa_Table_13.thy ===== *)
theory Isa_Table_13
  imports Isa_Check
begin

text \<open>
  Forms 702 to 755 of the arrays of \<^verbatim>\<open>src/isa/generated_tables.cpp\<close> (lines 16120 to 16929), with their fields,
  pieces and constraints, in chunks of at most 9 forms, and the check of each chunk.
\<close>

definition kFieldPieces_78 :: "piece_desc list" where
  "kFieldPieces_78 = [
    mk_piece 12 1 0, mk_piece 14 1 0, mk_piece 39 5 0, mk_piece 7 5 5, mk_piece 47 5 0, mk_piece 15 5 5,
    mk_piece 52 12 0, mk_piece 20 12 12, mk_piece 12 1 0, mk_piece 14 1 0, mk_piece 39 5 0, mk_piece 7 5 5,
    mk_piece 47 5 0, mk_piece 15 5 5, mk_piece 52 12 0, mk_piece 20 12 12, mk_piece 12 1 0, mk_piece 14 1 0,
    mk_piece 39 5 0, mk_piece 7 5 5, mk_piece 47 5 0, mk_piece 15 5 5, mk_piece 52 12 0, mk_piece 20 12 12,
    mk_piece 12 1 0, mk_piece 14 1 0, mk_piece 39 5 0, mk_piece 7 5 5, mk_piece 47 5 0, mk_piece 15 5 5,
    mk_piece 52 5 0, mk_piece 20 5 5, mk_piece 59 5 0, mk_piece 12 1 0, mk_piece 14 1 0, mk_piece 39 5 0,
    mk_piece 7 5 5, mk_piece 47 5 0, mk_piece 15 5 5, mk_piece 52 5 0, mk_piece 20 5 5, mk_piece 59 5 0,
    mk_piece 12 1 0, mk_piece 14 1 0, mk_piece 39 5 0, mk_piece 7 5 5, mk_piece 47 5 0, mk_piece 15 5 5,
    mk_piece 52 12 0, mk_piece 20 12 12, mk_piece 12 1 0, mk_piece 14 1 0, mk_piece 39 5 0, mk_piece 7 5 5,
    mk_piece 47 5 0, mk_piece 15 5 5, mk_piece 52 12 0, mk_piece 20 12 12, mk_piece 12 1 0, mk_piece 14 1 0,
    mk_piece 39 5 0, mk_piece 7 5 5, mk_piece 47 5 0, mk_piece 15 5 5, mk_piece 52 12 0, mk_piece 20 12 12,
    mk_piece 12 1 0, mk_piece 14 1 0, mk_piece 39 5 0, mk_piece 7 5 5, mk_piece 47 5 0, mk_piece 15 5 5,
    mk_piece 52 12 0, mk_piece 20 12 12]"

definition kFields_78 :: "field_desc list" where
  "kFields_78 = [
    mk_field ''C'' (-1) 1 2783 1, mk_field ''L'' (-1) 1 2784 1, mk_field ''RegDst'' (-1) 10 2785 2,
    mk_field ''SrcL'' (-1) 10 2787 2, mk_field ''simm24'' 1 24 2789 2, mk_field ''C'' (-1) 1 2791 1,
    mk_field ''L'' (-1) 1 2792 1, mk_field ''RegDst'' (-1) 10 2793 2, mk_field ''SrcL'' (-1) 10 2795 2,
    mk_field ''simm24'' 1 24 2797 2, mk_field ''C'' (-1) 1 2799 1, mk_field ''L'' (-1) 1 2800 1,
    mk_field ''RegDst'' (-1) 10 2801 2, mk_field ''SrcL'' (-1) 10 2803 2, mk_field ''simm24'' 1 24 2805 2,
    mk_field ''C'' (-1) 1 2807 1, mk_field ''L'' (-1) 1 2808 1, mk_field ''RegDst'' (-1) 10 2809 2,
    mk_field ''SrcL'' (-1) 10 2811 2, mk_field ''SrcR'' (-1) 10 2813 2, mk_field ''shamt'' (-1) 5 2815 1,
    mk_field ''C'' (-1) 1 2816 1, mk_field ''L'' (-1) 1 2817 1, mk_field ''RegDst'' (-1) 10 2818 2,
    mk_field ''SrcL'' (-1) 10 2820 2, mk_field ''SrcR'' (-1) 10 2822 2, mk_field ''shamt'' (-1) 5 2824 1,
    mk_field ''C'' (-1) 1 2825 1, mk_field ''L'' (-1) 1 2826 1, mk_field ''RegDst'' (-1) 10 2827 2,
    mk_field ''SrcL'' (-1) 10 2829 2, mk_field ''simm24'' 1 24 2831 2, mk_field ''C'' (-1) 1 2833 1,
    mk_field ''L'' (-1) 1 2834 1, mk_field ''RegDst'' (-1) 10 2835 2, mk_field ''SrcL'' (-1) 10 2837 2,
    mk_field ''simm24'' 1 24 2839 2, mk_field ''C'' (-1) 1 2841 1, mk_field ''L'' (-1) 1 2842 1,
    mk_field ''RegDst'' (-1) 10 2843 2, mk_field ''SrcL'' (-1) 10 2845 2, mk_field ''simm24'' 1 24 2847 2,
    mk_field ''C'' (-1) 1 2849 1, mk_field ''L'' (-1) 1 2850 1, mk_field ''RegDst'' (-1) 10 2851 2,
    mk_field ''SrcL'' (-1) 10 2853 2, mk_field ''simm24'' 1 24 2855 2]"

definition kConstraints_78 :: "constraint_desc list" where
  "kConstraints_78 = []"

definition kForms_78 :: "form_desc list" where
  "kForms_78 = [
    mk_form ''3932bb713dc5'' ''V.LWI.BRG'' ''v.lwi.brg<.local> [SrcL, <lc0<<2>, simm], ->Dst'' ''L64'' ''Load Immediate Offset'' ''VEC'' ''VEC''
      64 18 0x707f0000207f 0x20190000207f 2319 5 1085 0,
    mk_form ''d1beea8b7141'' ''V.LWI.U'' ''v.lwi.u<.local> [SrcL, <lc0<<2>, simm], ->Dst'' ''L64'' ''Load UnScaled'' ''VEC'' ''VEC''
      64 18 0x707f0000207f 0x20290000007f 2324 5 1085 0,
    mk_form ''b45d0f75f04f'' ''V.LWI.U.BRG'' ''v.lwi.u.brg<.local> [SrcL, <lc0<<2>, simm], ->Dst'' ''L64'' ''Load UnScaled'' ''VEC'' ''VEC''
      64 18 0x707f0000207f 0x20290000207f 2329 5 1085 0,
    mk_form ''aa72372808ed'' ''V.LWU'' ''v.lwu<.local> [SrcL, <lc0<<2>, SrcR<<<shamt>], ->Dst'' ''L64'' ''Load Register Offset'' ''VEC'' ''VEC''
      64 27 0x600707ffe00207f 0x60090000007f 2334 6 1085 0,
    mk_form ''c457e812a9a5'' ''V.LWU.BRG'' ''v.lwu.brg<.local> [SrcL,  <lc0<<2>, SrcR<<<shamt>], ->Dst'' ''L64'' ''Load Register Offset'' ''VEC'' ''VEC''
      64 27 0x600707ffe00207f 0x60090000207f 2340 6 1085 0,
    mk_form ''f96d1ab639ad'' ''V.LWUI'' ''v.lwui<.local> [SrcL, <lc0<<2>, simm], ->Dst'' ''L64'' ''Load Immediate Offset'' ''VEC'' ''VEC''
      64 18 0x707f0000207f 0x60190000007f 2346 5 1085 0,
    mk_form ''340c2e2b1ddb'' ''V.LWUI.BRG'' ''v.lwui.brg<.local> [SrcL, <lc0<<2>, simm], ->Dst'' ''L64'' ''Load Immediate Offset'' ''VEC'' ''VEC''
      64 18 0x707f0000207f 0x60190000207f 2351 5 1085 0,
    mk_form ''88aa7700d8b1'' ''V.LWUI.U'' ''v.lwui.u<.local> [SrcL, <lc0<<2>, simm], ->Dst'' ''L64'' ''Load UnScaled'' ''VEC'' ''VEC''
      64 18 0x707f0000207f 0x60290000007f 2356 5 1085 0,
    mk_form ''2b7c4722c62c'' ''V.LWUI.U.BRG'' ''v.lwui.u.brg<.local> [SrcL, <lc0<<2>, simm], ->Dst'' ''L64'' ''Load UnScaled'' ''VEC'' ''VEC''
      64 18 0x707f0000207f 0x60290000207f 2361 5 1085 0]"

lemma chunk_78: "walk_forms kForms_78 kFields_78 kFieldPieces_78 kConstraints_78 2319 2783 1085 2366 2857 1085"
  by (simp add: kForms_78_def kFields_78_def kFieldPieces_78_def kConstraints_78_def walk_eval)

lemma length_kForms_78 [simp]: "length kForms_78 = 9"
  by (simp add: kForms_78_def)

definition kFieldPieces_79 :: "piece_desc list" where
  "kFieldPieces_79 = [
    mk_piece 39 5 0, mk_piece 7 5 5, mk_piece 59 5 0, mk_piece 27 5 5, mk_piece 47 5 0, mk_piece 15 5 5,
    mk_piece 52 5 0, mk_piece 20 5 5, mk_piece 39 5 0, mk_piece 7 5 5, mk_piece 47 5 0, mk_piece 15 5 5,
    mk_piece 52 5 0, mk_piece 20 5 5, mk_piece 39 5 0, mk_piece 7 5 5, mk_piece 47 5 0, mk_piece 15 5 5,
    mk_piece 52 5 0, mk_piece 20 5 5, mk_piece 39 5 0, mk_piece 7 5 5, mk_piece 47 5 0, mk_piece 15 5 5,
    mk_piece 52 5 0, mk_piece 20 5 5, mk_piece 39 5 0, mk_piece 7 5 5, mk_piece 47 5 0, mk_piece 15 5 5,
    mk_piece 52 5 0, mk_piece 20 5 5, mk_piece 57 2 0, mk_piece 59 5 0, mk_piece 39 5 0, mk_piece 7 5 5,
    mk_piece 47 5 0, mk_piece 15 5 5, mk_piece 52 12 0, mk_piece 39 5 0, mk_piece 7 5 5, mk_piece 47 5 0,
    mk_piece 15 5 5, mk_piece 52 5 0, mk_piece 20 5 5, mk_piece 59 5 0, mk_piece 27 5 5, mk_piece 57 2 0,
    mk_piece 39 5 0, mk_piece 7 5 5, mk_piece 47 5 0, mk_piece 15 5 5, mk_piece 39 5 0, mk_piece 7 5 5,
    mk_piece 47 5 0, mk_piece 15 5 5, mk_piece 52 5 0, mk_piece 20 5 5]"

definition kFields_79 :: "field_desc list" where
  "kFields_79 = [
    mk_field ''RegDst'' (-1) 10 2857 2, mk_field ''SrcD'' (-1) 10 2859 2, mk_field ''SrcL'' (-1) 10 2861 2,
    mk_field ''SrcR'' (-1) 10 2863 2, mk_field ''RegDst'' (-1) 10 2865 2, mk_field ''SrcL'' (-1) 10 2867 2,
    mk_field ''SrcR'' (-1) 10 2869 2, mk_field ''RegDst'' (-1) 10 2871 2, mk_field ''SrcL'' (-1) 10 2873 2,
    mk_field ''SrcR'' (-1) 10 2875 2, mk_field ''RegDst'' (-1) 10 2877 2, mk_field ''SrcL'' (-1) 10 2879 2,
    mk_field ''SrcR'' (-1) 10 2881 2, mk_field ''RegDst'' (-1) 10 2883 2, mk_field ''SrcL'' (-1) 10 2885 2,
    mk_field ''SrcR'' (-1) 10 2887 2, mk_field ''SrcRType'' (-1) 2 2889 1, mk_field ''shamt'' (-1) 5 2890 1,
    mk_field ''RegDst'' (-1) 10 2891 2, mk_field ''SrcL'' (-1) 10 2893 2, mk_field ''simm12'' 1 12 2895 1,
    mk_field ''RegDst'' (-1) 10 2896 2, mk_field ''SrcL'' (-1) 10 2898 2, mk_field ''SrcR'' (-1) 10 2900 2,
    mk_field ''SrcZero'' (-1) 10 2902 2, mk_field ''SrcRType'' (-1) 2 2904 1,
    mk_field ''RegDst'' (-1) 10 2905 2, mk_field ''SrcL'' (-1) 10 2907 2, mk_field ''RegDst'' (-1) 10 2909 2,
    mk_field ''SrcL'' (-1) 10 2911 2, mk_field ''SrcR'' (-1) 10 2913 2]"

definition kConstraints_79 :: "constraint_desc list" where
  "kConstraints_79 = []"

definition kForms_79 :: "form_desc list" where
  "kForms_79 = [
    mk_form ''2f35316993e7'' ''V.MADD'' ''v.madd SrcL, SrcR, SrcD, ->Dst'' ''L64'' ''Multi-Cycle ALU'' ''VEC'' ''VEC''
      64 24 0x600707f0600707f 0x60470000007f 2366 4 1085 0,
    mk_form ''55094376ca8f'' ''V.MAX'' ''v.max SrcL, SrcR, ->Dst'' ''L64'' ''Two-Source Floating Point'' ''VEC'' ''VEC''
      64 34 0xfe00707ffe00707f 0x5b0000107f 2370 3 1085 0,
    mk_form ''12f02fa489a3'' ''V.MIN'' ''v.min SrcL, SrcR, ->Dst'' ''L64'' ''Two-Source Floating Point'' ''VEC'' ''VEC''
      64 34 0xfe00707ffe00707f 0x105b0000107f 2373 3 1085 0,
    mk_form ''06ac4ba10daf'' ''V.MUL'' ''v.mul SrcL, SrcR, ->Dst'' ''L64'' ''Multi-Cycle ALU'' ''VEC'' ''VEC''
      64 34 0xfe00707ffe00707f 0x470000007f 2376 3 1085 0,
    mk_form ''78638ca1ae6f'' ''V.OR'' ''v.or SrcL, SrcR<.not><<<shamt>, ->Dst'' ''L64'' ''Arithmetic Operation'' ''VEC'' ''VEC''
      64 27 0x707ffe00707f 0x30050000007f 2379 5 1085 0,
    mk_form ''291c8721af33'' ''V.ORI'' ''v.ori SrcL, simm, ->Dst'' ''L64'' ''Arithmetic Operation'' ''VEC'' ''VEC''
      64 32 0x707ffff0707f 0x30150000007f 2384 3 1085 0,
    mk_form ''81ba051be364'' ''V.PSEL'' ''v.psel  SrcP, SrcL, SrcR<.neg>, ->Dst'' ''L64'' ''Three Source Integer'' ''VEC'' ''VEC''
      64 22 0x707f0600707f 0x10770000007f 2387 5 1085 0,
    mk_form ''7938584b79ed'' ''V.QPOP'' ''v.qpop SrcL.ud, ->Dst'' ''L64'' ''General Manager'' ''CMD'' ''CMD''
      64 44 0xfff0707ffff0707f 0x207d0000007f 2392 2 1085 0,
    mk_form ''b1e840184b4c'' ''V.QPUSH'' ''v.qpush SrcL.ud, SrcR.ud, ->Dst'' ''L64'' ''General Manager'' ''CMD'' ''CMD''
      64 34 0xfe00707ffe00707f 0x107d0000007f 2394 3 1085 0]"

lemma chunk_79: "walk_forms kForms_79 kFields_79 kFieldPieces_79 kConstraints_79 2366 2857 1085 2397 2915 1085"
  by (simp add: kForms_79_def kFields_79_def kFieldPieces_79_def kConstraints_79_def walk_eval)

lemma length_kForms_79 [simp]: "length kForms_79 = 9"
  by (simp add: kForms_79_def)

definition kFieldPieces_80 :: "piece_desc list" where
  "kFieldPieces_80 = [
    mk_piece 39 5 0, mk_piece 7 5 5, mk_piece 47 5 0, mk_piece 15 5 5, mk_piece 39 5 0, mk_piece 7 5 5,
    mk_piece 47 5 0, mk_piece 15 5 5, mk_piece 39 5 0, mk_piece 7 5 5, mk_piece 47 5 0, mk_piece 15 5 5,
    mk_piece 39 5 0, mk_piece 7 5 5, mk_piece 47 5 0, mk_piece 15 5 5, mk_piece 39 5 0, mk_piece 7 5 5,
    mk_piece 47 5 0, mk_piece 15 5 5, mk_piece 39 5 0, mk_piece 7 5 5, mk_piece 47 5 0, mk_piece 15 5 5,
    mk_piece 39 5 0, mk_piece 7 5 5, mk_piece 47 5 0, mk_piece 15 5 5, mk_piece 39 5 0, mk_piece 7 5 5,
    mk_piece 47 5 0, mk_piece 15 5 5, mk_piece 39 5 0, mk_piece 7 5 5, mk_piece 47 5 0, mk_piece 15 5 5]"

definition kFields_80 :: "field_desc list" where
  "kFields_80 = [
    mk_field ''RegDst'' (-1) 10 2915 2, mk_field ''SrcL'' (-1) 10 2917 2, mk_field ''RegDst'' (-1) 10 2919 2,
    mk_field ''SrcL'' (-1) 10 2921 2, mk_field ''RegDst'' (-1) 10 2923 2, mk_field ''SrcL'' (-1) 10 2925 2,
    mk_field ''RegDst'' (-1) 10 2927 2, mk_field ''SrcL'' (-1) 10 2929 2, mk_field ''RegDst'' (-1) 10 2931 2,
    mk_field ''SrcL'' (-1) 10 2933 2, mk_field ''RegDst'' (-1) 10 2935 2, mk_field ''SrcL'' (-1) 10 2937 2,
    mk_field ''RegDst'' (-1) 10 2939 2, mk_field ''SrcL'' (-1) 10 2941 2, mk_field ''RegDst'' (-1) 10 2943 2,
    mk_field ''SrcL'' (-1) 10 2945 2, mk_field ''RegDst'' (-1) 10 2947 2, mk_field ''SrcL'' (-1) 10 2949 2]"

definition kConstraints_80 :: "constraint_desc list" where
  "kConstraints_80 = []"

definition kForms_80 :: "form_desc list" where
  "kForms_80 = [
    mk_form ''63d092ba608e'' ''V.RDADD'' ''v.rdadd SrcL, ->Dst'' ''L64'' ''Reduce Operation with Register'' ''VEC'' ''VEC''
      64 44 0xfff0707ffff0707f 0xd0000007f 2397 2 1085 0,
    mk_form ''fe7c23ec9e7d'' ''V.RDAND'' ''v.rdand SrcL, ->Dst'' ''L64'' ''Reduce Operation with Register'' ''VEC'' ''VEC''
      64 44 0xfff0707ffff0707f 0x100d0000007f 2399 2 1085 0,
    mk_form ''bc0fe646d243'' ''V.RDFADD'' ''v.rdfadd SrcL, ->Dst'' ''L64'' ''Reduce Operation with Register'' ''VEC'' ''VEC''
      64 44 0xfff0707ffff0707f 0x400d0000007f 2401 2 1085 0,
    mk_form ''ca8b0184cd49'' ''V.RDFMAX'' ''v.rdfmax SrcL, ->Dst'' ''L64'' ''Reduce Operation with Register'' ''VEC'' ''VEC''
      64 44 0xfff0707ffff0707f 0x200d0000107f 2403 2 1085 0,
    mk_form ''f5219d0eca5d'' ''V.RDFMIN'' ''v.rdfmin SrcL, ->Dst'' ''L64'' ''Reduce Operation with Register'' ''VEC'' ''VEC''
      64 44 0xfff0707ffff0707f 0x300d0000107f 2405 2 1085 0,
    mk_form ''97dc8ada3b96'' ''V.RDMAX'' ''v.rdmax SrcL, ->Dst'' ''L64'' ''Reduce Operation with Register'' ''VEC'' ''VEC''
      64 44 0xfff0707ffff0707f 0xd0000107f 2407 2 1085 0,
    mk_form ''5b3c823f5a19'' ''V.RDMIN'' ''v.rdmin SrcL, ->Dst'' ''L64'' ''Reduce Operation with Register'' ''VEC'' ''VEC''
      64 44 0xfff0707ffff0707f 0x100d0000107f 2409 2 1085 0,
    mk_form ''ef5693869e58'' ''V.RDOR'' ''v.rdor SrcL,  ->Dst'' ''L64'' ''Reduce Operation with Register'' ''VEC'' ''VEC''
      64 44 0xfff0707ffff0707f 0x200d0000007f 2411 2 1085 0,
    mk_form ''6d27d9e02c62'' ''V.RDXOR'' ''v.rdxor SrcL, ->Dst'' ''L64'' ''Reduce Operation with Register'' ''VEC'' ''VEC''
      64 44 0xfff0707ffff0707f 0x300d0000007f 2413 2 1085 0]"

lemma chunk_80: "walk_forms kForms_80 kFields_80 kFieldPieces_80 kConstraints_80 2397 2915 1085 2415 2951 1085"
  by (simp add: kForms_80_def kFields_80_def kFieldPieces_80_def kConstraints_80_def walk_eval)

lemma length_kForms_80 [simp]: "length kForms_80 = 9"
  by (simp add: kForms_80_def)

definition kFieldPieces_81 :: "piece_desc list" where
  "kFieldPieces_81 = [
    mk_piece 39 5 0, mk_piece 7 5 5, mk_piece 47 5 0, mk_piece 15 5 5, mk_piece 52 5 0, mk_piece 20 5 5,
    mk_piece 39 5 0, mk_piece 7 5 5, mk_piece 47 5 0, mk_piece 15 5 5, mk_piece 52 6 0, mk_piece 58 6 0,
    mk_piece 12 1 0, mk_piece 14 1 0, mk_piece 59 5 0, mk_piece 27 5 5, mk_piece 47 5 0, mk_piece 15 5 5,
    mk_piece 52 5 0, mk_piece 20 5 5, mk_piece 7 5 0, mk_piece 12 1 0, mk_piece 14 1 0, mk_piece 59 5 0,
    mk_piece 27 5 5, mk_piece 47 5 0, mk_piece 15 5 5, mk_piece 52 5 0, mk_piece 20 5 5, mk_piece 7 5 0,
    mk_piece 12 1 0, mk_piece 14 1 0, mk_piece 47 5 0, mk_piece 15 5 5, mk_piece 52 5 0, mk_piece 20 5 5,
    mk_piece 57 7 0, mk_piece 39 5 7, mk_piece 25 7 12, mk_piece 7 5 19, mk_piece 12 1 0, mk_piece 14 1 0,
    mk_piece 47 5 0, mk_piece 15 5 5, mk_piece 52 5 0, mk_piece 20 5 5, mk_piece 57 7 0, mk_piece 39 5 7,
    mk_piece 25 7 12, mk_piece 7 5 19, mk_piece 12 1 0, mk_piece 14 1 0, mk_piece 59 5 0, mk_piece 27 5 5,
    mk_piece 47 5 0, mk_piece 15 5 5, mk_piece 52 5 0, mk_piece 20 5 5, mk_piece 7 5 0, mk_piece 47 5 0,
    mk_piece 15 5 5, mk_piece 52 5 0, mk_piece 20 5 5, mk_piece 25 1 0, mk_piece 26 1 0, mk_piece 57 1 0,
    mk_piece 47 5 0, mk_piece 15 5 5, mk_piece 52 5 0, mk_piece 20 5 5, mk_piece 25 1 0, mk_piece 26 1 0,
    mk_piece 57 1 0]"

definition kFields_81 :: "field_desc list" where
  "kFields_81 = [
    mk_field ''RegDst'' (-1) 10 2951 2, mk_field ''SrcL'' (-1) 10 2953 2, mk_field ''SrcR'' (-1) 10 2955 2,
    mk_field ''RegDst'' (-1) 10 2957 2, mk_field ''SrcL'' (-1) 10 2959 2, mk_field ''imml'' (-1) 6 2961 1,
    mk_field ''immr'' (-1) 6 2962 1, mk_field ''C'' (-1) 1 2963 1, mk_field ''L'' (-1) 1 2964 1,
    mk_field ''SrcD'' (-1) 10 2965 2, mk_field ''SrcL'' (-1) 10 2967 2, mk_field ''SrcR'' (-1) 10 2969 2,
    mk_field ''shamt'' (-1) 5 2971 1, mk_field ''C'' (-1) 1 2972 1, mk_field ''L'' (-1) 1 2973 1,
    mk_field ''SrcD'' (-1) 10 2974 2, mk_field ''SrcL'' (-1) 10 2976 2, mk_field ''SrcR'' (-1) 10 2978 2,
    mk_field ''shamt'' (-1) 5 2980 1, mk_field ''C'' (-1) 1 2981 1, mk_field ''L'' (-1) 1 2982 1,
    mk_field ''SrcL'' (-1) 10 2983 2, mk_field ''SrcR'' (-1) 10 2985 2, mk_field ''simm24'' 1 24 2987 4,
    mk_field ''C'' (-1) 1 2991 1, mk_field ''L'' (-1) 1 2992 1, mk_field ''SrcL'' (-1) 10 2993 2,
    mk_field ''SrcR'' (-1) 10 2995 2, mk_field ''simm24'' 1 24 2997 4, mk_field ''C'' (-1) 1 3001 1,
    mk_field ''L'' (-1) 1 3002 1, mk_field ''SrcD'' (-1) 10 3003 2, mk_field ''SrcL'' (-1) 10 3005 2,
    mk_field ''SrcR'' (-1) 10 3007 2, mk_field ''shamt'' (-1) 5 3009 1, mk_field ''SrcL'' (-1) 10 3010 2,
    mk_field ''SrcR'' (-1) 10 3012 2, mk_field ''far'' (-1) 1 3014 1, mk_field ''rd'' (-1) 1 3015 1,
    mk_field ''rl'' (-1) 1 3016 1, mk_field ''SrcL'' (-1) 10 3017 2, mk_field ''SrcR'' (-1) 10 3019 2,
    mk_field ''far'' (-1) 1 3021 1, mk_field ''rd'' (-1) 1 3022 1, mk_field ''rl'' (-1) 1 3023 1]"

definition kConstraints_81 :: "constraint_desc list" where
  "kConstraints_81 = []"

definition kForms_81 :: "form_desc list" where
  "kForms_81 = [
    mk_form ''b3ed504ae3f4'' ''V.REM'' ''v.rem SrcL, SrcR, ->Dst'' ''L64'' ''Division'' ''VEC'' ''VEC''
      64 34 0xfe00707ffe00707f 0x40570000007f 2415 3 1085 0,
    mk_form ''3670c780708d'' ''V.REV'' ''v.rev SrcL, M, N, ->Dst'' ''L64'' ''Bit Manipulation'' ''VEC'' ''VEC''
      64 32 0x707ffff0707f 0x70670000007f 2418 4 1085 0,
    mk_form ''271c7fb69b1d'' ''V.SB'' ''v.sb<.local> SrcD.<T1>, [SrcL, <lc0>, SrcR.<T2><<<shamt>]'' ''L64'' ''Store Register Offset'' ''VEC'' ''VEC''
      64 27 0x6007fff0600207f 0x490000007f 2422 6 1085 0,
    mk_form ''e267665cc8e1'' ''V.SB.BRG'' ''v.sb.brg<.local> SrcD.<T1>, [SrcL, <lc0>, SrcR.<T2><<<shamt>]'' ''L64'' ''Store Register Offset'' ''VEC'' ''VEC''
      64 27 0x6007fff0600207f 0x490000207f 2428 6 1085 0,
    mk_form ''7ee65c84adb3'' ''V.SBI'' ''v.sbi<.local> SrcL, [SrcR, <lc0>, simm]'' ''L64'' ''Store Offset'' ''VEC'' ''VEC''
      64 18 0x707f0000207f 0x590000007f 2434 5 1085 0,
    mk_form ''2c1623f8e7ec'' ''V.SBI.BRG'' ''v.sbi.brg<.local> SrcL, [SrcR, <lc0>,  simm]'' ''L64'' ''Store Offset'' ''VEC'' ''VEC''
      64 18 0x707f0000207f 0x590000207f 2439 5 1085 0,
    mk_form ''babe74d4ce5e'' ''V.SD'' ''v.sd<.local> SrcD.<T1>, [SrcL, <lc0<<3>, SrcR.<T2><<(3+shamt)]'' ''L64'' ''Store Register Offset'' ''VEC'' ''VEC''
      64 27 0x6007fff0600207f 0x30490000007f 2444 6 1085 0,
    mk_form ''9d01cd1060a2'' ''V.SD.ADD'' ''v.sd.add<.{rl, f, rd, rlf, rdf, rlrd, rlrdf}> [SrcL], SrcR'' ''L64'' ''Atomic Operation'' ''VEC'' ''VEC''
      64 41 0xfc007ffff8007fff 0xb0000307f 2450 5 1085 0,
    mk_form ''bd9bc82be46e'' ''V.SD.AND'' ''v.sd.and<.{rl, f, rd, rlf, rdf, rlrd, rlrdf}> [SrcL], SrcR'' ''L64'' ''Atomic Operation'' ''VEC'' ''VEC''
      64 41 0xfc007ffff8007fff 0x100b0000307f 2455 5 1085 0]"

lemma chunk_81: "walk_forms kForms_81 kFields_81 kFieldPieces_81 kConstraints_81 2415 2951 1085 2460 3024 1085"
  by (simp add: kForms_81_def kFields_81_def kFieldPieces_81_def kConstraints_81_def walk_eval)

lemma length_kForms_81 [simp]: "length kForms_81 = 9"
  by (simp add: kForms_81_def)

definition kFieldPieces_82 :: "piece_desc list" where
  "kFieldPieces_82 = [
    mk_piece 12 1 0, mk_piece 14 1 0, mk_piece 59 5 0, mk_piece 27 5 5, mk_piece 47 5 0, mk_piece 15 5 5,
    mk_piece 52 5 0, mk_piece 20 5 5, mk_piece 7 5 0, mk_piece 47 5 0, mk_piece 15 5 5, mk_piece 52 5 0,
    mk_piece 20 5 5, mk_piece 25 1 0, mk_piece 26 1 0, mk_piece 57 1 0, mk_piece 47 5 0, mk_piece 15 5 5,
    mk_piece 52 5 0, mk_piece 20 5 5, mk_piece 25 1 0, mk_piece 26 1 0, mk_piece 57 1 0, mk_piece 47 5 0,
    mk_piece 15 5 5, mk_piece 52 5 0, mk_piece 20 5 5, mk_piece 25 1 0, mk_piece 26 1 0, mk_piece 57 1 0,
    mk_piece 12 1 0, mk_piece 14 1 0, mk_piece 59 5 0, mk_piece 27 5 5, mk_piece 47 5 0, mk_piece 15 5 5,
    mk_piece 52 5 0, mk_piece 20 5 5, mk_piece 7 5 0, mk_piece 12 1 0, mk_piece 14 1 0, mk_piece 59 5 0,
    mk_piece 27 5 5, mk_piece 47 5 0, mk_piece 15 5 5, mk_piece 52 5 0, mk_piece 20 5 5, mk_piece 7 5 0,
    mk_piece 47 5 0, mk_piece 15 5 5, mk_piece 52 5 0, mk_piece 20 5 5, mk_piece 25 1 0, mk_piece 26 1 0,
    mk_piece 57 1 0, mk_piece 12 1 0, mk_piece 14 1 0, mk_piece 47 5 0, mk_piece 15 5 5, mk_piece 52 5 0,
    mk_piece 20 5 5, mk_piece 57 7 0, mk_piece 39 5 7, mk_piece 25 7 12, mk_piece 7 5 19, mk_piece 12 1 0,
    mk_piece 14 1 0, mk_piece 47 5 0, mk_piece 15 5 5, mk_piece 52 5 0, mk_piece 20 5 5, mk_piece 57 7 0,
    mk_piece 39 5 7, mk_piece 25 7 12, mk_piece 7 5 19]"

definition kFields_82 :: "field_desc list" where
  "kFields_82 = [
    mk_field ''C'' (-1) 1 3024 1, mk_field ''L'' (-1) 1 3025 1, mk_field ''SrcD'' (-1) 10 3026 2,
    mk_field ''SrcL'' (-1) 10 3028 2, mk_field ''SrcR'' (-1) 10 3030 2, mk_field ''shamt'' (-1) 5 3032 1,
    mk_field ''SrcL'' (-1) 10 3033 2, mk_field ''SrcR'' (-1) 10 3035 2, mk_field ''far'' (-1) 1 3037 1,
    mk_field ''rd'' (-1) 1 3038 1, mk_field ''rl'' (-1) 1 3039 1, mk_field ''SrcL'' (-1) 10 3040 2,
    mk_field ''SrcR'' (-1) 10 3042 2, mk_field ''far'' (-1) 1 3044 1, mk_field ''rd'' (-1) 1 3045 1,
    mk_field ''rl'' (-1) 1 3046 1, mk_field ''SrcL'' (-1) 10 3047 2, mk_field ''SrcR'' (-1) 10 3049 2,
    mk_field ''far'' (-1) 1 3051 1, mk_field ''rd'' (-1) 1 3052 1, mk_field ''rl'' (-1) 1 3053 1,
    mk_field ''C'' (-1) 1 3054 1, mk_field ''L'' (-1) 1 3055 1, mk_field ''SrcD'' (-1) 10 3056 2,
    mk_field ''SrcL'' (-1) 10 3058 2, mk_field ''SrcR'' (-1) 10 3060 2, mk_field ''shamt'' (-1) 5 3062 1,
    mk_field ''C'' (-1) 1 3063 1, mk_field ''L'' (-1) 1 3064 1, mk_field ''SrcD'' (-1) 10 3065 2,
    mk_field ''SrcL'' (-1) 10 3067 2, mk_field ''SrcR'' (-1) 10 3069 2, mk_field ''shamt'' (-1) 5 3071 1,
    mk_field ''SrcL'' (-1) 10 3072 2, mk_field ''SrcR'' (-1) 10 3074 2, mk_field ''far'' (-1) 1 3076 1,
    mk_field ''rd'' (-1) 1 3077 1, mk_field ''rl'' (-1) 1 3078 1, mk_field ''C'' (-1) 1 3079 1,
    mk_field ''L'' (-1) 1 3080 1, mk_field ''SrcL'' (-1) 10 3081 2, mk_field ''SrcR'' (-1) 10 3083 2,
    mk_field ''simm24'' 1 24 3085 4, mk_field ''C'' (-1) 1 3089 1, mk_field ''L'' (-1) 1 3090 1,
    mk_field ''SrcL'' (-1) 10 3091 2, mk_field ''SrcR'' (-1) 10 3093 2, mk_field ''simm24'' 1 24 3095 4]"

definition kConstraints_82 :: "constraint_desc list" where
  "kConstraints_82 = []"

definition kForms_82 :: "form_desc list" where
  "kForms_82 = [
    mk_form ''e63e61e10a94'' ''V.SD.BRG'' ''v.sd.brg<.local> SrcD.<T1>, [SrcL, <lc0<<3>, SrcR.<T2><<(3+shamt)]'' ''L64'' ''Store Register Offset'' ''VEC'' ''VEC''
      64 27 0x6007fff0600207f 0x30490000207f 2460 6 1085 0,
    mk_form ''498ca2576e7c'' ''V.SD.MAX'' ''v.sd.max<.{rl, f, rd, rlf, rdf, rlrd, rlrdf}> [SrcL], SrcR'' ''L64'' ''Atomic Operation'' ''VEC'' ''VEC''
      64 41 0xfc007ffff8007fff 0x400b0000307f 2466 5 1085 0,
    mk_form ''0cd2fc3707d5'' ''V.SD.MIN'' ''v.sd.min<.{rl, f, rd, rlf, rdf, rlrd, rlrdf}> [SrcL], SrcR'' ''L64'' ''Atomic Operation'' ''VEC'' ''VEC''
      64 41 0xfc007ffff8007fff 0x500b0000307f 2471 5 1085 0,
    mk_form ''67395fafaca6'' ''V.SD.OR'' ''v.sd.or<.{rl, f, rd, rlf, rdf, rlrd, rlrdf}> [SrcL], SrcR'' ''L64'' ''Atomic Operation'' ''VEC'' ''VEC''
      64 41 0xfc007ffff8007fff 0x200b0000307f 2476 5 1085 0,
    mk_form ''69b8bc4ab948'' ''V.SD.U'' ''v.sd.u<.local> SrcD.<T1>, [SrcL, <lc0<<3>, SrcR.<T2><<<shamt>]'' ''L64'' ''Store Register Offset'' ''VEC'' ''VEC''
      64 27 0x6007fff0600207f 0x70490000007f 2481 6 1085 0,
    mk_form ''08efd0674013'' ''V.SD.U.BRG'' ''v.sd.u.brg<.local> SrcD.<T1>, [SrcL, <lc0<<3>, SrcR.<T2><<<shamt>]'' ''L64'' ''Store Register Offset'' ''VEC'' ''VEC''
      64 27 0x6007fff0600207f 0x70490000207f 2487 6 1085 0,
    mk_form ''8549b91dcf30'' ''V.SD.XOR'' ''v.sd.xor<.{rl, f, rd, rlf, rdf, rlrd, rlrdf}> [SrcL], SrcR'' ''L64'' ''Atomic Operation'' ''VEC'' ''VEC''
      64 41 0xfc007ffff8007fff 0x300b0000307f 2493 5 1085 0,
    mk_form ''f297b9d43bbe'' ''V.SDI'' ''v.sdi<.local> SrcL, [SrcR, <lc0<3>, simm]'' ''L64'' ''Store Offset'' ''VEC'' ''VEC''
      64 18 0x707f0000207f 0x30590000007f 2498 5 1085 0,
    mk_form ''dccd7436a506'' ''V.SDI.BRG'' ''v.sdi.brg<.local> SrcL, [SrcR, <lc0<<3>, simm]'' ''L64'' ''Store Offset'' ''VEC'' ''VEC''
      64 18 0x707f0000207f 0x30590000207f 2503 5 1085 0]"

lemma chunk_82: "walk_forms kForms_82 kFields_82 kFieldPieces_82 kConstraints_82 2460 3024 1085 2508 3099 1085"
  by (simp add: kForms_82_def kFields_82_def kFieldPieces_82_def kConstraints_82_def walk_eval)

lemma length_kForms_82 [simp]: "length kForms_82 = 9"
  by (simp add: kForms_82_def)

definition kFieldPieces_83 :: "piece_desc list" where
  "kFieldPieces_83 = [
    mk_piece 12 1 0, mk_piece 14 1 0, mk_piece 47 5 0, mk_piece 15 5 5, mk_piece 52 5 0, mk_piece 20 5 5,
    mk_piece 57 7 0, mk_piece 39 5 7, mk_piece 25 7 12, mk_piece 7 5 19, mk_piece 12 1 0, mk_piece 14 1 0,
    mk_piece 47 5 0, mk_piece 15 5 5, mk_piece 52 5 0, mk_piece 20 5 5, mk_piece 57 7 0, mk_piece 39 5 7,
    mk_piece 25 7 12, mk_piece 7 5 19, mk_piece 12 1 0, mk_piece 14 1 0, mk_piece 59 5 0, mk_piece 27 5 5,
    mk_piece 47 5 0, mk_piece 15 5 5, mk_piece 52 5 0, mk_piece 20 5 5, mk_piece 7 5 0, mk_piece 12 1 0,
    mk_piece 14 1 0, mk_piece 59 5 0, mk_piece 27 5 5, mk_piece 47 5 0, mk_piece 15 5 5, mk_piece 52 5 0,
    mk_piece 20 5 5, mk_piece 7 5 0, mk_piece 12 1 0, mk_piece 14 1 0, mk_piece 59 5 0, mk_piece 27 5 5,
    mk_piece 47 5 0, mk_piece 15 5 5, mk_piece 52 5 0, mk_piece 20 5 5, mk_piece 7 5 0, mk_piece 12 1 0,
    mk_piece 14 1 0, mk_piece 59 5 0, mk_piece 27 5 5, mk_piece 47 5 0, mk_piece 15 5 5, mk_piece 52 5 0,
    mk_piece 20 5 5, mk_piece 7 5 0, mk_piece 39 5 0, mk_piece 7 5 5, mk_piece 47 5 0, mk_piece 15 5 5,
    mk_piece 59 5 0, mk_piece 27 5 5, mk_piece 39 5 0, mk_piece 7 5 5, mk_piece 47 5 0, mk_piece 15 5 5,
    mk_piece 59 5 0, mk_piece 27 5 5, mk_piece 52 5 0, mk_piece 20 5 5, mk_piece 39 5 0, mk_piece 7 5 5,
    mk_piece 47 5 0, mk_piece 15 5 5, mk_piece 59 5 0, mk_piece 27 5 5, mk_piece 52 5 0, mk_piece 20 5 5]"

definition kFields_83 :: "field_desc list" where
  "kFields_83 = [
    mk_field ''C'' (-1) 1 3099 1, mk_field ''L'' (-1) 1 3100 1, mk_field ''SrcL'' (-1) 10 3101 2,
    mk_field ''SrcR'' (-1) 10 3103 2, mk_field ''simm24'' 1 24 3105 4, mk_field ''C'' (-1) 1 3109 1,
    mk_field ''L'' (-1) 1 3110 1, mk_field ''SrcL'' (-1) 10 3111 2, mk_field ''SrcR'' (-1) 10 3113 2,
    mk_field ''simm24'' 1 24 3115 4, mk_field ''C'' (-1) 1 3119 1, mk_field ''L'' (-1) 1 3120 1,
    mk_field ''SrcD'' (-1) 10 3121 2, mk_field ''SrcL'' (-1) 10 3123 2, mk_field ''SrcR'' (-1) 10 3125 2,
    mk_field ''shamt'' (-1) 5 3127 1, mk_field ''C'' (-1) 1 3128 1, mk_field ''L'' (-1) 1 3129 1,
    mk_field ''SrcD'' (-1) 10 3130 2, mk_field ''SrcL'' (-1) 10 3132 2, mk_field ''SrcR'' (-1) 10 3134 2,
    mk_field ''shamt'' (-1) 5 3136 1, mk_field ''C'' (-1) 1 3137 1, mk_field ''L'' (-1) 1 3138 1,
    mk_field ''SrcD'' (-1) 10 3139 2, mk_field ''SrcL'' (-1) 10 3141 2, mk_field ''SrcR'' (-1) 10 3143 2,
    mk_field ''shamt'' (-1) 5 3145 1, mk_field ''C'' (-1) 1 3146 1, mk_field ''L'' (-1) 1 3147 1,
    mk_field ''SrcD'' (-1) 10 3148 2, mk_field ''SrcL'' (-1) 10 3150 2, mk_field ''SrcR'' (-1) 10 3152 2,
    mk_field ''shamt'' (-1) 5 3154 1, mk_field ''RegDst'' (-1) 10 3155 2, mk_field ''SrcL'' (-1) 10 3157 2,
    mk_field ''SrcP'' (-1) 10 3159 2, mk_field ''RegDst'' (-1) 10 3161 2, mk_field ''SrcL'' (-1) 10 3163 2,
    mk_field ''SrcP'' (-1) 10 3165 2, mk_field ''SrcR'' (-1) 10 3167 2, mk_field ''RegDst'' (-1) 10 3169 2,
    mk_field ''SrcL'' (-1) 10 3171 2, mk_field ''SrcP'' (-1) 10 3173 2, mk_field ''SrcR'' (-1) 10 3175 2]"

definition kConstraints_83 :: "constraint_desc list" where
  "kConstraints_83 = []"

definition kForms_83 :: "form_desc list" where
  "kForms_83 = [
    mk_form ''b26a79626935'' ''V.SDI.U'' ''v.sdi.u<.local> SrcL, [SrcR, <lc0<<3>, simm]'' ''L64'' ''Store Offset'' ''VEC'' ''VEC''
      64 18 0x707f0000207f 0x70590000007f 2508 5 1085 0,
    mk_form ''0473fe6671f7'' ''V.SDI.U.BRG'' ''v.sdi.u.brg<.local> SrcL, [SrcR, <lc0<<3>, simm]'' ''L64'' ''Store Offset'' ''VEC'' ''VEC''
      64 18 0x707f0000207f 0x70590000207f 2513 5 1085 0,
    mk_form ''06aa6975e679'' ''V.SH'' ''v.sh<.local> SrcD.<T1>, [SrcL, <lc0<<1>, SrcR.<T2><<(1+shamt)]'' ''L64'' ''Store Register Offset'' ''VEC'' ''VEC''
      64 27 0x6007fff0600207f 0x10490000007f 2518 6 1085 0,
    mk_form ''755523148db8'' ''V.SH.BRG'' ''v.sh.brg<.local> SrcD.<T1>, [SrcL, <lc0<<1>, SrcR.<T2><<(1+shamt)]'' ''L64'' ''Store Register Offset'' ''VEC'' ''VEC''
      64 27 0x6007fff0600207f 0x10490000207f 2524 6 1085 0,
    mk_form ''7944c8319265'' ''V.SH.U'' ''v.sh.u<.local> SrcD.<T1>, [SrcL, <lc0<<1>, SrcR.<T2><<<shamt>]'' ''L64'' ''Store Register Offset'' ''VEC'' ''VEC''
      64 27 0x6007fff0600207f 0x50490000007f 2530 6 1085 0,
    mk_form ''fd1b68d36363'' ''V.SH.U.BRG'' ''v.sh.u.brg<.local> SrcD.<T1>, [SrcL, <lc0<<1>, SrcR.<T2><<<shamt>]'' ''L64'' ''Store Register Offset'' ''VEC'' ''VEC''
      64 27 0x6007fff0600207f 0x50490000207f 2536 6 1085 0,
    mk_form ''3ebce3493a01'' ''V.SHFL.BFLY'' ''v.shfl.bfly SrcL, SrcP, ->Dst'' ''L64'' ''Shuffle'' ''VEC'' ''VEC''
      64 34 0x7f0707f07f0707f 0x201d0000007f 2542 3 1085 0,
    mk_form ''7b9a1851d32c'' ''V.SHFL.DOWN'' ''v.shfl.down SrcL, SrcR, SrcP, ->Dst'' ''L64'' ''Shuffle'' ''VEC'' ''VEC''
      64 24 0x600707f0600707f 0x101d0000007f 2545 4 1085 0,
    mk_form ''f2e31314195c'' ''V.SHFL.IDX'' ''v.shfl.idx SrcL, SrcR, SrcP, ->Dst'' ''L64'' ''Shuffle'' ''VEC'' ''VEC''
      64 24 0x600707f0600707f 0x301d0000007f 2549 4 1085 0]"

lemma chunk_83: "walk_forms kForms_83 kFields_83 kFieldPieces_83 kConstraints_83 2508 3099 1085 2553 3177 1085"
  by (simp add: kForms_83_def kFields_83_def kFieldPieces_83_def kConstraints_83_def walk_eval)

lemma length_kForms_83 [simp]: "length kForms_83 = 9"
  by (simp add: kForms_83_def)

end
