(* ===== verification/Isa_Table_14.thy ===== *)
theory Isa_Table_14
  imports Isa_Check
begin

text \<open>
  Forms 756 to 793 of the arrays of \<^verbatim>\<open>src/isa/generated_tables.cpp\<close> (lines 16930 to 17499), with their fields,
  pieces and constraints, in chunks of at most 9 forms, and the check of each chunk.
\<close>

definition kFieldPieces_84 :: "piece_desc list" where
  "kFieldPieces_84 = [
    mk_piece 39 5 0, mk_piece 7 5 5, mk_piece 47 5 0, mk_piece 15 5 5, mk_piece 59 5 0, mk_piece 27 5 5,
    mk_piece 52 5 0, mk_piece 20 5 5, mk_piece 39 5 0, mk_piece 7 5 5, mk_piece 47 5 0, mk_piece 15 5 5,
    mk_piece 57 7 0, mk_piece 25 7 7, mk_piece 39 5 0, mk_piece 7 5 5, mk_piece 47 5 0, mk_piece 15 5 5,
    mk_piece 52 5 0, mk_piece 20 5 5, mk_piece 57 7 0, mk_piece 25 7 7, mk_piece 39 5 0, mk_piece 7 5 5,
    mk_piece 47 5 0, mk_piece 15 5 5, mk_piece 52 5 0, mk_piece 20 5 5, mk_piece 57 7 0, mk_piece 25 7 7,
    mk_piece 39 5 0, mk_piece 7 5 5, mk_piece 47 5 0, mk_piece 15 5 5, mk_piece 52 5 0, mk_piece 20 5 5,
    mk_piece 57 7 0, mk_piece 25 7 7, mk_piece 12 1 0, mk_piece 14 1 0, mk_piece 47 5 0, mk_piece 15 5 5,
    mk_piece 52 5 0, mk_piece 20 5 5, mk_piece 57 7 0, mk_piece 39 5 7, mk_piece 25 7 12, mk_piece 7 5 19,
    mk_piece 12 1 0, mk_piece 14 1 0, mk_piece 47 5 0, mk_piece 15 5 5, mk_piece 52 5 0, mk_piece 20 5 5,
    mk_piece 57 7 0, mk_piece 39 5 7, mk_piece 25 7 12, mk_piece 7 5 19, mk_piece 12 1 0, mk_piece 14 1 0,
    mk_piece 47 5 0, mk_piece 15 5 5, mk_piece 52 5 0, mk_piece 20 5 5, mk_piece 57 7 0, mk_piece 39 5 7,
    mk_piece 25 7 12, mk_piece 7 5 19, mk_piece 12 1 0, mk_piece 14 1 0, mk_piece 47 5 0, mk_piece 15 5 5,
    mk_piece 52 5 0, mk_piece 20 5 5, mk_piece 57 7 0, mk_piece 39 5 7, mk_piece 25 7 12, mk_piece 7 5 19]"

definition kFields_84 :: "field_desc list" where
  "kFields_84 = [
    mk_field ''RegDst'' (-1) 10 3177 2, mk_field ''SrcL'' (-1) 10 3179 2, mk_field ''SrcP'' (-1) 10 3181 2,
    mk_field ''SrcR'' (-1) 10 3183 2, mk_field ''RegDst'' (-1) 10 3185 2, mk_field ''SrcL'' (-1) 10 3187 2,
    mk_field ''imm'' (-1) 14 3189 2, mk_field ''RegDst'' (-1) 10 3191 2, mk_field ''SrcL'' (-1) 10 3193 2,
    mk_field ''SrcR'' (-1) 10 3195 2, mk_field ''imm'' (-1) 14 3197 2, mk_field ''RegDst'' (-1) 10 3199 2,
    mk_field ''SrcL'' (-1) 10 3201 2, mk_field ''SrcR'' (-1) 10 3203 2, mk_field ''imm'' (-1) 14 3205 2,
    mk_field ''RegDst'' (-1) 10 3207 2, mk_field ''SrcL'' (-1) 10 3209 2, mk_field ''SrcR'' (-1) 10 3211 2,
    mk_field ''imm'' (-1) 14 3213 2, mk_field ''C'' (-1) 1 3215 1, mk_field ''L'' (-1) 1 3216 1,
    mk_field ''SrcL'' (-1) 10 3217 2, mk_field ''SrcR'' (-1) 10 3219 2, mk_field ''simm24'' 1 24 3221 4,
    mk_field ''C'' (-1) 1 3225 1, mk_field ''L'' (-1) 1 3226 1, mk_field ''SrcL'' (-1) 10 3227 2,
    mk_field ''SrcR'' (-1) 10 3229 2, mk_field ''simm24'' 1 24 3231 4, mk_field ''C'' (-1) 1 3235 1,
    mk_field ''L'' (-1) 1 3236 1, mk_field ''SrcL'' (-1) 10 3237 2, mk_field ''SrcR'' (-1) 10 3239 2,
    mk_field ''simm24'' 1 24 3241 4, mk_field ''C'' (-1) 1 3245 1, mk_field ''L'' (-1) 1 3246 1,
    mk_field ''SrcL'' (-1) 10 3247 2, mk_field ''SrcR'' (-1) 10 3249 2, mk_field ''simm24'' 1 24 3251 4]"

definition kConstraints_84 :: "constraint_desc list" where
  "kConstraints_84 = []"

definition kForms_84 :: "form_desc list" where
  "kForms_84 = [
    mk_form ''05a2a5b0d9c5'' ''V.SHFL.UP'' ''v.shfl.up SrcL, SrcR, SrcP, ->Dst'' ''L64'' ''Shuffle'' ''VEC'' ''VEC''
      64 24 0x600707f0600707f 0x1d0000007f 2553 4 1085 0,
    mk_form ''6d0ac980b3e9'' ''V.SHFLI.BFLY'' ''v.shfli.bfly SrcL, imm, ->Dst'' ''L64'' ''Shuffle'' ''VEC'' ''VEC''
      64 30 0x1f0707f01f0707f 0x602d0000007f 2557 3 1085 0,
    mk_form ''95a67c6ded00'' ''V.SHFLI.DOWN'' ''v.shfli.down SrcL, SrcR, imm, ->Dst'' ''L64'' ''Shuffle'' ''VEC'' ''VEC''
      64 20 0x707f0000707f 0x502d0000007f 2560 4 1085 0,
    mk_form ''468726b85bf8'' ''V.SHFLI.IDX'' ''v.shfli.idx SrcL, SrcR, imm, ->Dst'' ''L64'' ''Shuffle'' ''VEC'' ''VEC''
      64 20 0x707f0000707f 0x702d0000007f 2564 4 1085 0,
    mk_form ''6fa557b5a93d'' ''V.SHFLI.UP'' ''v.shfli.up SrcL, SrcR, imm, ->Dst'' ''L64'' ''Shuffle'' ''VEC'' ''VEC''
      64 20 0x707f0000707f 0x402d0000007f 2568 4 1085 0,
    mk_form ''fb4b951ffd01'' ''V.SHI'' ''v.shi<.local> SrcL, [SrcR, <lc0<<1>, simm]'' ''L64'' ''Store Offset'' ''VEC'' ''VEC''
      64 18 0x707f0000207f 0x10590000007f 2572 5 1085 0,
    mk_form ''df38ab889894'' ''V.SHI.BRG'' ''v.shi.brg<.local> SrcL, [SrcR, <lc0<<1>, simm]'' ''L64'' ''Store Offset'' ''VEC'' ''VEC''
      64 18 0x707f0000207f 0x10590000207f 2577 5 1085 0,
    mk_form ''b6cdb14d38de'' ''V.SHI.U'' ''v.shi.u<.local> SrcL, [SrcR, <lc0<<1>, simm]'' ''L64'' ''Store Offset'' ''VEC'' ''VEC''
      64 18 0x707f0000207f 0x50590000007f 2582 5 1085 0,
    mk_form ''74e1295ffdda'' ''V.SHI.U.BRG'' ''v.shi.u.brg<.local> SrcL, [SrcR, <lc0<<1>, simm]'' ''L64'' ''Store Offset'' ''VEC'' ''VEC''
      64 18 0x707f0000207f 0x50590000207f 2587 5 1085 0]"

lemma chunk_84: "walk_forms kForms_84 kFields_84 kFieldPieces_84 kConstraints_84 2553 3177 1085 2592 3255 1085"
  by (simp add: kForms_84_def kFields_84_def kFieldPieces_84_def kConstraints_84_def walk_eval)

lemma length_kForms_84 [simp]: "length kForms_84 = 9"
  by (simp add: kForms_84_def)

definition kFieldPieces_85 :: "piece_desc list" where
  "kFieldPieces_85 = [
    mk_piece 39 5 0, mk_piece 7 5 5, mk_piece 47 5 0, mk_piece 15 5 5, mk_piece 52 5 0, mk_piece 20 5 5,
    mk_piece 39 5 0, mk_piece 7 5 5, mk_piece 47 5 0, mk_piece 15 5 5, mk_piece 52 6 0, mk_piece 39 5 0,
    mk_piece 7 5 5, mk_piece 47 5 0, mk_piece 15 5 5, mk_piece 52 5 0, mk_piece 20 5 5, mk_piece 39 5 0,
    mk_piece 7 5 5, mk_piece 47 5 0, mk_piece 15 5 5, mk_piece 52 6 0, mk_piece 39 5 0, mk_piece 7 5 5,
    mk_piece 47 5 0, mk_piece 15 5 5, mk_piece 52 5 0, mk_piece 20 5 5, mk_piece 39 5 0, mk_piece 7 5 5,
    mk_piece 47 5 0, mk_piece 15 5 5, mk_piece 52 6 0, mk_piece 39 5 0, mk_piece 7 5 5, mk_piece 47 5 0,
    mk_piece 15 5 5, mk_piece 52 5 0, mk_piece 20 5 5, mk_piece 57 2 0, mk_piece 59 5 0, mk_piece 39 5 0,
    mk_piece 7 5 5, mk_piece 47 5 0, mk_piece 15 5 5, mk_piece 52 12 0, mk_piece 12 1 0, mk_piece 14 1 0,
    mk_piece 59 5 0, mk_piece 27 5 5, mk_piece 47 5 0, mk_piece 15 5 5, mk_piece 52 5 0, mk_piece 20 5 5,
    mk_piece 7 5 0]"

definition kFields_85 :: "field_desc list" where
  "kFields_85 = [
    mk_field ''RegDst'' (-1) 10 3255 2, mk_field ''SrcL'' (-1) 10 3257 2, mk_field ''SrcR'' (-1) 10 3259 2,
    mk_field ''RegDst'' (-1) 10 3261 2, mk_field ''SrcL'' (-1) 10 3263 2, mk_field ''shamt'' (-1) 6 3265 1,
    mk_field ''RegDst'' (-1) 10 3266 2, mk_field ''SrcL'' (-1) 10 3268 2, mk_field ''SrcR'' (-1) 10 3270 2,
    mk_field ''RegDst'' (-1) 10 3272 2, mk_field ''SrcL'' (-1) 10 3274 2, mk_field ''shamt'' (-1) 6 3276 1,
    mk_field ''RegDst'' (-1) 10 3277 2, mk_field ''SrcL'' (-1) 10 3279 2, mk_field ''SrcR'' (-1) 10 3281 2,
    mk_field ''RegDst'' (-1) 10 3283 2, mk_field ''SrcL'' (-1) 10 3285 2, mk_field ''shamt'' (-1) 6 3287 1,
    mk_field ''RegDst'' (-1) 10 3288 2, mk_field ''SrcL'' (-1) 10 3290 2, mk_field ''SrcR'' (-1) 10 3292 2,
    mk_field ''SrcRType'' (-1) 2 3294 1, mk_field ''shamt'' (-1) 5 3295 1,
    mk_field ''RegDst'' (-1) 10 3296 2, mk_field ''SrcL'' (-1) 10 3298 2, mk_field ''uimm12'' 0 12 3300 1,
    mk_field ''C'' (-1) 1 3301 1, mk_field ''L'' (-1) 1 3302 1, mk_field ''SrcD'' (-1) 10 3303 2,
    mk_field ''SrcL'' (-1) 10 3305 2, mk_field ''SrcR'' (-1) 10 3307 2, mk_field ''shamt'' (-1) 5 3309 1]"

definition kConstraints_85 :: "constraint_desc list" where
  "kConstraints_85 = []"

definition kForms_85 :: "form_desc list" where
  "kForms_85 = [
    mk_form ''4d67efb816b8'' ''V.SLL'' ''v.sll SrcL, SrcR, ->Dst'' ''L64'' ''Arithmetic Operation'' ''VEC'' ''VEC''
      64 34 0xfe00707ffe00707f 0x70050000007f 2592 3 1085 0,
    mk_form ''1b2532001de6'' ''V.SLLI'' ''v.slli SrcL, shamt, ->Dst'' ''L64'' ''Arithmetic Operation'' ''VEC'' ''VEC''
      64 38 0xfc00707ffff0707f 0x70150000007f 2595 3 1085 0,
    mk_form ''068f59a0b708'' ''V.SRA'' ''v.sra SrcL, SrcR, ->Dst'' ''L64'' ''Arithmetic Operation'' ''VEC'' ''VEC''
      64 34 0xfe00707ffe00707f 0x60050000007f 2598 3 1085 0,
    mk_form ''cf7be1dfb701'' ''V.SRAI'' ''v.srai SrcL, shamt, ->Dst'' ''L64'' ''Arithmetic Operation'' ''VEC'' ''VEC''
      64 38 0xfc00707ffff0707f 0x60150000007f 2601 3 1085 0,
    mk_form ''889ad1b7ceb9'' ''V.SRL'' ''v.srl SrcL, SrcR, ->Dst'' ''L64'' ''Arithmetic Operation'' ''VEC'' ''VEC''
      64 34 0xfe00707ffe00707f 0x50050000007f 2604 3 1085 0,
    mk_form ''cdec0ca1c073'' ''V.SRLI'' ''v.srli SrcL, shamt, ->Dst'' ''L64'' ''Arithmetic Operation'' ''VEC'' ''VEC''
      64 38 0xfc00707ffff0707f 0x50150000007f 2607 3 1085 0,
    mk_form ''3c88cf0158f8'' ''V.SUB'' ''v.sub SrcL, SrcR<.neg><<<shamt>, ->Dst'' ''L64'' ''Arithmetic Operation'' ''VEC'' ''VEC''
      64 27 0x707ffe00707f 0x10050000007f 2610 5 1085 0,
    mk_form ''0226b3e654bf'' ''V.SUBI'' ''v.subi SrcL, uimm, ->Dst'' ''L64'' ''Arithmetic Operation'' ''VEC'' ''VEC''
      64 32 0x707ffff0707f 0x10150000007f 2615 3 1085 0,
    mk_form ''47af61b44300'' ''V.SW'' ''v.sw<.local> SrcD.<T1>, [SrcL, <lc0<<2>, SrcR.<T2><<(2+shamt)]'' ''L64'' ''Store Register Offset'' ''VEC'' ''VEC''
      64 27 0x6007fff0600207f 0x20490000007f 2618 6 1085 0]"

lemma chunk_85: "walk_forms kForms_85 kFields_85 kFieldPieces_85 kConstraints_85 2592 3255 1085 2624 3310 1085"
  by (simp add: kForms_85_def kFields_85_def kFieldPieces_85_def kConstraints_85_def walk_eval)

lemma length_kForms_85 [simp]: "length kForms_85 = 9"
  by (simp add: kForms_85_def)

definition kFieldPieces_86 :: "piece_desc list" where
  "kFieldPieces_86 = [
    mk_piece 47 5 0, mk_piece 15 5 5, mk_piece 52 5 0, mk_piece 20 5 5, mk_piece 25 1 0, mk_piece 26 1 0,
    mk_piece 57 1 0, mk_piece 47 5 0, mk_piece 15 5 5, mk_piece 52 5 0, mk_piece 20 5 5, mk_piece 25 1 0,
    mk_piece 26 1 0, mk_piece 57 1 0, mk_piece 12 1 0, mk_piece 14 1 0, mk_piece 59 5 0, mk_piece 27 5 5,
    mk_piece 47 5 0, mk_piece 15 5 5, mk_piece 52 5 0, mk_piece 20 5 5, mk_piece 7 5 0, mk_piece 47 5 0,
    mk_piece 15 5 5, mk_piece 52 5 0, mk_piece 20 5 5, mk_piece 25 1 0, mk_piece 26 1 0, mk_piece 57 1 0,
    mk_piece 47 5 0, mk_piece 15 5 5, mk_piece 52 5 0, mk_piece 20 5 5, mk_piece 25 1 0, mk_piece 26 1 0,
    mk_piece 57 1 0, mk_piece 47 5 0, mk_piece 15 5 5, mk_piece 52 5 0, mk_piece 20 5 5, mk_piece 25 1 0,
    mk_piece 26 1 0, mk_piece 57 1 0, mk_piece 12 1 0, mk_piece 14 1 0, mk_piece 59 5 0, mk_piece 27 5 5,
    mk_piece 47 5 0, mk_piece 15 5 5, mk_piece 52 5 0, mk_piece 20 5 5, mk_piece 7 5 0, mk_piece 12 1 0,
    mk_piece 14 1 0, mk_piece 59 5 0, mk_piece 27 5 5, mk_piece 47 5 0, mk_piece 15 5 5, mk_piece 52 5 0,
    mk_piece 20 5 5, mk_piece 7 5 0, mk_piece 47 5 0, mk_piece 15 5 5, mk_piece 52 5 0, mk_piece 20 5 5,
    mk_piece 25 1 0, mk_piece 26 1 0, mk_piece 57 1 0]"

definition kFields_86 :: "field_desc list" where
  "kFields_86 = [
    mk_field ''SrcL'' (-1) 10 3310 2, mk_field ''SrcR'' (-1) 10 3312 2, mk_field ''far'' (-1) 1 3314 1,
    mk_field ''rd'' (-1) 1 3315 1, mk_field ''rl'' (-1) 1 3316 1, mk_field ''SrcL'' (-1) 10 3317 2,
    mk_field ''SrcR'' (-1) 10 3319 2, mk_field ''far'' (-1) 1 3321 1, mk_field ''rd'' (-1) 1 3322 1,
    mk_field ''rl'' (-1) 1 3323 1, mk_field ''C'' (-1) 1 3324 1, mk_field ''L'' (-1) 1 3325 1,
    mk_field ''SrcD'' (-1) 10 3326 2, mk_field ''SrcL'' (-1) 10 3328 2, mk_field ''SrcR'' (-1) 10 3330 2,
    mk_field ''shamt'' (-1) 5 3332 1, mk_field ''SrcL'' (-1) 10 3333 2, mk_field ''SrcR'' (-1) 10 3335 2,
    mk_field ''far'' (-1) 1 3337 1, mk_field ''rd'' (-1) 1 3338 1, mk_field ''rl'' (-1) 1 3339 1,
    mk_field ''SrcL'' (-1) 10 3340 2, mk_field ''SrcR'' (-1) 10 3342 2, mk_field ''far'' (-1) 1 3344 1,
    mk_field ''rd'' (-1) 1 3345 1, mk_field ''rl'' (-1) 1 3346 1, mk_field ''SrcL'' (-1) 10 3347 2,
    mk_field ''SrcR'' (-1) 10 3349 2, mk_field ''far'' (-1) 1 3351 1, mk_field ''rd'' (-1) 1 3352 1,
    mk_field ''rl'' (-1) 1 3353 1, mk_field ''C'' (-1) 1 3354 1, mk_field ''L'' (-1) 1 3355 1,
    mk_field ''SrcD'' (-1) 10 3356 2, mk_field ''SrcL'' (-1) 10 3358 2, mk_field ''SrcR'' (-1) 10 3360 2,
    mk_field ''shamt'' (-1) 5 3362 1, mk_field ''C'' (-1) 1 3363 1, mk_field ''L'' (-1) 1 3364 1,
    mk_field ''SrcD'' (-1) 10 3365 2, mk_field ''SrcL'' (-1) 10 3367 2, mk_field ''SrcR'' (-1) 10 3369 2,
    mk_field ''shamt'' (-1) 5 3371 1, mk_field ''SrcL'' (-1) 10 3372 2, mk_field ''SrcR'' (-1) 10 3374 2,
    mk_field ''far'' (-1) 1 3376 1, mk_field ''rd'' (-1) 1 3377 1, mk_field ''rl'' (-1) 1 3378 1]"

definition kConstraints_86 :: "constraint_desc list" where
  "kConstraints_86 = []"

definition kForms_86 :: "form_desc list" where
  "kForms_86 = [
    mk_form ''559073c4e3f7'' ''V.SW.ADD'' ''v.sw.add<.{rl, f, rd, rlf, rdf, rlrd, rlrdf}> [SrcL], SrcR'' ''L64'' ''Atomic Operation'' ''VEC'' ''VEC''
      64 41 0xfc007ffff8007fff 0xb0000107f 2624 5 1085 0,
    mk_form ''9773aef54030'' ''V.SW.AND'' ''v.sw.and<.{rl, f, rd, rlf, rdf, rlrd, rlrdf}> [SrcL], SrcR'' ''L64'' ''Atomic Operation'' ''VEC'' ''VEC''
      64 41 0xfc007ffff8007fff 0x100b0000107f 2629 5 1085 0,
    mk_form ''d78368c708bd'' ''V.SW.BRG'' ''v.sw.brg<.local> SrcD.<T1>, [SrcL, <lc0<<2>, SrcR.<T2><<(2+shamt)]'' ''L64'' ''Store Register Offset'' ''VEC'' ''VEC''
      64 27 0x6007fff0600207f 0x20490000207f 2634 6 1085 0,
    mk_form ''2404ff65efac'' ''V.SW.MAX'' ''v.sw.max<.{rl, f, rd, rlf, rdf, rlrd, rlrdf}> [SrcL], SrcR'' ''L64'' ''Atomic Operation'' ''VEC'' ''VEC''
      64 41 0xfc007ffff8007fff 0x400b0000107f 2640 5 1085 0,
    mk_form ''1ee3543106bd'' ''V.SW.MIN'' ''v.sw.min<.{rl, f, rd, rlf, rdf, rlrd, rlrdf}> [SrcL], SrcR'' ''L64'' ''Atomic Operation'' ''VEC'' ''VEC''
      64 41 0xfc007ffff8007fff 0x500b0000107f 2645 5 1085 0,
    mk_form ''c82ad77db84c'' ''V.SW.OR'' ''v.sw.or<.{rl, f, rd, rlf, rdf, rlrd, rlrdf}> [SrcL], SrcR'' ''L64'' ''Atomic Operation'' ''VEC'' ''VEC''
      64 41 0xfc007ffff8007fff 0x200b0000107f 2650 5 1085 0,
    mk_form ''0cf3ad373367'' ''V.SW.U'' ''v.sw.u<.local> SrcD.<T1>, [SrcL, <lc0<<2>, SrcR.<T2><<<shamt>]'' ''L64'' ''Store Register Offset'' ''VEC'' ''VEC''
      64 27 0x6007fff0600207f 0x60490000007f 2655 6 1085 0,
    mk_form ''702c78da59f4'' ''V.SW.U.BRG'' ''v.sw.u.brg<.local> SrcD.<T1>, [SrcL, <lc0<<2>, SrcR.<T2><<<shamt>]'' ''L64'' ''Store Register Offset'' ''VEC'' ''VEC''
      64 27 0x6007fff0600207f 0x60490000207f 2661 6 1085 0,
    mk_form ''db3db9f0dce5'' ''V.SW.XOR'' ''v.sw.xor<.{rl, f, rd, rlf, rdf, rlrd, rlrdf}> [SrcL], SrcR'' ''L64'' ''Atomic Operation'' ''VEC'' ''VEC''
      64 41 0xfc007ffff8007fff 0x300b0000107f 2667 5 1085 0]"

lemma chunk_86: "walk_forms kForms_86 kFields_86 kFieldPieces_86 kConstraints_86 2624 3310 1085 2672 3379 1085"
  by (simp add: kForms_86_def kFields_86_def kFieldPieces_86_def kConstraints_86_def walk_eval)

lemma length_kForms_86 [simp]: "length kForms_86 = 9"
  by (simp add: kForms_86_def)

definition kFieldPieces_87 :: "piece_desc list" where
  "kFieldPieces_87 = [
    mk_piece 12 1 0, mk_piece 14 1 0, mk_piece 47 5 0, mk_piece 15 5 5, mk_piece 52 5 0, mk_piece 20 5 5,
    mk_piece 57 7 0, mk_piece 39 5 7, mk_piece 25 7 12, mk_piece 7 5 19, mk_piece 12 1 0, mk_piece 14 1 0,
    mk_piece 47 5 0, mk_piece 15 5 5, mk_piece 52 5 0, mk_piece 20 5 5, mk_piece 57 7 0, mk_piece 39 5 7,
    mk_piece 25 7 12, mk_piece 7 5 19, mk_piece 12 1 0, mk_piece 14 1 0, mk_piece 47 5 0, mk_piece 15 5 5,
    mk_piece 52 5 0, mk_piece 20 5 5, mk_piece 57 7 0, mk_piece 39 5 7, mk_piece 25 7 12, mk_piece 7 5 19,
    mk_piece 12 1 0, mk_piece 14 1 0, mk_piece 47 5 0, mk_piece 15 5 5, mk_piece 52 5 0, mk_piece 20 5 5,
    mk_piece 57 7 0, mk_piece 39 5 7, mk_piece 25 7 12, mk_piece 7 5 19, mk_piece 39 5 0, mk_piece 7 5 5,
    mk_piece 47 5 0, mk_piece 15 5 5, mk_piece 52 5 0, mk_piece 20 5 5, mk_piece 57 2 0, mk_piece 59 5 0,
    mk_piece 39 5 0, mk_piece 7 5 5, mk_piece 47 5 0, mk_piece 15 5 5, mk_piece 52 12 0, mk_piece 15 10 0,
    mk_piece 25 7 0, mk_piece 7 5 0, mk_piece 15 5 0, mk_piece 20 5 0, mk_piece 25 2 0, mk_piece 27 5 0,
    mk_piece 7 5 0, mk_piece 15 5 0, mk_piece 20 12 0]"

definition kFields_87 :: "field_desc list" where
  "kFields_87 = [
    mk_field ''C'' (-1) 1 3379 1, mk_field ''L'' (-1) 1 3380 1, mk_field ''SrcL'' (-1) 10 3381 2,
    mk_field ''SrcR'' (-1) 10 3383 2, mk_field ''simm24'' 1 24 3385 4, mk_field ''C'' (-1) 1 3389 1,
    mk_field ''L'' (-1) 1 3390 1, mk_field ''SrcL'' (-1) 10 3391 2, mk_field ''SrcR'' (-1) 10 3393 2,
    mk_field ''simm24'' 1 24 3395 4, mk_field ''C'' (-1) 1 3399 1, mk_field ''L'' (-1) 1 3400 1,
    mk_field ''SrcL'' (-1) 10 3401 2, mk_field ''SrcR'' (-1) 10 3403 2, mk_field ''simm24'' 1 24 3405 4,
    mk_field ''C'' (-1) 1 3409 1, mk_field ''L'' (-1) 1 3410 1, mk_field ''SrcL'' (-1) 10 3411 2,
    mk_field ''SrcR'' (-1) 10 3413 2, mk_field ''simm24'' 1 24 3415 4, mk_field ''RegDst'' (-1) 10 3419 2,
    mk_field ''SrcL'' (-1) 10 3421 2, mk_field ''SrcR'' (-1) 10 3423 2, mk_field ''SrcRType'' (-1) 2 3425 1,
    mk_field ''shamt'' (-1) 5 3426 1, mk_field ''RegDst'' (-1) 10 3427 2, mk_field ''SrcL'' (-1) 10 3429 2,
    mk_field ''simm12'' 1 12 3431 1, mk_field ''ACR-ID'' (-1) 10 3432 1,
    mk_field ''CROSS-BID'' (-1) 7 3433 1, mk_field ''RegDst'' (-1) 5 3434 1, mk_field ''SrcL'' (-1) 5 3435 1,
    mk_field ''SrcR'' (-1) 5 3436 1, mk_field ''SrcRType'' (-1) 2 3437 1, mk_field ''shamt'' (-1) 5 3438 1,
    mk_field ''RegDst'' (-1) 5 3439 1, mk_field ''SrcL'' (-1) 5 3440 1, mk_field ''simm12'' 1 12 3441 1]"

definition kConstraints_87 :: "constraint_desc list" where
  "kConstraints_87 = []"

definition kForms_87 :: "form_desc list" where
  "kForms_87 = [
    mk_form ''da10b8e7bf20'' ''V.SWI'' ''v.swi<.local> SrcL, [SrcR, <lc0<<2>, simm]'' ''L64'' ''Store Offset'' ''VEC'' ''VEC''
      64 18 0x707f0000207f 0x20590000007f 2672 5 1085 0,
    mk_form ''a9cdf55c0d1b'' ''V.SWI.BRG'' ''v.swi.brg<.local> SrcL, [SrcR, <lc0<<2>, simm]'' ''L64'' ''Store Offset'' ''VEC'' ''VEC''
      64 18 0x707f0000207f 0x20590000207f 2677 5 1085 0,
    mk_form ''ff93f1677aa7'' ''V.SWI.U'' ''v.swi.u<.local> SrcL, [SrcR, <lc0<<2>, simm]'' ''L64'' ''Store Offset'' ''VEC'' ''VEC''
      64 18 0x707f0000207f 0x60590000007f 2682 5 1085 0,
    mk_form ''5b46ac2ed36c'' ''V.SWI.U.BRG'' ''v.swi.u.brg<.local> SrcL, [SrcR, <lc0<<2>, simm]'' ''L64'' ''Store Offset'' ''VEC'' ''VEC''
      64 18 0x707f0000207f 0x60590000207f 2687 5 1085 0,
    mk_form ''d6d77c14a0be'' ''V.XOR'' ''v.xor SrcL, SrcR<.not><<<shamt>, ->Dst'' ''L64'' ''Arithmetic Operation'' ''VEC'' ''VEC''
      64 27 0x707ffe00707f 0x40050000007f 2692 5 1085 0,
    mk_form ''16519d21b271'' ''V.XORI'' ''v.xori SrcL, simm, ->Dst'' ''L64'' ''Arithmetic Operation'' ''VEC'' ''VEC''
      64 32 0x707ffff0707f 0x40150000007f 2697 3 1085 0,
    mk_form ''40ad190a0a7f'' ''XB'' ''XB ACR-ID, C-ID'' ''L32'' ''Bundle Split'' ''CMD'' ''CMD''
      32 15 0x7fff 0x6f81 2700 2 1085 0,
    mk_form ''33510860c585'' ''XOR'' ''xor SrcL, SrcR<{.sw,.uw,.not}><<<shamt>, ->{t, u, Rd}'' ''L32'' ''ALU'' ''ALU'' ''ALU''
      32 10 0x707f 0x4005 2702 5 1085 0,
    mk_form ''5cf7e5be17e7'' ''XORI'' ''xori SrcL, simm, ->{t, u, Rd}'' ''L32'' ''ALU'' ''ALU'' ''ALU''
      32 10 0x707f 0x4015 2707 3 1085 0]"

lemma chunk_87: "walk_forms kForms_87 kFields_87 kFieldPieces_87 kConstraints_87 2672 3379 1085 2710 3442 1085"
  by (simp add: kForms_87_def kFields_87_def kFieldPieces_87_def kConstraints_87_def walk_eval)

lemma length_kForms_87 [simp]: "length kForms_87 = 9"
  by (simp add: kForms_87_def)

definition kFieldPieces_88 :: "piece_desc list" where
  "kFieldPieces_88 = [
    mk_piece 7 5 0, mk_piece 15 5 0, mk_piece 20 12 0, mk_piece 7 5 0, mk_piece 15 5 0, mk_piece 20 5 0,
    mk_piece 25 2 0, mk_piece 27 5 0]"

definition kFields_88 :: "field_desc list" where
  "kFields_88 = [
    mk_field ''RegDst'' (-1) 5 3442 1, mk_field ''SrcL'' (-1) 5 3443 1, mk_field ''simm12'' 1 12 3444 1,
    mk_field ''RegDst'' (-1) 5 3445 1, mk_field ''SrcL'' (-1) 5 3446 1, mk_field ''SrcR'' (-1) 5 3447 1,
    mk_field ''SrcRType'' (-1) 2 3448 1, mk_field ''shamt'' (-1) 5 3449 1]"

definition kConstraints_88 :: "constraint_desc list" where
  "kConstraints_88 = []"

definition kForms_88 :: "form_desc list" where
  "kForms_88 = [
    mk_form ''1f8c6f43e2bd'' ''XORIW'' ''xoriw SrcL, simm, ->{t, u, Rd}'' ''L32'' ''ALU'' ''ALU'' ''ALU''
      32 10 0x707f 0x4035 2710 3 1085 0,
    mk_form ''32282566e32d'' ''XORW'' ''xorw SrcL, SrcR<{.sw,.uw,.not}><<<shamt>, ->{t, u, Rd}'' ''L32'' ''ALU'' ''ALU'' ''ALU''
      32 10 0x707f 0x4025 2713 5 1085 0]"

lemma chunk_88: "walk_forms kForms_88 kFields_88 kFieldPieces_88 kConstraints_88 2710 3442 1085 2718 3450 1085"
  by (simp add: kForms_88_def kFields_88_def kFieldPieces_88_def kConstraints_88_def walk_eval)

lemma length_kForms_88 [simp]: "length kForms_88 = 2"
  by (simp add: kForms_88_def)

end
