(* ===== verification/Isa_Tables.thy ===== *)
theory Isa_Tables
  imports Isa_Table_00 Isa_Table_01 Isa_Table_02 Isa_Table_03 Isa_Table_04 Isa_Table_05 Isa_Table_06 Isa_Table_07 Isa_Table_08 Isa_Table_09 Isa_Table_10 Isa_Table_11 Isa_Table_12 Isa_Table_13 Isa_Table_14
begin

text \<open>
  The four arrays of \<^verbatim>\<open>src/isa/generated_tables.cpp\<close> as one value of \<open>codec_tables\<close>, and the walk over all of it.
\<close>

definition isa_kFieldPieces :: "piece_desc list" where
  "isa_kFieldPieces =
    kFieldPieces_0 @ kFieldPieces_1 @ kFieldPieces_2 @ kFieldPieces_3 @ kFieldPieces_4 @ kFieldPieces_5 @
    kFieldPieces_6 @ kFieldPieces_7 @ kFieldPieces_8 @ kFieldPieces_9 @ kFieldPieces_10 @ kFieldPieces_11 @
    kFieldPieces_12 @ kFieldPieces_13 @ kFieldPieces_14 @ kFieldPieces_15 @ kFieldPieces_16 @
    kFieldPieces_17 @ kFieldPieces_18 @ kFieldPieces_19 @ kFieldPieces_20 @ kFieldPieces_21 @
    kFieldPieces_22 @ kFieldPieces_23 @ kFieldPieces_24 @ kFieldPieces_25 @ kFieldPieces_26 @
    kFieldPieces_27 @ kFieldPieces_28 @ kFieldPieces_29 @ kFieldPieces_30 @ kFieldPieces_31 @
    kFieldPieces_32 @ kFieldPieces_33 @ kFieldPieces_34 @ kFieldPieces_35 @ kFieldPieces_36 @
    kFieldPieces_37 @ kFieldPieces_38 @ kFieldPieces_39 @ kFieldPieces_40 @ kFieldPieces_41 @
    kFieldPieces_42 @ kFieldPieces_43 @ kFieldPieces_44 @ kFieldPieces_45 @ kFieldPieces_46 @
    kFieldPieces_47 @ kFieldPieces_48 @ kFieldPieces_49 @ kFieldPieces_50 @ kFieldPieces_51 @
    kFieldPieces_52 @ kFieldPieces_53 @ kFieldPieces_54 @ kFieldPieces_55 @ kFieldPieces_56 @
    kFieldPieces_57 @ kFieldPieces_58 @ kFieldPieces_59 @ kFieldPieces_60 @ kFieldPieces_61 @
    kFieldPieces_62 @ kFieldPieces_63 @ kFieldPieces_64 @ kFieldPieces_65 @ kFieldPieces_66 @
    kFieldPieces_67 @ kFieldPieces_68 @ kFieldPieces_69 @ kFieldPieces_70 @ kFieldPieces_71 @
    kFieldPieces_72 @ kFieldPieces_73 @ kFieldPieces_74 @ kFieldPieces_75 @ kFieldPieces_76 @
    kFieldPieces_77 @ kFieldPieces_78 @ kFieldPieces_79 @ kFieldPieces_80 @ kFieldPieces_81 @
    kFieldPieces_82 @ kFieldPieces_83 @ kFieldPieces_84 @ kFieldPieces_85 @ kFieldPieces_86 @
    kFieldPieces_87 @ kFieldPieces_88"

definition isa_kFields :: "field_desc list" where
  "isa_kFields =
    kFields_0 @ kFields_1 @ kFields_2 @ kFields_3 @ kFields_4 @ kFields_5 @ kFields_6 @ kFields_7 @
    kFields_8 @ kFields_9 @ kFields_10 @ kFields_11 @ kFields_12 @ kFields_13 @ kFields_14 @ kFields_15 @
    kFields_16 @ kFields_17 @ kFields_18 @ kFields_19 @ kFields_20 @ kFields_21 @ kFields_22 @ kFields_23 @
    kFields_24 @ kFields_25 @ kFields_26 @ kFields_27 @ kFields_28 @ kFields_29 @ kFields_30 @ kFields_31 @
    kFields_32 @ kFields_33 @ kFields_34 @ kFields_35 @ kFields_36 @ kFields_37 @ kFields_38 @ kFields_39 @
    kFields_40 @ kFields_41 @ kFields_42 @ kFields_43 @ kFields_44 @ kFields_45 @ kFields_46 @ kFields_47 @
    kFields_48 @ kFields_49 @ kFields_50 @ kFields_51 @ kFields_52 @ kFields_53 @ kFields_54 @ kFields_55 @
    kFields_56 @ kFields_57 @ kFields_58 @ kFields_59 @ kFields_60 @ kFields_61 @ kFields_62 @ kFields_63 @
    kFields_64 @ kFields_65 @ kFields_66 @ kFields_67 @ kFields_68 @ kFields_69 @ kFields_70 @ kFields_71 @
    kFields_72 @ kFields_73 @ kFields_74 @ kFields_75 @ kFields_76 @ kFields_77 @ kFields_78 @ kFields_79 @
    kFields_80 @ kFields_81 @ kFields_82 @ kFields_83 @ kFields_84 @ kFields_85 @ kFields_86 @ kFields_87 @
    kFields_88"

definition isa_kConstraints :: "constraint_desc list" where
  "isa_kConstraints =
    kConstraints_0 @ kConstraints_1 @ kConstraints_2 @ kConstraints_3 @ kConstraints_4 @ kConstraints_5 @
    kConstraints_6 @ kConstraints_7 @ kConstraints_8 @ kConstraints_9 @ kConstraints_10 @ kConstraints_11 @
    kConstraints_12 @ kConstraints_13 @ kConstraints_14 @ kConstraints_15 @ kConstraints_16 @
    kConstraints_17 @ kConstraints_18 @ kConstraints_19 @ kConstraints_20 @ kConstraints_21 @
    kConstraints_22 @ kConstraints_23 @ kConstraints_24 @ kConstraints_25 @ kConstraints_26 @
    kConstraints_27 @ kConstraints_28 @ kConstraints_29 @ kConstraints_30 @ kConstraints_31 @
    kConstraints_32 @ kConstraints_33 @ kConstraints_34 @ kConstraints_35 @ kConstraints_36 @
    kConstraints_37 @ kConstraints_38 @ kConstraints_39 @ kConstraints_40 @ kConstraints_41 @
    kConstraints_42 @ kConstraints_43 @ kConstraints_44 @ kConstraints_45 @ kConstraints_46 @
    kConstraints_47 @ kConstraints_48 @ kConstraints_49 @ kConstraints_50 @ kConstraints_51 @
    kConstraints_52 @ kConstraints_53 @ kConstraints_54 @ kConstraints_55 @ kConstraints_56 @
    kConstraints_57 @ kConstraints_58 @ kConstraints_59 @ kConstraints_60 @ kConstraints_61 @
    kConstraints_62 @ kConstraints_63 @ kConstraints_64 @ kConstraints_65 @ kConstraints_66 @
    kConstraints_67 @ kConstraints_68 @ kConstraints_69 @ kConstraints_70 @ kConstraints_71 @
    kConstraints_72 @ kConstraints_73 @ kConstraints_74 @ kConstraints_75 @ kConstraints_76 @
    kConstraints_77 @ kConstraints_78 @ kConstraints_79 @ kConstraints_80 @ kConstraints_81 @
    kConstraints_82 @ kConstraints_83 @ kConstraints_84 @ kConstraints_85 @ kConstraints_86 @
    kConstraints_87 @ kConstraints_88"

definition isa_kForms :: "form_desc list" where
  "isa_kForms =
    kForms_0 @ kForms_1 @ kForms_2 @ kForms_3 @ kForms_4 @ kForms_5 @ kForms_6 @ kForms_7 @ kForms_8 @
    kForms_9 @ kForms_10 @ kForms_11 @ kForms_12 @ kForms_13 @ kForms_14 @ kForms_15 @ kForms_16 @
    kForms_17 @ kForms_18 @ kForms_19 @ kForms_20 @ kForms_21 @ kForms_22 @ kForms_23 @ kForms_24 @
    kForms_25 @ kForms_26 @ kForms_27 @ kForms_28 @ kForms_29 @ kForms_30 @ kForms_31 @ kForms_32 @
    kForms_33 @ kForms_34 @ kForms_35 @ kForms_36 @ kForms_37 @ kForms_38 @ kForms_39 @ kForms_40 @
    kForms_41 @ kForms_42 @ kForms_43 @ kForms_44 @ kForms_45 @ kForms_46 @ kForms_47 @ kForms_48 @
    kForms_49 @ kForms_50 @ kForms_51 @ kForms_52 @ kForms_53 @ kForms_54 @ kForms_55 @ kForms_56 @
    kForms_57 @ kForms_58 @ kForms_59 @ kForms_60 @ kForms_61 @ kForms_62 @ kForms_63 @ kForms_64 @
    kForms_65 @ kForms_66 @ kForms_67 @ kForms_68 @ kForms_69 @ kForms_70 @ kForms_71 @ kForms_72 @
    kForms_73 @ kForms_74 @ kForms_75 @ kForms_76 @ kForms_77 @ kForms_78 @ kForms_79 @ kForms_80 @
    kForms_81 @ kForms_82 @ kForms_83 @ kForms_84 @ kForms_85 @ kForms_86 @ kForms_87 @ kForms_88"

definition isa_tables :: codec_tables where
  "isa_tables = \<lparr>kFieldPieces = isa_kFieldPieces, kFields = isa_kFields,
     kConstraints = isa_kConstraints, kForms = isa_kForms\<rparr>"

lemmas isa_arrays = isa_kFieldPieces_def isa_kFields_def isa_kConstraints_def isa_kForms_def

lemma isa_walk: "walk_forms isa_kForms isa_kFields isa_kFieldPieces isa_kConstraints 0 0 0 2718 3450 1085"
  unfolding isa_arrays
  by (rule chunk_0 [THEN walk_forms_append],
      rule chunk_1 [THEN walk_forms_append],
      rule chunk_2 [THEN walk_forms_append],
      rule chunk_3 [THEN walk_forms_append],
      rule chunk_4 [THEN walk_forms_append],
      rule chunk_5 [THEN walk_forms_append],
      rule chunk_6 [THEN walk_forms_append],
      rule chunk_7 [THEN walk_forms_append],
      rule chunk_8 [THEN walk_forms_append],
      rule chunk_9 [THEN walk_forms_append],
      rule chunk_10 [THEN walk_forms_append],
      rule chunk_11 [THEN walk_forms_append],
      rule chunk_12 [THEN walk_forms_append],
      rule chunk_13 [THEN walk_forms_append],
      rule chunk_14 [THEN walk_forms_append],
      rule chunk_15 [THEN walk_forms_append],
      rule chunk_16 [THEN walk_forms_append],
      rule chunk_17 [THEN walk_forms_append],
      rule chunk_18 [THEN walk_forms_append],
      rule chunk_19 [THEN walk_forms_append],
      rule chunk_20 [THEN walk_forms_append],
      rule chunk_21 [THEN walk_forms_append],
      rule chunk_22 [THEN walk_forms_append],
      rule chunk_23 [THEN walk_forms_append],
      rule chunk_24 [THEN walk_forms_append],
      rule chunk_25 [THEN walk_forms_append],
      rule chunk_26 [THEN walk_forms_append],
      rule chunk_27 [THEN walk_forms_append],
      rule chunk_28 [THEN walk_forms_append],
      rule chunk_29 [THEN walk_forms_append],
      rule chunk_30 [THEN walk_forms_append],
      rule chunk_31 [THEN walk_forms_append],
      rule chunk_32 [THEN walk_forms_append],
      rule chunk_33 [THEN walk_forms_append],
      rule chunk_34 [THEN walk_forms_append],
      rule chunk_35 [THEN walk_forms_append],
      rule chunk_36 [THEN walk_forms_append],
      rule chunk_37 [THEN walk_forms_append],
      rule chunk_38 [THEN walk_forms_append],
      rule chunk_39 [THEN walk_forms_append],
      rule chunk_40 [THEN walk_forms_append],
      rule chunk_41 [THEN walk_forms_append],
      rule chunk_42 [THEN walk_forms_append],
      rule chunk_43 [THEN walk_forms_append],
      rule chunk_44 [THEN walk_forms_append],
      rule chunk_45 [THEN walk_forms_append],
      rule chunk_46 [THEN walk_forms_append],
      rule chunk_47 [THEN walk_forms_append],
      rule chunk_48 [THEN walk_forms_append],
      rule chunk_49 [THEN walk_forms_append],
      rule chunk_50 [THEN walk_forms_append],
      rule chunk_51 [THEN walk_forms_append],
      rule chunk_52 [THEN walk_forms_append],
      rule chunk_53 [THEN walk_forms_append],
      rule chunk_54 [THEN walk_forms_append],
      rule chunk_55 [THEN walk_forms_append],
      rule chunk_56 [THEN walk_forms_append],
      rule chunk_57 [THEN walk_forms_append],
      rule chunk_58 [THEN walk_forms_append],
      rule chunk_59 [THEN walk_forms_append],
      rule chunk_60 [THEN walk_forms_append],
      rule chunk_61 [THEN walk_forms_append],
      rule chunk_62 [THEN walk_forms_append],
      rule chunk_63 [THEN walk_forms_append],
      rule chunk_64 [THEN walk_forms_append],
      rule chunk_65 [THEN walk_forms_append],
      rule chunk_66 [THEN walk_forms_append],
      rule chunk_67 [THEN walk_forms_append],
      rule chunk_68 [THEN walk_forms_append],
      rule chunk_69 [THEN walk_forms_append],
      rule chunk_70 [THEN walk_forms_append],
      rule chunk_71 [THEN walk_forms_append],
      rule chunk_72 [THEN walk_forms_append],
      rule chunk_73 [THEN walk_forms_append],
      rule chunk_74 [THEN walk_forms_append],
      rule chunk_75 [THEN walk_forms_append],
      rule chunk_76 [THEN walk_forms_append],
      rule chunk_77 [THEN walk_forms_append],
      rule chunk_78 [THEN walk_forms_append],
      rule chunk_79 [THEN walk_forms_append],
      rule chunk_80 [THEN walk_forms_append],
      rule chunk_81 [THEN walk_forms_append],
      rule chunk_82 [THEN walk_forms_append],
      rule chunk_83 [THEN walk_forms_append],
      rule chunk_84 [THEN walk_forms_append],
      rule chunk_85 [THEN walk_forms_append],
      rule chunk_86 [THEN walk_forms_append],
      rule chunk_87 [THEN walk_forms_append],
      rule chunk_88)

lemma isa_form_count: "length isa_kForms = 794"
  by (simp add: isa_kForms_def)


end
