(* ===== verification/Isa_Length_Rule.thy ===== *)
theory Isa_Length_Rule
  imports Disasm Isa_Tables
begin

text \<open>
  The length of a shipped instruction: every form of \<^verbatim>\<open>src/isa/generated_tables.cpp\<close> is checked against the
  rule by which the reference executor fetches (\<open>follows_rule\<close> of theory \<open>Disasm\<close>), chunk by chunk, and
  the disassembler's search over four lengths is shown to agree with that rule.
\<close>

section \<open>The forms and the rule\<close>

lemma rule_0: "list_all follows_rule kForms_0"
  by (simp add: kForms_0_def fixes_length_def)

lemma rule_1: "list_all follows_rule kForms_1"
  by (simp add: kForms_1_def fixes_length_def)

lemma rule_2: "list_all follows_rule kForms_2"
  by (simp add: kForms_2_def fixes_length_def)

lemma rule_3: "list_all follows_rule kForms_3"
  by (simp add: kForms_3_def fixes_length_def)

lemma rule_4: "list_all follows_rule kForms_4"
  by (simp add: kForms_4_def fixes_length_def)

lemma rule_5: "list_all follows_rule kForms_5"
  by (simp add: kForms_5_def fixes_length_def)

lemma rule_6: "list_all follows_rule kForms_6"
  by (simp add: kForms_6_def fixes_length_def)

lemma rule_7: "list_all follows_rule kForms_7"
  by (simp add: kForms_7_def fixes_length_def)

lemma rule_8: "list_all follows_rule kForms_8"
  by (simp add: kForms_8_def fixes_length_def)

lemma rule_9: "list_all follows_rule kForms_9"
  by (simp add: kForms_9_def fixes_length_def)

lemma rule_10: "list_all follows_rule kForms_10"
  by (simp add: kForms_10_def fixes_length_def)

lemma rule_11: "list_all follows_rule kForms_11"
  by (simp add: kForms_11_def fixes_length_def)

lemma rule_12: "list_all follows_rule kForms_12"
  by (simp add: kForms_12_def fixes_length_def)

lemma rule_13: "list_all follows_rule kForms_13"
  by (simp add: kForms_13_def fixes_length_def)

lemma rule_14: "list_all follows_rule kForms_14"
  by (simp add: kForms_14_def fixes_length_def)

lemma rule_15: "list_all follows_rule kForms_15"
  by (simp add: kForms_15_def fixes_length_def)

lemma rule_16: "list_all follows_rule kForms_16"
  by (simp add: kForms_16_def fixes_length_def)

lemma rule_17: "list_all follows_rule kForms_17"
  by (simp add: kForms_17_def fixes_length_def)

lemma rule_18: "list_all follows_rule kForms_18"
  by (simp add: kForms_18_def fixes_length_def)

lemma rule_19: "list_all follows_rule kForms_19"
  by (simp add: kForms_19_def fixes_length_def)

lemma rule_20: "list_all follows_rule kForms_20"
  by (simp add: kForms_20_def fixes_length_def)

lemma rule_21: "list_all follows_rule kForms_21"
  by (simp add: kForms_21_def fixes_length_def)

lemma rule_22: "list_all follows_rule kForms_22"
  by (simp add: kForms_22_def fixes_length_def)

lemma rule_23: "list_all follows_rule kForms_23"
  by (simp add: kForms_23_def fixes_length_def)

lemma rule_24: "list_all follows_rule kForms_24"
  by (simp add: kForms_24_def fixes_length_def)

lemma rule_25: "list_all follows_rule kForms_25"
  by (simp add: kForms_25_def fixes_length_def call_mask_def call_match_def)

lemma rule_26: "list_all follows_rule kForms_26"
  by (simp add: kForms_26_def fixes_length_def)

lemma rule_27: "list_all follows_rule kForms_27"
  by (simp add: kForms_27_def fixes_length_def)

lemma rule_28: "list_all follows_rule kForms_28"
  by (simp add: kForms_28_def fixes_length_def)

lemma rule_29: "list_all follows_rule kForms_29"
  by (simp add: kForms_29_def fixes_length_def)

lemma rule_30: "list_all follows_rule kForms_30"
  by (simp add: kForms_30_def fixes_length_def)

lemma rule_31: "list_all follows_rule kForms_31"
  by (simp add: kForms_31_def fixes_length_def)

lemma rule_32: "list_all follows_rule kForms_32"
  by (simp add: kForms_32_def fixes_length_def)

lemma rule_33: "list_all follows_rule kForms_33"
  by (simp add: kForms_33_def fixes_length_def)

lemma rule_34: "list_all follows_rule kForms_34"
  by (simp add: kForms_34_def fixes_length_def)

lemma rule_35: "list_all follows_rule kForms_35"
  by (simp add: kForms_35_def fixes_length_def)

lemma rule_36: "list_all follows_rule kForms_36"
  by (simp add: kForms_36_def fixes_length_def)

lemma rule_37: "list_all follows_rule kForms_37"
  by (simp add: kForms_37_def fixes_length_def)

lemma rule_38: "list_all follows_rule kForms_38"
  by (simp add: kForms_38_def fixes_length_def)

lemma rule_39: "list_all follows_rule kForms_39"
  by (simp add: kForms_39_def fixes_length_def)

lemma rule_40: "list_all follows_rule kForms_40"
  by (simp add: kForms_40_def fixes_length_def)

lemma rule_41: "list_all follows_rule kForms_41"
  by (simp add: kForms_41_def fixes_length_def)

lemma rule_42: "list_all follows_rule kForms_42"
  by (simp add: kForms_42_def fixes_length_def)

lemma rule_43: "list_all follows_rule kForms_43"
  by (simp add: kForms_43_def fixes_length_def)

lemma rule_44: "list_all follows_rule kForms_44"
  by (simp add: kForms_44_def fixes_length_def)

lemma rule_45: "list_all follows_rule kForms_45"
  by (simp add: kForms_45_def fixes_length_def)

lemma rule_46: "list_all follows_rule kForms_46"
  by (simp add: kForms_46_def fixes_length_def)

lemma rule_47: "list_all follows_rule kForms_47"
  by (simp add: kForms_47_def fixes_length_def)

lemma rule_48: "list_all follows_rule kForms_48"
  by (simp add: kForms_48_def fixes_length_def)

lemma rule_49: "list_all follows_rule kForms_49"
  by (simp add: kForms_49_def fixes_length_def)

lemma rule_50: "list_all follows_rule kForms_50"
  by (simp add: kForms_50_def fixes_length_def)

lemma rule_51: "list_all follows_rule kForms_51"
  by (simp add: kForms_51_def fixes_length_def)

lemma rule_52: "list_all follows_rule kForms_52"
  by (simp add: kForms_52_def fixes_length_def)

lemma rule_53: "list_all follows_rule kForms_53"
  by (simp add: kForms_53_def fixes_length_def)

lemma rule_54: "list_all follows_rule kForms_54"
  by (simp add: kForms_54_def fixes_length_def)

lemma rule_55: "list_all follows_rule kForms_55"
  by (simp add: kForms_55_def fixes_length_def)

lemma rule_56: "list_all follows_rule kForms_56"
  by (simp add: kForms_56_def fixes_length_def)

lemma rule_57: "list_all follows_rule kForms_57"
  by (simp add: kForms_57_def fixes_length_def)

lemma rule_58: "list_all follows_rule kForms_58"
  by (simp add: kForms_58_def fixes_length_def)

lemma rule_59: "list_all follows_rule kForms_59"
  by (simp add: kForms_59_def fixes_length_def)

lemma rule_60: "list_all follows_rule kForms_60"
  by (simp add: kForms_60_def fixes_length_def)

lemma rule_61: "list_all follows_rule kForms_61"
  by (simp add: kForms_61_def fixes_length_def)

lemma rule_62: "list_all follows_rule kForms_62"
  by (simp add: kForms_62_def fixes_length_def)

lemma rule_63: "list_all follows_rule kForms_63"
  by (simp add: kForms_63_def fixes_length_def)

lemma rule_64: "list_all follows_rule kForms_64"
  by (simp add: kForms_64_def fixes_length_def)

lemma rule_65: "list_all follows_rule kForms_65"
  by (simp add: kForms_65_def fixes_length_def)

lemma rule_66: "list_all follows_rule kForms_66"
  by (simp add: kForms_66_def fixes_length_def)

lemma rule_67: "list_all follows_rule kForms_67"
  by (simp add: kForms_67_def fixes_length_def)

lemma rule_68: "list_all follows_rule kForms_68"
  by (simp add: kForms_68_def fixes_length_def)

lemma rule_69: "list_all follows_rule kForms_69"
  by (simp add: kForms_69_def fixes_length_def)

lemma rule_70: "list_all follows_rule kForms_70"
  by (simp add: kForms_70_def fixes_length_def)

lemma rule_71: "list_all follows_rule kForms_71"
  by (simp add: kForms_71_def fixes_length_def)

lemma rule_72: "list_all follows_rule kForms_72"
  by (simp add: kForms_72_def fixes_length_def)

lemma rule_73: "list_all follows_rule kForms_73"
  by (simp add: kForms_73_def fixes_length_def)

lemma rule_74: "list_all follows_rule kForms_74"
  by (simp add: kForms_74_def fixes_length_def)

lemma rule_75: "list_all follows_rule kForms_75"
  by (simp add: kForms_75_def fixes_length_def)

lemma rule_76: "list_all follows_rule kForms_76"
  by (simp add: kForms_76_def fixes_length_def)

lemma rule_77: "list_all follows_rule kForms_77"
  by (simp add: kForms_77_def fixes_length_def)

lemma rule_78: "list_all follows_rule kForms_78"
  by (simp add: kForms_78_def fixes_length_def)

lemma rule_79: "list_all follows_rule kForms_79"
  by (simp add: kForms_79_def fixes_length_def)

lemma rule_80: "list_all follows_rule kForms_80"
  by (simp add: kForms_80_def fixes_length_def)

lemma rule_81: "list_all follows_rule kForms_81"
  by (simp add: kForms_81_def fixes_length_def)

lemma rule_82: "list_all follows_rule kForms_82"
  by (simp add: kForms_82_def fixes_length_def)

lemma rule_83: "list_all follows_rule kForms_83"
  by (simp add: kForms_83_def fixes_length_def)

lemma rule_84: "list_all follows_rule kForms_84"
  by (simp add: kForms_84_def fixes_length_def)

lemma rule_85: "list_all follows_rule kForms_85"
  by (simp add: kForms_85_def fixes_length_def)

lemma rule_86: "list_all follows_rule kForms_86"
  by (simp add: kForms_86_def fixes_length_def)

lemma rule_87: "list_all follows_rule kForms_87"
  by (simp add: kForms_87_def fixes_length_def)

lemma rule_88: "list_all follows_rule kForms_88"
  by (simp add: kForms_88_def fixes_length_def)

lemmas isa_rules =
  rule_0 rule_1 rule_2 rule_3 rule_4 rule_5 rule_6 rule_7 rule_8 rule_9 rule_10 rule_11 rule_12
  rule_13 rule_14 rule_15 rule_16 rule_17 rule_18 rule_19 rule_20 rule_21 rule_22 rule_23 rule_24
  rule_25 rule_26 rule_27 rule_28 rule_29 rule_30 rule_31 rule_32 rule_33 rule_34 rule_35 rule_36
  rule_37 rule_38 rule_39 rule_40 rule_41 rule_42 rule_43 rule_44 rule_45 rule_46 rule_47 rule_48
  rule_49 rule_50 rule_51 rule_52 rule_53 rule_54 rule_55 rule_56 rule_57 rule_58 rule_59 rule_60
  rule_61 rule_62 rule_63 rule_64 rule_65 rule_66 rule_67 rule_68 rule_69 rule_70 rule_71 rule_72
  rule_73 rule_74 rule_75 rule_76 rule_77 rule_78 rule_79 rule_80 rule_81 rule_82 rule_83 rule_84
  rule_85 rule_86 rule_87 rule_88

lemma isa_forms_follow_rule: "list_all follows_rule (kForms isa_tables)"
  by (simp only: isa_tables_def codec_tables.simps isa_kForms_def list_all_append isa_rules simp_thms)

section \<open>The disassembler and the executor\<close>

text \<open>C33: over the shipped tables and for all bytes that do not begin with an \<open>HL.BSTART CALL\<close>, the
  disassembler's search over all four lengths finds exactly what decoding the one length of the
  executor's rule finds: the same packet, length and bits, or nothing when that decode fails or the bytes
  are too few.\<close>
theorem disassembler_agrees_with_length_rule:
  assumes "bytes \<noteq> []" and "\<not> call_word bytes"
  shows "decode_best isa_tables bytes =
    (let n = fetch_length (hd bytes); w = pack_little_endian bytes n
     in if length bytes < n \<or> fst (decode_minst_packed isa_tables w (int (n * 8)) minst_default) \<noteq> CS_Ok then None
        else Some \<lparr>dc_inst = snd (decode_minst_packed isa_tables w (int (n * 8)) minst_default),
          dc_length_bits = int (n * 8), dc_bits = w\<rparr>)"
  by (rule decode_best_length_rule [OF isa_forms_follow_rule assms])

text \<open>Three bytes of a 32-bit instruction: no form of any length is found in them.\<close>
theorem disassembler_agrees_with_length_rule_witness:
  "decode_best isa_tables [0x95, 0x81, 0x30] = None"
proof -
  have "fetch_length 0x95 = 4" by code_simp
  with disassembler_agrees_with_length_rule [of "[0x95, 0x81, 0x30]"] show ?thesis
    by (simp add: call_word_def Let_def)
qed

end
